(* ===== verification/ExhyPrelude.thy ===== *)
theory ExhyPrelude
  imports Main "HOL-Library.Word" "HOL-Library.Sublist"
begin

text \<open>
  What every component of the model shares: the machine types, the faults a C++ operation
  can run into (undefined behaviour, a failed EXHY_ASSERT, an exception that is thrown), a
  bind for results that may be such a fault, and the list lemmas about block copies.
\<close>

unbundle bit_operations_syntax

section \<open>Machine types and faults\<close>

type_synonym byte = "8 word"
type_synonym u16 = "16 word"
type_synonym u32 = "32 word"
type_synonym u64 = "64 word"

text \<open>
  A fault is what ends the normal flow of an operation. \<open>NullDeref\<close>, \<open>DivByZero\<close>,
  \<open>EndDeref\<close>, \<open>OutOfBounds\<close>, \<open>NoReturn\<close>, \<open>NegativeCount\<close>, \<open>BadShift\<close> and \<open>SignedOverflow\<close> stand for
  undefined behaviour of the source; \<open>EmptyCall\<close> for std::bad_function_call; \<open>OutOfRange\<close>, \<open>LengthError\<close>, \<open>LogicError\<close> and
  \<open>InvalidArgument\<close> for the standard exceptions of these names; \<open>AssertFailed\<close> for EXHY_ASSERT.
\<close>

datatype fault =
    NullDeref
  | DivByZero
  | EndDeref
  | OutOfBounds
  | NoReturn
  | NegativeCount
  | BadShift
  | SignedOverflow
  | EmptyCall
  | OutOfRange
  | LengthError
  | LogicError
  | InvalidArgument
  | AssertFailed

type_synonym 'a res = "fault + 'a"

section \<open>Sequencing results\<close>

definition sbind :: "'e + 'a \<Rightarrow> ('a \<Rightarrow> 'e + 'b) \<Rightarrow> 'e + 'b" where
  "sbind m f = (case m of Inl e \<Rightarrow> Inl e | Inr x \<Rightarrow> f x)"

lemma sbind_Inl [simp]: "sbind (Inl e) f = Inl e"
  by (simp add: sbind_def)

lemma sbind_Inr [simp]: "sbind (Inr x) f = f x"
  by (simp add: sbind_def)

lemma sbind_eq_InrE:
  assumes "sbind m f = Inr y"
  obtains x where "m = Inr x" "f x = Inr y"
  using assms by (cases m) auto

lemma sbind_cong [fundef_cong]:
  assumes "m = m'" "\<And>x. m' = Inr x \<Longrightarrow> f x = g x"
  shows "sbind m f = sbind m' g"
  using assms by (cases m') (auto simp: sbind_def)

section \<open>Blocks of a flat buffer\<close>

text \<open>\<open>overwrite p bs xs\<close> is \<open>xs\<close> after a memcpy of \<open>bs\<close> to offset \<open>p\<close>.\<close>

definition overwrite :: "nat \<Rightarrow> 'a list \<Rightarrow> 'a list \<Rightarrow> 'a list" where
  "overwrite p bs xs = take p xs @ bs @ drop (p + length bs) xs"

text \<open>\<open>block_at p n xs\<close> is what a memcpy of \<open>n\<close> elements from offset \<open>p\<close> reads.\<close>

definition block_at :: "nat \<Rightarrow> nat \<Rightarrow> 'a list \<Rightarrow> 'a list" where
  "block_at p n xs = take n (drop p xs)"

lemma length_overwrite [simp]:
  "p + length bs \<le> length xs \<Longrightarrow> length (overwrite p bs xs) = length xs"
  by (simp add: overwrite_def)

lemma overwrite_Nil [simp]: "overwrite p [] xs = xs"
  by (simp add: overwrite_def)

lemma overwrite_append:
  "p + length bs \<le> length xs \<Longrightarrow> overwrite (p + length bs) cs (overwrite p bs xs) = overwrite p (bs @ cs) xs"
  by (simp add: overwrite_def ac_simps)

lemma overwrite_left:
  "p + length bs \<le> length xs \<Longrightarrow> overwrite p bs (xs @ ys) = overwrite p bs xs @ ys"
  by (simp add: overwrite_def)

lemma overwrite_right:
  "overwrite (length xs + p) bs (xs @ ys) = xs @ overwrite p bs ys"
  by (simp add: overwrite_def add.assoc)

lemma length_block_at [simp]: "length (block_at p n xs) = min n (length xs - p)"
  by (simp add: block_at_def min.commute)

lemma block_at_0 [simp]: "block_at p 0 xs = []"
  by (simp add: block_at_def)

lemma block_at_add: "block_at p (m + n) xs = block_at p m xs @ block_at (p + m) n xs"
  by (simp add: block_at_def take_add add.commute)

lemma block_at_left: "p + n \<le> length xs \<Longrightarrow> block_at p n (xs @ ys) = block_at p n xs"
  by (simp add: block_at_def)

lemma block_at_right: "block_at (length xs + p) n (xs @ ys) = block_at p n ys"
  by (simp add: block_at_def)

lemma block_at_overwrite_same:
  "p + length bs \<le> length xs \<Longrightarrow> block_at p (length bs) (overwrite p bs xs) = bs"
  by (simp add: block_at_def overwrite_def)

lemma block_at_overwrite_within:
  assumes "p + length (as @ bs @ cs) \<le> length xs"
  shows "block_at (p + length as) (length bs) (overwrite p (as @ bs @ cs) xs) = bs"
proof -
  have "length (take p xs) = p" using assms by simp
  then show ?thesis by (simp add: block_at_def overwrite_def)
qed

lemma take_overwrite_end:
  "p + length bs \<le> length xs \<Longrightarrow> take (p + length bs) (overwrite p bs xs) = take p xs @ bs"
  by (simp add: overwrite_def)

lemma nth_block_at: "i < n \<Longrightarrow> p + n \<le> length xs \<Longrightarrow> block_at p n xs ! i = xs ! (p + i)"
  by (simp add: block_at_def)

section \<open>Nodes of equal size\<close>

text \<open>A list of blocks that all have \<open>b\<close> elements, read as one flat buffer.\<close>

definition blocks :: "nat \<Rightarrow> 'a list list \<Rightarrow> bool" where
  "blocks b xss \<longleftrightarrow> (\<forall>xs \<in> set xss. length xs = b)"

lemma blocks_Nil [simp]: "blocks b []"
  by (simp add: blocks_def)

lemma blocks_Cons [simp]: "blocks b (xs # xss) \<longleftrightarrow> length xs = b \<and> blocks b xss"
  by (auto simp: blocks_def)

lemma blocks_append [simp]: "blocks b (xss @ yss) \<longleftrightarrow> blocks b xss \<and> blocks b yss"
  by (auto simp: blocks_def)

lemma blocks_nth: "blocks b xss \<Longrightarrow> k < length xss \<Longrightarrow> length (xss ! k) = b"
  by (simp add: blocks_def)

lemma blocks_update: "blocks b xss \<Longrightarrow> length xs = b \<Longrightarrow> blocks b (xss[k := xs])"
  using set_update_subset_insert [of xss k xs] by (auto simp: blocks_def)

lemma length_concat_blocks: "blocks b xss \<Longrightarrow> length (concat xss) = b * length xss"
  by (induction xss) auto

lemma concat_split_nth:
  assumes "k < length xss"
  shows "concat xss = concat (take k xss) @ xss ! k @ concat (drop (Suc k) xss)"
proof -
  have "xss = take k xss @ xss ! k # drop (Suc k) xss"
    using assms by (simp add: id_take_nth_drop)
  then have "concat xss = concat (take k xss @ xss ! k # drop (Suc k) xss)" by (rule arg_cong)
  then show ?thesis by simp
qed

lemma blocks_take: "blocks b xss \<Longrightarrow> blocks b (take k xss)"
  by (auto simp: blocks_def dest: in_set_takeD)

lemma length_concat_take_blocks:
  "blocks b xss \<Longrightarrow> k \<le> length xss \<Longrightarrow> length (concat (take k xss)) = b * k"
  using length_concat_blocks [OF blocks_take] by (fastforce simp: min_def)

text \<open>Copying into, and out of, one block is copying into, and out of, the flat buffer.\<close>

lemma concat_overwrite_block:
  assumes "blocks b xss" "k < length xss" "p + length bs \<le> b"
  shows "concat (xss[k := overwrite p bs (xss ! k)]) = overwrite (b * k + p) bs (concat xss)"
proof -
  let ?l = "concat (take k xss)" and ?r = "concat (drop (Suc k) xss)"
  have ll: "length ?l = b * k"
    using assms(1,2) by (simp add: length_concat_take_blocks)
  have len: "length (xss ! k) = b"
    using assms(1,2) by (rule blocks_nth)
  have "concat (xss[k := overwrite p bs (xss ! k)]) = ?l @ overwrite p bs (xss ! k) @ ?r"
    using assms(2) by (simp add: upd_conv_take_nth_drop)
  also have "\<dots> = ?l @ overwrite p bs (xss ! k @ ?r)"
    using assms(3) len by (simp add: overwrite_left)
  also have "\<dots> = overwrite (b * k + p) bs (?l @ xss ! k @ ?r)"
    by (simp add: ll [symmetric] overwrite_right)
  finally show ?thesis
    using assms(2) by (simp add: concat_split_nth [symmetric])
qed

lemma block_at_block:
  assumes "blocks b xss" "k < length xss" "p + n \<le> b"
  shows "block_at p n (xss ! k) = block_at (b * k + p) n (concat xss)"
proof -
  let ?l = "concat (take k xss)" and ?r = "concat (drop (Suc k) xss)"
  have ll: "length ?l = b * k"
    using assms(1,2) by (simp add: length_concat_take_blocks)
  have len: "length (xss ! k) = b"
    using assms(1,2) by (rule blocks_nth)
  have "block_at (b * k + p) n (concat xss) = block_at (length ?l + p) n (?l @ xss ! k @ ?r)"
    using assms(2) by (simp add: concat_split_nth [symmetric] ll)
  also have "\<dots> = block_at p n (xss ! k)"
    using assms(3) len by (simp add: block_at_right block_at_left)
  finally show ?thesis by simp
qed

section \<open>Quotient and remainder of positions\<close>

lemma div_mod_step:
  assumes "0 < (b::nat)" "p mod b + n < b"
  shows "(p + n) div b = p div b" and "(p + n) mod b = p mod b + n"
proof -
  have "p + n = b * (p div b) + (p mod b + n)" by simp
  then show "(p + n) div b = p div b" and "(p + n) mod b = p mod b + n"
    using assms by (metis div_mult_self4 div_less add_0_right less_imp_neq neq0_conv,
                    metis mod_mult_self4 mod_less)
qed

lemma div_mod_next:
  assumes "0 < (b::nat)" "p mod b + n = b"
  shows "(p + n) div b = Suc (p div b)" and "(p + n) mod b = 0"
proof -
  have "p + n = b * Suc (p div b)"
    using assms(2) by (metis add.assoc mult_Suc_right add.commute mult_div_mod_eq)
  then show "(p + n) div b = Suc (p div b)" and "(p + n) mod b = 0"
    using assms(1) by simp_all
qed

section \<open>Counting in a list that is updated\<close>

lemma length_filter_update:
  "i < length xs \<Longrightarrow> length (filter P (xs[i := x])) + (if P (xs ! i) then 1 else 0) =
    length (filter P xs) + (if P x then 1 else 0)"
proof (induction xs arbitrary: i)
  case (Cons y ys)
  then show ?case by (cases i) auto
qed simp

lemma sum_list_map_update:
  "i < length xs \<Longrightarrow> sum_list (map f (xs[i := x])) + f (xs ! i) = sum_list (map f xs) + (f x :: nat)"
proof (induction xs arbitrary: i)
  case (Cons y ys)
  then show ?case by (cases i) (auto simp: add_ac)
qed simp

end
