(* ===== verification/Endian.thy ===== *)
theory Endian
  imports ExhyPrelude
begin

text \<open>
  Byte order (exhy/exhy_endian.h). A machine word is laid out in memory by the host; the
  three \<open>byteswap\<close> overloads (16, 32 and 64 bit) reverse the bytes of a word. The host is
  the little-endian one the code is built for, and the lemmas about memory layout hold for
  both orders.
\<close>

section \<open>Byte order of the host and of a value in memory\<close>

datatype endian = LITTLE_ENDIAN | BIG_ENDIAN

text \<open>The \<open>#if\<close> on BYTE_ORDER, for a little-endian host.\<close>

definition EXHY_BYTE_ORDER :: endian where
  "EXHY_BYTE_ORDER = LITTLE_ENDIAN"

definition le_bytes :: "'a::len word \<Rightarrow> byte list" where
  "le_bytes w = map (\<lambda>i. ucast (drop_bit (8 * i) w)) [0..<LENGTH('a) div 8]"

fun of_le_bytes :: "byte list \<Rightarrow> 'a::len word" where
  "of_le_bytes [] = 0"
| "of_le_bytes (b # bs) = ucast b OR push_bit 8 (of_le_bytes bs)"

text \<open>The object representation of a word, which is what memcpy copies.\<close>

definition mem_bytes :: "endian \<Rightarrow> 'a::len word \<Rightarrow> byte list" where
  "mem_bytes e w = (case e of LITTLE_ENDIAN \<Rightarrow> le_bytes w | BIG_ENDIAN \<Rightarrow> rev (le_bytes w))"

definition of_mem_bytes :: "endian \<Rightarrow> byte list \<Rightarrow> 'a::len word" where
  "of_mem_bytes e bs = (case e of LITTLE_ENDIAN \<Rightarrow> of_le_bytes bs | BIG_ENDIAN \<Rightarrow> of_le_bytes (rev bs))"

section \<open>byteswap\<close>

text \<open>
  The three overloads of \<open>byteswap\<close>, one per size of \<open>T\<close>: the argument is cast to the unsigned
  type, its bytes are reversed by bswap_16, bswap_32 or bswap_64, and the result is cast
  back. A cast between types of one size keeps the bits.
\<close>

definition byteswap :: "'a::len word \<Rightarrow> 'a word" where
  "byteswap value = of_le_bytes (rev (le_bytes value))"

definition byteswapOnLittleEndian :: "'a::len word \<Rightarrow> 'a word" where
  "byteswapOnLittleEndian t = (if EXHY_BYTE_ORDER = BIG_ENDIAN then t else byteswap t)"

definition byteswapOnBigEndian :: "'a::len word \<Rightarrow> 'a word" where
  "byteswapOnBigEndian t = (if EXHY_BYTE_ORDER = BIG_ENDIAN then byteswap t else t)"

section \<open>Layout lemmas\<close>

lemma length_le_bytes [simp]: "length (le_bytes (w :: 'a::len word)) = LENGTH('a) div 8"
  by (simp add: le_bytes_def)

lemma length_mem_bytes [simp]: "length (mem_bytes e (w :: 'a::len word)) = LENGTH('a) div 8"
  by (cases e) (simp_all add: mem_bytes_def)

lemma bit_of_le_bytes:
  "bit (of_le_bytes bs :: 'a::len word) j \<longleftrightarrow>
     j < LENGTH('a) \<and> j < 8 * length bs \<and> bit (bs ! (j div 8)) (j mod 8)"
proof (induction bs arbitrary: j)
  case Nil
  then show ?case by simp
next
  case (Cons b bs)
  show ?case
  proof (cases "j < 8")
    case True
    then show ?thesis
      by (auto simp: bit_or_iff bit_push_bit_iff bit_ucast_iff)
  next
    case False
    then have "j div 8 = Suc ((j - 8) div 8)" and "(j - 8) mod 8 = j mod 8"
      by (simp_all add: div_if [of 8 j] le_mod_geq)
    moreover have "\<not> bit b j"
      using False by (auto dest: bit_imp_le_length)
    ultimately show ?thesis
      using False Cons.IH [of "j - 8"]
      by (auto simp: bit_or_iff bit_push_bit_iff bit_ucast_iff)
  qed
qed

lemma bit_le_bytes:
  "i < LENGTH('a) div 8 \<Longrightarrow> k < 8 \<Longrightarrow> bit (le_bytes (w :: 'a::len word) ! i) k \<longleftrightarrow> bit w (8 * i + k)"
  by (simp add: le_bytes_def bit_ucast_iff bit_drop_bit_eq add.commute)

lemma of_le_bytes_le_bytes:
  assumes "8 dvd LENGTH('a::len)"
  shows "of_le_bytes (le_bytes (w :: 'a word)) = w"
proof (rule bit_word_eqI)
  fix j assume j: "j < LENGTH('a)"
  then have "j div 8 < LENGTH('a) div 8"
    using assms by (metis dvd_mult_div_cancel div_less_iff_less_mult mult.commute zero_less_numeral)
  then show "bit (of_le_bytes (le_bytes w) :: 'a word) j = bit w j"
    using j assms by (simp add: bit_of_le_bytes bit_le_bytes)
qed

lemma le_bytes_of_le_bytes:
  assumes "8 * length bs = LENGTH('a::len)"
  shows "le_bytes (of_le_bytes bs :: 'a word) = bs"
proof (rule nth_equalityI)
  show "length (le_bytes (of_le_bytes bs :: 'a word)) = length bs"
    using assms by (metis length_le_bytes nonzero_mult_div_cancel_left zero_neq_numeral)
next
  fix i assume "i < length (le_bytes (of_le_bytes bs :: 'a word))"
  then have i: "i < LENGTH('a) div 8" by simp
  then have i': "i < length bs" using assms by simp
  show "le_bytes (of_le_bytes bs :: 'a word) ! i = bs ! i"
  proof (rule bit_word_eqI)
    fix k assume "k < LENGTH(8)"
    then have k: "k < 8" by simp
    show "bit (le_bytes (of_le_bytes bs :: 'a word) ! i) k = bit (bs ! i) k"
      using i i' k assms by (simp add: bit_le_bytes bit_of_le_bytes)
  qed
qed

lemma of_mem_bytes_mem_bytes:
  "8 dvd LENGTH('a::len) \<Longrightarrow> of_mem_bytes e (mem_bytes e (w :: 'a word)) = w"
  by (cases e) (simp_all add: of_mem_bytes_def mem_bytes_def of_le_bytes_le_bytes)

lemma byteswap_byteswap:
  assumes "8 dvd LENGTH('a::len)"
  shows "byteswap (byteswap (w :: 'a word)) = w"
proof -
  have "8 * length (rev (le_bytes w)) = LENGTH('a)"
    using assms by simp
  then have "le_bytes (of_le_bytes (rev (le_bytes w)) :: 'a word) = rev (le_bytes w)"
    by (rule le_bytes_of_le_bytes)
  then show ?thesis
    using assms by (simp add: byteswap_def of_le_bytes_le_bytes)
qed

text \<open>
  Swapping when the wanted order is not the host's lays the value out in the wanted order,
  whatever the host.
\<close>

lemma mem_bytes_swap:
  assumes "8 dvd LENGTH('a::len)"
  shows "mem_bytes host (if e \<noteq> host then byteswap w else w :: 'a word) = mem_bytes e w"
proof -
  have "8 * length (rev (le_bytes w)) = LENGTH('a)"
    using assms by simp
  then have "le_bytes (byteswap w) = rev (le_bytes w)"
    unfolding byteswap_def by (rule le_bytes_of_le_bytes)
  then show ?thesis
    by (cases e; cases host) (simp_all add: mem_bytes_def)
qed

lemma of_mem_bytes_swap:
  assumes "8 dvd LENGTH('a::len)" "8 * length bs = LENGTH('a)"
  shows "(if e = host then of_mem_bytes host bs else byteswap (of_mem_bytes host bs) :: 'a word) = of_mem_bytes e bs"
proof -
  have "8 * length (rev bs) = LENGTH('a)" using assms(2) by simp
  then show ?thesis
    using assms(2)
    by (cases e; cases host) (simp_all add: of_mem_bytes_def byteswap_def le_bytes_of_le_bytes)
qed

text \<open>Swapping moves bits only, so it commutes with the bitwise operations.\<close>

lemma byte_index:
  assumes "8 dvd n" "j < (n::nat)"
  shows "j div 8 < n div 8" and "8 * (n div 8 - 1 - j div 8) + j mod 8 < n"
proof -
  obtain m where m: "n = 8 * m" using assms(1) by (rule dvdE)
  then show j: "j div 8 < n div 8" using assms(2) by simp
  have "j mod 8 < 8" by simp
  moreover have "n div 8 - 1 - j div 8 < m" using j m by simp
  ultimately show "8 * (n div 8 - 1 - j div 8) + j mod 8 < n" using m by linarith
qed

lemma bit_byteswap:
  assumes "8 dvd LENGTH('a::len)"
  shows "bit (byteswap (w :: 'a word)) j \<longleftrightarrow>
    j < LENGTH('a) \<and> bit w (8 * (LENGTH('a) div 8 - 1 - j div 8) + j mod 8)"
proof (cases "j < LENGTH('a)")
  case True
  let ?n = "LENGTH('a) div 8"
  have j: "j div 8 < ?n" by (rule byte_index [OF assms True])
  then have "rev (le_bytes w) ! (j div 8) = le_bytes w ! (?n - Suc (j div 8))" by (simp add: rev_nth)
  then have "bit (rev (le_bytes w) ! (j div 8)) (j mod 8) \<longleftrightarrow> bit w (8 * (?n - Suc (j div 8)) + j mod 8)"
    using j bit_le_bytes [of "?n - Suc (j div 8)" "j mod 8" w] by simp
  then show ?thesis using True assms by (simp add: byteswap_def bit_of_le_bytes)
qed (simp add: byteswap_def bit_of_le_bytes)

lemma byteswap_or:
  "8 dvd LENGTH('a::len) \<Longrightarrow> byteswap (v OR w :: 'a word) = byteswap v OR byteswap w"
  by (rule bit_word_eqI) (simp add: bit_byteswap bit_or_iff)

lemma byteswap_and:
  "8 dvd LENGTH('a::len) \<Longrightarrow> byteswap (v AND w :: 'a word) = byteswap v AND byteswap w"
  by (rule bit_word_eqI) (simp add: bit_byteswap bit_and_iff)

lemma byteswap_not:
  assumes "8 dvd LENGTH('a::len)"
  shows "byteswap (NOT w :: 'a word) = NOT (byteswap w)"
proof (rule bit_word_eqI)
  fix j assume j: "j < LENGTH('a)"
  show "bit (byteswap (NOT w)) j = bit (NOT (byteswap w)) j"
    using j byte_index(2) [OF assms j] assms by (simp add: bit_byteswap bit_not_iff)
qed

end
