(* ===== verification/ByteArray.thy ===== *)
theory ByteArray
  imports Endian
begin

text \<open>
  The storage of exhy::ByteArray (exhy/exhy_bytearray.h, exhy_bytearray.cpp): a singly linked
  list of nodes of \<open>m_baseSize\<close> bytes, a cursor (\<open>m_position\<close> and the node \<open>m_cur\<close> it lies in)
  and a size. The list that starts at \<open>m_root\<close> is \<open>m_nodes\<close>, a node pointer is its index in that
  list, and the null pointer is \<open>None\<close>. Sizes and positions are size_t; allocated memory is far
  below 2^64 bytes, so sums of them do not wrap, and where a difference can wrap
  (\<open>getReadSize\<close>) the wrap-around is written out. What \<open>new char[s]\<close> holds is not
  specified: \<open>m_heap k i\<close> is byte \<open>i\<close> of the node that becomes number \<open>k\<close>, and every lemma
  holds for all \<open>m_heap\<close>.
\<close>

section \<open>The object and its nodes\<close>

record bytearray =
  m_baseSize :: nat
  m_position :: nat
  m_capacity :: nat
  m_size :: nat
  m_endian :: endian
  m_nodes :: "byte list list"
  m_cur :: "nat option"
  m_heap :: "nat \<Rightarrow> nat \<Rightarrow> byte"

definition new_Node :: "(nat \<Rightarrow> nat \<Rightarrow> byte) \<Rightarrow> nat \<Rightarrow> nat \<Rightarrow> byte list" where
  "new_Node hp k s = map (hp k) [0..<s]"

definition new_ByteArray :: "(nat \<Rightarrow> nat \<Rightarrow> byte) \<Rightarrow> nat \<Rightarrow> bytearray" where
  "new_ByteArray hp base_size =
     \<lparr>m_baseSize = base_size, m_position = 0, m_capacity = base_size, m_size = 0,
      m_endian = BIG_ENDIAN, m_nodes = [new_Node hp 0 base_size], m_cur = Some 0, m_heap = hp\<rparr>"

text \<open>\<open>p->next\<close> and \<open>p->size\<close> of the node number \<open>k\<close>.\<close>

definition next_node :: "bytearray \<Rightarrow> nat \<Rightarrow> nat option" where
  "next_node ba k = (if Suc k < length (m_nodes ba) then Some (Suc k) else None)"

definition node_size :: "bytearray \<Rightarrow> nat \<Rightarrow> nat" where
  "node_size ba k = length (m_nodes ba ! k)"

definition isLittleEndian :: "bytearray \<Rightarrow> bool" where
  "isLittleEndian ba \<longleftrightarrow> m_endian ba = LITTLE_ENDIAN"

definition setIsLittleEndian :: "bytearray \<Rightarrow> bool \<Rightarrow> bytearray" where
  "setIsLittleEndian ba val = (if val then ba\<lparr>m_endian := LITTLE_ENDIAN\<rparr> else ba\<lparr>m_endian := BIG_ENDIAN\<rparr>)"

text \<open>\<open>m_size - m_position\<close> on size_t: it wraps when the position is past the size.\<close>

definition getReadSize :: "bytearray \<Rightarrow> nat" where
  "getReadSize ba =
     (if m_position ba \<le> m_size ba then m_size ba - m_position ba
      else 2 ^ 64 - (m_position ba - m_size ba))"

definition getCapacity :: "bytearray \<Rightarrow> nat" where
  "getCapacity ba = m_capacity ba - m_position ba"

section \<open>Capacity\<close>

text \<open>The loop that links \<open>count\<close> new nodes behind the last one.\<close>

primrec add_nodes :: "nat \<Rightarrow> bytearray \<Rightarrow> bytearray" where
  "add_nodes 0 ba = ba"
| "add_nodes (Suc count) ba =
     add_nodes count
       (ba\<lparr>m_nodes := m_nodes ba @ [new_Node (m_heap ba) (length (m_nodes ba)) (m_baseSize ba)],
           m_capacity := m_capacity ba + m_baseSize ba\<rparr>)"

text \<open>
  \<open>ceil(1.0 * size / m_baseSize)\<close> is the exact quotient rounded up for every size below 2^53,
  where the double holds \<open>size\<close> exactly. \<open>first\<close> is the first node the loop has added.
\<close>

definition addCapacity :: "bytearray \<Rightarrow> nat \<Rightarrow> bytearray" where
  "addCapacity ba sz =
     (if sz = 0 then ba
      else let old_cap = getCapacity ba in
        if sz \<le> old_cap then ba
        else let sz' = sz - old_cap;
                 count = (sz' + m_baseSize ba - 1) div m_baseSize ba;
                 first = (if count = 0 then None else Some (length (m_nodes ba)));
                 ba' = add_nodes count ba
             in if old_cap = 0 then ba'\<lparr>m_cur := first\<rparr> else ba')"

section \<open>write, read, setPosition, clear\<close>

text \<open>memcpy into node \<open>k\<close> at offset \<open>off\<close>.\<close>

definition store :: "nat \<Rightarrow> nat \<Rightarrow> byte list \<Rightarrow> bytearray \<Rightarrow> bytearray" where
  "store k off bs ba = ba\<lparr>m_nodes := (m_nodes ba)[k := overwrite off bs (m_nodes ba ! k)]\<rparr>"

text \<open>
  The loop of \<open>write\<close>. \<open>bs\<close> is the rest of the caller's buffer, from \<open>pos_buf\<close> on, and its
  length is the loop's \<open>size\<close>. Reading \<open>m_cur->size\<close> through a null \<open>m_cur\<close> is a fault.
\<close>

function write_loop :: "bytearray \<Rightarrow> nat \<Rightarrow> nat \<Rightarrow> byte list \<Rightarrow> bytearray res" where
  "write_loop ba pos_cnode cap_left bs =
     (if bs = [] then Inr ba
      else case m_cur ba of
        None \<Rightarrow> Inl NullDeref
      | Some k \<Rightarrow>
          if length bs \<le> cap_left then
            Inr ((store k pos_cnode bs ba)
                   \<lparr>m_cur := (if cap_left = length bs then next_node ba k else Some k),
                    m_position := m_position ba + length bs\<rparr>)
          else
            (case next_node ba k of
               None \<Rightarrow> Inl NullDeref
             | Some k' \<Rightarrow>
                 write_loop
                   ((store k pos_cnode (take cap_left bs) ba)
                      \<lparr>m_position := m_position ba + cap_left, m_cur := Some k'\<rparr>)
                   0 (node_size ba k') (drop cap_left bs)))"
  by pat_completeness auto
termination
  by (relation "measure (\<lambda>(ba, _, _, _). case m_cur ba of None \<Rightarrow> 0 | Some k \<Rightarrow> length (m_nodes ba) - k)")
     (auto simp: next_node_def store_def split: if_splits)

declare write_loop.simps [simp del]

definition write_ba :: "bytearray \<Rightarrow> byte list \<Rightarrow> bytearray res" where
  "write_ba ba buf =
     (if buf = [] then Inr ba
      else if m_baseSize ba = 0 then Inl DivByZero
      else let ba1 = addCapacity ba (length buf);
               pos_cnode = m_position ba1 mod m_baseSize ba1
        in case m_cur ba1 of
             None \<Rightarrow> Inl NullDeref
           | Some k \<Rightarrow>
               sbind (write_loop ba1 pos_cnode (node_size ba1 k - pos_cnode) buf)
                 (\<lambda>ba2. Inr (if m_size ba2 < m_position ba2 then ba2\<lparr>m_size := m_position ba2\<rparr> else ba2)))"

text \<open>
  The loop of \<open>read\<close>: what it appends to the caller's buffer and the new state. It compares
  neither \<open>size\<close> nor the position with \<open>m_size\<close>.
\<close>

function read_loop :: "bytearray \<Rightarrow> nat \<Rightarrow> nat \<Rightarrow> nat \<Rightarrow> (byte list \<times> bytearray) res" where
  "read_loop ba pos_cnode cap_left sz =
     (if sz = 0 then Inr ([], ba)
      else case m_cur ba of
        None \<Rightarrow> Inl NullDeref
      | Some k \<Rightarrow>
          if sz \<le> cap_left then
            Inr (block_at pos_cnode sz (m_nodes ba ! k),
                 ba\<lparr>m_cur := (if cap_left = sz then next_node ba k else Some k),
                    m_position := m_position ba + sz\<rparr>)
          else
            (case next_node ba k of
               None \<Rightarrow> Inl NullDeref
             | Some k' \<Rightarrow>
                 sbind (read_loop (ba\<lparr>m_position := m_position ba + cap_left, m_cur := Some k'\<rparr>)
                          0 (node_size ba k') (sz - cap_left))
                   (\<lambda>(bs, ba'). Inr (block_at pos_cnode cap_left (m_nodes ba ! k) @ bs, ba'))))"
  by pat_completeness auto
termination
  by (relation "measure (\<lambda>(ba, _, _, _). case m_cur ba of None \<Rightarrow> 0 | Some k \<Rightarrow> length (m_nodes ba) - k)")
     (auto simp: next_node_def split: if_splits)

declare read_loop.simps [simp del]

definition read_ba :: "bytearray \<Rightarrow> nat \<Rightarrow> (byte list \<times> bytearray) res" where
  "read_ba ba sz =
     (if m_baseSize ba = 0 then Inl DivByZero
      else let pos_cnode = m_position ba mod m_baseSize ba
        in case m_cur ba of
             None \<Rightarrow> Inl NullDeref
           | Some k \<Rightarrow> read_loop ba pos_cnode (node_size ba k - pos_cnode) sz)"

text \<open>The walk of \<open>setPosition\<close> from \<open>m_root\<close>: the node reached and what is left of \<open>v\<close>.\<close>

function seek_loop :: "bytearray \<Rightarrow> nat option \<Rightarrow> nat \<Rightarrow> (nat \<times> nat) res" where
  "seek_loop ba cur v =
     (case cur of
        None \<Rightarrow> Inl NullDeref
      | Some k \<Rightarrow>
          if node_size ba k < v then seek_loop ba (next_node ba k) (v - node_size ba k)
          else Inr (k, v))"
  by pat_completeness auto
termination
  by (relation "measure (\<lambda>(ba, cur, _). case cur of None \<Rightarrow> 0 | Some k \<Rightarrow> Suc (length (m_nodes ba) - k))")
     (auto simp: next_node_def split: if_splits)

declare seek_loop.simps [simp del]

definition setPosition :: "bytearray \<Rightarrow> nat \<Rightarrow> bytearray res" where
  "setPosition ba v =
     (if m_capacity ba < v then Inl OutOfRange
      else let ba1 = ba\<lparr>m_position := v\<rparr>;
               ba2 = (if m_size ba1 < m_position ba1 then ba1\<lparr>m_size := m_position ba1\<rparr> else ba1)
        in sbind (seek_loop ba2 (Some 0) v)
             (\<lambda>(k, v'). Inr (ba2\<lparr>m_cur := (if v' = node_size ba2 k then next_node ba2 k else Some k)\<rparr>)))"

definition clear :: "bytearray \<Rightarrow> bytearray" where
  "clear ba =
     ba\<lparr>m_position := 0, m_size := 0, m_capacity := m_baseSize ba,
        m_nodes := take 1 (m_nodes ba), m_cur := Some 0\<rparr>"

section \<open>Invariant\<close>

text \<open>The bytes of all nodes in order: the memory the object manages.\<close>

definition mem :: "bytearray \<Rightarrow> byte list" where
  "mem ba = concat (m_nodes ba)"

text \<open>The node that holds position \<open>p\<close> when there are \<open>n\<close> nodes of \<open>b\<close> bytes; none at the very end.\<close>

definition cur_at :: "nat \<Rightarrow> nat \<Rightarrow> nat \<Rightarrow> nat option" where
  "cur_at b n p = (if p div b < n then Some (p div b) else None)"

definition wf_nodes :: "bytearray \<Rightarrow> bool" where
  "wf_nodes ba \<longleftrightarrow>
     0 < m_baseSize ba \<and> m_nodes ba \<noteq> [] \<and> blocks (m_baseSize ba) (m_nodes ba) \<and>
     m_capacity ba = m_baseSize ba * length (m_nodes ba)"

definition wf :: "bytearray \<Rightarrow> bool" where
  "wf ba \<longleftrightarrow>
     wf_nodes ba \<and> m_position ba \<le> m_capacity ba \<and> m_size ba \<le> m_capacity ba \<and>
     m_cur ba = cur_at (m_baseSize ba) (length (m_nodes ba)) (m_position ba)"

lemma wf_new: "0 < b \<Longrightarrow> wf (new_ByteArray hp b)"
  by (simp add: wf_def wf_nodes_def new_ByteArray_def new_Node_def cur_at_def)

lemma length_mem: "wf ba \<Longrightarrow> length (mem ba) = m_capacity ba"
  by (simp add: wf_def wf_nodes_def mem_def length_concat_blocks)

lemma wf_curD:
  assumes "wf ba" "m_cur ba = Some k"
  shows "k < length (m_nodes ba)" and "m_position ba = m_baseSize ba * k + m_position ba mod m_baseSize ba"
    and "node_size ba k = m_baseSize ba"
  using assms by (auto simp: wf_def wf_nodes_def cur_at_def node_size_def blocks_nth split: if_splits)

text \<open>The cursor is in a node exactly when there is room behind it.\<close>

lemma wf_cur_iff: "wf ba \<Longrightarrow> (\<exists>k. m_cur ba = Some k) \<longleftrightarrow> m_position ba < m_capacity ba"
  by (auto simp: wf_def wf_nodes_def cur_at_def div_less_iff_less_mult mult.commute)

lemma cur_at_exact: "0 < b \<Longrightarrow> cur_at b n (b * k) = (if k < n then Some k else None)"
  by (simp add: cur_at_def)

subsection \<open>Capacity\<close>

lemma add_nodes_simps [simp]:
  "m_baseSize (add_nodes c ba) = m_baseSize ba" "m_position (add_nodes c ba) = m_position ba"
  "m_size (add_nodes c ba) = m_size ba" "m_endian (add_nodes c ba) = m_endian ba"
  "m_cur (add_nodes c ba) = m_cur ba"
  "m_capacity (add_nodes c ba) = m_capacity ba + c * m_baseSize ba"
  by (induction c arbitrary: ba) auto

lemma add_nodes_nodes:
  "\<exists>ns. m_nodes (add_nodes c ba) = m_nodes ba @ ns \<and> length ns = c \<and> blocks (m_baseSize ba) ns"
proof (induction c arbitrary: ba)
  case 0
  then show ?case by simp
next
  case (Suc c)
  let ?n = "new_Node (m_heap ba) (length (m_nodes ba)) (m_baseSize ba)"
  obtain ns where "m_nodes (add_nodes (Suc c) ba) = (m_nodes ba @ [?n]) @ ns" "length ns = c"
    "blocks (m_baseSize ba) ns"
    using Suc [of "ba\<lparr>m_nodes := m_nodes ba @ [?n], m_capacity := m_capacity ba + m_baseSize ba\<rparr>"] by auto
  then show ?case
    by (intro exI [of _ "?n # ns"]) (simp add: new_Node_def)
qed

lemma ceil_div:
  assumes "0 < (b::nat)"
  shows "n \<le> (n + b - 1) div b * b"
proof -
  have "(n + b - 1) div b * b + (n + b - 1) mod b = n + b - 1" by simp
  moreover have "(n + b - 1) mod b \<le> b - 1"
    using assms by (metis Suc_pred' less_Suc_eq_le mod_less_divisor)
  ultimately show ?thesis using assms by linarith
qed

text \<open>
  addCapacity only appends nodes: the cursor, the size and every byte stay, and there is room
  for the bytes asked for.
\<close>

lemma addCapacity_spec:
  assumes "wf ba"
  shows "wf (addCapacity ba n) \<and> (\<exists>j. mem (addCapacity ba n) = mem ba @ j) \<and>
    m_position (addCapacity ba n) = m_position ba \<and> m_size (addCapacity ba n) = m_size ba \<and>
    m_endian (addCapacity ba n) = m_endian ba \<and> m_baseSize (addCapacity ba n) = m_baseSize ba \<and>
    m_capacity ba \<le> m_capacity (addCapacity ba n) \<and>
    m_position ba + n \<le> m_capacity (addCapacity ba n)"
proof (cases "n \<le> getCapacity ba")
  case True
  then show ?thesis
    using assms by (auto simp: addCapacity_def Let_def getCapacity_def wf_def)
next
  case False
  define c where "c = (n - getCapacity ba + m_baseSize ba - 1) div m_baseSize ba"
  obtain ns where ns: "m_nodes (add_nodes c ba) = m_nodes ba @ ns" "length ns = c"
    "blocks (m_baseSize ba) ns"
    using add_nodes_nodes by blast
  have b: "0 < m_baseSize ba" using assms by (simp add: wf_def wf_nodes_def)
  have c: "n - getCapacity ba \<le> c * m_baseSize ba"
    unfolding c_def using b by (rule ceil_div)
  then have c0: "0 < c" using False by (cases c) auto
  have eq: "addCapacity ba n =
      (if getCapacity ba = 0 then (add_nodes c ba)\<lparr>m_cur := Some (length (m_nodes ba))\<rparr> else add_nodes c ba)"
    using False c0 by (auto simp: addCapacity_def Let_def c_def)
  have cur: "m_position ba = m_capacity ba \<or> m_position ba < m_capacity ba"
    using assms by (auto simp: wf_def)
  have wfa: "wf (addCapacity ba n)"
  proof (cases "getCapacity ba = 0")
    case True
    then have "m_position ba = m_baseSize ba * length (m_nodes ba)"
      using assms by (auto simp: wf_def wf_nodes_def getCapacity_def)
    then show ?thesis
      using assms ns c0 True b
      by (auto simp: eq wf_def wf_nodes_def algebra_simps cur_at_exact [OF b])
  next
    case nz: False
    then have "m_position ba div m_baseSize ba < length (m_nodes ba)"
      using assms by (auto simp: wf_def wf_nodes_def getCapacity_def div_less_iff_less_mult mult.commute)
    then show ?thesis
      using assms ns nz
      by (auto simp: eq wf_def wf_nodes_def algebra_simps cur_at_def)
  qed
  have "n + m_position ba \<le> m_capacity ba + c * m_baseSize ba"
    using c False assms by (simp add: getCapacity_def wf_def)
  then show ?thesis
    using wfa ns by (auto simp: eq mem_def add.commute)
qed

subsection \<open>The copy loops\<close>

lemma store_simps [simp]:
  "m_baseSize (store k off bs ba) = m_baseSize ba" "m_position (store k off bs ba) = m_position ba"
  "m_size (store k off bs ba) = m_size ba" "m_endian (store k off bs ba) = m_endian ba"
  "m_cur (store k off bs ba) = m_cur ba" "m_capacity (store k off bs ba) = m_capacity ba"
  "length (m_nodes (store k off bs ba)) = length (m_nodes ba)"
  by (simp_all add: store_def)

lemma store_mem:
  assumes "blocks (m_baseSize ba) (m_nodes ba)" "k < length (m_nodes ba)" "off + length bs \<le> m_baseSize ba"
  shows "mem (store k off bs ba) = overwrite (m_baseSize ba * k + off) bs (mem ba)"
    and "blocks (m_baseSize ba) (m_nodes (store k off bs ba))"
  using assms
  by (simp_all add: store_def mem_def concat_overwrite_block blocks_update blocks_nth)

lemma cur_at_last:
  assumes "0 < b" "k < n" "off + m \<le> b" "off < b"
  shows "(if b - off = m then (if Suc k < n then Some (Suc k) else None) else Some k) = cur_at b n (b * k + off + m)"
proof (cases "off + m = b")
  case True
  then have "b * k + off + m = b * Suc k" and "b - off = m" by simp_all
  then show ?thesis by (simp only: cur_at_exact [OF assms(1)] refl if_True)
next
  case False
  then have "(b * k + (off + m)) div b = k" using assms by simp
  then show ?thesis using assms False by (auto simp: cur_at_def add.assoc)
qed

lemma write_loop_spec:
  assumes "wf_nodes ba" "m_cur ba = Some k" "k < length (m_nodes ba)"
    "m_position ba = m_baseSize ba * k + off" "off < m_baseSize ba"
    "m_position ba + length bs \<le> m_capacity ba" "bs \<noteq> []"
  shows "\<exists>N. write_loop ba off (m_baseSize ba - off) bs =
      Inr (ba\<lparr>m_nodes := N, m_position := m_position ba + length bs,
             m_cur := cur_at (m_baseSize ba) (length (m_nodes ba)) (m_position ba + length bs)\<rparr>) \<and>
      concat N = overwrite (m_position ba) bs (mem ba) \<and> length N = length (m_nodes ba) \<and>
      blocks (m_baseSize ba) N"
  using assms
proof (induction ba off "m_baseSize ba - off" bs arbitrary: k rule: write_loop.induct)
  case (1 ba off bs)
  note prems = "1.prems"
  let ?b = "m_baseSize ba" and ?n = "length (m_nodes ba)"
  have b: "0 < ?b" and bl: "blocks ?b (m_nodes ba)" and cap: "m_capacity ba = ?b * ?n"
    using prems(1) by (auto simp: wf_nodes_def)
  show ?case
  proof (cases "length bs \<le> ?b - off")
    case True
    then have fit: "off + length bs \<le> ?b" using prems(5) by simp
    have cur: "(if ?b - off = length bs then next_node ba k else Some k) = cur_at ?b ?n (m_position ba + length bs)"
      using cur_at_last [OF b prems(3) fit prems(5)] by (simp only: next_node_def prems(4))
    show ?thesis
      using store_mem [OF bl prems(3) fit] True prems cur
      by (intro exI [of _ "m_nodes (store k off bs ba)"])
         (simp add: write_loop.simps [of ba] mem_def, simp add: store_def)
  next
    case False
    let ?c = "?b - off"
    let ?st = "store k off (take ?c bs) ba"
    have "m_position ba + length bs \<le> ?b * ?n" using prems(6) cap by simp
    then have "?b * Suc k < ?b * ?n" using False prems(4,5) by simp
    then have k': "Suc k < ?n" by (metis mult_less_cancel1)
    then have nx: "next_node ba k = Some (Suc k)" by (simp add: next_node_def)
    have len: "length (take ?c bs) = ?c" using False by simp
    then have fit: "off + length (take ?c bs) \<le> ?b" using prems(5) by simp
    define ba' where "ba' = ?st\<lparr>m_position := m_position ba + ?c, m_cur := Some (Suc k)\<rparr>"
    have sz: "node_size ba (Suc k) = ?b"
      using bl k' by (simp add: node_size_def blocks_nth)
    have simps': "m_baseSize ba' = ?b" "m_capacity ba' = m_capacity ba" "length (m_nodes ba') = ?n"
      "m_position ba' = m_position ba + ?c" "m_cur ba' = Some (Suc k)" "m_nodes ba' = m_nodes ?st"
      by (simp_all add: ba'_def)
    have wf': "wf_nodes ba'"
      using prems(1) store_mem(2) [OF bl prems(3) fit] simps'
      by (auto simp: wf_nodes_def simp flip: length_greater_0_conv)
    have pos': "m_position ba' = ?b * Suc k + 0" using prems(4,5) simps' by simp
    have cap': "m_position ba' + length (drop ?c bs) \<le> m_capacity ba'"
      using prems(6) False simps' by simp
    obtain N where N: "write_loop ba' 0 ?b (drop ?c bs) =
        Inr (ba'\<lparr>m_nodes := N, m_position := m_position ba' + length (drop ?c bs),
             m_cur := cur_at ?b ?n (m_position ba' + length (drop ?c bs))\<rparr>)"
      "concat N = overwrite (m_position ba') (drop ?c bs) (mem ba')" "length N = ?n" "blocks ?b N"
      using "1.hyps" [OF prems(7) prems(2) False nx, folded ba'_def, of "Suc k"] wf' pos' cap' k' False b sz simps'
      by auto
    have mem': "mem ba' = overwrite (m_position ba) (take ?c bs) (mem ba)"
      using store_mem(1) [OF bl prems(3) fit] prems(4) by (simp add: simps' mem_def)
    have "m_position ba + length (take ?c bs) \<le> length (mem ba)"
      using prems(6) len False cap bl by (simp add: mem_def length_concat_blocks)
    then have cc: "concat N = overwrite (m_position ba) bs (mem ba)"
      using N(2) mem' len overwrite_append [of "m_position ba" "take ?c bs" "mem ba" "drop ?c bs"]
      by (simp add: simps')
    have "write_loop ba off ?c bs = write_loop ba' 0 ?b (drop ?c bs)"
      using prems(2,7) False nx sz by (simp add: write_loop.simps [of ba] ba'_def)
    then show ?thesis
      using N cc False prems(4,5) by (intro exI [of _ N]) (simp add: ba'_def store_def ac_simps)
  qed
qed

lemma read_loop_spec:
  assumes "wf_nodes ba" "m_cur ba = Some k" "k < length (m_nodes ba)"
    "m_position ba = m_baseSize ba * k + off" "off < m_baseSize ba"
    "m_position ba + n \<le> m_capacity ba"
  shows "read_loop ba off (m_baseSize ba - off) n =
      Inr (block_at (m_position ba) n (mem ba),
           ba\<lparr>m_position := m_position ba + n,
             m_cur := cur_at (m_baseSize ba) (length (m_nodes ba)) (m_position ba + n)\<rparr>)"
  using assms
proof (induction ba off "m_baseSize ba - off" n arbitrary: k rule: read_loop.induct)
  case (1 ba off n)
  note prems = "1.prems"
  let ?b = "m_baseSize ba" and ?n = "length (m_nodes ba)"
  have b: "0 < ?b" and bl: "blocks ?b (m_nodes ba)" and cap: "m_capacity ba = ?b * ?n"
    using prems(1) by (auto simp: wf_nodes_def)
  consider "n = 0" | "0 < n" "n \<le> ?b - off" | "?b - off < n" by linarith
  then show ?case
  proof cases
    case 1
    have "cur_at ?b ?n (m_position ba) = Some k"
      using prems(3-5) by (simp add: cur_at_def)
    then show ?thesis using 1 prems(2) by (simp add: read_loop.simps [of ba])
  next
    case 2
    then have fit: "off + n \<le> ?b" using prems(5) by simp
    have cur: "(if ?b - off = n then next_node ba k else Some k) = cur_at ?b ?n (m_position ba + n)"
      using cur_at_last [OF b prems(3) fit prems(5)] by (simp only: next_node_def prems(4))
    show ?thesis
      using 2 prems(2,4) block_at_block [OF bl prems(3) fit] cur
      by (simp add: read_loop.simps [of ba] mem_def)
  next
    case 3
    let ?c = "?b - off"
    have "m_position ba + n \<le> ?b * ?n" using prems(6) cap by simp
    then have "?b * Suc k < ?b * ?n" using 3 prems(4,5) by simp
    then have k': "Suc k < ?n" by (metis mult_less_cancel1)
    then have nx: "next_node ba k = Some (Suc k)" by (simp add: next_node_def)
    have n0: "n \<noteq> 0" and nle: "\<not> n \<le> ?c" using 3 by simp_all
    define ba' where "ba' = ba\<lparr>m_position := m_position ba + ?c, m_cur := Some (Suc k)\<rparr>"
    have sz: "node_size ba (Suc k) = ?b"
      using bl k' by (simp add: node_size_def blocks_nth)
    have simps': "m_baseSize ba' = ?b" "m_capacity ba' = m_capacity ba" "m_nodes ba' = m_nodes ba"
      "m_position ba' = m_position ba + ?c" "m_cur ba' = Some (Suc k)" "mem ba' = mem ba"
      by (simp_all add: ba'_def mem_def)
    have wf': "wf_nodes ba'" using prems(1) simps' by (simp add: wf_nodes_def)
    have pos': "m_position ba' = ?b * Suc k + 0" using prems(4,5) simps' by simp
    have cap': "m_position ba' + (n - ?c) \<le> m_capacity ba'" using prems(6) 3 simps' by simp
    have rec: "read_loop ba' 0 ?b (n - ?c) =
        Inr (block_at (m_position ba') (n - ?c) (mem ba'),
             ba'\<lparr>m_position := m_position ba' + (n - ?c),
                m_cur := cur_at ?b ?n (m_position ba' + (n - ?c))\<rparr>)"
      using "1.hyps" [OF n0 prems(2) nle nx, folded ba'_def, of "Suc k"] wf' pos' cap' k' b sz simps'
      by auto
    have hd: "block_at off ?c (m_nodes ba ! k) = block_at (m_position ba) ?c (mem ba)"
      using block_at_block [OF bl prems(3), of off ?c] prems(4,5) by (simp add: mem_def)
    have "n = ?c + (n - ?c)" using 3 by simp
    then have bytes: "block_at (m_position ba) ?c (mem ba) @ block_at (m_position ba + ?c) (n - ?c) (mem ba) =
        block_at (m_position ba) n (mem ba)"
      using block_at_add by metis
    have "read_loop ba off ?c n =
        sbind (read_loop ba' 0 ?b (n - ?c)) (\<lambda>(bs, ba'). Inr (block_at off ?c (m_nodes ba ! k) @ bs, ba'))"
      using prems(2) n0 nle nx sz by (simp add: read_loop.simps [of ba] ba'_def)
    then show ?thesis
      using 3 by (simp add: rec hd simps' bytes, simp add: ba'_def)
  qed
qed

subsection \<open>The operations\<close>

lemma pos_split: "0 < b \<Longrightarrow> p = b * (p div b) + p mod (b::nat)"
  by simp

lemma wf_curE:
  assumes "wf ba" "m_position ba < m_capacity ba"
  obtains k where "m_cur ba = Some k" "k < length (m_nodes ba)"
    "m_position ba = m_baseSize ba * k + m_position ba mod m_baseSize ba"
    "m_position ba mod m_baseSize ba < m_baseSize ba" "node_size ba k = m_baseSize ba"
proof -
  obtain k where k: "m_cur ba = Some k" using wf_cur_iff [OF assms(1)] assms(2) by blast
  have "m_position ba mod m_baseSize ba < m_baseSize ba"
    using assms(1) by (simp add: wf_def wf_nodes_def)
  then show thesis using that k wf_curD [OF assms(1) k] by blast
qed

text \<open>
  \<open>write\<close> puts the bytes at the position, growing the storage when it has to, and moves
  position and size; nothing else in the memory changes.
\<close>

lemma write_spec:
  assumes "wf ba"
  shows "\<exists>ba' j. write_ba ba bs = Inr ba' \<and> wf ba' \<and>
    mem ba' = overwrite (m_position ba) bs (mem ba @ j) \<and>
    m_position ba + length bs \<le> length (mem ba @ j) \<and>
    m_position ba' = m_position ba + length bs \<and>
    m_size ba' = (if bs = [] then m_size ba else max (m_size ba) (m_position ba + length bs)) \<and>
    m_endian ba' = m_endian ba \<and> m_baseSize ba' = m_baseSize ba"
proof (cases "bs = []")
  case True
  then show ?thesis
    using assms length_mem [OF assms]
    by (intro exI [of _ ba] exI [of _ "[]"]) (simp add: write_ba_def wf_def)
next
  case False
  define ba1 where "ba1 = addCapacity ba (length bs)"
  obtain j where add: "wf ba1" "mem ba1 = mem ba @ j" "m_position ba1 = m_position ba"
      "m_size ba1 = m_size ba" "m_endian ba1 = m_endian ba" "m_baseSize ba1 = m_baseSize ba"
      "m_position ba + length bs \<le> m_capacity ba1"
    unfolding ba1_def using addCapacity_spec [OF assms] by blast
  have b: "m_baseSize ba \<noteq> 0" using assms by (simp add: wf_def wf_nodes_def)
  have "m_position ba1 < m_capacity ba1" using add(3,7) False by (simp flip: length_greater_0_conv)
  then obtain k where k: "m_cur ba1 = Some k" "k < length (m_nodes ba1)"
      "m_position ba1 = m_baseSize ba1 * k + m_position ba1 mod m_baseSize ba1"
      "m_position ba1 mod m_baseSize ba1 < m_baseSize ba1" "node_size ba1 k = m_baseSize ba1"
    by (rule wf_curE [OF add(1)])
  have wn: "wf_nodes ba1" using add(1) by (simp add: wf_def)
  have fit: "m_position ba1 + length bs \<le> m_capacity ba1" using add by simp
  obtain N where N: "write_loop ba1 (m_position ba1 mod m_baseSize ba1)
        (m_baseSize ba1 - m_position ba1 mod m_baseSize ba1) bs =
      Inr (ba1\<lparr>m_nodes := N, m_position := m_position ba1 + length bs,
             m_cur := cur_at (m_baseSize ba1) (length (m_nodes ba1)) (m_position ba1 + length bs)\<rparr>)"
      "concat N = overwrite (m_position ba1) bs (mem ba1)" "length N = length (m_nodes ba1)"
      "blocks (m_baseSize ba1) N"
    using write_loop_spec [OF wn k(1-4) fit False] by blast
  define ba2 where "ba2 = ba1\<lparr>m_nodes := N, m_position := m_position ba1 + length bs,
             m_cur := cur_at (m_baseSize ba1) (length (m_nodes ba1)) (m_position ba1 + length bs)\<rparr>"
  define ba' where "ba' = (if m_size ba2 < m_position ba2 then ba2\<lparr>m_size := m_position ba2\<rparr> else ba2)"
  have "write_ba ba bs = Inr ba'"
    using False b add(6) k(1,5) N(1) [folded ba2_def]
    by (simp add: write_ba_def Let_def ba'_def flip: ba1_def)
  moreover have "wf ba'"
    using add(1) fit N(3,4) wn by (auto simp: ba'_def ba2_def wf_def wf_nodes_def)
  moreover have "mem ba' = overwrite (m_position ba) bs (mem ba @ j)"
    using N(2) add(2,3) by (simp add: ba'_def ba2_def mem_def)
  moreover have "m_position ba + length bs \<le> length (mem ba @ j)"
    using add(7) length_mem [OF add(1)] add(2) by simp
  ultimately show ?thesis
    using add False by (intro exI [of _ ba'] exI [of _ j]) (auto simp: ba'_def ba2_def)
qed

text \<open>
  \<open>read\<close> from a position with room behind it returns the bytes there, whether or not
  they are below \<open>m_size\<close>.
\<close>

lemma read_spec:
  assumes "wf ba" "m_position ba < m_capacity ba" "m_position ba + n \<le> m_capacity ba"
  shows "\<exists>ba'. read_ba ba n = Inr (block_at (m_position ba) n (mem ba), ba') \<and> wf ba' \<and>
    mem ba' = mem ba \<and> m_position ba' = m_position ba + n \<and> m_size ba' = m_size ba \<and>
    m_endian ba' = m_endian ba \<and> m_baseSize ba' = m_baseSize ba"
proof -
  obtain k where k: "m_cur ba = Some k" "k < length (m_nodes ba)"
      "m_position ba = m_baseSize ba * k + m_position ba mod m_baseSize ba"
      "m_position ba mod m_baseSize ba < m_baseSize ba" "node_size ba k = m_baseSize ba"
    using assms(1,2) by (rule wf_curE)
  have wn: "wf_nodes ba" using assms(1) by (simp add: wf_def)
  define ba' where "ba' = ba\<lparr>m_position := m_position ba + n,
      m_cur := cur_at (m_baseSize ba) (length (m_nodes ba)) (m_position ba + n)\<rparr>"
  have "read_ba ba n = Inr (block_at (m_position ba) n (mem ba), ba')"
    using read_loop_spec [OF wn k(1-4) assms(3)] k(1,5) wn
    by (simp add: read_ba_def ba'_def wf_nodes_def)
  moreover have "wf ba'" using assms wn by (simp add: wf_def wf_nodes_def ba'_def)
  ultimately show ?thesis by (simp add: ba'_def mem_def)
qed

text \<open>At the very end of the memory there is no node, and even a read of no bytes faults.\<close>

lemma read_at_end:
  assumes "wf ba" "m_position ba = m_capacity ba"
  shows "read_ba ba n = Inl NullDeref"
proof -
  have "m_cur ba = None" using wf_cur_iff [OF assms(1)] assms(2) by (cases "m_cur ba") auto
  then show ?thesis using assms(1) by (simp add: read_ba_def wf_def wf_nodes_def)
qed

lemma read_loop_overrun:
  assumes "wf_nodes ba" "m_cur ba = Some k" "k < length (m_nodes ba)"
    "m_position ba = m_baseSize ba * k + off" "off < m_baseSize ba"
    "m_capacity ba < m_position ba + n"
  shows "read_loop ba off (m_baseSize ba - off) n = Inl NullDeref"
  using assms
proof (induction ba off "m_baseSize ba - off" n arbitrary: k rule: read_loop.induct)
  case (1 ba off n)
  note prems = "1.prems"
  let ?b = "m_baseSize ba" and ?n = "length (m_nodes ba)" and ?c = "m_baseSize ba - off"
  have b: "0 < ?b" and bl: "blocks ?b (m_nodes ba)" and cap: "m_capacity ba = ?b * ?n"
    using prems(1) by (auto simp: wf_nodes_def)
  have "?b * Suc k \<le> ?b * ?n" using prems(3) by (intro mult_le_mono2) simp
  then have big: "?c < n" using prems(4-6) cap by simp
  then have n0: "n \<noteq> 0" and nle: "\<not> n \<le> ?c" by simp_all
  show ?case
  proof (cases "next_node ba k")
    case None
    then show ?thesis using n0 nle prems(2) by (simp add: read_loop.simps [of ba])
  next
    case (Some k')
    then have k': "k' = Suc k" "Suc k < ?n" by (auto simp: next_node_def split: if_splits)
    have sz: "node_size ba (Suc k) = ?b"
      using bl k' by (simp add: node_size_def blocks_nth)
    define ba' where "ba' = ba\<lparr>m_position := m_position ba + ?c, m_cur := Some (Suc k)\<rparr>"
    have simps': "m_baseSize ba' = ?b" "m_capacity ba' = m_capacity ba" "m_nodes ba' = m_nodes ba"
      "m_position ba' = m_position ba + ?c" "m_cur ba' = Some (Suc k)"
      by (simp_all add: ba'_def)
    have wf': "wf_nodes ba'" using prems(1) simps' by (simp add: wf_nodes_def)
    have pos': "m_position ba' = ?b * Suc k + 0" using prems(4,5) simps' by simp
    have cap': "m_capacity ba' < m_position ba' + (n - ?c)" using prems(6) big simps' by simp
    have "read_loop ba' 0 ?b (n - ?c) = Inl NullDeref"
      using "1.hyps" [OF n0 prems(2) nle Some, folded k'(1), unfolded k'(1), folded ba'_def, of "Suc k"]
        wf' pos' cap' k' b sz simps' by auto
    then show ?thesis
      using prems(2) n0 nle Some k' sz by (simp add: read_loop.simps [of ba] ba'_def)
  qed
qed

text \<open>Running off the end of the memory is a null dereference, never the documented exception.\<close>

lemma read_overrun:
  assumes "wf ba" "m_capacity ba < m_position ba + n"
  shows "read_ba ba n = Inl NullDeref"
proof (cases "m_position ba < m_capacity ba")
  case True
  then obtain k where k: "m_cur ba = Some k" "k < length (m_nodes ba)"
      "m_position ba = m_baseSize ba * k + m_position ba mod m_baseSize ba"
      "m_position ba mod m_baseSize ba < m_baseSize ba" "node_size ba k = m_baseSize ba"
    using wf_curE [OF assms(1)] by blast
  have wn: "wf_nodes ba" using assms(1) by (simp add: wf_def)
  show ?thesis
    using read_loop_overrun [OF wn k(1-4) assms(2)] k(1,5) wn
    by (simp add: read_ba_def wf_nodes_def)
next
  case False
  then show ?thesis using assms(1) by (intro read_at_end) (auto simp: wf_def)
qed

lemma seek_loop_spec:
  assumes "wf_nodes ba" "k < length (m_nodes ba)" "m_baseSize ba * k + v \<le> m_capacity ba"
  shows "\<exists>k' v'. seek_loop ba (Some k) v = Inr (k', v') \<and> k' < length (m_nodes ba) \<and>
    m_baseSize ba * k + v = m_baseSize ba * k' + v' \<and> v' \<le> m_baseSize ba"
  using assms
proof (induction ba "Some k" v arbitrary: k rule: seek_loop.induct)
  case (1 ba v)
  have b: "0 < m_baseSize ba" and bl: "blocks (m_baseSize ba) (m_nodes ba)"
    and cap: "m_capacity ba = m_baseSize ba * length (m_nodes ba)"
    using "1.prems"(1) by (auto simp: wf_nodes_def)
  have sz: "node_size ba k = m_baseSize ba"
    using bl "1.prems"(2) by (simp add: node_size_def blocks_nth)
  show ?case
  proof (cases "m_baseSize ba < v")
    case False
    then show ?thesis using "1.prems"(2) sz by (simp add: seek_loop.simps [of ba])
  next
    case True
    then have "m_baseSize ba * Suc k < m_baseSize ba * length (m_nodes ba)"
      using "1.prems"(3) cap by simp
    then have k': "Suc k < length (m_nodes ba)" by (metis mult_less_cancel1)
    then have nx: "next_node ba k = Some (Suc k)" by (simp add: next_node_def)
    have "\<exists>k' v'. seek_loop ba (Some (Suc k)) (v - m_baseSize ba) = Inr (k', v') \<and>
        k' < length (m_nodes ba) \<and>
        m_baseSize ba * Suc k + (v - m_baseSize ba) = m_baseSize ba * k' + v' \<and> v' \<le> m_baseSize ba"
      using "1.hyps" [of k "Suc k"] True sz nx "1.prems" k' by simp
    then show ?thesis
      using True sz nx by (simp add: seek_loop.simps [of ba "Some k"])
  qed
qed

text \<open>
  \<open>setPosition\<close> accepts exactly the positions up to the capacity, keeps the memory, and
  raises the size when the new position is behind it.
\<close>

lemma setPosition_spec:
  assumes "wf ba" "v \<le> m_capacity ba"
  shows "\<exists>ba'. setPosition ba v = Inr ba' \<and> wf ba' \<and> mem ba' = mem ba \<and> m_position ba' = v \<and>
    m_size ba' = max (m_size ba) v \<and> m_endian ba' = m_endian ba \<and> m_baseSize ba' = m_baseSize ba"
proof -
  let ?b = "m_baseSize ba" and ?n = "length (m_nodes ba)"
  define ba2 where "ba2 = (if m_size ba < v then ba\<lparr>m_position := v, m_size := v\<rparr> else ba\<lparr>m_position := v\<rparr>)"
  have s: "m_baseSize ba2 = ?b" "m_nodes ba2 = m_nodes ba" "m_capacity ba2 = m_capacity ba"
    "m_position ba2 = v" "m_size ba2 = max (m_size ba) v" "m_endian ba2 = m_endian ba"
    by (auto simp: ba2_def)
  have wn: "wf_nodes ba2" and b: "0 < ?b" and n: "0 < ?n" and cap: "m_capacity ba = ?b * ?n"
    and bl: "blocks ?b (m_nodes ba)"
    using assms(1) s by (auto simp: wf_def wf_nodes_def)
  obtain k' v' where k': "seek_loop ba2 (Some 0) v = Inr (k', v')" "k' < ?n" "v = ?b * k' + v'" "v' \<le> ?b"
    using seek_loop_spec [OF wn, of 0 v] n assms(2) s by auto
  have sz: "node_size ba2 k' = ?b"
    using bl k'(2) s by (simp add: node_size_def blocks_nth)
  define ba' where "ba' = ba2\<lparr>m_cur := (if v' = node_size ba2 k' then next_node ba2 k' else Some k')\<rparr>"
  have "m_cur ba' = cur_at ?b ?n v"
  proof (cases "v' = ?b")
    case True
    then have "v = ?b * Suc k'" using k'(3) by simp
    then show ?thesis
      using True sz s by (simp only: cur_at_exact [OF b]) (simp add: ba'_def next_node_def)
  next
    case False
    then have "v div ?b = k'" using k'(3,4) b by simp
    then show ?thesis using False sz k'(2) by (simp add: cur_at_def ba'_def)
  qed
  then have "wf ba'"
    using assms wn s by (auto simp: ba'_def wf_def wf_nodes_def)
  moreover have "setPosition ba v = Inr ba'"
    using assms(2) k'(1) by (simp add: setPosition_def Let_def ba2_def ba'_def split: if_splits)
  ultimately show ?thesis using s by (intro exI [of _ ba']) (simp add: ba'_def mem_def)
qed

lemma setPosition_out_of_range: "m_capacity ba < v \<Longrightarrow> setPosition ba v = Inl OutOfRange"
  by (simp add: setPosition_def)

lemma clear_spec:
  assumes "wf ba"
  shows "wf (clear ba)" and "m_position (clear ba) = 0" and "m_size (clear ba) = 0"
    and "m_capacity (clear ba) = m_baseSize ba" and "m_endian (clear ba) = m_endian ba"
    and "m_baseSize (clear ba) = m_baseSize ba"
  using assms by (auto simp: wf_def wf_nodes_def clear_def cur_at_def blocks_take neq_Nil_conv)

lemma setIsLittleEndian_spec [simp]:
  "wf (setIsLittleEndian ba v) = wf ba" "mem (setIsLittleEndian ba v) = mem ba"
  "m_position (setIsLittleEndian ba v) = m_position ba" "m_size (setIsLittleEndian ba v) = m_size ba"
  "isLittleEndian (setIsLittleEndian ba v) = v"
  by (auto simp: setIsLittleEndian_def wf_def wf_nodes_def mem_def isLittleEndian_def)

section \<open>Properties of the storage\<close>

text \<open>
  Claim C1. A write never fails: it stores the bytes at the position, growing the memory when
  needed, changes no other byte, moves the position behind them and keeps the invariant.
\<close>

theorem write_stores:
  assumes "wf ba"
  shows "\<exists>ba' j. write_ba ba bs = Inr ba' \<and> wf ba' \<and>
    mem ba' = take (m_position ba) (mem ba) @ bs @ drop (m_position ba + length bs) (mem ba @ j) \<and>
    m_position ba' = m_position ba + length bs \<and>
    m_size ba' = (if bs = [] then m_size ba else max (m_size ba) (m_position ba + length bs))"
  using write_spec [OF assms, of bs] assms length_mem [OF assms]
  by (fastforce simp: overwrite_def wf_def)

theorem write_stores_witness:
  "\<exists>ba' j. write_ba (new_ByteArray (\<lambda>_ _. 0) 2) [1, 2, 3] = Inr ba' \<and> wf ba' \<and>
    mem ba' = [1, 2, 3] @ j \<and> m_position ba' = 3"
  using write_stores [OF wf_new [of 2 "\<lambda>_ _. 0"], of "[1, 2, 3]"]
  by (auto simp: new_ByteArray_def)

text \<open>
  What a read does, in every case: it returns the bytes at the position when they lie
  in allocated memory (whether or not they are behind \<open>m_size\<close>) and runs into the null node
  otherwise, also when no byte is asked for at the very end; it never throws out_of_range.
\<close>

theorem read_outcome:
  assumes "wf ba"
  shows "if m_position ba < m_capacity ba \<and> m_position ba + n \<le> m_capacity ba
    then \<exists>ba'. read_ba ba n = Inr (block_at (m_position ba) n (mem ba), ba') \<and> wf ba' \<and>
           mem ba' = mem ba \<and> m_position ba' = m_position ba + n \<and> m_size ba' = m_size ba
    else read_ba ba n = Inl NullDeref"
  using read_spec [OF assms, of n] read_at_end [OF assms] read_overrun [OF assms, of n] assms
  by (auto simp: wf_def)

theorem read_outcome_witness:
  "read_ba (new_ByteArray (\<lambda>_ _. 0) 2) 3 = Inl NullDeref \<and>
   (\<exists>ba'. read_ba (new_ByteArray (\<lambda>_ _. 0) 2) 2 = Inr ([0, 0], ba') \<and> m_position ba' = 2)"
  using read_outcome [OF wf_new [of 2 "\<lambda>_ _. 0"], of 3] read_outcome [OF wf_new [of 2 "\<lambda>_ _. 0"], of 2]
  by (auto simp: new_ByteArray_def mem_def new_Node_def block_at_def upt_rec)

datatype ba_op = OpWrite "byte list" | OpRead nat | OpSeek nat | OpClear | OpEndian bool

fun run_op :: "ba_op \<Rightarrow> bytearray \<Rightarrow> bytearray res" where
  "run_op (OpWrite bs) ba = write_ba ba bs"
| "run_op (OpRead n) ba = sbind (read_ba ba n) (\<lambda>(_, ba'). Inr ba')"
| "run_op (OpSeek v) ba = setPosition ba v"
| "run_op OpClear ba = Inr (clear ba)"
| "run_op (OpEndian v) ba = Inr (setIsLittleEndian ba v)"

fun run_ops :: "ba_op list \<Rightarrow> bytearray \<Rightarrow> bytearray res" where
  "run_ops [] ba = Inr ba"
| "run_ops (x # xs) ba = sbind (run_op x ba) (run_ops xs)"

lemma run_op_wf:
  assumes "wf ba" "run_op x ba = Inr ba'"
  shows "wf ba'"
proof (cases x)
  case (OpWrite bs)
  then show ?thesis using write_spec [OF assms(1), of bs] assms(2) by auto
next
  case (OpRead n)
  then show ?thesis
    using read_spec [OF assms(1), of n] read_at_end [OF assms(1)] read_overrun [OF assms(1), of n] assms
    by (cases "m_position ba < m_capacity ba \<and> m_position ba + n \<le> m_capacity ba") (auto simp: wf_def)
next
  case (OpSeek v)
  then show ?thesis
    using setPosition_spec [OF assms(1), of v] setPosition_out_of_range [of ba v] assms(2)
    by (cases "v \<le> m_capacity ba") auto
qed (use assms clear_spec in auto)

text \<open>
  Claim C2. Whatever sequence of operations is applied to a new array, the invariant holds
  while no operation has failed: the cursor agrees with the position and every node is whole.
\<close>

theorem byte_array_invariant:
  assumes "0 < b" "run_ops ops (new_ByteArray hp b) = Inr ba"
  shows "wf ba"
proof -
  have "wf a \<Longrightarrow> run_ops ops a = Inr ba \<Longrightarrow> wf ba" for a
    by (induction ops arbitrary: a) (auto elim!: sbind_eq_InrE dest: run_op_wf)
  then show ?thesis using wf_new [OF assms(1), of hp] assms(2) by blast
qed

theorem byte_array_invariant_witness:
  "wf (clear (setIsLittleEndian (new_ByteArray (\<lambda>_ _. 0) 4) True))"
  by (rule byte_array_invariant [of 4 "[OpEndian True, OpClear]" "\<lambda>_ _. 0"]) simp_all

end
