(* ===== verification/ByteStore.thy ===== *)
theory ByteStore
  imports ByteArray
begin

text \<open>
  The contract between the storage of a ByteArray and everything that is encoded into it:
  a store of bytes with a position, where bytes that were put can be got back. The codecs
  (fixed-width integers, varints, strings) are clients of this contract; their round trips are
  proved from the laws below and from nothing else about the storage. The storage of
  ByteArray provides it (\<open>write_ba\<close>, \<open>read_ba\<close>, \<open>setPosition\<close>).
\<close>

section \<open>Bytes at a place of a buffer\<close>

definition has_at :: "'a list \<Rightarrow> nat \<Rightarrow> 'a list \<Rightarrow> bool" where
  "has_at xs p bs \<longleftrightarrow> p + length bs \<le> length xs \<and> block_at p (length bs) xs = bs"

lemma has_at_overwrite:
  "p + length bs \<le> length xs \<Longrightarrow> has_at (overwrite p bs xs) p bs"
  by (simp add: has_at_def block_at_overwrite_same)

lemma has_at_left: "has_at xs p bs \<Longrightarrow> has_at (xs @ ys) p bs"
  by (simp add: has_at_def block_at_left)

lemma has_at_overwrite_before:
  assumes "has_at xs p bs" "p + length bs \<le> q" "q + length cs \<le> length xs"
  shows "has_at (overwrite q cs xs) p bs"
  using assms by (simp add: has_at_def block_at_def overwrite_def drop_take)

lemma has_at_append:
  "has_at xs p (bs @ cs) \<longleftrightarrow> has_at xs p bs \<and> has_at xs (p + length bs) cs"
proof
  assume h: "has_at xs p (bs @ cs)"
  then have "block_at p (length bs) xs @ block_at (p + length bs) (length cs) xs = bs @ cs"
    by (simp add: has_at_def flip: block_at_add)
  moreover have "length (block_at p (length bs) xs) = length bs"
    using h by (auto simp: has_at_def)
  ultimately show "has_at xs p bs \<and> has_at xs (p + length bs) cs"
    using h by (simp add: has_at_def)
qed (auto simp: has_at_def block_at_add add.assoc)

section \<open>The contract\<close>

locale byte_store =
  fixes put :: "'s \<Rightarrow> byte list \<Rightarrow> 's res"
    and get :: "'s \<Rightarrow> nat \<Rightarrow> (byte list \<times> 's) res"
    and seek :: "'s \<Rightarrow> nat \<Rightarrow> 's res"
    and pos :: "'s \<Rightarrow> nat"
    and content :: "'s \<Rightarrow> byte list"
    and invar :: "'s \<Rightarrow> bool"
    and order :: "'s \<Rightarrow> endian"
  assumes put_law: "invar s \<Longrightarrow> \<exists>s' j. put s bs = Inr s' \<and> invar s' \<and>
      content s' = overwrite (pos s) bs (content s @ j) \<and> pos s + length bs \<le> length (content s @ j) \<and>
      pos s' = pos s + length bs \<and> order s' = order s"
    and get_law: "invar s \<Longrightarrow> pos s < length (content s) \<Longrightarrow> pos s + n \<le> length (content s) \<Longrightarrow>
      \<exists>s'. get s n = Inr (block_at (pos s) n (content s), s') \<and> invar s' \<and> content s' = content s \<and>
        pos s' = pos s + n \<and> order s' = order s"
    and seek_law: "invar s \<Longrightarrow> v \<le> length (content s) \<Longrightarrow>
      \<exists>s'. seek s v = Inr s' \<and> invar s' \<and> content s' = content s \<and> pos s' = v \<and> order s' = order s"
begin

text \<open>
  \<open>writes w bs\<close>: the operation \<open>w\<close> puts \<open>bs\<close> at the position. \<open>reads d bs v\<close>: where \<open>bs\<close> stands
  at the position, the operation \<open>d\<close> returns \<open>v\<close> and steps over it.
\<close>

definition writes :: "('s \<Rightarrow> bool) \<Rightarrow> ('s \<Rightarrow> 's res) \<Rightarrow> byte list \<Rightarrow> bool" where
  "writes P w bs \<longleftrightarrow> (\<forall>s. invar s \<longrightarrow> P s \<longrightarrow> (\<exists>s' j. w s = Inr s' \<and> invar s' \<and>
      content s' = overwrite (pos s) bs (content s @ j) \<and> pos s + length bs \<le> length (content s @ j) \<and>
      pos s' = pos s + length bs \<and> order s' = order s))"

definition reads :: "('s \<Rightarrow> bool) \<Rightarrow> ('s \<Rightarrow> ('v \<times> 's) res) \<Rightarrow> byte list \<Rightarrow> 'v \<Rightarrow> bool" where
  "reads P d bs v \<longleftrightarrow> (\<forall>s. invar s \<longrightarrow> P s \<longrightarrow> has_at (content s) (pos s) bs \<longrightarrow>
      (\<exists>s'. d s = Inr (v, s') \<and> invar s' \<and> content s' = content s \<and>
        pos s' = pos s + length bs \<and> order s' = order s))"

lemma writes_put: "writes P (\<lambda>s. put s bs) bs"
  using put_law by (auto simp: writes_def)

lemma writes_seq:
  assumes "writes P w1 bs" "writes P w2 cs" "\<And>s s'. P s \<Longrightarrow> order s' = order s \<Longrightarrow> P s'"
  shows "writes P (\<lambda>s. sbind (w1 s) w2) (bs @ cs)"
  unfolding writes_def
proof (intro allI impI)
  fix s assume s: "invar s" "P s"
  obtain s1 j1 where 1: "w1 s = Inr s1" "invar s1" "content s1 = overwrite (pos s) bs (content s @ j1)"
      "pos s + length bs \<le> length (content s @ j1)" "pos s1 = pos s + length bs" "order s1 = order s"
    using assms(1) s unfolding writes_def by blast
  obtain s2 j2 where 2: "w2 s1 = Inr s2" "invar s2" "content s2 = overwrite (pos s1) cs (content s1 @ j2)"
      "pos s1 + length cs \<le> length (content s1 @ j2)" "pos s2 = pos s1 + length cs" "order s2 = order s1"
    using assms(2) 1(2) assms(3) [OF s(2) 1(6)] unfolding writes_def by blast
  have "content s1 @ j2 = overwrite (pos s) bs (content s @ (j1 @ j2))"
    using 1(3,4) overwrite_left [of "pos s" bs "content s @ j1" j2] by simp
  then have "content s2 = overwrite (pos s) (bs @ cs) (content s @ (j1 @ j2))"
    using 2(3) 1(4,5) overwrite_append [of "pos s" bs "content s @ (j1 @ j2)" cs] by simp
  moreover have "pos s + length (bs @ cs) \<le> length (content s @ (j1 @ j2))"
    using 2(4) 1(3,4,5) by simp
  ultimately show "\<exists>s' j. sbind (w1 s) w2 = Inr s' \<and> invar s' \<and>
      content s' = overwrite (pos s) (bs @ cs) (content s @ j) \<and>
      pos s + length (bs @ cs) \<le> length (content s @ j) \<and>
      pos s' = pos s + length (bs @ cs) \<and> order s' = order s"
    using 1 2 by (intro exI [of _ s2] exI [of _ "j1 @ j2"]) simp
qed

lemma reads_get: "bs \<noteq> [] \<Longrightarrow> reads P (\<lambda>s. get s (length bs)) bs bs"
  unfolding reads_def
proof (intro allI impI)
  fix s assume "bs \<noteq> []" "invar s" "has_at (content s) (pos s) bs"
  moreover have "pos s < length (content s)"
    using calculation by (cases bs) (auto simp: has_at_def)
  ultimately show "\<exists>s'. get s (length bs) = Inr (bs, s') \<and> invar s' \<and> content s' = content s \<and>
        pos s' = pos s + length bs \<and> order s' = order s"
    using get_law [of s "length bs"] by (auto simp: has_at_def)
qed

text \<open>Getting no bytes is only safe when there is memory behind the position.\<close>

lemma reads_get_Nil: "reads (\<lambda>s. pos s < length (content s)) (\<lambda>s. get s 0) [] []"
  unfolding reads_def
proof (intro allI impI)
  fix s assume "invar s" "pos s < length (content s)"
  then show "\<exists>s'. get s 0 = Inr ([], s') \<and> invar s' \<and> content s' = content s \<and>
        pos s' = pos s + length [] \<and> order s' = order s"
    using get_law [of s 0] by auto
qed

lemma reads_weaken: "reads P d bs v \<Longrightarrow> (\<And>s. Q s \<Longrightarrow> P s) \<Longrightarrow> reads Q d bs v"
  by (simp add: reads_def)

lemma reads_map:
  assumes "reads P d bs v" "\<And>s. P s \<Longrightarrow> f v s = w"
  shows "reads P (\<lambda>s. sbind (d s) (\<lambda>(v, s'). Inr (f v s, s'))) bs w"
  using assms by (fastforce simp: reads_def)

lemma reads_seq:
  assumes "reads P d bs v" "reads Q (d' v) cs w"
    "\<And>s s'. P s \<Longrightarrow> invar s' \<Longrightarrow> content s' = content s \<Longrightarrow> pos s' = pos s + length bs \<Longrightarrow> order s' = order s \<Longrightarrow> Q s'"
  shows "reads P (\<lambda>s. sbind (d s) (\<lambda>(v, s'). d' v s')) (bs @ cs) w"
  unfolding reads_def
proof (intro allI impI)
  fix s assume s: "invar s" "P s" "has_at (content s) (pos s) (bs @ cs)"
  then obtain s1 where 1: "d s = Inr (v, s1)" "invar s1" "content s1 = content s"
      "pos s1 = pos s + length bs" "order s1 = order s"
    using assms(1) unfolding reads_def has_at_append by blast
  have Q: "Q s1" using assms(3) s(2) 1 by blast
  have "has_at (content s1) (pos s1) cs" using s(3) 1 by (simp add: has_at_append)
  then obtain s2 where "d' v s1 = Inr (w, s2)" "invar s2" "content s2 = content s1"
      "pos s2 = pos s1 + length cs" "order s2 = order s1"
    using assms(2) 1(2) Q unfolding reads_def by blast
  then show "\<exists>s'. sbind (d s) (\<lambda>(v, s'). d' v s') = Inr (w, s') \<and> invar s' \<and> content s' = content s \<and>
      pos s' = pos s + length (bs @ cs) \<and> order s' = order s"
    using 1 by simp
qed

text \<open>What was written can be read back from where it was written.\<close>

lemma writes_reads:
  assumes "writes P w bs" "reads Q d bs v" "invar s" "P s"
    "\<And>s'. order s' = order s \<Longrightarrow> pos s' = pos s \<Longrightarrow> pos s + length bs \<le> length (content s') \<Longrightarrow>
      length (content s) \<le> length (content s') \<Longrightarrow> Q s'"
  shows "\<exists>s1 s2 s3. w s = Inr s1 \<and> seek s1 (pos s) = Inr s2 \<and> d s2 = Inr (v, s3) \<and>
    invar s1 \<and> invar s3 \<and> pos s1 = pos s + length bs \<and> pos s3 = pos s1 \<and> content s3 = content s1"
proof -
  obtain s1 j where 1: "w s = Inr s1" "invar s1" "content s1 = overwrite (pos s) bs (content s @ j)"
      "pos s + length bs \<le> length (content s @ j)" "pos s1 = pos s + length bs" "order s1 = order s"
    using assms(1,3,4) unfolding writes_def by blast
  have at: "has_at (content s1) (pos s) bs"
    unfolding 1(3) using 1(4) by (rule has_at_overwrite)
  then obtain s2 where 2: "seek s1 (pos s) = Inr s2" "invar s2" "content s2 = content s1"
      "pos s2 = pos s" "order s2 = order s1"
    using seek_law [OF 1(2), of "pos s"] by (auto simp: has_at_def)
  have "length (content s) \<le> length (content s2)" using 1(3,4) 2(3) by simp
  then have "Q s2" using assms(5) 2 1(6) at by (simp add: has_at_def)
  then obtain s3 where "d s2 = Inr (v, s3)" "invar s3" "content s3 = content s2"
      "pos s3 = pos s2 + length bs"
    using assms(2) 2 at unfolding reads_def by auto
  then show ?thesis using 1 2 by auto
qed

end

section \<open>ByteArray provides the contract\<close>

interpretation ba: byte_store write_ba read_ba setPosition m_position mem wf m_endian
proof unfold_locales
  fix s bs assume "wf s"
  then show "\<exists>s' j. write_ba s bs = Inr s' \<and> wf s' \<and> mem s' = overwrite (m_position s) bs (mem s @ j) \<and>
      m_position s + length bs \<le> length (mem s @ j) \<and>
      m_position s' = m_position s + length bs \<and> m_endian s' = m_endian s"
    using write_spec by blast
next
  fix s n assume s: "wf s" "m_position s < length (mem s)" "m_position s + n \<le> length (mem s)"
  then show "\<exists>s'. read_ba s n = Inr (block_at (m_position s) n (mem s), s') \<and> wf s' \<and> mem s' = mem s \<and>
      m_position s' = m_position s + n \<and> m_endian s' = m_endian s"
    using read_spec [OF s(1), of n] length_mem [OF s(1)] by auto
next
  fix s v assume s: "wf s" "v \<le> length (mem s)"
  then show "\<exists>s'. setPosition s v = Inr s' \<and> wf s' \<and> mem s' = mem s \<and> m_position s' = v \<and> m_endian s' = m_endian s"
    using setPosition_spec [OF s(1), of v] length_mem [OF s(1)] by auto
qed

text \<open>
  \<open>reads_back w d ba v n\<close>: writing with \<open>w\<close>, going back with setPosition and reading with
  \<open>d\<close> returns \<open>v\<close>; both steps move the position by \<open>n\<close>, and the reader changes no byte.
\<close>

definition reads_back ::
  "(bytearray \<Rightarrow> bytearray res) \<Rightarrow> (bytearray \<Rightarrow> ('v \<times> bytearray) res) \<Rightarrow> bytearray \<Rightarrow> 'v \<Rightarrow> nat \<Rightarrow> bool" where
  "reads_back w d ba v n \<longleftrightarrow>
     (\<exists>b1 b2 b3. w ba = Inr b1 \<and> setPosition b1 (m_position ba) = Inr b2 \<and> d b2 = Inr (v, b3) \<and>
        wf b1 \<and> wf b3 \<and> m_position b1 = m_position ba + n \<and> m_position b3 = m_position ba + n \<and>
        mem b3 = mem b1)"

lemma reads_backI:
  assumes "ba.writes P w bs" "ba.reads Q d bs v" "wf ba" "P ba" "length bs = n"
    "\<And>b. m_endian b = m_endian ba \<Longrightarrow> m_position b = m_position ba \<Longrightarrow>
      m_position ba + length bs \<le> length (mem b) \<Longrightarrow> length (mem ba) \<le> length (mem b) \<Longrightarrow> Q b"
  shows "reads_back w d ba v n"
  using ba.writes_reads [OF assms(1-4,6)] assms(5) by (fastforce simp: reads_back_def)

end
