(* ===== verification/ByteCodec.thy ===== *)
theory ByteCodec
  imports ByteStore
begin

text \<open>
  The typed reads and writes of exhy::ByteArray (exhy/exhy_bytearray.cpp): fixed-width
  integers in the array's byte order, zigzag and varint integers, floating point values by
  their bits, strings with four kinds of length prefix. A signed integer is modelled by the
  word with its two's complement bits (\<open>sint\<close> reads it), a \<open>float\<close> or \<open>double\<close> by its object
  representation, a \<open>std::string\<close> by its bytes.
\<close>

section \<open>Fixed-width integers\<close>

definition writeFint8 :: "bytearray \<Rightarrow> byte \<Rightarrow> bytearray res" where
  "writeFint8 ba v = write_ba ba [v]"

definition writeFuint8 :: "bytearray \<Rightarrow> byte \<Rightarrow> bytearray res" where
  "writeFuint8 ba v = write_ba ba [v]"

definition write_fixed :: "bytearray \<Rightarrow> 'a::len word \<Rightarrow> bytearray res" where
  "write_fixed ba v =
     (let v' = (if m_endian ba \<noteq> EXHY_BYTE_ORDER then byteswap v else v)
      in write_ba ba (mem_bytes EXHY_BYTE_ORDER v'))"

definition writeFint16 :: "bytearray \<Rightarrow> u16 \<Rightarrow> bytearray res" where
  "writeFint16 ba v = write_fixed ba v"

definition writeFuint16 :: "bytearray \<Rightarrow> u16 \<Rightarrow> bytearray res" where
  "writeFuint16 ba v = write_fixed ba v"

definition writeFint32 :: "bytearray \<Rightarrow> u32 \<Rightarrow> bytearray res" where
  "writeFint32 ba v = write_fixed ba v"

definition writeFuint32 :: "bytearray \<Rightarrow> u32 \<Rightarrow> bytearray res" where
  "writeFuint32 ba v = write_fixed ba v"

definition writeFint64 :: "bytearray \<Rightarrow> u64 \<Rightarrow> bytearray res" where
  "writeFint64 ba v = write_fixed ba v"

definition writeFuint64 :: "bytearray \<Rightarrow> u64 \<Rightarrow> bytearray res" where
  "writeFuint64 ba v = write_fixed ba v"

definition readFint8 :: "bytearray \<Rightarrow> (byte \<times> bytearray) res" where
  "readFint8 ba = sbind (read_ba ba 1) (\<lambda>(bs, ba'). Inr (of_mem_bytes EXHY_BYTE_ORDER bs, ba'))"

definition readFuint8 :: "bytearray \<Rightarrow> (byte \<times> bytearray) res" where
  "readFuint8 ba = sbind (read_ba ba 1) (\<lambda>(bs, ba'). Inr (of_mem_bytes EXHY_BYTE_ORDER bs, ba'))"

text \<open>The macro XX: read \<open>sizeof(type)\<close> bytes and swap them when the orders differ.\<close>

definition read_fixed :: "bytearray \<Rightarrow> ('a::len word \<times> bytearray) res" where
  "read_fixed ba =
     sbind (read_ba ba (LENGTH('a) div 8))
       (\<lambda>(bs, ba'). Inr (if m_endian ba' = EXHY_BYTE_ORDER then of_mem_bytes EXHY_BYTE_ORDER bs
                         else byteswap (of_mem_bytes EXHY_BYTE_ORDER bs), ba'))"

definition readFint16 :: "bytearray \<Rightarrow> (u16 \<times> bytearray) res" where "readFint16 ba = read_fixed ba"
definition readFuint16 :: "bytearray \<Rightarrow> (u16 \<times> bytearray) res" where "readFuint16 ba = read_fixed ba"
definition readFint32 :: "bytearray \<Rightarrow> (u32 \<times> bytearray) res" where "readFint32 ba = read_fixed ba"
definition readFuint32 :: "bytearray \<Rightarrow> (u32 \<times> bytearray) res" where "readFuint32 ba = read_fixed ba"
definition readFint64 :: "bytearray \<Rightarrow> (u64 \<times> bytearray) res" where "readFint64 ba = read_fixed ba"
definition readFuint64 :: "bytearray \<Rightarrow> (u64 \<times> bytearray) res" where "readFuint64 ba = read_fixed ba"

section \<open>Zigzag\<close>

text \<open>\<open>v >> 31\<close> on a signed value is the arithmetic shift, on an unsigned one the logical one.\<close>

definition EncodeZigzag32 :: "u32 \<Rightarrow> u32" where
  "EncodeZigzag32 v = push_bit 1 v XOR signed_drop_bit 31 v"

definition EncodeZigzag64 :: "u64 \<Rightarrow> u64" where
  "EncodeZigzag64 v = push_bit 1 v XOR signed_drop_bit 63 v"

definition DecodeZigzag32 :: "u32 \<Rightarrow> u32" where
  "DecodeZigzag32 v = drop_bit 1 v XOR - (v AND 1)"

definition DecodeZigzag64 :: "u64 \<Rightarrow> u64" where
  "DecodeZigzag64 v = drop_bit 1 v XOR - (v AND 1)"

section \<open>Varints\<close>

text \<open>The bytes the loop of writeUint32 leaves in \<open>tmp\<close>; storing into a uint8_t truncates.\<close>

function varint32 :: "u32 \<Rightarrow> byte list" where
  "varint32 v = (if 0x80 \<le> v then ucast ((v AND 0x7F) OR 0x80) # varint32 (drop_bit 7 v) else [ucast v])"
  by pat_completeness auto
termination
proof (relation "measure unat")
  fix v :: u32 assume "0x80 \<le> v"
  then have "0 < unat v" by (simp add: word_le_nat_alt)
  then show "(drop_bit 7 v, v) \<in> measure unat"
    by (simp add: drop_bit_eq_div unat_div)
qed simp

function varint64 :: "u64 \<Rightarrow> byte list" where
  "varint64 v = (if 0x80 \<le> v then ucast ((v AND 0x7F) OR 0x80) # varint64 (drop_bit 7 v) else [ucast v])"
  by pat_completeness auto
termination
proof (relation "measure unat")
  fix v :: u64 assume "0x80 \<le> v"
  then have "0 < unat v" by (simp add: word_le_nat_alt)
  then show "(drop_bit 7 v, v) \<in> measure unat"
    by (simp add: drop_bit_eq_div unat_div)
qed simp

declare varint32.simps [simp del] varint64.simps [simp del]

definition writeUint32 :: "bytearray \<Rightarrow> u32 \<Rightarrow> bytearray res" where
  "writeUint32 ba v = write_ba ba (varint32 v)"

definition writeUint64 :: "bytearray \<Rightarrow> u64 \<Rightarrow> bytearray res" where
  "writeUint64 ba v = write_ba ba (varint64 v)"

definition writeInt32 :: "bytearray \<Rightarrow> u32 \<Rightarrow> bytearray res" where
  "writeInt32 ba v = writeUint32 ba (EncodeZigzag32 v)"

definition writeInt64 :: "bytearray \<Rightarrow> u64 \<Rightarrow> bytearray res" where
  "writeInt64 ba v = writeUint64 ba (EncodeZigzag64 v)"

text \<open>
  The loop \<open>for(int i = 0; i < bits; i += 7)\<close> of readUint32 (\<open>bits\<close> 32) and readUint64 (64).
\<close>

function read_varint :: "nat \<Rightarrow> nat \<Rightarrow> 'a::len word \<Rightarrow> bytearray \<Rightarrow> ('a word \<times> bytearray) res" where
  "read_varint bits i result ba =
     (if i < bits then
        sbind (readFuint8 ba)
          (\<lambda>(b, ba'). if b < 0x80 then Inr (result OR push_bit i (ucast b), ba')
             else read_varint bits (i + 7) (result OR push_bit i (ucast (b AND 0x7f))) ba')
      else Inr (result, ba))"
  by pat_completeness auto
termination by (relation "measure (\<lambda>(bits, i, _, _). bits - i)") auto

declare read_varint.simps [simp del]

definition readUint32 :: "bytearray \<Rightarrow> (u32 \<times> bytearray) res" where
  "readUint32 ba = read_varint 32 0 0 ba"

definition readUint64 :: "bytearray \<Rightarrow> (u64 \<times> bytearray) res" where
  "readUint64 ba = read_varint 64 0 0 ba"

definition readInt32 :: "bytearray \<Rightarrow> (u32 \<times> bytearray) res" where
  "readInt32 ba = sbind (readUint32 ba) (\<lambda>(v, ba'). Inr (DecodeZigzag32 v, ba'))"

definition readInt64 :: "bytearray \<Rightarrow> (u64 \<times> bytearray) res" where
  "readInt64 ba = sbind (readUint64 ba) (\<lambda>(v, ba'). Inr (DecodeZigzag64 v, ba'))"

section \<open>Floating point\<close>

definition writeFloat :: "bytearray \<Rightarrow> u32 \<Rightarrow> bytearray res" where
  "writeFloat ba v = writeFuint32 ba v"

definition writeDouble :: "bytearray \<Rightarrow> u64 \<Rightarrow> bytearray res" where
  "writeDouble ba v = writeFuint64 ba v"

text \<open>readFloat reads the four bytes and then flows off its end without a return.\<close>

definition readFloat :: "bytearray \<Rightarrow> (u32 \<times> bytearray) res" where
  "readFloat ba = sbind (readFuint32 ba) (\<lambda>_. Inl NoReturn)"

definition readDouble :: "bytearray \<Rightarrow> (u64 \<times> bytearray) res" where
  "readDouble ba = readFuint64 ba"

section \<open>Strings\<close>

definition string_max_size :: nat where
  "string_max_size = 2 ^ 63 - 2"

definition writeStringF16 :: "bytearray \<Rightarrow> byte list \<Rightarrow> bytearray res" where
  "writeStringF16 ba s = sbind (writeFuint16 ba (of_nat (length s))) (\<lambda>ba'. write_ba ba' s)"

definition writeStringF32 :: "bytearray \<Rightarrow> byte list \<Rightarrow> bytearray res" where
  "writeStringF32 ba s = sbind (writeFuint32 ba (of_nat (length s))) (\<lambda>ba'. write_ba ba' s)"

definition writeStringF64 :: "bytearray \<Rightarrow> byte list \<Rightarrow> bytearray res" where
  "writeStringF64 ba s = sbind (writeFuint64 ba (of_nat (length s))) (\<lambda>ba'. write_ba ba' s)"

definition writeStringVint :: "bytearray \<Rightarrow> byte list \<Rightarrow> bytearray res" where
  "writeStringVint ba s = sbind (writeUint64 ba (of_nat (length s))) (\<lambda>ba'. write_ba ba' s)"

definition writeStringWithoutLength :: "bytearray \<Rightarrow> byte list \<Rightarrow> bytearray res" where
  "writeStringWithoutLength ba s = write_ba ba s"

text \<open>\<open>buff.resize(len); read(&buff[0], len)\<close>: resize throws above \<open>max_size()\<close>.\<close>

definition read_string :: "nat \<Rightarrow> bytearray \<Rightarrow> (byte list \<times> bytearray) res" where
  "read_string len ba = (if string_max_size < len then Inl LengthError else read_ba ba len)"

definition readStringF16 :: "bytearray \<Rightarrow> (byte list \<times> bytearray) res" where
  "readStringF16 ba = sbind (readFuint16 ba) (\<lambda>(len, ba'). read_string (unat len) ba')"

definition readStringF32 :: "bytearray \<Rightarrow> (byte list \<times> bytearray) res" where
  "readStringF32 ba = sbind (readFuint32 ba) (\<lambda>(len, ba'). read_string (unat len) ba')"

definition readStringF64 :: "bytearray \<Rightarrow> (byte list \<times> bytearray) res" where
  "readStringF64 ba = sbind (readFuint64 ba) (\<lambda>(len, ba'). read_string (unat len) ba')"

definition readStringVint :: "bytearray \<Rightarrow> (byte list \<times> bytearray) res" where
  "readStringVint ba = sbind (readUint64 ba) (\<lambda>(len, ba'). read_string (unat len) ba')"

section \<open>Fixed-width integers: what is written, what is read\<close>

text \<open>The integer lies in memory in the array's byte order.\<close>

lemma write_fixed_writes:
  assumes "8 dvd LENGTH('a::len)"
  shows "ba.writes (\<lambda>s. m_endian s = e) (\<lambda>s. write_fixed s (v :: 'a word)) (mem_bytes e v)"
proof -
  have "write_fixed s v = write_ba s (mem_bytes e v)" if "m_endian s = e" for s
    using mem_bytes_swap [OF assms, of EXHY_BYTE_ORDER e v] that by (simp add: write_fixed_def Let_def)
  then show ?thesis
    using ba.writes_put [of "\<lambda>s. m_endian s = e" "mem_bytes e v"] by (simp add: ba.writes_def)
qed

lemma read_fixed_reads:
  assumes "8 dvd LENGTH('a::len)"
  shows "ba.reads (\<lambda>s. m_endian s = e) read_fixed (mem_bytes e v) (v :: 'a word)"
  unfolding ba.reads_def
proof (intro allI impI)
  fix s assume s: "wf s" "m_endian s = e" "has_at (mem s) (m_position s) (mem_bytes e v)"
  have "LENGTH('a) div 8 \<noteq> 0"
    using assms by (metis dvd_div_eq_0_iff len_gt_0 less_numeral_extra(3))
  then have "mem_bytes e v \<noteq> []" by (metis length_mem_bytes list.size(3))
  then obtain s' where s': "read_ba s (LENGTH('a) div 8) = Inr (mem_bytes e v, s')" "wf s'"
      "mem s' = mem s" "m_position s' = m_position s + LENGTH('a) div 8" "m_endian s' = e"
    using ba.reads_get [of "mem_bytes e v" "\<lambda>_. True"] s unfolding ba.reads_def by fastforce
  have len: "8 * length (mem_bytes e v) = LENGTH('a)" using assms by simp
  have "(if e = EXHY_BYTE_ORDER then of_mem_bytes EXHY_BYTE_ORDER (mem_bytes e v)
         else byteswap (of_mem_bytes EXHY_BYTE_ORDER (mem_bytes e v))) = v"
    using of_mem_bytes_swap [OF assms len] of_mem_bytes_mem_bytes [OF assms] by metis
  then show "\<exists>s'. read_fixed s = Inr (v, s') \<and> wf s' \<and> mem s' = mem s \<and>
      m_position s' = m_position s + length (mem_bytes e v) \<and> m_endian s' = m_endian s"
    using s' s(2) by (simp add: read_fixed_def)
qed

lemma readFuint8_reads: "ba.reads (\<lambda>_. True) readFuint8 [b] b"
proof -
  have "of_mem_bytes EXHY_BYTE_ORDER [b] = b"
    by (simp add: of_mem_bytes_def EXHY_BYTE_ORDER_def)
  then show ?thesis
    using ba.reads_map [OF ba.reads_get [of "[b]" "\<lambda>_. True"],
        of "\<lambda>bs _. of_mem_bytes EXHY_BYTE_ORDER bs" b]
    by (simp add: readFuint8_def [abs_def])
qed

section \<open>Zigzag is a bijection\<close>

lemma bit_EncodeZigzag32:
  "bit (EncodeZigzag32 v) n \<longleftrightarrow> n < 32 \<and> ((0 < n \<and> bit v (n - 1)) \<noteq> bit v 31)"
  unfolding EncodeZigzag32_def bit_xor_iff bit_push_bit_iff bit_signed_drop_bit_iff
  by (cases n) (auto dest: bit_imp_le_length)

lemma bit_EncodeZigzag64:
  "bit (EncodeZigzag64 v) n \<longleftrightarrow> n < 64 \<and> ((0 < n \<and> bit v (n - 1)) \<noteq> bit v 63)"
  unfolding EncodeZigzag64_def bit_xor_iff bit_push_bit_iff bit_signed_drop_bit_iff
  by (cases n) (auto dest: bit_imp_le_length)

lemma bit_minus_and_1: "bit (- (w AND 1) :: 'a::len word) n \<longleftrightarrow> n < LENGTH('a) \<and> bit w 0"
  by (cases "bit w 0") (simp_all add: and_one_eq bit_0 odd_iff_mod_2_eq_one even_iff_mod_2_eq_zero)

lemma bit_DecodeZigzag32: "bit (DecodeZigzag32 w) n \<longleftrightarrow> n < 32 \<and> (bit w (Suc n) \<noteq> bit w 0)"
  unfolding DecodeZigzag32_def bit_xor_iff bit_drop_bit_eq bit_minus_and_1
  by (auto dest: bit_imp_le_length)

lemma bit_DecodeZigzag64: "bit (DecodeZigzag64 w) n \<longleftrightarrow> n < 64 \<and> (bit w (Suc n) \<noteq> bit w 0)"
  unfolding DecodeZigzag64_def bit_xor_iff bit_drop_bit_eq bit_minus_and_1
  by (auto dest: bit_imp_le_length)

lemma DecodeZigzag32_EncodeZigzag32: "DecodeZigzag32 (EncodeZigzag32 v) = v"
proof (rule bit_word_eqI)
  fix n assume "n < LENGTH(32)"
  then have "n < 31 \<or> n = 31" by auto
  then show "bit (DecodeZigzag32 (EncodeZigzag32 v)) n = bit v n"
    by (auto simp: bit_DecodeZigzag32 bit_EncodeZigzag32)
qed

lemma DecodeZigzag64_EncodeZigzag64: "DecodeZigzag64 (EncodeZigzag64 v) = v"
proof (rule bit_word_eqI)
  fix n assume "n < LENGTH(64)"
  then have "n < 63 \<or> n = 63" by auto
  then show "bit (DecodeZigzag64 (EncodeZigzag64 v)) n = bit v n"
    by (auto simp: bit_DecodeZigzag64 bit_EncodeZigzag64)
qed

section \<open>Varints: what is written, what is read\<close>

text \<open>
  Both writers satisfy the same equation; the reader of the same width inverts anything that
  does. \<open>take_bit i v\<close> is what the reader has gathered after \<open>i\<close> bits.
\<close>

locale varint_codec =
  fixes enc :: "'a::len word \<Rightarrow> byte list" and bits :: nat
  assumes width: "LENGTH('a) = bits" and wide: "8 < bits"
    and enc_eq: "enc v = (if 0x80 \<le> v then ucast ((v AND 0x7F) OR 0x80) # enc (drop_bit 7 v) else [ucast v])"
begin

lemma enc_not_Nil: "enc v \<noteq> []"
  by (subst enc_eq) simp

lemma unat_0x80: "unat (0x80 :: 'a word) = 128"
proof -
  have "8 < LENGTH('a)" using wide width by simp
  then have "(2::nat) ^ 8 < 2 ^ LENGTH('a)" by (rule power_strict_increasing) simp
  then show ?thesis by (simp only: unat_numeral take_bit_nat_eq_self) (simp add: take_bit_nat_eq_self)
qed

lemma less_128: "v < (0x80 :: 'a word) \<longleftrightarrow> unat v < 128"
  unfolding word_less_nat_alt unat_0x80 ..

lemma le_128: "(0x80 :: 'a word) \<le> v \<longleftrightarrow> 128 \<le> unat v"
  unfolding word_le_nat_alt unat_0x80 ..

lemma unat_drop_bit: "unat (drop_bit i (v :: 'a word)) = unat v div 2 ^ i"
  by (metis unat_drop_bit_eq drop_bit_eq_div)

lemma drop_bit_high:
  assumes "i < bits" "0x80 \<le> drop_bit i (v :: 'a word)"
  shows "i + 7 < bits"
proof (rule ccontr)
  assume "\<not> i + 7 < bits"
  then have "unat v < 2 ^ (i + 7)"
    using unsigned_less [of v] width by (meson leI le_less_trans less_le_trans one_le_numeral power_increasing)
  then have "unat v div 2 ^ i < 128"
    by (simp add: less_mult_imp_div_less power_add)
  then show False using assms(2) by (simp add: le_128 unat_drop_bit)
qed

lemma ucast_more: "ucast (ucast ((d AND 0x7F) OR 0x80 :: 'a word) AND 0x7f :: byte) = take_bit 7 (d :: 'a word)"
proof (rule bit_word_eqI)
  fix n assume n: "n < LENGTH('a)"
  have m: "(0x7F :: 'a word) = mask 7" and m': "(0x7f :: byte) = mask 7"
    by (simp_all add: mask_eq_exp_minus_1)
  have e: "(0x80 :: 'a word) = push_bit 7 1" by simp
  show "bit (ucast (ucast ((d AND 0x7F) OR 0x80 :: 'a word) AND 0x7f :: byte) :: 'a word) n = bit (take_bit 7 d) n"
    unfolding m m' e bit_ucast_iff bit_and_iff bit_or_iff bit_mask_iff bit_take_bit_iff bit_push_bit_iff
    using n wide width by auto
qed

lemma ucast_more_big: "\<not> (ucast ((d AND 0x7F) OR 0x80 :: 'a word) < (0x80 :: byte))"
proof -
  have e: "(0x80 :: 'a word) = push_bit 7 1" by simp
  have "bit (ucast ((d AND 0x7F) OR 0x80 :: 'a word) :: byte) 7"
    unfolding e bit_ucast_iff bit_or_iff bit_push_bit_iff using wide width by simp
  moreover have "\<not> bit b 7" if "b < 0x80" for b :: byte
  proof -
    have "unat b div 2 ^ 7 = 0" using that by (simp add: word_less_nat_alt)
    then have "\<not> bit (unat b) 7" by (simp add: bit_iff_odd)
    then show ?thesis by (simp add: bit_unsigned_iff)
  qed
  ultimately show ?thesis by blast
qed

lemma ucast_last:
  assumes "\<not> 0x80 \<le> (d :: 'a word)"
  shows "(ucast d :: byte) < 0x80" and "ucast (ucast d :: byte) = d"
proof -
  have u: "unat d < 128" using assms by (simp only: le_128)
  have c: "unat (ucast d :: byte) = unat d"
    using u by (simp add: unsigned_ucast_eq unsigned_take_bit_eq take_bit_nat_eq_self)
  then show "(ucast d :: byte) < 0x80" using u by (simp add: word_less_nat_alt)
  have "unat (ucast (ucast d :: byte) :: 'a word) = unat d"
    using u unsigned_less [of d] by (simp add: unsigned_ucast_eq unsigned_take_bit_eq take_bit_nat_eq_self)
  then show "ucast (ucast d :: byte) = d"
    by (rule unsigned_word_eqI)
qed

lemma gather:
  "take_bit i v OR push_bit i (take_bit 7 (drop_bit i v)) = take_bit (i + 7) (v :: 'a word)"
  by (rule bit_word_eqI) (auto simp: bit_simps)

lemma gather_last: "take_bit i v OR push_bit i (drop_bit i v) = (v :: 'a word)"
proof (rule bit_word_eqI)
  fix n show "bit (take_bit i v OR push_bit i (drop_bit i v)) n = bit v n" if "n < LENGTH('a)"
    using that by (cases "i \<le> n") (auto simp: bit_simps)
qed

lemma read_varint_reads:
  "i < bits \<Longrightarrow> ba.reads (\<lambda>_. True) (read_varint bits i (take_bit i v)) (enc (drop_bit i v)) (v :: 'a word)"
proof (induction "bits - i" arbitrary: i rule: less_induct)
  case less
  let ?d = "drop_bit i v" and ?P = "\<lambda>_::bytearray. True"
  have un: "read_varint bits i (take_bit i v) =
      (\<lambda>s. sbind (readFuint8 s) (\<lambda>(b, s').
         if b < 0x80 then Inr (take_bit i v OR push_bit i (ucast b), s')
         else read_varint bits (i + 7) (take_bit i v OR push_bit i (ucast (b AND 0x7f))) s'))"
    using less.prems by (intro ext) (simp add: read_varint.simps [of bits i])
  show ?case
  proof (cases "0x80 \<le> ?d")
    case True
    define b where "b = (ucast ((?d AND 0x7F) OR 0x80) :: byte)"
    have i7: "i + 7 < bits" using less.prems True by (rule drop_bit_high)
    have bytes: "enc ?d = [b] @ enc (drop_bit (i + 7) v)"
      using True by (subst enc_eq) (simp add: b_def drop_bit_drop_bit add.commute)
    have big: "\<not> b < 0x80" unfolding b_def by (rule ucast_more_big)
    have "ucast (b AND 0x7f) = take_bit 7 ?d" unfolding b_def by (rule ucast_more)
    then have g: "take_bit i v OR push_bit i (ucast (b AND 0x7f)) = take_bit (i + 7) v"
      by (simp add: gather)
    have "ba.reads ?P (read_varint bits (i + 7) (take_bit (i + 7) v)) (enc (drop_bit (i + 7) v)) v"
      using less.hyps [of "i + 7"] less.prems i7 by simp
    then have "ba.reads ?P ((\<lambda>b s'. if b < 0x80 then Inr (take_bit i v OR push_bit i (ucast b), s')
         else read_varint bits (i + 7) (take_bit i v OR push_bit i (ucast (b AND 0x7f))) s') b)
         (enc (drop_bit (i + 7) v)) v"
      using big g by simp
    then show ?thesis
      unfolding un bytes by (rule ba.reads_seq [OF readFuint8_reads]) simp
  next
    case False
    define b where "b = (ucast ?d :: byte)"
    have bytes: "enc ?d = [b]" using False by (subst enc_eq) (simp add: b_def)
    have "b < 0x80" "ucast b = ?d" using ucast_last [OF False] by (simp_all add: b_def)
    then show ?thesis
      using readFuint8_reads [of b] by (fastforce simp: un bytes ba.reads_def gather_last)
  qed
qed

text \<open>The encoding never outgrows the buffer \<open>tmp\<close>: seven bits per byte.\<close>

lemma length_enc: "unat v < 128 ^ n \<Longrightarrow> length (enc v) \<le> max 1 n"
proof (induction n arbitrary: v)
  case 0
  then have "\<not> 0x80 \<le> v" by (simp only: le_128) simp
  then show ?case by (subst enc_eq) simp
next
  case (Suc n)
  show ?case
  proof (cases "0x80 \<le> v")
    case True
    then have big: "128 \<le> unat v" by (simp only: le_128)
    then have n: "0 < n" using Suc.prems by (cases n) auto
    have "unat (drop_bit 7 v) < 128 ^ n"
      using Suc.prems by (simp only: unat_drop_bit) (simp add: less_mult_imp_div_less mult.commute)
    from Suc.IH [OF this] True n show ?thesis by (subst enc_eq) simp
  qed (subst enc_eq, simp)
qed

end

interpretation v32: varint_codec varint32 32
proof unfold_locales
  fix v :: u32
  show "varint32 v = (if 0x80 \<le> v then ucast ((v AND 0x7F) OR 0x80) # varint32 (drop_bit 7 v) else [ucast v])"
    by (rule varint32.simps)
qed simp_all

interpretation v64: varint_codec varint64 64
proof unfold_locales
  fix v :: u64
  show "varint64 v = (if 0x80 \<le> v then ucast ((v AND 0x7F) OR 0x80) # varint64 (drop_bit 7 v) else [ucast v])"
    by (rule varint64.simps)
qed simp_all

section \<open>Round trips\<close>

lemma reads_back_fixed:
  assumes "wf ba" "8 dvd LENGTH('a::len)"
  shows "reads_back (\<lambda>b. write_fixed b (v :: 'a word)) read_fixed ba v (LENGTH('a) div 8)"
  by (rule reads_backI [OF write_fixed_writes [OF assms(2), of "m_endian ba"] read_fixed_reads [OF assms(2), of "m_endian ba"]])
     (use assms in simp_all)

text \<open>
  Every fixed-width integer, signed or unsigned, of 16, 32 and 64 bits that is written
  into a well-formed ByteArray, at any position, in either byte order and across any number of
  node boundaries, is the integer that is read back at that position.
\<close>

theorem fixed_width_roundtrip:
  assumes "wf ba"
  shows "reads_back (\<lambda>b. writeFint16 b v16) readFint16 ba v16 2 \<and>
    reads_back (\<lambda>b. writeFuint16 b v16) readFuint16 ba v16 2 \<and>
    reads_back (\<lambda>b. writeFint32 b v32) readFint32 ba v32 4 \<and>
    reads_back (\<lambda>b. writeFuint32 b v32) readFuint32 ba v32 4 \<and>
    reads_back (\<lambda>b. writeFint64 b v64) readFint64 ba v64 8 \<and>
    reads_back (\<lambda>b. writeFuint64 b v64) readFuint64 ba v64 8"
  using reads_back_fixed [OF assms, of v16] reads_back_fixed [OF assms, of v32]
    reads_back_fixed [OF assms, of v64]
  by (simp add: writeFint16_def [abs_def] writeFuint16_def [abs_def] writeFint32_def [abs_def]
      writeFuint32_def [abs_def] writeFint64_def [abs_def] writeFuint64_def [abs_def]
      readFint16_def [abs_def] readFuint16_def [abs_def] readFint32_def [abs_def]
      readFuint32_def [abs_def] readFint64_def [abs_def] readFuint64_def [abs_def])

text \<open>An array of three-byte nodes: the eight bytes of the integer lie in three nodes.\<close>

theorem fixed_width_roundtrip_witness:
  "wf (new_ByteArray (\<lambda>_ _. 0) 3) \<and>
   reads_back (\<lambda>b. writeFuint64 b 0x0123456789ABCDEF) readFuint64 (new_ByteArray (\<lambda>_ _. 0) 3) 0x0123456789ABCDEF 8"
proof -
  have wf: "wf (new_ByteArray (\<lambda>_ _. 0) 3)" by (rule wf_new) simp
  then show ?thesis using fixed_width_roundtrip by blast
qed

lemma reads_back_varint32:
  assumes "wf ba"
  shows "reads_back (\<lambda>b. writeUint32 b v) readUint32 ba v (length (varint32 v))"
proof -
  have "ba.reads (\<lambda>_. True) readUint32 (varint32 v) v"
    using v32.read_varint_reads [of 0 v] by (simp add: readUint32_def [abs_def])
  then show ?thesis
    unfolding writeUint32_def [abs_def]
    by (rule reads_backI [OF ba.writes_put [of "\<lambda>_. True"]]) (use assms in simp_all)
qed

lemma reads_back_varint64:
  assumes "wf ba"
  shows "reads_back (\<lambda>b. writeUint64 b v) readUint64 ba v (length (varint64 v))"
proof -
  have "ba.reads (\<lambda>_. True) readUint64 (varint64 v) v"
    using v64.read_varint_reads [of 0 v] by (simp add: readUint64_def [abs_def])
  then show ?thesis
    unfolding writeUint64_def [abs_def]
    by (rule reads_backI [OF ba.writes_put [of "\<lambda>_. True"]]) (use assms in simp_all)
qed

lemma reads_back_map:
  assumes "reads_back w d ba v n"
  shows "reads_back w (\<lambda>b. sbind (d b) (\<lambda>(v, b'). Inr (f v, b'))) ba (f v) n"
  using assms by (fastforce simp: reads_back_def)

lemma length_varint32: "1 \<le> length (varint32 v) \<and> length (varint32 v) \<le> 5"
proof -
  have "unat v < 2 ^ LENGTH(32)" by (rule unsigned_less)
  then have "unat v < 128 ^ 5" by simp
  then show ?thesis
    using v32.length_enc [of v 5] v32.enc_not_Nil [of v] by (cases "varint32 v") simp_all
qed

lemma length_varint64: "1 \<le> length (varint64 v) \<and> length (varint64 v) \<le> 10"
proof -
  have "unat v < 2 ^ LENGTH(64)" by (rule unsigned_less)
  then have "unat v < 128 ^ 10" by simp
  then show ?thesis
    using v64.length_enc [of v 10] v64.enc_not_Nil [of v] by (cases "varint64 v") simp_all
qed

text \<open>
  Every unsigned and every signed (zigzag) varint of 32 and 64 bits is read back as the
  integer that was written, and the bytes written fit the local buffers \<open>tmp[5]\<close> and \<open>tmp[10]\<close>
  of the writers.
\<close>

theorem varint_roundtrip:
  assumes "wf ba"
  shows "reads_back (\<lambda>b. writeUint32 b v32) readUint32 ba v32 (length (varint32 v32)) \<and>
    reads_back (\<lambda>b. writeUint64 b v64) readUint64 ba v64 (length (varint64 v64)) \<and>
    reads_back (\<lambda>b. writeInt32 b v32) readInt32 ba v32 (length (varint32 (EncodeZigzag32 v32))) \<and>
    reads_back (\<lambda>b. writeInt64 b v64) readInt64 ba v64 (length (varint64 (EncodeZigzag64 v64))) \<and>
    length (varint32 v32) \<le> 5 \<and> length (varint64 v64) \<le> 10"
  using reads_back_varint32 [OF assms, of v32] reads_back_varint64 [OF assms, of v64]
    reads_back_map [OF reads_back_varint32 [OF assms, of "EncodeZigzag32 v32"], of DecodeZigzag32]
    reads_back_map [OF reads_back_varint64 [OF assms, of "EncodeZigzag64 v64"], of DecodeZigzag64]
    length_varint32 [of v32] length_varint64 [of v64]
  by (simp add: writeInt32_def [abs_def] writeInt64_def [abs_def] readInt32_def [abs_def]
      readInt64_def [abs_def] DecodeZigzag32_EncodeZigzag32 DecodeZigzag64_EncodeZigzag64)

theorem varint_roundtrip_witness:
  "wf (new_ByteArray (\<lambda>_ _. 0) 1) \<and>
   reads_back (\<lambda>b. writeInt32 b (- 300)) readInt32 (new_ByteArray (\<lambda>_ _. 0) 1) (- 300)
     (length (varint32 (EncodeZigzag32 (- 300))))"
proof -
  have wf: "wf (new_ByteArray (\<lambda>_ _. 0) 1)" by (rule wf_new) simp
  then show ?thesis using varint_roundtrip by blast
qed

subsection \<open>Strings\<close>

lemma read_string_reads:
  assumes "s \<noteq> [] \<or> (\<forall>b. P b \<longrightarrow> m_position b < length (mem b))" "length s \<le> string_max_size"
  shows "ba.reads P (read_string (length s)) s s"
proof -
  have "ba.reads P (\<lambda>b. read_ba b (length s)) s s"
  proof (cases "s = []")
    case True
    then show ?thesis using assms(1) ba.reads_get_Nil by (auto simp: ba.reads_def)
  qed (rule ba.reads_get)
  then show ?thesis using assms(2) by (simp add: read_string_def [abs_def])
qed

lemma reads_back_string:
  assumes w: "ba.writes (\<lambda>b. m_endian b = e) wl bs"
    and d: "ba.reads (\<lambda>b. m_endian b = e) rl bs l"
    and len: "unat (l :: 'a::len word) = length s" "length s \<le> string_max_size"
    and ba: "wf ba" "m_endian ba = e" "s \<noteq> [] \<or> m_position ba + length bs < m_capacity ba"
  shows "reads_back (\<lambda>b. sbind (wl b) (\<lambda>b'. write_ba b' s))
    (\<lambda>b. sbind (rl b) (\<lambda>(l, b'). read_string (unat l) b')) ba s (length bs + length s)"
proof -
  let ?R = "\<lambda>b. s \<noteq> [] \<or> m_position b < length (mem b)"
  let ?Q = "\<lambda>b. m_endian b = e \<and> (s \<noteq> [] \<or> m_position b + length bs < length (mem b))"
  have w': "ba.writes (\<lambda>b. m_endian b = e) (\<lambda>b. sbind (wl b) (\<lambda>b'. write_ba b' s)) (bs @ s)"
    by (rule ba.writes_seq [OF w ba.writes_put]) simp
  have "ba.reads ?R (read_string (unat l)) s s"
    unfolding len(1) by (rule read_string_reads) (use len(2) in auto)
  then have d': "ba.reads ?Q (\<lambda>b. sbind (rl b) (\<lambda>(l, b'). read_string (unat l) b')) (bs @ s) s"
    by (rule ba.reads_seq [rotated]) (use d in \<open>auto simp: ba.reads_def\<close>)
  show ?thesis
    by (rule reads_backI [OF w' d']) (use ba length_mem [OF ba(1)] in auto)
qed

text \<open>
  A string written with any of the four length prefixes is read back whole, when its
  length fits the prefix and it is not empty, or it is empty and memory is left behind it.
\<close>

theorem string_roundtrip:
  assumes "wf ba" "length s \<le> string_max_size" "s \<noteq> [] \<or> m_position ba + 10 < m_capacity ba"
  shows "(length s < 2 ^ 16 \<longrightarrow> reads_back (\<lambda>b. writeStringF16 b s) readStringF16 ba s (2 + length s)) \<and>
    (length s < 2 ^ 32 \<longrightarrow> reads_back (\<lambda>b. writeStringF32 b s) readStringF32 ba s (4 + length s)) \<and>
    reads_back (\<lambda>b. writeStringF64 b s) readStringF64 ba s (8 + length s) \<and>
    reads_back (\<lambda>b. writeStringVint b s) readStringVint ba s
      (length (varint64 (of_nat (length s))) + length s)"
proof -
  have fit: "length s < 2 ^ 64" using assms(2) by (simp add: string_max_size_def)
  have u64: "unat (of_nat (length s) :: u64) = length s"
    using fit by (simp add: unat_of_nat)
  have 1: "reads_back (\<lambda>b. writeStringF16 b s) readStringF16 ba s (2 + length s)" if "length s < 2 ^ 16"
    using reads_back_string [where l = "of_nat (length s) :: u16" and s = s and ba = ba, OF write_fixed_writes [of "m_endian ba"]
          read_fixed_reads [of "m_endian ba"]] that assms
    by (auto simp: unat_of_nat writeStringF16_def [abs_def] readStringF16_def [abs_def]
        writeFuint16_def readFuint16_def)
  have 2: "reads_back (\<lambda>b. writeStringF32 b s) readStringF32 ba s (4 + length s)" if "length s < 2 ^ 32"
    using reads_back_string [where l = "of_nat (length s) :: u32" and s = s and ba = ba, OF write_fixed_writes [of "m_endian ba"]
          read_fixed_reads [of "m_endian ba"]] that assms
    by (auto simp: unat_of_nat writeStringF32_def [abs_def] readStringF32_def [abs_def]
        writeFuint32_def readFuint32_def)
  have 3: "reads_back (\<lambda>b. writeStringF64 b s) readStringF64 ba s (8 + length s)"
    using reads_back_string [where l = "of_nat (length s) :: u64" and s = s and ba = ba, OF write_fixed_writes [of "m_endian ba"]
          read_fixed_reads [of "m_endian ba"]] u64 assms
    by (auto simp: writeStringF64_def [abs_def] readStringF64_def [abs_def]
        writeFuint64_def readFuint64_def)
  have "ba.reads (\<lambda>b. m_endian b = m_endian ba) readUint64 (varint64 (of_nat (length s))) (of_nat (length s))"
    using ba.reads_weaken [OF v64.read_varint_reads [of 0 "of_nat (length s)"]]
    by (simp add: readUint64_def [abs_def])
  note vint = reads_back_string [OF ba.writes_put this u64 assms(2,1) refl]
  have "s \<noteq> [] \<or> m_position ba + length (varint64 (of_nat (length s))) < m_capacity ba"
    using assms(3) length_varint64 [of "of_nat (length s)"] by linarith
  from vint [OF this] have 4: "reads_back (\<lambda>b. writeStringVint b s) readStringVint ba s
      (length (varint64 (of_nat (length s))) + length s)"
    by (simp add: writeStringVint_def [abs_def] readStringVint_def [abs_def] writeUint64_def)
  from 1 2 3 4 show ?thesis by blast
qed

theorem string_roundtrip_witness:
  "reads_back (\<lambda>b. writeStringF16 b [104, 105]) readStringF16 (new_ByteArray (\<lambda>_ _. 0) 3) [104, 105] 4"
  using string_roundtrip [of "new_ByteArray (\<lambda>_ _. 0) 3" "[104, 105]"] wf_new [of 3 "\<lambda>_ _. 0"]
  by (simp add: string_max_size_def)

subsection \<open>Sequences of typed values\<close>

text \<open>A message is a list of typed fields; it is written and read field by field.\<close>

datatype field = U8 byte | U16 u16 | U32 u32 | U64 u64 | V32 u32 | V64 u64 | S32 u32 | S64 u64 | Str "byte list"

fun write_field :: "field \<Rightarrow> bytearray \<Rightarrow> bytearray res" where
  "write_field (U8 v) ba = writeFuint8 ba v"
| "write_field (U16 v) ba = writeFuint16 ba v"
| "write_field (U32 v) ba = writeFuint32 ba v"
| "write_field (U64 v) ba = writeFuint64 ba v"
| "write_field (V32 v) ba = writeUint32 ba v"
| "write_field (V64 v) ba = writeUint64 ba v"
| "write_field (S32 v) ba = writeInt32 ba v"
| "write_field (S64 v) ba = writeInt64 ba v"
| "write_field (Str s) ba = writeStringF32 ba s"

definition tag :: "('v \<Rightarrow> field) \<Rightarrow> ('v \<times> bytearray) res \<Rightarrow> (field \<times> bytearray) res" where
  "tag C r = sbind r (\<lambda>(v, ba). Inr (C v, ba))"

text \<open>The reader knows the type of each field (the constructor), not its value.\<close>

fun read_like :: "field \<Rightarrow> bytearray \<Rightarrow> (field \<times> bytearray) res" where
  "read_like (U8 _) ba = tag U8 (readFuint8 ba)"
| "read_like (U16 _) ba = tag U16 (readFuint16 ba)"
| "read_like (U32 _) ba = tag U32 (readFuint32 ba)"
| "read_like (U64 _) ba = tag U64 (readFuint64 ba)"
| "read_like (V32 _) ba = tag V32 (readUint32 ba)"
| "read_like (V64 _) ba = tag V64 (readUint64 ba)"
| "read_like (S32 _) ba = tag S32 (readInt32 ba)"
| "read_like (S64 _) ba = tag S64 (readInt64 ba)"
| "read_like (Str _) ba = tag Str (readStringF32 ba)"

fun write_fields :: "field list \<Rightarrow> bytearray \<Rightarrow> bytearray res" where
  "write_fields [] ba = Inr ba"
| "write_fields (f # fs) ba = sbind (write_field f ba) (write_fields fs)"

fun read_fields :: "field list \<Rightarrow> bytearray \<Rightarrow> (field list \<times> bytearray) res" where
  "read_fields [] ba = Inr ([], ba)"
| "read_fields (f # fs) ba =
     sbind (read_like f ba) (\<lambda>(g, ba'). sbind (read_fields fs ba') (\<lambda>(gs, ba''). Inr (g # gs, ba'')))"

fun field_ok :: "field \<Rightarrow> bool" where
  "field_ok (Str s) = (s \<noteq> [] \<and> length s < 2 ^ 32)"
| "field_ok _ = True"

fun field_bytes :: "endian \<Rightarrow> field \<Rightarrow> byte list" where
  "field_bytes e (U8 v) = [v]"
| "field_bytes e (U16 v) = mem_bytes e v"
| "field_bytes e (U32 v) = mem_bytes e v"
| "field_bytes e (U64 v) = mem_bytes e v"
| "field_bytes e (V32 v) = varint32 v"
| "field_bytes e (V64 v) = varint64 v"
| "field_bytes e (S32 v) = varint32 (EncodeZigzag32 v)"
| "field_bytes e (S64 v) = varint64 (EncodeZigzag64 v)"
| "field_bytes e (Str s) = mem_bytes e (of_nat (length s) :: u32) @ s"

lemmas codec_defs = writeFuint8_def [abs_def] writeFuint16_def [abs_def] writeFuint32_def [abs_def]
  writeFuint64_def [abs_def] writeUint32_def [abs_def] writeUint64_def [abs_def]
  writeInt32_def [abs_def] writeInt64_def [abs_def] writeStringF32_def [abs_def]
  readFuint16_def [abs_def] readFuint32_def [abs_def] readFuint64_def [abs_def]
  readUint32_def [abs_def] readUint64_def [abs_def] readInt32_def [abs_def]
  readInt64_def [abs_def] readStringF32_def [abs_def]

text \<open>The two functions as functions of the array alone.\<close>

lemma write_field_fun:
  "write_field (U8 v8) = (\<lambda>b. writeFuint8 b v8)"
  "write_field (U16 v16) = (\<lambda>b. writeFuint16 b v16)"
  "write_field (U32 v) = (\<lambda>b. writeFuint32 b v)"
  "write_field (U64 w) = (\<lambda>b. writeFuint64 b w)"
  "write_field (V32 v) = (\<lambda>b. writeUint32 b v)"
  "write_field (V64 w) = (\<lambda>b. writeUint64 b w)"
  "write_field (S32 v) = (\<lambda>b. writeInt32 b v)"
  "write_field (S64 w) = (\<lambda>b. writeInt64 b w)"
  "write_field (Str s) = (\<lambda>b. writeStringF32 b s)"
  by (rule ext, simp)+

lemma read_like_fun:
  "read_like (U8 v8) = (\<lambda>b. tag U8 (readFuint8 b))"
  "read_like (U16 v16) = (\<lambda>b. tag U16 (readFuint16 b))"
  "read_like (U32 v) = (\<lambda>b. tag U32 (readFuint32 b))"
  "read_like (U64 w) = (\<lambda>b. tag U64 (readFuint64 b))"
  "read_like (V32 v) = (\<lambda>b. tag V32 (readUint32 b))"
  "read_like (V64 w) = (\<lambda>b. tag V64 (readUint64 b))"
  "read_like (S32 v) = (\<lambda>b. tag S32 (readInt32 b))"
  "read_like (S64 w) = (\<lambda>b. tag S64 (readInt64 b))"
  "read_like (Str s) = (\<lambda>b. tag Str (readStringF32 b))"
  by (rule ext, simp)+

lemma write_field_writes: "ba.writes (\<lambda>b. m_endian b = e) (write_field f) (field_bytes e f)"
proof (cases f)
  case (Str s)
  have "ba.writes (\<lambda>b. m_endian b = e) (\<lambda>b. sbind (write_fixed b (of_nat (length s) :: u32)) (\<lambda>b'. write_ba b' s))
      (mem_bytes e (of_nat (length s) :: u32) @ s)"
    by (rule ba.writes_seq [OF write_fixed_writes ba.writes_put]) simp_all
  with Str show ?thesis by (simp add: write_field_fun codec_defs)
qed (simp_all add: write_field_fun codec_defs ba.writes_put write_fixed_writes)

lemma tag_reads: "ba.reads P d bs v \<Longrightarrow> ba.reads P (\<lambda>b. tag C (d b)) bs (C v)"
  unfolding tag_def by (erule ba.reads_map [where f = "\<lambda>v _. C v"]) simp

lemma read_like_reads:
  assumes "field_ok f"
  shows "ba.reads (\<lambda>b. m_endian b = e) (read_like f) (field_bytes e f) f"
proof -
  note weak = ba.reads_weaken [where P = "\<lambda>_. True" and Q = "\<lambda>b. m_endian b = e"]
  have v32: "ba.reads (\<lambda>b. m_endian b = e) readUint32 (varint32 v) v" for v
    using weak [OF v32.read_varint_reads [of 0 v]] by (simp add: readUint32_def [abs_def])
  have v64: "ba.reads (\<lambda>b. m_endian b = e) readUint64 (varint64 v) v" for v
    using weak [OF v64.read_varint_reads [of 0 v]] by (simp add: readUint64_def [abs_def])
  show ?thesis
  proof (cases f)
    case (U8 v)
    then show ?thesis using tag_reads [OF weak [OF readFuint8_reads], where C = U8] by (simp add: read_like_fun)
  next
    case (U16 v)
    then show ?thesis using tag_reads [OF read_fixed_reads [of e v], where C = U16] by (simp add: read_like_fun codec_defs)
  next
    case (U32 v)
    then show ?thesis using tag_reads [OF read_fixed_reads [of e v], where C = U32] by (simp add: read_like_fun codec_defs)
  next
    case (U64 v)
    then show ?thesis using tag_reads [OF read_fixed_reads [of e v], where C = U64] by (simp add: read_like_fun codec_defs)
  next
    case (V32 v)
    then show ?thesis using tag_reads [OF v32, where C = V32] by (simp add: read_like_fun)
  next
    case (V64 v)
    then show ?thesis using tag_reads [OF v64, where C = V64] by (simp add: read_like_fun)
  next
    case (S32 v)
    then show ?thesis
      using tag_reads [OF ba.reads_map [OF v32 [of "EncodeZigzag32 v"], of "\<lambda>x _. DecodeZigzag32 x" v], where C = S32]
      by (simp add: read_like_fun readInt32_def [abs_def] DecodeZigzag32_EncodeZigzag32)
  next
    case (S64 v)
    then show ?thesis
      using tag_reads [OF ba.reads_map [OF v64 [of "EncodeZigzag64 v"], of "\<lambda>x _. DecodeZigzag64 x" v], where C = S64]
      by (simp add: read_like_fun readInt64_def [abs_def] DecodeZigzag64_EncodeZigzag64)
  next
    case (Str s)
    let ?l = "of_nat (length s) :: u32"
    have u: "unat ?l = length s" using assms Str by (simp add: unat_of_nat)
    have "ba.reads (\<lambda>_. True) (read_string (unat ?l)) s s"
      unfolding u by (rule read_string_reads) (use assms Str in \<open>auto simp: string_max_size_def\<close>)
    then have "ba.reads (\<lambda>b. m_endian b = e) (\<lambda>b. sbind (read_fixed b) (\<lambda>(l, b'). read_string (unat (l :: u32)) b'))
        (mem_bytes e ?l @ s) s"
      by (rule ba.reads_seq [OF read_fixed_reads, rotated]) simp_all
    from tag_reads [OF this, where C = Str] Str show ?thesis by (simp add: read_like_fun codec_defs)
  qed
qed

lemma write_fields_writes:
  "ba.writes (\<lambda>b. m_endian b = e) (write_fields fs) (concat (map (field_bytes e) fs))"
proof (induction fs)
  case Nil
  show ?case unfolding ba.writes_def
  proof (intro allI impI)
    fix b assume "wf b"
    then have "m_position b \<le> length (mem b)" by (simp add: length_mem) (simp add: wf_def)
    then show "\<exists>s' j. write_fields [] b = Inr s' \<and> wf s' \<and>
        mem s' = overwrite (m_position b) (concat (map (field_bytes e) [])) (mem b @ j) \<and>
        m_position b + length (concat (map (field_bytes e) [])) \<le> length (mem b @ j) \<and>
        m_position s' = m_position b + length (concat (map (field_bytes e) [])) \<and> m_endian s' = m_endian b"
      using \<open>wf b\<close> by (intro exI [of _ b] exI [of _ "[]"]) simp
  qed
next
  case (Cons f fs)
  have "ba.writes (\<lambda>b. m_endian b = e) (\<lambda>b. sbind (write_field f b) (write_fields fs))
      (field_bytes e f @ concat (map (field_bytes e) fs))"
    by (rule ba.writes_seq [OF write_field_writes Cons.IH]) simp
  then show ?case by simp
qed

lemma read_fields_reads:
  "list_all field_ok fs \<Longrightarrow> ba.reads (\<lambda>b. m_endian b = e) (read_fields fs) (concat (map (field_bytes e) fs)) fs"
proof (induction fs)
  case Nil
  then show ?case by (simp add: ba.reads_def)
next
  case (Cons f fs)
  then have f: "ba.reads (\<lambda>b. m_endian b = e) (read_like f) (field_bytes e f) f"
    and IH: "ba.reads (\<lambda>b. m_endian b = e) (read_fields fs) (concat (map (field_bytes e) fs)) fs"
    by (simp_all add: read_like_reads)
  have "ba.reads (\<lambda>b. m_endian b = e) (\<lambda>b. sbind (read_fields fs b) (\<lambda>(gs, b'). Inr (f # gs, b')))
      (concat (map (field_bytes e) fs)) (f # fs)"
    by (rule ba.reads_map [OF IH, of "\<lambda>gs _. f # gs"]) simp
  then have "ba.reads (\<lambda>b. m_endian b = e)
      (\<lambda>b. sbind (read_like f b) (\<lambda>(g, b'). sbind (read_fields fs b') (\<lambda>(gs, b''). Inr (g # gs, b''))))
      (field_bytes e f @ concat (map (field_bytes e) fs)) (f # fs)"
    by (rule ba.reads_seq [OF f]) simp
  then show ?case by simp
qed

text \<open>
  Claim C5. A whole message, any sequence of fixed-width integers, varints, zigzag varints and
  non-empty strings, is read back field by field from the position it was written at.
\<close>

theorem message_roundtrip:
  assumes "wf ba" "list_all field_ok fs"
  shows "reads_back (write_fields fs) (read_fields fs) ba fs
    (length (concat (map (field_bytes (m_endian ba)) fs)))"
  by (rule reads_backI [OF write_fields_writes read_fields_reads [OF assms(2)]]) (use assms in simp_all)

theorem message_roundtrip_witness:
  "reads_back (write_fields [V32 300, Str [7, 8, 9], U16 5])
     (read_fields [V32 300, Str [7, 8, 9], U16 5]) (new_ByteArray (\<lambda>_ _. 0) 4) [V32 300, Str [7, 8, 9], U16 5]
     (length (concat (map (field_bytes BIG_ENDIAN) [V32 300, Str [7, 8, 9], U16 5])))"
  using message_roundtrip [of "new_ByteArray (\<lambda>_ _. 0) 4" "[V32 300, Str [7, 8, 9], U16 5]"]
    wf_new [of 4 "\<lambda>_ _. 0"]
  by (simp add: new_ByteArray_def)

end
