(* ===== verification/ByteView.thy ===== *)
theory ByteView
  imports ByteStore
begin

text \<open>
  How exhy::ByteArray shows its memory to others without copying it byte by byte through the
  cursor: the const \<open>read\<close> behind \<open>toString\<close> and \<open>toHexString\<close>, the iovec lists of
  \<open>getReadBuffers\<close> and \<open>getWriteBuffers\<close> that readv and writev fill and drain, and the file
  transfers \<open>writeToFile\<close> and \<open>readFromFile\<close>. An iovec is the number of a node, an offset into
  it and a length.
\<close>

section \<open>The const read, toString, toHexString\<close>

text \<open>
  \<open>read(buf, size, position) const\<close>: the local \<open>cur\<close> walks over the nodes, but the bytes are
  copied from \<open>m_cur\<close> throughout. \<open>cur->size\<close> and \<open>cur->next\<close> fault on a null \<open>cur\<close>.
\<close>

function read_at_loop :: "bytearray \<Rightarrow> nat \<Rightarrow> nat option \<Rightarrow> nat \<Rightarrow> nat \<Rightarrow> nat \<Rightarrow> byte list res" where
  "read_at_loop ba m cur pos_cnode cap_left sz =
     (if sz = 0 then Inr []
      else case cur of
        None \<Rightarrow> Inl NullDeref
      | Some k \<Rightarrow>
          if sz \<le> cap_left then Inr (block_at pos_cnode sz (m_nodes ba ! m))
          else sbind (read_at_loop ba m (next_node ba k) 0 (node_size ba m) (sz - cap_left))
                 (\<lambda>bs. Inr (block_at pos_cnode cap_left (m_nodes ba ! m) @ bs)))"
  by pat_completeness auto
termination
  by (relation "measure (\<lambda>(ba, _, cur, _). case cur of None \<Rightarrow> 0 | Some k \<Rightarrow> Suc (length (m_nodes ba) - k))")
     (auto simp: next_node_def split: if_splits)

declare read_at_loop.simps [simp del]

definition read_at :: "bytearray \<Rightarrow> nat \<Rightarrow> nat \<Rightarrow> byte list res" where
  "read_at ba sz position =
     (if m_baseSize ba = 0 then Inl DivByZero
      else let pos_cnode = position mod m_baseSize ba
        in case m_cur ba of
             None \<Rightarrow> Inl NullDeref
           | Some m \<Rightarrow> read_at_loop ba m (Some m) pos_cnode (node_size ba m - pos_cnode) sz)"

definition toString :: "bytearray \<Rightarrow> byte list res" where
  "toString ba =
     (if 2 ^ 63 - 2 < getReadSize ba then Inl LengthError
      else if getReadSize ba = 0 then Inr []
      else read_at ba (getReadSize ba) (m_position ba))"

definition hex_digit :: "nat \<Rightarrow> char" where
  "hex_digit d = ''0123456789abcdef'' ! d"

definition hex_byte :: "byte \<Rightarrow> string" where
  "hex_byte b = [hex_digit (unat b div 16), hex_digit (unat b mod 16), CHR '' '']"

text \<open>The loop of \<open>toHexString\<close> from index \<open>i\<close> on: a new line before every 32nd byte but the first.\<close>

primrec hex_loop :: "nat \<Rightarrow> byte list \<Rightarrow> string" where
  "hex_loop i [] = []"
| "hex_loop i (b # bs) =
     (if 0 < i \<and> i mod 32 = 0 then [CHR 0x0A] else []) @ hex_byte b @ hex_loop (Suc i) bs"

definition toHexString :: "bytearray \<Rightarrow> string res" where
  "toHexString ba = sbind (toString ba) (\<lambda>str. Inr (hex_loop 0 str))"

section \<open>Buffers for readv and writev\<close>

record iovec =
  iov_node :: nat
  iov_off :: nat
  iov_len :: nat

text \<open>
  The loop of the two-argument getReadBuffers: the room it assumes in every node but the first
  is that of \<open>m_cur\<close> (node \<open>m\<close>).
\<close>

function read_buffers_loop :: "bytearray \<Rightarrow> nat \<Rightarrow> nat option \<Rightarrow> nat \<Rightarrow> nat \<Rightarrow> nat \<Rightarrow> iovec list res" where
  "read_buffers_loop ba m cur pos_cnode cap_left len =
     (if len = 0 then Inr []
      else case cur of
        None \<Rightarrow> Inl NullDeref
      | Some k \<Rightarrow>
          if len \<le> cap_left then Inr [\<lparr>iov_node = k, iov_off = pos_cnode, iov_len = len\<rparr>]
          else sbind (read_buffers_loop ba m (next_node ba k) 0 (node_size ba m) (len - cap_left))
                 (\<lambda>vs. Inr (\<lparr>iov_node = k, iov_off = pos_cnode, iov_len = cap_left\<rparr> # vs)))"
  by pat_completeness auto
termination
  by (relation "measure (\<lambda>(ba, _, cur, _). case cur of None \<Rightarrow> 0 | Some k \<Rightarrow> Suc (length (m_nodes ba) - k))")
     (auto simp: next_node_def split: if_splits)

declare read_buffers_loop.simps [simp del]

definition getReadBuffers :: "bytearray \<Rightarrow> nat \<Rightarrow> (nat \<times> iovec list) res" where
  "getReadBuffers ba len =
     (let len = (if getReadSize ba < len then getReadSize ba else len)
      in if len = 0 then Inr (0, [])
         else if m_baseSize ba = 0 then Inl DivByZero
         else let pos_cnode = m_position ba mod m_baseSize ba
           in case m_cur ba of
                None \<Rightarrow> Inl NullDeref
              | Some m \<Rightarrow>
                  sbind (read_buffers_loop ba m (Some m) pos_cnode (node_size ba m - pos_cnode) len)
                    (\<lambda>vs. Inr (len, vs)))"

text \<open>The loop of the other two, which asks each node for its own size.\<close>

function buffers_loop :: "bytearray \<Rightarrow> nat \<Rightarrow> nat \<Rightarrow> nat \<Rightarrow> nat \<Rightarrow> iovec list res" where
  "buffers_loop ba k npos ncap len =
     (if len = 0 then Inr []
      else if len \<le> ncap then Inr [\<lparr>iov_node = k, iov_off = npos, iov_len = len\<rparr>]
      else case next_node ba k of
          None \<Rightarrow> Inl NullDeref
        | Some k' \<Rightarrow>
            sbind (buffers_loop ba k' 0 (node_size ba k') (len - ncap))
              (\<lambda>vs. Inr (\<lparr>iov_node = k, iov_off = npos, iov_len = ncap\<rparr> # vs)))"
  by pat_completeness auto
termination
  by (relation "measure (\<lambda>(ba, k, _). length (m_nodes ba) - k)")
     (auto simp: next_node_def split: if_splits)

declare buffers_loop.simps [simp del]

text \<open>\<open>count\<close> steps from \<open>m_root\<close>; a step from null, and the use of a null \<open>cur\<close>, fault.\<close>

definition nth_node :: "bytearray \<Rightarrow> nat \<Rightarrow> nat res" where
  "nth_node ba count = (if count < length (m_nodes ba) then Inr count else Inl NullDeref)"

definition getReadBuffers_at :: "bytearray \<Rightarrow> nat \<Rightarrow> nat \<Rightarrow> (nat \<times> iovec list) res" where
  "getReadBuffers_at ba len position =
     (let len = (if getReadSize ba < len then getReadSize ba else len)
      in if len = 0 then Inr (0, [])
         else if m_baseSize ba = 0 then Inl DivByZero
         else let npos = position mod m_baseSize ba; count = position div m_baseSize ba
           in sbind (nth_node ba count)
                (\<lambda>k. sbind (buffers_loop ba k npos (node_size ba k - npos) len) (\<lambda>vs. Inr (len, vs))))"

definition getWriteBuffers :: "bytearray \<Rightarrow> nat \<Rightarrow> (nat \<times> iovec list \<times> bytearray) res" where
  "getWriteBuffers ba len =
     (if len = 0 then Inr (0, [], ba)
      else if m_baseSize ba = 0 then Inl DivByZero
      else let ba1 = addCapacity ba len; npos = m_position ba1 mod m_baseSize ba1
        in case m_cur ba1 of
             None \<Rightarrow> Inl NullDeref
           | Some k \<Rightarrow>
               sbind (buffers_loop ba1 k npos (node_size ba1 k - npos) len) (\<lambda>vs. Inr (len, vs, ba1)))"

text \<open>What writev sends for a list of buffers, and what readv leaves when it receives \<open>bs\<close>.\<close>

definition iov_bytes :: "bytearray \<Rightarrow> iovec \<Rightarrow> byte list" where
  "iov_bytes ba v = block_at (iov_off v) (iov_len v) (m_nodes ba ! iov_node v)"

definition gather :: "bytearray \<Rightarrow> iovec list \<Rightarrow> byte list" where
  "gather ba vs = concat (map (iov_bytes ba) vs)"

primrec scatter :: "iovec list \<Rightarrow> byte list \<Rightarrow> bytearray \<Rightarrow> bytearray" where
  "scatter [] bs ba = ba"
| "scatter (v # vs) bs ba =
     scatter vs (drop (iov_len v) bs) (store (iov_node v) (iov_off v) (take (iov_len v) bs) ba)"

section \<open>Files\<close>

text \<open>
  \<open>writeToFile\<close> once the stream is open: the bytes that go to the file. \<open>len\<close> is an int64_t; a
  negative \<open>len\<close> breaks the precondition of \<open>ofs.write\<close>.
\<close>

function write_file_loop :: "bytearray \<Rightarrow> nat option \<Rightarrow> int \<Rightarrow> int \<Rightarrow> byte list res" where
  "write_file_loop ba cur pos read_size =
     (if read_size \<le> 0 then Inr []
      else case cur of
        None \<Rightarrow> Inl NullDeref
      | Some k \<Rightarrow>
          let b = int (m_baseSize ba);
              diff = pos mod b;
              len = (if b < read_size then b else read_size) - diff
          in if len < 0 then Inl NegativeCount
             else sbind (write_file_loop ba (next_node ba k) (pos + len) (read_size - len))
                    (\<lambda>bs. Inr (block_at (nat diff) (nat len) (m_nodes ba ! k) @ bs)))"
  by pat_completeness auto
termination
  by (relation "measure (\<lambda>(ba, cur, _). case cur of None \<Rightarrow> 0 | Some k \<Rightarrow> Suc (length (m_nodes ba) - k))")
     (auto simp: next_node_def split: if_splits)

declare write_file_loop.simps [simp del]

definition to_int64 :: "nat \<Rightarrow> int" where
  "to_int64 n = (if n < 2 ^ 63 then int n else int n - 2 ^ 64)"

text \<open>\<open>opened\<close>: the stream could be opened. The result is the return value and the file's bytes.\<close>

definition writeToFile :: "bool \<Rightarrow> bytearray \<Rightarrow> (bool \<times> byte list) res" where
  "writeToFile opened ba =
     (if \<not> opened then Inr (False, [])
      else if 0 < to_int64 (getReadSize ba) \<and> m_baseSize ba = 0 then Inl DivByZero
      else sbind (write_file_loop ba (m_cur ba) (int (m_position ba)) (to_int64 (getReadSize ba)))
             (\<lambda>bs. Inr (True, bs)))"

text \<open>
  The loop of \<open>readFromFile\<close> with \<open>b\<close> for \<open>m_baseSize\<close>: \<open>ifs.read\<close> delivers \<open>b\<close> bytes, or fewer
  and then \<open>eof()\<close>; when the length of the file is a multiple of \<open>b\<close> the last chunk is empty.
  With \<open>b = 0\<close> the end of the file is never met: the loop does not return (\<open>None\<close>).
\<close>

function read_file_loop :: "nat \<Rightarrow> bytearray \<Rightarrow> byte list \<Rightarrow> bytearray res option" where
  "read_file_loop b ba file =
     (if b = 0 then None
      else if length file < b then Some (write_ba ba file)
      else case write_ba ba (take b file) of
          Inl e \<Rightarrow> Some (Inl e)
        | Inr ba' \<Rightarrow> read_file_loop b ba' (drop b file))"
  by pat_completeness auto
termination by (relation "measure (\<lambda>(_, _, file). length file)") auto

declare read_file_loop.simps [simp del]

text \<open>\<open>readFromFile\<close> for a file that can be opened (with its bytes) or cannot (\<open>None\<close>).\<close>

definition readFromFile :: "bytearray \<Rightarrow> byte list option \<Rightarrow> (bool \<times> bytearray) res option" where
  "readFromFile ba file =
     (case file of
        None \<Rightarrow> Some (Inr (False, ba))
      | Some bs \<Rightarrow>
          (case read_file_loop (m_baseSize ba) ba bs of
             None \<Rightarrow> None
           | Some r \<Rightarrow> Some (sbind r (\<lambda>ba'. Inr (True, ba')))))"

section \<open>The buffers cover the bytes asked for\<close>

text \<open>
  \<open>covers b n vs p len\<close>: the buffers lie in the first \<open>n\<close> nodes, none crosses the end of its
  node or is empty, and together they are the \<open>len\<close> bytes from position \<open>p\<close> on, in order.
\<close>

fun covers :: "nat \<Rightarrow> nat \<Rightarrow> iovec list \<Rightarrow> nat \<Rightarrow> nat \<Rightarrow> bool" where
  "covers b n [] p len \<longleftrightarrow> len = 0"
| "covers b n (v # vs) p len \<longleftrightarrow>
     iov_node v < n \<and> b * iov_node v + iov_off v = p \<and> iov_off v + iov_len v \<le> b \<and>
     0 < iov_len v \<and> iov_len v \<le> len \<and> covers b n vs (p + iov_len v) (len - iov_len v)"

lemma gather_covers:
  assumes "blocks b (m_nodes ba)" "covers b (length (m_nodes ba)) vs p len"
  shows "gather ba vs = block_at p len (mem ba)"
  using assms(2)
proof (induction vs arbitrary: p len)
  case Nil
  then show ?case by (simp add: gather_def)
next
  case (Cons v vs)
  then have "iov_bytes ba v = block_at p (iov_len v) (mem ba)"
    using block_at_block [OF assms(1), of "iov_node v" "iov_off v" "iov_len v"]
    by (auto simp: iov_bytes_def mem_def)
  moreover have "gather ba vs = block_at (p + iov_len v) (len - iov_len v) (mem ba)"
    using Cons by simp
  ultimately show ?case
    using Cons.prems block_at_add [of p "iov_len v" "len - iov_len v" "mem ba"] by (simp add: gather_def)
qed

lemma store_block:
  assumes "blocks b (m_nodes ba)" "k < length (m_nodes ba)" "off + length bs \<le> b"
  shows "mem (store k off bs ba) = overwrite (b * k + off) bs (mem ba)"
    and "blocks b (m_nodes (store k off bs ba))" "length (m_nodes (store k off bs ba)) = length (m_nodes ba)"
  using assms concat_overwrite_block [OF assms] by (simp_all add: mem_def store_def blocks_update blocks_nth)

lemma covers_len: "covers b n vs p len \<Longrightarrow> sum_list (map iov_len vs) = len"
  by (induction vs arbitrary: p len) auto

lemma covers_end: "covers b n vs p len \<Longrightarrow> 0 < len \<Longrightarrow> p + len \<le> b * n"
proof (induction vs arbitrary: p len)
  case (Cons v vs)
  have "b * Suc (iov_node v) \<le> b * n" using Cons.prems by (intro mult_le_mono2) simp
  then have 1: "p + iov_len v \<le> b * n" using Cons.prems by simp
  show ?case
  proof (cases "iov_len v = len")
    case False
    have "iov_len v \<le> len" "covers b n vs (p + iov_len v) (len - iov_len v)" using Cons.prems by simp_all
    moreover have "p + iov_len v + (len - iov_len v) \<le> b * n"
      by (rule Cons.IH) (use calculation False in simp_all)
    ultimately show ?thesis by simp
  qed (use 1 in simp)
qed simp

text \<open>Receiving into the buffers is one memcpy to the position they start at.\<close>

lemma scatter_covers:
  assumes "blocks b (m_nodes ba)" "covers b (length (m_nodes ba)) vs p len" "length bs \<le> len"
    "length (mem ba) = b * length (m_nodes ba)"
  shows "mem (scatter vs bs ba) = overwrite p bs (mem ba) \<and>
    length (m_nodes (scatter vs bs ba)) = length (m_nodes ba) \<and> blocks b (m_nodes (scatter vs bs ba))"
  using assms
proof (induction vs arbitrary: p len bs ba)
  case Nil
  then show ?case by simp
next
  case (Cons v vs)
  let ?ba = "store (iov_node v) (iov_off v) (take (iov_len v) bs) ba"
  have off: "iov_off v + length (take (iov_len v) bs) \<le> b" using Cons.prems(2) by simp linarith
  have p: "b * iov_node v + iov_off v = p" using Cons.prems by simp
  have st: "mem ?ba = overwrite p (take (iov_len v) bs) (mem ba)" "blocks b (m_nodes ?ba)"
      "length (m_nodes ?ba) = length (m_nodes ba)"
    using store_block [OF Cons.prems(1) _ off] Cons.prems(2) p by auto
  have room: "p + len \<le> length (mem ba)"
    using covers_end [OF Cons.prems(2)] Cons.prems(2,4) by fastforce
  have IH: "mem (scatter vs (drop (iov_len v) bs) ?ba) =
      overwrite (p + iov_len v) (drop (iov_len v) bs) (mem ?ba) \<and>
    length (m_nodes (scatter vs (drop (iov_len v) bs) ?ba)) = length (m_nodes ?ba) \<and>
    blocks b (m_nodes (scatter vs (drop (iov_len v) bs) ?ba))"
  proof (rule Cons.IH [OF st(2)])
    show "length (mem ?ba) = b * length (m_nodes ?ba)"
      using length_concat_blocks [OF st(2)] by (simp add: mem_def)
  qed (use Cons.prems st(3) in auto)
  show ?case
  proof (cases "iov_len v \<le> length bs")
    case True
    then show ?thesis
      using IH st room Cons.prems(2,3)
        overwrite_append [of p "take (iov_len v) bs" "mem ba" "drop (iov_len v) bs"] by simp
  next
    case False
    then show ?thesis using IH st by simp
  qed
qed

lemma buffers_loop_covers:
  assumes "wf_nodes ba" "k < length (m_nodes ba)" "off < m_baseSize ba"
    "m_baseSize ba * k + off + len \<le> m_capacity ba"
  shows "\<exists>vs. buffers_loop ba k off (m_baseSize ba - off) len = Inr vs \<and>
    covers (m_baseSize ba) (length (m_nodes ba)) vs (m_baseSize ba * k + off) len"
  using assms
proof (induction ba k off "m_baseSize ba - off" len rule: buffers_loop.induct)
  case (1 ba k off len)
  let ?b = "m_baseSize ba"
  show ?case
  proof (cases "len \<le> ?b - off")
    case True
    then show ?thesis using "1.prems" by (auto simp: buffers_loop.simps [of ba])
  next
    case False
    have cap: "m_capacity ba = ?b * length (m_nodes ba)" and bl: "blocks ?b (m_nodes ba)"
      using "1.prems"(1) by (auto simp: wf_nodes_def)
    have "?b * Suc k < ?b * length (m_nodes ba)" using "1.prems"(3,4) False cap by simp
    then have k': "Suc k < length (m_nodes ba)" by (metis mult_less_cancel1)
    then have nx: "next_node ba k = Some (Suc k)" and sz: "node_size ba (Suc k) = ?b"
      using bl by (simp_all add: next_node_def node_size_def blocks_nth)
    have "\<exists>vs. buffers_loop ba (Suc k) 0 ?b (len - (?b - off)) = Inr vs \<and>
        covers ?b (length (m_nodes ba)) vs (?b * Suc k + 0) (len - (?b - off))"
      using "1.hyps" [OF _ False nx] sz False "1.prems" k' by (simp add: sz)
    then obtain vs where "buffers_loop ba (Suc k) 0 ?b (len - (?b - off)) = Inr vs"
        "covers ?b (length (m_nodes ba)) vs (?b * Suc k) (len - (?b - off))" by auto
    then show ?thesis
      using nx sz False "1.prems" by (simp add: buffers_loop.simps [of ba k] algebra_simps)
  qed
qed

text \<open>An array of three nodes of two bytes that holds 1 to 5, with the cursor behind the first.\<close>

definition sample :: bytearray where
  "sample = \<lparr>m_baseSize = 2, m_position = 1, m_capacity = 6, m_size = 5, m_endian = BIG_ENDIAN,
     m_nodes = [[1, 2], [3, 4], [5, 0]], m_cur = Some 0, m_heap = (\<lambda>_ _. 0)\<rparr>"

lemma wf_sample: "wf sample"
  by (simp add: sample_def wf_def wf_nodes_def cur_at_def)

lemma sample_simps [simp]:
  "m_baseSize sample = 2" "m_position sample = 1" "m_capacity sample = 6" "m_size sample = 5"
  "m_nodes sample = [[1, 2], [3, 4], [5, 0]]" "m_cur sample = Some 0" "mem sample = [1, 2, 3, 4, 5, 0]"
  by (simp_all add: sample_def mem_def)

text \<open>With nodes of equal size it does not matter which node's size the loop asks for.\<close>

lemma read_buffers_loop_eq:
  assumes "blocks b (m_nodes ba)" "m < length (m_nodes ba)" "k < length (m_nodes ba)"
  shows "read_buffers_loop ba m (Some k) off c len = buffers_loop ba k off c len"
  using assms
proof (induction ba k off c len rule: buffers_loop.induct)
  case (1 ba k off c len)
  show ?case
  proof (cases "next_node ba k")
    case None
    then show ?thesis
      by (simp add: read_buffers_loop.simps [of ba m "Some k"] buffers_loop.simps [of ba k]
          read_buffers_loop.simps [of ba m None])
  next
    case (Some k')
    then have "k' < length (m_nodes ba)" by (simp add: next_node_def split: if_splits)
    moreover have "node_size ba m = node_size ba k'"
      using "1.prems" calculation by (simp add: node_size_def blocks_nth)
    ultimately show ?thesis
      using "1.IH" [OF _ _ Some] "1.prems" Some
      by (simp add: read_buffers_loop.simps [of ba m "Some k"] buffers_loop.simps [of ba k])
  qed
qed

lemma wf_cursor:
  assumes "wf ba" "m_position ba < m_capacity ba"
  obtains k where "m_cur ba = Some k" "k < length (m_nodes ba)" "node_size ba k = m_baseSize ba"
    "m_baseSize ba * k + m_position ba mod m_baseSize ba = m_position ba"
    "m_position ba mod m_baseSize ba < m_baseSize ba" "wf_nodes ba"
proof -
  obtain k where k: "m_cur ba = Some k" using wf_cur_iff [OF assms(1)] assms(2) by blast
  have "wf_nodes ba" using assms(1) by (simp add: wf_def)
  then show thesis using that [OF k] wf_curD [OF assms(1) k] by (simp add: wf_nodes_def)
qed

lemma getReadBuffers_spec:
  assumes "wf ba" "m_position ba \<le> m_size ba" "n = min len (m_size ba - m_position ba)"
  shows "\<exists>vs. getReadBuffers ba len = Inr (n, vs) \<and>
    covers (m_baseSize ba) (length (m_nodes ba)) vs (m_position ba) n \<and>
    gather ba vs = block_at (m_position ba) n (mem ba)"
proof (cases "n = 0")
  case True
  then show ?thesis using assms by (auto simp: getReadBuffers_def getReadSize_def gather_def min_def split: if_splits)
next
  case False
  have room: "m_position ba + n \<le> m_capacity ba" using assms by (auto simp: wf_def)
  then obtain k where k: "m_cur ba = Some k" "k < length (m_nodes ba)" "node_size ba k = m_baseSize ba"
      "m_baseSize ba * k + m_position ba mod m_baseSize ba = m_position ba"
      "m_position ba mod m_baseSize ba < m_baseSize ba" "wf_nodes ba"
    using wf_cursor [OF assms(1)] False by auto
  obtain vs where vs: "buffers_loop ba k (m_position ba mod m_baseSize ba)
        (m_baseSize ba - m_position ba mod m_baseSize ba) n = Inr vs"
      "covers (m_baseSize ba) (length (m_nodes ba)) vs (m_position ba) n"
    using buffers_loop_covers [OF k(6,2,5), of n] room k(4) by auto
  have bl: "blocks (m_baseSize ba) (m_nodes ba)" and b: "0 < m_baseSize ba"
    using k(6) by (auto simp: wf_nodes_def)
  have "getReadBuffers ba len = Inr (n, vs)"
    using vs(1) k(1,3) False assms(2,3) b
    by (simp add: getReadBuffers_def getReadSize_def read_buffers_loop_eq [OF bl k(2,2)] min_def split: if_splits)
  then show ?thesis using vs(2) gather_covers [OF bl vs(2)] by simp
qed

text \<open>
  getReadBuffers lends out exactly the unread bytes, at most \<open>len\<close> of them: what
  writev sends from its buffers is the memory from the position on.
\<close>

theorem getReadBuffers_gather:
  assumes "wf ba" "m_position ba \<le> m_size ba" "n = min len (m_size ba - m_position ba)"
  shows "\<exists>vs. getReadBuffers ba len = Inr (n, vs) \<and>
    covers (m_baseSize ba) (length (m_nodes ba)) vs (m_position ba) n \<and>
    gather ba vs = block_at (m_position ba) n (mem ba)"
  using assms by (rule getReadBuffers_spec)

theorem getReadBuffers_gather_witness:
  "\<exists>vs. getReadBuffers sample 3 = Inr (3, vs) \<and> covers 2 (length (m_nodes sample)) vs 1 3 \<and>
    gather sample vs = [2, 3, 4]"
  using getReadBuffers_gather [OF wf_sample, of 3 3] by (simp add: sample_simps block_at_def)

lemma getWriteBuffers_spec:
  assumes "wf ba" "length bs \<le> len"
  shows "\<exists>vs ba' j. getWriteBuffers ba len = Inr (len, vs, ba') \<and> wf (scatter vs bs ba') \<and>
    mem (scatter vs bs ba') = overwrite (m_position ba) bs (mem ba @ j) \<and>
    m_position ba + len \<le> length (mem ba @ j) \<and>
    m_position (scatter vs bs ba') = m_position ba \<and> m_size (scatter vs bs ba') = m_size ba \<and>
    sum_list (map iov_len vs) = len"
proof (cases "len = 0")
  case True
  then have "m_position ba \<le> length (mem ba)" using assms(1) length_mem by (simp add: wf_def)
  then show ?thesis using True assms by (intro exI [of _ "[]"] exI [of _ ba]) (simp add: getWriteBuffers_def)
next
  case False
  define ba1 where "ba1 = addCapacity ba len"
  obtain j where 1: "wf ba1" "mem ba1 = mem ba @ j" "m_position ba1 = m_position ba"
      "m_size ba1 = m_size ba" "m_baseSize ba1 = m_baseSize ba" "m_position ba + len \<le> m_capacity ba1"
    using addCapacity_spec [OF assms(1), of len] unfolding ba1_def by blast
  obtain k where k: "m_cur ba1 = Some k" "k < length (m_nodes ba1)" "node_size ba1 k = m_baseSize ba1"
      "m_baseSize ba1 * k + m_position ba1 mod m_baseSize ba1 = m_position ba1"
      "m_position ba1 mod m_baseSize ba1 < m_baseSize ba1" "wf_nodes ba1"
    using wf_cursor [OF 1(1)] 1(3,6) False by auto
  obtain vs where vs: "buffers_loop ba1 k (m_position ba1 mod m_baseSize ba1)
        (m_baseSize ba1 - m_position ba1 mod m_baseSize ba1) len = Inr vs"
      "covers (m_baseSize ba1) (length (m_nodes ba1)) vs (m_position ba1) len"
    using buffers_loop_covers [OF k(6,2,5), of len] 1(3,6) k(4) by auto
  have bl: "blocks (m_baseSize ba1) (m_nodes ba1)" and b: "0 < m_baseSize ba1"
    and lm: "length (mem ba1) = m_baseSize ba1 * length (m_nodes ba1)"
    using k(6) length_mem [OF 1(1)] by (auto simp: wf_nodes_def)
  have "getWriteBuffers ba len = Inr (len, vs, ba1)"
    using vs(1) k(1,3) False b 1(5) by (simp add: getWriteBuffers_def Let_def flip: ba1_def)
  moreover have "m_position (scatter vs bs ba1) = m_position ba1 \<and> m_size (scatter vs bs ba1) = m_size ba1 \<and>
      m_baseSize (scatter vs bs ba1) = m_baseSize ba1 \<and> m_capacity (scatter vs bs ba1) = m_capacity ba1 \<and>
      m_cur (scatter vs bs ba1) = m_cur ba1" for vs
    by (induction vs arbitrary: bs ba1) (simp_all add: store_def)
  ultimately show ?thesis
    using scatter_covers [OF bl vs(2) assms(2) lm] covers_len [OF vs(2)] 1 length_mem [OF 1(1)] k(6)
    by (intro exI [of _ vs] exI [of _ ba1] exI [of _ j]) (auto simp: wf_def wf_nodes_def)
qed

text \<open>
  Claim C30. Receiving \<open>bs\<close> with readv into the buffers of getWriteBuffers stores \<open>bs\<close> at the
  position, touches no other byte and leaves a state that setPosition and write accept.
\<close>

theorem getWriteBuffers_scatter:
  assumes "wf ba" "length bs \<le> len"
  shows "\<exists>vs ba' j. getWriteBuffers ba len = Inr (len, vs, ba') \<and> wf (scatter vs bs ba') \<and>
    mem (scatter vs bs ba') = overwrite (m_position ba) bs (mem ba @ j) \<and>
    m_position ba + len \<le> length (mem ba @ j) \<and>
    m_position (scatter vs bs ba') = m_position ba \<and> m_size (scatter vs bs ba') = m_size ba"
  using getWriteBuffers_spec [OF assms] by blast

theorem getWriteBuffers_scatter_witness:
  "\<exists>vs ba' j. getWriteBuffers sample 9 = Inr (9, vs, ba') \<and> wf (scatter vs [7, 8] ba') \<and>
    mem (scatter vs [7, 8] ba') = overwrite 1 [7, 8] ([1, 2, 3, 4, 5, 0] @ j)"
  using getWriteBuffers_scatter [OF wf_sample, of "[7, 8]" 9] by (fastforce simp: sample_simps)

section \<open>toString\<close>

text \<open>
  toString returns the unread bytes when they all lie in the cursor's node, and the
  empty string when there are none.
\<close>

theorem toString_one_node:
  assumes "wf ba" "m_position ba \<le> m_size ba" "m_size ba \<le> 2 ^ 63 - 2"
    "m_position ba mod m_baseSize ba + (m_size ba - m_position ba) \<le> m_baseSize ba"
  shows "toString ba = Inr (block_at (m_position ba) (m_size ba - m_position ba) (mem ba))"
proof (cases "m_size ba = m_position ba")
  case True
  then show ?thesis by (simp add: toString_def getReadSize_def)
next
  case False
  then have "m_position ba < m_capacity ba" using assms(1,2) by (auto simp: wf_def)
  then obtain k where k: "m_cur ba = Some k" "k < length (m_nodes ba)" "node_size ba k = m_baseSize ba"
      "m_baseSize ba * k + m_position ba mod m_baseSize ba = m_position ba" "wf_nodes ba"
    using wf_cursor [OF assms(1)] by metis
  have bl: "blocks (m_baseSize ba) (m_nodes ba)" "0 < m_baseSize ba" using k(5) by (auto simp: wf_nodes_def)
  have le: "m_size ba - m_position ba \<le> m_baseSize ba - m_position ba mod m_baseSize ba"
    "\<not> 2 ^ 63 - 2 < m_size ba - m_position ba"
    using assms(3,4) by simp_all
  show ?thesis
    using le assms(2) False k(1,3,4) bl(2) block_at_block [OF bl(1) k(2) assms(4)]
    by (simp add: toString_def getReadSize_def read_at_def Let_def read_at_loop.simps [of ba] mem_def)
qed

theorem toString_one_node_witness:
  "toString (sample\<lparr>m_size := 2\<rparr>) = Inr [2]"
  using toString_one_node [of "sample\<lparr>m_size := 2\<rparr>"] wf_sample
  by (simp add: block_at_def wf_def wf_nodes_def mem_def)

text \<open>
  Across nodes toString is wrong: it copies every chunk from the node of the cursor,
  so an array that holds 2, 3, 4, 5 behind the position shows 2, 1, 2, 1.
\<close>

theorem toString_across_nodes:
  "toString sample = Inr [2, 1, 2, 1] \<and> block_at 1 4 (mem sample) = [2, 3, 4, 5]"
  by (simp add: toString_def getReadSize_def read_at_def Let_def read_at_loop.simps node_size_def
      next_node_def block_at_def)

section \<open>Files\<close>

text \<open>One round of the loop, in terms of natural numbers.\<close>

lemma write_file_loop_step:
  assumes "0 < rs" "p mod m_baseSize ba \<le> min (m_baseSize ba) rs" "l = min (m_baseSize ba) rs - p mod m_baseSize ba"
  shows "write_file_loop ba (Some k) (int p) (int rs) =
    sbind (write_file_loop ba (next_node ba k) (int (p + l)) (int (rs - l)))
      (\<lambda>bs. Inr (block_at (p mod m_baseSize ba) l (m_nodes ba ! k) @ bs))"
proof -
  have 1: "(if int (m_baseSize ba) < int rs then int (m_baseSize ba) else int rs) - int p mod int (m_baseSize ba) = int l"
    using assms(2,3) by (auto simp: min_def of_nat_diff simp flip: zmod_int split: if_splits)
  have 2: "int p + int l = int (p + l)" "int rs - int l = int (rs - l)"
    using assms(3) by auto
  show ?thesis
    using assms(1) unfolding write_file_loop.simps [of ba "Some k"] Let_def option.case 1 2
    by (simp flip: zmod_int)
qed

lemma write_file_loop_negative:
  assumes "0 < rs" "min (m_baseSize ba) rs < p mod m_baseSize ba"
  shows "write_file_loop ba (Some k) (int p) (int rs) = Inl NegativeCount"
proof -
  have "(if int (m_baseSize ba) < int rs then int (m_baseSize ba) else int rs) - int p mod int (m_baseSize ba) < 0"
    using assms(2) by (auto simp: min_def simp flip: zmod_int split: if_splits)
  then show ?thesis using assms(1) by (simp add: write_file_loop.simps [of ba "Some k"] Let_def)
qed

lemma write_file_loop_zero [simp]: "write_file_loop ba cur p 0 = Inr []"
  by (simp add: write_file_loop.simps)

lemma write_file_loop_aligned:
  assumes "wf_nodes ba" "m_baseSize ba * k + n \<le> m_capacity ba"
    "cur = (if k < length (m_nodes ba) then Some k else None)"
  shows "write_file_loop ba cur (int (m_baseSize ba * k)) (int n) = Inr (block_at (m_baseSize ba * k) n (mem ba))"
  using assms
proof (induction "length (m_nodes ba) - k" arbitrary: k n cur)
  case 0
  then have "m_capacity ba \<le> m_baseSize ba * k" by (auto simp: wf_nodes_def)
  then have "n = 0" using "0.prems"(2) by simp
  then show ?case by (simp add: write_file_loop.simps)
next
  case (Suc x)
  let ?b = "m_baseSize ba"
  have bl: "blocks ?b (m_nodes ba)" and b: "0 < ?b" and k: "k < length (m_nodes ba)" and cur: "cur = Some k"
    using Suc by (auto simp: wf_nodes_def)
  show ?case
  proof (cases "n = 0")
    case False
    define l where "l = min ?b n"
    have l: "l \<le> n" "l \<le> ?b" by (simp_all add: l_def)
    have step: "write_file_loop ba cur (int (?b * k)) (int n) =
        sbind (write_file_loop ba (next_node ba k) (int (?b * k + l)) (int (n - l)))
          (\<lambda>bs. Inr (block_at 0 l (m_nodes ba ! k) @ bs))"
      using write_file_loop_step [of n "?b * k" ba l k] False cur by (simp add: l_def)
    have "write_file_loop ba (next_node ba k) (int (?b * k + l)) (int (n - l)) =
        Inr (block_at (?b * k + l) (n - l) (mem ba))"
    proof (cases "n \<le> ?b")
      case True
      then show ?thesis by (simp add: l_def min_def write_file_loop.simps)
    next
      case False
      then have "l = ?b" by (simp add: l_def)
      then show ?thesis
        using Suc.hyps(1) [of "Suc k" "n - ?b" "next_node ba k"] Suc.hyps(2) Suc.prems(1,2) False
        by (simp add: next_node_def algebra_simps)
    qed
    then show ?thesis
      using step l block_at_block [OF bl k, of 0 l] block_at_add [of "?b * k" l "n - l" "mem ba"]
      by (simp add: mem_def)
  qed (simp add: write_file_loop.simps)
qed

lemma write_file_loop_stuck:
  assumes "0 < rs" "rs \<le> p mod m_baseSize ba" "0 < m_baseSize ba"
  shows "\<exists>e. write_file_loop ba cur (int p) (int rs) = Inl e"
proof (induction "case cur of None \<Rightarrow> 0 | Some k \<Rightarrow> Suc (length (m_nodes ba) - k)" arbitrary: cur rule: less_induct)
  case less
  have small: "min (m_baseSize ba) rs = rs"
    using assms mod_less_divisor [OF assms(3), of p] by linarith
  show ?case
  proof (cases cur)
    case None
    then show ?thesis using assms by (simp add: write_file_loop.simps [of ba None])
  next
    case (Some k)
    have "\<exists>e. write_file_loop ba (next_node ba k) (int p) (int rs) = Inl e"
      by (rule less) (auto simp: Some next_node_def)
    then show ?thesis
      using write_file_loop_step [of rs p ba 0 k] write_file_loop_negative [of rs ba p k] assms small Some
      by (cases "rs < p mod m_baseSize ba") auto
  qed
qed

text \<open>
  writeToFile writes exactly the unread bytes when the position is at the start of a
  node or at least a node's worth of bytes is unread, and never succeeds otherwise.
\<close>

theorem writeToFile_exact:
  assumes "wf ba" "m_position ba \<le> m_size ba" "m_size ba < 2 ^ 63"
  shows "(if m_position ba mod m_baseSize ba = 0 \<or> m_size ba = m_position ba \<or>
             m_baseSize ba \<le> m_size ba - m_position ba
          then writeToFile True ba = Inr (True, block_at (m_position ba) (m_size ba - m_position ba) (mem ba))
          else \<exists>e. writeToFile True ba = Inl e)"
proof -
  let ?b = "m_baseSize ba" and ?p = "m_position ba" and ?n = "length (m_nodes ba)"
  define rs where "rs = m_size ba - ?p"
  have wn: "wf_nodes ba" and b: "0 < ?b" and cap: "m_capacity ba = ?b * ?n" and bl: "blocks ?b (m_nodes ba)"
    and room: "?p + rs \<le> m_capacity ba"
    using assms(1,2) by (auto simp: wf_def wf_nodes_def rs_def)
  have int64: "to_int64 (getReadSize ba) = int rs"
    using assms(2,3) by (simp add: to_int64_def getReadSize_def rs_def)
  then have wr: "writeToFile True ba =
      sbind (write_file_loop ba (m_cur ba) (int ?p) (int rs)) (\<lambda>bs. Inr (True, bs))"
    using b by (simp add: writeToFile_def)
  consider "rs = 0" | "0 < rs" "?p mod ?b = 0" | "?b \<le> rs" "?p mod ?b \<noteq> 0"
    | "0 < rs" "rs < ?b" "?p mod ?b \<noteq> 0" by linarith
  then show ?thesis
  proof cases
    case 1
    then show ?thesis using wr assms(2) by (simp add: rs_def write_file_loop.simps)
  next
    case 2
    then have p: "?p = ?b * (?p div ?b)" by auto
    have "m_cur ba = (if ?p div ?b < ?n then Some (?p div ?b) else None)"
      using assms(1) by (simp add: wf_def cur_at_def)
    from write_file_loop_aligned [OF wn _ this, of rs] room p wr 2 show ?thesis
      by (simp add: rs_def)
  next
    case 3
    then have "?p < m_capacity ba" using room b by simp
    then obtain k where k: "m_cur ba = Some k" "k < ?n" "?b * k + ?p mod ?b = ?p" "?p mod ?b < ?b"
      using wf_cursor [OF assms(1)] by metis
    let ?l = "?b - ?p mod ?b"
    have next_pos: "?p + ?l = ?b * Suc k" using k(3,4) by simp
    have "write_file_loop ba (next_node ba k) (int (?b * Suc k)) (int (rs - ?l)) =
        Inr (block_at (?b * Suc k) (rs - ?l) (mem ba))"
      by (rule write_file_loop_aligned [OF wn])
        (use room next_pos 3 in \<open>simp_all add: next_node_def\<close>)
    moreover have "min ?b rs - ?p mod ?b = ?l" using 3 by simp
    ultimately have "write_file_loop ba (m_cur ba) (int ?p) (int rs) =
        Inr (block_at (?p mod ?b) ?l (m_nodes ba ! k) @ block_at (?b * Suc k) (rs - ?l) (mem ba))"
      using write_file_loop_step [of rs ?p ba ?l k] 3 b k(1,4) next_pos by simp
    also have "block_at (?p mod ?b) ?l (m_nodes ba ! k) = block_at ?p ?l (mem ba)"
      using block_at_block [OF bl k(2), of "?p mod ?b" ?l] k(3,4) by (simp add: mem_def)
    also have "block_at ?p ?l (mem ba) @ block_at (?b * Suc k) (rs - ?l) (mem ba) = block_at ?p rs (mem ba)"
      using block_at_add [of ?p ?l "rs - ?l" "mem ba"] 3(1) unfolding next_pos by simp
    finally show ?thesis using wr 3 by (simp add: rs_def)
  next
    case 4
    then have "?p < m_capacity ba" using room by simp
    then obtain k where k: "m_cur ba = Some k" "?p mod ?b < ?b"
      using wf_cursor [OF assms(1)] by metis
    have "\<exists>e. write_file_loop ba (m_cur ba) (int ?p) (int rs) = Inl e"
    proof (cases "rs \<le> ?p mod ?b")
      case True
      then show ?thesis by (intro write_file_loop_stuck) (use 4 b in simp_all)
    next
      case False
      let ?l = "rs - ?p mod ?b"
      have "?p + ?l = ?b * (?p div ?b) + rs" using False by (simp add: minus_mod_eq_mult_div [symmetric])
      then have "(?p + ?l) mod ?b = rs" using 4 by simp
      then have "\<exists>e. write_file_loop ba (next_node ba k) (int (?p + ?l)) (int (rs - ?l)) = Inl e"
        by (intro write_file_loop_stuck) (use 4 False in simp_all)
      then show ?thesis
        using write_file_loop_step [of rs ?p ba ?l k] False 4 k by auto
    qed
    then show ?thesis using wr 4 by (auto simp: rs_def)
  qed
qed

theorem writeToFile_exact_witness:
  "writeToFile True sample = Inr (True, [2, 3, 4, 5])"
  using writeToFile_exact [OF wf_sample] by (simp add: block_at_def)

section \<open>readFromFile\<close>

lemma read_file_loop_spec:
  assumes "wf ba" "0 < b"
  shows "\<exists>ba' j. read_file_loop b ba bs = Some (Inr ba') \<and> wf ba' \<and>
    mem ba' = overwrite (m_position ba) bs (mem ba @ j) \<and> m_position ba + length bs \<le> length (mem ba @ j) \<and>
    m_position ba' = m_position ba + length bs"
  using assms
proof (induction b ba bs rule: read_file_loop.induct)
  case (1 b ba bs)
  show ?case
  proof (cases "length bs < b")
    case True
    then show ?thesis
      using ba.put_law [OF "1.prems"(1), of bs] "1.prems"(2) by (auto simp: read_file_loop.simps [of b ba])
  next
    case False
    let ?c = "take b bs" and ?d = "drop b bs"
    obtain s1 j1 where 1: "write_ba ba ?c = Inr s1" "wf s1" "mem s1 = overwrite (m_position ba) ?c (mem ba @ j1)"
        "m_position ba + length ?c \<le> length (mem ba @ j1)" "m_position s1 = m_position ba + length ?c"
      using ba.put_law [OF "1.prems"(1), of ?c] by auto
    obtain s2 j2 where 2: "read_file_loop b s1 ?d = Some (Inr s2)" "wf s2"
        "mem s2 = overwrite (m_position s1) ?d (mem s1 @ j2)"
        "m_position s1 + length ?d \<le> length (mem s1 @ j2)" "m_position s2 = m_position s1 + length ?d"
      using "1.IH" [OF _ False 1(1,2)] "1.prems"(2) by auto
    have "mem s1 @ j2 = overwrite (m_position ba) ?c (mem ba @ (j1 @ j2))"
      using 1(3,4) overwrite_left [of "m_position ba" ?c "mem ba @ j1" j2] by simp
    then have "mem s2 = overwrite (m_position ba) bs (mem ba @ (j1 @ j2))"
      using 2(3) 1(4,5) overwrite_append [of "m_position ba" ?c "mem ba @ (j1 @ j2)" ?d] by simp
    moreover have "m_position ba + length bs \<le> length (mem ba @ (j1 @ j2))"
      using 2(4) 1(3-5) False by simp
    ultimately show ?thesis
      using 1 2 False "1.prems"(2)
      by (intro exI [of _ s2] exI [of _ "j1 @ j2"]) (simp add: read_file_loop.simps [of b ba])
  qed
qed



end
