(* ===== verification/FdManager.thy ===== *)
theory FdManager
  imports ExhyPrelude
begin

text \<open>
  The table of descriptor contexts the hooked system calls consult (exhy/exhy_fdmanager.h,
  exhy_fdmanager.cpp). A context is named by its address; \<open>fd_flags\<close> are the kernel's file status
  flags, which the constructor of a socket's context changes. What fstat says is an argument:
  \<open>None\<close> when it fails, else whether the descriptor is a socket.
\<close>

abbreviation (input) O_NONBLOCK :: u32 where "O_NONBLOCK \<equiv> 0x800"

record fdctx =
  m_isInit :: bool
  m_isSocket :: bool
  m_sysNonblock :: bool
  m_userNonblock :: bool
  m_isClosed :: bool
  m_fd :: int
  m_recvTimeout :: u64
  m_sendTimeout :: u64

record fd_manager =
  m_datas :: "nat option list"
  fd_ctxs :: "nat \<Rightarrow> fdctx option"
  fd_flags :: "int \<Rightarrow> u32"

section \<open>FdCtx\<close>

text \<open>\<open>FdCtx::init\<close>: its result, the context and the kernel's flags.\<close>

definition fdctx_init :: "bool option \<Rightarrow> (int \<Rightarrow> u32) \<Rightarrow> fdctx \<Rightarrow> bool \<times> fdctx \<times> (int \<Rightarrow> u32)" where
  "fdctx_init stat fl c =
     (if m_isInit c then (True, c, fl)
      else let c1 = c\<lparr>m_recvTimeout := -1, m_sendTimeout := -1\<rparr>;
               c2 = (case stat of
                       None \<Rightarrow> c1\<lparr>m_isInit := False, m_isSocket := False\<rparr>
                     | Some sock \<Rightarrow> c1\<lparr>m_isInit := True, m_isSocket := sock\<rparr>);
               fl1 = (if m_isSocket c2 \<and> fl (m_fd c2) AND O_NONBLOCK = 0
                      then fl(m_fd c2 := fl (m_fd c2) OR O_NONBLOCK) else fl);
               c3 = (if m_isSocket c2 then c2\<lparr>m_sysNonblock := True\<rparr> else c2\<lparr>m_sysNonblock := False\<rparr>);
               c4 = c3\<lparr>m_userNonblock := False, m_isClosed := False\<rparr>
           in (m_isInit c4, c4, fl1))"

definition new_FdCtx :: "int \<Rightarrow> bool option \<Rightarrow> (int \<Rightarrow> u32) \<Rightarrow> fdctx \<times> (int \<Rightarrow> u32)" where
  "new_FdCtx fd stat fl =
     snd (fdctx_init stat fl
       \<lparr>m_isInit = False, m_isSocket = False, m_sysNonblock = False, m_userNonblock = False,
        m_isClosed = False, m_fd = fd, m_recvTimeout = -1, m_sendTimeout = -1\<rparr>)"

definition SO_RCVTIMEO :: int where "SO_RCVTIMEO = 20"
definition SO_SNDTIMEO :: int where "SO_SNDTIMEO = 21"

definition setTimeout :: "int \<Rightarrow> u64 \<Rightarrow> fdctx \<Rightarrow> fdctx" where
  "setTimeout type v c = (if type = SO_RCVTIMEO then c\<lparr>m_recvTimeout := v\<rparr> else c\<lparr>m_sendTimeout := v\<rparr>)"

definition getTimeout :: "int \<Rightarrow> fdctx \<Rightarrow> u64" where
  "getTimeout type c = (if type = SO_RCVTIMEO then m_recvTimeout c else m_sendTimeout c)"

section \<open>FdManager\<close>

definition new_FdManager :: "(int \<Rightarrow> u32) \<Rightarrow> fd_manager" where
  "new_FdManager fl = \<lparr>m_datas = replicate 64 None, fd_ctxs = Map.empty, fd_flags = fl\<rparr>"

text \<open>
  The critical section under the read lock: \<open>Inl\<close> the result, or \<open>Inr ()\<close> when a context is to be
  made. The comparison of the size with \<open>fd\<close> is unsigned, so a negative \<open>fd\<close> is past the end.
\<close>

definition get_lookup :: "int \<Rightarrow> bool \<Rightarrow> fd_manager \<Rightarrow> nat option + unit" where
  "get_lookup fd auto_create m =
     (if fd = -1 then Inl None
      else if fd < 0 \<or> int (length (m_datas m)) \<le> fd then (if auto_create then Inr () else Inl None)
      else if m_datas m ! nat fd \<noteq> None \<or> \<not> auto_create then Inl (m_datas m ! nat fd)
      else Inr ())"

text \<open>The one under the write lock; \<open>p\<close> is the address of the new context.\<close>

definition get_create :: "int \<Rightarrow> nat \<Rightarrow> bool option \<Rightarrow> fd_manager \<Rightarrow> (nat option \<times> fd_manager) res" where
  "get_create fd p stat m =
     (let (ctx, fl) = new_FdCtx fd stat (fd_flags m);
          n = 3 * nat fd div 2;
          ds = m_datas m;
          ds1 = (if int (length ds) \<le> fd then take n ds @ replicate (n - length ds) None else ds)
      in if fd < 0 \<or> length ds1 \<le> nat fd then Inl OutOfBounds
         else Inr (Some p, m\<lparr>m_datas := ds1[nat fd := Some p], fd_ctxs := (fd_ctxs m)(p \<mapsto> ctx), fd_flags := fl\<rparr>))"

definition fd_get :: "int \<Rightarrow> bool \<Rightarrow> nat \<Rightarrow> bool option \<Rightarrow> fd_manager \<Rightarrow> (nat option \<times> fd_manager) res" where
  "fd_get fd auto_create p stat m =
     (case get_lookup fd auto_create m of
        Inl r \<Rightarrow> Inr (r, m)
      | Inr _ \<Rightarrow> get_create fd p stat m)"

definition fd_del :: "int \<Rightarrow> fd_manager \<Rightarrow> fd_manager res" where
  "fd_del fd m =
     (if int (length (m_datas m)) \<le> fd then Inr m
      else if fd < 0 then Inl OutOfBounds
      else Inr (m\<lparr>m_datas := (m_datas m)[nat fd := None]\<rparr>))"

section \<open>The table\<close>

text \<open>The context of a descriptor, and the consistency of the table.\<close>

definition ctx_at :: "fd_manager \<Rightarrow> nat \<Rightarrow> nat option" where
  "ctx_at m i = (if i < length (m_datas m) then m_datas m ! i else None)"

definition fd_ok :: "fd_manager \<Rightarrow> bool" where
  "fd_ok m \<longleftrightarrow> 64 \<le> length (m_datas m) \<and>
     (\<forall>i p. ctx_at m i = Some p \<longrightarrow> (\<exists>c. fd_ctxs m p = Some c \<and> m_fd c = int i))"

lemma fd_ok_new: "fd_ok (new_FdManager fl)"
  by (auto simp: fd_ok_def new_FdManager_def ctx_at_def)

lemma new_FdCtx_fd [simp]: "m_fd (fst (new_FdCtx fd stat fl)) = fd"
  by (auto simp: new_FdCtx_def fdctx_init_def Let_def split: option.splits)

lemma get_create_total:
  assumes "fd_ok m" "0 \<le> fd" "fd_ctxs m p = None"
  shows "\<exists>m'. get_create fd p stat m = Inr (Some p, m') \<and> fd_ok m' \<and>
    (\<forall>i. ctx_at m' i = (if i = nat fd then Some p else ctx_at m i))"
proof -
  let ?ds = "m_datas m" and ?n = "3 * nat fd div 2"
  define ds1 where "ds1 = (if int (length ?ds) \<le> fd then take ?n ?ds @ replicate (?n - length ?ds) None else ?ds)"
  have len: "nat fd < length ds1" "length ?ds \<le> length ds1" "64 \<le> length ds1"
    using assms(1,2) by (auto simp: ds1_def fd_ok_def)
  have nth: "ds1 ! i = (if i < length ?ds then ?ds ! i else None)" if "i < length ds1" for i
    using that len assms(1,2) by (auto simp: ds1_def nth_append fd_ok_def)
  define m' where "m' = m\<lparr>m_datas := ds1[nat fd := Some p],
      fd_ctxs := (fd_ctxs m)(p \<mapsto> fst (new_FdCtx fd stat (fd_flags m))), fd_flags := snd (new_FdCtx fd stat (fd_flags m))\<rparr>"
  have "get_create fd p stat m = Inr (Some p, m')"
    using len(1) assms(2) by (simp add: get_create_def Let_def ds1_def m'_def case_prod_unfold)
  moreover have at: "ctx_at m' i = (if i = nat fd then Some p else ctx_at m i)" for i
    using len nth by (auto simp: ctx_at_def m'_def)
  moreover have "fd_ok m'"
  proof -
    have "\<exists>c. fd_ctxs m' q = Some c \<and> m_fd c = int i" if q: "ctx_at m' i = Some q" for i q
    proof (cases "i = nat fd")
      case True
      then show ?thesis using q assms(2) by (simp add: at) (simp add: m'_def)
    next
      case False
      then have "ctx_at m i = Some q" using q by (simp add: at)
      then obtain c where "fd_ctxs m q = Some c" "m_fd c = int i" using assms(1) by (auto simp: fd_ok_def)
      moreover have "q \<noteq> p" using calculation(1) assms(3) by auto
      ultimately show ?thesis by (simp add: m'_def)
    qed
    then show ?thesis using len(3) by (auto simp: fd_ok_def m'_def)
  qed
  ultimately show ?thesis by blast
qed

text \<open>
  For every descriptor that is not negative, get with auto_create returns a context
  of that descriptor; asking again, with or without auto_create, returns the same one, and no
  other descriptor's context changes. Without auto_create nothing changes at all.
\<close>

theorem fd_get_stable:
  assumes "fd_ok m" "0 \<le> fd" "fd_ctxs m p = None"
  shows "\<exists>q m' c. fd_get fd True p stat m = Inr (Some q, m') \<and> fd_ok m' \<and>
    fd_ctxs m' q = Some c \<and> m_fd c = fd \<and>
    (\<forall>b r st. fd_get fd b r st m' = Inr (Some q, m')) \<and>
    (\<forall>i. i \<noteq> nat fd \<longrightarrow> ctx_at m' i = ctx_at m i) \<and>
    fd_get fd False p stat m = Inr (ctx_at m (nat fd), m)"
proof -
  have lookup: "get_lookup fd b n = (case ctx_at n (nat fd) of
      None \<Rightarrow> if b then Inr () else Inl None | Some q \<Rightarrow> Inl (Some q))" for b n
    using assms(2) by (auto simp: get_lookup_def ctx_at_def split: option.splits)
  have no: "fd_get fd False p stat m = Inr (ctx_at m (nat fd), m)"
    by (auto simp: fd_get_def lookup split: option.splits)
  show ?thesis
  proof (cases "ctx_at m (nat fd)")
    case None
    obtain m' where m': "get_create fd p stat m = Inr (Some p, m')" "fd_ok m'"
        "\<forall>i. ctx_at m' i = (if i = nat fd then Some p else ctx_at m i)"
      using get_create_total [OF assms] by blast
    then have at: "ctx_at m' (nat fd) = Some p" by simp
    then obtain c where "fd_ctxs m' p = Some c" "m_fd c = fd"
      using m'(2) assms(2) unfolding fd_ok_def by (metis int_nat_eq)
    then show ?thesis using m' at no None by (auto simp: fd_get_def lookup)
  next
    case (Some q)
    then obtain c where "fd_ctxs m q = Some c" "m_fd c = fd"
      using assms(1,2) unfolding fd_ok_def by (metis int_nat_eq)
    then show ?thesis using Some assms(1) no by (auto simp: fd_get_def lookup)
  qed
qed

theorem fd_get_stable_witness:
  "\<exists>q m' c. fd_get 100 True 5 (Some True) (new_FdManager (\<lambda>_. 0)) = Inr (Some q, m') \<and>
     fd_ctxs m' q = Some c \<and> m_fd c = 100"
  using fd_get_stable [OF fd_ok_new [of "\<lambda>_. 0"], of 100 5 "Some True"] by (auto simp: new_FdManager_def)

end
