(* ===== verification/StdString.thy ===== *)
theory StdString
  imports ExhyPrelude
begin

text \<open>
  The string functions of the C library and of iostream that the sources call: \<open>c_str\<close> with its
  end at the first NUL, strcmp and strncmp against a literal, strcasecmp in the C locale, and the
  decimal output of an unsigned integer.
\<close>

section \<open>C strings\<close>

definition cstr :: "string \<Rightarrow> string" where
  "cstr s = takeWhile (\<lambda>c. c \<noteq> CHR 0x00) s"

lemma cstr_id [simp]: "CHR 0x00 \<notin> set s \<Longrightarrow> cstr s = s"
  by (auto simp: cstr_def takeWhile_eq_all_conv)

lemma cstr_no_nul [simp]: "CHR 0x00 \<notin> set (cstr s)"
  by (auto simp: cstr_def dest: set_takeWhileD)

text \<open>\<open>strncmp(lit, s, strlen(lit)) == 0\<close> for a literal without NUL.\<close>

definition starts_with :: "string \<Rightarrow> string \<Rightarrow> bool" where
  "starts_with lit s \<longleftrightarrow> take (length lit) (cstr s) = lit"

section \<open>strcasecmp\<close>

definition lower :: "char \<Rightarrow> nat" where
  "lower c = (let n = of_char c in if 65 \<le> n \<and> n \<le> 90 then n + 32 else n)"

fun casecmp :: "string \<Rightarrow> string \<Rightarrow> int" where
  "casecmp [] [] = 0"
| "casecmp [] (b # bs) = - int (lower b)"
| "casecmp (a # as) [] = int (lower a)"
| "casecmp (a # as) (b # bs) =
     (if lower a = lower b then casecmp as bs else int (lower a) - int (lower b))"

definition strcasecmp :: "string \<Rightarrow> string \<Rightarrow> int" where
  "strcasecmp a b = casecmp (cstr a) (cstr b)"

text \<open>What strcasecmp compares.\<close>

definition case_key :: "string \<Rightarrow> nat list" where
  "case_key s = map lower (cstr s)"

lemma lower_pos: "c \<noteq> CHR 0x00 \<Longrightarrow> 0 < lower c"
proof -
  assume c: "c \<noteq> CHR 0x00"
  have "of_char c \<noteq> (of_char (CHR 0x00) :: nat)" using c by (simp only: of_char_eq_iff not_False_eq_True)
  then have "of_char c \<noteq> (0::nat)" by simp
  then show ?thesis by (simp add: lower_def Let_def)
qed

lemma casecmp_lexordp:
  assumes "CHR 0x00 \<notin> set a" "CHR 0x00 \<notin> set b"
  shows "casecmp a b < 0 \<longleftrightarrow> ord_class.lexordp (map lower a) (map lower b)"
  using assms
proof (induction a b rule: casecmp.induct)
  case (2 b bs)
  then show ?case using lower_pos [of b] by auto
next
  case (3 a as)
  then show ?case using lower_pos [of a] by auto
qed auto

lemma strcasecmp_less: "strcasecmp a b < 0 \<longleftrightarrow> ord_class.lexordp (case_key a) (case_key b)"
  by (simp add: strcasecmp_def case_key_def casecmp_lexordp)

lemma casecmp_zero:
  assumes "CHR 0x00 \<notin> set a" "CHR 0x00 \<notin> set b"
  shows "casecmp a b = 0 \<longleftrightarrow> map lower a = map lower b"
  using assms
proof (induction a b rule: casecmp.induct)
  case (2 b bs)
  then show ?case using lower_pos [of b] by auto
next
  case (3 a as)
  then show ?case using lower_pos [of a] by auto
qed auto

lemma strcasecmp_zero: "strcasecmp a b = 0 \<longleftrightarrow> case_key a = case_key b"
  by (simp add: strcasecmp_def case_key_def casecmp_zero)

section \<open>Decimal output\<close>

definition digit :: "nat \<Rightarrow> char" where
  "digit d = char_of (48 + d)"

fun dec :: "nat \<Rightarrow> string" where
  "dec n = (if n < 10 then [digit n] else dec (n div 10) @ [digit (n mod 10)])"

declare dec.simps [simp del]

definition digit_val :: "char \<Rightarrow> nat" where
  "digit_val c = of_char c - 48"

definition undec :: "string \<Rightarrow> nat" where
  "undec s = foldl (\<lambda>n c. 10 * n + digit_val c) 0 s"

definition is_digit :: "char \<Rightarrow> bool" where
  "is_digit c \<longleftrightarrow> 48 \<le> (of_char c :: nat) \<and> (of_char c :: nat) \<le> 57"

lemma of_char_digit: "d < 10 \<Longrightarrow> of_char (digit d) = 48 + d"
  by (simp add: digit_def)

lemma digit_digits: "d < 10 \<Longrightarrow> is_digit (digit d)"
  by (simp add: is_digit_def of_char_digit)

lemma digit_val_digit: "d < 10 \<Longrightarrow> digit_val (digit d) = d"
  by (simp add: digit_val_def of_char_digit)

lemma dec_digits: "\<forall>c \<in> set (dec n). is_digit c"
proof (induction n rule: dec.induct)
  case (1 n)
  show ?case
  proof (cases "n < 10")
    case True
    then show ?thesis using digit_digits [of n] by (simp add: dec.simps [of n])
  next
    case False
    then show ?thesis using 1 digit_digits [of "n mod 10"] by (simp add: dec.simps [of n])
  qed
qed

lemma undec_dec: "undec (dec n) = n"
proof (induction n rule: dec.induct)
  case (1 n)
  then show ?case
    by (cases "n < 10") (simp_all add: dec.simps [of n] undec_def digit_val_digit)
qed

section \<open>Hexadecimal output\<close>

definition hex_char :: "nat \<Rightarrow> char" where
  "hex_char d = (if d < 10 then char_of (48 + d) else char_of (87 + d))"

fun hex :: "nat \<Rightarrow> string" where
  "hex n = (if n < 16 then [hex_char n] else hex (n div 16) @ [hex_char (n mod 16)])"

declare hex.simps [simp del]

end
