(* ===== verification/Address.thy ===== *)
theory Address
  imports Endian StdString
begin

text \<open>
  Network addresses (exhy/exhy_address.h, exhy_address.cpp). The structures of the system's
  headers are records; \<open>getAddr\<close> is their object representation on the little-endian host. A
  16 or 32 bit field that holds a number in network order is the word as the host reads it.
  getaddrinfo, inet_pton and getifaddrs are arguments of the functions that call them.
\<close>

section \<open>Socket addresses\<close>

abbreviation (input) AF_UNSPEC :: int where "AF_UNSPEC \<equiv> 0"
abbreviation (input) AF_UNIX :: int where "AF_UNIX \<equiv> 1"
abbreviation (input) AF_INET :: int where "AF_INET \<equiv> 2"
abbreviation (input) AF_INET6 :: int where "AF_INET6 \<equiv> 10"

record sockaddr_in =
  sin_family :: u16
  sin_port :: u16
  sin_addr :: u32
  sin_zero :: "byte list"

record sockaddr_in6 =
  sin6_family :: u16
  sin6_port :: u16
  sin6_flowinfo :: u32
  s6_addr :: "byte list"
  sin6_scope_id :: u32

record sockaddr_un =
  sun_family :: u16
  sun_path :: string

text \<open>The classes; a UnixAddress has its length, an UnknownAddress keeps the 16 bytes of a sockaddr.\<close>

datatype address =
    IPv4Address sockaddr_in
  | IPv6Address sockaddr_in6
  | UnixAddress sockaddr_un nat
  | UnknownAddress "byte list"

fun getAddr :: "address \<Rightarrow> byte list" where
  "getAddr (IPv4Address a) = le_bytes (sin_family a) @ le_bytes (sin_port a) @ le_bytes (sin_addr a) @ sin_zero a"
| "getAddr (IPv6Address a) =
     le_bytes (sin6_family a) @ le_bytes (sin6_port a) @ le_bytes (sin6_flowinfo a) @ s6_addr a @ le_bytes (sin6_scope_id a)"
| "getAddr (UnixAddress a len) = le_bytes (sun_family a) @ map of_char (sun_path a)"
| "getAddr (UnknownAddress bs) = bs"

fun getAddrLen :: "address \<Rightarrow> nat" where
  "getAddrLen (IPv4Address a) = 16"
| "getAddrLen (IPv6Address a) = 28"
| "getAddrLen (UnixAddress a len) = len"
| "getAddrLen (UnknownAddress bs) = 16"

definition sa_family :: "byte list \<Rightarrow> int" where
  "sa_family bs = uint (of_le_bytes (take 2 bs) :: u16)"

definition getFamily :: "address \<Rightarrow> int" where
  "getFamily a = sa_family (getAddr a)"

text \<open>Reading a structure through a cast pointer; what is behind the end of the memory faults.\<close>

definition as_sockaddr_in :: "byte list \<Rightarrow> sockaddr_in res" where
  "as_sockaddr_in bs =
     (if length bs < 16 then Inl OutOfBounds
      else Inr \<lparr>sin_family = of_le_bytes (take 2 bs), sin_port = of_le_bytes (take 2 (drop 2 bs)),
                sin_addr = of_le_bytes (take 4 (drop 4 bs)), sin_zero = take 8 (drop 8 bs)\<rparr>)"

definition as_sockaddr_in6 :: "byte list \<Rightarrow> sockaddr_in6 res" where
  "as_sockaddr_in6 bs =
     (if length bs < 28 then Inl OutOfBounds
      else Inr \<lparr>sin6_family = of_le_bytes (take 2 bs), sin6_port = of_le_bytes (take 2 (drop 2 bs)),
                sin6_flowinfo = of_le_bytes (take 4 (drop 4 bs)), s6_addr = take 16 (drop 8 bs),
                sin6_scope_id = of_le_bytes (take 4 (drop 24 bs))\<rparr>)"

text \<open>\<open>Address::Create\<close>; \<open>addrlen\<close> is not looked at.\<close>

definition Address_Create :: "byte list option \<Rightarrow> nat \<Rightarrow> address option res" where
  "Address_Create addr addrlen =
     (case addr of
        None \<Rightarrow> Inr None
      | Some bs \<Rightarrow>
          if length bs < 2 then Inl OutOfBounds
          else if sa_family bs = AF_INET then sbind (as_sockaddr_in bs) (\<lambda>a. Inr (Some (IPv4Address a)))
          else if sa_family bs = AF_INET6 then sbind (as_sockaddr_in6 bs) (\<lambda>a. Inr (Some (IPv6Address a)))
          else if length bs < 16 then Inl OutOfBounds
          else Inr (Some (UnknownAddress (take 16 bs))))"

section \<open>Order\<close>

fun memcmp :: "byte list \<Rightarrow> byte list \<Rightarrow> int" where
  "memcmp (a # as) (b # bs) = (if a = b then memcmp as bs else uint a - uint b)"
| "memcmp _ _ = 0"

definition address_less :: "address \<Rightarrow> address \<Rightarrow> bool" where
  "address_less a b =
     (let minlen = min (getAddrLen a) (getAddrLen b);
          rt = memcmp (take minlen (getAddr a)) (take minlen (getAddr b))
      in if rt < 0 then True else if 0 < rt then False else getAddrLen a < getAddrLen b)"

definition address_eq :: "address \<Rightarrow> address \<Rightarrow> bool" where
  "address_eq a b \<longleftrightarrow> getAddrLen a = getAddrLen b \<and>
     memcmp (take (getAddrLen a) (getAddr a)) (take (getAddrLen a) (getAddr b)) = 0"

definition address_neq :: "address \<Rightarrow> address \<Rightarrow> bool" where
  "address_neq a b \<longleftrightarrow> \<not> address_eq a b"

section \<open>Masks\<close>

text \<open>
  \<open>CreateMask\<close> for uint32_t and uint8_t: the 1 that is shifted is an int, so a shift by 32 (or by a
  wrapped-around number) is undefined, and subtracting 1 from \<open>1 << 31\<close> overflows.
\<close>

definition CreateMask32 :: "nat \<Rightarrow> u32 res" where
  "CreateMask32 bits =
     (if bits = 0 \<or> 32 < bits then Inl BadShift
      else if bits = 1 then Inl SignedOverflow
      else Inr (push_bit (32 - bits) 1 - 1))"

definition CreateMask8 :: "nat \<Rightarrow> byte res" where
  "CreateMask8 bits = (if 8 < bits then Inl BadShift else Inr (ucast (push_bit (8 - bits) (1 :: u32) - 1)))"

text \<open>\<open>CountBytes\<close>: clears the lowest bit that is set until none is.\<close>

function CountBytes :: "'a::len word \<Rightarrow> nat" where
  "CountBytes w = (if w = 0 then 0 else Suc (CountBytes (w AND (w - 1))))"
  by pat_completeness auto
termination
proof (relation "measure unat")
  fix w :: "'a word" assume "w \<noteq> 0"
  moreover have "w AND (w - 1) \<le> w - 1" by (simp add: word_and_le1)
  ultimately show "(w AND (w - 1), w) \<in> measure unat"
    by (metis (no_types, lifting) in_measure le_less_trans measure_unat word_le_nat_alt)
qed simp

declare CountBytes.simps [simp del]

section \<open>IPv4\<close>

text \<open>The port is a uint32_t here: all four bytes are swapped and the low two are kept.\<close>

definition new_IPv4Address :: "u32 \<Rightarrow> u32 \<Rightarrow> sockaddr_in" where
  "new_IPv4Address address port =
     \<lparr>sin_family = word_of_int AF_INET, sin_port = ucast (byteswapOnLittleEndian port),
      sin_addr = byteswapOnLittleEndian address, sin_zero = replicate 8 0\<rparr>"

definition v4_getPort :: "sockaddr_in \<Rightarrow> u32" where
  "v4_getPort a = ucast (byteswapOnLittleEndian (sin_port a))"

definition v4_setPort :: "u16 \<Rightarrow> sockaddr_in \<Rightarrow> sockaddr_in" where
  "v4_setPort v a = a\<lparr>sin_port := byteswapOnLittleEndian v\<rparr>"

definition v4_insert :: "sockaddr_in \<Rightarrow> string" where
  "v4_insert a =
     (let addr = byteswapOnLittleEndian (sin_addr a)
      in dec (unat (drop_bit 24 addr AND 0xff)) @ ''.'' @ dec (unat (drop_bit 16 addr AND 0xff)) @ ''.'' @
         dec (unat (drop_bit 8 addr AND 0xff)) @ ''.'' @ dec (unat (addr AND 0xff)) @ '':'' @
         dec (unat (byteswapOnLittleEndian (sin_port a))))"

text \<open>\<open>pton\<close> is inet_pton: a negative result, or not, and the four bytes when it has stored them.\<close>

definition IPv4Address_Create :: "(string \<Rightarrow> int \<times> u32 option) \<Rightarrow> string \<Rightarrow> u32 \<Rightarrow> sockaddr_in option" where
  "IPv4Address_Create pton address port =
     (let rt = (new_IPv4Address 0 0)\<lparr>sin_port := ucast (byteswapOnLittleEndian port)\<rparr>; (res, ad) = pton (cstr address)
      in if res < 0 then None else Some (case ad of None \<Rightarrow> rt | Some w \<Rightarrow> rt\<lparr>sin_addr := w\<rparr>))"

definition v4_broadcastAddress :: "nat \<Rightarrow> sockaddr_in \<Rightarrow> sockaddr_in option res" where
  "v4_broadcastAddress prefix_len a =
     (if 32 < prefix_len then Inr None
      else sbind (CreateMask32 prefix_len)
             (\<lambda>m. Inr (Some (a\<lparr>sin_addr := sin_addr a OR byteswapOnLittleEndian m\<rparr>))))"

definition v4_networkAddress :: "nat \<Rightarrow> sockaddr_in \<Rightarrow> sockaddr_in option res" where
  "v4_networkAddress prefix_len a =
     (if 32 < prefix_len then Inr None
      else sbind (CreateMask32 prefix_len)
             (\<lambda>m. Inr (Some (a\<lparr>sin_addr := sin_addr a AND byteswapOnLittleEndian m\<rparr>))))"

definition v4_subnetMask :: "nat \<Rightarrow> sockaddr_in res" where
  "v4_subnetMask prefix_len =
     sbind (CreateMask32 prefix_len)
       (\<lambda>m. Inr \<lparr>sin_family = word_of_int AF_INET, sin_port = 0, sin_addr = NOT (byteswapOnLittleEndian m),
                 sin_zero = replicate 8 0\<rparr>)"

section \<open>IPv6\<close>

definition new_IPv6Address :: sockaddr_in6 where
  "new_IPv6Address =
     \<lparr>sin6_family = word_of_int AF_INET6, sin6_port = 0, sin6_flowinfo = 0, s6_addr = replicate 16 0, sin6_scope_id = 0\<rparr>"

text \<open>The constructor from bytes stores the family of IPv4.\<close>

definition new_IPv6Address_bytes :: "byte list \<Rightarrow> u16 \<Rightarrow> sockaddr_in6" where
  "new_IPv6Address_bytes ad port =
     \<lparr>sin6_family = word_of_int AF_INET, sin6_port = byteswapOnLittleEndian port, sin6_flowinfo = 0,
      s6_addr = take 16 ad, sin6_scope_id = 0\<rparr>"

definition IPv6Address_Create :: "(string \<Rightarrow> int \<times> byte list option) \<Rightarrow> string \<Rightarrow> u16 \<Rightarrow> sockaddr_in6 option" where
  "IPv6Address_Create pton address port =
     (let rt = new_IPv6Address\<lparr>sin6_port := byteswapOnLittleEndian port\<rparr>; (result, ad) = pton (cstr address)
      in if result \<le> 0 then None else Some (case ad of None \<Rightarrow> rt | Some bs \<Rightarrow> rt\<lparr>s6_addr := bs\<rparr>))"

text \<open>Setting the bytes from index \<open>i\<close> to the end, or those before it.\<close>

definition fill_from :: "nat \<Rightarrow> byte \<Rightarrow> byte list \<Rightarrow> byte list" where
  "fill_from i v bs = take i bs @ replicate (length bs - i) v"

definition fill_before :: "nat \<Rightarrow> byte \<Rightarrow> byte list \<Rightarrow> byte list" where
  "fill_before i v bs = replicate i v @ drop i bs"

text \<open>A prefix length of 128 and more indexes the 16 bytes out of bounds.\<close>

definition v6_broadcastAddress :: "nat \<Rightarrow> sockaddr_in6 \<Rightarrow> sockaddr_in6 res" where
  "v6_broadcastAddress prefix_len a =
     (let i = prefix_len div 8; bs = s6_addr a
      in if 16 \<le> i then Inl OutOfBounds
         else sbind (CreateMask8 (prefix_len mod 8))
                (\<lambda>m. Inr (a\<lparr>s6_addr := fill_from (Suc i) 0xff (bs[i := bs ! i OR m])\<rparr>)))"

definition v6_networkAddress :: "nat \<Rightarrow> sockaddr_in6 \<Rightarrow> sockaddr_in6 res" where
  "v6_networkAddress prefix_len a =
     (let i = prefix_len div 8; bs = s6_addr a
      in if 16 \<le> i then Inl OutOfBounds
         else sbind (CreateMask8 (prefix_len mod 8))
                (\<lambda>m. Inr (a\<lparr>s6_addr := fill_from (Suc i) 0 (bs[i := bs ! i AND m])\<rparr>)))"

definition v6_subnetMask :: "nat \<Rightarrow> sockaddr_in6 res" where
  "v6_subnetMask prefix_len =
     (let i = prefix_len div 8
      in if 16 \<le> i then Inl OutOfBounds
         else sbind (CreateMask8 (prefix_len mod 8))
                (\<lambda>m. Inr (new_IPv6Address\<lparr>s6_addr := fill_before i 0xff ((replicate 16 0)[i := NOT m])\<rparr>)))"

definition v6_getPort :: "sockaddr_in6 \<Rightarrow> u32" where
  "v6_getPort a = ucast (byteswapOnLittleEndian (sin6_port a))"

definition v6_setPort :: "u16 \<Rightarrow> sockaddr_in6 \<Rightarrow> sockaddr_in6" where
  "v6_setPort v a = a\<lparr>sin6_port := byteswapOnLittleEndian v\<rparr>"

text \<open>The eight groups as the host reads them, and the loop over them from index \<open>i\<close> on.\<close>

fun v6_groups :: "byte list \<Rightarrow> u16 list" where
  "v6_groups (b # c # bs) = of_le_bytes [b, c] # v6_groups bs"
| "v6_groups _ = []"

fun v6_loop :: "nat \<Rightarrow> u16 \<Rightarrow> bool \<Rightarrow> u16 list \<Rightarrow> string \<times> bool" where
  "v6_loop i prev used_zeros [] = ([], used_zeros)"
| "v6_loop i prev used_zeros (g # gs) =
     (if g = 0 \<and> \<not> used_zeros then v6_loop (Suc i) g used_zeros gs
      else let colon = (i \<noteq> 0 \<and> prev = 0 \<and> \<not> used_zeros);
               (s, u) = v6_loop (Suc i) g (used_zeros \<or> colon) gs
           in ((if colon then '':'' else []) @ (if i \<noteq> 0 then '':'' else []) @
               hex (unat (byteswapOnLittleEndian g)) @ s, u))"

definition v6_insert :: "sockaddr_in6 \<Rightarrow> string" where
  "v6_insert a =
     (let addr = v6_groups (s6_addr a); (s, used_zeros) = v6_loop 0 0 False addr
      in ''['' @ s @ (if \<not> used_zeros \<and> addr ! 7 = 0 then ''::'' else []) @ '']:'' @
         dec (unat (byteswapOnLittleEndian (sin6_port a))))"

section \<open>Unix and unknown addresses\<close>

definition new_UnixAddress :: address where
  "new_UnixAddress = UnixAddress \<lparr>sun_family = word_of_int AF_UNIX, sun_path = replicate 108 (CHR 0x00)\<rparr> (2 + 107)"

definition new_UnixAddress_path :: "string \<Rightarrow> address res" where
  "new_UnixAddress_path path =
     (let len = (if path \<noteq> [] \<and> hd path = CHR 0x00 then length path else length path + 1)
      in if 108 < len then Inl LogicError
         else Inr (UnixAddress \<lparr>sun_family = word_of_int AF_UNIX,
                sun_path = take len (path @ [CHR 0x00]) @ replicate (108 - len) (CHR 0x00)\<rparr> (len + 2)))"

definition setAddrLen :: "nat \<Rightarrow> address \<Rightarrow> address" where
  "setAddrLen v a = (case a of UnixAddress u len \<Rightarrow> UnixAddress u v | _ \<Rightarrow> a)"

text \<open>Output of a C string runs out of the array when there is no NUL in it.\<close>

definition unix_path :: "sockaddr_un \<Rightarrow> nat \<Rightarrow> string res" where
  "unix_path u len =
     (if 2 < len \<and> hd (sun_path u) = CHR 0x00 then
        (if 108 < len - 2 then Inl OutOfBounds
         else Inr ([CHR 0x5C, CHR ''0''] @ take (len - 2 - 1) (drop 1 (sun_path u))))
      else if CHR 0x00 \<notin> set (sun_path u) then Inl OutOfBounds
      else Inr (cstr (sun_path u)))"

definition new_UnknownAddress :: "int \<Rightarrow> address" where
  "new_UnknownAddress family = UnknownAddress (le_bytes (word_of_int family :: u16) @ replicate 14 0)"

text \<open>The virtual \<open>insert\<close>, whose output is what \<open>toString\<close> returns.\<close>

definition address_toString :: "address \<Rightarrow> string res" where
  "address_toString a =
     (case a of
        IPv4Address x \<Rightarrow> Inr (v4_insert x)
      | IPv6Address x \<Rightarrow> Inr (v6_insert x)
      | UnixAddress u len \<Rightarrow> unix_path u len
      | UnknownAddress bs \<Rightarrow> Inr (''[UnknownAddress family='' @ dec (nat (sa_family bs)) @ '']''))"

section \<open>Lookup\<close>

text \<open>memchr: the index of the first \<open>c\<close>.\<close>

definition memchr :: "char \<Rightarrow> string \<Rightarrow> nat option" where
  "memchr c s = (if c \<in> set s then Some (length (takeWhile (\<lambda>d. d \<noteq> c) s)) else None)"

text \<open>What \<open>Lookup\<close> makes of a host before it asks getaddrinfo: the node and the service.\<close>

definition lookup_split :: "string \<Rightarrow> string \<times> string option" where
  "lookup_split host =
     (let (node1, service1) =
            (if host \<noteq> [] \<and> hd host = CHR ''['' then
               (case memchr (CHR '']'') (drop 1 host) of
                  None \<Rightarrow> ([], None)
                | Some k \<Rightarrow> (take k (drop 1 host),
                    (if take 1 (drop (k + 2) host) = '':'' then Some (drop (k + 3) host) else None)))
             else ([], None));
          (node2, service2) =
            (if node1 = [] then
               (case memchr (CHR '':'') host of
                  None \<Rightarrow> (node1, None)
                | Some k \<Rightarrow>
                    (if memchr (CHR '':'') (drop (k + 1) host) = None then (take k host, Some (drop (k + 1) host))
                     else (node1, Some (drop k host))))
             else (node1, service1));
          node3 = (if node2 = [] then host else node2)
      in (cstr node3, map_option cstr service2))"

text \<open>
  \<open>gai node service family type protocol\<close> is getaddrinfo: the list of results, or an error. The
  loop over the results appends to the vector.
\<close>

type_synonym getaddrinfo =
  "string \<Rightarrow> string option \<Rightarrow> int \<Rightarrow> int \<Rightarrow> int \<Rightarrow> (byte list option \<times> nat) list option"

fun create_all :: "(byte list option \<times> nat) list \<Rightarrow> address option list \<Rightarrow> address option list res" where
  "create_all [] rt = Inr rt"
| "create_all (n # ns) rt = sbind (Address_Create (fst n) (snd n)) (\<lambda>a. create_all ns (rt @ [a]))"

definition Lookup ::
  "getaddrinfo \<Rightarrow> address option list \<Rightarrow> string \<Rightarrow> int \<Rightarrow> int \<Rightarrow> int \<Rightarrow> (bool \<times> address option list) res" where
  "Lookup gai rt host family type protocol =
     (let (node, service) = lookup_split host
      in case gai node service family type protocol of
           None \<Rightarrow> Inr (False, rt)
         | Some results \<Rightarrow> sbind (create_all results rt) (\<lambda>rt'. Inr (rt' \<noteq> [], rt')))"

definition LookupAny :: "getaddrinfo \<Rightarrow> string \<Rightarrow> int \<Rightarrow> int \<Rightarrow> int \<Rightarrow> address option res" where
  "LookupAny gai host family type protocol =
     sbind (Lookup gai [] host family type protocol) (\<lambda>(ok, rt). Inr (if ok then hd rt else None))"

definition is_ip :: "address option \<Rightarrow> bool" where
  "is_ip a = (case a of Some (IPv4Address x) \<Rightarrow> True | Some (IPv6Address x) \<Rightarrow> True | _ \<Rightarrow> False)"

definition LookupAnyIPAddress :: "getaddrinfo \<Rightarrow> string \<Rightarrow> int \<Rightarrow> int \<Rightarrow> int \<Rightarrow> address option res" where
  "LookupAnyIPAddress gai host family type protocol =
     sbind (Lookup gai [] host family type protocol)
       (\<lambda>(ok, rt). Inr (if ok then (case List.find is_ip rt of None \<Rightarrow> None | Some a \<Rightarrow> a) else None))"

definition ip_setPort :: "u16 \<Rightarrow> address \<Rightarrow> address" where
  "ip_setPort v a = (case a of
     IPv4Address x \<Rightarrow> IPv4Address (v4_setPort v x) | IPv6Address x \<Rightarrow> IPv6Address (v6_setPort v x) | _ \<Rightarrow> a)"

text \<open>Only the first result counts; getaddrinfo returns one at least when it succeeds.\<close>

definition IPAddress_Create :: "getaddrinfo \<Rightarrow> string \<Rightarrow> u16 \<Rightarrow> address option res" where
  "IPAddress_Create gai ad port =
     (case gai (cstr ad) None AF_UNSPEC 0 0 of
        None \<Rightarrow> Inr None
      | Some [] \<Rightarrow> Inl NullDeref
      | Some (n # ns) \<Rightarrow>
          sbind (Address_Create (fst n) (snd n))
            (\<lambda>a. Inr (if is_ip a then map_option (ip_setPort port) a else None)))"

section \<open>Interfaces\<close>

record ifaddr =
  ifa_name :: string
  ifa_addr :: "byte list option"
  ifa_netmask :: "byte list option"

text \<open>One interface: the address, if it is an IP address, and the length of its prefix.\<close>

definition interface_address :: "int \<Rightarrow> ifaddr \<Rightarrow> (address \<times> nat) option res" where
  "interface_address family i =
     (case ifa_addr i of
        None \<Rightarrow> Inl NullDeref
      | Some bs \<Rightarrow>
          if family \<noteq> AF_UNSPEC \<and> family \<noteq> sa_family bs then Inr None
          else if sa_family bs = AF_INET then
            sbind (Address_Create (Some bs) 16)
              (\<lambda>a. case ifa_netmask i of
                 None \<Rightarrow> Inl NullDeref
               | Some ms \<Rightarrow> sbind (as_sockaddr_in ms) (\<lambda>m. Inr (map_option (\<lambda>x. (x, CountBytes (sin_addr m))) a)))
          else if sa_family bs = AF_INET6 then
            sbind (Address_Create (Some bs) 28)
              (\<lambda>a. case ifa_netmask i of
                 None \<Rightarrow> Inl NullDeref
               | Some ms \<Rightarrow> sbind (as_sockaddr_in6 ms)
                   (\<lambda>m. Inr (map_option (\<lambda>x. (x, sum_list (map CountBytes (s6_addr m)))) a)))
          else Inr None)"

text \<open>The multimap keeps the entries of one name in the order they came in.\<close>

fun interface_loop :: "int \<Rightarrow> ifaddr list \<Rightarrow> (string \<times> address \<times> nat) list \<Rightarrow> (string \<times> address \<times> nat) list res" where
  "interface_loop family [] acc = Inr acc"
| "interface_loop family (i # is) acc =
     sbind (interface_address family i)
       (\<lambda>r. interface_loop family is (case r of None \<Rightarrow> acc | Some x \<Rightarrow> acc @ [(ifa_name i, x)]))"

definition GetInterfaceAddresses ::
  "ifaddr list option \<Rightarrow> (string \<times> address \<times> nat) list \<Rightarrow> int \<Rightarrow> (bool \<times> (string \<times> address \<times> nat) list) res" where
  "GetInterfaceAddresses ifs acc family =
     (case ifs of
        None \<Rightarrow> Inr (False, acc)
      | Some is \<Rightarrow> sbind (interface_loop family is acc) (\<lambda>r. Inr (r \<noteq> [], r)))"

definition GetInterfaceAddresses_of ::
  "ifaddr list option \<Rightarrow> (address \<times> nat) list \<Rightarrow> string \<Rightarrow> int \<Rightarrow> (bool \<times> (address \<times> nat) list) res" where
  "GetInterfaceAddresses_of ifs acc iface family =
     (if iface = [] \<or> iface = ''*'' then
        Inr (True, acc @
          (if family = AF_INET \<or> family = AF_UNSPEC then [(IPv4Address (new_IPv4Address 0 0), 0)] else []) @
          (if family = AF_INET6 \<or> family = AF_UNSPEC then [(IPv6Address new_IPv6Address, 0)] else []))
      else sbind (GetInterfaceAddresses ifs [] family)
             (\<lambda>(ok, results).
                if \<not> ok then Inr (False, acc)
                else let r = acc @ map snd (filter (\<lambda>p. fst p = iface) results) in Inr (r \<noteq> [], r)))"

end
