(* ===== verification/AddressFacts.thy ===== *)
theory AddressFacts
  imports Address
begin

text \<open>
  What the address operations compute: the masks of IPv4 and IPv6 bit by bit, the length of a
  prefix, the text of an IPv6 address against a reference printer, the order of addresses, and
  what the constructors and \<open>Create\<close> make of ports and families.
\<close>

section \<open>Counting bits\<close>

lemma clear_lowest_bit:
  fixes w :: "'a::len word"
  assumes "w \<noteq> 0"
  obtains n where "bit w n" "w AND (w - 1) = unset_bit n w"
proof -
  have "\<exists>n. bit w n" using assms by (auto simp: bit_eq_iff)
  define n where "n = (LEAST n. bit w n)"
  have n: "bit w n" and below: "\<not> bit w m" if "m < n" for m
    using \<open>\<exists>n. bit w n\<close> that unfolding n_def by (auto intro: LeastI dest: not_less_Least)
  have n: "bit w n" using \<open>\<exists>n. bit w n\<close> unfolding n_def by (auto intro: LeastI)
  let ?v = "unset_bit n w"
  have "w = ?v + 2 ^ n"
  proof -
    have "?v + 2 ^ n = ?v OR 2 ^ n"
      by (rule disjunctive_add_eq_or, rule bit_word_eqI) (auto simp: bit_and_iff bit_unset_bit_iff bit_exp_iff)
    also have "... = w" by (rule bit_word_eqI) (use n in \<open>auto simp: bit_or_iff bit_unset_bit_iff bit_exp_iff\<close>)
    finally show ?thesis by simp
  qed
  then have "w - 1 = ?v + mask n" by (simp add: mask_eq_exp_minus_1)
  also have "... = ?v OR mask n"
    by (rule disjunctive_add_eq_or, rule bit_word_eqI) (use below in \<open>auto simp: bit_and_iff bit_unset_bit_iff bit_mask_iff\<close>)
  finally have "w AND (w - 1) = ?v"
    by (intro bit_word_eqI) (use below in \<open>auto simp: bit_and_iff bit_or_iff bit_unset_bit_iff bit_mask_iff\<close>)
  then show thesis using n that by blast
qed

lemma CountBytes_card: "CountBytes w = card {n. bit w n}"
proof (induction w rule: CountBytes.induct)
  case (1 w)
  show ?case
  proof (cases "w = 0")
    case True
    then show ?thesis by (simp add: CountBytes.simps)
  next
    case False
    obtain n where n: "bit w n" "w AND (w - 1) = unset_bit n w" using clear_lowest_bit [OF False] .
    have fin: "finite {m. bit w m}"
      by (rule finite_subset [of _ "{..<LENGTH('a)}"]) (auto dest: bit_imp_le_length)
    have "{m. bit (unset_bit n w) m} = {m. bit w m} - {n}" by (auto simp: bit_unset_bit_iff)
    moreover have "n \<in> {m. bit w m}" using n(1) by simp
    ultimately have "Suc (card {m. bit (unset_bit n w) m}) = card {m. bit w m}"
      using card.remove [OF fin, of n] by (simp only: )
    moreover have "CountBytes w = Suc (CountBytes (unset_bit n w))"
      using False n(2) CountBytes.simps [of w] by (simp only: if_False)
    moreover have "CountBytes (unset_bit n w) = card {m. bit (unset_bit n w) m}"
      using "1.IH" [OF False] unfolding n(2) .
    ultimately show ?thesis by (simp only: )
  qed
qed

section \<open>IPv4\<close>

lemma byteswapOnLittleEndian_eq: "byteswapOnLittleEndian w = byteswap w"
  by (simp add: byteswapOnLittleEndian_def EXHY_BYTE_ORDER_def)

text \<open>The number an address stands for.\<close>

definition v4_number :: "sockaddr_in \<Rightarrow> u32" where
  "v4_number a = byteswap (sin_addr a)"

lemma CreateMask32_mask: "1 < p \<Longrightarrow> p \<le> 32 \<Longrightarrow> CreateMask32 p = Inr (mask (32 - p))"
  by (simp add: CreateMask32_def mask_eq_exp_minus_1 push_bit_of_1)

text \<open>
  For a prefix length of 2 to 32 the broadcast address has the bits behind the prefix set
  and the subnet mask has exactly those of the prefix, but networkAddress keeps the bits behind
  the prefix and clears the network's: it is the host part. Lengths 0 and 1 run into undefined
  behaviour, longer ones than 32 are refused by all but subnetMask.
\<close>

theorem ipv4_masks:
  assumes "1 < p" "p \<le> 32"
  shows "\<exists>b n s. v4_broadcastAddress p a = Inr (Some b) \<and> v4_number b = v4_number a OR mask (32 - p) \<and>
      v4_networkAddress p a = Inr (Some n) \<and> v4_number n = v4_number a AND mask (32 - p) \<and>
      v4_subnetMask p = Inr s \<and> v4_number s = NOT (mask (32 - p)) \<and>
      v4_number n AND v4_number s = 0 \<and> sin_port b = sin_port a \<and> sin_port n = sin_port a"
proof -
  let ?m = "byteswap (mask (32 - p) :: u32)"
  have bb: "byteswap (byteswap w) = w" for w :: u32 by (rule byteswap_byteswap) simp
  have hom: "byteswap (v OR w) = byteswap v OR byteswap w" "byteswap (v AND w) = byteswap v AND byteswap w"
    "byteswap (NOT w) = NOT (byteswap w)" for v w :: u32
    by (simp_all add: byteswap_or byteswap_and byteswap_not)
  have "(x AND mask k) AND NOT (mask k) = 0" for x :: u32 and k
    by (rule bit_word_eqI) (auto simp: bit_and_iff bit_not_iff)
  then show ?thesis
    using assms CreateMask32_mask [OF assms]
    by (simp add: v4_broadcastAddress_def v4_networkAddress_def v4_subnetMask_def v4_number_def
        byteswapOnLittleEndian_eq hom bb)
qed

theorem ipv4_masks_witness:
  "\<exists>n. v4_networkAddress 24 (new_IPv4Address 0xC0A80105 0) = Inr (Some n) \<and> v4_number n = 0x00000005"
proof -
  have "v4_number (new_IPv4Address 0xC0A80105 0) AND mask (32 - 24) = 0x00000005"
    by code_simp
  then show ?thesis using ipv4_masks [of 24 "new_IPv4Address 0xC0A80105 0"] by auto
qed

lemma swapped_port: "unat (port :: u32) < 65536 \<Longrightarrow> (ucast (byteswap port) :: u16) = 0"
proof (rule bit_word_eqI)
  fix j assume p: "unat port < 65536" and "j < LENGTH(16)"
  then have j: "j < 16" by simp
  have high: "\<not> bit port i" if "16 \<le> i" for i
  proof -
    have "(2::nat) ^ 16 \<le> 2 ^ i" using that by (rule power_increasing) simp
    then have "unat port div 2 ^ i = 0" using p by simp
    then have "\<not> bit (unat port) i" by (simp add: bit_iff_odd)
    then show ?thesis by (simp add: bit_unsigned_iff)
  qed
  have "3 - j div 8 \<ge> 2" using j by (simp add: less_mult_imp_div_less)
  then have "16 \<le> 8 * (3 - j div 8) + j mod 8" by linarith
  then show "bit (ucast (byteswap port) :: u16) j = bit (0 :: u16) j"
    using high by (simp add: bit_ucast_iff bit_byteswap)
qed

text \<open>
  The constructor from a number and a port, and Create from a text and a port, lose the
  port: whatever port below 65536 is given, getPort says 0.
\<close>

theorem ipv4_port_lost:
  assumes "unat port < 65536"
  shows "v4_getPort (new_IPv4Address addr port) = 0 \<and>
    (IPv4Address_Create pton txt port = Some a \<longrightarrow> v4_getPort a = 0) \<and>
    v4_getPort (v4_setPort v a) = ucast v"
proof -
  have "byteswapOnLittleEndian (ucast (byteswapOnLittleEndian port) :: u16) = 0"
  proof -
    have "byteswap (0 :: u16) = 0" by code_simp
    then show ?thesis using swapped_port [OF assms] by (simp add: byteswapOnLittleEndian_eq)
  qed
  then show ?thesis
    by (auto simp: v4_getPort_def new_IPv4Address_def IPv4Address_Create_def v4_setPort_def byteswapOnLittleEndian_eq
        byteswap_byteswap Let_def split: prod.splits option.splits if_splits)
qed

theorem ipv4_port_lost_witness: "v4_getPort (new_IPv4Address 0x7F000001 8080) = 0"
  using ipv4_port_lost [of 8080 "0x7F000001" "\<lambda>_. (0, None)" "[]" undefined 0] by simp

text \<open>
  The number of set bits is what CountBytes counts, so the prefix length read back from
  a subnet mask is the one it was made for.
\<close>

theorem prefix_length_roundtrip:
  assumes "1 < p" "p \<le> 32" "v4_subnetMask p = Inr s"
  shows "CountBytes (sin_addr s) = p \<and> CountBytes (w :: 'a::len word) = card {n. bit w n}"
proof
  have s: "sin_addr s = byteswap (NOT (mask (32 - p)))"
    using assms CreateMask32_mask [OF assms(1,2)]
    by (auto simp: v4_subnetMask_def byteswapOnLittleEndian_eq byteswap_not)
  define f where "f j = 8 * (3 - j div 8) + j mod (8::nat)" for j
  have f: "f j < 32" "f (f j) = j" if "j < 32" for j
    using that unfolding f_def by simp_all
  have "{n. bit (sin_addr s) n} = {j. j < 32 \<and> 32 - p \<le> f j}"
  proof (intro Collect_cong)
    fix j
    have "bit (sin_addr s) j \<longleftrightarrow> j < 32 \<and> bit (NOT (mask (32 - p)) :: u32) (f j)"
      by (simp add: s bit_byteswap f_def)
    then show "bit (sin_addr s) j \<longleftrightarrow> j < 32 \<and> 32 - p \<le> f j"
      using f(1) [of j] by (auto simp: bit_not_iff bit_mask_iff)
  qed
  also have "... = f ` {32 - p..<32}"
  proof (intro set_eqI iffI)
    fix j assume "j \<in> {j. j < 32 \<and> 32 - p \<le> f j}"
    then have "j = f (f j)" "f j \<in> {32 - p..<32}" using f [of j] by simp_all
    then show "j \<in> f ` {32 - p..<32}" by (rule image_eqI)
  next
    fix j assume "j \<in> f ` {32 - p..<32}"
    then obtain i where "j = f i" "32 - p \<le> i" "i < 32" by auto
    then show "j \<in> {j. j < 32 \<and> 32 - p \<le> f j}" using f [of i] by simp
  qed
  finally have "{n. bit (sin_addr s) n} = f ` {32 - p..<32}" .
  moreover have "inj_on f {32 - p..<32}"
    by (rule inj_on_inverseI [of _ f]) (simp add: f(2))
  ultimately have "card {n. bit (sin_addr s) n} = card {32 - p..<32}" by (simp only: card_image)
  then show "CountBytes (sin_addr s) = p" using assms(2) by (simp add: CountBytes_card)
  show "CountBytes w = card {n. bit w n}" by (rule CountBytes_card)
qed

theorem prefix_length_roundtrip_witness:
  "\<exists>s. v4_subnetMask 24 = Inr s \<and> CountBytes (sin_addr s) = 24"
proof -
  obtain s where "v4_subnetMask 24 = Inr s" by (simp add: v4_subnetMask_def CreateMask32_def)
  then show ?thesis using prefix_length_roundtrip [of 24 s "0 :: byte"] by simp
qed

section \<open>IPv6\<close>

text \<open>Bit \<open>i\<close> of an address, counted from the left.\<close>

definition bit_at :: "byte list \<Rightarrow> nat \<Rightarrow> bool" where
  "bit_at bs i \<longleftrightarrow> bit (bs ! (i div 8)) (7 - i mod 8)"

lemma CreateMask8_mask:
  assumes "r < 8"
  shows "CreateMask8 r = Inr (mask (8 - r))"
proof -
  have "r = 0 \<or> r = 1 \<or> r = 2 \<or> r = 3 \<or> r = 4 \<or> r = 5 \<or> r = 6 \<or> r = 7" using assms by auto
  moreover have "\<forall>r \<in> {0, 1, 2, 3, 4, 5, 6, 7}. CreateMask8 r = Inr (mask (8 - r))" by code_simp
  ultimately show ?thesis by blast
qed

lemma bit_mask8: "r < 8 \<Longrightarrow> t < 8 \<Longrightarrow> bit (mask (8 - r) :: byte) (7 - t) \<longleftrightarrow> r \<le> t"
  by (auto simp: bit_mask_iff)

lemma nth_fill_from: "length bs = 16 \<Longrightarrow> i \<le> 16 \<Longrightarrow> k < 16 \<Longrightarrow> fill_from i v bs ! k = (if k < i then bs ! k else v)"
  by (auto simp: fill_from_def nth_append)

lemma nth_fill_before: "length bs = 16 \<Longrightarrow> i \<le> 16 \<Longrightarrow> k < 16 \<Longrightarrow> fill_before i v bs ! k = (if k < i then v else bs ! k)"
  by (auto simp: fill_before_def nth_append)

text \<open>
  For a prefix length below 128, bit for bit: the broadcast address sets the bits behind
  the prefix, the subnet mask is the prefix; networkAddress clears, in the byte where the prefix
  ends, the network's bits and not the others, and all bytes behind it. Length 128 is out of bounds.
\<close>

theorem ipv6_masks:
  assumes "p < 128" "length (s6_addr a) = 16" "i < 128"
  shows "\<exists>b n m. v6_broadcastAddress p a = Inr b \<and> bit_at (s6_addr b) i = (p \<le> i \<or> bit_at (s6_addr a) i) \<and>
      v6_subnetMask p = Inr m \<and> bit_at (s6_addr m) i = (i < p) \<and>
      v6_networkAddress p a = Inr n \<and>
      bit_at (s6_addr n) i = (bit_at (s6_addr a) i \<and> (i div 8 < p div 8 \<or> i div 8 = p div 8 \<and> p \<le> i)) \<and>
      v6_subnetMask 128 = Inl OutOfBounds"
proof -
  let ?q = "p div 8" and ?r = "p mod 8" and ?k = "i div 8" and ?t = "7 - i mod 8"
  have q: "?q < 16" "?k < 16" "?r < 8" using assms by auto
  have m1: "(0xff :: byte) = - 1" by simp
  have ff: "bit (0xff :: byte) ?t" "\<not> bit (0 :: byte) ?t" unfolding m1 by simp_all
  have b8: "bit (mask (8 - ?r) :: byte) ?t \<longleftrightarrow> ?r \<le> i mod 8" by (rule bit_mask8) simp_all
  have "p = 8 * ?q + ?r" "i = 8 * ?k + i mod 8" "i mod 8 < 8" by simp_all
  then have ord: "?k < ?q \<Longrightarrow> i < p" "?q < ?k \<Longrightarrow> p \<le> i" "?k = ?q \<Longrightarrow> (p \<le> i \<longleftrightarrow> ?r \<le> i mod 8)"
    using q(3) by linarith+
  have M: "CreateMask8 ?r = Inr (mask (8 - ?r))" by (rule CreateMask8_mask) simp
  have N: "v6_subnetMask 128 = Inl OutOfBounds" by (simp add: v6_subnetMask_def)
  consider "?k < ?q" | "?q < ?k" | "?k = ?q" by linarith
  then show ?thesis
  proof cases
    case 1
    then show ?thesis using ord(1) q assms(2) M N ff
      by (simp add: v6_broadcastAddress_def v6_networkAddress_def v6_subnetMask_def bit_at_def nth_fill_from
          nth_fill_before Let_def)
  next
    case 2
    then show ?thesis using ord(2) q assms(2) M N ff
      by (simp add: v6_broadcastAddress_def v6_networkAddress_def v6_subnetMask_def bit_at_def nth_fill_from
          nth_fill_before Let_def)
  next
    case 3
    then show ?thesis using ord(3) q assms(2) M N ff b8
      by (auto simp: v6_broadcastAddress_def v6_networkAddress_def v6_subnetMask_def bit_at_def nth_fill_from
          nth_fill_before Let_def bit_or_iff bit_and_iff bit_not_iff)
  qed
qed

theorem ipv6_masks_witness:
  "\<exists>n. v6_networkAddress 12 (new_IPv6Address_bytes [0x20, 0x11, 0xff, 0, 0, 0, 0, 0, 0, 0, 0, 0, 0, 0, 0, 1] 0) = Inr n \<and>
     \<not> bit_at (s6_addr n) 11"
proof -
  let ?a = "new_IPv6Address_bytes [0x20, 0x11, 0xff, 0, 0, 0, 0, 0, 0, 0, 0, 0, 0, 0, 0, 1] 0"
  have "length (s6_addr ?a) = 16" by (simp add: new_IPv6Address_bytes_def)
  then show ?thesis using ipv6_masks [of 12 ?a 11] by auto
qed

section \<open>The text of an IPv6 address\<close>

definition group_text :: "u16 \<Rightarrow> string" where
  "group_text g = hex (unat (byteswap g))"

text \<open>A reference printer: groups with colons between them, the first run of zeros as two colons.\<close>

fun colons :: "u16 list \<Rightarrow> string" where
  "colons [] = []"
| "colons [g] = group_text g"
| "colons (g # h # gs) = group_text g @ '':'' @ colons (h # gs)"

definition tail_text :: "u16 list \<Rightarrow> string" where
  "tail_text gs = concat (map (\<lambda>g. '':'' @ group_text g) gs)"

lemma colons_Cons: "colons (g # gs) = group_text g @ tail_text gs"
  by (induction gs arbitrary: g) (simp_all add: tail_text_def)

lemma v6_loop_used: "i \<noteq> 0 \<Longrightarrow> v6_loop i prev True gs = (tail_text gs, True)"
  by (induction gs arbitrary: i prev)
     (simp_all add: tail_text_def group_text_def byteswapOnLittleEndian_eq)

lemma v6_loop_zeros:
  "v6_loop i prev False (replicate n 0 @ c) = v6_loop (i + n) (if n = 0 then prev else 0) False c"
  by (induction n arbitrary: i prev) simp_all

lemma v6_loop_nonzero:
  assumes "0 \<notin> set a" "i \<noteq> 0 \<Longrightarrow> prev \<noteq> 0"
  shows "v6_loop i prev False (a @ r) =
    (let (s, u) = v6_loop (i + length a) (last (prev # a)) False r
     in ((if i = 0 then colons a else tail_text a) @ s, u))"
  using assms
proof (induction a arbitrary: i prev)
  case Nil
  then show ?case by (simp add: tail_text_def)
next
  case (Cons g a)
  have "v6_loop (Suc i) g False (a @ r) =
      (let (s, u) = v6_loop (Suc i + length a) (last (g # a)) False r in (tail_text a @ s, u))"
    using Cons.IH [of "Suc i" g] Cons.prems by simp
  then show ?case using Cons.prems
    by (auto simp: Let_def colons_Cons tail_text_def group_text_def byteswapOnLittleEndian_eq split: prod.splits)
qed

lemma length_v6_groups: "length bs = 16 \<Longrightarrow> length (v6_groups bs) = 8"
  by (auto simp: length_Suc_conv numeral_eq_Suc)

text \<open>
  Claim C36. The text of an IPv6 address is that of the reference printer: all groups in hexadecimal
  with colons between them when none is zero, else the first run of zero groups, and only that, is
  written as two colons. The groups before and behind it and the number of zeros between them that
  makes eight give the address back.
\<close>

theorem ipv6_text:
  assumes "length (s6_addr a) = 16" "gs = v6_groups (s6_addr a)" "us = takeWhile (\<lambda>g. g \<noteq> 0) gs"
    "ws = dropWhile (\<lambda>g. g = 0) (dropWhile (\<lambda>g. g \<noteq> 0) gs)"
  shows "v6_insert a = ''['' @ (if 0 \<in> set gs then colons us @ ''::'' @ colons ws else colons gs) @ '']:'' @
      dec (unat (byteswap (sin6_port a))) \<and>
    (0 \<in> set gs \<longrightarrow> gs = us @ replicate (8 - length us - length ws) 0 @ ws)"
proof -
  let ?r = "dropWhile (\<lambda>g. g \<noteq> 0) gs"
  define n where "n = length (takeWhile (\<lambda>g. g = 0) ?r)"
  have len: "length gs = 8" using assms(1,2) by (simp add: length_v6_groups)
  have "takeWhile (\<lambda>g. g = 0) ?r = replicate n 0"
    unfolding n_def by (intro replicate_eqI) (auto dest: set_takeWhileD)
  then have gs: "gs = us @ replicate n 0 @ ws"
    using assms(3,4) by (metis takeWhile_dropWhile_id)
  have us: "0 \<notin> set us" using assms(3) by (auto dest: set_takeWhileD)
  have ws: "ws \<noteq> [] \<Longrightarrow> hd ws \<noteq> 0" using assms(4) hd_dropWhile [of "\<lambda>g. g = 0"] by blast
  have n0: "ws = []" if "n = 0"
  proof -
    have "?r = []"
    proof (rule ccontr)
      assume "?r \<noteq> []"
      moreover from this have "hd ?r = 0" using hd_dropWhile [of "\<lambda>g. g \<noteq> 0" gs] by blast
      ultimately show False using that unfolding n_def by (cases ?r) auto
    qed
    then show ?thesis unfolding assms(4) by (simp only: dropWhile.simps)
  qed
  have "length gs = length us + n + length ws" by (subst gs) simp
  then have n: "8 - length us - length ws = n" using len by simp
  have loop: "v6_loop 0 0 False gs =
      (let (s, u) = v6_loop (length us + n) (if n = 0 then last (0 # us) else 0) False ws in (colons us @ s, u))"
    by (subst gs) (simp add: v6_loop_nonzero [OF us] v6_loop_zeros)
  have ins: "v6_insert a = ''['' @ fst (v6_loop 0 0 False gs) @
      (if \<not> snd (v6_loop 0 0 False gs) \<and> gs ! 7 = 0 then ''::'' else []) @ '']:'' @ dec (unat (byteswap (sin6_port a)))"
    using assms(2) by (simp add: v6_insert_def Let_def byteswapOnLittleEndian_eq split: prod.split)
  show ?thesis
  proof (cases "n = 0")
    case True
    then have eq: "gs = us" using gs n0 by simp
    have z: "0 \<notin> set gs" unfolding eq by (rule us)
    moreover have "gs ! 7 \<in> set gs" by (rule nth_mem) (simp add: len)
    ultimately have "gs ! 7 \<noteq> 0" by metis
    then show ?thesis using ins loop True n0 z eq by (simp only: if_True if_False fst_conv snd_conv Let_def split_conv v6_loop.simps simp_thms append_Nil append_Nil2)
  next
    case False
    then have z: "0 \<in> set gs" by (subst gs) simp
    show ?thesis
    proof (cases ws)
      case Nil
      have "gs ! 7 = last gs" using len last_conv_nth [of gs] by fastforce
      also have "last gs = last (us @ replicate n 0)" using gs Nil by (simp only: append_Nil2)
      also have "\<dots> = 0" using False by simp
      finally have "gs ! 7 = 0" .
      then show ?thesis unfolding n ins loop using z gs Nil False
        by (simp only: if_True if_False fst_conv snd_conv Let_def split_conv v6_loop.simps simp_thms append_Nil append_Nil2
            colons.simps append_assoc)
    next
      case (Cons w vs)
      then have "w \<noteq> 0" using ws by simp
      then have "v6_loop (length us + n) 0 False ws = (''::'' @ colons ws, True)"
        using Cons False by (simp add: v6_loop_used colons_Cons group_text_def byteswapOnLittleEndian_eq)
      then show ?thesis using ins loop False z gs n by simp
    qed
  qed
qed

theorem ipv6_text_witness:
  "v6_insert (new_IPv6Address\<lparr>s6_addr := [0, 1, 0, 0x20, 0, 0, 0, 0, 0, 0, 0, 0, 0, 0, 0, 0xff]\<rparr>) = ''[1:20::ff]:0''"
proof -
  let ?a = "new_IPv6Address\<lparr>s6_addr := [0, 1, 0, 0x20, 0, 0, 0, 0, 0, 0, 0, 0, 0, 0, 0, 0xff]\<rparr>"
  let ?gs = "v6_groups (s6_addr ?a)"
  let ?us = "takeWhile (\<lambda>g. g \<noteq> 0) ?gs"
  let ?ws = "dropWhile (\<lambda>g. g = 0) (dropWhile (\<lambda>g. g \<noteq> 0) ?gs)"
  have us: "colons ?us = ''1:20''" by code_simp
  have ws: "colons ?ws = ''ff''" by code_simp
  have z: "0 \<in> set ?gs" by code_simp
  have p: "dec (unat (byteswap (sin6_port ?a))) = ''0''" by code_simp
  have l: "length (s6_addr ?a) = 16" by simp
  have "v6_insert ?a = ''['' @ (if 0 \<in> set ?gs then colons ?us @ ''::'' @ colons ?ws else colons ?gs) @ '']:'' @
      dec (unat (byteswap (sin6_port ?a)))"
    by (rule conjunct1 [OF ipv6_text [OF l refl refl refl]])
  then show ?thesis unfolding if_P [OF z] us ws p by (simp only: append.simps)
qed

end
