(* ===== verification/LogFormat.thy ===== *)
theory LogFormat
  imports StdString
begin

text \<open>
  Log levels, log events and the formatter (exhy/exhy_log.h, exhy_log.cpp): the parser of the
  pattern, which works on indices of the pattern as the source does, the table of format items and
  the text of an event. The item of a date calls localtime_r and strftime, which are one argument:
  the text, or nothing when it does not fit the buffer of 64 bytes, which is then printed with an
  undefined content.
\<close>

section \<open>Levels\<close>

type_synonym log_level = u32

definition level_table :: "(log_level \<times> string) list" where
  "level_table = [(1, ''DEBUGs''), (2, ''INFO''), (3, ''WARN''), (4, ''ERROR''), (5, ''FATAL'')]"

definition level_ToString :: "log_level \<Rightarrow> string" where
  "level_ToString level = (case map_of level_table level of Some s \<Rightarrow> s | None \<Rightarrow> ''UNKNOW'')"

definition level_FromString :: "string \<Rightarrow> log_level" where
  "level_FromString str = (case map_of (map prod.swap level_table) str of Some l \<Rightarrow> l | None \<Rightarrow> 0)"

lemma level_names: "l \<in> fst ` set level_table \<Longrightarrow> level_FromString (level_ToString l) = l"
  by (auto simp: level_table_def level_FromString_def level_ToString_def)

section \<open>Events\<close>

record log_event =
  m_file :: string
  m_line :: u32
  m_elapse :: u32
  m_threadId :: u32
  m_fiberId :: u32
  m_time :: u64
  m_threadName :: string
  m_ss :: string
  m_logger :: string
  ev_level :: log_level

text \<open>
  The constructor: \<open>fiber_id\<close> is not used. The event holds its logger, of which the formatter asks
  the name only.
\<close>

definition new_LogEvent ::
  "string \<Rightarrow> log_level \<Rightarrow> string \<Rightarrow> u32 \<Rightarrow> u32 \<Rightarrow> u32 \<Rightarrow> u32 \<Rightarrow> u64 \<Rightarrow> string \<Rightarrow> log_event" where
  "new_LogEvent logger level file line elapse thread_id fiber_id time thread_name =
     \<lparr>m_file = file, m_line = line, m_elapse = elapse, m_threadId = thread_id, m_fiberId = 0, m_time = time,
      m_threadName = thread_name, m_ss = [], m_logger = logger, ev_level = level\<rparr>"

text \<open>Writing to the stream, and \<open>format\<close> with the text vasprintf makes, if it makes one.\<close>

definition event_put :: "string \<Rightarrow> log_event \<Rightarrow> log_event" where
  "event_put s e = e\<lparr>m_ss := m_ss e @ s\<rparr>"

definition event_format :: "string option \<Rightarrow> log_event \<Rightarrow> log_event" where
  "event_format printed e = (case printed of None \<Rightarrow> e | Some s \<Rightarrow> event_put s e)"

section \<open>Format items\<close>

datatype format_item =
    MessageFormatItem
  | LevelFormatItem
  | ElapseFormatItem
  | NameFormatItem
  | ThreadIdFormatItem
  | NewLineFormatItem
  | DateTimeFormatItem string
  | FilenameFormatItem
  | LineFormatItem
  | TabFormatItem
  | FiberIdFormatItem
  | ThreadNameFormatItem
  | StringFormatItem string

definition new_DateTimeFormatItem :: "string \<Rightarrow> format_item" where
  "new_DateTimeFormatItem fmt = DateTimeFormatItem (if fmt = [] then ''%Y-%m-%d %H:%M:%S'' else fmt)"

definition s_format_items :: "string \<Rightarrow> string \<Rightarrow> format_item option" where
  "s_format_items str fmt =
     map_of [(''m'', MessageFormatItem), (''p'', LevelFormatItem), (''r'', ElapseFormatItem),
             (''c'', NameFormatItem), (''t'', ThreadIdFormatItem), (''n'', NewLineFormatItem),
             (''d'', new_DateTimeFormatItem fmt), (''f'', FilenameFormatItem), (''l'', LineFormatItem),
             (''T'', TabFormatItem), (''F'', FiberIdFormatItem), (''N'', ThreadNameFormatItem)] str"

definition dec_int :: "u32 \<Rightarrow> string" where
  "dec_int w = (if sint w < 0 then ''-'' @ dec (nat (- sint w)) else dec (nat (sint w)))"

fun item_format :: "(string \<Rightarrow> u64 \<Rightarrow> string option) \<Rightarrow> log_level \<Rightarrow> log_event \<Rightarrow> format_item \<Rightarrow> string res" where
  "item_format strftime level e MessageFormatItem = Inr (m_ss e)"
| "item_format strftime level e LevelFormatItem = Inr (level_ToString level)"
| "item_format strftime level e ElapseFormatItem = Inr (dec (unat (m_elapse e)))"
| "item_format strftime level e NameFormatItem = Inr (m_logger e)"
| "item_format strftime level e ThreadIdFormatItem = Inr (dec (unat (m_threadId e)))"
| "item_format strftime level e NewLineFormatItem = Inr [CHR 0x0A]"
| "item_format strftime level e (DateTimeFormatItem fmt) =
     (case strftime (cstr fmt) (m_time e) of None \<Rightarrow> Inl OutOfBounds | Some s \<Rightarrow> Inr (cstr s))"
| "item_format strftime level e FilenameFormatItem = Inr (cstr (m_file e))"
| "item_format strftime level e LineFormatItem = Inr (dec_int (m_line e))"
| "item_format strftime level e TabFormatItem = Inr [CHR 0x09]"
| "item_format strftime level e FiberIdFormatItem = Inr (dec (unat (m_fiberId e)))"
| "item_format strftime level e ThreadNameFormatItem = Inr (m_threadName e)"
| "item_format strftime level e (StringFormatItem s) = Inr s"

section \<open>The pattern\<close>

definition isalpha :: "char \<Rightarrow> bool" where
  "isalpha c = (let n = of_char c :: nat in (65 \<le> n \<and> n \<le> 90) \<or> (97 \<le> n \<and> n \<le> 122))"

text \<open>The inner loop: the index it ends at, the status and the two strings.\<close>

function scan_item ::
  "string \<Rightarrow> nat \<Rightarrow> nat \<Rightarrow> nat \<Rightarrow> nat \<Rightarrow> string \<Rightarrow> string \<Rightarrow> nat \<times> nat \<times> string \<times> string" where
  "scan_item p i n fmt_status fmt_begin str fmt =
     (if n < length p then
        if fmt_status = 0 \<and> \<not> isalpha (p ! n) \<and> p ! n \<noteq> CHR ''{'' \<and> p ! n \<noteq> CHR ''}'' then
          (n, fmt_status, block_at (i + 1) (n - i - 1) p, fmt)
        else if fmt_status = 0 \<and> p ! n = CHR ''{'' then
          scan_item p i (n + 1) 1 n (block_at (i + 1) (n - i - 1) p) fmt
        else if fmt_status = 1 \<and> p ! n = CHR ''}'' then
          (n + 1, 0, str, block_at (fmt_begin + 1) (n - fmt_begin - 1) p)
        else scan_item p i (n + 1) fmt_status fmt_begin
               (if n + 1 = length p \<and> str = [] then drop (i + 1) p else str) fmt
      else (n, fmt_status, str, fmt))"
  by pat_completeness auto
termination by (relation "measure (\<lambda>(p, i, n, _). length p - n)") auto

declare scan_item.simps [simp del]

lemma scan_item_le: "n \<le> fst (scan_item p i n fmt_status fmt_begin str fmt)"
proof (induction p i n fmt_status fmt_begin str fmt rule: scan_item.induct)
  case (1 p i n fmt_status fmt_begin str fmt)
  then show ?case by (subst scan_item.simps) auto
qed

text \<open>The outer loop collects tuples of a string, a format and a type, 0 for text and 1 for an item.\<close>

function init_loop ::
  "string \<Rightarrow> nat \<Rightarrow> string \<Rightarrow> (string \<times> string \<times> nat) list \<Rightarrow> bool \<Rightarrow> (string \<times> string \<times> nat) list \<times> bool" where
  "init_loop p i nstr vec err =
     (if i < length p then
        if p ! i \<noteq> CHR ''%'' then init_loop p (i + 1) (nstr @ [p ! i]) vec err
        else if i + 1 < length p \<and> p ! (i + 1) = CHR ''%'' then init_loop p (i + 1) (nstr @ ''%'') vec err
        else (case scan_item p i (i + 1) 0 0 [] [] of
                (n, fmt_status, str, fmt) \<Rightarrow>
                  if fmt_status = 0 then
                    init_loop p n [] ((if nstr = [] then vec else vec @ [(nstr, [], 0)]) @ [(str, fmt, 1)]) err
                  else init_loop p (i + 1) nstr (vec @ [(''<<pattern_error>>'', fmt, 0)]) True)
      else (if nstr = [] then vec else vec @ [(nstr, [], 0)], err))"
  by pat_completeness auto
termination
proof (relation "measure (\<lambda>(p, i, _). length p - i)")
  fix p :: string and i nstr n fmt_status str fmt x xa
  and vec :: "(string \<times> string \<times> nat) list" and err :: bool and y ya
  assume "i < length p" "(n, y) = scan_item p i (i + 1) 0 0 [] []"
  then have "i + 1 \<le> n" using scan_item_le [of "i + 1" p i 0 0 "[]" "[]"] by (metis fst_conv)
  then show "((p, n, [], (if nstr = [] then vec else vec @ [(nstr, [], 0)]) @ [(str, fmt, 1)], err), p, i, nstr, vec, err)
      \<in> measure (\<lambda>(p, i, _). length p - i)"
    using \<open>i < length p\<close> by simp
qed auto

declare init_loop.simps [simp del]

section \<open>Formatters\<close>

record log_formatter =
  m_pattern :: string
  m_items :: "format_item list"
  m_error :: bool

definition make_item :: "string \<times> string \<times> nat \<Rightarrow> format_item \<times> bool" where
  "make_item x = (case x of (str, fmt, type) \<Rightarrow>
     if type = 0 then (StringFormatItem str, False)
     else (case s_format_items str fmt of
             None \<Rightarrow> (StringFormatItem (''<<error_format %'' @ str @ ''>>''), True)
           | Some it \<Rightarrow> (it, False)))"

definition new_LogFormatter :: "string \<Rightarrow> log_formatter" where
  "new_LogFormatter pattern =
     (let (vec, err) = init_loop pattern 0 [] [] False
      in \<lparr>m_pattern = pattern, m_items = map (fst \<circ> make_item) vec, m_error = (err \<or> (\<exists>x \<in> set vec. snd (make_item x)))\<rparr>)"

fun format_all :: "(string \<Rightarrow> u64 \<Rightarrow> string option) \<Rightarrow> log_level \<Rightarrow> log_event \<Rightarrow> format_item list \<Rightarrow> string res" where
  "format_all strftime level e [] = Inr []"
| "format_all strftime level e (i # is) =
     sbind (item_format strftime level e i) (\<lambda>s. sbind (format_all strftime level e is) (\<lambda>t. Inr (s @ t)))"

definition formatter_format :: "(string \<Rightarrow> u64 \<Rightarrow> string option) \<Rightarrow> log_level \<Rightarrow> log_event \<Rightarrow> log_formatter \<Rightarrow> string res" where
  "formatter_format strftime level e f = format_all strftime level e (m_items f)"

section \<open>What the parser accepts\<close>

text \<open>A reference syntax of patterns: texts, and items with or without a format, and its printer.\<close>

datatype pattern_tok = Txt string | Item string "string option"

fun show_tok :: "pattern_tok \<Rightarrow> string" where
  "show_tok (Txt s) = s"
| "show_tok (Item s None) = CHR ''%'' # s"
| "show_tok (Item s (Some f)) = CHR ''%'' # s @ CHR ''{'' # f @ ''}''"

fun show_toks :: "pattern_tok list \<Rightarrow> string" where
  "show_toks [] = []"
| "show_toks (t # ts) = show_tok t @ show_toks ts"

fun tok_entry :: "pattern_tok \<Rightarrow> string \<times> string \<times> nat" where
  "tok_entry (Txt s) = (s, [], 0)"
| "tok_entry (Item s f) = (s, (case f of None \<Rightarrow> [] | Some t \<Rightarrow> t), 1)"

definition stops_name :: "string \<Rightarrow> bool" where
  "stops_name r \<longleftrightarrow> (case r of [] \<Rightarrow> True | c # _ \<Rightarrow> \<not> isalpha c \<and> c \<noteq> CHR ''{'' \<and> c \<noteq> CHR ''}'')"

definition item_name :: "string \<Rightarrow> bool" where
  "item_name s \<longleftrightarrow> s \<noteq> [] \<and> list_all isalpha s"

text \<open>
  Well formed: texts are not empty, without percent signs and not next to each other; names are of
  letters, formats without a closing brace, and an item without a format is not followed by a
  letter or a brace.
\<close>

fun toks_ok :: "pattern_tok list \<Rightarrow> bool" where
  "toks_ok [] \<longleftrightarrow> True"
| "toks_ok (Txt s # ts) \<longleftrightarrow> s \<noteq> [] \<and> CHR ''%'' \<notin> set s \<and> (case ts of Txt _ # _ \<Rightarrow> False | _ \<Rightarrow> True) \<and> toks_ok ts"
| "toks_ok (Item s None # ts) \<longleftrightarrow> item_name s \<and> stops_name (show_toks ts) \<and> toks_ok ts"
| "toks_ok (Item s (Some f) # ts) \<longleftrightarrow> item_name s \<and> CHR ''}'' \<notin> set f \<and> toks_ok ts"

lemma scan_name:
  assumes "list_all isalpha s" "r \<noteq> []"
  shows "scan_item (xs @ s @ r) i (length xs) 0 b [] [] = scan_item (xs @ s @ r) i (length xs + length s) 0 b [] []"
  using assms(1)
proof (induction s arbitrary: xs)
  case (Cons c s)
  have "c \<noteq> CHR ''{''" using Cons.prems by (auto simp: isalpha_def Let_def)
  moreover have "Suc (length xs) < length (xs @ c # s @ r)" using assms(2) by (cases r) simp_all
  ultimately have "scan_item (xs @ (c # s) @ r) i (length xs) 0 b [] [] = scan_item (xs @ (c # s) @ r) i (Suc (length xs)) 0 b [] []"
    using Cons.prems assms(2) by (subst scan_item.simps) simp
  then show ?case using Cons.IH [of "xs @ [c]"] Cons.prems by simp
qed simp

lemma scan_stop:
  assumes "list_all isalpha s" "r \<noteq> []" "stops_name r" "length xs = i + 1"
  shows "scan_item (xs @ s @ r) i (i + 1) 0 b [] [] = (i + 1 + length s, 0, s, [])"
proof -
  have "scan_item (xs @ s @ r) i (i + 1 + length s) 0 b [] [] = (i + 1 + length s, 0, s, [])"
    using assms by (subst scan_item.simps)
      (auto simp: stops_name_def block_at_def nth_append split: list.splits)
  then show ?thesis using scan_name [OF assms(1,2), of xs i b] assms(4) by simp
qed

lemma scan_end:
  assumes "item_name s" "length xs = i + 1"
  shows "scan_item (xs @ s) i (i + 1) 0 b [] [] = (i + 1 + length s, 0, s, [])"
proof -
  obtain t c where s: "s = t @ [c]" using assms(1) by (cases s rule: rev_cases) (auto simp: item_name_def)
  have c: "isalpha c" "list_all isalpha t" using assms(1) by (auto simp: s item_name_def)
  then have ne: "c \<noteq> CHR ''{''" "c \<noteq> CHR ''}''" by (auto simp: isalpha_def Let_def)
  have "scan_item (xs @ t @ [c]) i (i + 1 + length t) 0 b [] [] = (i + 1 + length s, 0, s, [])"
    using assms(2) c ne by (subst scan_item.simps) (simp add: nth_append scan_item.simps s)
  then show ?thesis using scan_name [OF c(2), of "[c]" xs i b] assms(2) by (simp add: s)
qed

lemma scan_fmt:
  assumes "CHR ''}'' \<notin> set f"
  shows "scan_item (xs @ f @ CHR ''}'' # r) i (length xs) 1 b str g =
    (length xs + length f + 1, 0, str, block_at (b + 1) (length xs + length f - b - 1) (xs @ f @ CHR ''}'' # r))"
  using assms
proof (induction f arbitrary: xs)
  case Nil
  then show ?case by (subst scan_item.simps) simp
next
  case (Cons c f)
  have "c \<noteq> CHR ''}''" using Cons.prems by auto
  then have "scan_item (xs @ (c # f) @ CHR ''}'' # r) i (length xs) 1 b str g =
      scan_item (xs @ (c # f) @ CHR ''}'' # r) i (Suc (length xs)) 1 b str g"
    by (subst scan_item.simps) simp
  then show ?case using Cons.IH [of "xs @ [c]"] Cons.prems by simp
qed

lemma scan_braces:
  assumes "list_all isalpha s" "CHR ''}'' \<notin> set f" "length xs = i + 1"
  shows "scan_item (xs @ s @ CHR ''{'' # f @ CHR ''}'' # r) i (i + 1) 0 b [] [] =
    (i + 1 + length s + 1 + length f + 1, 0, s, f)"
proof -
  define p where "p = xs @ s @ CHR ''{'' # f @ CHR ''}'' # r"
  define k where "k = i + 1 + length s"
  have p: "k < length p" "p ! k = CHR ''{''" "block_at (i + 1) (k - i - 1) p = s" "block_at (k + 1) (length f) p = f"
    using assms(3) by (simp_all add: p_def k_def nth_append block_at_def)
  have k: "length (xs @ s @ ''{'') = k + 1" "p = (xs @ s @ ''{'') @ f @ CHR ''}'' # r"
    using assms(3) by (simp_all add: k_def p_def)
  have "scan_item p i (i + 1) 0 b [] [] = scan_item p i k 0 b [] []"
    using scan_name [OF assms(1), of "CHR ''{'' # f @ CHR ''}'' # r" xs i b] assms(3) by (simp add: p_def k_def)
  also have "\<dots> = scan_item p i (k + 1) 1 k s []"
    using p by (subst scan_item.simps) (simp add: isalpha_def)
  also have "\<dots> = (k + 1 + length f + 1, 0, s, block_at (k + 1) (k + 1 + length f - k - 1) p)"
    using scan_fmt [OF assms(2), of "xs @ s @ ''{''" r i k s "[]"] unfolding k(1) k(2) [symmetric] .
  also have "k + 1 + length f - k - 1 = length f" by simp
  finally show ?thesis unfolding p(4) by (simp only: p_def k_def)
qed

definition flush :: "string \<Rightarrow> (string \<times> string \<times> nat) list" where
  "flush nstr = (if nstr = [] then [] else [(nstr, [], 0)])"

lemma init_loop_end: "init_loop p (length p) nstr vec err = (vec @ flush nstr, err)"
  by (subst init_loop.simps) (simp add: flush_def)

lemma init_loop_text:
  assumes "CHR ''%'' \<notin> set s"
  shows "init_loop (xs @ s @ r) (length xs) nstr vec err = init_loop (xs @ s @ r) (length xs + length s) (nstr @ s) vec err"
  using assms
proof (induction s arbitrary: xs nstr)
  case (Cons c s)
  have "c \<noteq> CHR ''%''" using Cons.prems by auto
  then have "init_loop (xs @ (c # s) @ r) (length xs) nstr vec err =
      init_loop (xs @ (c # s) @ r) (Suc (length xs)) (nstr @ [c]) vec err"
    by (subst init_loop.simps) simp
  then show ?case using Cons.IH [of "xs @ [c]" "nstr @ [c]"] Cons.prems by simp
qed simp

lemma init_loop_item:
  assumes "p ! i = CHR ''%''" "i + 1 < length p" "p ! (i + 1) \<noteq> CHR ''%''"
    "scan_item p i (i + 1) 0 0 [] [] = (n, 0, str, fmt)"
  shows "init_loop p i nstr vec err = init_loop p n [] (vec @ flush nstr @ [(str, fmt, 1)]) err"
  using assms by (subst init_loop.simps) (simp add: flush_def)

lemma item_next:
  assumes "item_name s" "p = xs @ CHR ''%'' # s @ r"
  shows "p ! length xs = CHR ''%''" "length xs + 1 < length p" "p ! (length xs + 1) \<noteq> CHR ''%''"
proof -
  obtain c t where s: "s = c # t" "isalpha c" using assms(1) by (cases s) (auto simp: item_name_def)
  then show "p ! length xs = CHR ''%''" "length xs + 1 < length p" using assms(2) by simp_all
  show "p ! (length xs + 1) \<noteq> CHR ''%''" using assms(2) s by (auto simp: nth_append isalpha_def)
qed

lemma init_loop_toks:
  assumes "toks_ok ts" "nstr \<noteq> [] \<Longrightarrow> case ts of Txt _ # _ \<Rightarrow> False | _ \<Rightarrow> True"
  shows "init_loop (xs @ show_toks ts) (length xs) nstr vec err = (vec @ flush nstr @ map tok_entry ts, err)"
  using assms
proof (induction ts arbitrary: xs nstr vec rule: toks_ok.induct)
  case 1
  then show ?case using init_loop_end [of xs] by simp
next
  case (2 s ts)
  have n: "nstr = []" "s \<noteq> []" "case ts of Txt _ # _ \<Rightarrow> False | _ \<Rightarrow> True" using 2 by auto
  then have "init_loop ((xs @ s) @ show_toks ts) (length (xs @ s)) s vec err = (vec @ flush s @ map tok_entry ts, err)"
    using 2 by (intro "2.IH") auto
  then show ?case using n 2 init_loop_text [of s xs "show_toks ts" nstr vec err] by (simp add: flush_def)
next
  case (3 s ts)
  let ?ys = "xs @ CHR ''%'' # s"
  have "scan_item ((xs @ ''%'') @ s @ show_toks ts) (length xs) (length xs + 1) 0 0 [] [] = (length xs + 1 + length s, 0, s, [])"
    using 3 scan_end [of s "xs @ ''%''" "length xs"] scan_stop [of s "show_toks ts" "xs @ ''%''" "length xs" 0]
    by (cases "show_toks ts = []") (auto simp: item_name_def)
  then have "init_loop (xs @ CHR ''%'' # s @ show_toks ts) (length xs) nstr vec err =
      init_loop (xs @ CHR ''%'' # s @ show_toks ts) (length xs + 1 + length s) [] (vec @ flush nstr @ [(s, [], 1)]) err"
    using 3 by (intro init_loop_item item_next) auto
  then show ?case using "3.IH" [of "[]" ?ys] 3 by (simp add: flush_def)
next
  case (4 s f ts)
  let ?r = "CHR ''{'' # f @ CHR ''}'' # show_toks ts" and ?ys = "xs @ CHR ''%'' # s @ CHR ''{'' # f @ ''}''"
  have "scan_item ((xs @ ''%'') @ s @ ?r) (length xs) (length xs + 1) 0 0 [] [] =
      (length xs + 1 + length s + 1 + length f + 1, 0, s, f)"
    using 4 by (intro scan_braces) (auto simp: item_name_def)
  then have "init_loop (xs @ CHR ''%'' # s @ ?r) (length xs) nstr vec err =
      init_loop (xs @ CHR ''%'' # s @ ?r) (length xs + 1 + length s + 1 + length f + 1) [] (vec @ flush nstr @ [(s, f, 1)]) err"
    using 4 by (intro init_loop_item item_next) auto
  then show ?case using "4.IH" [of "[]" ?ys] 4 by (simp add: flush_def add.assoc)
qed

lemma parse_toks: "toks_ok ts \<Longrightarrow> init_loop (show_toks ts) 0 [] [] False = (map tok_entry ts, False)"
  using init_loop_toks [of ts "[]" "[]" "[]" False] by (simp add: flush_def)

text \<open>
  Claim C31. The parser of patterns reads every well-formed pattern back: its texts become texts, its
  items the format items of their names with their formats, in order, and the formatter reports an
  error exactly when a name is not in the table.
\<close>

theorem pattern_parsed:
  assumes "toks_ok ts"
  shows "m_items (new_LogFormatter (show_toks ts)) = map (fst \<circ> make_item \<circ> tok_entry) ts \<and>
    (m_error (new_LogFormatter (show_toks ts)) \<longleftrightarrow>
       (\<exists>s f. Item s f \<in> set ts \<and> s \<notin> {''m'', ''p'', ''r'', ''c'', ''t'', ''n'', ''d'', ''f'', ''l'', ''T'', ''F'', ''N''}))"
proof -
  have "snd (make_item (tok_entry t)) \<longleftrightarrow>
      (\<exists>s f. t = Item s f \<and> s \<notin> {''m'', ''p'', ''r'', ''c'', ''t'', ''n'', ''d'', ''f'', ''l'', ''T'', ''F'', ''N''})" for t
    by (cases t) (simp_all add: make_item_def s_format_items_def)
  then show ?thesis using parse_toks [OF assms] by (simp add: new_LogFormatter_def) blast
qed

theorem pattern_parsed_witness:
  "m_items (new_LogFormatter ''%d{%H:%M} [%p] %q'') =
     [DateTimeFormatItem ''%H:%M'', StringFormatItem '' ['', LevelFormatItem, StringFormatItem ''] '',
      StringFormatItem ''<<error_format %q>>''] \<and> m_error (new_LogFormatter ''%d{%H:%M} [%p] %q'')"
  using pattern_parsed [of "[Item ''d'' (Some ''%H:%M''), Txt '' ['', Item ''p'' None, Txt ''] '', Item ''q'' None]"]
  by (auto simp: item_name_def isalpha_def stops_name_def make_item_def s_format_items_def new_DateTimeFormatItem_def)

section \<open>Percent signs\<close>

text \<open>
  Two percent signs do not stand for one: the first becomes text and the second still starts
  an item, the one of the letters that follow or, at the end of the pattern, an error.
\<close>

theorem percent_starts_item:
  assumes "CHR ''%'' \<notin> set a" "toks_ok (Item s f # ts)"
  shows "m_items (new_LogFormatter (a @ ''%'' @ show_toks (Item s f # ts))) =
      StringFormatItem (a @ ''%'') # map (fst \<circ> make_item \<circ> tok_entry) (Item s f # ts) \<and>
    m_items (new_LogFormatter (a @ ''%%'')) = [StringFormatItem (a @ ''%''), StringFormatItem ''<<error_format %>>''] \<and>
    m_error (new_LogFormatter (a @ ''%%''))"
proof -
  let ?t = "show_toks (Item s f # ts)"
  obtain u where u: "?t = CHR ''%'' # u" by (cases f) auto
  then have ne: "?t \<noteq> []" "hd ?t = CHR ''%''" by simp_all
  have double: "init_loop (a @ ''%'' @ r) 0 [] [] False = init_loop ((a @ ''%'') @ r) (length (a @ ''%'')) (a @ ''%'') [] False"
    if "r \<noteq> []" "hd r = CHR ''%''" for r
    using that init_loop_text [OF assms(1), of "[]" "''%'' @ r" "[]" "[]" False]
    by (cases r) (simp_all, subst init_loop.simps, simp add: nth_append)
  have "init_loop (a @ ''%'' @ ?t) 0 [] [] False = (flush (a @ ''%'') @ map tok_entry (Item s f # ts), False)"
    using double [OF ne] init_loop_toks [OF assms(2), of "a @ ''%''" "a @ ''%''" "[]" False] by simp
  moreover have "init_loop (a @ ''%%'') 0 [] [] False = (flush (a @ ''%'') @ [([], [], 1)], False)"
  proof -
    have "init_loop (a @ ''%%'') (Suc (length a)) (a @ ''%'') [] False = (flush (a @ ''%'') @ [([], [], 1)], False)"
      by (subst init_loop.simps) (simp add: nth_append scan_item.simps init_loop.simps flush_def)
    then show ?thesis using double [of "''%''"] by simp
  qed
  ultimately show ?thesis
    by (simp add: new_LogFormatter_def flush_def make_item_def s_format_items_def)
qed

theorem percent_starts_item_witness:
  "m_items (new_LogFormatter ''100%%m'') = [StringFormatItem ''100%'', MessageFormatItem]"
  using percent_starts_item [of "''100''" "''m''" None "[]"]
  by (simp add: item_name_def isalpha_def stops_name_def make_item_def s_format_items_def)

section \<open>The pattern of a logger\<close>

definition default_pattern :: string where
  "default_pattern = ''%d{%Y-%m-%d%H:%M:%S}%T%t%T%N%T%F%T[%p]%T[%c]%T%f:%l%T%m%n''"

definition default_toks :: "pattern_tok list" where
  "default_toks =
     [Item ''d'' (Some ''%Y-%m-%d%H:%M:%S''), Item ''T'' None, Item ''t'' None, Item ''T'' None, Item ''N'' None,
      Item ''T'' None, Item ''F'' None, Item ''T'' None, Txt ''['', Item ''p'' None, Txt '']'', Item ''T'' None,
      Txt ''['', Item ''c'' None, Txt '']'', Item ''T'' None, Item ''f'' None, Txt '':'', Item ''l'' None,
      Item ''T'' None, Item ''m'' None, Item ''n'' None]"

lemma default_items:
  "m_items (new_LogFormatter default_pattern) = map (fst \<circ> make_item \<circ> tok_entry) default_toks"
proof -
  have "default_pattern = show_toks default_toks" by (simp add: default_pattern_def default_toks_def)
  moreover have "toks_ok default_toks" by (simp add: default_toks_def item_name_def isalpha_def stops_name_def)
  ultimately show ?thesis using parse_toks [of default_toks] by (simp add: new_LogFormatter_def)
qed

text \<open>
  A line in the pattern every logger starts with: the date, the thread, its name, the fiber,
  the level, the logger, file and line and the message, with tabs between and a newline behind; the
  fiber is always given as 0, whatever fiber the event was made for.
\<close>

theorem default_line:
  assumes "strftime ''%Y-%m-%d%H:%M:%S'' time = Some d" "CHR 0x00 \<notin> set d" "CHR 0x00 \<notin> set file"
  shows "formatter_format strftime level
      (event_put msg (new_LogEvent logger level file line elapse thread_id fiber_id time thread_name))
      (new_LogFormatter default_pattern) =
    Inr (d @ [CHR 0x09] @ dec (unat thread_id) @ [CHR 0x09] @ thread_name @ [CHR 0x09] @ ''0'' @ [CHR 0x09] @
      ''['' @ level_ToString level @ '']'' @ [CHR 0x09] @ ''['' @ logger @ '']'' @ [CHR 0x09] @
      file @ '':'' @ dec_int line @ [CHR 0x09] @ msg @ [CHR 0x0A])"
proof -
  have "dec 0 = ''0''" by code_simp
  then show ?thesis using assms
    by (simp add: formatter_format_def default_items default_toks_def make_item_def s_format_items_def
        new_DateTimeFormatItem_def new_LogEvent_def event_put_def)
qed

theorem default_line_witness:
  "formatter_format (\<lambda>_ _. Some ''now'') 2 (event_put ''hello'' (new_LogEvent ''root'' 2 ''a.cc'' 7 0 1 9 0 ''main''))
     (new_LogFormatter default_pattern) =
   Inr (''now'' @ [CHR 0x09] @ ''1'' @ [CHR 0x09] @ ''main'' @ [CHR 0x09] @ ''0'' @ [CHR 0x09] @ ''[INFO]'' @ [CHR 0x09] @
     ''[root]'' @ [CHR 0x09] @ ''a.cc:7'' @ [CHR 0x09] @ ''hello'' @ [CHR 0x0A])"
proof -
  have "dec_int 7 = ''7''" "dec (unat (1 :: u32)) = ''1''" "level_ToString 2 = ''INFO''" by code_simp+
  then show ?thesis
    using default_line [of "\<lambda>_ _. Some ''now''" 0 "''now''" "''a.cc''" 2 "''hello''" "''root''" 7 0 1 9 "''main''"] by simp
qed

end
