(* ===== verification/Logger.thy ===== *)
theory Logger
  imports LogFormat
begin

text \<open>
  Appenders, loggers, the manager of the loggers and the listener that applies a changed
  configuration (exhy/exhy_log.h, exhy_log.cpp). Loggers and appenders are named by their
  addresses, the shared pointers. Formatters do not change after their construction and are kept by
  value. What is written goes to \<open>written\<close> with the address of the appender that writes it, in order;
  opening and reopening the file of an appender is not modelled.
\<close>

section \<open>State\<close>

datatype appender_kind = StdoutLogAppender | FileLogAppender string

record appender =
  ap_kind :: appender_kind
  ap_level :: log_level
  m_hasFormatter :: bool
  ap_formatter :: "log_formatter option"

record logger =
  lg_name :: string
  lg_level :: log_level
  lg_formatter :: "log_formatter option"
  m_appenders :: "nat list"
  lg_root :: "nat option"

record log_heap =
  appenders :: "nat \<Rightarrow> appender option"
  loggers :: "nat \<Rightarrow> logger option"
  m_loggers :: "string \<Rightarrow> nat option"
  m_root :: nat
  written :: "(nat \<times> string) list"

definition on_logger :: "nat \<Rightarrow> (logger \<Rightarrow> log_heap \<Rightarrow> log_heap res) \<Rightarrow> log_heap \<Rightarrow> log_heap res" where
  "on_logger l f h = (case loggers h l of None \<Rightarrow> Inl NullDeref | Some g \<Rightarrow> f g h)"

definition on_appender :: "nat \<Rightarrow> (appender \<Rightarrow> log_heap \<Rightarrow> log_heap res) \<Rightarrow> log_heap \<Rightarrow> log_heap res" where
  "on_appender a f h = (case appenders h a of None \<Rightarrow> Inl NullDeref | Some x \<Rightarrow> f x h)"

definition put_logger :: "nat \<Rightarrow> logger \<Rightarrow> log_heap \<Rightarrow> log_heap" where
  "put_logger l g h = h\<lparr>loggers := (loggers h)(l \<mapsto> g)\<rparr>"

definition put_appender :: "nat \<Rightarrow> appender \<Rightarrow> log_heap \<Rightarrow> log_heap" where
  "put_appender a x h = h\<lparr>appenders := (appenders h)(a \<mapsto> x)\<rparr>"

section \<open>Appenders\<close>

definition new_appender :: "appender_kind \<Rightarrow> appender" where
  "new_appender k = \<lparr>ap_kind = k, ap_level = 1, m_hasFormatter = False, ap_formatter = None\<rparr>"

definition appender_setFormatter :: "log_formatter option \<Rightarrow> appender \<Rightarrow> appender" where
  "appender_setFormatter val x = x\<lparr>ap_formatter := val, m_hasFormatter := (val \<noteq> None)\<rparr>"

definition appender_setLevel :: "log_level \<Rightarrow> appender \<Rightarrow> appender" where
  "appender_setLevel val x = x\<lparr>ap_level := val\<rparr>"

text \<open>\<open>log\<close> of both appenders; \<open>std::endl\<close> puts a newline behind the text.\<close>

definition appender_log ::
  "(string \<Rightarrow> u64 \<Rightarrow> string option) \<Rightarrow> log_level \<Rightarrow> log_event \<Rightarrow> nat \<Rightarrow> log_heap \<Rightarrow> log_heap res" where
  "appender_log strftime level e a h = on_appender a (\<lambda>x h.
     if level < ap_level x then Inr h
     else case ap_formatter x of
            None \<Rightarrow> Inl NullDeref
          | Some f \<Rightarrow> sbind (formatter_format strftime level e f) (\<lambda>s. Inr (h\<lparr>written := written h @ [(a, s @ [CHR 0x0A])]\<rparr>))) h"

section \<open>Loggers\<close>

definition new_Logger :: "string \<Rightarrow> logger" where
  "new_Logger name =
     \<lparr>lg_name = name, lg_level = 1, lg_formatter = Some (new_LogFormatter default_pattern), m_appenders = [], lg_root = None\<rparr>"

definition setLevel :: "nat \<Rightarrow> log_level \<Rightarrow> log_heap \<Rightarrow> log_heap res" where
  "setLevel l val = on_logger l (\<lambda>g h. Inr (put_logger l (g\<lparr>lg_level := val\<rparr>) h))"

definition addAppender :: "nat \<Rightarrow> nat \<Rightarrow> log_heap \<Rightarrow> log_heap res" where
  "addAppender l a = on_logger l (\<lambda>g. on_appender a (\<lambda>x h.
     let h1 = (if ap_formatter x = None then put_appender a (appender_setFormatter (lg_formatter g) x) h else h)
     in Inr (put_logger l (g\<lparr>m_appenders := m_appenders g @ [a]\<rparr>) h1)))"

definition delAppender :: "nat \<Rightarrow> nat \<Rightarrow> log_heap \<Rightarrow> log_heap res" where
  "delAppender l a = on_logger l (\<lambda>g h. Inr (put_logger l (g\<lparr>m_appenders := remove1 a (m_appenders g)\<rparr>) h))"

definition clearAppenders :: "nat \<Rightarrow> log_heap \<Rightarrow> log_heap res" where
  "clearAppenders l = on_logger l (\<lambda>g h. Inr (put_logger l (g\<lparr>m_appenders := []\<rparr>) h))"

text \<open>\<open>setFormatter\<close> from a pointer hands the formatter on to the appenders without one of their own.\<close>

fun inherit :: "log_formatter option \<Rightarrow> nat list \<Rightarrow> log_heap \<Rightarrow> log_heap res" where
  "inherit val [] h = Inr h"
| "inherit val (a # as) h =
     sbind (on_appender a (\<lambda>x h. Inr (if m_hasFormatter x then h else put_appender a (x\<lparr>ap_formatter := val\<rparr>) h)) h)
       (inherit val as)"

definition setFormatter :: "nat \<Rightarrow> log_formatter option \<Rightarrow> log_heap \<Rightarrow> log_heap res" where
  "setFormatter l val = on_logger l (\<lambda>g h. inherit val (m_appenders g) (put_logger l (g\<lparr>lg_formatter := val\<rparr>) h))"

definition setFormatter_str :: "nat \<Rightarrow> string \<Rightarrow> log_heap \<Rightarrow> log_heap res" where
  "setFormatter_str l val = on_logger l (\<lambda>g h.
     let new_val = new_LogFormatter val
     in Inr (if m_error new_val then h else put_logger l (g\<lparr>lg_formatter := Some (new_LogFormatter val)\<rparr>) h))"

text \<open>
  \<open>log\<close>: the loop over the appenders and, without one, the call of the root's \<open>log\<close>; \<open>None\<close> when the
  fuel runs out, that is when the chain of roots is longer.
\<close>

fun log_all ::
  "(string \<Rightarrow> u64 \<Rightarrow> string option) \<Rightarrow> log_level \<Rightarrow> log_event \<Rightarrow> nat list \<Rightarrow> log_heap \<Rightarrow> log_heap res" where
  "log_all strftime level e [] h = Inr h"
| "log_all strftime level e (a # as) h = sbind (appender_log strftime level e a h) (log_all strftime level e as)"

fun logger_log ::
  "nat \<Rightarrow> (string \<Rightarrow> u64 \<Rightarrow> string option) \<Rightarrow> nat \<Rightarrow> log_level \<Rightarrow> log_event \<Rightarrow> log_heap \<Rightarrow> log_heap res option" where
  "logger_log 0 strftime l level e h = None"
| "logger_log (Suc fuel) strftime l level e h =
     (case loggers h l of
        None \<Rightarrow> Some (Inl NullDeref)
      | Some g \<Rightarrow>
          if lg_level g < level then
            (if m_appenders g \<noteq> [] then Some (log_all strftime level e (m_appenders g) h)
             else case lg_root g of
                    Some r \<Rightarrow> logger_log fuel strftime r level e h
                  | None \<Rightarrow> Some (Inr h))
          else Some (Inr h))"

text \<open>
  The macro EXHY_LOG_LEVEL with the text that is put into the stream: the event is made and, when
  the wrapper goes out of scope, logged by its logger.
\<close>

definition log_macro ::
  "nat \<Rightarrow> (string \<Rightarrow> u64 \<Rightarrow> string option) \<Rightarrow> nat \<Rightarrow> log_level \<Rightarrow> (string \<Rightarrow> log_event) \<Rightarrow> string \<Rightarrow> log_heap \<Rightarrow>
    log_heap res option" where
  "log_macro fuel strftime l level mk text h =
     (case loggers h l of
        None \<Rightarrow> Some (Inl NullDeref)
      | Some g \<Rightarrow>
          if lg_level g \<le> level then
            (let e = event_put text ((mk (lg_name g))\<lparr>ev_level := level\<rparr>) in logger_log fuel strftime l (ev_level e) e h)
          else Some (Inr h))"

section \<open>LoggerManager\<close>

text \<open>The addresses of the root, of its two appenders and of a new logger are arguments.\<close>

definition new_LoggerManager :: "nat \<Rightarrow> nat \<Rightarrow> nat \<Rightarrow> log_heap \<Rightarrow> log_heap res" where
  "new_LoggerManager l a b h =
     (let h1 = (put_appender b (new_appender (FileLogAppender ''exhy/log.txt''))
                  (put_appender a (new_appender StdoutLogAppender)
                    (put_logger l (new_Logger ''root'') h)))\<lparr>m_root := l\<rparr>
      in sbind (addAppender l a h1) (\<lambda>h2. sbind (addAppender l b h2)
           (\<lambda>h3. Inr (h3\<lparr>m_loggers := (m_loggers h3)(''root'' \<mapsto> l)\<rparr>))))"

definition getLogger :: "string \<Rightarrow> nat \<Rightarrow> log_heap \<Rightarrow> nat \<times> log_heap" where
  "getLogger name l h =
     (case m_loggers h name of
        Some r \<Rightarrow> (r, h)
      | None \<Rightarrow> (l, (put_logger l ((new_Logger name)\<lparr>lg_root := Some (m_root h)\<rparr>) h)
                       \<lparr>m_loggers := (m_loggers h)(name \<mapsto> l)\<rparr>))"

section \<open>The listener of the configuration\<close>

record LogAppenderDefine =
  lad_type :: nat
  lad_level :: log_level
  lad_formatter :: string
  lad_file :: string

record LogDefine =
  ld_name :: string
  ld_level :: log_level
  ld_formatter :: string
  ld_appenders :: "LogAppenderDefine list"

text \<open>A set of definitions is the list of its elements in their order, which is by name.\<close>

definition define_find :: "string \<Rightarrow> LogDefine list \<Rightarrow> LogDefine option" where
  "define_find name s = List.find (\<lambda>d. ld_name d = name) s"

text \<open>The loop over the appenders of a definition; \<open>fresh\<close> gives a new address.\<close>

fun conf_appenders :: "(log_heap \<Rightarrow> nat) \<Rightarrow> nat \<Rightarrow> LogAppenderDefine list \<Rightarrow> log_heap \<Rightarrow> log_heap res" where
  "conf_appenders fresh l [] h = Inr h"
| "conf_appenders fresh l (a # as) h =
     (let ap = (if lad_type a = 1 then Some (FileLogAppender (lad_file a))
                else if lad_type a = 2 then Some StdoutLogAppender else None); p = fresh h
      in case ap of
           None \<Rightarrow> Inl NullDeref
         | Some k \<Rightarrow> sbind (addAppender l p (put_appender p (appender_setLevel (lad_level a) (new_appender k)) h))
                       (conf_appenders fresh l as))"

text \<open>One definition of the new value: the logger stays null when it equals the old one.\<close>

definition conf_define :: "(log_heap \<Rightarrow> nat) \<Rightarrow> LogDefine list \<Rightarrow> LogDefine \<Rightarrow> log_heap \<Rightarrow> log_heap res" where
  "conf_define fresh old i h =
     (let change = (\<lambda>h. let (l, h1) = getLogger (ld_name i) (fresh h) h
                        in sbind (setLevel l (ld_level i) h1) (\<lambda>h2. Inr (Some l, h2)))
      in sbind (case define_find (ld_name i) old of
                  None \<Rightarrow> change h
                | Some d \<Rightarrow> if i = d then Inr (None, h) else change h)
           (\<lambda>(logger, h1). case logger of
              None \<Rightarrow> Inl NullDeref
            | Some l \<Rightarrow>
                sbind (if ld_formatter i = [] then Inr h1 else setFormatter_str l (ld_formatter i) h1)
                  (\<lambda>h2. sbind (clearAppenders l h2) (conf_appenders fresh l (ld_appenders i)))))"

fun conf_defines :: "(log_heap \<Rightarrow> nat) \<Rightarrow> LogDefine list \<Rightarrow> LogDefine list \<Rightarrow> log_heap \<Rightarrow> log_heap res" where
  "conf_defines fresh old [] h = Inr h"
| "conf_defines fresh old (i # is) h = sbind (conf_define fresh old i h) (conf_defines fresh old is)"

text \<open>
  The loggers whose definition is gone get the level 0xffffffff and lose their appenders. The
  line the listener itself logs to the root first is left out.
\<close>

fun conf_removed :: "(log_heap \<Rightarrow> nat) \<Rightarrow> LogDefine list \<Rightarrow> LogDefine list \<Rightarrow> log_heap \<Rightarrow> log_heap res" where
  "conf_removed fresh new [] h = Inr h"
| "conf_removed fresh new (i # is) h =
     sbind (if define_find (ld_name i) new = None then
              (let (l, h1) = getLogger (ld_name i) (fresh h) h
               in sbind (setLevel l 0xffffffff h1) (clearAppenders l))
            else Inr h)
       (conf_removed fresh new is)"

definition on_logger_conf_changed ::
  "(log_heap \<Rightarrow> nat) \<Rightarrow> LogDefine list \<Rightarrow> LogDefine list \<Rightarrow> log_heap \<Rightarrow> log_heap res" where
  "on_logger_conf_changed fresh old new h = sbind (conf_defines fresh old new h) (conf_removed fresh new old)"

section \<open>Histories\<close>

text \<open>
  The states a program reaches from a new manager with the operations of loggers and appenders. A
  formatter that is set is not null; a new object has an address that is not in use.
\<close>

definition no_loggers :: log_heap where
  "no_loggers = \<lparr>appenders = Map.empty, loggers = Map.empty, m_loggers = Map.empty, m_root = 0, written = []\<rparr>"

inductive log_reachable :: "log_heap \<Rightarrow> bool" where
  start: "new_LoggerManager l a b no_loggers = Inr h \<Longrightarrow> a \<noteq> b \<Longrightarrow> log_reachable h"
| get: "log_reachable h \<Longrightarrow> loggers h l = None \<Longrightarrow> log_reachable (snd (getLogger name l h))"
| make: "log_reachable h \<Longrightarrow> appenders h a = None \<Longrightarrow> log_reachable (put_appender a (new_appender k) h)"
| alevel: "log_reachable h \<Longrightarrow> appenders h a = Some x \<Longrightarrow> log_reachable (put_appender a (appender_setLevel v x) h)"
| aformat: "log_reachable h \<Longrightarrow> appenders h a = Some x \<Longrightarrow> log_reachable (put_appender a (appender_setFormatter (Some f) x) h)"
| level: "log_reachable h \<Longrightarrow> setLevel l v h = Inr h' \<Longrightarrow> log_reachable h'"
| add: "log_reachable h \<Longrightarrow> addAppender l a h = Inr h' \<Longrightarrow> log_reachable h'"
| del: "log_reachable h \<Longrightarrow> delAppender l a h = Inr h' \<Longrightarrow> log_reachable h'"
| clear: "log_reachable h \<Longrightarrow> clearAppenders l h = Inr h' \<Longrightarrow> log_reachable h'"
| setf: "log_reachable h \<Longrightarrow> setFormatter l (Some f) h = Inr h' \<Longrightarrow> log_reachable h'"
| sets: "log_reachable h \<Longrightarrow> setFormatter_str l p h = Inr h' \<Longrightarrow> log_reachable h'"
| log: "log_reachable h \<Longrightarrow> logger_log n strftime l v e h = Some (Inr h') \<Longrightarrow> log_reachable h'"

definition ready :: "log_heap \<Rightarrow> nat \<Rightarrow> bool" where
  "ready h a \<longleftrightarrow> (\<exists>x f. appenders h a = Some x \<and> ap_formatter x = Some f)"

definition logger_ok :: "log_heap \<Rightarrow> logger \<Rightarrow> bool" where
  "logger_ok h g \<longleftrightarrow> lg_formatter g \<noteq> None \<and> (\<forall>a \<in> set (m_appenders g). ready h a) \<and>
     (\<forall>r. lg_root g = Some r \<longrightarrow> (\<exists>g'. loggers h r = Some g' \<and> lg_root g' = None))"

definition log_ok :: "log_heap \<Rightarrow> bool" where
  "log_ok h \<longleftrightarrow> (\<forall>l g. loggers h l = Some g \<longrightarrow> logger_ok h g) \<and>
     (\<exists>g. loggers h (m_root h) = Some g \<and> lg_root g = None)"

lemma on_logger_Inr: "on_logger l f h = Inr h' \<longleftrightarrow> (\<exists>g. loggers h l = Some g \<and> f g h = Inr h')"
  by (auto simp: on_logger_def split: option.splits)

lemma on_appender_Inr: "on_appender a f h = Inr h' \<longleftrightarrow> (\<exists>x. appenders h a = Some x \<and> f x h = Inr h')"
  by (auto simp: on_appender_def split: option.splits)

lemma ready_put_logger [simp]: "ready (put_logger l g h) = ready h"
  by (simp add: ready_def put_logger_def fun_eq_iff)

lemma log_ok_put_logger:
  assumes "log_ok h" "logger_ok (put_logger l g h) g" "loggers h l = Some g0" "lg_root g = lg_root g0"
  shows "log_ok (put_logger l g h)"
  using assms by (fastforce simp: log_ok_def logger_ok_def put_logger_def ready_def)

lemma logger_ok_upd:
  assumes "log_ok h" "loggers h l = Some g0" "lg_root g = lg_root g0" "lg_formatter g \<noteq> None"
    "\<forall>a \<in> set (m_appenders g). ready h a"
  shows "log_ok (put_logger l g h)"
proof (rule log_ok_put_logger [OF assms(1) _ assms(2,3)])
  have "logger_ok h g0" using assms by (auto simp: log_ok_def)
  then show "logger_ok (put_logger l g h) g"
    using assms by (fastforce simp: logger_ok_def put_logger_def ready_def)
qed

lemma log_ok_put_appender:
  assumes "log_ok h" "\<And>y. appenders h a = Some y \<Longrightarrow> ap_formatter y \<noteq> None \<Longrightarrow> ap_formatter x \<noteq> None"
  shows "log_ok (put_appender a x h)"
proof -
  have "ready (put_appender a x h) b" if "ready h b" for b
    using that assms(2) by (fastforce simp: ready_def put_appender_def)
  then show ?thesis using assms(1) by (fastforce simp: log_ok_def logger_ok_def put_appender_def)
qed

lemma inherit_ok:
  assumes "log_ok h" "inherit (Some f) as h = Inr h'"
  shows "log_ok h'"
  using assms
proof (induction as arbitrary: h)
  case (Cons a as)
  then obtain x where x: "appenders h a = Some x"
    "inherit (Some f) as (if m_hasFormatter x then h else put_appender a (x\<lparr>ap_formatter := Some f\<rparr>) h) = Inr h'"
    by (auto elim!: sbind_eq_InrE simp: on_appender_Inr)
  have "log_ok (put_appender a (x\<lparr>ap_formatter := Some f\<rparr>) h)" by (rule log_ok_put_appender [OF Cons.prems(1)]) simp
  then show ?case using Cons.IH x Cons.prems(1) by (auto split: if_splits)
qed simp

lemma log_ok_written [simp]: "log_ok (h\<lparr>written := w\<rparr>) = log_ok h"
  by (simp add: log_ok_def logger_ok_def ready_def)

lemma appender_log_frame: "appender_log strftime v e a h = Inr h' \<Longrightarrow> \<exists>w. h' = h\<lparr>written := w\<rparr>"
  by (auto simp: appender_log_def on_appender_Inr elim!: sbind_eq_InrE split: if_splits option.splits
      intro: exI [of _ "written h'"])

lemma log_all_frame: "log_all strftime v e as h = Inr h' \<Longrightarrow> \<exists>w. h' = h\<lparr>written := w\<rparr>"
proof (induction as arbitrary: h)
  case Nil
  then show ?case by (auto intro: exI [of _ "written h"])
next
  case (Cons a as)
  then obtain h1 where "appender_log strftime v e a h = Inr h1" "log_all strftime v e as h1 = Inr h'"
    by (auto elim!: sbind_eq_InrE)
  then show ?case using appender_log_frame Cons.IH by fastforce
qed

lemma logger_log_frame: "logger_log n strftime l v e h = Some (Inr h') \<Longrightarrow> \<exists>w. h' = h\<lparr>written := w\<rparr>"
proof (induction n arbitrary: l)
  case (Suc n)
  show ?case
  proof (cases "loggers h l")
    case (Some g)
    have "h = h\<lparr>written := written h\<rparr>" by simp
    then show ?thesis using Suc Some log_all_frame
      by (cases "lg_root g") (auto split: if_splits intro: exI [of _ "written h"])
  qed (use Suc in simp)
qed simp

lemma log_ok_start:
  assumes "new_LoggerManager l a b no_loggers = Inr h" "a \<noteq> b"
  shows "log_ok h"
  using assms
  by (auto simp: new_LoggerManager_def addAppender_def Let_def on_logger_def on_appender_def put_logger_def put_appender_def
      no_loggers_def new_appender_def new_Logger_def appender_setFormatter_def log_ok_def logger_ok_def ready_def
      split: if_splits)

lemma log_reachable_ok: "log_reachable h \<Longrightarrow> log_ok h"
proof (induction rule: log_reachable.induct)
  case (start l a b h)
  then show ?case by (rule log_ok_start)
next
  case (get h l name)
  then obtain g0 where g0: "loggers h (m_root h) = Some g0" "lg_root g0 = None" by (auto simp: log_ok_def)
  moreover have "m_root h \<noteq> l" using get.hyps(2) g0 by auto
  ultimately show ?case using get
    by (auto simp: getLogger_def log_ok_def logger_ok_def ready_def put_logger_def new_Logger_def split: option.splits) fastforce+
next
  case (make h a k)
  then show ?case by (intro log_ok_put_appender) auto
next
  case (alevel h a x v)
  then show ?case by (intro log_ok_put_appender) (auto simp: appender_setLevel_def)
next
  case (aformat h a x f)
  then show ?case by (intro log_ok_put_appender) (auto simp: appender_setFormatter_def)
next
  case (level h l v h')
  then show ?case
    by (auto simp: setLevel_def on_logger_Inr log_ok_def [of h] logger_ok_def [of h] intro!: logger_ok_upd)
next
  case (add h l a h')
  then obtain g x where g: "loggers h l = Some g" "appenders h a = Some x"
    "h' = put_logger l (g\<lparr>m_appenders := m_appenders g @ [a]\<rparr>)
       (if ap_formatter x = None then put_appender a (appender_setFormatter (lg_formatter g) x) h else h)"
    (is "h' = put_logger l ?g ?h")
    by (auto simp: addAppender_def on_logger_Inr on_appender_Inr Let_def)
  have ok: "logger_ok h g" using add.IH g by (auto simp: log_ok_def)
  have h1: "log_ok ?h" using add.IH ok g by (auto simp: appender_setFormatter_def intro!: log_ok_put_appender)
  have "ready ?h a" using ok g by (auto simp: ready_def put_appender_def appender_setFormatter_def logger_ok_def)
  moreover have l: "loggers ?h l = Some g" using g by (simp add: put_appender_def)
  moreover have "logger_ok ?h g" using h1 l by (auto simp: log_ok_def)
  ultimately show ?case unfolding g(3) by (intro logger_ok_upd [OF h1 l]) (auto simp: logger_ok_def)
next
  case (del h l a h')
  then obtain g where g: "loggers h l = Some g" "h' = put_logger l (g\<lparr>m_appenders := remove1 a (m_appenders g)\<rparr>) h"
    by (auto simp: delAppender_def on_logger_Inr)
  then have "logger_ok h g" using del.IH by (auto simp: log_ok_def)
  then show ?case using g del.IH by (auto simp: logger_ok_def dest: notin_set_remove1 intro!: logger_ok_upd)
next
  case (clear h l h')
  then show ?case
    by (auto simp: clearAppenders_def on_logger_Inr log_ok_def [of h] logger_ok_def [of h] intro!: logger_ok_upd)
next
  case (setf h l f h')
  then obtain g where g: "loggers h l = Some g"
    "inherit (Some f) (m_appenders g) (put_logger l (g\<lparr>lg_formatter := Some f\<rparr>) h) = Inr h'"
    by (auto simp: setFormatter_def on_logger_Inr)
  then have "logger_ok h g" using setf.IH by (auto simp: log_ok_def)
  then have "log_ok (put_logger l (g\<lparr>lg_formatter := Some f\<rparr>) h)"
    using g setf.IH by (intro logger_ok_upd) (auto simp: logger_ok_def)
  then show ?case using g inherit_ok by blast
next
  case (sets h l p h')
  then show ?case
    by (cases "m_error (new_LogFormatter p)")
      (auto simp: setFormatter_str_def on_logger_Inr Let_def log_ok_def [of h] logger_ok_def [of h] intro!: logger_ok_upd)
next
  case (log h n strftime l v e h')
  then show ?case using logger_log_frame by fastforce
qed

section \<open>What is written\<close>

text \<open>The lines of one appender, and the appenders an event of a level goes to.\<close>

definition lines_of :: "(string \<Rightarrow> u64 \<Rightarrow> string option) \<Rightarrow> log_level \<Rightarrow> log_event \<Rightarrow> log_heap \<Rightarrow> nat \<Rightarrow> (nat \<times> string) list" where
  "lines_of strftime level e h a =
     (case appenders h a of
        None \<Rightarrow> []
      | Some x \<Rightarrow>
          if level < ap_level x then []
          else (case map_option (formatter_format strftime level e) (ap_formatter x) of
                  Some (Inr s) \<Rightarrow> [(a, s @ [CHR 0x0A])]
                | _ \<Rightarrow> []))"

definition own_sinks :: "log_level \<Rightarrow> logger \<Rightarrow> nat list" where
  "own_sinks level g = (if lg_level g < level then m_appenders g else [])"

definition sinks :: "log_heap \<Rightarrow> log_level \<Rightarrow> logger \<Rightarrow> nat list" where
  "sinks h level g =
     (if m_appenders g \<noteq> [] then own_sinks level g
      else case lg_root g of
             Some r \<Rightarrow> if lg_level g < level then own_sinks level (the (loggers h r)) else []
           | None \<Rightarrow> [])"

lemma format_all_total:
  assumes "\<forall>fmt t. strftime fmt t \<noteq> None"
  shows "\<exists>s. format_all strftime level e is = Inr s"
proof (induction "is")
  case (Cons i "is")
  have "\<exists>s. item_format strftime level e i = Inr s"
  proof (cases i)
    case (DateTimeFormatItem fmt)
    then show ?thesis using assms [rule_format, of "cstr fmt" "m_time e"] by auto
  qed auto
  then show ?case using Cons by auto
qed simp

lemma appender_log_lines:
  assumes "ready h a" "\<forall>fmt t. strftime fmt t \<noteq> None"
  shows "appender_log strftime level e a h = Inr (h\<lparr>written := written h @ lines_of strftime level e h a\<rparr>)"
proof -
  obtain x f where x: "appenders h a = Some x" "ap_formatter x = Some f" using assms(1) by (auto simp: ready_def)
  obtain s where "formatter_format strftime level e f = Inr s"
    using format_all_total [OF assms(2), of level e "m_items f"] by (auto simp: formatter_format_def)
  then show ?thesis using x by (simp add: appender_log_def on_appender_def lines_of_def)
qed

lemma lines_of_written [simp]: "lines_of strftime level e (h\<lparr>written := w\<rparr>) = lines_of strftime level e h"
  by (simp add: lines_of_def fun_eq_iff)

lemma ready_written [simp]: "ready (h\<lparr>written := w\<rparr>) = ready h"
  by (simp add: ready_def fun_eq_iff)

lemma log_all_lines:
  assumes "\<forall>a \<in> set as. ready h a" "\<forall>fmt t. strftime fmt t \<noteq> None"
  shows "log_all strftime level e as h = Inr (h\<lparr>written := written h @ concat (map (lines_of strftime level e h) as)\<rparr>)"
  using assms(1)
proof (induction as arbitrary: h)
  case (Cons a as)
  then show ?case using appender_log_lines [OF _ assms(2), of h a level e] by simp
qed simp

lemma logger_log_lines:
  assumes "log_ok h" "loggers h l = Some g" "\<forall>fmt t. strftime fmt t \<noteq> None"
  shows "logger_log (Suc (Suc n)) strftime l level e h =
    Some (Inr (h\<lparr>written := written h @ concat (map (lines_of strftime level e h) (sinks h level g))\<rparr>))"
proof -
  have ok: "logger_ok h g" using assms by (auto simp: log_ok_def)
  note all = log_all_lines [OF _ assms(3), of _ h level e]
  show ?thesis
  proof (cases "lg_level g < level \<and> m_appenders g = [] \<and> lg_root g \<noteq> None")
    case True
    then obtain r g' where r: "lg_root g = Some r" "loggers h r = Some g'" "lg_root g' = None"
      using ok by (auto simp: logger_ok_def)
    then have "logger_ok h g'" using assms(1) by (auto simp: log_ok_def)
    then show ?thesis using True r assms(2) all [of "m_appenders g'"]
      by (simp add: sinks_def own_sinks_def logger_ok_def)
  next
    case False
    then show ?thesis using ok assms(2) all [of "m_appenders g"]
      by (auto simp: sinks_def own_sinks_def logger_ok_def split: option.splits)
  qed
qed


definition sample_log :: log_heap where
  "sample_log = (case new_LoggerManager 0 1 2 no_loggers of Inr h \<Rightarrow> h)"

lemma sample_log_eq:
  "new_LoggerManager 0 1 2 no_loggers = Inr sample_log" "loggers sample_log 0 = Some ((new_Logger ''root'')\<lparr>m_appenders := [1, 2]\<rparr>)"
  "written sample_log = []" "m_root sample_log = 0" "loggers sample_log 9 = None"
  by (simp_all add: sample_log_def new_LoggerManager_def addAppender_def Let_def on_logger_def on_appender_def
      put_logger_def put_appender_def no_loggers_def new_appender_def new_Logger_def appender_setFormatter_def)

lemma sample_log_reachable: "log_reachable sample_log"
  by (rule log_reachable.start [OF sample_log_eq(1)]) simp


text \<open>
  The macros let an event of the logger's own level through, and log drops it: with the macro
  the event is written exactly when its level is above the logger's, so the events of the level a
  logger is set to, and the DEBUGs events of a new logger, are never written.
\<close>

theorem own_level_dropped:
  assumes "log_reachable h" "loggers h l = Some g" "\<forall>fmt t. strftime fmt t \<noteq> None" "m_appenders g \<noteq> []"
  shows "log_macro 2 strftime l level mk text h =
      Some (Inr (if lg_level g < level
        then h\<lparr>written := written h @
          concat (map (lines_of strftime level (event_put text ((mk (lg_name g))\<lparr>ev_level := level\<rparr>)) h) (m_appenders g))\<rparr>
        else h)) \<and>
    (loggers h r = None \<longrightarrow> m_loggers h name = None \<longrightarrow>
      log_macro 2 strftime r 1 mk text (snd (getLogger name r h)) = Some (Inr (snd (getLogger name r h))))"
proof
  have ok: "log_ok h" using log_reachable_ok assms(1) .
  show "log_macro 2 strftime l level mk text h =
      Some (Inr (if lg_level g < level
        then h\<lparr>written := written h @
          concat (map (lines_of strftime level (event_put text ((mk (lg_name g))\<lparr>ev_level := level\<rparr>)) h) (m_appenders g))\<rparr>
        else h))"
    using logger_log_lines [OF ok assms(2,3), of 0] assms(2,4)
    by (auto simp: log_macro_def Let_def event_put_def sinks_def own_sinks_def numeral_2_eq_2)
  show "loggers h r = None \<longrightarrow> m_loggers h name = None \<longrightarrow>
      log_macro 2 strftime r 1 mk text (snd (getLogger name r h)) = Some (Inr (snd (getLogger name r h)))"
    by (simp add: getLogger_def log_macro_def put_logger_def new_Logger_def event_put_def numeral_2_eq_2)
qed

theorem own_level_dropped_witness:
  "log_macro 2 (\<lambda>_ _. Some ''now'') 0 1 (\<lambda>n. new_LogEvent n 0 ''a.cc'' 7 0 1 9 0 ''main'') ''hello'' sample_log =
     Some (Inr sample_log)"
  using own_level_dropped [OF sample_log_reachable sample_log_eq(2), of "\<lambda>_ _. Some ''now''" 1] by (simp add: new_Logger_def)

section \<open>Inherited formatters\<close>

lemma inherit_keeps:
  assumes "inherit val as h = Inr h'" "appenders h a = Some x" "m_hasFormatter x"
  shows "appenders h' a = Some x"
  using assms
proof (induction as arbitrary: h)
  case (Cons b as)
  then obtain y where "appenders h b = Some y"
    "inherit val as (if m_hasFormatter y then h else put_appender b (y\<lparr>ap_formatter := val\<rparr>) h) = Inr h'"
    by (auto elim!: sbind_eq_InrE simp: on_appender_Inr)
  moreover have "appenders (if m_hasFormatter y then h else put_appender b (y\<lparr>ap_formatter := val\<rparr>) h) a = Some x"
    using \<open>appenders h b = Some y\<close> Cons.prems by (auto simp: put_appender_def)
  ultimately show ?case using Cons.IH Cons.prems(3) by blast
qed simp

text \<open>
  An appender added without a formatter takes the logger's once and for all: it is marked as
  having its own, so no formatter the logger is given later reaches it, by pointer or by pattern.
\<close>

theorem inherited_formatter_stays:
  assumes "log_reachable h" "loggers h l = Some g" "appenders h a = Some x" "ap_formatter x = None"
    "addAppender l a h = Inr h1"
  shows "\<exists>y. appenders h1 a = Some y \<and> ap_formatter y = lg_formatter g \<and>
    (\<forall>f h2. setFormatter l (Some f) h1 = Inr h2 \<longrightarrow> appenders h2 a = Some y \<and>
       (\<exists>g2. loggers h2 l = Some g2 \<and> lg_formatter g2 = Some f)) \<and>
    (\<forall>p h2. setFormatter_str l p h1 = Inr h2 \<longrightarrow> appenders h2 a = Some y)"
proof -
  have "lg_formatter g \<noteq> None" using log_reachable_ok [OF assms(1)] assms(2) by (auto simp: log_ok_def logger_ok_def)
  moreover have h1: "h1 = put_logger l (g\<lparr>m_appenders := m_appenders g @ [a]\<rparr>)
      (put_appender a (appender_setFormatter (lg_formatter g) x) h)"
    using assms by (auto simp: addAppender_def on_logger_Inr on_appender_Inr Let_def)
  ultimately have y: "appenders h1 a = Some (appender_setFormatter (lg_formatter g) x)"
    "m_hasFormatter (appender_setFormatter (lg_formatter g) x)"
    by (simp_all add: put_logger_def put_appender_def appender_setFormatter_def)
  have keep: "loggers h2 = loggers h0" if "inherit v as h0 = Inr h2" for v as h0 h2
    using that by (induction as arbitrary: h0)
      (auto elim!: sbind_eq_InrE simp: on_appender_Inr put_appender_def split: if_splits, (fastforce+)?)
  have "appenders h2 a = Some (appender_setFormatter (lg_formatter g) x) \<and>
      (\<exists>g2. loggers h2 l = Some g2 \<and> lg_formatter g2 = Some f)" if "setFormatter l (Some f) h1 = Inr h2" for f h2
    using that inherit_keeps y keep by (fastforce simp: setFormatter_def on_logger_Inr put_logger_def)
  moreover have "appenders h2 a = Some (appender_setFormatter (lg_formatter g) x)" if "setFormatter_str l p h1 = Inr h2" for p h2
    using that y by (auto simp: setFormatter_str_def on_logger_Inr Let_def put_logger_def split: if_splits)
  ultimately show ?thesis using y by (auto simp: appender_setFormatter_def)
qed

lemma sample_appender:
  "appenders (put_appender 5 (new_appender StdoutLogAppender) sample_log) 5 = Some (new_appender StdoutLogAppender)"
  "loggers (put_appender 5 (new_appender StdoutLogAppender) sample_log) 0 = Some ((new_Logger ''root'')\<lparr>m_appenders := [1, 2]\<rparr>)"
  "log_reachable (put_appender 5 (new_appender StdoutLogAppender) sample_log)"
proof -
  have "appenders sample_log 5 = None"
    by (simp add: sample_log_def new_LoggerManager_def addAppender_def Let_def on_logger_def on_appender_def
        put_logger_def put_appender_def no_loggers_def new_appender_def new_Logger_def appender_setFormatter_def)
  then show "log_reachable (put_appender 5 (new_appender StdoutLogAppender) sample_log)"
    by (rule log_reachable.make [OF sample_log_reachable])
qed (simp_all add: put_appender_def sample_log_eq)

theorem inherited_formatter_stays_witness:
  "\<exists>h1 y. addAppender 0 5 (put_appender 5 (new_appender StdoutLogAppender) sample_log) = Inr h1 \<and>
     (\<forall>f h2. setFormatter 0 (Some f) h1 = Inr h2 \<longrightarrow> appenders h2 5 = Some y) \<and>
     ap_formatter y = Some (new_LogFormatter default_pattern)"
proof -
  obtain h1 where h1: "addAppender 0 5 (put_appender 5 (new_appender StdoutLogAppender) sample_log) = Inr h1"
    using sample_appender(1,2) by (simp add: addAppender_def on_logger_def on_appender_def)
  moreover have "lg_formatter ((new_Logger ''root'')\<lparr>m_appenders := [1, 2]\<rparr>) = Some (new_LogFormatter default_pattern)"
    by (simp add: new_Logger_def)
  moreover have "ap_formatter (new_appender StdoutLogAppender) = None" by (simp add: new_appender_def)
  ultimately show ?thesis
    using inherited_formatter_stays [OF sample_appender(3,2,1) _ h1] by auto
qed

section \<open>Unchanged definitions\<close>

lemma conf_defines_append:
  "conf_defines fresh old (is @ js) h = sbind (conf_defines fresh old is h) (conf_defines fresh old js)"
proof (induction "is" arbitrary: h)
  case (Cons i "is")
  then show ?case by (cases "conf_define fresh old i h") simp_all
qed simp

text \<open>
  When the configuration of the loggers changes and one definition of a logger is the same as
  before, the listener does not get to its end: it calls the null logger it has for that definition.
\<close>

theorem unchanged_define_faults:
  assumes "i \<in> set new" "define_find (ld_name i) old = Some i"
  shows "\<exists>err. on_logger_conf_changed fresh old new h = Inl err \<and>
    (\<forall>pre post. new = pre @ i # post \<longrightarrow> (\<exists>h1. conf_defines fresh old pre h = Inr h1) \<longrightarrow> err = NullDeref)"
proof -
  obtain pre post where new: "new = pre @ i # post" using assms(1) by (auto simp: in_set_conv_decomp)
  have null: "conf_defines fresh old (p @ i # q) h = (case conf_defines fresh old p h of Inl e \<Rightarrow> Inl e | Inr _ \<Rightarrow> Inl NullDeref)"
    for p q
    using assms(2) by (simp add: conf_defines_append conf_define_def sbind_def [of "conf_defines fresh old p h"]
        split: sum.splits)
  then obtain err where err: "conf_defines fresh old new h = Inl err" by (cases "conf_defines fresh old pre h") (simp_all add: new)
  moreover have "err = NullDeref" if "new = p @ i # q" "conf_defines fresh old p h = Inr h1" for p q h1
    using null [of p q] err that by simp
  ultimately show ?thesis by (auto simp: on_logger_conf_changed_def)
qed

theorem unchanged_define_faults_witness:
  "\<exists>err. on_logger_conf_changed (\<lambda>_. 9)
     [\<lparr>ld_name = ''system'', ld_level = 2, ld_formatter = [], ld_appenders = []\<rparr>]
     [\<lparr>ld_name = ''system'', ld_level = 2, ld_formatter = [], ld_appenders = []\<rparr>,
      \<lparr>ld_name = ''www'', ld_level = 2, ld_formatter = [], ld_appenders = []\<rparr>] sample_log = Inl err"
  using unchanged_define_faults
    [of "\<lparr>ld_name = ''system'', ld_level = 2, ld_formatter = [], ld_appenders = []\<rparr>"
      "[\<lparr>ld_name = ''system'', ld_level = 2, ld_formatter = [], ld_appenders = []\<rparr>,
        \<lparr>ld_name = ''www'', ld_level = 2, ld_formatter = [], ld_appenders = []\<rparr>]"
      "[\<lparr>ld_name = ''system'', ld_level = 2, ld_formatter = [], ld_appenders = []\<rparr>]" "\<lambda>_. 9" sample_log]
  by (auto simp: define_find_def)

end
