(* ===== verification/StdOrdered.thy ===== *)
theory StdOrdered
  imports ExhyPrelude
begin

text \<open>
  \<open>std::set\<close> and \<open>std::map\<close> with a comparator, as the sources use them: a list in the order of
  the comparator, without equivalent elements. Two elements are equivalent when neither is less
  than the other. The operations follow the standard's description (lower_bound, then one
  comparison); their laws need the comparator to be a strict weak order, which is the locale
  below. The comparators of the sources are interpreted where they are modelled.
\<close>

section \<open>Operations\<close>

definition equiv_by :: "('a \<Rightarrow> 'a \<Rightarrow> bool) \<Rightarrow> 'a \<Rightarrow> 'a \<Rightarrow> bool" where
  "equiv_by lt a b \<longleftrightarrow> \<not> lt a b \<and> \<not> lt b a"

fun set_insert :: "('a \<Rightarrow> 'a \<Rightarrow> bool) \<Rightarrow> 'a \<Rightarrow> 'a list \<Rightarrow> 'a list" where
  "set_insert lt x [] = [x]"
| "set_insert lt x (y # ys) =
     (if lt y x then y # set_insert lt x ys else if lt x y then x # y # ys else y # ys)"

fun set_find :: "('a \<Rightarrow> 'a \<Rightarrow> bool) \<Rightarrow> 'a \<Rightarrow> 'a list \<Rightarrow> 'a option" where
  "set_find lt x [] = None"
| "set_find lt x (y # ys) =
     (if lt y x then set_find lt x ys else if lt x y then None else Some y)"

fun set_erase :: "('a \<Rightarrow> 'a \<Rightarrow> bool) \<Rightarrow> 'a \<Rightarrow> 'a list \<Rightarrow> 'a list" where
  "set_erase lt x [] = []"
| "set_erase lt x (y # ys) =
     (if lt y x then y # set_erase lt x ys else if lt x y then y # ys else ys)"

text \<open>The elements before \<open>upper_bound(x)\<close> and those from it on.\<close>

definition before_upper :: "('a \<Rightarrow> 'a \<Rightarrow> bool) \<Rightarrow> 'a \<Rightarrow> 'a list \<Rightarrow> 'a list" where
  "before_upper lt x ys = takeWhile (\<lambda>y. \<not> lt x y) ys"

definition from_upper :: "('a \<Rightarrow> 'a \<Rightarrow> bool) \<Rightarrow> 'a \<Rightarrow> 'a list \<Rightarrow> 'a list" where
  "from_upper lt x ys = dropWhile (\<lambda>y. \<not> lt x y) ys"

text \<open>\<open>std::map\<close>: \<open>m[k] = v\<close>, \<open>find\<close>, \<open>erase(k)\<close>. An equivalent key that is there stays.\<close>

fun map_put :: "('k \<Rightarrow> 'k \<Rightarrow> bool) \<Rightarrow> 'k \<Rightarrow> 'v \<Rightarrow> ('k \<times> 'v) list \<Rightarrow> ('k \<times> 'v) list" where
  "map_put lt k v [] = [(k, v)]"
| "map_put lt k v ((j, w) # ys) =
     (if lt j k then (j, w) # map_put lt k v ys
      else if lt k j then (k, v) # (j, w) # ys else (j, v) # ys)"

fun map_find :: "('k \<Rightarrow> 'k \<Rightarrow> bool) \<Rightarrow> 'k \<Rightarrow> ('k \<times> 'v) list \<Rightarrow> 'v option" where
  "map_find lt k [] = None"
| "map_find lt k ((j, w) # ys) =
     (if lt j k then map_find lt k ys else if lt k j then None else Some w)"

fun map_erase :: "('k \<Rightarrow> 'k \<Rightarrow> bool) \<Rightarrow> 'k \<Rightarrow> ('k \<times> 'v) list \<Rightarrow> ('k \<times> 'v) list" where
  "map_erase lt k [] = []"
| "map_erase lt k ((j, w) # ys) =
     (if lt j k then (j, w) # map_erase lt k ys else if lt k j then (j, w) # ys else ys)"

definition map_ok :: "('k \<Rightarrow> 'k \<Rightarrow> bool) \<Rightarrow> ('k \<times> 'v) list \<Rightarrow> bool" where
  "map_ok lt m \<longleftrightarrow> sorted_wrt lt (map fst m)"

section \<open>What a comparator must satisfy\<close>

locale strict_weak =
  fixes lt :: "'a \<Rightarrow> 'a \<Rightarrow> bool"
  assumes irrefl: "\<not> lt a a"
    and trans: "lt a b \<Longrightarrow> lt b c \<Longrightarrow> lt a c"
    and incomp: "lt a c \<Longrightarrow> lt a b \<or> lt b c"
begin

lemma asym: "lt a b \<Longrightarrow> \<not> lt b a"
  using irrefl trans by blast

lemma equiv_refl: "equiv_by lt a a"
  by (simp add: equiv_by_def irrefl)

lemma equiv_trans: "equiv_by lt a b \<Longrightarrow> equiv_by lt b c \<Longrightarrow> equiv_by lt a c"
  using incomp unfolding equiv_by_def by blast

lemma set_set_insert_sub: "set (set_insert lt x ys) \<subseteq> insert x (set ys)"
  by (induction ys) auto

lemma sorted_insert: "sorted_wrt lt ys \<Longrightarrow> sorted_wrt lt (set_insert lt x ys)"
proof (induction ys)
  case (Cons y ys)
  show ?case
  proof (cases "lt y x")
    case True
    then show ?thesis using Cons set_set_insert_sub [of x ys] by auto
  next
    case False
    then show ?thesis using Cons.prems trans by auto
  qed
qed simp

lemma set_erase_sub: "set (set_erase lt x ys) \<subseteq> set ys"
  by (induction ys) auto

lemma sorted_erase: "sorted_wrt lt ys \<Longrightarrow> sorted_wrt lt (set_erase lt x ys)"
proof (induction ys)
  case (Cons y ys)
  then show ?case using set_erase_sub [of x ys] by auto
qed simp

lemma distinct_sorted: "sorted_wrt lt ys \<Longrightarrow> distinct ys"
  by (induction ys) (auto simp: irrefl)

text \<open>upper_bound splits a sorted list in the elements not behind \<open>x\<close> and those behind it.\<close>

lemma before_upper_set:
  "sorted_wrt lt ys \<Longrightarrow> set (before_upper lt x ys) = {y \<in> set ys. \<not> lt x y}"
proof (induction ys)
  case (Cons y ys)
  show ?case
  proof (cases "lt x y")
    case True
    then have "lt x z" if "z \<in> set ys" for z using that Cons.prems trans by auto
    then show ?thesis using True by (auto simp: before_upper_def)
  next
    case False
    then show ?thesis using Cons by (auto simp: before_upper_def)
  qed
qed (simp add: before_upper_def)

lemma from_upper_set:
  "sorted_wrt lt ys \<Longrightarrow> set (from_upper lt x ys) = {y \<in> set ys. lt x y}"
proof (induction ys)
  case (Cons y ys)
  show ?case
  proof (cases "lt x y")
    case True
    then have "lt x z" if "z \<in> set ys" for z using that Cons.prems trans by auto
    then show ?thesis using True by (auto simp: from_upper_def)
  next
    case False
    then show ?thesis using Cons by (auto simp: from_upper_def)
  qed
qed (simp add: from_upper_def)

lemma upper_split: "before_upper lt x ys @ from_upper lt x ys = ys"
  by (simp add: before_upper_def from_upper_def)

subsection \<open>Maps\<close>

lemma map_put_keys: "fst ` set (map_put lt k v m) \<subseteq> insert k (fst ` set m)"
  by (induction lt k v m rule: map_put.induct) (auto split: if_splits)

lemma map_erase_keys: "set (map_erase lt k m) \<subseteq> set m"
  by (induction lt k m rule: map_erase.induct) (auto split: if_splits)

lemma map_ok_put: "map_ok lt m \<Longrightarrow> map_ok lt (map_put lt k v m)"
proof (induction m)
  case (Cons p m)
  obtain j w where p: "p = (j, w)" by force
  show ?case
  proof (cases "lt j k")
    case True
    then show ?thesis
      using Cons p map_put_keys [of k v m] by (force simp: map_ok_def)
  next
    case False
    then show ?thesis using Cons.prems p trans by (auto simp: map_ok_def)
  qed
qed (simp add: map_ok_def)

lemma map_ok_erase: "map_ok lt m \<Longrightarrow> map_ok lt (map_erase lt k m)"
proof (induction m)
  case (Cons p m)
  then show ?case using map_erase_keys [of k m] by (cases p) (force simp: map_ok_def)
qed simp

text \<open>A lookup after an update: the value for every equivalent key, nothing else changes.\<close>

lemma map_find_put:
  "map_ok lt m \<Longrightarrow> map_find lt i (map_put lt k v m) = (if equiv_by lt i k then Some v else map_find lt i m)"
proof (induction m)
  case Nil
  then show ?case by (auto simp: equiv_by_def)
next
  case (Cons p m)
  obtain j w where p: "p = (j, w)" by force
  have IH: "map_find lt i (map_put lt k v m) = (if equiv_by lt i k then Some v else map_find lt i m)"
    using Cons by (simp add: map_ok_def)
  consider "lt j k" | "lt k j" | "equiv_by lt j k" by (auto simp: equiv_by_def)
  then show ?case
  proof cases
    case 1
    then show ?thesis using IH p asym [OF 1] incomp [OF 1, of i] by (auto simp: equiv_by_def)
  next
    case 2
    then show ?thesis using p asym [OF 2] incomp [OF 2, of i] trans [of k j i] trans [of i k j]
      by (auto simp: equiv_by_def dest: asym)
  next
    case 3
    have "lt j i = lt k i" "lt i j = lt i k"
      using 3 incomp [of j i k] incomp [of k i j] incomp [of i j k] incomp [of i k j]
      by (auto simp: equiv_by_def)
    then show ?thesis using 3 p by (auto simp: equiv_by_def)
  qed
qed

lemma map_find_less: "map_ok lt m \<Longrightarrow> \<forall>j \<in> fst ` set m. lt k j \<Longrightarrow> map_find lt k m = None"
  by (cases m) (auto dest: asym)

lemma map_find_equiv:
  assumes "equiv_by lt i k"
  shows "map_find lt i m = map_find lt k m"
proof (induction m)
  case (Cons p m)
  obtain j w where p: "p = (j, w)" by force
  have "lt j i = lt j k" "lt i j = lt k j"
    using assms incomp [of j i k] incomp [of j k i] incomp [of i j k] incomp [of k j i]
    by (auto simp: equiv_by_def)
  then show ?case using Cons p by simp
qed simp

lemma map_find_erase:
  "map_ok lt m \<Longrightarrow> map_find lt i (map_erase lt k m) = (if equiv_by lt i k then None else map_find lt i m)"
proof (induction m)
  case Nil
  then show ?case by simp
next
  case (Cons p m)
  obtain j w where p: "p = (j, w)" by force
  have IH: "map_find lt i (map_erase lt k m) = (if equiv_by lt i k then None else map_find lt i m)"
    using Cons by (simp add: map_ok_def)
  have above: "\<forall>z \<in> fst ` set m. lt j z" and ok: "map_ok lt m" using Cons.prems p by (auto simp: map_ok_def)
  consider "lt j k" | "lt k j" | "equiv_by lt j k" by (auto simp: equiv_by_def)
  then show ?case
  proof cases
    case 1
    then show ?thesis using IH p asym [OF 1] incomp [OF 1, of i] by (auto simp: equiv_by_def)
  next
    case 2
    then show ?thesis using p asym [OF 2] incomp [OF 2, of i] by (auto simp: equiv_by_def dest: asym)
  next
    case 3
    have eq: "lt j i = lt k i" "lt i j = lt i k"
      using 3 incomp [of j i k] incomp [of k i j] incomp [of i j k] incomp [of i k j]
      by (auto simp: equiv_by_def)
    have "map_find lt i m = None" if "\<not> lt j i"
    proof -
      have "lt i z" if "lt j z" for z using that \<open>\<not> lt j i\<close> incomp by blast
      then show ?thesis using map_find_less [OF ok, of i] above by blast
    qed
    then show ?thesis using 3 p eq by (auto simp: equiv_by_def)
  qed
qed

end

text \<open>When equivalence is equality (a total order) finding is membership.\<close>

locale strict_total = strict_weak +
  assumes total: "a \<noteq> b \<Longrightarrow> lt a b \<or> lt b a"
begin

lemma equiv_eq: "equiv_by lt a b \<longleftrightarrow> a = b"
  using total irrefl by (auto simp: equiv_by_def)

lemma set_set_insert [simp]: "set (set_insert lt x ys) = insert x (set ys)"
proof (induction ys)
  case (Cons y ys)
  then show ?case using total [of x y] by auto
qed simp

lemma set_find_mem: "sorted_wrt lt ys \<Longrightarrow> set_find lt x ys = (if x \<in> set ys then Some x else None)"
proof (induction ys)
  case (Cons y ys)
  then show ?case using total [of x y] asym by (auto simp: irrefl)
qed simp

lemma set_set_erase [simp]: "sorted_wrt lt ys \<Longrightarrow> set (set_erase lt x ys) = set ys - {x}"
proof (induction ys)
  case (Cons y ys)
  then show ?case using total [of x y] asym [of y x] asym [of x y] irrefl by auto
qed simp

end

end
