(* ===== verification/Config.thy ===== *)
theory Config
  imports StdString StdOrdered
begin

text \<open>
  Configuration variables, their listeners, the registry and loading from YAML (exhy/exhy_config.h,
  exhy_config.cpp). A variable's type is the name typeid gives, and all values are of one type \<open>'v\<close>.
  The conversion functors of a type are arguments: \<open>from_str\<close> gives nothing when it throws a
  std::exception. A listener is a function on the state \<open>'e\<close> of the rest of the program and says whether
  it throws one. A YAML node is what the yaml-cpp interface shows of it: a scalar, a map (with the scalars of
  its keys) or something else; the text the library emits for a node is an argument.
\<close>

section \<open>Variables\<close>

type_synonym ('v, 'e) listener = "'v \<Rightarrow> 'v \<Rightarrow> 'e \<Rightarrow> bool \<times> 'e"

record ('v, 'e) config_var =
  cv_name :: string
  cv_description :: string
  cv_type :: string
  cv_val :: 'v
  cv_cbs :: "(u64 \<times> ('v, 'e) listener) list"

record ('v, 'e) config =
  s_datas :: "string \<Rightarrow> ('v, 'e) config_var option"
  s_fun_id :: "string \<Rightarrow> u64"

definition to_lower :: "string \<Rightarrow> string" where
  "to_lower s = map (\<lambda>c. char_of (lower c)) s"

definition new_ConfigVar :: "string \<Rightarrow> string \<Rightarrow> 'v \<Rightarrow> string \<Rightarrow> ('v, 'e) config_var" where
  "new_ConfigVar type name default_value description =
     \<lparr>cv_name = to_lower name, cv_description = description, cv_type = type, cv_val = default_value, cv_cbs = []\<rparr>"

text \<open>The loop of \<open>setValue\<close> over the listeners, which ends when one throws.\<close>

fun notify :: "'v \<Rightarrow> 'v \<Rightarrow> (u64 \<times> ('v, 'e) listener) list \<Rightarrow> 'e \<Rightarrow> bool \<times> 'e" where
  "notify old v [] s = (False, s)"
| "notify old v ((i, cb) # cbs) s = (let (threw, s1) = cb old v s in if threw then (True, s1) else notify old v cbs s1)"

definition setValue :: "'v \<Rightarrow> ('v, 'e) config_var \<Rightarrow> 'e \<Rightarrow> bool \<times> ('v, 'e) config_var \<times> 'e" where
  "setValue v x s =
     (if v = cv_val x then (False, x, s)
      else let (threw, s1) = notify (cv_val x) v (cv_cbs x) s
           in if threw then (True, x, s1) else (False, x\<lparr>cv_val := v\<rparr>, s1))"

definition cv_toString :: "(string \<Rightarrow> 'v \<Rightarrow> string option) \<Rightarrow> ('v, 'e) config_var \<Rightarrow> string" where
  "cv_toString to_str x = (case to_str (cv_type x) (cv_val x) of Some s \<Rightarrow> s | None \<Rightarrow> [])"

definition fromString ::
  "(string \<Rightarrow> string \<Rightarrow> 'v option) \<Rightarrow> string \<Rightarrow> ('v, 'e) config_var \<Rightarrow> 'e \<Rightarrow> bool \<times> ('v, 'e) config_var \<times> 'e" where
  "fromString from_str val x s =
     (case from_str (cv_type x) val of
        None \<Rightarrow> (False, x, s)
      | Some v \<Rightarrow> (let (threw, x1, s1) = setValue v x s in (False, x1, s1)))"

text \<open>The listeners are a std::map by identifier; the counter is shared by the variables of one type.\<close>

definition addListener :: "('v, 'e) listener \<Rightarrow> u64 \<Rightarrow> ('v, 'e) config_var \<Rightarrow> u64 \<times> u64 \<times> ('v, 'e) config_var" where
  "addListener cb fun_id x =
     (let i = fun_id + 1 in (i, i, x\<lparr>cv_cbs := map_put (<) i cb (cv_cbs x)\<rparr>))"

definition delListener :: "u64 \<Rightarrow> ('v, 'e) config_var \<Rightarrow> ('v, 'e) config_var" where
  "delListener key x = x\<lparr>cv_cbs := map_erase (<) key (cv_cbs x)\<rparr>"

definition getListener :: "u64 \<Rightarrow> ('v, 'e) config_var \<Rightarrow> ('v, 'e) listener option" where
  "getListener key x = map_find (<) key (cv_cbs x)"

definition clearListener :: "('v, 'e) config_var \<Rightarrow> ('v, 'e) config_var" where
  "clearListener x = x\<lparr>cv_cbs := []\<rparr>"

section \<open>The registry\<close>

definition key_chars :: string where
  "key_chars = ''abcdefghijklmnopqrstuvwxyz._0123456789''"

definition name_chars :: string where
  "name_chars = ''abcdefghijklmnopqrstuvwxyzABCDEFGHIJKLMNOPQRSTUVWXYZ._0123456789''"

text \<open>
  The two \<open>Lookup\<close>s give the name of the variable the pointer is to, or \<open>None\<close> for a null pointer;
  \<open>dynamic_pointer_cast\<close> succeeds for the type of the variable only.
\<close>

definition Lookup_default ::
  "string \<Rightarrow> string \<Rightarrow> 'v \<Rightarrow> string \<Rightarrow> ('v, 'e) config \<Rightarrow> (string option \<times> ('v, 'e) config) res" where
  "Lookup_default type name default_value description c =
     (case s_datas c name of
        Some x \<Rightarrow> Inr (if cv_type x = type then Some name else None, c)
      | None \<Rightarrow>
          if \<not> set name \<subseteq> set name_chars then Inl InvalidArgument
          else Inr (Some name, c\<lparr>s_datas := (s_datas c)(name \<mapsto> new_ConfigVar type name default_value description)\<rparr>))"

definition Lookup_name :: "string \<Rightarrow> string \<Rightarrow> ('v, 'e) config \<Rightarrow> string option" where
  "Lookup_name type name c =
     (case s_datas c name of None \<Rightarrow> None | Some x \<Rightarrow> if cv_type x = type then Some name else None)"

definition LookupBase :: "string \<Rightarrow> ('v, 'e) config \<Rightarrow> ('v, 'e) config_var option" where
  "LookupBase name c = s_datas c name"

section \<open>Loading\<close>

datatype yaml =
    Scalar string
  | Map "(string \<times> yaml) list"
  | Other

definition sub_key :: "string \<Rightarrow> string \<Rightarrow> string" where
  "sub_key pre k = (if pre = [] then k else pre @ ''.'' @ k)"

fun ListAllMember :: "string \<Rightarrow> yaml \<Rightarrow> (string \<times> yaml) list" where
  "ListAllMember pre node =
     (if \<not> set pre \<subseteq> set key_chars then []
      else (pre, node) #
        (case node of
           Map ms \<Rightarrow> concat (map (\<lambda>(k, n). ListAllMember (sub_key pre k) n) ms)
         | _ \<Rightarrow> []))"

declare ListAllMember.simps [simp del]

definition node_text :: "(yaml \<Rightarrow> string) \<Rightarrow> yaml \<Rightarrow> string" where
  "node_text emit n = (case n of Scalar s \<Rightarrow> s | _ \<Rightarrow> emit n)"

definition load_node ::
  "(string \<Rightarrow> string \<Rightarrow> 'v option) \<Rightarrow> (yaml \<Rightarrow> string) \<Rightarrow> string \<times> yaml \<Rightarrow> ('v, 'e) config \<times> 'e \<Rightarrow> ('v, 'e) config \<times> 'e" where
  "load_node from_str emit i cs =
     (case (i, cs) of ((k, node), (c, s)) \<Rightarrow>
        if k = [] then (c, s)
        else let key = to_lower k
             in case LookupBase key c of
                  None \<Rightarrow> (c, s)
                | Some x \<Rightarrow> (let (r, x1, s1) = fromString from_str (node_text emit node) x s
                             in (c\<lparr>s_datas := (s_datas c)(key \<mapsto> x1)\<rparr>, s1)))"

definition LoadFromYaml ::
  "(string \<Rightarrow> string \<Rightarrow> 'v option) \<Rightarrow> (yaml \<Rightarrow> string) \<Rightarrow> yaml \<Rightarrow> ('v, 'e) config \<times> 'e \<Rightarrow> ('v, 'e) config \<times> 'e" where
  "LoadFromYaml from_str emit root cs = fold (load_node from_str emit) (ListAllMember [] root) cs"

section \<open>What loading does\<close>

interpretation fid: strict_total "(<) :: u64 \<Rightarrow> u64 \<Rightarrow> bool"
  by unfold_locales auto

text \<open>The values the document gives for a name, in the order they are applied.\<close>

definition values_for ::
  "(string \<Rightarrow> string \<Rightarrow> 'v option) \<Rightarrow> (yaml \<Rightarrow> string) \<Rightarrow> string \<Rightarrow> string \<Rightarrow> (string \<times> yaml) list \<Rightarrow> 'v list" where
  "values_for from_str emit type name ns =
     concat (map (\<lambda>(k, n). if k = name then (case from_str type (node_text emit n) of Some v \<Rightarrow> [v] | None \<Rightarrow> []) else []) ns)"

text \<open>Listeners that do not throw, and only look at the values they are given.\<close>

definition quiet :: "('v, 'e) config \<Rightarrow> bool" where
  "quiet c \<longleftrightarrow> (\<forall>n x. s_datas c n = Some x \<longrightarrow> (\<forall>(i, cb) \<in> set (cv_cbs x). \<forall>old v s. \<not> fst (cb old v s)))"

lemma notify_quiet:
  assumes "\<forall>(i, cb) \<in> set cbs. \<forall>old v s. \<not> fst (cb old v s)"
  shows "\<not> fst (notify old v cbs s)"
  using assms
proof (induction cbs arbitrary: s)
  case (Cons p cbs)
  obtain i cb where p: "p = (i, cb)" by (cases p)
  then have "\<not> fst (cb old v s)" using Cons.prems by auto
  then show ?case using Cons p by (simp add: case_prod_beta Let_def)
qed simp

lemma lower_key_chars: "c \<in> set key_chars \<Longrightarrow> char_of (lower c) = c"
proof -
  assume "c \<in> set key_chars"
  then have "\<not> (65 \<le> (of_char c :: nat) \<and> (of_char c :: nat) \<le> 90)" by (auto simp: key_chars_def)
  then have "lower c = of_char c" unfolding lower_def Let_def by (rule if_not_P)
  then show ?thesis by simp
qed

lemma to_lower_key: "set k \<subseteq> set key_chars \<Longrightarrow> to_lower k = k"
  unfolding to_lower_def by (rule map_idI) (auto intro: lower_key_chars)

lemma listed_keys: "(k, n) \<in> set (ListAllMember p node) \<Longrightarrow> set k \<subseteq> set key_chars"
proof (induction p node rule: ListAllMember.induct)
  case (1 p node)
  have p: "set p \<subseteq> set key_chars" using "1.prems" by (simp add: ListAllMember.simps [of p] split: if_splits)
  show ?case
  proof (cases "(k, n) = (p, node)")
    case False
    then obtain ms a m where ms: "node = Map ms" "(a, m) \<in> set ms" "(k, n) \<in> set (ListAllMember (sub_key p a) m)"
      using "1.prems" p by (cases node) (auto simp: ListAllMember.simps [of p])
    then show ?thesis using "1.IH" p by blast
  qed (use p in simp)
qed

lemma fromString_quiet:
  assumes "\<forall>(i, cb) \<in> set (cv_cbs x). \<forall>old v s. \<not> fst (cb old v s)"
  shows "fst (snd (fromString from_str val x s)) =
    x\<lparr>cv_val := (case from_str (cv_type x) val of Some v \<Rightarrow> v | None \<Rightarrow> cv_val x)\<rparr>"
  using notify_quiet [OF assms]
  by (auto simp: fromString_def setValue_def Let_def split: option.splits prod.splits) (metis fst_conv)+

lemma load_node_effect:
  assumes "quiet c" "set k \<subseteq> set key_chars" "name \<noteq> []"
  shows "s_datas (fst (load_node from_str emit (k, node) (c, s))) name =
      map_option (\<lambda>x. x\<lparr>cv_val := last (cv_val x # values_for from_str emit (cv_type x) name [(k, node)])\<rparr>) (s_datas c name)"
    and "quiet (fst (load_node from_str emit (k, node) (c, s)))"
proof -
  let ?r = "fst (load_node from_str emit (k, node) (c, s))"
  have same: "?r = c" if "k = [] \<or> s_datas c k = None"
    using that to_lower_key [OF assms(2)] by (auto simp: load_node_def LookupBase_def Let_def)
  have upd: "s_datas ?r = (s_datas c)(k \<mapsto> x\<lparr>cv_val := last (cv_val x # values_for from_str emit (cv_type x) k [(k, node)])\<rparr>)"
    if "s_datas c k = Some x" "k \<noteq> []" for x
  proof -
    have "\<forall>(i, cb) \<in> set (cv_cbs x). \<forall>old v s. \<not> fst (cb old v s)"
      using assms(1) that unfolding quiet_def by blast
    from fromString_quiet [OF this, of from_str "node_text emit node" s] that show ?thesis
      using to_lower_key [OF assms(2)]
      by (auto simp: load_node_def LookupBase_def Let_def values_for_def case_prod_beta split: option.splits)
  qed
  show "quiet ?r"
  proof (cases "k = [] \<or> s_datas c k = None")
    case False
    then obtain x where x: "s_datas c k = Some x" by auto
    then have "\<forall>(i, cb) \<in> set (cv_cbs x). \<forall>old v s. \<not> fst (cb old v s)"
      using assms(1) unfolding quiet_def by blast
    then show ?thesis using upd [OF x] False assms(1) by (simp add: quiet_def)
  qed (use same assms(1) in simp)
  show "s_datas ?r name =
      map_option (\<lambda>x. x\<lparr>cv_val := last (cv_val x # values_for from_str emit (cv_type x) name [(k, node)])\<rparr>) (s_datas c name)"
  proof (cases "k = [] \<or> s_datas c k = None")
    case True
    then show ?thesis using assms(3) same by (cases "s_datas c name") (auto simp: values_for_def)
  next
    case False
    then obtain x where x: "s_datas c k = Some x" by auto
    then show ?thesis using upd [OF x] False by (cases "s_datas c name") (auto simp: values_for_def)
  qed
qed

lemma values_for_Cons:
  "values_for from_str emit type name (p # ns) =
    values_for from_str emit type name [p] @ values_for from_str emit type name ns"
  by (simp add: values_for_def)

lemma load_all_effect:
  assumes "quiet c" "\<forall>(k, n) \<in> set ns. set k \<subseteq> set key_chars" "name \<noteq> []"
  shows "s_datas (fst (fold (load_node from_str emit) ns (c, s))) name =
      map_option (\<lambda>x. x\<lparr>cv_val := last (cv_val x # values_for from_str emit (cv_type x) name ns)\<rparr>) (s_datas c name)"
  using assms(1,2)
proof (induction ns arbitrary: c s)
  case Nil
  then show ?case by (cases "s_datas c name") (simp_all add: values_for_def)
next
  case (Cons p ns)
  obtain k n where p: "p = (k, n)" by (cases p)
  then have k: "set k \<subseteq> set key_chars" using Cons.prems by auto
  obtain c1 s1 where 1: "load_node from_str emit (k, n) (c, s) = (c1, s1)" by (cases "load_node from_str emit (k, n) (c, s)")
  then have c1: "s_datas c1 name =
      map_option (\<lambda>x. x\<lparr>cv_val := last (cv_val x # values_for from_str emit (cv_type x) name [(k, n)])\<rparr>) (s_datas c name)" "quiet c1"
    using load_node_effect [OF Cons.prems(1) k assms(3), of from_str emit n s] by simp_all
  have "s_datas (fst (fold (load_node from_str emit) ns (c1, s1))) name =
      map_option (\<lambda>x. x\<lparr>cv_val := last (cv_val x # values_for from_str emit (cv_type x) name ns)\<rparr>) (s_datas c1 name)"
    using Cons.IH [OF c1(2)] Cons.prems(2) by simp
  then show ?case
    using c1(1) by (cases "s_datas c name") (simp_all add: p 1 values_for_Cons [of _ _ _ _ "(k, n)" ns])
qed

text \<open>
  Claim C38. Loading a document sets every variable whose name occurs in it to the last value given for
  it that the variable's type can read, and keeps every other variable, types and listeners, when no
  listener throws. A variable with an upper-case letter in its name can be registered, but no
  document ever sets it.
\<close>

theorem load_applies:
  assumes "quiet c" "name \<noteq> []"
  shows "s_datas (fst (LoadFromYaml from_str emit root (c, s))) name =
      map_option (\<lambda>x. x\<lparr>cv_val := last (cv_val x # values_for from_str emit (cv_type x) name (ListAllMember [] root))\<rparr>)
        (s_datas c name) \<and>
    (\<not> set name \<subseteq> set key_chars \<longrightarrow> s_datas (fst (LoadFromYaml from_str emit root (c, s))) name = s_datas c name) \<and>
    (set name \<subseteq> set name_chars \<longrightarrow> s_datas c name = None \<longrightarrow>
      (\<exists>c'. Lookup_default type name v descr c = Inr (Some name, c') \<and>
        s_datas c' name = Some (new_ConfigVar type name v descr)))"
proof -
  have keys: "\<forall>(k, n) \<in> set (ListAllMember [] root). set k \<subseteq> set key_chars" using listed_keys by blast
  have all: "s_datas (fst (LoadFromYaml from_str emit root (c, s))) name =
      map_option (\<lambda>x. x\<lparr>cv_val := last (cv_val x # values_for from_str emit (cv_type x) name (ListAllMember [] root))\<rparr>)
        (s_datas c name)"
    unfolding LoadFromYaml_def by (rule load_all_effect [OF assms(1) keys assms(2)])
  moreover have "values_for from_str emit t name (ListAllMember [] root) = []" if "\<not> set name \<subseteq> set key_chars" for t
  proof -
    have "\<forall>(k, n) \<in> set (ListAllMember [] root). k \<noteq> name" using that keys by blast
    then show ?thesis by (auto simp: values_for_def)
  qed
  then have "\<not> set name \<subseteq> set key_chars \<longrightarrow> s_datas (fst (LoadFromYaml from_str emit root (c, s))) name = s_datas c name"
    using all by (cases "s_datas c name") simp_all
  moreover have "set name \<subseteq> set name_chars \<longrightarrow> s_datas c name = None \<longrightarrow>
      (\<exists>c'. Lookup_default type name v descr c = Inr (Some name, c') \<and>
        s_datas c' name = Some (new_ConfigVar type name v descr))"
    by (simp add: Lookup_default_def)
  ultimately show ?thesis by blast
qed

definition sample_config :: "(string, unit) config" where
  "sample_config = \<lparr>s_datas = [''system.port'' \<mapsto> new_ConfigVar ''s'' ''system.port'' ''8080'' [],
      ''system.Port'' \<mapsto> new_ConfigVar ''s'' ''system.Port'' ''8080'' []], s_fun_id = (\<lambda>_. 0)\<rparr>"

theorem load_applies_witness:
  "(\<exists>x. s_datas (fst (LoadFromYaml (\<lambda>_. Some) (\<lambda>_. []) (Map [(''system'', Map [(''port'', Scalar ''90'')])])
      (sample_config, ()))) ''system.port'' = Some x \<and> cv_val x = ''90'') \<and>
   (\<exists>x. s_datas (fst (LoadFromYaml (\<lambda>_. Some) (\<lambda>_. []) (Map [(''system'', Map [(''Port'', Scalar ''90'')])])
      (sample_config, ()))) ''system.Port'' = Some x \<and> cv_val x = ''8080'')"
proof -
  have q: "quiet sample_config" by (auto simp: quiet_def sample_config_def new_ConfigVar_def)
  have l: "ListAllMember [] (Map [(''system'', Map [(''port'', Scalar ''90'')])]) =
      [([], Map [(''system'', Map [(''port'', Scalar ''90'')])]), (''system'', Map [(''port'', Scalar ''90'')]),
       (''system.port'', Scalar ''90'')]"
    by (simp add: ListAllMember.simps sub_key_def key_chars_def)
  have u: "\<not> set ''system.Port'' \<subseteq> set key_chars" by (simp add: key_chars_def)
  have v: "s_datas sample_config ''system.port'' = Some (new_ConfigVar ''s'' ''system.port'' ''8080'' [])"
    "s_datas sample_config ''system.Port'' = Some (new_ConfigVar ''s'' ''system.Port'' ''8080'' [])"
    by (simp_all add: sample_config_def)
  note one = load_applies [OF q, of "''system.port''" "\<lambda>_. Some" "\<lambda>_. []" "Map [(''system'', Map [(''port'', Scalar ''90'')])]" "()",
      THEN conjunct1, unfolded l v]
  note two = load_applies [OF q, of "''system.Port''" "\<lambda>_. Some" "\<lambda>_. []" "Map [(''system'', Map [(''Port'', Scalar ''90'')])]" "()",
      THEN conjunct2, THEN conjunct1, rule_format, OF _ u, unfolded v]
  from one have "\<exists>x. s_datas (fst (LoadFromYaml (\<lambda>_. Some) (\<lambda>_. []) (Map [(''system'', Map [(''port'', Scalar ''90'')])])
      (sample_config, ()))) ''system.port'' = Some x \<and> cv_val x = ''90''"
    by (simp add: values_for_def node_text_def)
  moreover from two have "\<exists>x. s_datas (fst (LoadFromYaml (\<lambda>_. Some) (\<lambda>_. []) (Map [(''system'', Map [(''Port'', Scalar ''90'')])])
      (sample_config, ()))) ''system.Port'' = Some x \<and> cv_val x = ''8080''"
    by (simp add: new_ConfigVar_def)
  ultimately show ?thesis by blast
qed

section \<open>Listeners\<close>

definition listeners_ok :: "u64 \<Rightarrow> ('v, 'e) config_var \<Rightarrow> bool" where
  "listeners_ok fun_id x \<longleftrightarrow> map_ok (<) (cv_cbs x) \<and> (\<forall>i \<in> fst ` set (cv_cbs x). i \<le> fun_id)"

lemma map_put_end: "\<forall>j \<in> fst ` set m. j < (k :: u64) \<Longrightarrow> map_put (<) k v m = m @ [(k, v)]"
  by (induction m) auto

lemma listener_absent: "(k :: u64) \<notin> fst ` set m \<Longrightarrow> map_find (<) k m = None"
  by (induction m) auto

text \<open>
  While fewer than 2 to the 64 listeners have been registered for a type, addListener gives a
  number no listener has, puts the listener behind those there are, so that setValue calls them in
  the order of their registration, and getListener finds it until it is deleted; no operation touches
  another listener.
\<close>

theorem listener_numbers:
  assumes "listeners_ok n x" "unat n + 1 < 2 ^ 64"
  shows "\<exists>i x'. addListener cb n x = (i, i, x') \<and> unat i = unat n + 1 \<and> getListener i x = None \<and>
    listeners_ok i x' \<and> cv_cbs x' = cv_cbs x @ [(i, cb)] \<and>
    (\<forall>j. getListener j x' = (if j = i then Some cb else getListener j x)) \<and>
    (\<forall>k j. listeners_ok i (delListener k x') \<and>
      getListener j (delListener k x') = (if j = k then None else getListener j x'))"
proof -
  have i: "unat (n + 1) = unat n + 1" using assms(2) by (simp add: unat_word_ariths)
  then have "n < n + 1" by (simp add: word_less_nat_alt)
  then have old: "\<forall>j \<in> fst ` set (cv_cbs x). j < n + 1" using assms(1) by (auto simp: listeners_ok_def)
  have m: "map_ok (<) (cv_cbs x)" using assms(1) by (simp add: listeners_ok_def)
  define x' where "x' = x\<lparr>cv_cbs := map_put (<) (n + 1) cb (cv_cbs x)\<rparr>"
  have m': "map_ok (<) (cv_cbs x')" using fid.map_ok_put [OF m] by (simp add: x'_def)
  have "cv_cbs x' = cv_cbs x @ [(n + 1, cb)]" using map_put_end [OF old] by (simp add: x'_def)
  moreover have ids: "\<forall>j \<in> fst ` set (cv_cbs x'). j \<le> n + 1" using calculation old by (auto intro: less_imp_le)
  moreover have "getListener (n + 1) x = None"
    using old listener_absent [of "n + 1" "cv_cbs x"] by (fastforce simp: getListener_def)
  moreover have "getListener j x' = (if j = n + 1 then Some cb else getListener j x)" for j
    using fid.map_find_put [OF m] by (simp add: getListener_def x'_def fid.equiv_eq)
  moreover have "listeners_ok (n + 1) (delListener k x')" for k
    using fid.map_ok_erase [OF m'] ids fid.map_erase_keys [of k "cv_cbs x'"] by (auto simp: listeners_ok_def delListener_def)
  moreover have "getListener j (delListener k x') = (if j = k then None else getListener j x')" for j k
    using fid.map_find_erase [OF m'] by (simp add: getListener_def delListener_def fid.equiv_eq)
  ultimately show ?thesis using i m' by (intro exI [of _ "n + 1"] exI [of _ x']) (simp add: addListener_def x'_def listeners_ok_def Let_def)
qed

theorem listener_numbers_witness:
  "\<exists>x'. addListener (\<lambda>_ _ s. (False, s)) 0 (new_ConfigVar ''s'' ''a'' 8080 [] :: (int, unit) config_var) = (1, 1, x') \<and>
     (\<exists>cb. getListener 1 x' = Some cb) \<and> getListener 1 (delListener 1 x') = None"
proof -
  have ok: "listeners_ok 0 (new_ConfigVar ''s'' ''a'' 8080 [] :: (int, unit) config_var)"
    by (simp add: listeners_ok_def new_ConfigVar_def map_ok_def)
  obtain i x' where x: "addListener (\<lambda>_ _ s. (False, s)) 0 (new_ConfigVar ''s'' ''a'' 8080 [] :: (int, unit) config_var) = (i, i, x')"
    "\<forall>j. getListener j x' =
      (if j = i then Some (\<lambda>_ _ s. (False, s)) else getListener j (new_ConfigVar ''s'' ''a'' 8080 []))"
    "\<forall>k j. getListener j (delListener k x') = (if j = k then None else getListener j x')"
    using listener_numbers [OF ok, of "\<lambda>_ _ s. (False, s)"] by auto
  moreover have "i = 1" using x(1) by (simp add: addListener_def Let_def)
  ultimately show ?thesis by auto
qed

end
