(* ===== verification/Fiber.thy ===== *)
theory Fiber
  imports ExhyPrelude
begin

text \<open>
  Fibers (exhy/exhy_fiber.h, exhy_fiber.cpp): the objects and their states, the thread-local
  pointers, and who runs after each switch. A fiber is named by its address. \<open>swapcontext\<close> is
  modelled by what it is for: the context it saves belongs to the fiber it is called on, and
  the context it restores decides which fiber the thread executes next (\<open>t_running\<close>). getcontext
  and makecontext succeed. What a fiber's callback does between two switches is not part of
  this theory; that it ends, normally or by an exception, is.
\<close>

section \<open>Objects, counters, thread-local pointers\<close>

datatype fiber_state = INIT | HOLD | EXEC | TERM' | READY | EXCEP

record 'c fiber =
  f_id :: u64
  f_stacksize :: u32
  f_state :: fiber_state
  f_stack :: bool
  f_cb :: "'c option"
  f_caller :: bool

text \<open>The objects and the two static counters, shared by all threads.\<close>

record 'c fiber_heap =
  fibers :: "nat \<Rightarrow> 'c fiber option"
  s_fiber_id :: u64
  s_fiber_count :: u64

text \<open>
  Per thread: Fiber's \<open>t_fiber\<close> and \<open>t_threadFiber\<close>, Scheduler's \<open>t_fiber\<close> (\<open>GetMainFiber\<close>), and
  the fiber whose context the thread executes.
\<close>

record thread_locals =
  t_fiber :: "nat option"
  t_threadFiber :: "nat option"
  t_main :: "nat option"
  t_running :: "nat option"

type_synonym 'c fstate = "'c fiber_heap \<times> thread_locals"

section \<open>Creation and destruction\<close>

definition SetThis :: "nat option \<Rightarrow> thread_locals \<Rightarrow> thread_locals" where
  "SetThis f t = t\<lparr>t_fiber := f\<rparr>"

text \<open>The private constructor: the fiber that stands for the thread's own stack.\<close>

definition new_main_fiber :: "nat \<Rightarrow> 'c fstate \<Rightarrow> 'c fstate" where
  "new_main_fiber p = (\<lambda>(h, t).
     (h\<lparr>fibers := (fibers h)(p \<mapsto> \<lparr>f_id = 0, f_stacksize = 0, f_state = EXEC, f_stack = False, f_cb = None, f_caller = False\<rparr>),
        s_fiber_count := s_fiber_count h + 1\<rparr>,
      (SetThis (Some p) t)\<lparr>t_running := Some p\<rparr>))"

text \<open>\<open>dflt\<close> is the configured \<open>fiber.stack\<close>.\<close>

definition new_fiber :: "u32 \<Rightarrow> nat \<Rightarrow> 'c option \<Rightarrow> u64 \<Rightarrow> bool \<Rightarrow> 'c fiber_heap \<Rightarrow> 'c fiber_heap" where
  "new_fiber dflt p cb stack_size use_caller h =
     h\<lparr>s_fiber_id := s_fiber_id h + 1, s_fiber_count := s_fiber_count h + 1,
       fibers := (fibers h)(p \<mapsto> \<lparr>f_id = s_fiber_id h + 1,
         f_stacksize = (if stack_size \<noteq> 0 then ucast stack_size else dflt),
         f_state = INIT, f_stack = True, f_cb = cb, f_caller = use_caller\<rparr>)\<rparr>"

definition delete_fiber :: "nat \<Rightarrow> 'c fstate \<Rightarrow> 'c fstate res" where
  "delete_fiber p = (\<lambda>(h, t).
     case fibers h p of
       None \<Rightarrow> Inl NullDeref
     | Some f \<Rightarrow>
         let h' = h\<lparr>s_fiber_count := s_fiber_count h - 1, fibers := (fibers h)(p := None)\<rparr>
         in if f_stack f then
              (if f_state f = INIT \<or> f_state f = TERM' \<or> f_state f = EXCEP then Inr (h', t) else Inl AssertFailed)
            else if f_cb f \<noteq> None \<or> f_state f \<noteq> EXEC then Inl AssertFailed
            else Inr (h', (if t_fiber t = Some p then SetThis None t else t)))"

text \<open>\<open>p\<close> is the address of the main fiber, should one have to be made.\<close>

definition GetThis :: "nat \<Rightarrow> 'c fstate \<Rightarrow> nat \<times> 'c fstate" where
  "GetThis p = (\<lambda>(h, t).
     case t_fiber t of
       Some f \<Rightarrow> (f, (h, t))
     | None \<Rightarrow> let (h', t') = new_main_fiber p (h, t) in (p, (h', t'\<lparr>t_threadFiber := Some p\<rparr>)))"

definition TotalFibers :: "'c fiber_heap \<Rightarrow> u64" where
  "TotalFibers h = s_fiber_count h"

definition Fiber_GetFiberId :: "'c fstate \<Rightarrow> u64 res" where
  "Fiber_GetFiberId = (\<lambda>(h, t).
     case t_fiber t of
       None \<Rightarrow> Inr 0
     | Some f \<Rightarrow> (case fibers h f of None \<Rightarrow> Inl NullDeref | Some x \<Rightarrow> Inr (f_id x)))"

text \<open>exhy::GetFiberId of exhy_util.cpp, which returns before it asks for the fiber.\<close>

definition GetFiberId :: "'c fstate \<Rightarrow> u32" where
  "GetFiberId s = 0"

section \<open>Switches\<close>

definition set_state :: "nat \<Rightarrow> fiber_state \<Rightarrow> 'c fiber_heap \<Rightarrow> 'c fiber_heap" where
  "set_state p st h =
     (case fibers h p of
        None \<Rightarrow> h
      | Some f \<Rightarrow> h\<lparr>fibers := (fibers h)(p \<mapsto> f\<lparr>f_state := st\<rparr>)\<rparr>)"

definition state_of :: "'c fiber_heap \<Rightarrow> nat \<Rightarrow> fiber_state option" where
  "state_of h p = map_option f_state (fibers h p)"

definition swapIn :: "nat \<Rightarrow> 'c fstate \<Rightarrow> 'c fstate res" where
  "swapIn p = (\<lambda>(h, t).
     case state_of h p of
       None \<Rightarrow> Inl NullDeref
     | Some st \<Rightarrow>
         let t1 = SetThis (Some p) t
         in if st = EXEC then Inl AssertFailed
            else if t_main t1 = None then Inl NullDeref
            else Inr (set_state p EXEC h, t1\<lparr>t_running := Some p\<rparr>))"

definition swapOut :: "nat \<Rightarrow> 'c fstate \<Rightarrow> 'c fstate res" where
  "swapOut p = (\<lambda>(h, t).
     let t1 = SetThis (t_main t) t
     in case t_main t1 of None \<Rightarrow> Inl NullDeref | Some m \<Rightarrow> Inr (h, t1\<lparr>t_running := Some m\<rparr>))"

definition fiber_call :: "nat \<Rightarrow> 'c fstate \<Rightarrow> 'c fstate res" where
  "fiber_call p = (\<lambda>(h, t).
     let t1 = SetThis (Some p) t; h1 = set_state p EXEC h
     in if t_threadFiber t1 = None then Inl NullDeref else Inr (h1, t1\<lparr>t_running := Some p\<rparr>))"

definition fiber_back :: "nat \<Rightarrow> 'c fstate \<Rightarrow> 'c fstate res" where
  "fiber_back p = (\<lambda>(h, t).
     let t1 = SetThis (t_threadFiber t) t
     in case t_threadFiber t1 of None \<Rightarrow> Inl NullDeref | Some m \<Rightarrow> Inr (h, t1\<lparr>t_running := Some m\<rparr>))"

text \<open>\<open>p\<close> is the address GetThis uses should there be no fiber yet.\<close>

definition YieldToReady :: "nat \<Rightarrow> 'c fstate \<Rightarrow> 'c fstate res" where
  "YieldToReady p s =
     (let (cur, (h, t)) = GetThis p s in swapOut cur (set_state cur READY h, t))"

definition YieldToHold :: "nat \<Rightarrow> 'c fstate \<Rightarrow> 'c fstate res" where
  "YieldToHold p s =
     (let (cur, (h, t)) = GetThis p s
      in if state_of h cur \<noteq> Some EXEC then Inl AssertFailed else swapOut cur (h, t))"

text \<open>
  MainFunc and CallerMainFunc from the call of the callback on. \<open>threw\<close>: the callback ended with
  an exception; calling an empty one throws as well. Afterwards the fiber gives control back
  and is not to be resumed.
\<close>

definition end_body :: "bool \<Rightarrow> 'c fiber \<Rightarrow> 'c fiber" where
  "end_body threw f =
     (if threw \<or> f_cb f = None then f\<lparr>f_state := EXCEP\<rparr> else f\<lparr>f_cb := None, f_state := TERM'\<rparr>)"

definition MainFunc :: "bool \<Rightarrow> nat \<Rightarrow> 'c fstate \<Rightarrow> 'c fstate res" where
  "MainFunc threw p s =
     (let (cur, (h, t)) = GetThis p s
      in case fibers h cur of
           None \<Rightarrow> Inl NullDeref
         | Some f \<Rightarrow> swapOut cur (h\<lparr>fibers := (fibers h)(cur \<mapsto> end_body threw f)\<rparr>, t))"

definition CallerMainFunc :: "bool \<Rightarrow> nat \<Rightarrow> 'c fstate \<Rightarrow> 'c fstate res" where
  "CallerMainFunc threw p s =
     (let (cur, (h, t)) = GetThis p s
      in case fibers h cur of
           None \<Rightarrow> Inl NullDeref
         | Some f \<Rightarrow> fiber_back cur (h\<lparr>fibers := (fibers h)(cur \<mapsto> end_body threw f)\<rparr>, t))"

text \<open>\<open>Fiber::reset\<close>: the stack is used again, always with MainFunc as the entry.\<close>

definition reset_fiber :: "nat \<Rightarrow> 'c option \<Rightarrow> 'c fiber_heap \<Rightarrow> 'c fiber_heap res" where
  "reset_fiber p cb h =
     (case fibers h p of
        None \<Rightarrow> Inl NullDeref
      | Some f \<Rightarrow>
          if \<not> f_stack f \<or> \<not> (f_state f = TERM' \<or> f_state f = INIT \<or> f_state f = EXCEP) then Inl AssertFailed
          else Inr (h\<lparr>fibers := (fibers h)(p \<mapsto> f\<lparr>f_cb := cb, f_caller := False, f_state := INIT\<rparr>)\<rparr>))"

section \<open>Switching there and back\<close>

text \<open>How a fiber can give control back to the fiber that resumed it with swapIn.\<close>

datatype outcome = YieldsReady | YieldsHold | Returns | Throws

definition give_back :: "outcome \<Rightarrow> nat \<Rightarrow> 'c fstate \<Rightarrow> 'c fstate res" where
  "give_back out p s =
     (case out of
        YieldsReady \<Rightarrow> YieldToReady p s
      | YieldsHold \<Rightarrow> YieldToHold p s
      | Returns \<Rightarrow> MainFunc False p s
      | Throws \<Rightarrow> MainFunc True p s)"

text \<open>The state a fiber is left in; YieldToHold leaves EXEC to the scheduler.\<close>

fun left_as :: "outcome \<Rightarrow> 'c fiber \<Rightarrow> 'c fiber" where
  "left_as YieldsReady f = f\<lparr>f_state := READY\<rparr>"
| "left_as YieldsHold f = f\<lparr>f_state := EXEC\<rparr>"
| "left_as Returns f = end_body False f"
| "left_as Throws f = end_body True f"

lemma set_state_fibers: "fibers h p = Some f \<Longrightarrow> fibers (set_state p st h) = (fibers h)(p \<mapsto> f\<lparr>f_state := st\<rparr>)"
  by (simp add: set_state_def)

lemma state_of_set_state: "fibers h p \<noteq> None \<Longrightarrow> state_of (set_state p st h) p = Some st"
  by (auto simp: set_state_def state_of_def)

lemma end_body_EXEC [simp]: "end_body threw (f\<lparr>f_state := st\<rparr>) = end_body threw f"
  by (cases f) (simp add: end_body_def)


text \<open>A heap with the thread's own fiber at 1 and a fresh fiber at 2.\<close>

definition two_fibers :: "unit fstate" where
  "two_fibers =
     (let (h, t) = snd (GetThis 1 (\<lparr>fibers = Map.empty, s_fiber_id = 0, s_fiber_count = 0\<rparr>,
            \<lparr>t_fiber = None, t_threadFiber = None, t_main = None, t_running = None\<rparr>))
      in (new_fiber 1048576 2 (Some ()) 0 False h, t\<lparr>t_main := Some 1\<rparr>))"


end
