(* ===== verification/Scheduler.thy ===== *)
theory Scheduler
  imports Fiber
begin

text \<open>
  The N:M fiber scheduler (exhy/exhy_scheduler.h, exhy_scheduler.cpp): a queue of tasks, each a
  fiber or a callback, perhaps bound to a thread, and the loop \<open>run\<close> that every worker thread
  executes. One round of the loop is cut where other threads can come in between: the scan of
  the queue under the lock, the start of the picked task, the moment the resumed fiber gives
  control back, and what \<open>run\<close> does then. The counters are plain size_t that several threads
  update; the model gives them the atomic updates the code wants.
\<close>

section \<open>Tasks and the queue\<close>

record 'c task =
  ft_fiber :: "nat option"
  ft_cb :: "'c option"
  ft_thread :: int

record 'c scheduler =
  sc_heap :: "'c fiber_heap"
  m_fibers :: "'c task list"
  m_threads :: nat
  m_threadCount :: nat
  m_activeThreadCount :: nat
  m_idleThreadCount :: nat
  m_stopping :: bool
  m_autoStop :: bool
  m_rootThread :: int
  m_rootFiber :: "nat option"

definition reset_task :: "'c task" where
  "reset_task = \<lparr>ft_fiber = None, ft_cb = None, ft_thread = -1\<rparr>"

text \<open>scheduleNolock: the new state, and whether a worker has to be woken.\<close>

definition scheduleNolock :: "'c task \<Rightarrow> 'c scheduler \<Rightarrow> 'c scheduler \<times> bool" where
  "scheduleNolock ft s =
     (let need_tickle = (m_fibers s = [])
      in (if ft_cb ft \<noteq> None \<or> ft_fiber ft \<noteq> None then s\<lparr>m_fibers := m_fibers s @ [ft]\<rparr> else s, need_tickle))"

definition schedule_fiber :: "nat option \<Rightarrow> int \<Rightarrow> 'c scheduler \<Rightarrow> 'c scheduler \<times> bool" where
  "schedule_fiber f thread s = scheduleNolock \<lparr>ft_fiber = f, ft_cb = None, ft_thread = thread\<rparr> s"

definition schedule_cb :: "'c option \<Rightarrow> int \<Rightarrow> 'c scheduler \<Rightarrow> 'c scheduler \<times> bool" where
  "schedule_cb cb thread s = scheduleNolock \<lparr>ft_fiber = None, ft_cb = cb, ft_thread = thread\<rparr> s"

fun schedule_all :: "'c option list \<Rightarrow> 'c scheduler \<Rightarrow> 'c scheduler \<times> bool" where
  "schedule_all [] s = (s, False)"
| "schedule_all (cb # cbs) s =
     (let (s1, t1) = schedule_cb cb (- 1) s; (s2, t2) = schedule_all cbs s1 in (s2, t1 \<or> t2))"

text \<open>
  The scan of \<open>run\<close>: the task taken, if any, the tasks that stay, and \<open>tickle_me\<close>. \<open>st\<close> is the
  state of a fiber and \<open>tid\<close> the thread that scans.
\<close>

fun scan :: "(nat \<Rightarrow> fiber_state option) \<Rightarrow> int \<Rightarrow> 'c task list \<Rightarrow> ('c task option \<times> 'c task list \<times> bool) res" where
  "scan st tid [] = Inr (None, [], False)"
| "scan st tid (x # xs) =
     (if ft_thread x \<noteq> -1 \<and> ft_thread x \<noteq> tid then
        sbind (scan st tid xs) (\<lambda>(t, ys, _). Inr (t, x # ys, True))
      else if ft_cb x = None \<and> ft_fiber x = None then Inl AssertFailed
      else if (case ft_fiber x of None \<Rightarrow> False | Some f \<Rightarrow> st f = Some EXEC) then
        sbind (scan st tid xs) (\<lambda>(t, ys, b). Inr (t, x # ys, b))
      else Inr (Some x, xs, xs \<noteq> []))"

definition sched_stopping :: "'c scheduler \<Rightarrow> bool" where
  "sched_stopping s \<longleftrightarrow> m_autoStop s \<and> m_stopping s \<and> m_fibers s = [] \<and> m_activeThreadCount s = 0"

definition hasIdleThread :: "'c scheduler \<Rightarrow> bool" where
  "hasIdleThread s \<longleftrightarrow> 0 < m_idleThreadCount s"

text \<open>One turn of the base class's \<open>idle\<close>: it yields to HOLD until the scheduler may stop.\<close>

definition idle_turn :: "'c scheduler \<Rightarrow> outcome" where
  "idle_turn s = (if sched_stopping s then Returns else YieldsHold)"

section \<open>Construction, start, stop\<close>

text \<open>
  The constructor on thread \<open>tid\<close>. \<open>cur\<close>: a scheduler is already current on it; \<open>p\<close> and \<open>r\<close> are
  addresses for the thread's main fiber, should it have none, and the root fiber; \<open>runf\<close> is the
  bound \<open>Scheduler::run\<close>.
\<close>

definition new_Scheduler ::
  "u32 \<Rightarrow> nat \<Rightarrow> nat \<Rightarrow> 'c \<Rightarrow> nat \<Rightarrow> bool \<Rightarrow> int \<Rightarrow> bool \<Rightarrow> 'c fstate \<Rightarrow> ('c scheduler \<times> thread_locals) res" where
  "new_Scheduler dflt p r runf threads use_caller tid cur s =
     (if threads = 0 then Inl AssertFailed
      else if use_caller then
        let (h, t) = snd (GetThis p s)
        in if cur then Inl AssertFailed
           else Inr (\<lparr>sc_heap = new_fiber dflt r (Some runf) 0 True h, m_fibers = [], m_threads = 0,
                      m_threadCount = threads - 1, m_activeThreadCount = 0, m_idleThreadCount = 0,
                      m_stopping = True, m_autoStop = False, m_rootThread = tid, m_rootFiber = Some r\<rparr>,
                     t\<lparr>t_main := Some r\<rparr>)
      else Inr (\<lparr>sc_heap = fst s, m_fibers = [], m_threads = 0,
                 m_threadCount = threads, m_activeThreadCount = 0, m_idleThreadCount = 0,
                 m_stopping = True, m_autoStop = False, m_rootThread = -1, m_rootFiber = None\<rparr>, snd s))"

definition delete_Scheduler :: "'c scheduler \<Rightarrow> unit res" where
  "delete_Scheduler s = (if m_stopping s then Inr () else Inl AssertFailed)"

definition start :: "'c scheduler \<Rightarrow> 'c scheduler res" where
  "start s =
     (if \<not> m_stopping s then Inr s
      else if m_threads s \<noteq> 0 then Inl AssertFailed
      else Inr (s\<lparr>m_stopping := False, m_threads := m_threadCount s\<rparr>))"

text \<open>
  \<open>stop\<close>, on a thread whose current scheduler is this one (\<open>cur\<close>) or not: the new state, the
  number of \<open>tickle\<close>s, and whether the root fiber is then called. \<open>may_stop\<close> is the virtual
  \<open>stopping\<close>.
\<close>

definition stop :: "('c scheduler \<Rightarrow> bool) \<Rightarrow> bool \<Rightarrow> 'c scheduler \<Rightarrow> ('c scheduler \<times> nat \<times> bool) res" where
  "stop may_stop cur s =
     (let s1 = s\<lparr>m_autoStop := True\<rparr>;
          root_idle = (case m_rootFiber s1 of
                         None \<Rightarrow> False
                       | Some r \<Rightarrow> m_threadCount s1 = 0 \<and>
                           (state_of (sc_heap s1) r = Some TERM' \<or> state_of (sc_heap s1) r = Some INIT));
          s2 = (if root_idle then s1\<lparr>m_stopping := True\<rparr> else s1)
      in if root_idle \<and> may_stop s2 then Inr (s2, 0, False)
         else if (m_rootThread s2 \<noteq> -1) \<noteq> cur then Inl AssertFailed
         else let s3 = s2\<lparr>m_stopping := True\<rparr>;
                  tickles = m_threadCount s3 + (if m_rootFiber s3 \<noteq> None then 1 else 0)
              in Inr (s3, tickles, m_rootFiber s3 \<noteq> None \<and> \<not> may_stop s3))"

section \<open>The loop run\<close>

text \<open>What a worker is doing: which fiber it resumes, and on whose behalf.\<close>

datatype kind = KFiber nat | KCb nat | KIdle nat

datatype 'c phase =
    AtTop
  | Picked "'c task option"
  | Running kind
  | Returned kind
  | Finished

record 'c worker =
  w_tid :: int
  w_locals :: thread_locals
  w_cb_fiber :: "nat option"
  w_idle_fiber :: nat
  w_phase :: "'c phase"

text \<open>
  The head of \<open>run\<close> on thread \<open>tid\<close>: the main fiber of a pool thread becomes its scheduling
  fiber, and the idle fiber is made at address \<open>q\<close>.
\<close>

definition run_begin ::
  "u32 \<Rightarrow> nat \<Rightarrow> nat \<Rightarrow> 'c \<Rightarrow> int \<Rightarrow> thread_locals \<Rightarrow> 'c scheduler \<Rightarrow> 'c worker \<times> 'c scheduler" where
  "run_begin dflt p q idlef tid t s =
     (let (h1, t1) = (if tid \<noteq> m_rootThread s
                      then (let (f, (h, t')) = GetThis p (sc_heap s, t) in (h, t'\<lparr>t_main := Some f\<rparr>))
                      else (sc_heap s, t))
      in (\<lparr>w_tid = tid, w_locals = t1, w_cb_fiber = None, w_idle_fiber = q, w_phase = AtTop\<rparr>,
          s\<lparr>sc_heap := new_fiber dflt q (Some idlef) 0 False h1\<rparr>))"

text \<open>The critical section at the top of the loop, and whether \<open>tickle\<close> is called after it.\<close>

definition run_pick :: "'c worker \<Rightarrow> 'c scheduler \<Rightarrow> ('c worker \<times> 'c scheduler \<times> bool) res" where
  "run_pick w s =
     sbind (scan (state_of (sc_heap s)) (w_tid w) (m_fibers s))
       (\<lambda>(t, rest, tickle_me).
          let s1 = (if t = None then s
                    else s\<lparr>m_fibers := rest, m_activeThreadCount := m_activeThreadCount s + 1\<rparr>)
          in Inr (w\<lparr>w_phase := Picked t\<rparr>, s1, tickle_me))"

definition resume :: "kind \<Rightarrow> nat \<Rightarrow> 'c worker \<Rightarrow> 'c scheduler \<Rightarrow> ('c worker \<times> 'c scheduler) res" where
  "resume k p w s =
     sbind (swapIn p (sc_heap s, w_locals w))
       (\<lambda>(h, t). Inr (w\<lparr>w_locals := t, w_phase := Running k\<rparr>, s\<lparr>sc_heap := h\<rparr>))"

text \<open>
  From the critical section to \<open>swapIn\<close>. A picked fiber that has already ended is dropped, and
  the loop goes on. \<open>a\<close> is the address for a new callback fiber.
\<close>

definition run_start :: "u32 \<Rightarrow> nat \<Rightarrow> 'c worker \<Rightarrow> 'c scheduler \<Rightarrow> ('c worker \<times> 'c scheduler) res" where
  "run_start dflt a w s =
     (case w_phase w of
        Picked t \<Rightarrow>
          (let ft = (case t of None \<Rightarrow> reset_task | Some x \<Rightarrow> x)
           in case ft_fiber ft of
                Some f \<Rightarrow>
                  (case state_of (sc_heap s) f of
                     None \<Rightarrow> Inl NullDeref
                   | Some st \<Rightarrow>
                       if st \<noteq> TERM' \<and> st \<noteq> EXCEP then resume (KFiber f) f w s
                       else Inr (w\<lparr>w_phase := AtTop\<rparr>, s))
              | None \<Rightarrow>
                  (case ft_cb ft of
                     Some cb \<Rightarrow>
                       (case w_cb_fiber w of
                          Some c \<Rightarrow>
                            sbind (reset_fiber c (Some cb) (sc_heap s))
                              (\<lambda>h. resume (KCb c) c w (s\<lparr>sc_heap := h\<rparr>))
                        | None \<Rightarrow>
                            resume (KCb a) a (w\<lparr>w_cb_fiber := Some a\<rparr>)
                              (s\<lparr>sc_heap := new_fiber dflt a (Some cb) 0 False (sc_heap s)\<rparr>))
                   | None \<Rightarrow>
                       if t \<noteq> None then
                         Inr (w\<lparr>w_phase := AtTop\<rparr>, s\<lparr>m_activeThreadCount := m_activeThreadCount s - 1\<rparr>)
                       else if state_of (sc_heap s) (w_idle_fiber w) = Some TERM' then
                         Inr (w\<lparr>w_phase := Finished\<rparr>, s)
                       else resume (KIdle (w_idle_fiber w)) (w_idle_fiber w) w
                              (s\<lparr>m_idleThreadCount := m_idleThreadCount s + 1\<rparr>)))
      | _ \<Rightarrow> Inl LogicError)"

text \<open>The resumed fiber gives control back. Not a step of \<open>run\<close>; the fiber decides how.\<close>

definition run_return :: "outcome \<Rightarrow> 'c worker \<Rightarrow> 'c scheduler \<Rightarrow> ('c worker \<times> 'c scheduler) res" where
  "run_return out w s =
     (case w_phase w of
        Running k \<Rightarrow>
          sbind (give_back out 0 (sc_heap s, w_locals w))
            (\<lambda>(h, t). Inr (w\<lparr>w_locals := t, w_phase := Returned k\<rparr>, s\<lparr>sc_heap := h\<rparr>))
      | _ \<Rightarrow> Inl LogicError)"

text \<open>After \<open>swapIn\<close>: the new state, and whether the \<open>schedule\<close> in it tickles.\<close>

definition run_after :: "'c worker \<Rightarrow> 'c scheduler \<Rightarrow> ('c worker \<times> 'c scheduler \<times> bool) res" where
  "run_after w s =
     (case w_phase w of
        Returned (KFiber f) \<Rightarrow>
          (let s1 = s\<lparr>m_activeThreadCount := m_activeThreadCount s - 1\<rparr>; w1 = w\<lparr>w_phase := AtTop\<rparr>
           in case state_of (sc_heap s1) f of
                None \<Rightarrow> Inl NullDeref
              | Some st \<Rightarrow>
                  if st = READY then (let (s2, b) = schedule_fiber (Some f) (- 1) s1 in Inr (w1, s2, b))
                  else if st \<noteq> TERM' \<and> st \<noteq> EXCEP then
                    Inr (w1, s1\<lparr>sc_heap := set_state f HOLD (sc_heap s1)\<rparr>, False)
                  else Inr (w1, s1, False))
      | Returned (KCb c) \<Rightarrow>
          (let s1 = s\<lparr>m_activeThreadCount := m_activeThreadCount s - 1\<rparr>; w1 = w\<lparr>w_phase := AtTop\<rparr>
           in case state_of (sc_heap s1) c of
                None \<Rightarrow> Inl NullDeref
              | Some st \<Rightarrow>
                  if st = READY then
                    (let (s2, b) = schedule_fiber (Some c) (- 1) s1 in Inr (w1\<lparr>w_cb_fiber := None\<rparr>, s2, b))
                  else if st = TERM' \<or> st = EXCEP then
                    sbind (reset_fiber c None (sc_heap s1)) (\<lambda>h. Inr (w1, s1\<lparr>sc_heap := h\<rparr>, False))
                  else Inr (w1\<lparr>w_cb_fiber := None\<rparr>, s1\<lparr>sc_heap := set_state c HOLD (sc_heap s1)\<rparr>, False))
      | Returned (KIdle i) \<Rightarrow>
          (let s1 = s\<lparr>m_idleThreadCount := m_idleThreadCount s - 1\<rparr>; w1 = w\<lparr>w_phase := AtTop\<rparr>
           in case state_of (sc_heap s1) i of
                None \<Rightarrow> Inl NullDeref
              | Some st \<Rightarrow>
                  if st \<noteq> TERM' \<and> st \<noteq> EXCEP then
                    Inr (w1, s1\<lparr>sc_heap := set_state i HOLD (sc_heap s1)\<rparr>, False)
                  else Inr (w1, s1, False))
      | _ \<Rightarrow> Inl LogicError)"

section \<open>The scan\<close>

definition runnable :: "(nat \<Rightarrow> fiber_state option) \<Rightarrow> int \<Rightarrow> 'c task \<Rightarrow> bool" where
  "runnable st tid x \<longleftrightarrow>
     (ft_thread x = -1 \<or> ft_thread x = tid) \<and> (\<forall>f. ft_fiber x = Some f \<longrightarrow> st f \<noteq> Some EXEC)"

definition task_ok :: "'c task \<Rightarrow> bool" where
  "task_ok x \<longleftrightarrow> ft_cb x \<noteq> None \<or> ft_fiber x \<noteq> None"

text \<open>
  The scan takes the first task that the thread may run, where a task is runnable when
  it is not bound to another thread and its fiber is not executing; it keeps all others in
  their order, and takes none exactly when none is runnable.
\<close>

theorem scan_takes_first:
  assumes "list_all task_ok fs"
  shows "if \<exists>x \<in> set fs. runnable st tid x
    then \<exists>xs x ys b. fs = xs @ x # ys \<and> runnable st tid x \<and> (\<forall>y \<in> set xs. \<not> runnable st tid y) \<and>
           scan st tid fs = Inr (Some x, xs @ ys, b)
    else \<exists>b. scan st tid fs = Inr (None, fs, b)"
  using assms
proof (induction fs)
  case (Cons y fs)
  show ?case
  proof (cases "runnable st tid y")
    case True
    then have "scan st tid (y # fs) = Inr (Some y, [] @ fs, fs \<noteq> [])"
      using Cons.prems by (auto simp: runnable_def task_ok_def split: option.splits)
    then show ?thesis using True by fastforce
  next
    case False
    have step: "scan st tid (y # fs) = sbind (scan st tid fs)
        (\<lambda>(t, ys, b). Inr (t, y # ys, if ft_thread y \<noteq> -1 \<and> ft_thread y \<noteq> tid then True else b))"
      using False Cons.prems by (auto simp: runnable_def task_ok_def split: option.splits)
    show ?thesis
    proof (cases "\<exists>x \<in> set fs. runnable st tid x")
      case True
      then obtain xs x ys b where "fs = xs @ x # ys" "runnable st tid x" "\<forall>z \<in> set xs. \<not> runnable st tid z"
          "scan st tid fs = Inr (Some x, xs @ ys, b)"
        using Cons by auto
      then have "y # fs = (y # xs) @ x # ys \<and> runnable st tid x \<and> (\<forall>z \<in> set (y # xs). \<not> runnable st tid z) \<and>
          (\<exists>b. scan st tid (y # fs) = Inr (Some x, (y # xs) @ ys, b))"
        using False step by simp
      then show ?thesis using True by (metis list.set_intros(2))
    next
      case none: False
      then show ?thesis using Cons False step by auto
    qed
  qed
qed auto

theorem scan_takes_first_witness:
  "\<exists>b. scan (\<lambda>f. if f = 7 then Some EXEC else Some HOLD) 5
     [\<lparr>ft_fiber = Some 7, ft_cb = None, ft_thread = -1\<rparr>, \<lparr>ft_fiber = None, ft_cb = Some (), ft_thread = 4\<rparr>,
      \<lparr>ft_fiber = Some 8, ft_cb = None, ft_thread = 5\<rparr>] =
     Inr (Some \<lparr>ft_fiber = Some 8, ft_cb = None, ft_thread = 5\<rparr>,
       [\<lparr>ft_fiber = Some 7, ft_cb = None, ft_thread = -1\<rparr>, \<lparr>ft_fiber = None, ft_cb = Some (), ft_thread = 4\<rparr>], b)"
  using scan_takes_first [of "[\<lparr>ft_fiber = Some 7, ft_cb = None, ft_thread = -1\<rparr>,
      \<lparr>ft_fiber = None, ft_cb = Some (), ft_thread = 4\<rparr>, \<lparr>ft_fiber = Some 8, ft_cb = None, ft_thread = 5\<rparr>]"
      "\<lambda>f. if f = 7 then Some EXEC else Some HOLD" 5]
  by (auto simp: task_ok_def runnable_def Cons_eq_append_conv split: if_splits)

lemma scan_rest:
  "scan st tid fs = Inr (t, rest, b) \<Longrightarrow> set rest \<subseteq> set fs \<and> (\<forall>x. t = Some x \<longrightarrow> x \<in> set fs) \<and> (t = None \<longrightarrow> rest = fs)"
proof (induction fs arbitrary: t rest b)
  case (Cons y fs)
  then show ?case by (fastforce split: if_splits elim!: sbind_eq_InrE)
qed simp

section \<open>All workers together\<close>

type_synonym 'c sys = "'c scheduler \<times> 'c worker list"

fun busy_phase :: "'c phase \<Rightarrow> bool" where
  "busy_phase (Picked t) = (t \<noteq> None)"
| "busy_phase (Running (KFiber f)) = True"
| "busy_phase (Running (KCb c)) = True"
| "busy_phase (Returned (KFiber f)) = True"
| "busy_phase (Returned (KCb c)) = True"
| "busy_phase _ = False"

definition busy :: "'c worker list \<Rightarrow> nat" where
  "busy ws = length (filter (\<lambda>w. busy_phase (w_phase w)) ws)"

text \<open>Any worker makes a step of its loop, or anybody schedules a task, starts or stops.\<close>

inductive sys_step :: "'c sys \<Rightarrow> 'c sys \<Rightarrow> bool" where
  sys_schedule: "sys_step (s, ws) (fst (scheduleNolock ft s), ws)"
| sys_pick: "i < length ws \<Longrightarrow> w_phase (ws ! i) = AtTop \<Longrightarrow> run_pick (ws ! i) s = Inr (w, s', b) \<Longrightarrow>
    sys_step (s, ws) (s', ws[i := w])"
| sys_begin: "i < length ws \<Longrightarrow> fibers (sc_heap s) a = None \<Longrightarrow> run_start dflt a (ws ! i) s = Inr (w, s') \<Longrightarrow>
    sys_step (s, ws) (s', ws[i := w])"
| sys_return: "i < length ws \<Longrightarrow> run_return out (ws ! i) s = Inr (w, s') \<Longrightarrow> sys_step (s, ws) (s', ws[i := w])"
| sys_after: "i < length ws \<Longrightarrow> run_after (ws ! i) s = Inr (w, s', b) \<Longrightarrow> sys_step (s, ws) (s', ws[i := w])"
| sys_start: "start s = Inr s' \<Longrightarrow> sys_step (s, ws) (s', ws)"
| sys_stop: "stop may_stop cur s = Inr (s', n, c) \<Longrightarrow> sys_step (s, ws) (s', ws)"

definition sys_init :: "'c sys \<Rightarrow> bool" where
  "sys_init = (\<lambda>(s, ws). m_activeThreadCount s = 0 \<and> m_fibers s = [] \<and> list_all (\<lambda>w. w_phase w = AtTop) ws)"

definition sys_reachable :: "'c sys \<Rightarrow> bool" where
  "sys_reachable y \<longleftrightarrow> (\<exists>x. sys_init x \<and> sys_step\<^sup>*\<^sup>* x y)"

definition sys_ok :: "nat \<Rightarrow> 'c sys \<Rightarrow> bool" where
  "sys_ok n = (\<lambda>(s, ws). busy ws + n \<le> m_activeThreadCount s \<and> list_all task_ok (m_fibers s))"

lemma busy_update:
  "i < length ws \<Longrightarrow> busy (ws[i := w]) + (if busy_phase (w_phase (ws ! i)) then 1 else 0) =
    busy ws + (if busy_phase (w_phase w) then 1 else 0)"
  unfolding busy_def using length_filter_update [of i ws "\<lambda>w. busy_phase (w_phase w)" w] by simp

text \<open>What each step does to the count of active threads, the queue and the phase.\<close>

lemma schedule_effect:
  "m_activeThreadCount (fst (scheduleNolock ft s)) = m_activeThreadCount s"
  "list_all task_ok (m_fibers s) \<Longrightarrow> list_all task_ok (m_fibers (fst (scheduleNolock ft s)))"
  by (simp_all add: scheduleNolock_def Let_def task_ok_def)

lemma pick_effect:
  assumes "run_pick w s = Inr (w', s', b)"
  obtains t where "w_phase w' = Picked t" "set (m_fibers s') \<subseteq> set (m_fibers s)"
    "m_activeThreadCount s' = m_activeThreadCount s + (if t = None then 0 else 1)"
  using assms by (auto simp: run_pick_def Let_def elim!: sbind_eq_InrE dest!: scan_rest)

lemma resume_effect:
  assumes "resume k p w s = Inr (w', s')"
  shows "w_phase w' = Running k \<and> m_fibers s' = m_fibers s \<and> m_activeThreadCount s' = m_activeThreadCount s"
  using assms by (auto simp: resume_def elim!: sbind_eq_InrE)

lemma start_effect:
  assumes "run_start dflt a w s = Inr (w', s')"
  shows "m_fibers s' = m_fibers s \<and>
    (m_activeThreadCount s' = m_activeThreadCount s \<and> (busy_phase (w_phase w') \<longrightarrow> busy_phase (w_phase w)) \<or>
     m_activeThreadCount s' = m_activeThreadCount s - 1 \<and> busy_phase (w_phase w) \<and> \<not> busy_phase (w_phase w'))"
  using assms
  by (auto simp: run_start_def Let_def reset_task_def elim!: sbind_eq_InrE
      split: phase.splits option.splits if_splits dest!: resume_effect)

lemma busy_Returned [simp]: "busy_phase (Returned k :: 'c phase) = busy_phase (Running k :: 'c phase)"
  by (cases k) simp_all

lemma return_effect:
  assumes "run_return out w s = Inr (w', s')"
  shows "m_fibers s' = m_fibers s" "m_activeThreadCount s' = m_activeThreadCount s"
    "busy_phase (w_phase w') = busy_phase (w_phase w)"
  using assms by (auto simp: run_return_def elim!: sbind_eq_InrE split: phase.splits kind.splits)

lemma after_effect:
  assumes "run_after w s = Inr (w', s', b)" "list_all task_ok (m_fibers s)"
  shows "list_all task_ok (m_fibers s') \<and> \<not> busy_phase (w_phase w') \<and>
    m_activeThreadCount s' = m_activeThreadCount s - (if busy_phase (w_phase w) then 1 else 0)"
  using assms
  by (auto simp: run_after_def Let_def schedule_fiber_def scheduleNolock_def task_ok_def elim!: sbind_eq_InrE
      split: phase.splits kind.splits option.splits if_splits)

lemma busy_pos: "i < length ws \<Longrightarrow> busy_phase (w_phase (ws ! i)) \<Longrightarrow> 0 < busy ws"
  unfolding busy_def by (metis (mono_tags, lifting) filter_empty_conv length_greater_0_conv nth_mem)

lemma sys_ok_step:
  assumes "sys_step x y" "sys_ok n x"
  shows "sys_ok n y"
  using assms
proof (induction rule: sys_step.induct)
  case (sys_schedule s ws ft)
  then show ?case by (simp add: sys_ok_def schedule_effect)
next
  case (sys_pick i ws s w s' b)
  then show ?case
    using busy_update [OF sys_pick(1), of w]
    by (auto simp: sys_ok_def list_all_iff elim!: pick_effect split: if_splits)
next
  case (sys_begin i ws s a dflt w s')
  then show ?case
    using busy_update [OF sys_begin(1), of w] start_effect [OF sys_begin(3)] busy_pos [OF sys_begin(1)]
    by (auto simp: sys_ok_def split: if_splits)
next
  case (sys_return i ws out s w s')
  then show ?case
    using busy_update [OF sys_return(1), of w] return_effect [OF sys_return(2)]
    by (auto simp: sys_ok_def split: if_splits)
next
  case (sys_after i ws s w s' b)
  then show ?case
    using busy_update [OF sys_after(1), of w] after_effect [OF sys_after(2)] busy_pos [OF sys_after(1)]
    by (auto simp: sys_ok_def split: if_splits)
next
  case (sys_start s s' ws)
  then show ?case by (auto simp: sys_ok_def start_def split: if_splits)
next
  case (sys_stop may_stop cur s s' n' c ws)
  then show ?case by (auto simp: sys_ok_def stop_def Let_def split: if_splits)
qed

lemma sys_ok_steps: "sys_step\<^sup>*\<^sup>* x y \<Longrightarrow> sys_ok n x \<Longrightarrow> sys_ok n y"
  by (induction rule: rtranclp_induct) (auto simp: sys_ok_step)

lemma sys_reachable_step: "sys_reachable x \<Longrightarrow> sys_step x y \<Longrightarrow> sys_reachable y"
  unfolding sys_reachable_def by (meson rtranclp.rtrancl_into_rtrancl)

lemma sys_reachable_ok: "sys_reachable x \<Longrightarrow> sys_ok 0 x"
  unfolding sys_reachable_def
proof (elim exE conjE)
  fix x0 assume "sys_init x0" "sys_step\<^sup>*\<^sup>* x0 x"
  moreover have "sys_ok 0 x0"
    using calculation(1) by (auto simp: sys_init_def sys_ok_def busy_def list_all_iff)
  ultimately show "sys_ok 0 x" using sys_ok_steps by blast
qed


text \<open>
  The scan never meets an empty task, so its assertion holds in every reachable state.
\<close>

theorem pick_never_fails:
  assumes "sys_reachable (s, ws)" "w \<in> set ws"
  shows "\<exists>w' s' b. run_pick w s = Inr (w', s', b)"
proof -
  have "\<exists>r. scan st tid fs = Inr r" if "list_all task_ok fs" for st tid and fs :: "'a task list"
    using that by (induction fs) (auto simp: task_ok_def split: option.splits)
  then obtain r where "scan (state_of (sc_heap s)) (w_tid w) (m_fibers s) = Inr r"
    using sys_reachable_ok [OF assms(1)] by (fastforce simp: sys_ok_def)
  then show ?thesis by (cases r) (simp add: run_pick_def Let_def)
qed

text \<open>A scheduler with two workers and one fiber, at address 3, in state \<open>st\<close>.\<close>

definition lone_fiber :: "fiber_state \<Rightarrow> unit scheduler" where
  "lone_fiber st =
     \<lparr>sc_heap = \<lparr>fibers = [3 \<mapsto> \<lparr>f_id = 1, f_stacksize = 8, f_state = st, f_stack = True, f_cb = None, f_caller = False\<rparr>],
                 s_fiber_id = 1, s_fiber_count = 1\<rparr>,
      m_fibers = [], m_threads = 2, m_threadCount = 2, m_activeThreadCount = 0, m_idleThreadCount = 0,
      m_stopping = False, m_autoStop = False, m_rootThread = -1, m_rootFiber = None\<rparr>"

definition idle_worker :: "int \<Rightarrow> unit worker" where
  "idle_worker tid =
     \<lparr>w_tid = tid, w_locals = \<lparr>t_fiber = Some 1, t_threadFiber = Some 1, t_main = Some 1, t_running = Some 1\<rparr>,
      w_cb_fiber = None, w_idle_fiber = 2, w_phase = AtTop\<rparr>"

abbreviation the_task :: "unit task" where
  "the_task \<equiv> \<lparr>ft_fiber = Some 3, ft_cb = None, ft_thread = -1\<rparr>"

lemma lone_fiber_init: "sys_init (lone_fiber st, [idle_worker 10, idle_worker 11])"
  by (simp add: sys_init_def lone_fiber_def idle_worker_def)

lemma lone_fiber_picked:
  assumes "st \<noteq> EXEC"
  shows "sys_reachable ((lone_fiber st)\<lparr>m_activeThreadCount := 1\<rparr>,
    [(idle_worker 10)\<lparr>w_phase := Picked (Some the_task)\<rparr>, idle_worker 11])"
proof -
  let ?s1 = "fst (scheduleNolock the_task (lone_fiber st))"
  let ?ws = "[idle_worker 10, idle_worker 11]"
  have "sys_step (lone_fiber st, ?ws) (?s1, ?ws)" by (rule sys_schedule)
  moreover have "sys_step (?s1, ?ws) ((lone_fiber st)\<lparr>m_activeThreadCount := 1\<rparr>,
      ?ws[0 := (idle_worker 10)\<lparr>w_phase := Picked (Some the_task)\<rparr>])"
    by (rule sys_pick)
       (use assms in \<open>auto simp: run_pick_def Let_def scheduleNolock_def lone_fiber_def idle_worker_def state_of_def\<close>)
  ultimately show ?thesis
    unfolding sys_reachable_def using lone_fiber_init
    by (metis (no_types, lifting) list_update_code(2) converse_rtranclp_into_rtranclp rtranclp.rtrancl_refl)
qed

text \<open>
  A worker that has picked a fiber which has already ended drops it without giving
  back its place in the count of active threads: from then on \<open>stopping\<close> is never true again.
\<close>

theorem ended_fiber_blocks_stopping:
  assumes "sys_reachable (s, ws)" "i < length ws" "w_phase (ws ! i) = Picked (Some ft)"
    "ft_fiber ft = Some f" "state_of (sc_heap s) f = Some TERM'"
  shows "\<exists>w. run_start dflt a (ws ! i) s = Inr (w, s) \<and> w_phase w = AtTop \<and>
    (\<forall>s' ws'. sys_step\<^sup>*\<^sup>* (s, ws[i := w]) (s', ws') \<longrightarrow> \<not> sched_stopping s')"
proof -
  let ?w = "(ws ! i)\<lparr>w_phase := AtTop\<rparr>"
  have "run_start dflt a (ws ! i) s = Inr (?w, s)"
    using assms(3-5) by (simp add: run_start_def)
  moreover have "sys_ok 1 (s, ws[i := ?w])"
    using sys_reachable_ok [OF assms(1)] busy_update [OF assms(2), of ?w] assms(3) by (simp add: sys_ok_def)
  then have "\<not> sched_stopping s'" if "sys_step\<^sup>*\<^sup>* (s, ws[i := ?w]) (s', ws')" for s' ws'
    using sys_ok_steps [OF that, of 1] by (auto simp: sys_ok_def sched_stopping_def)
  ultimately show ?thesis by (intro exI [of _ ?w]) simp
qed

theorem ended_fiber_blocks_stopping_witness:
  "\<exists>w. run_start 0 4 ((idle_worker 10)\<lparr>w_phase := Picked (Some the_task)\<rparr>)
        ((lone_fiber TERM')\<lparr>m_activeThreadCount := 1\<rparr>) = Inr (w, (lone_fiber TERM')\<lparr>m_activeThreadCount := 1\<rparr>)"
  using ended_fiber_blocks_stopping [OF lone_fiber_picked [of TERM'], of 0 the_task 3 0 4]
  by (auto simp: lone_fiber_def state_of_def)

theorem pick_never_fails_witness:
  "\<exists>w' s' b. run_pick (idle_worker 11) ((lone_fiber HOLD)\<lparr>m_activeThreadCount := 1\<rparr>) = Inr (w', s', b)"
  by (rule pick_never_fails [OF lone_fiber_picked]) simp_all


text \<open>
  A fiber that is scheduled twice can be picked by two workers, because it is marked as
  executing only after the lock is released: the second one to resume it fails an assertion.
\<close>

theorem double_schedule_race:
  "\<exists>s ws w0 s'. sys_reachable (s, ws) \<and> run_start 0 4 (ws ! 0) s = Inr (w0, s') \<and>
     w_phase (ws ! 0) = Picked (Some the_task) \<and> w_phase (ws ! 1) = Picked (Some the_task) \<and>
     run_start 0 4 (ws ! 1) s' = Inl AssertFailed"
proof -
  let ?w0 = "(idle_worker 10)\<lparr>w_phase := Picked (Some the_task)\<rparr>"
  let ?w1 = "(idle_worker 11)\<lparr>w_phase := Picked (Some the_task)\<rparr>"
  let ?s = "(lone_fiber HOLD)\<lparr>m_activeThreadCount := 1\<rparr>"
  let ?s2 = "(lone_fiber HOLD)\<lparr>m_activeThreadCount := 2\<rparr>"
  let ?s3 = "?s2\<lparr>sc_heap := set_state 3 EXEC (sc_heap ?s2)\<rparr>"
  let ?w0' = "?w0\<lparr>w_locals := (w_locals ?w0)\<lparr>t_fiber := Some 3, t_running := Some 3\<rparr>, w_phase := Running (KFiber 3)\<rparr>"
  let ?sched = "fst (scheduleNolock the_task ?s)"
  have "sys_step (?s, [?w0, idle_worker 11]) (?sched, [?w0, idle_worker 11])" by (rule sys_schedule)
  moreover have "sys_step (?sched, [?w0, idle_worker 11]) (?s2, [?w0, idle_worker 11][1 := ?w1])"
    by (rule sys_pick)
       (auto simp: run_pick_def Let_def scheduleNolock_def lone_fiber_def idle_worker_def state_of_def)
  ultimately have "sys_reachable (?s2, [?w0, ?w1])"
    using sys_reachable_step [OF sys_reachable_step [OF lone_fiber_picked [of HOLD]]] by simp
  moreover have "run_start 0 4 ?w0 ?s2 = Inr (?w0', ?s3)"
    by (simp add: run_start_def resume_def swapIn_def SetThis_def lone_fiber_def idle_worker_def state_of_def)
  moreover have "run_start 0 4 ?w1 ?s3 = Inl AssertFailed"
    by (simp add: run_start_def resume_def swapIn_def SetThis_def lone_fiber_def idle_worker_def state_of_def
        set_state_def)
  ultimately show ?thesis
    by (intro exI [of _ ?s2] exI [of _ "[?w0, ?w1]"] exI [of _ ?w0'] exI [of _ ?s3]) simp
qed

end
