(* ===== verification/Timer.thy ===== *)
theory Timer
  imports StdOrdered
begin

text \<open>
  Timers (exhy/exhy_timer.h, exhy_timer.cpp): a TimerManager keeps a std::set of timers in the
  order of their due time, ties by address. A timer object is named by its address, the heap
  maps addresses to objects, and every reading of the clock is an argument. Each definition is
  what one operation does while it holds the manager's lock; \<open>listExpiredCb\<close> takes the lock
  twice and is two steps.
\<close>

section \<open>Objects\<close>

text \<open>
  A callback is the user's function, or the function that \<open>addConditionTimer\<close> binds from
  OnTimer, a weak pointer and the user's function. An empty \<open>std::function\<close> is \<open>None\<close>.
\<close>

datatype 'a callback = Call 'a | OnTimer nat "'a option"

record 'a timer =
  m_recurring :: bool
  m_ms :: u64
  m_next :: u64
  m_cb :: "'a callback option"

type_synonym 'a timer_heap = "nat \<Rightarrow> 'a timer option"

record 'a timer_manager =
  m_timers :: "nat list"
  m_tickled :: bool
  m_previouseTime :: u64
  tm_heap :: "'a timer_heap"

definition due :: "'a timer_heap \<Rightarrow> nat \<Rightarrow> u64" where
  "due h p = (case h p of None \<Rightarrow> 0 | Some t \<Rightarrow> m_next t)"

text \<open>\<open>Timer::Comparator\<close>; a null pointer is \<open>None\<close>.\<close>

fun Comparator :: "'a timer_heap \<Rightarrow> nat option \<Rightarrow> nat option \<Rightarrow> bool" where
  "Comparator h None None = False"
| "Comparator h None (Some r) = False"
| "Comparator h (Some l) None = False"
| "Comparator h (Some l) (Some r) =
     (if due h l < due h r then True else if due h r < due h l then False else l < r)"

abbreviation timer_less :: "'a timer_heap \<Rightarrow> nat \<Rightarrow> nat \<Rightarrow> bool" where
  "timer_less h l r \<equiv> Comparator h (Some l) (Some r)"

definition new_Timer :: "u64 \<Rightarrow> u64 \<Rightarrow> 'a callback option \<Rightarrow> bool \<Rightarrow> 'a timer" where
  "new_Timer now ms cb recurring = \<lparr>m_recurring = recurring, m_ms = ms, m_next = now + ms, m_cb = cb\<rparr>"

definition new_Timer_at :: "u64 \<Rightarrow> 'a timer" where
  "new_Timer_at t = \<lparr>m_recurring = False, m_ms = 0, m_next = t, m_cb = None\<rparr>"

definition new_TimerManager :: "u64 \<Rightarrow> 'a timer_manager" where
  "new_TimerManager now = \<lparr>m_timers = [], m_tickled = False, m_previouseTime = now, tm_heap = Map.empty\<rparr>"

section \<open>Operations\<close>

text \<open>
  \<open>addTimer(val, lock)\<close>: the new state, and whether onTimerInsertedAtFront is called after the
  unlock. \<open>it\<close> is the place of \<open>val\<close> or of the equivalent timer that was there.
\<close>

definition insert_timer :: "nat \<Rightarrow> 'a timer_manager \<Rightarrow> 'a timer_manager \<times> bool" where
  "insert_timer val m =
     (let ts = set_insert (timer_less (tm_heap m)) val (m_timers m);
          at_front = (equiv_by (timer_less (tm_heap m)) (hd ts) val \<and> \<not> m_tickled m)
      in (m\<lparr>m_timers := ts, m_tickled := (if at_front then True else m_tickled m)\<rparr>, at_front))"

text \<open>\<open>p\<close> is the address the allocator returns for the new timer.\<close>

definition addTimer ::
  "u64 \<Rightarrow> nat \<Rightarrow> u64 \<Rightarrow> 'a callback option \<Rightarrow> bool \<Rightarrow> 'a timer_manager \<Rightarrow> 'a timer_manager \<times> bool" where
  "addTimer now p ms cb recurring m =
     insert_timer p (m\<lparr>tm_heap := (tm_heap m)(p \<mapsto> new_Timer now ms cb recurring)\<rparr>)"

definition addConditionTimer ::
  "u64 \<Rightarrow> nat \<Rightarrow> u64 \<Rightarrow> 'a option \<Rightarrow> nat \<Rightarrow> bool \<Rightarrow> 'a timer_manager \<Rightarrow> 'a timer_manager \<times> bool" where
  "addConditionTimer now p ms cb weak_cond recurring m =
     addTimer now p ms (Some (OnTimer weak_cond cb)) recurring m"

text \<open>
  Running a callback: which user function is called, if any. \<open>alive w\<close> says that locking the
  weak pointer \<open>w\<close> gives an object. Calling an empty function throws.
\<close>

fun call_cb :: "(nat \<Rightarrow> bool) \<Rightarrow> 'a callback option \<Rightarrow> 'a option res" where
  "call_cb alive None = Inl EmptyCall"
| "call_cb alive (Some (Call f)) = Inr (Some f)"
| "call_cb alive (Some (OnTimer w f)) =
     (if alive w then (case f of None \<Rightarrow> Inl EmptyCall | Some g \<Rightarrow> Inr (Some g)) else Inr None)"

definition getNextTimer :: "u64 \<Rightarrow> 'a timer_manager \<Rightarrow> u64 \<times> 'a timer_manager" where
  "getNextTimer now_ms m =
     ((case m_timers m of
         [] \<Rightarrow> - 1
       | next # _ \<Rightarrow> if due (tm_heap m) next \<le> now_ms then 0 else due (tm_heap m) next - now_ms),
      m\<lparr>m_tickled := False\<rparr>)"

definition detectClockRollOver :: "u64 \<Rightarrow> 'a timer_manager \<Rightarrow> bool \<times> 'a timer_manager" where
  "detectClockRollOver now_ms m =
     (now_ms < m_previouseTime m \<and> now_ms < m_previouseTime m - 60 * 60 * 1000,
      m\<lparr>m_previouseTime := now_ms\<rparr>)"

definition hasTimer :: "'a timer_manager \<Rightarrow> bool" where
  "hasTimer m \<longleftrightarrow> m_timers m \<noteq> []"

text \<open>The loop over the expired timers: the callbacks and the new set and heap.\<close>

fun expire_all :: "u64 \<Rightarrow> nat list \<Rightarrow> 'a timer_manager \<Rightarrow> 'a callback option list \<times> 'a timer_manager" where
  "expire_all now_ms [] m = ([], m)"
| "expire_all now_ms (p # ps) m =
     (case tm_heap m p of
        None \<Rightarrow> expire_all now_ms ps m
      | Some t \<Rightarrow>
          let m' = (if m_recurring t
                    then let h = (tm_heap m)(p \<mapsto> t\<lparr>m_next := now_ms + m_ms t\<rparr>)
                         in m\<lparr>tm_heap := h, m_timers := set_insert (timer_less h) p (m_timers m)\<rparr>
                    else m\<lparr>tm_heap := (tm_heap m)(p \<mapsto> t\<lparr>m_cb := None\<rparr>)\<rparr>);
              (cbs, m'') = expire_all now_ms ps m'
          in (m_cb t # cbs, m''))"

text \<open>The first critical section of listExpiredCb: return at once when there is no timer.\<close>

definition listExpiredCb_check :: "'a timer_manager \<Rightarrow> bool" where
  "listExpiredCb_check m \<longleftrightarrow> m_timers m \<noteq> []"

text \<open>
  The second one. \<open>na\<close> is the address of the temporary \<open>now_timer\<close>. The first timer is looked
  at without asking again whether there is one.
\<close>

definition listExpiredCb_collect ::
  "u64 \<Rightarrow> nat \<Rightarrow> 'a timer_manager \<Rightarrow> ('a callback option list \<times> 'a timer_manager) res" where
  "listExpiredCb_collect now_ms na m =
     (let (rollover, m1) = detectClockRollOver now_ms m in
      if \<not> rollover \<and> m_timers m1 = [] then Inl EndDeref
      else if \<not> rollover \<and> now_ms < due (tm_heap m1) (hd (m_timers m1)) then Inr ([], m1)
      else let less = timer_less ((tm_heap m1)(na \<mapsto> new_Timer_at now_ms));
               expired = (if rollover then m_timers m1 else before_upper less na (m_timers m1));
               rest = (if rollover then [] else from_upper less na (m_timers m1))
           in Inr (expire_all now_ms expired (m1\<lparr>m_timers := rest\<rparr>)))"

definition listExpiredCb ::
  "u64 \<Rightarrow> nat \<Rightarrow> 'a timer_manager \<Rightarrow> ('a callback option list \<times> 'a timer_manager) res" where
  "listExpiredCb now_ms na m =
     (if listExpiredCb_check m then listExpiredCb_collect now_ms na m else Inr ([], m))"

text \<open>
  Timer::cancel, refresh and reset on the timer \<open>p\<close>. \<open>erase\<close> of the end iterator, which is what
  \<open>find\<close> returns for a timer that is not in the set, is undefined.
\<close>

definition cancel :: "nat \<Rightarrow> 'a timer_manager \<Rightarrow> (bool \<times> 'a timer_manager) res" where
  "cancel p m =
     (case tm_heap m p of
        None \<Rightarrow> Inl NullDeref
      | Some t \<Rightarrow>
          if m_cb t \<noteq> None then
            let m1 = m\<lparr>tm_heap := (tm_heap m)(p \<mapsto> t\<lparr>m_cb := None\<rparr>)\<rparr>;
                less = timer_less (tm_heap m1)
            in case set_find less p (m_timers m1) of
                 None \<Rightarrow> Inl EndDeref
               | Some it \<Rightarrow> Inr (True, m1\<lparr>m_timers := set_erase less it (m_timers m1)\<rparr>)
          else Inr (False, m))"

definition refresh :: "u64 \<Rightarrow> nat \<Rightarrow> 'a timer_manager \<Rightarrow> (bool \<times> 'a timer_manager) res" where
  "refresh now p m =
     (case tm_heap m p of
        None \<Rightarrow> Inl NullDeref
      | Some t \<Rightarrow>
          if m_cb t = None then Inr (False, m)
          else let less = timer_less (tm_heap m)
            in case set_find less p (m_timers m) of
                 None \<Rightarrow> Inr (False, m)
               | Some it \<Rightarrow>
                   let m1 = m\<lparr>m_timers := set_erase less it (m_timers m)\<rparr>;
                       m2 = m1\<lparr>tm_heap := (tm_heap m1)(p \<mapsto> t\<lparr>m_next := now + m_ms t\<rparr>)\<rparr>
                   in Inr (True, m2\<lparr>m_timers := set_insert (timer_less (tm_heap m2)) p (m_timers m2)\<rparr>))"

text \<open>The result also says whether onTimerInsertedAtFront is called.\<close>

definition reset :: "u64 \<Rightarrow> nat \<Rightarrow> u64 \<Rightarrow> bool \<Rightarrow> 'a timer_manager \<Rightarrow> (bool \<times> 'a timer_manager \<times> bool) res" where
  "reset now p ms from_now m =
     (case tm_heap m p of
        None \<Rightarrow> Inl NullDeref
      | Some t \<Rightarrow>
          if ms = m_ms t \<and> \<not> from_now then Inr (True, m, False)
          else if m_cb t = None then Inr (False, m, False)
          else let less = timer_less (tm_heap m)
            in case set_find less p (m_timers m) of
                 None \<Rightarrow> Inr (False, m, False)
               | Some it \<Rightarrow>
                   let m1 = m\<lparr>m_timers := set_erase less it (m_timers m)\<rparr>;
                       start = (if from_now then now else m_next t - m_ms t);
                       m2 = m1\<lparr>tm_heap := (tm_heap m1)(p \<mapsto> t\<lparr>m_ms := ms, m_next := start + ms\<rparr>)\<rparr>
                   in Inr (True, insert_timer p m2))"

section \<open>The comparator is a total order on addresses\<close>

lemma timer_less_iff: "timer_less h l r \<longleftrightarrow> due h l < due h r \<or> due h l = due h r \<and> l < r"
  by auto

declare Comparator.simps [simp del]

interpretation tl: strict_total "timer_less h" for h :: "'a timer_heap"
  by unfold_locales (auto simp: timer_less_iff)

lemma Comparator_due:
  "due h l = due h' l \<Longrightarrow> due h r = due h' r \<Longrightarrow> timer_less h l r = timer_less h' l r"
  by (simp add: timer_less_iff)

lemma sorted_same_due:
  assumes "sorted_wrt (timer_less h) ts" "\<And>p. p \<in> set ts \<Longrightarrow> due h' p = due h p"
  shows "sorted_wrt (timer_less h') ts"
  by (rule sorted_wrt_mono_rel [OF _ assms(1)]) (use assms(2) in \<open>auto simp: timer_less_iff\<close>)

lemma due_upd [simp]: "due (h(p \<mapsto> t)) q = (if q = p then m_next t else due h q)"
  by (simp add: due_def)

section \<open>Invariant\<close>

text \<open>
  The set is in order, its members exist, and every timer that still has its callback is in it.
\<close>

definition tm_ok :: "'a timer_manager \<Rightarrow> bool" where
  "tm_ok m \<longleftrightarrow>
     sorted_wrt (timer_less (tm_heap m)) (m_timers m) \<and>
     (\<forall>p \<in> set (m_timers m). tm_heap m p \<noteq> None) \<and>
     (\<forall>p t. tm_heap m p = Some t \<longrightarrow> m_cb t \<noteq> None \<longrightarrow> p \<in> set (m_timers m))"

lemma tm_ok_new: "tm_ok (new_TimerManager now)"
  by (simp add: tm_ok_def new_TimerManager_def)

lemma tm_ok_cong: "tm_heap a = tm_heap b \<Longrightarrow> m_timers a = m_timers b \<Longrightarrow> tm_ok a = tm_ok b"
  by (simp add: tm_ok_def)

text \<open>Putting the object \<open>t\<close> at \<open>p\<close>, which is not in the set, and inserting it.\<close>

lemma tm_ok_put:
  assumes "sorted_wrt (timer_less (tm_heap m)) ts" "\<forall>q \<in> set ts. tm_heap m q \<noteq> None" "p \<notin> set ts"
    "\<forall>q u. tm_heap m q = Some u \<longrightarrow> m_cb u \<noteq> None \<longrightarrow> q = p \<or> q \<in> set ts"
  shows "tm_ok (m\<lparr>tm_heap := (tm_heap m)(p \<mapsto> t),
    m_timers := set_insert (timer_less ((tm_heap m)(p \<mapsto> t))) p ts\<rparr>)"
proof -
  have "sorted_wrt (timer_less ((tm_heap m)(p \<mapsto> t))) ts"
    by (rule sorted_same_due [OF assms(1)]) (use assms(3) in auto)
  then show ?thesis
    using assms by (auto simp: tm_ok_def tl.sorted_insert)
qed

lemma tm_ok_erase:
  assumes "tm_ok m"
  shows "sorted_wrt (timer_less (tm_heap m)) (set_erase (timer_less (tm_heap m)) p (m_timers m))"
    and "set (set_erase (timer_less (tm_heap m)) p (m_timers m)) = set (m_timers m) - {p}"
  using assms by (auto simp: tm_ok_def tl.sorted_erase)

lemma tm_ok_tickled [simp]: "tm_ok (m\<lparr>m_tickled := b\<rparr>) = tm_ok m" "tm_ok (m\<lparr>m_previouseTime := t\<rparr>) = tm_ok m"
  by (simp_all add: tm_ok_def)

lemma addTimer_ok:
  assumes "tm_ok m" "tm_heap m p = None"
  shows "tm_ok (fst (addTimer now p ms cb recurring m))"
proof -
  have "tm_ok (m\<lparr>tm_heap := (tm_heap m)(p \<mapsto> new_Timer now ms cb recurring),
      m_timers := set_insert (timer_less ((tm_heap m)(p \<mapsto> new_Timer now ms cb recurring))) p (m_timers m)\<rparr>)"
    using assms by (intro tm_ok_put) (auto simp: tm_ok_def)
  then show ?thesis by (simp add: addTimer_def insert_timer_def Let_def tm_ok_def)
qed

lemma find_timer:
  assumes "tm_ok m"
  shows "set_find (timer_less (tm_heap m)) p (m_timers m) = (if p \<in> set (m_timers m) then Some p else None)"
  using assms by (simp add: tm_ok_def tl.set_find_mem)

lemma refresh_ok:
  assumes "tm_ok m" "refresh now p m = Inr (b, m')"
  shows "tm_ok m'"
proof (cases "m' = m")
  case False
  then obtain t where t: "tm_heap m p = Some t" "m_cb t \<noteq> None" "p \<in> set (m_timers m)"
    "m' = m\<lparr>tm_heap := (tm_heap m)(p \<mapsto> t\<lparr>m_next := now + m_ms t\<rparr>),
      m_timers := set_insert (timer_less ((tm_heap m)(p \<mapsto> t\<lparr>m_next := now + m_ms t\<rparr>))) p
        (set_erase (timer_less (tm_heap m)) p (m_timers m))\<rparr>"
    using assms(2) by (auto simp: refresh_def Let_def find_timer [OF assms(1)] split: option.splits if_splits)
  show ?thesis unfolding t(4)
    by (rule tm_ok_put) (use assms(1) tm_ok_erase [OF assms(1), of p] in \<open>auto simp: tm_ok_def\<close>)
qed (use assms in simp)

lemma refresh_effect:
  assumes "tm_ok m" "refresh now p m = Inr (b, m')" "m' \<noteq> m"
  shows "\<exists>t u. tm_heap m p = Some t \<and> m_cb t \<noteq> None \<and> tm_heap m' = (tm_heap m)(p \<mapsto> u) \<and>
    set (m_timers m') = set (m_timers m)"
proof -
  obtain t where t: "tm_heap m p = Some t" "m_cb t \<noteq> None" "p \<in> set (m_timers m)"
    "m' = m\<lparr>tm_heap := (tm_heap m)(p \<mapsto> t\<lparr>m_next := now + m_ms t\<rparr>),
      m_timers := set_insert (timer_less ((tm_heap m)(p \<mapsto> t\<lparr>m_next := now + m_ms t\<rparr>))) p
        (set_erase (timer_less (tm_heap m)) p (m_timers m))\<rparr>"
    using assms by (auto simp: refresh_def Let_def find_timer [OF assms(1)] split: option.splits if_splits)
  have "set (m_timers m') = insert p (set (m_timers m) - {p})"
    using tm_ok_erase(2) [OF assms(1), of p] by (simp add: t(4))
  then show ?thesis using t by (intro exI conjI) auto
qed

lemma reset_ok:
  assumes "tm_ok m" "reset now p ms from_now m = Inr (b, m', f)"
  shows "tm_ok m'"
proof (cases "m' = m")
  case False
  then obtain t u f' where t: "tm_heap m p = Some t" "p \<in> set (m_timers m)"
    "insert_timer p (m\<lparr>m_timers := set_erase (timer_less (tm_heap m)) p (m_timers m),
        tm_heap := (tm_heap m)(p \<mapsto> u)\<rparr>) = (m', f')"
    using assms(2) by (auto simp: reset_def Let_def find_timer [OF assms(1)] split: option.splits if_splits)
  have "tm_ok (m\<lparr>tm_heap := (tm_heap m)(p \<mapsto> u),
      m_timers := set_insert (timer_less ((tm_heap m)(p \<mapsto> u))) p
        (set_erase (timer_less (tm_heap m)) p (m_timers m))\<rparr>)"
    by (rule tm_ok_put) (use assms(1) tm_ok_erase [OF assms(1), of p] in \<open>auto simp: tm_ok_def\<close>)
  then show ?thesis
    by (rule iffD1 [OF tm_ok_cong, rotated 2]) (use t(3) in \<open>auto simp: insert_timer_def Let_def\<close>)
qed (use assms in simp)

lemma insert_timer_heap:
  assumes "insert_timer p m = (m', f)"
  shows "tm_heap m' = tm_heap m" and "set (m_timers m') = insert p (set (m_timers m))"
  using assms by (auto simp: insert_timer_def Let_def split: if_splits)

lemma reset_effect:
  assumes "tm_ok m" "reset now p ms from_now m = Inr (b, m', f)" "m' \<noteq> m"
  shows "\<exists>t u. tm_heap m p = Some t \<and> m_cb t \<noteq> None \<and> tm_heap m' = (tm_heap m)(p \<mapsto> u) \<and>
    set (m_timers m') = set (m_timers m)"
proof -
  obtain t u f' where t: "tm_heap m p = Some t" "p \<in> set (m_timers m)" "m_cb t \<noteq> None"
    "insert_timer p (m\<lparr>m_timers := set_erase (timer_less (tm_heap m)) p (m_timers m),
        tm_heap := (tm_heap m)(p \<mapsto> u)\<rparr>) = (m', f')"
    using assms(2,3) by (auto simp: reset_def Let_def find_timer [OF assms(1)] split: option.splits if_splits)
  have h: "tm_heap m' = (tm_heap m)(p \<mapsto> u)"
    using insert_timer_heap [OF t(4)] by simp
  have "set (m_timers m') = insert p (set (m_timers m) - {p})"
    using insert_timer_heap [OF t(4)] tm_ok_erase(2) [OF assms(1), of p] by simp
  then show ?thesis using t h by (intro exI conjI) auto
qed

text \<open>cancel never erases the end iterator.\<close>

lemma cancel_cases:
  assumes "tm_ok m" "tm_heap m p = Some t"
  shows "cancel p m =
    (if m_cb t = None then Inr (False, m)
     else Inr (True, m\<lparr>tm_heap := (tm_heap m)(p \<mapsto> t\<lparr>m_cb := None\<rparr>),
       m_timers := set_erase (timer_less ((tm_heap m)(p \<mapsto> t\<lparr>m_cb := None\<rparr>))) p (m_timers m)\<rparr>))"
proof -
  have "sorted_wrt (timer_less ((tm_heap m)(p \<mapsto> t\<lparr>m_cb := None\<rparr>))) (m_timers m)"
    by (rule sorted_same_due [of "tm_heap m"]) (use assms in \<open>auto simp: tm_ok_def due_def\<close>)
  then show ?thesis
    using assms by (auto simp: cancel_def Let_def tl.set_find_mem tm_ok_def)
qed

lemma cancel_effect:
  assumes "tm_ok m" "cancel p m = Inr (b, m')"
  obtains t where "tm_heap m p = Some t" "m_cb t = None" "m' = m" "\<not> b"
  | t where "tm_heap m p = Some t" "m_cb t \<noteq> None" "b" "tm_heap m' = (tm_heap m)(p \<mapsto> t\<lparr>m_cb := None\<rparr>)"
      "set (m_timers m') = set (m_timers m) - {p}"
proof -
  obtain t where t: "tm_heap m p = Some t" using assms(2) by (auto simp: cancel_def split: option.splits)
  let ?h = "(tm_heap m)(p \<mapsto> t\<lparr>m_cb := None\<rparr>)"
  have "sorted_wrt (timer_less ?h) (m_timers m)"
    by (rule sorted_same_due [of "tm_heap m"]) (use assms t in \<open>auto simp: tm_ok_def due_def\<close>)
  then have "set (set_erase (timer_less ?h) p (m_timers m)) = set (m_timers m) - {p}" by simp
  then show thesis
    using that(1) [OF t] that(2) [OF t] cancel_cases [OF assms(1) t] assms(2) by (cases "m_cb t = None") auto
qed

lemma cancel_ok:
  assumes "tm_ok m" "cancel p m = Inr (b, m')"
  shows "tm_ok m'"
proof -
  obtain t where t: "tm_heap m p = Some t" using assms(2) by (auto simp: cancel_def split: option.splits)
  let ?h = "(tm_heap m)(p \<mapsto> t\<lparr>m_cb := None\<rparr>)"
  have s: "sorted_wrt (timer_less ?h) (m_timers m)"
    by (rule sorted_same_due [of "tm_heap m"]) (use assms t in \<open>auto simp: tm_ok_def due_def\<close>)
  show ?thesis
    using assms cancel_cases [OF assms(1) t] tl.sorted_erase [OF s, of p] tl.set_set_erase [OF s, of p]
    by (auto simp: tm_ok_def split: if_splits)
qed

subsection \<open>Expiry\<close>

text \<open>What the expiry loop makes of one timer.\<close>

definition expire_one :: "u64 \<Rightarrow> 'a timer \<Rightarrow> 'a timer" where
  "expire_one now_ms t = (if m_recurring t then t\<lparr>m_next := now_ms + m_ms t\<rparr> else t\<lparr>m_cb := None\<rparr>)"

definition cb_of :: "'a timer_heap \<Rightarrow> nat \<Rightarrow> 'a callback option" where
  "cb_of h p = (case h p of None \<Rightarrow> None | Some t \<Rightarrow> m_cb t)"

definition is_recurring :: "'a timer_heap \<Rightarrow> nat \<Rightarrow> bool" where
  "is_recurring h p = (case h p of None \<Rightarrow> False | Some t \<Rightarrow> m_recurring t)"

lemma expire_all_spec:
  assumes "distinct ps" "set ps \<inter> set (m_timers m) = {}" "\<forall>p \<in> set ps. tm_heap m p \<noteq> None"
    "sorted_wrt (timer_less (tm_heap m)) (m_timers m)"
  shows "fst (expire_all now ps m) = map (cb_of (tm_heap m)) ps \<and>
    tm_heap (snd (expire_all now ps m)) =
      (\<lambda>p. if p \<in> set ps then map_option (expire_one now) (tm_heap m p) else tm_heap m p) \<and>
    set (m_timers (snd (expire_all now ps m))) = set (m_timers m) \<union> {p \<in> set ps. is_recurring (tm_heap m) p} \<and>
    sorted_wrt (timer_less (tm_heap (snd (expire_all now ps m)))) (m_timers (snd (expire_all now ps m))) \<and>
    m_tickled (snd (expire_all now ps m)) = m_tickled m \<and>
    m_previouseTime (snd (expire_all now ps m)) = m_previouseTime m"
  using assms
proof (induction ps arbitrary: m)
  case Nil
  then show ?case by simp
next
  case (Cons p ps)
  then obtain t where t: "tm_heap m p = Some t" by auto
  define h where "h = (tm_heap m)(p \<mapsto> expire_one now t)"
  define m1 where "m1 = m\<lparr>tm_heap := h,
      m_timers := (if m_recurring t then set_insert (timer_less h) p (m_timers m) else m_timers m)\<rparr>"
  have sorted: "sorted_wrt (timer_less h) (m_timers m)"
    by (rule sorted_same_due [OF Cons.prems(4)]) (use Cons.prems(2) in \<open>auto simp: h_def\<close>)
  have step: "expire_all now (p # ps) m = (m_cb t # fst (expire_all now ps m1), snd (expire_all now ps m1))"
    using t by (simp add: Let_def m1_def h_def expire_one_def split: prod.splits)
  have IH: "fst (expire_all now ps m1) = map (cb_of (tm_heap m1)) ps \<and>
    tm_heap (snd (expire_all now ps m1)) =
      (\<lambda>p. if p \<in> set ps then map_option (expire_one now) (tm_heap m1 p) else tm_heap m1 p) \<and>
    set (m_timers (snd (expire_all now ps m1))) = set (m_timers m1) \<union> {p \<in> set ps. is_recurring (tm_heap m1) p} \<and>
    sorted_wrt (timer_less (tm_heap (snd (expire_all now ps m1)))) (m_timers (snd (expire_all now ps m1))) \<and>
    m_tickled (snd (expire_all now ps m1)) = m_tickled m1 \<and>
    m_previouseTime (snd (expire_all now ps m1)) = m_previouseTime m1"
  proof (rule Cons.IH)
    show "sorted_wrt (timer_less (tm_heap m1)) (m_timers m1)"
      using sorted by (simp add: m1_def tl.sorted_insert)
  qed (use Cons.prems in \<open>auto simp: m1_def h_def\<close>)
  have same: "map (cb_of (tm_heap m1)) ps = map (cb_of (tm_heap m)) ps"
    "{q \<in> set ps. is_recurring (tm_heap m1) q} = {q \<in> set ps. is_recurring (tm_heap m) q}"
    using Cons.prems(1) by (auto simp: m1_def h_def cb_of_def is_recurring_def)
  define r where "r = expire_all now ps m1"
  have m1: "tm_heap m1 = h" "m_tickled m1 = m_tickled m" "m_previouseTime m1 = m_previouseTime m"
    "set (m_timers m1) = set (m_timers m) \<union> (if m_recurring t then {p} else {})"
    by (auto simp: m1_def)
  have heap: "tm_heap (snd r) =
      (\<lambda>q. if q \<in> set (p # ps) then map_option (expire_one now) (tm_heap m q) else tm_heap m q)"
  proof
    fix q
    show "tm_heap (snd r) q =
      (if q \<in> set (p # ps) then map_option (expire_one now) (tm_heap m q) else tm_heap m q)"
      using IH Cons.prems(1) t by (simp add: m1(1) h_def flip: r_def)
  qed
  have cbs: "fst r = map (cb_of (tm_heap m)) ps" using IH same(1) by (simp add: r_def)
  have mem: "set (m_timers (snd r)) = set (m_timers m) \<union> {q \<in> set (p # ps). is_recurring (tm_heap m) q}"
    using IH t same(2) m1(4) by (auto simp: is_recurring_def r_def)
  have "sorted_wrt (timer_less (tm_heap (snd r))) (m_timers (snd r)) \<and>
      m_tickled (snd r) = m_tickled m \<and> m_previouseTime (snd r) = m_previouseTime m"
    unfolding r_def m1(2,3) [symmetric] using IH by blast
  then show ?case
    unfolding step using heap cbs mem t by (simp add: cb_of_def flip: r_def)
qed

text \<open>The timers that listExpiredCb takes: all of them after a roll-over, else those due.\<close>

definition is_due :: "u64 \<Rightarrow> nat \<Rightarrow> 'a timer_heap \<Rightarrow> nat \<Rightarrow> bool" where
  "is_due now na h p \<longleftrightarrow> due h p < now \<or> due h p = now \<and> p \<le> na"

definition rolled_over :: "u64 \<Rightarrow> 'a timer_manager \<Rightarrow> bool" where
  "rolled_over now m = fst (detectClockRollOver now m)"

text \<open>The list that is expired: upper_bound of the temporary timer cuts it off.\<close>

lemma upper_is_due:
  assumes "tm_ok m" "tm_heap m na = None"
    "lss = timer_less ((tm_heap m)(na \<mapsto> new_Timer_at now))"
  shows "before_upper lss na (m_timers m) = filter (is_due now na (tm_heap m)) (m_timers m)"
    and "set (from_upper lss na (m_timers m)) = {p \<in> set (m_timers m). \<not> is_due now na (tm_heap m) p}"
    and "sorted_wrt (timer_less (tm_heap m)) (from_upper lss na (m_timers m))"
proof -
  have na: "na \<notin> set (m_timers m)" and sorted: "sorted_wrt (timer_less (tm_heap m)) (m_timers m)"
    using assms(1,2) by (auto simp: tm_ok_def)
  have sorted': "sorted_wrt lss (m_timers m)"
    unfolding assms(3) by (rule sorted_same_due [OF sorted]) (use na in auto)
  have lss_iff: "lss na p \<longleftrightarrow> \<not> is_due now na (tm_heap m) p" if "p \<in> set (m_timers m)" for p
    using that na by (auto simp: assms(3) timer_less_iff is_due_def new_Timer_at_def)
  show 1: "set (from_upper lss na (m_timers m)) = {p \<in> set (m_timers m). \<not> is_due now na (tm_heap m) p}"
    using tl.from_upper_set [of "(tm_heap m)(na \<mapsto> new_Timer_at now)" "m_timers m" na] sorted' lss_iff
    by (auto simp: assms(3))
  have "before_upper lss na (m_timers m) = filter (\<lambda>p. \<not> lss na p) (m_timers m)"
    unfolding before_upper_def
    by (rule takeWhile_eq_filter) (use 1 lss_iff in \<open>auto simp: from_upper_def\<close>)
  then show "before_upper lss na (m_timers m) = filter (is_due now na (tm_heap m)) (m_timers m)"
    using lss_iff by (auto cong: filter_cong)
  show "sorted_wrt (timer_less (tm_heap m)) (from_upper lss na (m_timers m))"
    using sorted unfolding from_upper_def by (simp add: sorted_wrt_dropWhile)
qed

lemma due_hd:
  assumes "tm_ok m" "p \<in> set (m_timers m)"
  shows "due (tm_heap m) (hd (m_timers m)) \<le> due (tm_heap m) p"
  using assms by (cases "m_timers m") (auto simp: tm_ok_def timer_less_iff)

lemma listExpiredCb_collect_spec:
  assumes "tm_ok m" "tm_heap m na = None" "m_timers m \<noteq> []"
    "taken = filter (\<lambda>p. rolled_over now m \<or> is_due now na (tm_heap m) p) (m_timers m)"
  shows "\<exists>m'. listExpiredCb_collect now na m = Inr (map (cb_of (tm_heap m)) taken, m') \<and>
    tm_heap m' = (\<lambda>p. if p \<in> set taken then map_option (expire_one now) (tm_heap m p) else tm_heap m p) \<and>
    set (m_timers m') = {p \<in> set (m_timers m). p \<in> set taken \<longrightarrow> is_recurring (tm_heap m) p} \<and>
    tm_ok m' \<and> m_previouseTime m' = now \<and> m_tickled m' = m_tickled m"
proof -
  define rest where "rest = (if rolled_over now m then []
      else from_upper (timer_less ((tm_heap m)(na \<mapsto> new_Timer_at now))) na (m_timers m))"
  define m1 where "m1 = m\<lparr>m_previouseTime := now\<rparr>"
  have roll: "detectClockRollOver now m = (rolled_over now m, m1)"
    by (simp add: rolled_over_def detectClockRollOver_def m1_def)
  have rest: "set rest = {p \<in> set (m_timers m). p \<notin> set taken}" "sorted_wrt (timer_less (tm_heap m)) rest"
    using upper_is_due [OF assms(1,2) refl, of now] assms(4) by (auto simp: rest_def)
  have dist: "distinct taken"
    using assms(1) tl.distinct_sorted by (fastforce simp: tm_ok_def assms(4))
  show ?thesis
  proof (cases "\<not> rolled_over now m \<and> now < due (tm_heap m) (hd (m_timers m))")
    case True
    then have none: "taken = []"
      using due_hd [OF assms(1)] by (fastforce simp: assms(4) is_due_def filter_empty_conv)
    then have "listExpiredCb_collect now na m = Inr ([], m1)"
      using True assms(3) by (simp add: listExpiredCb_collect_def roll) (simp add: m1_def)
    then show ?thesis using none assms(1) by (simp add: m1_def)
  next
    case False
    let ?r = "expire_all now taken (m1\<lparr>m_timers := rest\<rparr>)"
    have eq: "listExpiredCb_collect now na m = Inr ?r"
      using False assms(3,4) upper_is_due(1) [OF assms(1,2) refl, of now]
      by (auto simp: listExpiredCb_collect_def roll Let_def rest_def) (auto simp: m1_def)
    have spec: "fst ?r = map (cb_of (tm_heap m)) taken \<and>
      tm_heap (snd ?r) = (\<lambda>p. if p \<in> set taken then map_option (expire_one now) (tm_heap m p) else tm_heap m p) \<and>
      set (m_timers (snd ?r)) = set rest \<union> {p \<in> set taken. is_recurring (tm_heap m) p} \<and>
      sorted_wrt (timer_less (tm_heap (snd ?r))) (m_timers (snd ?r)) \<and>
      m_tickled (snd ?r) = m_tickled m \<and> m_previouseTime (snd ?r) = now"
    proof -
      have q: "tm_heap (m1\<lparr>m_timers := rest\<rparr>) = tm_heap m" "m_timers (m1\<lparr>m_timers := rest\<rparr>) = rest"
        "m_tickled (m1\<lparr>m_timers := rest\<rparr>) = m_tickled m" "m_previouseTime (m1\<lparr>m_timers := rest\<rparr>) = now"
        by (simp_all add: m1_def)
      have "set taken \<inter> set rest = {}" using rest(1) by auto
      moreover have "\<forall>p \<in> set taken. tm_heap m p \<noteq> None" using assms(1) by (auto simp: tm_ok_def assms(4))
      ultimately show ?thesis
        using expire_all_spec [of taken "m1\<lparr>m_timers := rest\<rparr>" now, unfolded q] dist rest(2) by blast
    qed
    have mem: "set (m_timers (snd ?r)) = {p \<in> set (m_timers m). p \<in> set taken \<longrightarrow> is_recurring (tm_heap m) p}"
      using spec rest(1) by (auto simp: assms(4))
    have "tm_ok (snd ?r)"
      unfolding tm_ok_def
    proof (intro conjI ballI allI impI)
      fix p assume "p \<in> set (m_timers (snd ?r))"
      then show "tm_heap (snd ?r) p \<noteq> None" using spec mem assms(1) by (auto simp: tm_ok_def)
    next
      fix p t assume "tm_heap (snd ?r) p = Some t" "m_cb t \<noteq> None"
      then show "p \<in> set (m_timers (snd ?r))"
        using spec assms(1) unfolding mem
        by (auto simp: tm_ok_def expire_one_def is_recurring_def assms(4) split: if_splits)
    qed (use spec in blast)
    moreover have "Inr ?r = Inr (map (cb_of (tm_heap m)) taken, snd ?r)"
      using spec by (metis prod.collapse)
    ultimately show ?thesis unfolding eq using spec mem by (intro exI [of _ "snd ?r"]) blast
  qed
qed

section \<open>Histories of a manager\<close>

text \<open>
  One operation under the lock, with any clock value and any new address. The two halves of
  listExpiredCb are separate steps, so other operations may come between them; the first half
  changes nothing.
\<close>

inductive tm_step :: "'a timer_manager \<Rightarrow> 'a timer_manager \<Rightarrow> bool" where
  step_add: "tm_heap m p = None \<Longrightarrow> tm_step m (fst (addTimer now p ms cb recurring m))"
| step_cond: "tm_heap m p = None \<Longrightarrow> tm_step m (fst (addConditionTimer now p ms f w recurring m))"
| step_next: "tm_step m (snd (getNextTimer now m))"
| step_collect: "tm_heap m na = None \<Longrightarrow> listExpiredCb_collect now na m = Inr (cbs, m') \<Longrightarrow> tm_step m m'"
| step_cancel: "cancel p m = Inr (b, m') \<Longrightarrow> tm_step m m'"
| step_refresh: "refresh now p m = Inr (b, m') \<Longrightarrow> tm_step m m'"
| step_reset: "reset now p ms from_now m = Inr (b, m', f) \<Longrightarrow> tm_step m m'"

inductive tm_reachable :: "'a timer_manager \<Rightarrow> bool" where
  reach_new: "tm_reachable (new_TimerManager now)"
| reach_step: "tm_reachable m \<Longrightarrow> tm_step m m' \<Longrightarrow> tm_reachable m'"

lemma collect_empty: "listExpiredCb_collect now na m = Inr (cbs, m') \<Longrightarrow> m_timers m = [] \<Longrightarrow>
    m' = m\<lparr>m_previouseTime := now\<rparr> \<and> cbs = []"
  by (auto simp: listExpiredCb_collect_def detectClockRollOver_def Let_def split: if_splits)

lemma collect_ok:
  assumes "tm_ok m" "tm_heap m na = None" "listExpiredCb_collect now na m = Inr (cbs, m')"
  shows "tm_ok m'"
proof (cases "m_timers m = []")
  case True
  then show ?thesis using collect_empty [OF assms(3)] assms(1) by simp
next
  case False
  then show ?thesis using listExpiredCb_collect_spec [OF assms(1,2) False refl, of now] assms(3) by auto
qed

lemma tm_step_ok: "tm_step m m' \<Longrightarrow> tm_ok m \<Longrightarrow> tm_ok m'"
  by (induction rule: tm_step.induct)
     (auto simp: addTimer_ok addConditionTimer_def getNextTimer_def
       intro: collect_ok cancel_ok refresh_ok reset_ok)

lemma tm_reachable_ok: "tm_reachable m \<Longrightarrow> tm_ok m"
  by (induction rule: tm_reachable.induct) (auto simp: tm_ok_new tm_step_ok)

text \<open>
  Claim C3. In every history of a manager the set is in due order, holds live timers only, and
  holds every timer that still has its callback; cancelling a timer therefore never erases the
  end iterator.
\<close>

theorem timer_invariant:
  assumes "tm_reachable m"
  shows "sorted_wrt (timer_less (tm_heap m)) (m_timers m) \<and>
    (\<forall>p \<in> set (m_timers m). tm_heap m p \<noteq> None) \<and>
    (\<forall>p t. tm_heap m p = Some t \<longrightarrow>
       (m_cb t \<noteq> None \<longrightarrow> p \<in> set (m_timers m)) \<and> (\<exists>b m'. cancel p m = Inr (b, m') \<and> b = (m_cb t \<noteq> None)))"
  using tm_reachable_ok [OF assms] cancel_cases [of m] by (auto simp: tm_ok_def)

text \<open>Two managers to try things on: with one timer, and with a recurring one in front of it.\<close>

definition one_timer :: "unit timer_manager" where
  "one_timer = fst (addTimer 5 1 20 (Some (Call ())) False (new_TimerManager 0))"

definition two_timers :: "unit timer_manager" where
  "two_timers = fst (addTimer 5 2 10 (Some (Call ())) True one_timer)"

lemmas timer_eval = addTimer_def insert_timer_def Let_def new_TimerManager_def new_Timer_def
  timer_less_iff equiv_by_def

lemma one_timer_eq: "one_timer = \<lparr>m_timers = [1], m_tickled = True, m_previouseTime = 0,
    tm_heap = [1 \<mapsto> \<lparr>m_recurring = False, m_ms = 20, m_next = 25, m_cb = Some (Call ())\<rparr>]\<rparr>"
  by (simp add: one_timer_def timer_eval)

lemma two_timers_eq: "two_timers = \<lparr>m_timers = [2, 1], m_tickled = True, m_previouseTime = 0,
    tm_heap = [1 \<mapsto> \<lparr>m_recurring = False, m_ms = 20, m_next = 25, m_cb = Some (Call ())\<rparr>,
               2 \<mapsto> \<lparr>m_recurring = True, m_ms = 10, m_next = 15, m_cb = Some (Call ())\<rparr>]\<rparr>"
  by (simp add: two_timers_def one_timer_eq timer_eval)

lemma one_timer_reachable: "tm_reachable one_timer"
  unfolding one_timer_def
  by (rule reach_step [OF reach_new step_add]) (simp add: new_TimerManager_def)

lemma two_timers_reachable: "tm_reachable two_timers"
  unfolding two_timers_def
  by (rule reach_step [OF one_timer_reachable step_add]) (simp add: one_timer_eq)

theorem timer_invariant_witness:
  "\<exists>m'. cancel 1 two_timers = Inr (True, m')"
proof -
  have "tm_heap two_timers 1 = Some \<lparr>m_recurring = False, m_ms = 20, m_next = 25, m_cb = Some (Call ())\<rparr>"
    by (simp add: two_timers_eq)
  then show ?thesis using timer_invariant [OF two_timers_reachable] by fastforce
qed



text \<open>
  getNextTimer is the time the caller may sleep: 2^64 - 1 without a timer, otherwise 0
  when a timer is due and the distance to the earliest due time when none is.
\<close>

theorem getNextTimer_earliest:
  assumes "tm_reachable m"
  shows "(m_timers m = [] \<longrightarrow> fst (getNextTimer now m) = - 1) \<and>
    (\<forall>p \<in> set (m_timers m). due (tm_heap m) p \<le> now \<longrightarrow> fst (getNextTimer now m) = 0) \<and>
    (m_timers m \<noteq> [] \<and> (\<forall>p \<in> set (m_timers m). now < due (tm_heap m) p) \<longrightarrow>
       fst (getNextTimer now m) = Min ((\<lambda>p. due (tm_heap m) p - now) ` set (m_timers m)))"
proof (cases "m_timers m")
  case (Cons q qs)
  have first: "due (tm_heap m) q \<le> due (tm_heap m) p" if "p \<in> set (m_timers m)" for p
    using due_hd [OF tm_reachable_ok [OF assms] that] Cons by simp
  have "due (tm_heap m) q - now = Min ((\<lambda>p. due (tm_heap m) p - now) ` set (m_timers m))"
    if late: "\<forall>p \<in> set (m_timers m). now < due (tm_heap m) p"
  proof (rule Min_eqI [symmetric])
    fix d assume "d \<in> (\<lambda>p. due (tm_heap m) p - now) ` set (m_timers m)"
    then obtain p where p: "p \<in> set (m_timers m)" "d = due (tm_heap m) p - now" by auto
    have "now < due (tm_heap m) q" "now < due (tm_heap m) p" using late p Cons by auto
    then show "due (tm_heap m) q - now \<le> d"
      using first [OF p(1)] by (simp add: p(2) word_le_nat_alt word_less_nat_alt unat_sub)
  qed (use Cons in auto)
  then show ?thesis using first Cons by (fastforce simp: getNextTimer_def)
qed (simp add: getNextTimer_def)

theorem getNextTimer_earliest_witness:
  "fst (getNextTimer 10 two_timers) = 5 \<and> fst (getNextTimer 16 two_timers) = 0"
  using getNextTimer_earliest [OF two_timers_reachable, of 10]
    getNextTimer_earliest [OF two_timers_reachable, of 16]
  by (auto simp: two_timers_eq due_def)

lemma cancelled_step:
  assumes "tm_step m m'" "tm_ok m" "\<exists>t. tm_heap m p = Some t \<and> m_cb t = None" "p \<notin> set (m_timers m)"
  shows "(\<exists>t. tm_heap m' p = Some t \<and> m_cb t = None) \<and> p \<notin> set (m_timers m')"
  using assms
proof (induction rule: tm_step.induct)
  case (step_add m q now ms cb recurring)
  then show ?case by (auto simp: addTimer_def insert_timer_def Let_def)
next
  case (step_cond m q now ms f w recurring)
  then show ?case by (auto simp: addConditionTimer_def addTimer_def insert_timer_def Let_def)
next
  case (step_next m now)
  then show ?case by (auto simp: getNextTimer_def)
next
  case (step_collect m na now cbs m')
  show ?case
  proof (cases "m_timers m = []")
    case True
    then show ?thesis using collect_empty [OF step_collect(2)] step_collect by auto
  next
    case False
    then show ?thesis
      using listExpiredCb_collect_spec [OF step_collect(3,1) False refl, of now] step_collect by auto
  qed
next
  case (step_cancel q m b m')
  show ?case by (rule cancel_effect [OF step_cancel(2,1)]) (use step_cancel in auto)
next
  case (step_refresh now q m b m')
  then show ?case using refresh_effect [OF step_refresh(2,1)] by (cases "m' = m") auto
next
  case (step_reset now q ms from_now m b m' f)
  then show ?case using reset_effect [OF step_reset(2,1)] by (cases "m' = m") auto
qed

text \<open>
  A cancelled timer stays cancelled: whatever happens to the manager afterwards, it is
  not in the set and has no callback, so no later listExpiredCb returns it.
\<close>

theorem cancelled_stays_cancelled:
  assumes "tm_reachable m" "cancel p m = Inr (True, m1)" "tm_step\<^sup>*\<^sup>* m1 m2"
  shows "p \<notin> set (m_timers m2) \<and> cb_of (tm_heap m2) p = None"
proof -
  have ok: "tm_ok m" using assms(1) by (rule tm_reachable_ok)
  have "(\<exists>t. tm_heap m1 p = Some t \<and> m_cb t = None) \<and> p \<notin> set (m_timers m1)"
    by (rule cancel_effect [OF ok assms(2)]) auto
  moreover note cancel_ok [OF ok assms(2)]
  ultimately have P: "tm_ok m1 \<and> (\<exists>t. tm_heap m1 p = Some t \<and> m_cb t = None) \<and> p \<notin> set (m_timers m1)"
    by blast
  have "tm_ok m2 \<and> (\<exists>t. tm_heap m2 p = Some t \<and> m_cb t = None) \<and> p \<notin> set (m_timers m2)"
    using assms(3) P by (induction rule: rtranclp_induct) (use cancelled_step tm_step_ok in blast)+
  then show ?thesis by (auto simp: cb_of_def)
qed

theorem cancelled_stays_cancelled_witness:
  "\<exists>m1. cancel 1 two_timers = Inr (True, m1) \<and> 1 \<notin> set (m_timers m1)"
proof -
  obtain m1 where "cancel 1 two_timers = Inr (True, m1)"
    using cancel_cases [OF tm_reachable_ok [OF two_timers_reachable], of 1] by (simp add: two_timers_eq)
  then show ?thesis using cancelled_stays_cancelled [OF two_timers_reachable, of 1 m1 m1] by blast
qed

text \<open>
  The lock is released between the test for an empty set and the use of its first
  element: when the only timer is cancelled in between, listExpiredCb dereferences the end.
\<close>

theorem listExpiredCb_race:
  "\<exists>m m'. tm_reachable m \<and> listExpiredCb_check m \<and> cancel 1 m = Inr (True, m') \<and>
     tm_reachable m' \<and> listExpiredCb_collect 50 9 (m' :: unit timer_manager) = Inl EndDeref"
proof -
  obtain m' where m': "cancel 1 one_timer = Inr (True, m')" "m_timers m' = []"
    using cancel_cases [OF tm_reachable_ok [OF one_timer_reachable], of 1]
    by (simp add: one_timer_eq timer_less_iff)
  moreover have "m_previouseTime m' = 0"
    using m'(1) by (auto simp: cancel_def one_timer_eq Let_def split: option.splits)
  ultimately have "listExpiredCb_collect 50 9 m' = Inl EndDeref"
    by (simp add: listExpiredCb_collect_def detectClockRollOver_def Let_def)
  moreover have "tm_reachable m'"
    using reach_step [OF one_timer_reachable step_cancel [OF m'(1)]] .
  ultimately show ?thesis
    using m'(1) one_timer_reachable
    by (intro exI [of _ one_timer] exI [of _ m']) (simp add: listExpiredCb_check_def one_timer_eq)
qed

end
