(* ===== verification/IOManager.thy ===== *)
theory IOManager
  imports Scheduler Timer
begin

text \<open>
  The epoll-based IO manager (exhy/exhy_iomanager.h, exhy_iomanager.cpp): a Scheduler and a
  TimerManager, with one context per file descriptor that remembers who waits for it to become
  readable and writable. Each operation is what happens under the context's mutex. Whether
  epoll_ctl succeeds is an argument (\<open>ok\<close>); \<open>io_interest\<close> is the interest list of the kernel, as
  the successful calls leave it. A task goes to the scheduler it was registered from: to this
  manager's own queue, or to another one (\<open>io_out\<close> keeps those calls in order).
\<close>

section \<open>Contexts\<close>

abbreviation (input) NONE :: u32 where "NONE \<equiv> 0"
abbreviation (input) READ :: u32 where "READ \<equiv> 1"
abbreviation (input) WRITE :: u32 where "WRITE \<equiv> 4"

abbreviation (input) EPOLLIN :: u32 where "EPOLLIN \<equiv> 1"
abbreviation (input) EPOLLOUT :: u32 where "EPOLLOUT \<equiv> 4"
abbreviation (input) EPOLLERR :: u32 where "EPOLLERR \<equiv> 8"
abbreviation (input) EPOLLHUP :: u32 where "EPOLLHUP \<equiv> 16"
abbreviation (input) EPOLLET :: u32 where "EPOLLET \<equiv> 0x80000000"

datatype epoll_op = EPOLL_CTL_ADD | EPOLL_CTL_MOD | EPOLL_CTL_DEL

record 'c event_context =
  ev_scheduler :: "nat option"
  ev_fiber :: "nat option"
  ev_cb :: "'c option"

record 'c fd_context =
  fc_read :: "'c event_context"
  fc_write :: "'c event_context"
  fc_fd :: nat
  fc_events :: u32

text \<open>A callback that is scheduled is one of TimerManager's, or a user's own (\<open>Call\<close>).\<close>

record 'a iomanager =
  io_self :: nat
  io_sched :: "'a callback scheduler"
  io_timers :: "'a timer_manager"
  m_fdContexts :: "'a callback fd_context list"
  m_pendingEventCount :: nat
  io_interest :: "nat \<Rightarrow> u32 option"
  io_out :: "(nat \<times> 'a callback task) list"
  io_pipe :: nat

definition empty_context :: "'c event_context" where
  "empty_context = \<lparr>ev_scheduler = None, ev_fiber = None, ev_cb = None\<rparr>"

definition new_FdContext :: "nat \<Rightarrow> 'c fd_context" where
  "new_FdContext fd = \<lparr>fc_read = empty_context, fc_write = empty_context, fc_fd = fd, fc_events = NONE\<rparr>"

definition getContext :: "u32 \<Rightarrow> 'c fd_context \<Rightarrow> 'c event_context res" where
  "getContext event c =
     (if event = READ then Inr (fc_read c) else if event = WRITE then Inr (fc_write c) else Inl AssertFailed)"

text \<open>Storing through the reference that getContext returned.\<close>

definition putContext :: "u32 \<Rightarrow> 'c event_context \<Rightarrow> 'c fd_context \<Rightarrow> 'c fd_context" where
  "putContext event e c = (if event = READ then c\<lparr>fc_read := e\<rparr> else c\<lparr>fc_write := e\<rparr>)"

definition resetContext :: "'c event_context \<Rightarrow> 'c event_context" where
  "resetContext e = e\<lparr>ev_scheduler := None, ev_fiber := None, ev_cb := None\<rparr>"

section \<open>Waking workers\<close>

definition io_tickle :: "'a iomanager \<Rightarrow> 'a iomanager" where
  "io_tickle m = (if \<not> hasIdleThread (io_sched m) then m else m\<lparr>io_pipe := io_pipe m + 1\<rparr>)"

text \<open>\<open>scheduler->schedule(...)\<close> on the scheduler at address \<open>s\<close>.\<close>

definition schedule_on :: "nat \<Rightarrow> 'a callback task \<Rightarrow> 'a iomanager \<Rightarrow> 'a iomanager" where
  "schedule_on s ft m =
     (if s = io_self m then
        let (sc, need_tickle) = scheduleNolock ft (io_sched m); m1 = m\<lparr>io_sched := sc\<rparr>
        in (if need_tickle then io_tickle m1 else m1)
      else m\<lparr>io_out := io_out m @ [(s, ft)]\<rparr>)"

definition onTimerInsertedAtFront :: "'a iomanager \<Rightarrow> 'a iomanager" where
  "onTimerInsertedAtFront m = io_tickle m"

section \<open>Events\<close>

definition triggerEvent :: "u32 \<Rightarrow> nat \<Rightarrow> 'a iomanager \<Rightarrow> 'a iomanager res" where
  "triggerEvent event k m =
     (let c = m_fdContexts m ! k
      in if fc_events c AND event = 0 then Inl AssertFailed
         else let c1 = c\<lparr>fc_events := fc_events c AND NOT event\<rparr>
           in sbind (getContext event c1)
                (\<lambda>e. case ev_scheduler e of
                   None \<Rightarrow> Inl NullDeref
                 | Some s \<Rightarrow>
                     let (ft, e1) =
                       (if ev_cb e \<noteq> None then (\<lparr>ft_fiber = None, ft_cb = ev_cb e, ft_thread = -1\<rparr>, e\<lparr>ev_cb := None\<rparr>)
                        else (\<lparr>ft_fiber = ev_fiber e, ft_cb = None, ft_thread = -1\<rparr>, e\<lparr>ev_fiber := None\<rparr>))
                     in Inr (schedule_on s ft
                          (m\<lparr>m_fdContexts := (m_fdContexts m)[k := putContext event (e1\<lparr>ev_scheduler := None\<rparr>) c1]\<rparr>))))"

definition contextResize :: "nat \<Rightarrow> 'a iomanager \<Rightarrow> 'a iomanager" where
  "contextResize n m =
     (let cs = m_fdContexts m
      in m\<lparr>m_fdContexts := (if n \<le> length cs then take n cs else cs @ map new_FdContext [length cs..<n])\<rparr>)"

text \<open>The lookup under the read lock: the index, none when the vector is too short.\<close>

definition find_context :: "int \<Rightarrow> 'a iomanager \<Rightarrow> nat option res" where
  "find_context fd m =
     (if fd < int (length (m_fdContexts m)) then (if fd < 0 then Inl OutOfBounds else Inr (Some (nat fd)))
      else Inr None)"

text \<open>\<open>contextResize(fd * 1.5)\<close> and the access behind it, under the write lock.\<close>

definition grow_context :: "int \<Rightarrow> 'a iomanager \<Rightarrow> (nat \<times> 'a iomanager) res" where
  "grow_context fd m =
     (let m1 = contextResize (3 * nat fd div 2) m
      in if nat fd < length (m_fdContexts m1) then Inr (nat fd, m1) else Inl OutOfBounds)"

definition epoll_done :: "epoll_op \<Rightarrow> nat \<Rightarrow> u32 \<Rightarrow> 'a iomanager \<Rightarrow> 'a iomanager" where
  "epoll_done op fd evs m =
     m\<lparr>io_interest := (io_interest m)(fd := (if op = EPOLL_CTL_DEL then None else Some evs))\<rparr>"

text \<open>addEvent once the context is found. \<open>cur\<close> is Scheduler::GetThis(), \<open>f\<close> is Fiber::GetThis().\<close>

definition addEvent_locked ::
  "nat \<Rightarrow> u32 \<Rightarrow> 'a callback option \<Rightarrow> nat option \<Rightarrow> nat \<Rightarrow> bool \<Rightarrow> 'a iomanager \<Rightarrow> (int \<times> 'a iomanager) res" where
  "addEvent_locked k event cb cur f ok m =
     (let c = m_fdContexts m ! k
      in if fc_events c AND event \<noteq> 0 then Inl AssertFailed
         else let op = (if fc_events c \<noteq> 0 then EPOLL_CTL_MOD else EPOLL_CTL_ADD);
                  evs = EPOLLET OR fc_events c OR event
           in if \<not> ok then Inr (-1, m)
              else let m1 = (epoll_done op k evs m)\<lparr>m_pendingEventCount := m_pendingEventCount m + 1\<rparr>;
                       c1 = c\<lparr>fc_events := fc_events c OR event\<rparr>
                in sbind (getContext event c1)
                     (\<lambda>e. if ev_scheduler e \<noteq> None \<or> ev_fiber e \<noteq> None \<or> ev_cb e \<noteq> None then Inl AssertFailed
                          else let e1 = e\<lparr>ev_scheduler := cur\<rparr>
                            in case cb of
                                 Some g \<Rightarrow>
                                   Inr (0, m1\<lparr>m_fdContexts := (m_fdContexts m1)[k := putContext event (e1\<lparr>ev_cb := Some g\<rparr>) c1]\<rparr>)
                               | None \<Rightarrow>
                                   if state_of (sc_heap (io_sched m1)) f \<noteq> Some EXEC then Inl AssertFailed
                                   else Inr (0, m1\<lparr>m_fdContexts := (m_fdContexts m1)[k := putContext event (e1\<lparr>ev_fiber := Some f\<rparr>) c1]\<rparr>)))"

definition addEvent ::
  "int \<Rightarrow> u32 \<Rightarrow> 'a callback option \<Rightarrow> nat option \<Rightarrow> nat \<Rightarrow> bool \<Rightarrow> 'a iomanager \<Rightarrow> (int \<times> 'a iomanager) res" where
  "addEvent fd event cb cur f ok m =
     sbind (find_context fd m)
       (\<lambda>k. case k of
          Some k \<Rightarrow> addEvent_locked k event cb cur f ok m
        | None \<Rightarrow> sbind (grow_context fd m) (\<lambda>(k, m1). addEvent_locked k event cb cur f ok m1))"

definition delEvent :: "int \<Rightarrow> u32 \<Rightarrow> bool \<Rightarrow> 'a iomanager \<Rightarrow> (bool \<times> 'a iomanager) res" where
  "delEvent fd event ok m =
     sbind (find_context fd m)
       (\<lambda>k. case k of
          None \<Rightarrow> Inr (False, m)
        | Some k \<Rightarrow>
            let c = m_fdContexts m ! k
            in if fc_events c AND event = 0 then Inr (False, m)
               else let new_events = fc_events c AND NOT event;
                        op = (if new_events \<noteq> 0 then EPOLL_CTL_MOD else EPOLL_CTL_DEL)
                 in if \<not> ok then Inr (False, m)
                    else let m1 = (epoll_done op k (EPOLLET OR new_events) m)
                               \<lparr>m_pendingEventCount := m_pendingEventCount m - 1\<rparr>;
                             c1 = c\<lparr>fc_events := new_events\<rparr>
                      in sbind (getContext event c1)
                           (\<lambda>e. Inr (True, m1\<lparr>m_fdContexts := (m_fdContexts m1)[k := putContext event (resetContext e) c1]\<rparr>)))"

definition cancelEvent :: "int \<Rightarrow> u32 \<Rightarrow> bool \<Rightarrow> 'a iomanager \<Rightarrow> (bool \<times> 'a iomanager) res" where
  "cancelEvent fd event ok m =
     sbind (find_context fd m)
       (\<lambda>k. case k of
          None \<Rightarrow> Inr (False, m)
        | Some k \<Rightarrow>
            let c = m_fdContexts m ! k
            in if fc_events c AND event = 0 then Inr (False, m)
               else let new_events = fc_events c AND NOT event;
                        op = (if new_events \<noteq> 0 then EPOLL_CTL_MOD else EPOLL_CTL_DEL)
                 in if \<not> ok then Inr (False, m)
                    else sbind (triggerEvent event k (epoll_done op k (EPOLLET OR new_events) m))
                           (\<lambda>m1. Inr (True, m1\<lparr>m_pendingEventCount := m_pendingEventCount m1 - 1\<rparr>)))"

text \<open>\<open>if(events & event) { triggerEvent(event); --m_pendingEventCount; }\<close>, the test being \<open>b\<close>.\<close>

definition trigger_if :: "bool \<Rightarrow> u32 \<Rightarrow> nat \<Rightarrow> 'a iomanager \<Rightarrow> 'a iomanager res" where
  "trigger_if b event k m =
     (if b then sbind (triggerEvent event k m)
        (\<lambda>m1. Inr (m1\<lparr>m_pendingEventCount := m_pendingEventCount m1 - 1\<rparr>))
      else Inr m)"

definition cancelAll :: "int \<Rightarrow> bool \<Rightarrow> 'a iomanager \<Rightarrow> (bool \<times> 'a iomanager) res" where
  "cancelAll fd ok m =
     sbind (find_context fd m)
       (\<lambda>k. case k of
          None \<Rightarrow> Inr (False, m)
        | Some k \<Rightarrow>
            if fc_events (m_fdContexts m ! k) = 0 then Inr (False, m)
            else if \<not> ok then Inr (False, m)
            else sbind (trigger_if (fc_events (m_fdContexts m ! k) AND READ \<noteq> 0) READ k (epoll_done EPOLL_CTL_DEL k 0 m))
                   (\<lambda>m1. sbind (trigger_if (fc_events (m_fdContexts m1 ! k) AND WRITE \<noteq> 0) WRITE k m1)
                      (\<lambda>m2. if fc_events (m_fdContexts m2 ! k) \<noteq> 0 then Inl AssertFailed else Inr (True, m2))))"

section \<open>idle\<close>

text \<open>\<open>stopping(timeout)\<close>: the answer, the time until the next timer and the new state.\<close>

definition io_stopping :: "u64 \<Rightarrow> 'a iomanager \<Rightarrow> bool \<times> u64 \<times> 'a iomanager" where
  "io_stopping now m =
     (let (timeout, tm) = getNextTimer now (io_timers m); m1 = m\<lparr>io_timers := tm\<rparr>
      in (timeout = -1 \<and> m_pendingEventCount m1 = 0 \<and> sched_stopping (io_sched m1), timeout, m1))"

text \<open>The timeout handed to epoll_wait; a conversion to int keeps the low 32 bits.\<close>

definition wait_timeout :: "u64 \<Rightarrow> int" where
  "wait_timeout next =
     (let t = (if next \<noteq> -1 then (if 3000 < sint (ucast next :: u32) then 3000 else next) else 3000)
      in sint (ucast t :: u32))"

text \<open>The body of the loop over the events of epoll_wait, for the context \<open>k\<close> and its event mask.\<close>

definition handle_event :: "nat \<Rightarrow> u32 \<Rightarrow> bool \<Rightarrow> 'a iomanager \<Rightarrow> 'a iomanager res" where
  "handle_event k events ok m =
     (let c = m_fdContexts m ! k;
          ev = (if events AND (EPOLLERR OR EPOLLHUP) \<noteq> 0
                then events OR ((EPOLLIN OR EPOLLOUT) AND fc_events c) else events);
          real_events = (if ev AND EPOLLIN \<noteq> 0 then READ else NONE) OR (if ev AND EPOLLOUT \<noteq> 0 then WRITE else NONE)
      in if fc_events c AND real_events = NONE then Inr m
         else let left_events = fc_events c AND NOT real_events;
                  op = (if left_events \<noteq> 0 then EPOLL_CTL_MOD else EPOLL_CTL_DEL)
           in if \<not> ok then Inr m
              else sbind (trigger_if (real_events AND READ \<noteq> 0) READ k (epoll_done op k (EPOLLET OR left_events) m))
                     (trigger_if (real_events AND WRITE \<noteq> 0) WRITE k))"

datatype ready = Tickle | Ready nat u32 bool

text \<open>One event of epoll_wait: draining the pipe, or a descriptor.\<close>

fun handle_ready :: "ready \<Rightarrow> 'a iomanager \<Rightarrow> 'a iomanager res" where
  "handle_ready Tickle m = Inr (m\<lparr>io_pipe := 0\<rparr>)"
| "handle_ready (Ready k events ok) m = handle_event k events ok m"

fun handle_all :: "ready list \<Rightarrow> 'a iomanager \<Rightarrow> 'a iomanager res" where
  "handle_all [] m = Inr m"
| "handle_all (r # rs) m = sbind (handle_ready r m) (handle_all rs)"

text \<open>
  What one turn of idle does between epoll_wait and swapOut: expired timers first, then the
  events. \<open>now\<close> and \<open>na\<close> are the arguments of listExpiredCb.
\<close>

definition idle_round :: "u64 \<Rightarrow> nat \<Rightarrow> ready list \<Rightarrow> 'a iomanager \<Rightarrow> 'a iomanager res" where
  "idle_round now na rs m =
     sbind (listExpiredCb now na (io_timers m))
       (\<lambda>(cbs, tm).
          let m1 = m\<lparr>io_timers := tm\<rparr>;
              m2 = (if cbs \<noteq> [] then
                      (let (sc, need_tickle) = schedule_all cbs (io_sched m1); m' = m1\<lparr>io_sched := sc\<rparr>
                       in (if need_tickle then io_tickle m' else m'))
                    else m1)
          in handle_all rs m2)"

section \<open>Invariant\<close>

text \<open>
  A set event bit goes with exactly one waiter, a callback or a fiber, and a scheduler to give
  it to; a clear bit with an empty event context.
\<close>

definition waits :: "bool \<Rightarrow> 'c event_context \<Rightarrow> bool" where
  "waits b e \<longleftrightarrow>
     (if b then ev_scheduler e \<noteq> None \<and> (ev_cb e \<noteq> None) \<noteq> (ev_fiber e \<noteq> None)
      else ev_scheduler e = None \<and> ev_fiber e = None \<and> ev_cb e = None)"

definition ctx_ok :: "nat \<Rightarrow> 'c fd_context \<Rightarrow> bool" where
  "ctx_ok k c \<longleftrightarrow> fc_fd c = k \<and> fc_events c \<in> {0, 1, 4, 5} \<and>
     waits (fc_events c AND READ \<noteq> 0) (fc_read c) \<and> waits (fc_events c AND WRITE \<noteq> 0) (fc_write c)"

definition ctx_count :: "'c fd_context \<Rightarrow> nat" where
  "ctx_count c = (if fc_events c AND READ \<noteq> 0 then 1 else 0) + (if fc_events c AND WRITE \<noteq> 0 then 1 else 0)"

definition wanted :: "'c fd_context \<Rightarrow> u32 option" where
  "wanted c = (if fc_events c = 0 then None else Some (EPOLLET OR fc_events c))"

text \<open>
  Every context is consistent, the pending count is the number of set event bits, and the
  kernel waits for exactly the events of the contexts.
\<close>

definition io_ok :: "'a iomanager \<Rightarrow> bool" where
  "io_ok m \<longleftrightarrow>
     (\<forall>k < length (m_fdContexts m). ctx_ok k (m_fdContexts m ! k)) \<and>
     m_pendingEventCount m = sum_list (map ctx_count (m_fdContexts m)) \<and>
     (\<forall>k. io_interest m k = (if k < length (m_fdContexts m) then wanted (m_fdContexts m ! k) else None))"

lemma ctx_ok_new: "ctx_ok k (new_FdContext k)" "ctx_count (new_FdContext k) = 0" "wanted (new_FdContext k) = None"
  by (simp_all add: ctx_ok_def new_FdContext_def empty_context_def waits_def ctx_count_def wanted_def)

text \<open>An operation on one context keeps the invariant when its three effects agree.\<close>

lemma io_ok_upd:
  assumes "io_ok m" "k < length (m_fdContexts m)" "ctx_ok k c"
    "m_fdContexts m' = (m_fdContexts m)[k := c]" "io_interest m' = (io_interest m)(k := wanted c)"
    "m_pendingEventCount m' + ctx_count (m_fdContexts m ! k) = m_pendingEventCount m + ctx_count c"
  shows "io_ok m'"
  using assms sum_list_map_update [OF assms(2), of ctx_count c]
  by (auto simp: io_ok_def nth_list_update)

lemma schedule_on_frame [simp]:
  "m_fdContexts (schedule_on s ft m) = m_fdContexts m" "io_interest (schedule_on s ft m) = io_interest m"
  "m_pendingEventCount (schedule_on s ft m) = m_pendingEventCount m" "io_self (schedule_on s ft m) = io_self m"
  by (auto simp: schedule_on_def io_tickle_def Let_def split: prod.splits)

text \<open>The waiter of an event context, as the task that is scheduled for it.\<close>

definition waiter :: "'c event_context \<Rightarrow> 'c task" where
  "waiter e = \<lparr>ft_fiber = (if ev_cb e \<noteq> None then None else ev_fiber e), ft_cb = ev_cb e, ft_thread = -1\<rparr>"

definition deliver :: "'a callback event_context \<Rightarrow> 'a iomanager \<Rightarrow> 'a iomanager" where
  "deliver e m = schedule_on (the (ev_scheduler e)) (waiter e) m"

definition event_of :: "u32 \<Rightarrow> 'c fd_context \<Rightarrow> 'c event_context" where
  "event_of event c = (if event = READ then fc_read c else fc_write c)"

text \<open>The context after \<open>event\<close> has been triggered or deleted.\<close>

definition dropped :: "u32 \<Rightarrow> 'c fd_context \<Rightarrow> 'c fd_context" where
  "dropped event c =
     putContext event (resetContext (event_of event c)) (c\<lparr>fc_events := fc_events c AND NOT event\<rparr>)"

lemma deliver_frame [simp]:
  "m_fdContexts (deliver e m) = m_fdContexts m" "io_interest (deliver e m) = io_interest m"
  "m_pendingEventCount (deliver e m) = m_pendingEventCount m" "io_self (deliver e m) = io_self m"
  by (simp_all add: deliver_def)

lemma dropped_ok:
  assumes "ctx_ok k c" "event = READ \<or> event = WRITE" "fc_events c AND event \<noteq> 0"
  shows "ctx_ok k (dropped event c)" "ctx_count c = Suc (ctx_count (dropped event c))"
    "fc_events (dropped event c) = fc_events c AND NOT event"
  using assms
  by (auto simp: ctx_ok_def dropped_def putContext_def ctx_count_def waits_def event_of_def resetContext_def)

lemma trigger_spec:
  assumes "ctx_ok k (m_fdContexts m ! k)" "event = READ \<or> event = WRITE" "fc_events (m_fdContexts m ! k) AND event \<noteq> 0"
  shows "triggerEvent event k m =
    Inr (deliver (event_of event (m_fdContexts m ! k))
      (m\<lparr>m_fdContexts := (m_fdContexts m)[k := dropped event (m_fdContexts m ! k)]\<rparr>))"
proof -
  define c where "c = m_fdContexts m ! k"
  define e where "e = event_of event c"
  have ctx: "getContext event (c\<lparr>fc_events := x\<rparr>) = Inr e" for x
    using assms(2) by (auto simp: getContext_def e_def event_of_def)
  have w: "ev_scheduler e \<noteq> None" "(ev_cb e \<noteq> None) \<noteq> (ev_fiber e \<noteq> None)"
    using assms by (auto simp: ctx_ok_def waits_def e_def event_of_def c_def)
  have "ev_fiber e = None" if "ev_cb e \<noteq> None" using w that by auto
  then show ?thesis
    using assms(3) w ctx
    by (cases e) (auto simp: triggerEvent_def Let_def deliver_def waiter_def dropped_def resetContext_def
      c_def [symmetric] e_def [symmetric])
qed

lemma epoll_done_frame [simp]:
  "m_fdContexts (epoll_done op k evs m) = m_fdContexts m"
  "m_pendingEventCount (epoll_done op k evs m) = m_pendingEventCount m"
  "io_interest (epoll_done op k evs m) = (io_interest m)(k := (if op = EPOLL_CTL_DEL then None else Some evs))"
  "io_sched (epoll_done op k evs m) = io_sched m" "io_self (epoll_done op k evs m) = io_self m"
  "io_timers (epoll_done op k evs m) = io_timers m" "io_out (epoll_done op k evs m) = io_out m"
  "io_pipe (epoll_done op k evs m) = io_pipe m"
  by (simp_all add: epoll_done_def)

lemma pending_ge: "io_ok m \<Longrightarrow> k < length (m_fdContexts m) \<Longrightarrow> ctx_count (m_fdContexts m ! k) \<le> m_pendingEventCount m"
  using elem_le_sum_list [of k "map ctx_count (m_fdContexts m)"] by (simp add: io_ok_def)

lemma io_ok_ctx: "io_ok m \<Longrightarrow> k < length (m_fdContexts m) \<Longrightarrow> ctx_ok k (m_fdContexts m ! k)"
  by (simp add: io_ok_def)

lemma trigger_if_spec:
  assumes "trigger_if b event k m = Inr m'" "ctx_ok k (m_fdContexts m ! k)" "event = READ \<or> event = WRITE"
  shows "(b \<longrightarrow> fc_events (m_fdContexts m ! k) AND event \<noteq> 0) \<and>
    m_fdContexts m' = (if b then (m_fdContexts m)[k := dropped event (m_fdContexts m ! k)] else m_fdContexts m) \<and>
    io_interest m' = io_interest m \<and> m_pendingEventCount m' = m_pendingEventCount m - (if b then 1 else 0)"
proof (cases b)
  case True
  have bit: "fc_events (m_fdContexts m ! k) AND event \<noteq> 0"
    using assms(1) True by (auto simp: trigger_if_def triggerEvent_def Let_def)
  then show ?thesis
    using assms(1) True trigger_spec [OF assms(2,3) bit] by (auto simp: trigger_if_def)
qed (use assms in \<open>simp add: trigger_if_def\<close>)

text \<open>What is left of a context when the events \<open>r\<close> (read) and \<open>w\<close> (write) have been triggered.\<close>

definition after_events :: "bool \<Rightarrow> bool \<Rightarrow> 'c fd_context \<Rightarrow> 'c fd_context" where
  "after_events r w c =
     (let c1 = (if r then dropped READ c else c) in if w then dropped WRITE c1 else c1)"

lemma after_events_ok:
  assumes "ctx_ok k c" "r \<longrightarrow> fc_events c AND READ \<noteq> 0" "w \<longrightarrow> fc_events c AND WRITE \<noteq> 0"
  shows "ctx_ok k (after_events r w c)"
    "ctx_count c = ctx_count (after_events r w c) + (if r then 1 else 0) + (if w then 1 else 0)"
    "fc_events (after_events r w c) = fc_events c AND NOT ((if r then READ else 0) OR (if w then WRITE else 0))"
proof -
  have e: "fc_events c \<in> {0, 1, 4, 5}" using assms(1) by (simp add: ctx_ok_def)
  define c1 where "c1 = (if r then dropped READ c else c)"
  have 1: "ctx_ok k c1" "ctx_count c = ctx_count c1 + (if r then 1 else 0)"
    "fc_events c1 = fc_events c AND NOT (if r then READ else 0)"
    using assms(1,2) dropped_ok [of k c READ] by (auto simp: c1_def)
  have w1: "w \<longrightarrow> fc_events c1 AND WRITE \<noteq> 0" using assms(3) e 1(3) by auto
  have c: "after_events r w c = (if w then dropped WRITE c1 else c1)" by (simp add: after_events_def c1_def)
  show "ctx_ok k (after_events r w c)"
    "ctx_count c = ctx_count (after_events r w c) + (if r then 1 else 0) + (if w then 1 else 0)"
    unfolding c using 1 w1 dropped_ok [of k c1 WRITE] by auto
  show "fc_events (after_events r w c) = fc_events c AND NOT ((if r then READ else 0) OR (if w then WRITE else 0))"
    unfolding c using 1(1,3) w1 dropped_ok(3) [of k c1 WRITE] e by auto
qed

lemma triggers_ok:
  assumes "io_ok m" "k < length (m_fdContexts m)"
    "sbind (trigger_if r READ k (epoll_done op k evs m)) (trigger_if w WRITE k) = Inr m'"
    "left = fc_events (m_fdContexts m ! k) AND NOT ((if r then READ else 0) OR (if w then WRITE else 0))"
    "(if op = EPOLL_CTL_DEL then None else Some evs) = (if left = 0 then None else Some (EPOLLET OR left))"
  shows "io_ok m' \<and> m_fdContexts m' = (m_fdContexts m)[k := after_events r w (m_fdContexts m ! k)]"
proof -
  let ?c = "m_fdContexts m ! k" and ?m0 = "epoll_done op k evs m"
  have c: "ctx_ok k ?c" using io_ok_ctx [OF assms(1,2)] .
  obtain m1 where m1: "trigger_if r READ k ?m0 = Inr m1" "trigger_if w WRITE k m1 = Inr m'"
    using assms(3) by (auto elim: sbind_eq_InrE)
  have 1: "r \<longrightarrow> fc_events ?c AND READ \<noteq> 0"
    "m_fdContexts m1 = (m_fdContexts m)[k := (if r then dropped READ ?c else ?c)]"
    "io_interest m1 = io_interest ?m0" "m_pendingEventCount m1 = m_pendingEventCount m - (if r then 1 else 0)"
    using trigger_if_spec [OF m1(1)] c by (auto simp: list_update_id)
  have c1: "m_fdContexts m1 ! k = (if r then dropped READ ?c else ?c)" using 1(2) assms(2) by simp
  have ok1: "ctx_ok k (m_fdContexts m1 ! k)" using 1(1) c dropped_ok [of k ?c READ] unfolding c1 by auto
  have 2: "w \<longrightarrow> fc_events (m_fdContexts m1 ! k) AND WRITE \<noteq> 0"
    "m_fdContexts m' = (m_fdContexts m)[k := after_events r w ?c]"
    "io_interest m' = io_interest ?m0"
    "m_pendingEventCount m' = m_pendingEventCount m - (if r then 1 else 0) - (if w then 1 else 0)"
    using trigger_if_spec [OF m1(2) ok1] 1 c1 by (auto simp: after_events_def)
  have w: "w \<longrightarrow> fc_events ?c AND WRITE \<noteq> 0"
    using 2(1) c 1(1) dropped_ok(3) [of k ?c READ] unfolding c1 by (auto simp: ctx_ok_def split: if_splits)
  note fin = after_events_ok [OF c 1(1) w]
  have "io_ok m'"
  proof (rule io_ok_upd [OF assms(1,2) fin(1) 2(2)])
    show "io_interest m' = (io_interest m)(k := wanted (after_events r w ?c))"
      using 2(3) assms(4,5) fin(3) by (simp add: wanted_def)
    show "m_pendingEventCount m' + ctx_count ?c = m_pendingEventCount m + ctx_count (after_events r w ?c)"
      using 2(4) fin(2) pending_ge [OF assms(1,2)] by (auto split: if_splits)
  qed
  then show ?thesis using 2(2) by blast
qed

subsection \<open>Every operation keeps it\<close>

text \<open>The context with a new waiter.\<close>

definition added :: "u32 \<Rightarrow> nat option \<Rightarrow> 'c option \<Rightarrow> nat \<Rightarrow> 'c fd_context \<Rightarrow> 'c fd_context" where
  "added event cur cb f c =
     putContext event \<lparr>ev_scheduler = cur, ev_fiber = (if cb = None then Some f else None), ev_cb = cb\<rparr>
       (c\<lparr>fc_events := fc_events c OR event\<rparr>)"

lemma added_ok:
  assumes "ctx_ok k c" "event = READ \<or> event = WRITE" "fc_events c AND event = 0" "cur \<noteq> None"
  shows "ctx_ok k (added event cur cb f c)" "ctx_count (added event cur cb f c) = Suc (ctx_count c)"
    "wanted (added event cur cb f c) = Some (EPOLLET OR fc_events c OR event)"
  using assms
  by (auto simp: ctx_ok_def added_def putContext_def ctx_count_def waits_def wanted_def)

lemma addEvent_locked_spec:
  assumes "io_ok m" "k < length (m_fdContexts m)" "event = READ \<or> event = WRITE" "cur \<noteq> None"
    "fc_events (m_fdContexts m ! k) AND event = 0"
    "cb \<noteq> None \<or> state_of (sc_heap (io_sched m)) f = Some EXEC"
  shows "addEvent_locked k event cb cur f True m =
    Inr (0, (epoll_done (if fc_events (m_fdContexts m ! k) \<noteq> 0 then EPOLL_CTL_MOD else EPOLL_CTL_ADD) k
          (EPOLLET OR fc_events (m_fdContexts m ! k) OR event) m)
      \<lparr>m_pendingEventCount := m_pendingEventCount m + 1,
       m_fdContexts := (m_fdContexts m)[k := added event cur cb f (m_fdContexts m ! k)]\<rparr>)"
proof -
  define c where "c = m_fdContexts m ! k"
  define e where "e = event_of event c"
  have ctx: "getContext event (c\<lparr>fc_events := x\<rparr>) = Inr e" for x
    using assms(3) by (auto simp: getContext_def e_def event_of_def)
  have "ev_scheduler e = None" "ev_fiber e = None" "ev_cb e = None"
    using io_ok_ctx [OF assms(1,2)] assms(3,5) by (auto simp: ctx_ok_def waits_def e_def event_of_def c_def)
  then show ?thesis
    using assms(5,6) ctx
    by (cases e) (auto simp: addEvent_locked_def Let_def added_def c_def [symmetric] e_def [symmetric] split: option.splits)
qed

lemma addEvent_locked_ok:
  assumes "io_ok m" "k < length (m_fdContexts m)" "event = READ \<or> event = WRITE" "cur \<noteq> None"
    "addEvent_locked k event cb cur f ok m = Inr (rt, m')"
  shows "io_ok m'"
proof (cases "ok")
  case False
  then show ?thesis using assms by (auto simp: addEvent_locked_def Let_def split: if_splits)
next
  case True
  have bit: "fc_events (m_fdContexts m ! k) AND event = 0"
    using assms(5) by (auto simp: addEvent_locked_def Let_def split: if_splits)
  have f: "cb \<noteq> None \<or> state_of (sc_heap (io_sched m)) f = Some EXEC"
    using assms(5) True by (auto simp: addEvent_locked_def Let_def elim!: sbind_eq_InrE split: if_splits option.splits)
  note spec = addEvent_locked_spec [OF assms(1-4) bit f]
  note new = added_ok [OF io_ok_ctx [OF assms(1,2)] assms(3) bit assms(4), of cb f]
  show ?thesis
    by (rule io_ok_upd [OF assms(1,2) new(1)]) (use assms(5) True spec new in auto)
qed

lemma contextResize_ok:
  assumes "io_ok m" "length (m_fdContexts m) \<le> n"
  shows "io_ok (contextResize n m)" "length (m_fdContexts (contextResize n m)) = n"
proof -
  let ?cs = "m_fdContexts m"
  have cs: "m_fdContexts (contextResize n m) = ?cs @ map new_FdContext [length ?cs..<n]"
    using assms(2) by (auto simp: contextResize_def Let_def)
  then show len: "length (m_fdContexts (contextResize n m)) = n" using assms(2) by simp
  have nth: "m_fdContexts (contextResize n m) ! k = (if k < length ?cs then ?cs ! k else new_FdContext k)"
    if "k < n" for k using that unfolding cs by (auto simp: nth_append)
  have fr: "m_pendingEventCount (contextResize n m) = m_pendingEventCount m"
    "io_interest (contextResize n m) = io_interest m"
    by (simp_all add: contextResize_def Let_def)
  show "io_ok (contextResize n m)"
    unfolding io_ok_def fr len
  proof (intro conjI allI impI)
    fix k assume "k < n"
    then show "ctx_ok k (m_fdContexts (contextResize n m) ! k)"
      using assms(1) by (simp add: nth io_ok_def ctx_ok_new)
  next
    show "m_pendingEventCount m = sum_list (map ctx_count (m_fdContexts (contextResize n m)))"
      using assms(1) unfolding cs by (simp add: io_ok_def ctx_ok_new)
  next
    fix k
    show "io_interest m k = (if k < n then wanted (m_fdContexts (contextResize n m) ! k) else None)"
      using assms by (simp add: nth io_ok_def ctx_ok_new)
  qed
qed

lemma find_contextD:
  "find_context fd m = Inr (Some k) \<Longrightarrow> k = nat fd \<and> k < length (m_fdContexts m) \<and> 0 \<le> fd"
  "find_context fd m = Inr None \<Longrightarrow> int (length (m_fdContexts m)) \<le> fd"
  by (auto simp: find_context_def split: if_splits)

lemma addEvent_ok:
  assumes "io_ok m" "event = READ \<or> event = WRITE" "cur \<noteq> None" "2 \<le> length (m_fdContexts m)"
    "addEvent fd event cb cur f ok m = Inr (rt, m')"
  shows "io_ok m'"
proof -
  obtain ko where ko: "find_context fd m = Inr ko" using assms(5) by (auto simp: addEvent_def elim: sbind_eq_InrE)
  show ?thesis
  proof (cases ko)
    case (Some k)
    then show ?thesis
      using assms ko find_contextD(1) [of fd m k] by (auto simp: addEvent_def intro: addEvent_locked_ok)
  next
    case None
    then have big: "int (length (m_fdContexts m)) \<le> fd" using ko find_contextD(2) by simp
    let ?m1 = "contextResize (3 * nat fd div 2) m"
    have "length (m_fdContexts m) \<le> 3 * nat fd div 2" "nat fd < 3 * nat fd div 2" using big assms(4) by linarith+
    then have "io_ok ?m1" "nat fd < length (m_fdContexts ?m1)"
      using contextResize_ok [OF assms(1)] by auto
    then show ?thesis
      using assms(2,3,5) ko None by (auto simp: addEvent_def grow_context_def Let_def intro: addEvent_locked_ok)
  qed
qed

lemma delEvent_ok:
  assumes "io_ok m" "event = READ \<or> event = WRITE" "delEvent fd event ok m = Inr (b, m')"
  shows "io_ok m'"
proof (cases "m' = m")
  case False
  then obtain k where k: "find_context fd m = Inr (Some k)" "fc_events (m_fdContexts m ! k) AND event \<noteq> 0" "ok"
    using assms(3) by (auto simp: delEvent_def Let_def elim!: sbind_eq_InrE split: option.splits if_splits)
  let ?c = "m_fdContexts m ! k"
  have len: "k < length (m_fdContexts m)" using find_contextD(1) [OF k(1)] by simp
  have ctx: "getContext event (?c\<lparr>fc_events := x\<rparr>) = Inr (event_of event ?c)" for x
    using assms(2) by (auto simp: getContext_def event_of_def)
  have m': "m_fdContexts m' = (m_fdContexts m)[k := dropped event ?c]"
    "m_pendingEventCount m' = m_pendingEventCount m - 1"
    "io_interest m' = (io_interest m)(k := (if fc_events ?c AND NOT event \<noteq> 0
       then Some (EPOLLET OR (fc_events ?c AND NOT event)) else None))"
    using assms(3) k ctx by (auto simp: delEvent_def Let_def dropped_def)
  note d = dropped_ok [OF io_ok_ctx [OF assms(1) len] assms(2) k(2)]
  show ?thesis
    by (rule io_ok_upd [OF assms(1) len d(1) m'(1)])
       (use m'(2,3) d(2,3) pending_ge [OF assms(1) len] in \<open>auto simp: wanted_def\<close>)
qed (use assms in simp)

lemma cancelEvent_spec:
  assumes "io_ok m" "event = READ \<or> event = WRITE" "find_context fd m = Inr (Some k)"
    "fc_events (m_fdContexts m ! k) AND event \<noteq> 0"
  shows "\<exists>m'. cancelEvent fd event True m = Inr (True, m') \<and> io_ok m' \<and>
    m_fdContexts m' = (m_fdContexts m)[k := dropped event (m_fdContexts m ! k)] \<and>
    io_sched m' = io_sched (deliver (event_of event (m_fdContexts m ! k)) m) \<and>
    io_out m' = io_out (deliver (event_of event (m_fdContexts m ! k)) m)"
proof -
  let ?c = "m_fdContexts m ! k"
  have len: "k < length (m_fdContexts m)" using find_contextD(1) [OF assms(3)] by simp
  let ?op = "if fc_events ?c AND NOT event \<noteq> 0 then EPOLL_CTL_MOD else EPOLL_CTL_DEL"
  let ?m1 = "epoll_done ?op k (EPOLLET OR (fc_events ?c AND NOT event)) m"
  let ?m2 = "deliver (event_of event ?c) (?m1\<lparr>m_fdContexts := (m_fdContexts m)[k := dropped event ?c]\<rparr>)"
  have "triggerEvent event k ?m1 = Inr ?m2"
    using trigger_spec [of k ?m1 event] io_ok_ctx [OF assms(1) len] assms(2,4) by simp
  then have eq: "cancelEvent fd event True m = Inr (True, ?m2\<lparr>m_pendingEventCount := m_pendingEventCount ?m2 - 1\<rparr>)"
    using assms(3,4) by (simp add: cancelEvent_def Let_def)
  note d = dropped_ok [OF io_ok_ctx [OF assms(1) len] assms(2,4)]
  have "io_ok (?m2\<lparr>m_pendingEventCount := m_pendingEventCount ?m2 - 1\<rparr>)"
    by (rule io_ok_upd [OF assms(1) len d(1)])
       (use d(2,3) pending_ge [OF assms(1) len] in \<open>auto simp: wanted_def\<close>)
  moreover have "io_sched ?m2 = io_sched (deliver (event_of event ?c) m)" "io_out ?m2 = io_out (deliver (event_of event ?c) m)"
    by (auto simp: deliver_def schedule_on_def io_tickle_def Let_def split: prod.splits)
  ultimately show ?thesis
    using eq by (intro exI [of _ "?m2\<lparr>m_pendingEventCount := m_pendingEventCount ?m2 - 1\<rparr>"]) simp
qed

text \<open>cancelAll delivers whoever waits, reader first, and leaves the context empty.\<close>

lemma trigger_if_total:
  assumes "b \<longrightarrow> fc_events (m_fdContexts m ! k) AND event \<noteq> 0" "ctx_ok k (m_fdContexts m ! k)"
    "event = READ \<or> event = WRITE"
  shows "\<exists>m'. trigger_if b event k m = Inr m' \<and>
    io_sched m' = io_sched (if b then deliver (event_of event (m_fdContexts m ! k)) m else m) \<and>
    io_out m' = io_out (if b then deliver (event_of event (m_fdContexts m ! k)) m else m) \<and> io_self m' = io_self m"
proof (cases b)
  case True
  then have "fc_events (m_fdContexts m ! k) AND event \<noteq> 0" using assms(1) by simp
  from trigger_spec [OF assms(2,3) this] True show ?thesis
    by (auto simp: trigger_if_def deliver_def schedule_on_def io_tickle_def Let_def split: prod.splits)
qed (simp add: trigger_if_def)

lemma deliver_cong:
  assumes "io_sched a = io_sched b" "io_out a = io_out b" "io_self a = io_self b"
  shows "io_sched (deliver e a) = io_sched (deliver e b)" "io_out (deliver e a) = io_out (deliver e b)"
  using assms by (auto simp: deliver_def schedule_on_def io_tickle_def Let_def split: prod.splits)

definition deliver_if :: "bool \<Rightarrow> 'a callback event_context \<Rightarrow> 'a iomanager \<Rightarrow> 'a iomanager" where
  "deliver_if b e m = (if b then deliver e m else m)"

text \<open>Two triggers in a row, for the events whose bits are set.\<close>

lemma triggers_total:
  assumes "io_ok m" "k < length (m_fdContexts m)"
    "r \<longrightarrow> fc_events (m_fdContexts m ! k) AND READ \<noteq> 0" "w \<longrightarrow> fc_events (m_fdContexts m ! k) AND WRITE \<noteq> 0"
  shows "\<exists>m'. sbind (trigger_if r READ k (epoll_done op k evs m)) (trigger_if w WRITE k) = Inr m' \<and>
    io_sched m' = io_sched (deliver_if w (fc_write (m_fdContexts m ! k)) (deliver_if r (fc_read (m_fdContexts m ! k)) m)) \<and>
    io_out m' = io_out (deliver_if w (fc_write (m_fdContexts m ! k)) (deliver_if r (fc_read (m_fdContexts m ! k)) m))"
proof -
  let ?m0 = "epoll_done op k evs m" and ?c = "m_fdContexts m ! k"
  have c: "ctx_ok k ?c" using io_ok_ctx [OF assms(1,2)] .
  obtain m1 where m1: "trigger_if r READ k ?m0 = Inr m1"
      "io_sched m1 = io_sched (if r then deliver (fc_read ?c) ?m0 else ?m0)"
      "io_out m1 = io_out (if r then deliver (fc_read ?c) ?m0 else ?m0)" "io_self m1 = io_self m"
    using trigger_if_total [of r ?m0 k READ] c assms(3) by (auto simp: event_of_def)
  have c1: "m_fdContexts m1 ! k = (if r then dropped READ ?c else ?c)"
    using trigger_if_spec [OF m1(1)] c assms(2) by auto
  have ok1: "ctx_ok k (m_fdContexts m1 ! k)" "w \<longrightarrow> fc_events (m_fdContexts m1 ! k) AND WRITE \<noteq> 0"
    "event_of WRITE (m_fdContexts m1 ! k) = fc_write ?c"
    using assms(3,4) c dropped_ok [of k ?c READ] unfolding c1
    by (auto simp: ctx_ok_def event_of_def dropped_def putContext_def)
  obtain m2 where m2: "trigger_if w WRITE k m1 = Inr m2"
      "io_sched m2 = io_sched (if w then deliver (fc_write ?c) m1 else m1)"
      "io_out m2 = io_out (if w then deliver (fc_write ?c) m1 else m1)"
    using trigger_if_total [of w m1 k WRITE] ok1 by auto
  have "io_sched m1 = io_sched (deliver_if r (fc_read ?c) m)" "io_out m1 = io_out (deliver_if r (fc_read ?c) m)"
    "io_self m1 = io_self (deliver_if r (fc_read ?c) m)"
    using m1(2-4) deliver_cong [of ?m0 m "fc_read ?c"] by (auto simp: deliver_if_def)
  then show ?thesis
    using m1(1) m2 deliver_cong [of m1 "deliver_if r (fc_read ?c) m" "fc_write ?c"]
    by (auto simp: deliver_if_def)
qed

lemma events_and_simps: "ctx_ok k c \<Longrightarrow>
    fc_events c AND NOT ((if fc_events c AND READ \<noteq> 0 then READ else 0) OR
      (if fc_events c AND WRITE \<noteq> 0 then WRITE else 0)) = 0"
  by (auto simp: ctx_ok_def)

lemma cancelAll_spec:
  assumes "io_ok m" "find_context fd m = Inr (Some k)" "fc_events (m_fdContexts m ! k) \<noteq> 0"
  shows "\<exists>m'. cancelAll fd True m = Inr (True, m') \<and> io_ok m' \<and>
    fc_events (m_fdContexts m' ! k) = 0 \<and> length (m_fdContexts m') = length (m_fdContexts m) \<and>
    io_sched m' = io_sched (deliver_if (fc_events (m_fdContexts m ! k) AND WRITE \<noteq> 0) (fc_write (m_fdContexts m ! k))
      (deliver_if (fc_events (m_fdContexts m ! k) AND READ \<noteq> 0) (fc_read (m_fdContexts m ! k)) m))"
proof -
  have len: "k < length (m_fdContexts m)" using find_contextD(1) [OF assms(2)] by simp
  let ?c = "m_fdContexts m ! k"
  let ?r = "fc_events ?c AND READ \<noteq> 0" and ?w = "fc_events ?c AND WRITE \<noteq> 0"
  have c: "ctx_ok k ?c" using io_ok_ctx [OF assms(1) len] .
  obtain m1 m2 where m: "trigger_if ?r READ k (epoll_done EPOLL_CTL_DEL k 0 m) = Inr m1"
      "trigger_if ?w WRITE k m1 = Inr m2"
      "io_sched m2 = io_sched (deliver_if ?w (fc_write ?c) (deliver_if ?r (fc_read ?c) m))"
    using triggers_total [OF assms(1) len, of ?r ?w EPOLL_CTL_DEL 0] by (auto elim!: sbind_eq_InrE)
  have bind: "sbind (trigger_if ?r READ k (epoll_done EPOLL_CTL_DEL k 0 m)) (trigger_if ?w WRITE k) = Inr m2"
    using m by simp
  have fin: "io_ok m2 \<and> m_fdContexts m2 = (m_fdContexts m)[k := after_events ?r ?w ?c]"
    by (rule triggers_ok [OF assms(1) len bind refl]) (use events_and_simps [OF c] in simp)
  have zero: "fc_events (m_fdContexts m2 ! k) = 0"
    using fin len after_events_ok(3) [OF c, of ?r ?w] events_and_simps [OF c] by simp
  have "m_fdContexts m1 ! k = (if ?r then dropped READ ?c else ?c)"
    using trigger_if_spec [OF m(1)] c len by auto
  then have "(fc_events (m_fdContexts m1 ! k) AND WRITE \<noteq> 0) = ?w"
    using c dropped_ok(3) [of k ?c READ] by (auto simp: ctx_ok_def)
  then have "cancelAll fd True m = Inr (True, m2)"
    using assms(2,3) m zero by (simp add: cancelAll_def)
  then show ?thesis using fin zero m(3) by auto
qed

lemma real_events_bits:
  "(((if r then READ else NONE) OR (if w then WRITE else NONE)) AND READ \<noteq> (0 :: u32)) = r"
  "(((if r then READ else NONE) OR (if w then WRITE else NONE)) AND WRITE \<noteq> (0 :: u32)) = w"
  by auto

text \<open>The events of epoll that concern the context \<open>c\<close>: readable, writable.\<close>

definition sees :: "u32 \<Rightarrow> u32 \<Rightarrow> 'c fd_context \<Rightarrow> bool" where
  "sees flag events c \<longleftrightarrow>
     ((if events AND (EPOLLERR OR EPOLLHUP) \<noteq> 0
       then events OR ((EPOLLIN OR EPOLLOUT) AND fc_events c) else events) AND flag) \<noteq> 0"

lemma handle_event_eq:
  assumes "r = sees EPOLLIN events (m_fdContexts m ! k)" "w = sees EPOLLOUT events (m_fdContexts m ! k)"
    "left = fc_events (m_fdContexts m ! k) AND NOT ((if r then READ else 0) OR (if w then WRITE else 0))"
  shows "handle_event k events ok m =
    (if fc_events (m_fdContexts m ! k) AND ((if r then READ else 0) OR (if w then WRITE else 0)) = 0 \<or> \<not> ok then Inr m
     else sbind (trigger_if r READ k (epoll_done (if left \<noteq> 0 then EPOLL_CTL_MOD else EPOLL_CTL_DEL) k (EPOLLET OR left) m))
            (trigger_if w WRITE k))"
proof -
  let ?c = "m_fdContexts m ! k"
  let ?ev = "if events AND (EPOLLERR OR EPOLLHUP) \<noteq> 0
    then events OR ((EPOLLIN OR EPOLLOUT) AND fc_events ?c) else events"
  have r: "(?ev AND EPOLLIN \<noteq> 0) = r" and w: "(?ev AND EPOLLOUT \<noteq> 0) = w"
    unfolding assms(1,2) sees_def by (rule refl)+
  show ?thesis
    unfolding handle_event_def Let_def r w real_events_bits assms(3) by (cases "ok") simp_all
qed

lemma handle_event_ok:
  assumes "io_ok m" "k < length (m_fdContexts m)" "handle_event k events ok m = Inr m'"
  shows "io_ok m' \<and> length (m_fdContexts m') = length (m_fdContexts m)"
proof (cases "m' = m")
  case False
  let ?c = "m_fdContexts m ! k"
  define r where "r = sees EPOLLIN events ?c"
  define w where "w = sees EPOLLOUT events ?c"
  define left where "left = fc_events ?c AND NOT ((if r then READ else 0) OR (if w then WRITE else 0))"
  have "sbind (trigger_if r READ k (epoll_done (if left \<noteq> 0 then EPOLL_CTL_MOD else EPOLL_CTL_DEL) k (EPOLLET OR left) m))
      (trigger_if w WRITE k) = Inr m'"
    using assms(3) False handle_event_eq [OF r_def w_def left_def] by (auto split: if_splits)
  from triggers_ok [OF assms(1,2) this left_def] show ?thesis by auto
qed (use assms in simp)

text \<open>
  When epoll reports nothing but events that somebody waits for, all their waiters are
  delivered, the reader first, and nobody else is touched.
\<close>

lemma handle_event_total:
  assumes "io_ok m" "k < length (m_fdContexts m)"
    "r = sees EPOLLIN events (m_fdContexts m ! k)" "w = sees EPOLLOUT events (m_fdContexts m ! k)"
    "r \<longrightarrow> fc_events (m_fdContexts m ! k) AND READ \<noteq> 0" "w \<longrightarrow> fc_events (m_fdContexts m ! k) AND WRITE \<noteq> 0"
  shows "\<exists>m'. handle_event k events True m = Inr m' \<and> io_ok m' \<and>
    m_fdContexts m' = (m_fdContexts m)[k := after_events r w (m_fdContexts m ! k)] \<and>
    io_sched m' = io_sched (deliver_if w (fc_write (m_fdContexts m ! k)) (deliver_if r (fc_read (m_fdContexts m ! k)) m)) \<and>
    io_out m' = io_out (deliver_if w (fc_write (m_fdContexts m ! k)) (deliver_if r (fc_read (m_fdContexts m ! k)) m))"
proof (cases "r \<or> w")
  case False
  then have "handle_event k events True m = Inr m" using handle_event_eq [OF assms(3,4) refl] by simp
  then show ?thesis using False assms(1) by (simp add: after_events_def deliver_if_def)
next
  case True
  let ?c = "m_fdContexts m ! k"
  define left where "left = fc_events ?c AND NOT ((if r then READ else 0) OR (if w then WRITE else 0))"
  let ?op = "if left \<noteq> 0 then EPOLL_CTL_MOD else EPOLL_CTL_DEL"
  have "fc_events ?c AND ((if r then READ else 0) OR (if w then WRITE else 0)) \<noteq> 0"
    using True assms(5,6) io_ok_ctx [OF assms(1,2)] by (auto simp: ctx_ok_def)
  then have eq: "handle_event k events True m =
      sbind (trigger_if r READ k (epoll_done ?op k (EPOLLET OR left) m)) (trigger_if w WRITE k)"
    using handle_event_eq [OF assms(3,4) left_def] by simp
  obtain m' where m': "sbind (trigger_if r READ k (epoll_done ?op k (EPOLLET OR left) m)) (trigger_if w WRITE k) = Inr m'"
      "io_sched m' = io_sched (deliver_if w (fc_write ?c) (deliver_if r (fc_read ?c) m))"
      "io_out m' = io_out (deliver_if w (fc_write ?c) (deliver_if r (fc_read ?c) m))"
    using triggers_total [OF assms(1,2,5,6)] by blast
  have "io_ok m' \<and> m_fdContexts m' = (m_fdContexts m)[k := after_events r w ?c]"
    by (rule triggers_ok [OF assms(1,2) m'(1) left_def]) auto
  then show ?thesis using eq m' by auto
qed

section \<open>Histories\<close>

text \<open>
  Any thread registers, deletes, cancels or handles events; meanwhile the queue of the
  scheduler, the timers, the pipe and the other schedulers change in any way.
\<close>

inductive io_step :: "'a iomanager \<Rightarrow> 'a iomanager \<Rightarrow> bool" where
  io_add: "event = READ \<or> event = WRITE \<Longrightarrow> cur \<noteq> None \<Longrightarrow>
    addEvent fd event cb cur f ok m = Inr (rt, m') \<Longrightarrow> io_step m m'"
| io_del: "event = READ \<or> event = WRITE \<Longrightarrow> delEvent fd event ok m = Inr (b, m') \<Longrightarrow> io_step m m'"
| io_cancel: "event = READ \<or> event = WRITE \<Longrightarrow> cancelEvent fd event ok m = Inr (b, m') \<Longrightarrow> io_step m m'"
| io_cancel_all: "cancelAll fd ok m = Inr (b, m') \<Longrightarrow> io_step m m'"
| io_handle: "k < length (m_fdContexts m) \<Longrightarrow> handle_event k events ok m = Inr m' \<Longrightarrow> io_step m m'"
| io_other: "io_step m (m\<lparr>io_sched := sc, io_timers := tm, io_pipe := n, io_out := outs\<rparr>)"

definition new_IOManager :: "nat \<Rightarrow> 'a callback scheduler \<Rightarrow> u64 \<Rightarrow> 'a iomanager" where
  "new_IOManager self sc now =
     contextResize 32
       \<lparr>io_self = self, io_sched = sc, io_timers = new_TimerManager now, m_fdContexts = [],
        m_pendingEventCount = 0, io_interest = Map.empty, io_out = [], io_pipe = 0\<rparr>"

inductive io_reachable :: "'a iomanager \<Rightarrow> bool" where
  io_new: "io_reachable (new_IOManager self sc now)"
| io_next: "io_reachable m \<Longrightarrow> io_step m m' \<Longrightarrow> io_reachable m'"

definition io_inv :: "'a iomanager \<Rightarrow> bool" where
  "io_inv m \<longleftrightarrow> io_ok m \<and> 32 \<le> length (m_fdContexts m)"

lemma io_new_inv: "io_inv (new_IOManager self sc now)"
proof -
  let ?m = "\<lparr>io_self = self, io_sched = sc, io_timers = new_TimerManager now, m_fdContexts = [],
        m_pendingEventCount = 0, io_interest = Map.empty, io_out = [], io_pipe = 0\<rparr>"
  have "io_ok ?m" by (simp add: io_ok_def)
  then show ?thesis using contextResize_ok [of ?m 32] by (simp add: io_inv_def new_IOManager_def)
qed

lemma addEvent_locked_length:
  "addEvent_locked k event cb cur f ok m = Inr (rt, m') \<Longrightarrow> length (m_fdContexts m') = length (m_fdContexts m)"
  by (auto simp: addEvent_locked_def Let_def elim!: sbind_eq_InrE split: if_splits option.splits)

lemma addEvent_length:
  assumes "addEvent fd event cb cur f ok m = Inr (rt, m')" "32 \<le> length (m_fdContexts m)"
  shows "32 \<le> length (m_fdContexts m')"
proof -
  obtain ko where ko: "find_context fd m = Inr ko" using assms(1) by (auto simp: addEvent_def elim: sbind_eq_InrE)
  show ?thesis
  proof (cases ko)
    case (Some k)
    then show ?thesis using assms ko by (auto simp: addEvent_def dest: addEvent_locked_length)
  next
    case None
    then have "int (length (m_fdContexts m)) \<le> fd" using ko find_contextD(2) by simp
    then have "32 \<le> nat fd" using assms(2) by linarith
    then show ?thesis
      using assms(1) ko None
      by (auto simp: addEvent_def grow_context_def Let_def elim!: sbind_eq_InrE split: if_splits
          dest!: addEvent_locked_length)
  qed
qed

lemma delEvent_length: "delEvent fd event ok m = Inr (b, m') \<Longrightarrow> length (m_fdContexts m') = length (m_fdContexts m)"
  by (auto simp: delEvent_def Let_def elim!: sbind_eq_InrE split: option.splits if_splits)

lemma cancelEvent_ok:
  assumes "io_ok m" "event = READ \<or> event = WRITE" "cancelEvent fd event ok m = Inr (b, m')"
  shows "io_ok m' \<and> length (m_fdContexts m') = length (m_fdContexts m)"
proof (cases "m' = m")
  case False
  then obtain k where "find_context fd m = Inr (Some k)" "fc_events (m_fdContexts m ! k) AND event \<noteq> 0" "ok"
    using assms(3) by (auto simp: cancelEvent_def Let_def elim!: sbind_eq_InrE split: option.splits if_splits)
  then show ?thesis using cancelEvent_spec [OF assms(1,2)] assms(3) by fastforce
qed (use assms in simp)

lemma cancelAll_ok:
  assumes "io_ok m" "cancelAll fd ok m = Inr (b, m')"
  shows "io_ok m' \<and> length (m_fdContexts m') = length (m_fdContexts m)"
proof (cases "m' = m")
  case False
  then obtain k where "find_context fd m = Inr (Some k)" "fc_events (m_fdContexts m ! k) \<noteq> 0" "ok"
    using assms(2) by (auto simp: cancelAll_def elim!: sbind_eq_InrE split: option.splits if_splits)
  then show ?thesis using cancelAll_spec [OF assms(1)] assms(2) by fastforce
qed (use assms in simp)

lemma io_step_inv: "io_step m m' \<Longrightarrow> io_inv m \<Longrightarrow> io_inv m'"
proof (induction rule: io_step.induct)
  case (io_add event cur fd cb f ok m rt m')
  then show ?case using addEvent_ok [of m event cur fd cb f ok rt m'] addEvent_length by (auto simp: io_inv_def)
next
  case (io_del event fd ok m b m')
  then show ?case using delEvent_ok [of m event fd ok b m'] delEvent_length by (fastforce simp: io_inv_def)
next
  case (io_cancel event fd ok m b m')
  then show ?case using cancelEvent_ok [of m event fd ok b m'] by (auto simp: io_inv_def)
next
  case (io_cancel_all fd ok m b m')
  then show ?case using cancelAll_ok [of m fd ok b m'] by (auto simp: io_inv_def)
next
  case (io_handle k m events ok m')
  then show ?case using handle_event_ok [of m k events ok m'] by (auto simp: io_inv_def)
next
  case (io_other m sc tm n outs)
  then show ?case by (simp add: io_inv_def io_ok_def)
qed

lemma io_reachable_inv: "io_reachable m \<Longrightarrow> io_inv m"
  by (induction rule: io_reachable.induct) (auto simp: io_new_inv io_step_inv)

section \<open>Properties\<close>


text \<open>A manager, and the same with a callback waiting to read descriptor 3.\<close>

definition idle_io :: "unit iomanager" where
  "idle_io = new_IOManager 7
     \<lparr>sc_heap = \<lparr>fibers = Map.empty, s_fiber_id = 0, s_fiber_count = 0\<rparr>, m_fibers = [], m_threads = 1,
      m_threadCount = 1, m_activeThreadCount = 0, m_idleThreadCount = 1, m_stopping = False, m_autoStop = False,
      m_rootThread = -1, m_rootFiber = None\<rparr> 0"

definition reader_ctx :: "unit callback fd_context" where
  "reader_ctx = (new_FdContext 3)
     \<lparr>fc_events := READ, fc_read := \<lparr>ev_scheduler = Some 7, ev_fiber = None, ev_cb = Some (Call ())\<rparr>\<rparr>"

definition reading_io :: "unit iomanager" where
  "reading_io = idle_io\<lparr>m_fdContexts := (m_fdContexts idle_io)[3 := reader_ctx], m_pendingEventCount := 1,
     io_interest := [3 \<mapsto> EPOLLET OR READ]\<rparr>"

lemma idle_io_contexts: "m_fdContexts idle_io = map new_FdContext [0..<32]" "io_interest idle_io = Map.empty"
  "m_pendingEventCount idle_io = 0"
  by (simp_all add: idle_io_def new_IOManager_def contextResize_def)

lemma reading_io_add: "addEvent 3 READ (Some (Call ())) (Some 7) 0 True idle_io = Inr (0, reading_io)"
  by (simp add: addEvent_def find_context_def idle_io_contexts addEvent_locked_def Let_def getContext_def
      new_FdContext_def empty_context_def reading_io_def epoll_done_def reader_ctx_def putContext_def)

lemma idle_io_reachable: "io_reachable idle_io"
  unfolding idle_io_def by (rule io_new)

lemma reading_io_reachable: "io_reachable reading_io"
  by (rule io_next [OF idle_io_reachable io_add [OF _ _ reading_io_add]]) simp_all

lemma reading_io_ctx: "m_fdContexts reading_io ! 3 = reader_ctx" "length (m_fdContexts reading_io) = 32"
  by (simp_all add: reading_io_def idle_io_contexts)


text \<open>
  An event of epoll that somebody waits for is delivered: the waiting callbacks or
  fibers, the reader first, go to the schedulers they were registered from, the context no
  longer waits for them, and the invariant holds.
\<close>

theorem event_delivered:
  assumes "io_reachable m" "k < length (m_fdContexts m)"
    "r = sees EPOLLIN events (m_fdContexts m ! k)" "w = sees EPOLLOUT events (m_fdContexts m ! k)"
    "r \<longrightarrow> fc_events (m_fdContexts m ! k) AND READ \<noteq> 0" "w \<longrightarrow> fc_events (m_fdContexts m ! k) AND WRITE \<noteq> 0"
  shows "\<exists>m'. handle_event k events True m = Inr m' \<and> io_inv m' \<and>
    m_fdContexts m' = (m_fdContexts m)[k := after_events r w (m_fdContexts m ! k)] \<and>
    io_sched m' = io_sched (deliver_if w (fc_write (m_fdContexts m ! k)) (deliver_if r (fc_read (m_fdContexts m ! k)) m)) \<and>
    io_out m' = io_out (deliver_if w (fc_write (m_fdContexts m ! k)) (deliver_if r (fc_read (m_fdContexts m ! k)) m))"
  using handle_event_total [OF _ assms(2-6)] io_reachable_inv [OF assms(1)] by (auto simp: io_inv_def)

theorem event_delivered_witness:
  "\<exists>m'. handle_event 3 EPOLLIN True reading_io = Inr m' \<and>
     m_fibers (io_sched m') = [\<lparr>ft_fiber = None, ft_cb = Some (Call ()), ft_thread = -1\<rparr>]"
proof -
  have "sees EPOLLIN EPOLLIN (m_fdContexts reading_io ! 3)" "\<not> sees EPOLLOUT EPOLLIN (m_fdContexts reading_io ! 3)"
    by (simp_all add: sees_def)
  moreover have "fc_events (m_fdContexts reading_io ! 3) AND READ \<noteq> 0"
    unfolding reading_io_ctx by (simp add: reader_ctx_def)
  moreover have "m_fibers (io_sched (deliver (fc_read (m_fdContexts reading_io ! 3)) reading_io)) =
      [\<lparr>ft_fiber = None, ft_cb = Some (Call ()), ft_thread = -1\<rparr>]"
    unfolding reading_io_ctx
    by (simp add: deliver_def reader_ctx_def schedule_on_def waiter_def reading_io_def idle_io_def new_IOManager_def
        contextResize_def scheduleNolock_def Let_def io_tickle_def hasIdleThread_def)
  ultimately show ?thesis
    using event_delivered [OF reading_io_reachable, of 3 True EPOLLIN False] reading_io_ctx(2)
    by (fastforce simp: deliver_if_def)
qed

text \<open>
  cancelAll, in every reachable state: both waiters are delivered, the reader first,
  nothing is left to wait for, and neither of its assertions can fail.
\<close>

theorem cancelAll_delivers:
  assumes "io_reachable m" "0 \<le> fd" "nat fd < length (m_fdContexts m)" "fc_events (m_fdContexts m ! nat fd) \<noteq> 0"
  shows "\<exists>m'. cancelAll fd True m = Inr (True, m') \<and> io_inv m' \<and> fc_events (m_fdContexts m' ! nat fd) = 0 \<and>
    io_sched m' = io_sched
      (deliver_if (fc_events (m_fdContexts m ! nat fd) AND WRITE \<noteq> 0) (fc_write (m_fdContexts m ! nat fd))
        (deliver_if (fc_events (m_fdContexts m ! nat fd) AND READ \<noteq> 0) (fc_read (m_fdContexts m ! nat fd)) m))"
proof -
  have "find_context fd m = Inr (Some (nat fd))" using assms(2,3) by (auto simp: find_context_def)
  then show ?thesis
    using cancelAll_spec [of m fd "nat fd"] io_reachable_inv [OF assms(1)] assms(4) by (auto simp: io_inv_def)
qed

theorem cancelAll_delivers_witness:
  "\<exists>m'. cancelAll 3 True reading_io = Inr (True, m') \<and> fc_events (m_fdContexts m' ! 3) = 0"
  using cancelAll_delivers [OF reading_io_reachable, of 3] reading_io_ctx by (auto simp: reader_ctx_def)

text \<open>
  Two of the races of the code. An event that epoll reported before it was deleted
  fails the assertion of triggerEvent, if the other event is still wanted. And a thread that
  decided to grow the vector on an old size shrinks it again, losing contexts with waiters.
\<close>

theorem io_races:
  "(\<exists>m. io_reachable m \<and> fc_events (m_fdContexts m ! 3) = READ \<and>
      handle_event 3 (EPOLLIN OR EPOLLOUT) True (m :: unit iomanager) = Inl AssertFailed) \<and>
   (\<exists>m m1. find_context 40 m = Inr None \<and> addEvent 100 READ (Some (Call ())) (Some 7) 0 True m = Inr (0, m1) \<and>
      length (m_fdContexts m1) = 150 \<and>
      grow_context 40 m1 = Inr (40, contextResize 60 m1) \<and>
      length (m_fdContexts (contextResize 60 (m1 :: unit iomanager))) = 60)"
proof (intro conjI)
  let ?ev = "EPOLLIN OR EPOLLOUT :: u32"
  have "sees EPOLLIN ?ev reader_ctx" "sees EPOLLOUT ?ev reader_ctx"
    by (simp_all add: sees_def)
  then have "handle_event 3 ?ev True reading_io = Inl AssertFailed"
    using handle_event_eq [OF refl refl refl, where k = 3 and events = ?ev and m = reading_io and ok = True]
    by (simp add: reading_io_ctx)
       (simp add: reader_ctx_def trigger_if_def triggerEvent_def Let_def reading_io_ctx getContext_def
        schedule_on_def io_tickle_def hasIdleThread_def putContext_def split: prod.splits)
  then show "\<exists>m. io_reachable m \<and> fc_events (m_fdContexts m ! 3) = READ \<and>
      handle_event 3 ?ev True (m :: unit iomanager) = Inl AssertFailed"
    using reading_io_reachable reading_io_ctx by (intro exI [of _ reading_io]) (simp add: reader_ctx_def)
next
  let ?m0 = "contextResize 150 idle_io"
  let ?m1 = "(epoll_done (if fc_events (m_fdContexts ?m0 ! 100) \<noteq> 0 then EPOLL_CTL_MOD else EPOLL_CTL_ADD) 100
        (EPOLLET OR fc_events (m_fdContexts ?m0 ! 100) OR READ) ?m0)
      \<lparr>m_pendingEventCount := m_pendingEventCount ?m0 + 1,
       m_fdContexts := (m_fdContexts ?m0)[100 := added READ (Some 7) (Some (Call ())) 0 (m_fdContexts ?m0 ! 100)]\<rparr>"
  have ok: "io_ok idle_io" using io_reachable_inv [OF idle_io_reachable] by (simp add: io_inv_def)
  have m0: "io_ok ?m0" "length (m_fdContexts ?m0) = 150"
    using contextResize_ok [OF ok, of 150] by (simp_all add: idle_io_contexts)
  have "m_fdContexts ?m0 ! 100 = new_FdContext 100"
    by (simp add: contextResize_def idle_io_contexts nth_append)
  then have "fc_events (m_fdContexts ?m0 ! 100) AND READ = 0" by (simp add: new_FdContext_def)
  then have "addEvent_locked 100 READ (Some (Call ())) (Some 7) 0 True ?m0 = Inr (0, ?m1)"
    by (intro addEvent_locked_spec [OF m0(1)]) (simp_all add: m0(2))
  then have "addEvent 100 READ (Some (Call ())) (Some 7) 0 True idle_io = Inr (0, ?m1)"
    using m0(2) by (simp add: addEvent_def find_context_def idle_io_contexts grow_context_def Let_def)
  moreover have "find_context 40 idle_io = Inr None" by (simp add: find_context_def idle_io_contexts)
  moreover have "length (m_fdContexts ?m1) = 150" using m0(2) by simp
  moreover have "length (m_fdContexts (contextResize 60 ?m1)) = 60"
    using m0(2) by (simp add: contextResize_def Let_def)
  moreover have "grow_context 40 ?m1 = Inr (40, contextResize 60 ?m1)"
    using calculation(4) by (simp add: grow_context_def Let_def)
  ultimately show "\<exists>m m1. find_context 40 m = Inr None \<and>
      addEvent 100 READ (Some (Call ())) (Some 7) 0 True m = Inr (0, m1) \<and>
      length (m_fdContexts m1) = 150 \<and> grow_context 40 m1 = Inr (40, contextResize 60 m1) \<and>
      length (m_fdContexts (contextResize 60 (m1 :: unit iomanager))) = 60"
    by (intro exI [of _ idle_io] exI [of _ ?m1]) blast
qed

lemma sint_u32:
  fixes v :: u32
  shows "uint v < 2 ^ 31 \<Longrightarrow> sint v = uint v" and "2 ^ 31 \<le> uint v \<Longrightarrow> sint v < 0"
proof -
  assume a: "2 ^ 31 \<le> uint v"
  have "uint v < 2 ^ 32" using uint_bounded [of v] by simp
  then have "uint v div 2 ^ 31 = 1" using a by simp
  then have "bit (uint v) 31" by (simp add: bit_iff_odd)
  then show "sint v < 0" by (simp add: sint_uint signed_take_bit_negative_iff)
next
  assume "uint v < 2 ^ 31"
  moreover have "0 \<le> uint v" by simp
  then have "- (2 ^ 31) \<le> uint v" by (rule order_trans [rotated]) simp
  ultimately show "sint v = uint v"
    unfolding sint_uint by (intro signed_take_bit_int_eq_self) simp_all
qed

text \<open>
  The time idle waits in epoll_wait is the time to the next timer, at most three
  seconds, as long as that time is below 2^31 ms; for 2^31 to 2^32 - 1 ms the conversion to int
  gives a negative number, with which epoll_wait waits for ever.
\<close>

theorem wait_timeout_bounded:
  "(unat d < 2 ^ 31 \<longrightarrow> wait_timeout d = min 3000 (int (unat d))) \<and> wait_timeout (- 1) = 3000 \<and>
   (2 ^ 31 \<le> unat d \<and> unat d < 2 ^ 32 \<longrightarrow> wait_timeout d < 0)"
proof (intro conjI impI)
  assume a: "unat d < 2 ^ 31"
  then have "int (unat d) < int (2 ^ 31)" by (simp only: of_nat_less_iff)
  then have "uint d < 2 ^ 31" by simp
  then have "uint (ucast d :: u32) = uint d" by (simp add: unsigned_ucast_eq take_bit_int_eq_self)
  then have s: "sint (ucast d :: u32) = int (unat d)"
    using sint_u32(1) [of "ucast d"] \<open>uint d < 2 ^ 31\<close> by simp
  have "d \<noteq> - 1" using a by (auto simp: unsigned_minus_1_eq_mask mask_eq_exp_minus_1)
  then show "wait_timeout d = min 3000 (int (unat d))"
    using s by (auto simp: wait_timeout_def Let_def min_def)
next
  show "wait_timeout (- 1) = 3000" by (simp add: wait_timeout_def)
next
  assume a: "2 ^ 31 \<le> unat d \<and> unat d < 2 ^ 32"
  then have "int (2 ^ 31) \<le> int (unat d)" "int (unat d) < int (2 ^ 32)"
    by (simp_all only: of_nat_less_iff of_nat_le_iff)
  then have u: "2 ^ 31 \<le> uint d" "uint d < 2 ^ 32" by simp_all
  then have "uint (ucast d :: u32) = uint d" by (simp add: unsigned_ucast_eq take_bit_int_eq_self)
  then have s: "sint (ucast d :: u32) < 0" using sint_u32(2) [of "ucast d"] u by simp
  have "d \<noteq> - 1" using a by (auto simp: unsigned_minus_1_eq_mask mask_eq_exp_minus_1)
  then show "wait_timeout d < 0" using s by (auto simp: wait_timeout_def Let_def)
qed

theorem wait_timeout_bounded_witness: "wait_timeout 0x80000000 < 0 \<and> wait_timeout 5000 = 3000"
  using wait_timeout_bounded [of "0x80000000"] wait_timeout_bounded [of 5000] by simp

end
