(* ===== verification/Hook.thy ===== *)
theory Hook
  imports IOManager FdManager
begin

text \<open>
  The hooked system calls (exhy/exhy_hook.h, exhy_hook.cpp): what a fiber that calls one of them does
  with the descriptor table, the timers and the events of its IOManager. A real call (\<open>read_f\<close> and its
  like) is a function of the kernel's state that gives the result and the errno of a failure. A call that
  would block is cut at YieldToHold: one attempt up to it, and what the fiber does when it is resumed;
  in between other fibers and threads change the state. The thread's own pointers are in the theory of
  fibers. Opening of the C library's functions (hook_init) and log lines are left out.
\<close>

section \<open>State\<close>

text \<open>The callbacks the hooks give to timers, beside those of users.\<close>

datatype 'u hook_cb = IoTimeout nat int u32 | Resume nat | User 'u

record ('u, 'k) hooked =
  hk_enable :: bool
  hk_errno :: int
  hk_fds :: fd_manager
  hk_io :: "'u hook_cb iomanager"
  hk_tinfo :: "nat \<Rightarrow> int option"
  hk_kernel :: 'k

type_synonym 'k syscall = "'k \<Rightarrow> int \<times> int \<times> 'k"

abbreviation (input) EINTR :: int where "EINTR \<equiv> 4"
abbreviation (input) EBADF :: int where "EBADF \<equiv> 9"
abbreviation (input) EAGAIN :: int where "EAGAIN \<equiv> 11"
abbreviation (input) ETIMEDOUT :: int where "ETIMEDOUT \<equiv> 110"
abbreviation (input) EINPROGRESS :: int where "EINPROGRESS \<equiv> 115"

text \<open>errno changes when a call fails only.\<close>

definition real_call :: "'k syscall \<Rightarrow> ('u, 'k) hooked \<Rightarrow> int \<times> ('u, 'k) hooked" where
  "real_call f s =
     (let (n, e, k) = f (hk_kernel s)
      in (n, s\<lparr>hk_kernel := k, hk_errno := (if n = -1 then e else hk_errno s)\<rparr>))"

definition is_hook_enable :: "('u, 'k) hooked \<Rightarrow> bool" where
  "is_hook_enable s = hk_enable s"

definition set_hook_enable :: "bool \<Rightarrow> ('u, 'k) hooked \<Rightarrow> ('u, 'k) hooked" where
  "set_hook_enable flag s = s\<lparr>hk_enable := flag\<rparr>"

text \<open>\<open>FdMgr::GetInstance()->get(fd)\<close>, which makes no context.\<close>

definition fd_ctx :: "int \<Rightarrow> ('u, 'k) hooked \<Rightarrow> fdctx option" where
  "fd_ctx fd s =
     (case get_lookup fd False (hk_fds s) of
        Inl (Some p) \<Rightarrow> fd_ctxs (hk_fds s) p
      | _ \<Rightarrow> None)"

definition upd_ctx :: "int \<Rightarrow> (fdctx \<Rightarrow> fdctx) \<Rightarrow> ('u, 'k) hooked \<Rightarrow> ('u, 'k) hooked" where
  "upd_ctx fd g s =
     (case get_lookup fd False (hk_fds s) of
        Inl (Some p) \<Rightarrow> s\<lparr>hk_fds := (hk_fds s)\<lparr>fd_ctxs := (fd_ctxs (hk_fds s))(p := map_option g (fd_ctxs (hk_fds s) p))\<rparr>\<rparr>
      | _ \<Rightarrow> s)"

definition with_fds :: "(nat option \<times> fd_manager) res \<Rightarrow> ('u, 'k) hooked \<Rightarrow> ('u, 'k) hooked res" where
  "with_fds r s = sbind r (\<lambda>(_, m). Inr (s\<lparr>hk_fds := m\<rparr>))"

section \<open>do_io\<close>

text \<open>The tests before the call: call it as it is, refuse it, or manage it with a timeout.\<close>

datatype io_path = Direct | Refused | Managed u64

definition do_io_path :: "int \<Rightarrow> int \<Rightarrow> ('u, 'k) hooked \<Rightarrow> io_path" where
  "do_io_path fd timeout_so s =
     (if \<not> hk_enable s then Direct
      else case fd_ctx fd s of
             None \<Rightarrow> Direct
           | Some ctx \<Rightarrow>
               if m_isClosed ctx then Refused
               else if \<not> m_isSocket ctx \<or> m_userNonblock ctx then Direct
               else Managed (getTimeout timeout_so ctx))"

text \<open>The call and its repetition while it is interrupted.\<close>

partial_function (option) call_retry :: "'k syscall \<Rightarrow> ('u, 'k) hooked \<Rightarrow> (int \<times> ('u, 'k) hooked) option" where
  "call_retry f s =
     (let (n, s1) = real_call f s
      in if n = -1 \<and> hk_errno s1 = EINTR then call_retry f s1 else Some (n, s1))"

definition io_addConditionTimer :: "u64 \<Rightarrow> nat \<Rightarrow> u64 \<Rightarrow> 'a \<Rightarrow> nat \<Rightarrow> 'a iomanager \<Rightarrow> 'a iomanager" where
  "io_addConditionTimer now tp ms cb weak m =
     (let (tm, at_front) = addConditionTimer now tp ms (Some cb) weak False (io_timers m); m1 = m\<lparr>io_timers := tm\<rparr>
      in if at_front then onTimerInsertedAtFront m1 else m1)"

text \<open>\<open>if(timer) timer->cancel()\<close>.\<close>

definition cancel_opt :: "nat option \<Rightarrow> ('u, 'k) hooked \<Rightarrow> ('u, 'k) hooked res" where
  "cancel_opt timer s =
     (case timer of
        None \<Rightarrow> Inr s
      | Some p \<Rightarrow> sbind (cancel p (io_timers (hk_io s))) (\<lambda>(b, tm). Inr (s\<lparr>hk_io := (hk_io s)\<lparr>io_timers := tm\<rparr>\<rparr>)))"

text \<open>
  Arming: the timer, if there is a timeout, and the event. The inputs are the time, the address of
  the new timer and the errno of epoll_ctl should it fail. \<open>ti\<close> is the timer_info, \<open>cur\<close> the current
  IOManager and \<open>fiber\<close> the current fiber. The result of addEvent and the timer are returned.
\<close>

type_synonym io_input = "u64 \<times> nat \<times> int option"

definition arm ::
  "int \<Rightarrow> u32 \<Rightarrow> u64 \<Rightarrow> nat \<Rightarrow> io_input \<Rightarrow> nat option \<Rightarrow> nat \<Rightarrow> ('u, 'k) hooked \<Rightarrow>
    (int \<times> nat option \<times> ('u, 'k) hooked) res" where
  "arm fd event to ti inp cur fiber s =
     (case inp of (now, tp, ep) \<Rightarrow>
        if cur = None then Inl NullDeref
        else let m = (if to \<noteq> -1 then io_addConditionTimer now tp to (IoTimeout ti fd event) ti (hk_io s) else hk_io s);
                 timer = (if to \<noteq> -1 then Some tp else None)
          in sbind (addEvent fd event None cur fiber (ep = None) m)
               (\<lambda>(rt, m1). Inr (rt, timer, s\<lparr>hk_io := m1, hk_errno := (case ep of None \<Rightarrow> hk_errno s | Some e \<Rightarrow> e)\<rparr>)))"

text \<open>One attempt, from the label retry: \<open>Inl\<close> the result, or \<open>Inr\<close> the timer when the fiber yields.\<close>

definition do_io_try ::
  "'k syscall \<Rightarrow> int \<Rightarrow> u32 \<Rightarrow> u64 \<Rightarrow> nat \<Rightarrow> io_input \<Rightarrow> nat option \<Rightarrow> nat \<Rightarrow> ('u, 'k) hooked \<Rightarrow>
    ((int + nat option) \<times> ('u, 'k) hooked) res option" where
  "do_io_try f fd event to ti inp cur fiber s =
     (case call_retry f s of
        None \<Rightarrow> None
      | Some (n, s1) \<Rightarrow> Some
          (if n = -1 \<and> hk_errno s1 = EAGAIN then
             sbind (arm fd event to ti inp cur fiber s1)
               (\<lambda>(rt, timer, s2).
                  if rt \<noteq> 0 then sbind (cancel_opt timer s2) (\<lambda>s3. Inr (Inl n, s3)) else Inr (Inr timer, s2))
           else Inr (Inl n, s1)))"

text \<open>After YieldToHold: the result when the wait has timed out, nothing when it tries again.\<close>

definition do_io_wake :: "nat option \<Rightarrow> nat \<Rightarrow> ('u, 'k) hooked \<Rightarrow> (int option \<times> ('u, 'k) hooked) res" where
  "do_io_wake timer ti s =
     sbind (cancel_opt timer s)
       (\<lambda>s1. case hk_tinfo s1 ti of
          None \<Rightarrow> Inl NullDeref
        | Some c \<Rightarrow> if c \<noteq> 0 then Inr (Some (-1), s1\<lparr>hk_errno := c\<rparr>) else Inr (None, s1))"

text \<open>
  The attempts in a row, each with its inputs and with what happens to the state while the fiber
  waits; nothing when it still waits behind the last one.
\<close>

fun do_io_loop ::
  "'k syscall \<Rightarrow> int \<Rightarrow> u32 \<Rightarrow> u64 \<Rightarrow> nat \<Rightarrow> nat option \<Rightarrow> nat \<Rightarrow>
    (io_input \<times> (('u, 'k) hooked \<Rightarrow> ('u, 'k) hooked)) list \<Rightarrow> ('u, 'k) hooked \<Rightarrow> (int \<times> ('u, 'k) hooked) res option" where
  "do_io_loop f fd event to ti cur fiber [] s = None"
| "do_io_loop f fd event to ti cur fiber ((inp, env) # is) s =
     (case do_io_try f fd event to ti inp cur fiber s of
        None \<Rightarrow> None
      | Some (Inl e) \<Rightarrow> Some (Inl e)
      | Some (Inr (Inl n, s1)) \<Rightarrow> Some (Inr (n, s1))
      | Some (Inr (Inr timer, s1)) \<Rightarrow>
          (case do_io_wake timer ti (env s1) of
             Inl e \<Rightarrow> Some (Inl e)
           | Inr (Some n, s2) \<Rightarrow> Some (Inr (n, s2))
           | Inr (None, s2) \<Rightarrow> do_io_loop f fd event to ti cur fiber is s2))"

definition do_io ::
  "int \<Rightarrow> 'k syscall \<Rightarrow> u32 \<Rightarrow> int \<Rightarrow> nat \<Rightarrow> nat option \<Rightarrow> nat \<Rightarrow>
    (io_input \<times> (('u, 'k) hooked \<Rightarrow> ('u, 'k) hooked)) list \<Rightarrow> ('u, 'k) hooked \<Rightarrow> (int \<times> ('u, 'k) hooked) res option" where
  "do_io fd f event timeout_so ti cur fiber is s =
     (case do_io_path fd timeout_so s of
        Direct \<Rightarrow> Some (Inr (real_call f s))
      | Refused \<Rightarrow> Some (Inr (-1, s\<lparr>hk_errno := EBADF\<rparr>))
      | Managed to \<Rightarrow>
          map_option (\<lambda>r. sbind r (\<lambda>(n, s1). Inr (n, s1\<lparr>hk_tinfo := (hk_tinfo s1)(ti := None)\<rparr>)))
            (do_io_loop f fd event to ti cur fiber is (s\<lparr>hk_tinfo := (hk_tinfo s)(ti \<mapsto> 0)\<rparr>)))"

text \<open>The callback of the timer, and the one of the sleeping functions.\<close>

definition io_timeout :: "nat \<Rightarrow> int \<Rightarrow> u32 \<Rightarrow> bool \<Rightarrow> ('u, 'k) hooked \<Rightarrow> ('u, 'k) hooked res" where
  "io_timeout ti fd event ok s =
     (case hk_tinfo s ti of
        None \<Rightarrow> Inr s
      | Some c \<Rightarrow>
          if c \<noteq> 0 then Inr s
          else sbind (cancelEvent fd event ok (hk_io s))
                 (\<lambda>(b, m). Inr (s\<lparr>hk_tinfo := (hk_tinfo s)(ti \<mapsto> ETIMEDOUT), hk_io := m\<rparr>)))"

definition resume_sleeper :: "nat \<Rightarrow> ('u, 'k) hooked \<Rightarrow> ('u, 'k) hooked" where
  "resume_sleeper fiber s =
     s\<lparr>hk_io := schedule_on (io_self (hk_io s)) \<lparr>ft_fiber = Some fiber, ft_cb = None, ft_thread = -1\<rparr> (hk_io s)\<rparr>"

text \<open>The calls that go through do_io, with the event they wait for and the timeout they look at.\<close>

datatype io_fun = Accept | Read | Readv | Recv | Recvfrom | Recvmsg | Write | Writev | Send | Sendto | Sendmsg

definition io_event :: "io_fun \<Rightarrow> u32 \<times> int" where
  "io_event c = (case c of
     Accept \<Rightarrow> (READ, SO_RCVTIMEO) | Read \<Rightarrow> (READ, SO_RCVTIMEO) | Readv \<Rightarrow> (READ, SO_RCVTIMEO)
   | Recv \<Rightarrow> (READ, SO_RCVTIMEO) | Recvfrom \<Rightarrow> (READ, SO_RCVTIMEO) | Recvmsg \<Rightarrow> (READ, SO_RCVTIMEO)
   | Write \<Rightarrow> (WRITE, SO_SNDTIMEO) | Writev \<Rightarrow> (WRITE, SO_SNDTIMEO)
   | Send \<Rightarrow> (WRITE, SO_SNDTIMEO) | Sendto \<Rightarrow> (WRITE, SO_SNDTIMEO) | Sendmsg \<Rightarrow> (WRITE, SO_SNDTIMEO))"

definition hooked_io where
  "hooked_io c fd f ti cur fiber is s = do_io fd f (fst (io_event c)) (snd (io_event c)) ti cur fiber is s"

text \<open>\<open>p\<close> is the address of a new context, \<open>stat\<close> what fstat says of the new descriptor.\<close>

definition hooked_accept where
  "hooked_accept sock f p stat ti cur fiber is s =
     map_option (\<lambda>r. sbind r (\<lambda>(fd, s1).
        if 0 \<le> fd then sbind (with_fds (fd_get fd True p (stat fd) (hk_fds s1)) s1) (\<lambda>s2. Inr (fd, s2)) else Inr (fd, s1)))
       (hooked_io Accept sock f ti cur fiber is s)"

section \<open>connect\<close>

text \<open>
  Up to the point where the fiber waits: \<open>Inl\<close> the result, \<open>Inr\<close> the timer, or nothing as timer when the
  event could not be added and SO_ERROR is asked for at once (\<open>Waits\<close> tells the two apart).
\<close>

datatype conn_step = Returned int | Waits "nat option" | Asks

definition connect_with_timeout_start ::
  "'k syscall \<Rightarrow> int \<Rightarrow> u64 \<Rightarrow> nat \<Rightarrow> io_input \<Rightarrow> nat option \<Rightarrow> nat \<Rightarrow> ('u, 'k) hooked \<Rightarrow> (conn_step \<times> ('u, 'k) hooked) res" where
  "connect_with_timeout_start f fd timeout_ms ti inp cur fiber s =
     (let direct = (\<lambda>s. let (n, s1) = real_call f s in Inr (Returned n, s1))
      in if \<not> hk_enable s then direct s
         else case fd_ctx fd s of
           None \<Rightarrow> Inr (Returned (-1), s\<lparr>hk_errno := EBADF\<rparr>)
         | Some ctx \<Rightarrow>
             if m_isClosed ctx then Inr (Returned (-1), s\<lparr>hk_errno := EBADF\<rparr>)
             else if \<not> m_isSocket ctx then direct s
             else if m_userNonblock ctx then direct s
             else let (n, s1) = real_call f s
               in if n = 0 then Inr (Returned 0, s1)
                  else if n \<noteq> -1 \<or> hk_errno s1 \<noteq> EINPROGRESS then Inr (Returned n, s1)
                  else sbind (arm fd WRITE timeout_ms ti inp cur fiber (s1\<lparr>hk_tinfo := (hk_tinfo s1)(ti \<mapsto> 0)\<rparr>))
                         (\<lambda>(rt, timer, s2).
                            if rt = 0 then Inr (Waits timer, s2) else sbind (cancel_opt timer s2)
                              (\<lambda>s3. Inr (Asks, s3\<lparr>hk_tinfo := (hk_tinfo s3)(ti := None)\<rparr>))))"

text \<open>
  The end: SO_ERROR. \<open>so\<close> is getsockopt, which fails or gives the pending error of the socket.
\<close>

definition connect_ask ::
  "('k \<Rightarrow> (int + int) \<times> 'k) \<Rightarrow> ('u, 'k) hooked \<Rightarrow> int \<times> ('u, 'k) hooked" where
  "connect_ask so s =
     (let (r, k) = so (hk_kernel s); s1 = s\<lparr>hk_kernel := k\<rparr>
      in case r of
           Inl e \<Rightarrow> (-1, s1\<lparr>hk_errno := e\<rparr>)
         | Inr error \<Rightarrow> if error = 0 then (0, s1) else (-1, s1\<lparr>hk_errno := error\<rparr>))"

definition connect_with_timeout_wake ::
  "('k \<Rightarrow> (int + int) \<times> 'k) \<Rightarrow> nat option \<Rightarrow> nat \<Rightarrow> ('u, 'k) hooked \<Rightarrow> (int \<times> ('u, 'k) hooked) res" where
  "connect_with_timeout_wake so timer ti s =
     sbind (do_io_wake timer ti s)
       (\<lambda>(r, s1).
          let s2 = s1\<lparr>hk_tinfo := (hk_tinfo s1)(ti := None)\<rparr>
          in case r of Some n \<Rightarrow> Inr (n, s2) | None \<Rightarrow> Inr (connect_ask so s2))"

text \<open>The hooked \<open>connect\<close> takes the configured timeout, an int that is stored as a uint64_t.\<close>

definition connect_timeout :: "int \<Rightarrow> u64" where
  "connect_timeout configured = word_of_int configured"

section \<open>Sleeping\<close>

text \<open>
  The timer a sleeping fiber arms before it yields; the arithmetic of \<open>sleep\<close> is on unsigned ints.
\<close>

definition arm_sleep :: "u64 \<Rightarrow> nat \<Rightarrow> u64 \<Rightarrow> nat option \<Rightarrow> nat \<Rightarrow> ('u, 'k) hooked \<Rightarrow> ('u, 'k) hooked res" where
  "arm_sleep now tp ms cur fiber s =
     (if cur = None then Inl NullDeref
      else let (tm, at_front) = addTimer now tp ms (Some (Call (Resume fiber))) False (io_timers (hk_io s));
               m = (hk_io s)\<lparr>io_timers := tm\<rparr>
        in Inr (s\<lparr>hk_io := (if at_front then onTimerInsertedAtFront m else m)\<rparr>))"

definition sleep_ms :: "u32 \<Rightarrow> u64" where
  "sleep_ms seconds = ucast (seconds * 1000)"

definition usleep_ms :: "u32 \<Rightarrow> u64" where
  "usleep_ms usec = ucast (usec div 1000)"

text \<open>\<open>Inl\<close> the result of the real call, or \<open>Inr\<close> when the fiber has yielded.\<close>

definition hooked_sleep ::
  "'k syscall \<Rightarrow> u64 \<Rightarrow> nat \<Rightarrow> u32 \<Rightarrow> nat option \<Rightarrow> nat \<Rightarrow> ('u, 'k) hooked \<Rightarrow> ((int + unit) \<times> ('u, 'k) hooked) res" where
  "hooked_sleep f now tp seconds cur fiber s =
     (if \<not> hk_enable s then (let (n, s1) = real_call f s in Inr (Inl n, s1))
      else sbind (arm_sleep now tp (sleep_ms seconds) cur fiber s) (\<lambda>s1. Inr (Inr (), s1)))"

definition hooked_usleep ::
  "'k syscall \<Rightarrow> u64 \<Rightarrow> nat \<Rightarrow> u32 \<Rightarrow> nat option \<Rightarrow> nat \<Rightarrow> ('u, 'k) hooked \<Rightarrow> ((int + unit) \<times> ('u, 'k) hooked) res" where
  "hooked_usleep f now tp usec cur fiber s =
     (if \<not> hk_enable s then (let (n, s1) = real_call f s in Inr (Inl n, s1))
      else sbind (arm_sleep now tp (usleep_ms usec) cur fiber s) (\<lambda>s1. Inr (Inr (), s1)))"

section \<open>Descriptors\<close>

definition hooked_socket ::
  "'k syscall \<Rightarrow> nat \<Rightarrow> (int \<Rightarrow> bool option) \<Rightarrow> ('u, 'k) hooked \<Rightarrow> (int \<times> ('u, 'k) hooked) res" where
  "hooked_socket f p stat s =
     (let (fd, s1) = real_call f s
      in if hk_enable s \<and> fd \<noteq> -1
         then sbind (with_fds (fd_get fd True p (stat fd) (hk_fds s1)) s1) (\<lambda>s2. Inr (fd, s2))
         else Inr (fd, s1))"

text \<open>\<open>iom\<close>: there is a current IOManager; \<open>ok\<close>: its epoll_ctl succeeds.\<close>

definition hooked_close ::
  "'k syscall \<Rightarrow> int \<Rightarrow> bool \<Rightarrow> bool \<Rightarrow> ('u, 'k) hooked \<Rightarrow> (int \<times> ('u, 'k) hooked) res" where
  "hooked_close f fd iom ok s =
     (if \<not> hk_enable s then Inr (real_call f s)
      else case fd_ctx fd s of
             None \<Rightarrow> Inr (real_call f s)
           | Some ctx \<Rightarrow>
               sbind (if iom then sbind (cancelAll fd ok (hk_io s)) (\<lambda>(b, m). Inr (s\<lparr>hk_io := m\<rparr>)) else Inr s)
                 (\<lambda>s1. sbind (fd_del fd (hk_fds s1)) (\<lambda>m. Inr (real_call f (s1\<lparr>hk_fds := m\<rparr>)))))"

text \<open>
  fcntl: which commands there are, and how each passes its argument on. The real F_SETFL changes the
  status flags of the descriptor to those of its argument that can be set; F_GETFL returns them.
\<close>

datatype fcntl_kind = SetFl | GetFl | IntArg | NoArg | PtrArg

definition fcntl_table :: "(string \<times> fcntl_kind) list" where
  "fcntl_table =
     [(''F_SETFL'', SetFl), (''F_GETFL'', GetFl),
      (''F_DUPFD'', IntArg), (''F_DUPFD_CLOEXEC'', IntArg), (''F_SETFD'', IntArg), (''F_SETOWN'', IntArg),
      (''F_SETLEASE'', IntArg), (''F_NOTIFY'', IntArg), (''F_SETPIPE_SZ'', IntArg),
      (''F_GETFD'', NoArg), (''F_GETOWN'', NoArg), (''F_GETSIG'', NoArg), (''F_GETLEASE'', NoArg),
      (''F_GETPIPE_SZ'', NoArg),
      (''F_SETLK'', PtrArg), (''F_SETLKW'', PtrArg), (''F_GETLK'', PtrArg),
      (''F_GETOWN_EX'', PtrArg), (''F_SETOWN_EX'', PtrArg)]"

definition fcntl_kind_of :: "string \<Rightarrow> fcntl_kind" where
  "fcntl_kind_of cmd = (case map_of fcntl_table cmd of Some k \<Rightarrow> k | None \<Rightarrow> NoArg)"

abbreviation (input) SETTABLE :: u32 where "SETTABLE \<equiv> 0x46C00"

definition real_setfl :: "int \<Rightarrow> u32 \<Rightarrow> ('u, 'k) hooked \<Rightarrow> ('u, 'k) hooked" where
  "real_setfl fd arg s =
     (let fl = fd_flags (hk_fds s)
      in s\<lparr>hk_fds := (hk_fds s)\<lparr>fd_flags := fl(fd := (fl fd AND NOT SETTABLE) OR (arg AND SETTABLE))\<rparr>\<rparr>)"

definition unmanaged :: "fdctx option \<Rightarrow> bool" where
  "unmanaged c = (case c of None \<Rightarrow> True | Some ctx \<Rightarrow> m_isClosed ctx \<or> \<not> m_isSocket ctx)"

definition fcntl_setfl :: "int \<Rightarrow> u32 \<Rightarrow> ('u, 'k) hooked \<Rightarrow> ('u, 'k) hooked" where
  "fcntl_setfl fd arg s =
     (if unmanaged (fd_ctx fd s) then real_setfl fd arg s
      else let s1 = upd_ctx fd (\<lambda>c. c\<lparr>m_userNonblock := (arg AND O_NONBLOCK \<noteq> 0)\<rparr>) s;
               sys = (case fd_ctx fd s1 of Some c \<Rightarrow> m_sysNonblock c | None \<Rightarrow> False)
        in real_setfl fd (if sys then arg OR O_NONBLOCK else arg AND NOT O_NONBLOCK) s1)"

definition fcntl_getfl :: "int \<Rightarrow> ('u, 'k) hooked \<Rightarrow> u32" where
  "fcntl_getfl fd s =
     (let arg = fd_flags (hk_fds s) fd
      in if unmanaged (fd_ctx fd s) then arg
         else if m_userNonblock (the (fd_ctx fd s)) then arg OR O_NONBLOCK else arg AND NOT O_NONBLOCK)"

text \<open>ioctl with FIONBIO; the real call sets or clears the flag of the kernel.\<close>

definition ioctl_fionbio :: "int \<Rightarrow> bool \<Rightarrow> ('u, 'k) hooked \<Rightarrow> ('u, 'k) hooked" where
  "ioctl_fionbio fd user_nonblock s =
     (let s1 = (if unmanaged (fd_ctx fd s) then s else upd_ctx fd (\<lambda>c. c\<lparr>m_userNonblock := user_nonblock\<rparr>) s);
          fl = fd_flags (hk_fds s1)
      in s1\<lparr>hk_fds := (hk_fds s1)\<lparr>fd_flags := fl(fd := (if user_nonblock then fl fd OR O_NONBLOCK else fl fd AND NOT O_NONBLOCK))\<rparr>\<rparr>)"

text \<open>
  setsockopt: a timeout is kept in the context, in milliseconds; the arithmetic on the fields of the
  timeval is signed and 64 bits wide.
\<close>

definition timeval_ms :: "int \<Rightarrow> int \<Rightarrow> u64 res" where
  "timeval_ms sec usec =
     (let a = sec * 1000; q = sgn usec * (\<bar>usec\<bar> div 1000)
      in if a < - (2 ^ 63) \<or> 2 ^ 63 \<le> a \<or> a + q < - (2 ^ 63) \<or> 2 ^ 63 \<le> a + q then Inl SignedOverflow
         else Inr (word_of_int (a + q)))"

abbreviation (input) SOL_SOCKET :: int where "SOL_SOCKET \<equiv> 1"

definition hooked_setsockopt ::
  "'k syscall \<Rightarrow> int \<Rightarrow> int \<Rightarrow> int \<Rightarrow> int \<times> int \<Rightarrow> ('u, 'k) hooked \<Rightarrow> (int \<times> ('u, 'k) hooked) res" where
  "hooked_setsockopt f sockfd level optname tv s =
     (if \<not> hk_enable s then Inr (real_call f s)
      else sbind
        (if level = SOL_SOCKET \<and> (optname = SO_RCVTIMEO \<or> optname = SO_SNDTIMEO) \<and> fd_ctx sockfd s \<noteq> None
         then sbind (timeval_ms (fst tv) (snd tv)) (\<lambda>v. Inr (upd_ctx sockfd (setTimeout optname v) s))
         else Inr s)
        (\<lambda>s1. Inr (real_call f s1)))"

end
