(* ===== verification/HookFacts.thy ===== *)
theory HookFacts
  imports Hook
begin

text \<open>
  What the hooked system calls guarantee: when a managed call returns and with which errno, that a
  fiber that waits is resumed by the event or by its timeout, what a program sees of the blocking mode
  of its descriptors, and the arithmetic of the sleeping functions.
\<close>

section \<open>Interrupted calls\<close>

definition retry_post :: "'k syscall \<Rightarrow> ('u, 'k) hooked \<Rightarrow> int \<Rightarrow> ('u, 'k) hooked \<Rightarrow> bool" where
  "retry_post f s n s' \<longleftrightarrow> (n = -1 \<longrightarrow> hk_errno s' \<noteq> EINTR) \<and> (\<exists>k e. f k = (n, e, hk_kernel s') \<and> (n = -1 \<longrightarrow> hk_errno s' = e)) \<and>
    hk_fds s' = hk_fds s \<and> hk_io s' = hk_io s \<and> hk_tinfo s' = hk_tinfo s \<and> hk_enable s' = hk_enable s"

lemma call_retry_post:
  assumes "call_retry f s = Some r"
  shows "retry_post f s (fst r) (snd r)"
proof (rule call_retry.raw_induct [where P = "\<lambda>f s r. retry_post f s (fst r) (snd r)", OF _ assms])
  fix cr and g :: "'b syscall" and s :: "('a, 'b) hooked" and r :: "int \<times> ('a, 'b) hooked"
  assume IH: "\<And>f s y. cr f s = Some y \<Longrightarrow> retry_post f s (fst y) (snd y)"
    and eq: "(let (n, s1) = real_call g s in if n = -1 \<and> hk_errno s1 = EINTR then cr g s1 else Some (n, s1)) = Some r"
  obtain m e k where f: "g (hk_kernel s) = (m, e, k)" by (cases "g (hk_kernel s)")
  let ?s1 = "s\<lparr>hk_kernel := k, hk_errno := (if m = -1 then e else hk_errno s)\<rparr>"
  have r: "real_call g s = (m, ?s1)" by (simp add: real_call_def f)
  show "retry_post g s (fst r) (snd r)"
  proof (cases "m = -1 \<and> e = EINTR")
    case True
    then have "cr g ?s1 = Some r" using eq by (simp add: r Let_def)
    from IH [OF this] show ?thesis by (simp add: retry_post_def)
  next
    case False
    then have "r = (m, ?s1)" using eq by (auto simp: r Let_def split: if_splits)
    then show ?thesis using False f by (auto simp: retry_post_def)
  qed
qed

text \<open>The call is interrupted \<open>m\<close> times and then not; it ends.\<close>

fun interrupted :: "nat \<Rightarrow> 'k syscall \<Rightarrow> 'k \<Rightarrow> bool" where
  "interrupted 0 f k \<longleftrightarrow> (case f k of (n, e, k') \<Rightarrow> n \<noteq> -1 \<or> e \<noteq> EINTR)"
| "interrupted (Suc m) f k \<longleftrightarrow> (case f k of (n, e, k') \<Rightarrow> n = -1 \<and> e = EINTR \<and> interrupted m f k')"

lemma call_retry_ends: "interrupted m f (hk_kernel s) \<Longrightarrow> \<exists>r. call_retry f s = Some r"
proof (induction m arbitrary: s)
  case 0
  then show ?case by (subst call_retry.simps) (auto simp: real_call_def Let_def split: prod.splits)
next
  case (Suc m)
  obtain n e k where f: "f (hk_kernel s) = (n, e, k)" by (cases "f (hk_kernel s)")
  then have "\<exists>r. call_retry f (s\<lparr>hk_kernel := k, hk_errno := e\<rparr>) = Some r" using Suc by auto
  then show ?case using Suc.prems f by (subst call_retry.simps) (simp add: real_call_def Let_def)
qed

section \<open>Waiting\<close>

lemma addEvent_effect:
  assumes "io_ok m" "event = READ \<or> event = WRITE" "cur \<noteq> None" "2 \<le> length (m_fdContexts m)"
    "addEvent fd event None cur f True m = Inr (rt, m')"
  shows "rt = 0 \<and> io_ok m' \<and> 0 \<le> fd \<and> nat fd < length (m_fdContexts m') \<and>
    fc_events (m_fdContexts m' ! nat fd) AND event \<noteq> 0 \<and>
    event_of event (m_fdContexts m' ! nat fd) = \<lparr>ev_scheduler = cur, ev_fiber = Some f, ev_cb = None\<rparr> \<and>
    io_sched m' = io_sched m \<and> io_self m' = io_self m \<and> io_timers m' = io_timers m"
proof -
  have ok: "io_ok m'" by (rule addEvent_ok [OF assms])
  have locked: "rt = 0 \<and> 0 \<le> fd \<and> nat fd < length (m_fdContexts m') \<and>
      fc_events (m_fdContexts m' ! nat fd) AND event \<noteq> 0 \<and>
      event_of event (m_fdContexts m' ! nat fd) = \<lparr>ev_scheduler = cur, ev_fiber = Some f, ev_cb = None\<rparr> \<and>
      io_sched m' = io_sched n \<and> io_self m' = io_self n \<and> io_timers m' = io_timers n"
    if n: "io_ok n" "nat fd < length (m_fdContexts n)" "0 \<le> fd" "addEvent_locked (nat fd) event None cur f True n = Inr (rt, m')"
    for n
  proof -
    have bit: "fc_events (m_fdContexts n ! nat fd) AND event = 0"
      using n(4) by (auto simp: addEvent_locked_def Let_def split: if_splits)
    have st: "state_of (sc_heap (io_sched n)) f = Some EXEC"
      using n(4) by (auto simp: addEvent_locked_def Let_def elim!: sbind_eq_InrE split: if_splits)
    have "(fc_events (m_fdContexts n ! nat fd) OR event) AND event = event" by (simp add: bit.conj_disj_distrib2)
    then have "(fc_events (m_fdContexts n ! nat fd) OR event) AND event \<noteq> 0" using assms(2) by auto
    then show ?thesis
      using n addEvent_locked_spec [OF n(1,2) assms(2,3) bit, of None f] st assms(2)
      by (auto simp: added_def putContext_def event_of_def epoll_done_def)
  qed
  obtain ko where ko: "find_context fd m = Inr ko" using assms(5) by (auto simp: addEvent_def elim: sbind_eq_InrE)
  show ?thesis
  proof (cases ko)
    case (Some k)
    then show ?thesis
      using locked [of m] assms ko ok find_contextD(1) [of fd m k] by (auto simp: addEvent_def)
  next
    case None
    then have big: "int (length (m_fdContexts m)) \<le> fd" using ko find_contextD(2) by simp
    let ?m1 = "contextResize (3 * nat fd div 2) m"
    have "length (m_fdContexts m) \<le> 3 * nat fd div 2" "nat fd < 3 * nat fd div 2" using big assms(4) by linarith+
    then have "io_ok ?m1" "nat fd < length (m_fdContexts ?m1)"
      using contextResize_ok [OF assms(1)] by auto
    then show ?thesis
      using locked [of ?m1] assms(5) ko None ok big
      by (auto simp: addEvent_def grow_context_def Let_def contextResize_def)
  qed
qed

lemma addEvent_refused:
  assumes "addEvent fd event None cur f False m = Inr (rt, m')"
  shows "rt = -1 \<and> io_timers m' = io_timers m"
proof -
  have "rt = -1 \<and> m' = n" if "addEvent_locked k event None cur f False n = Inr (rt, m')" for k n
    using that by (auto simp: addEvent_locked_def Let_def split: if_splits)
  then show ?thesis using assms
    by (fastforce simp: addEvent_def grow_context_def contextResize_def Let_def elim!: sbind_eq_InrE split: option.splits if_splits)
qed

lemma io_addConditionTimer_frame:
  "m_fdContexts (io_addConditionTimer now tp ms cb w m) = m_fdContexts m"
  "io_interest (io_addConditionTimer now tp ms cb w m) = io_interest m"
  "m_pendingEventCount (io_addConditionTimer now tp ms cb w m) = m_pendingEventCount m"
  "io_sched (io_addConditionTimer now tp ms cb w m) = io_sched m"
  "io_self (io_addConditionTimer now tp ms cb w m) = io_self m"
  "io_timers (io_addConditionTimer now tp ms cb w m) = fst (addConditionTimer now tp ms (Some cb) w False (io_timers m))"
  by (simp_all add: io_addConditionTimer_def onTimerInsertedAtFront_def io_tickle_def Let_def case_prod_beta)

lemma io_ok_addConditionTimer [simp]: "io_ok (io_addConditionTimer now tp ms cb w m) = io_ok m"
  by (simp add: io_ok_def io_addConditionTimer_frame)

lemma addConditionTimer_heap:
  "tm_heap (fst (addConditionTimer now tp ms cb w r m)) = (tm_heap m)(tp \<mapsto> new_Timer now ms (Some (OnTimer w cb)) r)"
  "set (m_timers (fst (addConditionTimer now tp ms cb w r m))) = insert tp (set (m_timers m))"
proof -
  obtain m' b where m': "addConditionTimer now tp ms cb w r m = (m', b)" by (cases "addConditionTimer now tp ms cb w r m")
  then have "insert_timer tp (m\<lparr>tm_heap := (tm_heap m)(tp \<mapsto> new_Timer now ms (Some (OnTimer w cb)) r)\<rparr>) = (m', b)"
    by (simp add: addConditionTimer_def addTimer_def)
  from insert_timer_heap [OF this] show
    "tm_heap (fst (addConditionTimer now tp ms cb w r m)) = (tm_heap m)(tp \<mapsto> new_Timer now ms (Some (OnTimer w cb)) r)"
    "set (m_timers (fst (addConditionTimer now tp ms cb w r m))) = insert tp (set (m_timers m))"
    by (simp_all add: m')
qed

definition fiber_task :: "nat \<Rightarrow> 'c task" where
  "fiber_task fiber = \<lparr>ft_fiber = Some fiber, ft_cb = None, ft_thread = -1\<rparr>"

lemma deliver_fiber:
  assumes "e = \<lparr>ev_scheduler = Some (io_self m), ev_fiber = Some fiber, ev_cb = None\<rparr>"
  shows "m_fibers (io_sched (deliver e m)) = m_fibers (io_sched m) @ [fiber_task fiber]"
  using assms
  by (simp add: deliver_def schedule_on_def waiter_def scheduleNolock_def io_tickle_def fiber_task_def Let_def)

text \<open>An attempt that ends in a wait.\<close>

lemma waiting_state:
  assumes "io_inv (hk_io s)" "event = READ \<or> event = WRITE" "cur = Some (io_self (hk_io s))"
    "do_io_try f fd event to ti (now, tp, ep) cur fiber s = Some (Inr (Inr timer, s'))"
  shows "ep = None" "timer = (if to \<noteq> -1 then Some tp else None)" "0 \<le> fd" "nat fd < length (m_fdContexts (hk_io s'))"
    "io_ok (hk_io s')" "fc_events (m_fdContexts (hk_io s') ! nat fd) AND event \<noteq> 0"
    "event_of event (m_fdContexts (hk_io s') ! nat fd) = \<lparr>ev_scheduler = cur, ev_fiber = Some fiber, ev_cb = None\<rparr>"
    "io_sched (hk_io s') = io_sched (hk_io s)" "io_self (hk_io s') = io_self (hk_io s)" "hk_tinfo s' = hk_tinfo s"
    "io_timers (hk_io s') = (if to \<noteq> -1 then fst (addConditionTimer now tp to (Some (IoTimeout ti fd event)) ti False (io_timers (hk_io s)))
       else io_timers (hk_io s))"
proof -
  obtain n s1 where r: "call_retry f s = Some (n, s1)" using assms(4) by (auto simp: do_io_try_def split: option.splits)
  have fr: "hk_io s1 = hk_io s" "hk_tinfo s1 = hk_tinfo s" using call_retry_post [OF r] by (simp_all add: retry_post_def)
  define m where "m = (if to \<noteq> -1 then io_addConditionTimer now tp to (IoTimeout ti fd event) ti (hk_io s) else hk_io s)"
  obtain m1 rt where a: "addEvent fd event None cur fiber (ep = None) m = Inr (rt, m1)" "rt = 0"
    "timer = (if to \<noteq> -1 then Some tp else None)" "hk_io s' = m1" "hk_tinfo s' = hk_tinfo s"
    using assms(3,4) r fr by (auto simp: do_io_try_def arm_def m_def elim!: sbind_eq_InrE split: if_splits)
  show ep: "ep = None" using addEvent_refused [of fd event cur fiber m rt m1] a by (cases ep) auto
  have m: "io_ok m" "2 \<le> length (m_fdContexts m)" "io_sched m = io_sched (hk_io s)" "io_self m = io_self (hk_io s)"
    "io_timers m = (if to \<noteq> -1 then fst (addConditionTimer now tp to (Some (IoTimeout ti fd event)) ti False (io_timers (hk_io s)))
       else io_timers (hk_io s))"
    using assms(1) by (auto simp: m_def io_inv_def io_addConditionTimer_frame)
  note eff = addEvent_effect [OF m(1) assms(2) _ m(2), of cur fd fiber rt m1]
  show "timer = (if to \<noteq> -1 then Some tp else None)" "0 \<le> fd" "nat fd < length (m_fdContexts (hk_io s'))"
    "io_ok (hk_io s')" "fc_events (m_fdContexts (hk_io s') ! nat fd) AND event \<noteq> 0"
    "event_of event (m_fdContexts (hk_io s') ! nat fd) = \<lparr>ev_scheduler = cur, ev_fiber = Some fiber, ev_cb = None\<rparr>"
    "io_sched (hk_io s') = io_sched (hk_io s)" "io_self (hk_io s') = io_self (hk_io s)" "hk_tinfo s' = hk_tinfo s"
    "io_timers (hk_io s') = (if to \<noteq> -1 then fst (addConditionTimer now tp to (Some (IoTimeout ti fd event)) ti False (io_timers (hk_io s)))
       else io_timers (hk_io s))"
    using eff a ep assms(3) m by simp_all
qed

text \<open>
  Claim C21. A fiber whose call would block is resumed by the event: it waits in the context of its
  descriptor, and when epoll reports that the descriptor is ready the fiber is put at the end of the
  queue, once, and waits no longer.
\<close>

theorem event_resumes:
  assumes "io_inv (hk_io s)" "event = READ \<or> event = WRITE" "cur = Some (io_self (hk_io s))"
    "do_io_try f fd event to ti (now, tp, ep) cur fiber s = Some (Inr (Inr timer, s'))"
  shows "\<exists>m'. handle_event (nat fd) event True (hk_io s') = Inr m' \<and>
    m_fibers (io_sched m') = m_fibers (io_sched (hk_io s)) @ [fiber_task fiber] \<and>
    fc_events (m_fdContexts m' ! nat fd) AND event = 0"
proof -
  note w = waiting_state [OF assms]
  let ?c = "m_fdContexts (hk_io s') ! nat fd"
  have r: "(event = READ) = sees EPOLLIN event ?c" and v: "(event = WRITE) = sees EPOLLOUT event ?c"
    using assms(2) by (auto simp: sees_def)
  obtain m' where m': "handle_event (nat fd) event True (hk_io s') = Inr m'"
    "m_fdContexts m' = (m_fdContexts (hk_io s'))[nat fd := after_events (event = READ) (event = WRITE) ?c]"
    "io_sched m' = io_sched (deliver_if (event = WRITE) (fc_write ?c) (deliver_if (event = READ) (fc_read ?c) (hk_io s')))"
    using handle_event_total [OF w(5,4) r v] w(6) by auto
  have "io_sched m' = io_sched (deliver (event_of event ?c) (hk_io s'))"
    using m'(3) assms(2) by (auto simp: deliver_if_def event_of_def)
  then have "m_fibers (io_sched m') = m_fibers (io_sched (hk_io s)) @ [fiber_task fiber]"
    using deliver_fiber [of "event_of event ?c" "hk_io s'" fiber] w(7,8,9) assms(3) by simp
  moreover have "after_events (event = READ) (event = WRITE) ?c = dropped event ?c"
    using assms(2) by (auto simp: after_events_def Let_def)
  then have "fc_events (m_fdContexts m' ! nat fd) AND event = 0"
    using m'(2) w(4) dropped_ok(3) [OF io_ok_ctx [OF w(5,4)] assms(2) w(6)] by (simp add: and.assoc)
  ultimately show ?thesis using m'(1) by blast
qed

lemma wake_timed_out:
  assumes "hk_tinfo x ti = Some ETIMEDOUT" "tm_ok (io_timers (hk_io x))" "tm_heap (io_timers (hk_io x)) tp \<noteq> None"
  shows "\<exists>s2. do_io_wake (Some tp) ti x = Inr (Some (-1), s2) \<and> hk_errno s2 = ETIMEDOUT"
proof -
  obtain t where "tm_heap (io_timers (hk_io x)) tp = Some t" using assms(3) by blast
  from cancel_cases [OF assms(2) this] assms(1) show ?thesis by (auto simp: do_io_wake_def cancel_opt_def)
qed

text \<open>
  Claim C23. With a timeout the fiber has a live timer that is due when the timeout has passed; its
  callback marks the wait as timed out and puts the fiber at the end of the queue, and the resumed call
  then returns -1 with ETIMEDOUT, whatever became of the timer. Without a timeout there is no timer.
\<close>

theorem timeout_resumes:
  assumes "io_inv (hk_io s)" "event = READ \<or> event = WRITE" "cur = Some (io_self (hk_io s))"
    "do_io_try f fd event to ti (now, tp, ep) cur fiber s = Some (Inr (Inr timer, s'))"
    "to \<noteq> -1" "hk_tinfo s ti = Some 0"
  shows "timer = Some tp \<and>
    (\<exists>t. tm_heap (io_timers (hk_io s')) tp = Some t \<and> m_next t = now + to \<and> tp \<in> set (m_timers (io_timers (hk_io s'))) \<and>
      (\<forall>alive. alive ti \<longrightarrow> call_cb alive (m_cb t) = Inr (Some (IoTimeout ti fd event)))) \<and>
    (\<exists>s1. io_timeout ti fd event True s' = Inr s1 \<and> hk_tinfo s1 ti = Some ETIMEDOUT \<and>
      m_fibers (io_sched (hk_io s1)) = m_fibers (io_sched (hk_io s)) @ [fiber_task fiber]) \<and>
    (\<forall>x. hk_tinfo x ti = Some ETIMEDOUT \<longrightarrow> tm_ok (io_timers (hk_io x)) \<longrightarrow> tm_heap (io_timers (hk_io x)) tp \<noteq> None \<longrightarrow>
      (\<exists>s2. do_io_wake timer ti x = Inr (Some (-1), s2) \<and> hk_errno s2 = ETIMEDOUT))"
proof (intro conjI)
  note w = waiting_state [OF assms(1-4)]
  let ?c = "m_fdContexts (hk_io s') ! nat fd"
  show timer: "timer = Some tp" using w(2) assms(5) by simp
  show "\<exists>t. tm_heap (io_timers (hk_io s')) tp = Some t \<and> m_next t = now + to \<and> tp \<in> set (m_timers (io_timers (hk_io s'))) \<and>
      (\<forall>alive. alive ti \<longrightarrow> call_cb alive (m_cb t) = Inr (Some (IoTimeout ti fd event)))"
    using w(11) assms(5) by (simp add: addConditionTimer_heap new_Timer_def)
  have "find_context fd (hk_io s') = Inr (Some (nat fd))" using w(3,4) by (auto simp: find_context_def)
  from cancelEvent_spec [OF w(5) assms(2) this w(6)] obtain m' where
    "cancelEvent fd event True (hk_io s') = Inr (True, m')" "io_sched m' = io_sched (deliver (event_of event ?c) (hk_io s'))"
    by blast
  moreover have "m_fibers (io_sched (deliver (event_of event ?c) (hk_io s'))) = m_fibers (io_sched (hk_io s)) @ [fiber_task fiber]"
    using deliver_fiber [of "event_of event ?c" "hk_io s'" fiber] w(7,8,9) assms(3) by simp
  ultimately show "\<exists>s1. io_timeout ti fd event True s' = Inr s1 \<and> hk_tinfo s1 ti = Some ETIMEDOUT \<and>
      m_fibers (io_sched (hk_io s1)) = m_fibers (io_sched (hk_io s)) @ [fiber_task fiber]"
    using w(10) assms(6) by (simp add: io_timeout_def)
  show "\<forall>x. hk_tinfo x ti = Some ETIMEDOUT \<longrightarrow> tm_ok (io_timers (hk_io x)) \<longrightarrow> tm_heap (io_timers (hk_io x)) tp \<noteq> None \<longrightarrow>
      (\<exists>s2. do_io_wake timer ti x = Inr (Some (-1), s2) \<and> hk_errno s2 = ETIMEDOUT)"
    using wake_timed_out timer by blast
qed

section \<open>A fiber that receives\<close>

definition busy_sched :: "unit hook_cb callback scheduler" where
  "busy_sched = \<lparr>sc_heap = \<lparr>fibers = [7 \<mapsto> \<lparr>f_id = 1, f_stacksize = 0, f_state = EXEC, f_stack = True, f_cb = None, f_caller = False\<rparr>],
       s_fiber_id = 1, s_fiber_count = 1\<rparr>, m_fibers = [], m_threads = 1, m_threadCount = 1, m_activeThreadCount = 1,
     m_idleThreadCount = 0, m_stopping = False, m_autoStop = False, m_rootThread = -1, m_rootFiber = None\<rparr>"

text \<open>The kernel is the number of bytes that have arrived; recv takes them all.\<close>

definition sample_recv :: "nat syscall" where
  "sample_recv k = (if k = 0 then (-1, EAGAIN, 0) else (int k, 0, 0))"

definition sample_hooked :: "(unit, nat) hooked" where
  "sample_hooked = \<lparr>hk_enable = True, hk_errno = 0,
     hk_fds = \<lparr>m_datas = replicate 3 None @ [Some 50] @ replicate 60 None,
       fd_ctxs = [50 \<mapsto> \<lparr>m_isInit = True, m_isSocket = True, m_sysNonblock = True, m_userNonblock = False, m_isClosed = False,
         m_fd = 3, m_recvTimeout = 1000, m_sendTimeout = -1\<rparr>], fd_flags = (\<lambda>_. 0x800)\<rparr>,
     hk_io = new_IOManager 0 busy_sched 5, hk_tinfo = [9 \<mapsto> 0], hk_kernel = 0\<rparr>"

lemma sample_hooked_io:
  "io_inv (hk_io sample_hooked)" "io_self (hk_io sample_hooked) = 0" "m_fibers (io_sched (hk_io sample_hooked)) = []"
  by (simp_all add: sample_hooked_def io_new_inv) (simp_all add: new_IOManager_def contextResize_def busy_sched_def Let_def)

lemma sample_recv_waits:
  "\<exists>s'. do_io_try sample_recv 3 READ 1000 9 (5, 60, None) (Some 0) 7 sample_hooked = Some (Inr (Inr (Some 60), s'))"
proof -
  have r: "call_retry sample_recv sample_hooked = Some (-1, sample_hooked\<lparr>hk_errno := EAGAIN\<rparr>)"
    by (subst call_retry.simps) (simp add: real_call_def sample_recv_def sample_hooked_def)
  let ?m = "io_addConditionTimer 5 60 1000 (IoTimeout 9 3 READ) 9 (hk_io sample_hooked)"
  have m: "m_fdContexts ?m ! 3 = new_FdContext 3" "3 < length (m_fdContexts ?m)" "io_ok ?m"
    using sample_hooked_io(1)
    by (simp_all add: io_addConditionTimer_frame io_inv_def) (simp_all add: sample_hooked_def new_IOManager_def contextResize_def Let_def)
  have st: "state_of (sc_heap (io_sched ?m)) 7 = Some EXEC"
    by (simp add: io_addConditionTimer_frame sample_hooked_def new_IOManager_def contextResize_def busy_sched_def state_of_def Let_def)
  have "\<exists>m'. addEvent 3 READ None (Some 0) 7 True ?m = Inr (0, m')"
    using addEvent_locked_spec [OF m(3,2), of READ "Some 0" None 7] m st
    by (simp add: addEvent_def find_context_def new_FdContext_def)
  then show ?thesis by (auto simp: do_io_try_def r arm_def)
qed

theorem event_resumes_witness:
  "\<exists>s' m'. do_io_try sample_recv 3 READ 1000 9 (5, 60, None) (Some 0) 7 sample_hooked = Some (Inr (Inr (Some 60), s')) \<and>
     handle_event 3 READ True (hk_io s') = Inr m' \<and> m_fibers (io_sched m') = [fiber_task 7]"
proof -
  obtain s' where s': "do_io_try sample_recv 3 READ 1000 9 (5, 60, None) (Some 0) 7 sample_hooked = Some (Inr (Inr (Some 60), s'))"
    using sample_recv_waits by blast
  have "Some 0 = Some (io_self (hk_io sample_hooked))" by (simp add: sample_hooked_io)
  from event_resumes [OF sample_hooked_io(1) _ this s'] s' show ?thesis by (auto simp: sample_hooked_io)
qed

theorem timeout_resumes_witness:
  "\<exists>s' s1. do_io_try sample_recv 3 READ 1000 9 (5, 60, None) (Some 0) 7 sample_hooked = Some (Inr (Inr (Some 60), s')) \<and>
     io_timeout 9 3 READ True s' = Inr s1 \<and> hk_tinfo s1 9 = Some ETIMEDOUT \<and> m_fibers (io_sched (hk_io s1)) = [fiber_task 7]"
proof -
  obtain s' where s': "do_io_try sample_recv 3 READ 1000 9 (5, 60, None) (Some 0) 7 sample_hooked = Some (Inr (Inr (Some 60), s'))"
    using sample_recv_waits by blast
  have "Some 0 = Some (io_self (hk_io sample_hooked))" "hk_tinfo sample_hooked 9 = Some 0"
    by (simp_all add: sample_hooked_io) (simp add: sample_hooked_def)
  from timeout_resumes [OF sample_hooked_io(1) _ this(1) s' _ this(2)] s' show ?thesis by (auto simp: sample_hooked_io)
qed

section \<open>The result of a call\<close>

lemma addEvent_rt: "addEvent fd event None cur f ok m = Inr (rt, m') \<Longrightarrow> rt = (if ok then 0 else -1)"
proof -
  have "rt = (if ok then 0 else -1)" if "addEvent_locked k event None cur f ok n = Inr (rt, m')" for k n
    using that by (auto simp: addEvent_locked_def Let_def elim!: sbind_eq_InrE split: if_splits)
  then show "addEvent fd event None cur f ok m = Inr (rt, m') \<Longrightarrow> rt = (if ok then 0 else -1)"
    by (fastforce simp: addEvent_def grow_context_def Let_def elim!: sbind_eq_InrE split: option.splits if_splits)
qed

lemma cancel_opt_errno: "cancel_opt timer s = Inr s' \<Longrightarrow> hk_errno s' = hk_errno s \<and> hk_tinfo s' = hk_tinfo s"
  by (auto simp: cancel_opt_def elim!: sbind_eq_InrE split: option.splits)

lemma do_io_try_result:
  assumes "do_io_try f fd event to ti (now, tp, ep) cur fiber s = Some (Inr (Inl n, s'))"
  shows "(\<exists>k e k'. f k = (n, e, k')) \<and>
    (n = -1 \<longrightarrow> hk_errno s' \<noteq> EINTR \<and> hk_errno s' \<noteq> EAGAIN \<or> (\<exists>e. ep = Some e \<and> hk_errno s' = e))"
proof -
  obtain m s1 where r: "call_retry f s = Some (m, s1)" using assms by (auto simp: do_io_try_def split: option.splits)
  have post: "retry_post f s m s1" using call_retry_post [OF r] by simp
  show ?thesis
  proof (cases "m = -1 \<and> hk_errno s1 = EAGAIN")
    case True
    then obtain rt timer s2 where a: "arm fd event to ti (now, tp, ep) cur fiber s1 = Inr (rt, timer, s2)" "rt \<noteq> 0"
      "cancel_opt timer s2 = Inr s'" "n = m"
      using assms r by (auto simp: do_io_try_def elim!: sbind_eq_InrE split: if_splits)
    then have "\<exists>e. ep = Some e \<and> hk_errno s2 = e"
      by (cases ep) (auto simp: arm_def elim!: sbind_eq_InrE split: if_splits dest!: addEvent_rt)
    then show ?thesis using a cancel_opt_errno [OF a(3)] post by (auto simp: retry_post_def)
  next
    case False
    then have "n = m" "s' = s1" using assms r by (auto simp: do_io_try_def split: if_splits)
    then show ?thesis using False post by (auto simp: retry_post_def)
  qed
qed

lemma do_io_loop_result:
  assumes "do_io_loop f fd event to ti cur fiber is s = Some (Inr (n, s'))"
    "\<forall>(inp, env) \<in> set is. \<forall>x. hk_tinfo (env x) ti \<in> {Some 0, Some ETIMEDOUT}"
  shows "(n \<noteq> -1 \<longrightarrow> (\<exists>k e k'. f k = (n, e, k'))) \<and>
    (n = -1 \<longrightarrow> hk_errno s' \<noteq> EINTR \<and> hk_errno s' \<noteq> EAGAIN \<or>
       (\<exists>now tp e env. ((now, tp, Some e), env) \<in> set is \<and> hk_errno s' = e))"
  using assms
proof (induction "is" arbitrary: s)
  case (Cons i "is")
  obtain now tp ep env where i: "i = ((now, tp, ep), env)" by (cases i) auto
  obtain t s1 where t: "do_io_try f fd event to ti (now, tp, ep) cur fiber s = Some (Inr (t, s1))"
    using Cons.prems(1) by (auto simp: i split: option.splits sum.splits)
  show ?case
  proof (cases t)
    case (Inl m)
    then have "m = n" "s1 = s'" using Cons.prems(1) t by (auto simp: i)
    then show ?thesis using do_io_try_result [of f fd event to ti now tp ep cur fiber s n s'] t Inl by (auto simp: i)
  next
    case (Inr timer)
    obtain o2 s2 where w: "do_io_wake timer ti (env s1) = Inr (o2, s2)"
      using Cons.prems(1) t Inr by (auto simp: i split: sum.splits)
    have ti: "hk_tinfo (env s1) ti \<in> {Some 0, Some ETIMEDOUT}" using Cons.prems(2) by (auto simp: i)
    show ?thesis
    proof (cases o2)
      case None
      then have "do_io_loop f fd event to ti cur fiber is s2 = Some (Inr (n, s'))" using Cons.prems(1) t Inr w by (simp add: i)
      then show ?thesis using Cons.IH Cons.prems(2) by (fastforce simp: i)
    next
      case (Some m)
      then have "n = -1" "s' = s2" "hk_errno s2 = ETIMEDOUT"
        using Cons.prems(1) t Inr w ti
        by (auto simp: i do_io_wake_def elim!: sbind_eq_InrE dest!: cancel_opt_errno split: if_splits)
      then show ?thesis by simp
    qed
  qed
qed simp

text \<open>
  Claim C22. When a hooked call returns: a descriptor that is not managed gets exactly the real call, a
  closed one EBADF without a call; the call of a managed one returns what the real call returned, and
  when that is -1 errno is never EINTR and never EAGAIN, except for an errno that epoll_ctl has left
  when the event could not be added. The timer_info is gone.
\<close>

theorem do_io_returns:
  assumes "do_io fd f event timeout_so ti cur fiber is s = Some (Inr (n, s'))"
    "\<forall>(inp, env) \<in> set is. \<forall>x. hk_tinfo (env x) ti \<in> {Some 0, Some ETIMEDOUT}"
  shows "case do_io_path fd timeout_so s of
      Direct \<Rightarrow> (n, s') = real_call f s
    | Refused \<Rightarrow> n = -1 \<and> hk_errno s' = EBADF \<and> hk_kernel s' = hk_kernel s
    | Managed to \<Rightarrow>
        hk_tinfo s' ti = None \<and> (n \<noteq> -1 \<longrightarrow> (\<exists>k e k'. f k = (n, e, k'))) \<and>
        (n = -1 \<longrightarrow> hk_errno s' \<noteq> EINTR \<and> hk_errno s' \<noteq> EAGAIN \<or>
           (\<exists>now tp e env. ((now, tp, Some e), env) \<in> set is \<and> hk_errno s' = e))"
proof (cases "do_io_path fd timeout_so s")
  case (Managed to)
  then obtain s1 where s1: "do_io_loop f fd event to ti cur fiber is (s\<lparr>hk_tinfo := (hk_tinfo s)(ti \<mapsto> 0)\<rparr>) = Some (Inr (n, s1))"
    "s' = s1\<lparr>hk_tinfo := (hk_tinfo s1)(ti := None)\<rparr>"
    using assms(1) by (auto simp: do_io_def elim!: sbind_eq_InrE)
  from do_io_loop_result [OF s1(1) assms(2)] s1(2) Managed show ?thesis by simp
qed (use assms(1) in \<open>auto simp: do_io_def\<close>)

theorem do_io_returns_witness:
  "\<exists>s'. do_io 3 sample_recv READ SO_RCVTIMEO 9 (Some 0) 7 [((5, 60, None), id)] (sample_hooked\<lparr>hk_kernel := 12\<rparr>) =
      Some (Inr (12, s')) \<and> hk_tinfo s' 9 = None"
proof -
  let ?s = "sample_hooked\<lparr>hk_kernel := 12\<rparr>" and ?env = "\<lambda>x :: (unit, nat) hooked. x\<lparr>hk_tinfo := [9 \<mapsto> 0]\<rparr>"
  have path: "do_io_path 3 SO_RCVTIMEO ?s = Managed 1000"
    by (simp add: do_io_path_def fd_ctx_def get_lookup_def sample_hooked_def getTimeout_def nth_append)
  have "call_retry sample_recv (?s\<lparr>hk_tinfo := (hk_tinfo ?s)(9 \<mapsto> 0)\<rparr>) =
      Some (12, ?s\<lparr>hk_tinfo := (hk_tinfo ?s)(9 \<mapsto> 0), hk_kernel := 0\<rparr>)"
    by (subst call_retry.simps) (simp add: real_call_def sample_recv_def)
  then obtain s' where "do_io 3 sample_recv READ SO_RCVTIMEO 9 (Some 0) 7 [((5, 60, None), ?env)] ?s = Some (Inr (12, s'))"
    "do_io 3 sample_recv READ SO_RCVTIMEO 9 (Some 0) 7 [((5, 60, None), id)] ?s = Some (Inr (12, s'))"
    by (simp add: do_io_def path do_io_try_def)
  with do_io_returns [OF this(1)] path show ?thesis by auto
qed

section \<open>Blocking mode\<close>

lemma get_lookup_False: "\<exists>r. get_lookup fd False m = Inl r"
  by (auto simp: get_lookup_def)

lemma fd_ctx_upd: "fd_ctx fd s = Some c \<Longrightarrow> fd_ctx fd (upd_ctx fd g s) = Some (g c)"
  by (auto simp: fd_ctx_def upd_ctx_def get_lookup_def split: if_splits option.splits)

lemma fd_ctx_setfl [simp]: "fd_ctx fd (real_setfl i arg s) = fd_ctx fd s"
  by (simp add: fd_ctx_def real_setfl_def get_lookup_def Let_def split: option.split)

lemma fd_flags_upd [simp]: "fd_flags (hk_fds (upd_ctx fd g s)) = fd_flags (hk_fds s)"
  by (auto simp: upd_ctx_def split: sum.splits option.splits)

lemma enable_upd [simp]: "hk_enable (upd_ctx fd g s) = hk_enable s" "hk_enable (real_setfl fd arg s) = hk_enable s"
  by (auto simp: upd_ctx_def real_setfl_def Let_def split: sum.splits option.splits)

definition managed_socket :: "int \<Rightarrow> fdctx \<Rightarrow> ('u, 'k) hooked \<Rightarrow> bool" where
  "managed_socket fd c s \<longleftrightarrow> fd_ctx fd s = Some c \<and> m_isSocket c \<and> \<not> m_isClosed c \<and> m_sysNonblock c"

lemma set_nonblock:
  assumes "managed_socket fd c s"
  shows "fcntl_setfl fd arg s = real_setfl fd (arg OR O_NONBLOCK) (upd_ctx fd (\<lambda>c. c\<lparr>m_userNonblock := (arg AND O_NONBLOCK \<noteq> 0)\<rparr>) s)"
  using assms by (simp add: fcntl_setfl_def managed_socket_def unmanaged_def Let_def fd_ctx_upd)

lemma one_bit: "(w :: u32) AND O_NONBLOCK \<noteq> 0 \<longleftrightarrow> bit w 11"
  using bit_iff_and_push_bit_not_eq_0 [of w 11] by (simp add: push_bit_eq_mult)

lemma view_bits:
  fixes fl arg S N :: u32
  assumes "\<And>i. bit N i \<longleftrightarrow> i = 11" "bit S 11"
  shows "(if bit arg 11 then ((fl AND NOT S) OR ((arg OR N) AND S)) OR N else ((fl AND NOT S) OR ((arg OR N) AND S)) AND NOT N) =
      (fl AND NOT S) OR (arg AND S)"
    and "bit ((fl AND NOT S) OR ((arg OR N) AND S)) 11"
  using assms by (auto intro!: bit_word_eqI simp: bit_simps)

lemma O_NONBLOCK_bits: "bit O_NONBLOCK i \<longleftrightarrow> i = 11" "bit SETTABLE 11"
proof -
  have "O_NONBLOCK = push_bit 11 1" by simp
  then show "bit O_NONBLOCK i \<longleftrightarrow> i = 11" by (simp only: bit_push_bit_iff bit_1_iff possible_bit_word) auto
qed simp


definition sample_ctx :: fdctx where
  "sample_ctx = \<lparr>m_isInit = True, m_isSocket = True, m_sysNonblock = True, m_userNonblock = False, m_isClosed = False,
     m_fd = 3, m_recvTimeout = 1000, m_sendTimeout = -1\<rparr>"

lemma sample_managed: "managed_socket 3 sample_ctx sample_hooked"
  by (simp add: managed_socket_def fd_ctx_def get_lookup_def sample_hooked_def sample_ctx_def nth_append)


text \<open>
  ioctl with FIONBIO undoes this: it hands the program's wish on to the kernel, so after
  FIONBIO with 0 a managed socket blocks, and do_io still manages it, so a call that would have to wait
  stops the whole thread. F_SETFL makes the kernel's descriptor non-blocking again.
\<close>

theorem fionbio_blocks_thread:
  assumes "managed_socket fd c s" "hk_enable s"
  shows "\<not> bit (fd_flags (hk_fds (ioctl_fionbio fd False s)) fd) 11 \<and>
    do_io_path fd so (ioctl_fionbio fd False s) = Managed (getTimeout so c) \<and>
    (\<exists>c'. managed_socket fd c' (ioctl_fionbio fd False s)) \<and>
    bit (fd_flags (hk_fds (fcntl_setfl fd 0 (ioctl_fionbio fd False s))) fd) 11"
proof -
  define s1 where "s1 = upd_ctx fd (\<lambda>c. c\<lparr>m_userNonblock := False\<rparr>) s"
  have i: "ioctl_fionbio fd False s =
      s1\<lparr>hk_fds := (hk_fds s1)\<lparr>fd_flags := (fd_flags (hk_fds s1))(fd := fd_flags (hk_fds s1) fd AND NOT O_NONBLOCK)\<rparr>\<rparr>"
    using assms by (simp add: ioctl_fionbio_def managed_socket_def unmanaged_def s1_def Let_def)
  have "fd_ctx fd s1 = Some (c\<lparr>m_userNonblock := False\<rparr>)"
    using assms fd_ctx_upd [of fd s c] by (simp add: managed_socket_def s1_def)
  then have ctx: "fd_ctx fd (ioctl_fionbio fd False s) = Some (c\<lparr>m_userNonblock := False\<rparr>)"
    unfolding i by (simp add: fd_ctx_def get_lookup_def split: option.splits if_splits)
  then have m: "managed_socket fd (c\<lparr>m_userNonblock := False\<rparr>) (ioctl_fionbio fd False s)"
    using assms(1) by (simp add: managed_socket_def)
  have en: "hk_enable (ioctl_fionbio fd False s)" using assms(2) by (simp add: i s1_def)
  have "\<not> bit (fd_flags (hk_fds (ioctl_fionbio fd False s)) fd) 11"
    unfolding i by (simp add: bit_and_iff)
  moreover have "do_io_path fd so (ioctl_fionbio fd False s) = Managed (getTimeout so c)"
    using m en by (simp add: do_io_path_def managed_socket_def getTimeout_def)
  moreover have "bit (fd_flags (hk_fds (fcntl_setfl fd 0 (ioctl_fionbio fd False s))) fd) 11"
    unfolding set_nonblock [OF m] by (simp add: real_setfl_def Let_def bit_or_iff)
  ultimately show ?thesis using m by blast
qed

theorem fionbio_blocks_thread_witness:
  "do_io_path 3 SO_RCVTIMEO (ioctl_fionbio 3 False sample_hooked) = Managed 1000 \<and>
   \<not> bit (fd_flags (hk_fds (ioctl_fionbio 3 False sample_hooked)) 3) 11"
  using fionbio_blocks_thread [OF sample_managed, of SO_RCVTIMEO]
  by (simp add: sample_hooked_def getTimeout_def sample_ctx_def)

section \<open>Sleeping and timeouts\<close>

lemma unat_widen: "unat (ucast (w :: u32) :: u64) = unat w"
  using unsigned_less [of w, where 'a = nat] by (simp add: unsigned_ucast_eq take_bit_nat_eq_self)

text \<open>
  A hooked sleep arms one timer that schedules the fiber: after the seconds, if they are
  fewer than 4294968, else after their number of milliseconds modulo 2 to the 32; usleep rounds down to
  milliseconds, so a sleep of less than one is not one.
\<close>

theorem sleep_timer:
  assumes "hk_enable s" "cur \<noteq> None"
  shows "\<exists>s1 s2 t1 t2.
    hooked_sleep f now tp seconds cur fiber s = Inr (Inr (), s1) \<and> hooked_usleep f now tp usec cur fiber s = Inr (Inr (), s2) \<and>
    tm_heap (io_timers (hk_io s1)) tp = Some t1 \<and> tm_heap (io_timers (hk_io s2)) tp = Some t2 \<and>
    m_cb t1 = Some (Call (Resume fiber)) \<and> m_cb t2 = Some (Call (Resume fiber)) \<and>
    m_next t1 = now + sleep_ms seconds \<and> m_next t2 = now + usleep_ms usec \<and>
    unat (sleep_ms seconds) = 1000 * unat seconds mod 2 ^ 32 \<and> unat (usleep_ms usec) = unat usec div 1000 \<and>
    tp \<in> set (m_timers (io_timers (hk_io s1))) \<and> tp \<in> set (m_timers (io_timers (hk_io s2)))"
proof -
  have arm: "\<exists>s' t. arm_sleep now tp ms cur fiber s = Inr s' \<and> tm_heap (io_timers (hk_io s')) tp = Some t \<and>
      m_cb t = Some (Call (Resume fiber)) \<and> m_next t = now + ms \<and> tp \<in> set (m_timers (io_timers (hk_io s')))" for ms
  proof -
    obtain tm b where tm: "addTimer now tp ms (Some (Call (Resume fiber))) False (io_timers (hk_io s)) = (tm, b)"
      by (cases "addTimer now tp ms (Some (Call (Resume fiber))) False (io_timers (hk_io s))")
    then have "tm_heap tm tp = Some (new_Timer now ms (Some (Call (Resume fiber))) False)" "tp \<in> set (m_timers tm)"
      using insert_timer_heap [of tp _ tm b] by (simp_all add: addTimer_def)
    moreover have "io_timers (onTimerInsertedAtFront m) = io_timers m" for m :: "'a hook_cb iomanager"
      by (simp add: onTimerInsertedAtFront_def io_tickle_def)
    ultimately show ?thesis using assms(2) tm by (simp add: arm_sleep_def new_Timer_def Let_def)
  qed
  have "unat (sleep_ms seconds) = 1000 * unat seconds mod 2 ^ 32"
    by (simp add: sleep_ms_def unat_widen unat_word_ariths mult.commute)
  moreover have "unat (usleep_ms usec) = unat usec div 1000"
    by (simp add: usleep_ms_def unat_widen unat_div)
  ultimately show ?thesis
    using arm [of "sleep_ms seconds"] arm [of "usleep_ms usec"] assms(1) by (auto simp: hooked_sleep_def hooked_usleep_def)
qed

theorem sleep_timer_witness:
  "\<exists>s1 t1. hooked_sleep (\<lambda>k. (0, 0, k)) 5 60 4294968 (Some 0) 7 sample_hooked = Inr (Inr (), s1) \<and>
     tm_heap (io_timers (hk_io s1)) 60 = Some t1 \<and> m_next t1 = 5 + 704"
proof -
  have "sleep_ms 4294968 = 704" by (simp add: sleep_ms_def)
  moreover have "hk_enable sample_hooked" by (simp add: sample_hooked_def)
  ultimately show ?thesis
    using sleep_timer [of sample_hooked "Some 0" "\<lambda>k. (0, 0, k)" 5 60 4294968 7 0] by auto
qed

text \<open>A timeout set with setsockopt is the one the next call waits for.\<close>

lemma setsockopt_timeout:
  assumes "fd_ctx fd s = Some c" "hk_enable s" "0 \<le> sec" "0 \<le> usec" "usec < 1000000" "sec < 2 ^ 50"
    "optname = SO_RCVTIMEO \<or> optname = SO_SNDTIMEO"
  shows "\<exists>n s' c'. hooked_setsockopt f fd SOL_SOCKET optname (sec, usec) s = Inr (n, s') \<and> fd_ctx fd s' = Some c' \<and>
    getTimeout optname c' = word_of_int (sec * 1000 + usec div 1000)"
proof -
  have tv: "timeval_ms sec usec = Inr (word_of_int (sec * 1000 + usec div 1000))"
  proof -
    have "timeval_ms sec usec = (let a = sec * 1000; q = usec div 1000
        in if a < - (2 ^ 63) \<or> 2 ^ 63 \<le> a \<or> a + q < - (2 ^ 63) \<or> 2 ^ 63 \<le> a + q then Inl SignedOverflow
           else Inr (word_of_int (a + q)))"
      using assms(4) by (cases "usec = 0") (simp_all add: timeval_ms_def)
    moreover have "0 \<le> usec div 1000" "usec div 1000 < 1000" using assms(4,5) by auto
    moreover have "sec * 1000 < 2 ^ 50 * 1000" using assms(6) by simp
    ultimately show ?thesis using assms(3) by (simp add: Let_def)
  qed
  let ?s1 = "upd_ctx fd (setTimeout optname (word_of_int (sec * 1000 + usec div 1000))) s"
  obtain n s' where r: "real_call f ?s1 = (n, s')" by (cases "real_call f ?s1")
  then have "fd_ctx fd s' = fd_ctx fd ?s1"
    by (auto simp: real_call_def Let_def fd_ctx_def split: prod.splits sum.split option.split)
  moreover have "getTimeout optname (setTimeout optname v c) = v" for v
    using assms(7) by (auto simp: getTimeout_def setTimeout_def SO_RCVTIMEO_def SO_SNDTIMEO_def)
  ultimately show ?thesis
    using assms(1,2,7) tv r fd_ctx_upd [OF assms(1)] by (auto simp: hooked_setsockopt_def)
qed

end
