(* ===== verification/RequestMachine.thy ===== *)
theory RequestMachine
  imports StdString
begin

text \<open>
  The form of the machines Ragel makes (exhy/http/http11_parser.cpp, exhy/http/httpclient_parser.cpp) and
  the actions of the request machine. A machine is a function that gives for a state and a
  character the jump that is taken; the driver goes over the buffer, performs the actions of an edge at the
  character, and stops at the end of the buffer, at the error state or where an action breaks.
\<close>

section \<open>The driver\<close>

text \<open>
  The targets of a goto: a state (\<open>st0\<close> is the error state, which is entered without going on to the
  next character), an edge with actions, or an edge whose last action is \<open>fbreak\<close>.
\<close>

datatype 'a jump = St nat | Tr "'a list" nat | Stop "'a list" nat

text \<open>\<open>char\<close> is signed.\<close>

definition sc :: "char \<Rightarrow> int" where
  "sc c = (let n = int (of_char c) in if n < 128 then n else n - 256)"

text \<open>
  \<open>act p a s\<close> performs the action \<open>a\<close> at the position \<open>p\<close>. The result is \<open>cs\<close>, the position and the state
  behind the label \<open>_out\<close>.
\<close>

function goto_run ::
  "(nat \<Rightarrow> int \<Rightarrow> 'a jump) \<Rightarrow> (nat \<Rightarrow> 'a \<Rightarrow> 's \<Rightarrow> 's) \<Rightarrow> string \<Rightarrow> nat \<Rightarrow> nat \<Rightarrow> 's \<Rightarrow> nat \<times> nat \<times> 's" where
  "goto_run delta act buf p cs s =
     (if length buf \<le> p then (cs, p, s)
      else case delta cs (sc (buf ! p)) of
             St n \<Rightarrow> if n = 0 then (0, p, s) else goto_run delta act buf (p + 1) n s
           | Tr as n \<Rightarrow> goto_run delta act buf (p + 1) n (fold (act p) as s)
           | Stop as n \<Rightarrow> (n, p + 1, fold (act p) as s))"
  by pat_completeness auto
termination by (relation "measure (\<lambda>(_, _, buf, p, _). length buf - p)") auto

declare goto_run.simps [simp del]

text \<open>The same run as a function of the characters that are left, which is the form proofs use.\<close>

fun word_run ::
  "(nat \<Rightarrow> int \<Rightarrow> 'a jump) \<Rightarrow> (nat \<Rightarrow> 'a \<Rightarrow> 's \<Rightarrow> 's) \<Rightarrow> string \<Rightarrow> nat \<Rightarrow> nat \<Rightarrow> 's \<Rightarrow> nat \<times> nat \<times> 's" where
  "word_run delta act [] p cs s = (cs, p, s)"
| "word_run delta act (c # xs) p cs s =
     (case delta cs (sc c) of
        St n \<Rightarrow> if n = 0 then (0, p, s) else word_run delta act xs (p + 1) n s
      | Tr as n \<Rightarrow> word_run delta act xs (p + 1) n (fold (act p) as s)
      | Stop as n \<Rightarrow> (n, p + 1, fold (act p) as s))"

lemma goto_run_word: "goto_run delta act buf p cs s = word_run delta act (drop p buf) p cs s"
proof (induction delta act buf p cs s rule: goto_run.induct)
  case (1 delta act buf p cs s)
  show ?case
  proof (cases "length buf \<le> p")
    case False
    then have "drop p buf = buf ! p # drop (p + 1) buf" by (simp add: Cons_nth_drop_Suc)
    then show ?thesis using 1 False by (simp add: goto_run.simps [of delta act buf p] split: jump.split)
  qed (simp add: goto_run.simps)
qed

text \<open>Characters that leave the machine in its state.\<close>

lemma word_run_span:
  assumes "\<forall>c \<in> set xs. delta q (sc c) = St q" "q \<noteq> 0"
  shows "word_run delta act (xs @ ys) p q s = word_run delta act ys (p + length xs) q s"
  using assms by (induction xs arbitrary: p) auto

text \<open>
  What a run keeps when all edges from the states \<open>Q\<close> lead to such states, or stop in one of \<open>F\<close>: an
  invariant of the actions and of going on, and the buffer is consumed whole unless the run stops.
\<close>

fun jump_ok :: "(nat \<Rightarrow> bool) \<Rightarrow> (nat \<Rightarrow> bool) \<Rightarrow> 'a jump \<Rightarrow> bool" where
  "jump_ok Q F (St n) \<longleftrightarrow> n = 0 \<or> Q n"
| "jump_ok Q F (Tr as n) \<longleftrightarrow> Q n"
| "jump_ok Q F (Stop as n) \<longleftrightarrow> F n"

lemma jump_ok_if: "jump_ok Q F x \<Longrightarrow> jump_ok Q F y \<Longrightarrow> jump_ok Q F (if b then x else y)"
  by simp

lemma fold_invariant:
  assumes "I s" "\<And>a s. I s \<Longrightarrow> I (act a s)"
  shows "I (fold act as s)"
  using assms(1) by (induction as arbitrary: s) (simp_all add: assms(2))

lemma word_run_invariant:
  assumes "I p s" "p + length xs = pe" "Q cs" "\<And>q c. Q q \<Longrightarrow> jump_ok Q F (delta q c)"
    and act: "\<And>p a s. I p s \<Longrightarrow> p < pe \<Longrightarrow> I p (act p a s)" and on: "\<And>p s. I p s \<Longrightarrow> p < pe \<Longrightarrow> I (p + 1) s"
    and run: "word_run delta act xs p cs s = (cs', p', s')"
  shows "I p' s' \<and> p \<le> p' \<and> p' \<le> pe \<and> (cs' = 0 \<or> F cs' \<or> Q cs' \<and> p' = pe)"
  using assms(1-3) run
proof (induction xs arbitrary: p cs s)
  case (Cons c xs)
  have p: "p < pe" "p + 1 + length xs = pe" using Cons.prems(2) by simp_all
  have acts: "I p (fold (act p) as s)" for as using fold_invariant [of "I p" s "act p"] act [OF _ p(1)] Cons.prems(1) by blast
  have ok: "jump_ok Q F (delta cs (sc c))" using assms(4) Cons.prems(3) .
  show ?case
  proof (cases "delta cs (sc c)")
    case (St n)
    then show ?thesis using Cons.IH [of "p + 1" s n] Cons.prems ok p on by (auto split: if_splits)
  next
    case (Tr as n)
    then show ?thesis using Cons.IH [of "p + 1" "fold (act p) as s" n] Cons.prems ok p on acts by auto
  next
    case (Stop as n)
    then show ?thesis using Cons.prems ok p on acts by auto
  qed
qed auto

text \<open>\<open>LEN(AT, p)\<close>, a size_t.\<close>

definition LEN :: "nat \<Rightarrow> nat \<Rightarrow> nat" where
  "LEN at p = nat ((int p - int at) mod 2 ^ 64)"

lemma LEN_le: "at \<le> p \<Longrightarrow> p < 2 ^ 64 \<Longrightarrow> LEN at p = p - at"
  by (simp add: LEN_def nat_eq_iff flip: of_nat_diff)

section \<open>The request parser\<close>

datatype req_action =
    Mark | StartField | WriteField | StartValue | WriteValue | RequestMethod | RequestUri | Fragment | StartQuery
  | QueryString | HttpVersion | RequestPath | Done | Xml | Json

text \<open>The calls of the callbacks, with positions in the buffer and lengths.\<close>

datatype req_call =
    OnMethod nat nat | OnUri nat nat | OnFragment nat nat | OnPath nat nat | OnQuery nat nat
  | OnVersion nat nat | OnHeaderDone nat nat | OnField nat nat nat nat

record http_parser =
  hp_cs :: nat
  hp_body_start :: nat
  hp_content_len :: int
  hp_nread :: nat
  hp_mark :: nat
  hp_field_start :: nat
  hp_field_len :: nat
  hp_query_start :: nat
  hp_xml_sent :: bool
  hp_json_sent :: bool
  hp_uri_relaxed :: bool

text \<open>The actions; \<open>pe\<close> is the length of the buffer. All callbacks are set.\<close>

fun req_act :: "nat \<Rightarrow> nat \<Rightarrow> req_action \<Rightarrow> http_parser \<times> req_call list \<Rightarrow> http_parser \<times> req_call list" where
  "req_act pe p Mark (h, cs) = (h\<lparr>hp_mark := p\<rparr>, cs)"
| "req_act pe p StartField (h, cs) = (h\<lparr>hp_field_start := p\<rparr>, cs)"
| "req_act pe p WriteField (h, cs) = (h\<lparr>hp_field_len := LEN (hp_field_start h) p\<rparr>, cs)"
| "req_act pe p StartValue (h, cs) = (h\<lparr>hp_mark := p\<rparr>, cs)"
| "req_act pe p WriteValue (h, cs) =
     (h, cs @ [OnField (hp_field_start h) (hp_field_len h) (hp_mark h) (LEN (hp_mark h) p)])"
| "req_act pe p RequestMethod (h, cs) = (h, cs @ [OnMethod (hp_mark h) (LEN (hp_mark h) p)])"
| "req_act pe p RequestUri (h, cs) = (h, cs @ [OnUri (hp_mark h) (LEN (hp_mark h) p)])"
| "req_act pe p Fragment (h, cs) = (h, cs @ [OnFragment (hp_mark h) (LEN (hp_mark h) p)])"
| "req_act pe p StartQuery (h, cs) = (h\<lparr>hp_query_start := p\<rparr>, cs)"
| "req_act pe p QueryString (h, cs) = (h, cs @ [OnQuery (hp_query_start h) (LEN (hp_query_start h) p)])"
| "req_act pe p HttpVersion (h, cs) = (h, cs @ [OnVersion (hp_mark h) (LEN (hp_mark h) p)])"
| "req_act pe p RequestPath (h, cs) = (h, cs @ [OnPath (hp_mark h) (LEN (hp_mark h) p)])"
| "req_act pe p Done (h, cs) =
     (if hp_xml_sent h \<or> hp_json_sent h then
        (h\<lparr>hp_body_start := hp_mark h, hp_content_len := sint (word_of_int (int p - int (hp_mark h) + 1) :: u32)\<rparr>, cs)
      else (h\<lparr>hp_body_start := p + 1\<rparr>, cs @ [OnHeaderDone (p + 1) (pe - p - 1)]))"
| "req_act pe p Xml (h, cs) = (h\<lparr>hp_xml_sent := True\<rparr>, cs)"
| "req_act pe p Json (h, cs) = (h\<lparr>hp_json_sent := True\<rparr>, cs)"

text \<open>The character with the bit of the relaxed URI syntax, as it is tested where a URI is read.\<close>

definition widec :: "bool \<Rightarrow> int \<Rightarrow> int" where
  "widec relaxed c =
     (let w = (128 + (c - (- 128))) + (if relaxed then 256 else 0)
      in if c < 123 then (if c = 94 then w else c)
         else if 123 < c then (if c = 125 then w else c)
         else w)"

end
