(* ===== verification/RequestStates.thy ===== *)
theory RequestStates
  imports RequestMachine
begin

text \<open>
  The states 1 to 173 of the machine in exhy/http/http11_parser.cpp, one definition per label
  \<open>case n:\<close> (the method, the path, the query and the fragment of a relative reference, the version, the
  header lines, and the authority of an absolute URI), and the blocks \<open>trn:\<close>, the actions of an edge. The
  conditions are those of the code: a switch is a membership test for each target, and the tests that
  follow it are taken when no case applies.
\<close>

section \<open>Edges with actions\<close>

definition req_tr0 :: "req_action jump" where
  "req_tr0 = Tr [Mark] 2"

definition req_tr4 :: "req_action jump" where
  "req_tr4 = Tr [RequestMethod] 3"

definition req_tr6 :: "req_action jump" where
  "req_tr6 = Tr [Mark, RequestPath, RequestUri] 4"

definition req_tr37 :: "req_action jump" where
  "req_tr37 = Tr [RequestPath, RequestUri] 4"

definition req_tr44 :: "req_action jump" where
  "req_tr44 = Tr [Mark, Fragment] 4"

definition req_tr47 :: "req_action jump" where
  "req_tr47 = Tr [Fragment] 4"

definition req_tr54 :: "req_action jump" where
  "req_tr54 = Tr [StartQuery, QueryString, RequestUri] 4"

definition req_tr58 :: "req_action jump" where
  "req_tr58 = Tr [QueryString, RequestUri] 4"

definition req_tr13 :: "req_action jump" where
  "req_tr13 = Tr [Mark] 5"

definition req_tr21 :: "req_action jump" where
  "req_tr21 = Tr [HttpVersion] 13"

definition req_tr30 :: "req_action jump" where
  "req_tr30 = Tr [StartValue, WriteValue] 13"

definition req_tr33 :: "req_action jump" where
  "req_tr33 = Tr [WriteValue] 13"

definition req_tr23 :: "req_action jump" where
  "req_tr23 = Tr [StartField] 14"

definition req_tr27 :: "req_action jump" where
  "req_tr27 = Tr [WriteField] 15"

definition req_tr29 :: "req_action jump" where
  "req_tr29 = Tr [StartValue] 15"

definition req_tr28 :: "req_action jump" where
  "req_tr28 = Tr [StartValue] 16"

definition req_tr22 :: "req_action jump" where
  "req_tr22 = Tr [HttpVersion] 17"

definition req_tr31 :: "req_action jump" where
  "req_tr31 = Tr [StartValue, WriteValue] 17"

definition req_tr34 :: "req_action jump" where
  "req_tr34 = Tr [WriteValue] 17"

definition req_tr24 :: "req_action jump" where
  "req_tr24 = Stop [StartField, Done] 348"

definition req_tr36 :: "req_action jump" where
  "req_tr36 = Stop [Done] 348"

definition req_tr25 :: "req_action jump" where
  "req_tr25 = Tr [StartField] 18"

definition req_tr7 :: "req_action jump" where
  "req_tr7 = Tr [Mark] 19"

definition req_tr8 :: "req_action jump" where
  "req_tr8 = Tr [Mark, RequestPath, RequestUri] 20"

definition req_tr39 :: "req_action jump" where
  "req_tr39 = Tr [RequestPath, RequestUri] 20"

definition req_tr55 :: "req_action jump" where
  "req_tr55 = Tr [StartQuery, QueryString, RequestUri] 20"

definition req_tr59 :: "req_action jump" where
  "req_tr59 = Tr [QueryString, RequestUri] 20"

definition req_tr43 :: "req_action jump" where
  "req_tr43 = Tr [Mark] 21"

definition req_tr45 :: "req_action jump" where
  "req_tr45 = Tr [Mark] 22"

definition req_tr9 :: "req_action jump" where
  "req_tr9 = Tr [Mark] 24"

definition req_tr203 :: "req_action jump" where
  "req_tr203 = Tr [Mark] 26"

definition req_tr204 :: "req_action jump" where
  "req_tr204 = Tr [Mark] 27"

definition req_tr11 :: "req_action jump" where
  "req_tr11 = Tr [Mark, RequestPath] 29"

definition req_tr42 :: "req_action jump" where
  "req_tr42 = Tr [RequestPath] 29"

definition req_tr53 :: "req_action jump" where
  "req_tr53 = Tr [StartQuery] 30"

definition req_tr56 :: "req_action jump" where
  "req_tr56 = Tr [StartQuery] 31"

definition req_tr10 :: "req_action jump" where
  "req_tr10 = Tr [Mark] 33"

definition req_tr12 :: "req_action jump" where
  "req_tr12 = Tr [Mark] 173"

definition req_tr2 :: "req_action jump" where
  "req_tr2 = Tr [Mark] 194"

definition req_tr224 :: "req_action jump" where
  "req_tr224 = Tr [RequestPath] 196"

definition req_tr227 :: "req_action jump" where
  "req_tr227 = Stop [Xml, Done] 349"

definition req_tr235 :: "req_action jump" where
  "req_tr235 = Stop [Json, Done] 349"

definition req_tr3 :: "req_action jump" where
  "req_tr3 = Tr [Mark] 198"

definition req_tr228 :: "req_action jump" where
  "req_tr228 = Tr [RequestPath] 199"

definition req_tr232 :: "req_action jump" where
  "req_tr232 = Tr [Mark] 200"

section \<open>States\<close>

definition req_1 :: "int \<Rightarrow> req_action jump" where
  "req_1 c =
     (if c = 60 then req_tr2
      else if c = 64 then req_tr3
      else if 57 < c then (if 65 \<le> c \<and> c \<le> 90 then req_tr0 else St 0)
      else if 48 \<le> c then req_tr0
      else St 0)"

definition req_2 :: "int \<Rightarrow> req_action jump" where
  "req_2 c =
     (if c = 32 then req_tr4
      else if 57 < c then (if 65 \<le> c \<and> c \<le> 90 then St 175 else St 0)
      else if 48 \<le> c then St 175
      else St 0)"

definition req_3 :: "int \<Rightarrow> req_action jump" where
  "req_3 w =
     (if w = 32 then req_tr6
      else if w \<in> {33, 59, 61, 64, 95, 126, 606, 635, 637} then req_tr7
      else if w = 35 then req_tr8
      else if w = 37 then req_tr9
      else if w = 47 then req_tr10
      else if w = 63 then req_tr11
      else if w < 65 then (if 36 \<le> w \<and> w \<le> 57 then req_tr7 else St 0)
      else if 90 < w then (if 97 \<le> w \<and> w \<le> 122 then req_tr12 else St 0)
      else req_tr12)"

definition req_4 :: "int \<Rightarrow> req_action jump" where
  "req_4 c = (if c = 72 then req_tr13 else St 0)"

definition req_5 :: "int \<Rightarrow> req_action jump" where
  "req_5 c = (if c = 84 then St 6 else St 0)"

definition req_6 :: "int \<Rightarrow> req_action jump" where
  "req_6 c = (if c = 84 then St 7 else St 0)"

definition req_7 :: "int \<Rightarrow> req_action jump" where
  "req_7 c = (if c = 80 then St 8 else St 0)"

definition req_8 :: "int \<Rightarrow> req_action jump" where
  "req_8 c = (if c = 47 then St 9 else St 0)"

definition req_9 :: "int \<Rightarrow> req_action jump" where
  "req_9 c = (if c = 49 then St 10 else St 0)"

definition req_10 :: "int \<Rightarrow> req_action jump" where
  "req_10 c = (if c = 46 then St 11 else St 0)"

definition req_11 :: "int \<Rightarrow> req_action jump" where
  "req_11 c = (if 48 \<le> c \<and> c \<le> 49 then St 12 else St 0)"

definition req_12 :: "int \<Rightarrow> req_action jump" where
  "req_12 c = (if c = 10 then req_tr21 else if c = 13 then req_tr22 else St 0)"

definition req_13 :: "int \<Rightarrow> req_action jump" where
  "req_13 c =
     (if c = 10 then req_tr24
      else if c = 13 then req_tr25
      else if c \<in> {33, 124, 126} then req_tr23
      else if c < 42 then
        (if c < 11 then (if 1 \<le> c \<and> c \<le> 8 then req_tr23 else St 0)
         else if 31 < c then (if 35 \<le> c \<and> c \<le> 39 then req_tr23 else St 0)
         else req_tr23)
      else if 43 < c then
        (if c < 48 then (if 45 \<le> c \<and> c \<le> 46 then req_tr23 else St 0)
         else if 57 < c then
           (if 90 < c then (if 94 \<le> c \<and> c \<le> 122 then req_tr23 else St 0)
            else if 65 \<le> c then req_tr23
            else St 0)
         else req_tr23)
      else req_tr23)"

definition req_14 :: "int \<Rightarrow> req_action jump" where
  "req_14 c =
     (if c \<in> {33, 124, 126} then St 14
      else if c = 58 then req_tr27
      else if c < 42 then
        (if c < 10 then (if 1 \<le> c \<and> c \<le> 8 then St 14 else St 0)
         else if 31 < c then (if 35 \<le> c \<and> c \<le> 39 then St 14 else St 0)
         else St 14)
      else if 43 < c then
        (if c < 48 then (if 45 \<le> c \<and> c \<le> 46 then St 14 else St 0)
         else if 57 < c then
           (if 90 < c then (if 94 \<le> c \<and> c \<le> 122 then St 14 else St 0)
            else if 65 \<le> c then St 14
            else St 0)
         else St 14)
      else St 14)"

definition req_15 :: "int \<Rightarrow> req_action jump" where
  "req_15 c =
     (if c \<in> {0, 127} then St 0
      else if c \<in> {9, 32} then req_tr29
      else if c = 10 then req_tr30
      else if c = 13 then req_tr31
      else req_tr28)"

definition req_16 :: "int \<Rightarrow> req_action jump" where
  "req_16 c =
     (if c \<in> {0, 127} then St 0
      else if c = 10 then req_tr33
      else if c = 13 then req_tr34
      else St 16)"

definition req_17 :: "int \<Rightarrow> req_action jump" where
  "req_17 c = (if c = 10 then St 13 else St 0)"

definition req_18 :: "int \<Rightarrow> req_action jump" where
  "req_18 c =
     (if c = 10 then req_tr36
      else if c \<in> {33, 124, 126} then St 14
      else if c = 58 then req_tr27
      else if c < 42 then
        (if c < 11 then (if 1 \<le> c \<and> c \<le> 8 then St 14 else St 0)
         else if 31 < c then (if 35 \<le> c \<and> c \<le> 39 then St 14 else St 0)
         else St 14)
      else if 43 < c then
        (if c < 48 then (if 45 \<le> c \<and> c \<le> 46 then St 14 else St 0)
         else if 57 < c then
           (if 90 < c then (if 94 \<le> c \<and> c \<le> 122 then St 14 else St 0)
            else if 65 \<le> c then St 14
            else St 0)
         else St 14)
      else St 14)"

definition req_19 :: "int \<Rightarrow> req_action jump" where
  "req_19 w =
     (if w = 32 then req_tr37
      else if w \<in> {33, 59, 61, 95, 126, 606, 635, 637} then St 19
      else if w = 35 then req_tr39
      else if w = 37 then St 24
      else if w = 47 then St 26
      else if w = 63 then req_tr42
      else if w < 64 then (if 36 \<le> w \<and> w \<le> 57 then St 19 else St 0)
      else if 90 < w then (if 97 \<le> w \<and> w \<le> 122 then St 19 else St 0)
      else St 19)"

definition req_20 :: "int \<Rightarrow> req_action jump" where
  "req_20 w =
     (if w = 32 then req_tr44
      else if w \<in> {33, 61, 95, 126, 606, 635, 637} then req_tr43
      else if w = 37 then req_tr45
      else if w < 36 then (if w \<le> - 1 then req_tr43 else St 0)
      else if 59 < w then
        (if 90 < w then (if 97 \<le> w \<and> w \<le> 122 then req_tr43 else St 0)
         else if 63 \<le> w then req_tr43
         else St 0)
      else req_tr43)"

definition req_21 :: "int \<Rightarrow> req_action jump" where
  "req_21 w =
     (if w = 32 then req_tr47
      else if w \<in> {33, 61, 95, 126, 606, 635, 637} then St 21
      else if w = 37 then St 22
      else if w < 36 then (if w \<le> - 1 then St 21 else St 0)
      else if 59 < w then
        (if 90 < w then (if 97 \<le> w \<and> w \<le> 122 then St 21 else St 0)
         else if 63 \<le> w then St 21
         else St 0)
      else St 21)"

definition req_22 :: "int \<Rightarrow> req_action jump" where
  "req_22 c =
     (if c < 65 then (if 48 \<le> c \<and> c \<le> 57 then St 23 else St 0)
      else if 70 < c then (if 97 \<le> c \<and> c \<le> 102 then St 23 else St 0)
      else St 23)"

definition req_23 :: "int \<Rightarrow> req_action jump" where
  "req_23 c =
     (if c < 65 then (if 48 \<le> c \<and> c \<le> 57 then St 21 else St 0)
      else if 70 < c then (if 97 \<le> c \<and> c \<le> 102 then St 21 else St 0)
      else St 21)"

definition req_24 :: "int \<Rightarrow> req_action jump" where
  "req_24 c =
     (if c < 65 then (if 48 \<le> c \<and> c \<le> 57 then St 25 else St 0)
      else if 70 < c then (if 97 \<le> c \<and> c \<le> 102 then St 25 else St 0)
      else St 25)"

definition req_25 :: "int \<Rightarrow> req_action jump" where
  "req_25 c =
     (if c < 65 then (if 48 \<le> c \<and> c \<le> 57 then St 19 else St 0)
      else if 70 < c then (if 97 \<le> c \<and> c \<le> 102 then St 19 else St 0)
      else St 19)"

definition req_26 :: "int \<Rightarrow> req_action jump" where
  "req_26 w =
     (if w = 32 then req_tr37
      else if w \<in> {33, 61, 95, 126, 606, 635, 637} then St 26
      else if w = 35 then req_tr39
      else if w = 37 then St 27
      else if w = 63 then req_tr42
      else if w < 36 then (if w \<le> - 1 then St 26 else St 0)
      else if 59 < w then
        (if 90 < w then (if 97 \<le> w \<and> w \<le> 122 then St 26 else St 0)
         else if 64 \<le> w then St 26
         else St 0)
      else St 26)"

definition req_27 :: "int \<Rightarrow> req_action jump" where
  "req_27 c =
     (if c < 65 then (if 48 \<le> c \<and> c \<le> 57 then St 28 else St 0)
      else if 70 < c then (if 97 \<le> c \<and> c \<le> 102 then St 28 else St 0)
      else St 28)"

definition req_28 :: "int \<Rightarrow> req_action jump" where
  "req_28 c =
     (if c < 65 then (if 48 \<le> c \<and> c \<le> 57 then St 26 else St 0)
      else if 70 < c then (if 97 \<le> c \<and> c \<le> 102 then St 26 else St 0)
      else St 26)"

definition req_29 :: "int \<Rightarrow> req_action jump" where
  "req_29 w =
     (if w = 32 then req_tr54
      else if w \<in> {33, 61, 95, 126, 606, 635, 637} then req_tr53
      else if w = 35 then req_tr55
      else if w = 37 then req_tr56
      else if w < 36 then (if w \<le> - 1 then req_tr53 else St 0)
      else if 59 < w then
        (if 90 < w then (if 97 \<le> w \<and> w \<le> 122 then req_tr53 else St 0)
         else if 63 \<le> w then req_tr53
         else St 0)
      else req_tr53)"

definition req_30 :: "int \<Rightarrow> req_action jump" where
  "req_30 w =
     (if w = 32 then req_tr58
      else if w \<in> {33, 61, 95, 126, 606, 635, 637} then St 30
      else if w = 35 then req_tr59
      else if w = 37 then St 31
      else if w < 36 then (if w \<le> - 1 then St 30 else St 0)
      else if 59 < w then
        (if 90 < w then (if 97 \<le> w \<and> w \<le> 122 then St 30 else St 0)
         else if 63 \<le> w then St 30
         else St 0)
      else St 30)"

definition req_31 :: "int \<Rightarrow> req_action jump" where
  "req_31 c =
     (if c < 65 then (if 48 \<le> c \<and> c \<le> 57 then St 32 else St 0)
      else if 70 < c then (if 97 \<le> c \<and> c \<le> 102 then St 32 else St 0)
      else St 32)"

definition req_32 :: "int \<Rightarrow> req_action jump" where
  "req_32 c =
     (if c < 65 then (if 48 \<le> c \<and> c \<le> 57 then St 30 else St 0)
      else if 70 < c then (if 97 \<le> c \<and> c \<le> 102 then St 30 else St 0)
      else St 30)"

definition req_33 :: "int \<Rightarrow> req_action jump" where
  "req_33 w =
     (if w = 32 then req_tr37
      else if w \<in> {33, 61, 95, 126, 606, 635, 637} then St 26
      else if w = 35 then req_tr39
      else if w = 37 then St 27
      else if w = 47 then St 34
      else if w = 63 then req_tr42
      else if w < 36 then (if w \<le> - 1 then St 26 else St 0)
      else if 59 < w then
        (if 90 < w then (if 97 \<le> w \<and> w \<le> 122 then St 26 else St 0)
         else if 64 \<le> w then St 26
         else St 0)
      else St 26)"

definition req_34 :: "int \<Rightarrow> req_action jump" where
  "req_34 w =
     (if w = 32 then req_tr37
      else if w \<in> {33, 61, 95, 126, 606, 635, 637} then St 35
      else if w = 35 then req_tr39
      else if w = 37 then St 36
      else if w = 47 then St 26
      else if w = 58 then St 38
      else if w = 63 then req_tr42
      else if w = 64 then St 42
      else if w = 91 then St 47
      else if w < 65 then (if 36 \<le> w \<and> w \<le> 59 then St 35 else St 0)
      else if 90 < w then (if 97 \<le> w \<and> w \<le> 122 then St 35 else St 0)
      else St 35)"

definition req_35 :: "int \<Rightarrow> req_action jump" where
  "req_35 w =
     (if w = 32 then req_tr37
      else if w \<in> {33, 61, 95, 126, 606, 635, 637} then St 35
      else if w = 35 then req_tr39
      else if w = 37 then St 36
      else if w = 47 then St 26
      else if w = 58 then St 38
      else if w = 63 then req_tr42
      else if w = 64 then St 42
      else if w < 65 then (if 36 \<le> w \<and> w \<le> 59 then St 35 else St 0)
      else if 90 < w then (if 97 \<le> w \<and> w \<le> 122 then St 35 else St 0)
      else St 35)"

definition req_36 :: "int \<Rightarrow> req_action jump" where
  "req_36 c =
     (if c < 65 then (if 48 \<le> c \<and> c \<le> 57 then St 37 else St 0)
      else if 70 < c then (if 97 \<le> c \<and> c \<le> 102 then St 37 else St 0)
      else St 37)"

definition req_37 :: "int \<Rightarrow> req_action jump" where
  "req_37 c =
     (if c < 65 then (if 48 \<le> c \<and> c \<le> 57 then St 35 else St 0)
      else if 70 < c then (if 97 \<le> c \<and> c \<le> 102 then St 35 else St 0)
      else St 35)"

definition req_38 :: "int \<Rightarrow> req_action jump" where
  "req_38 w =
     (if w = 32 then req_tr37
      else if w \<in> {33, 61, 95, 126, 606, 635, 637} then St 39
      else if w = 35 then req_tr39
      else if w = 37 then St 40
      else if w = 47 then St 26
      else if w = 63 then req_tr42
      else if w = 64 then St 42
      else if w < 58 then
        (if 46 < w then (if 48 \<le> w \<and> w \<le> 57 then St 38 else St 0)
         else if 36 \<le> w then St 39
         else St 0)
      else if 59 < w then
        (if 90 < w then (if 97 \<le> w \<and> w \<le> 122 then St 39 else St 0)
         else if 65 \<le> w then St 39
         else St 0)
      else St 39)"

definition req_39 :: "int \<Rightarrow> req_action jump" where
  "req_39 w =
     (if w \<in> {33, 61, 95, 126, 606, 635, 637} then St 39
      else if w = 37 then St 40
      else if w = 64 then St 42
      else if w < 48 then (if 36 \<le> w \<and> w \<le> 46 then St 39 else St 0)
      else if 59 < w then
        (if 90 < w then (if 97 \<le> w \<and> w \<le> 122 then St 39 else St 0)
         else if 65 \<le> w then St 39
         else St 0)
      else St 39)"

definition req_40 :: "int \<Rightarrow> req_action jump" where
  "req_40 c =
     (if c < 65 then (if 48 \<le> c \<and> c \<le> 57 then St 41 else St 0)
      else if 70 < c then (if 97 \<le> c \<and> c \<le> 102 then St 41 else St 0)
      else St 41)"

definition req_41 :: "int \<Rightarrow> req_action jump" where
  "req_41 c =
     (if c < 65 then (if 48 \<le> c \<and> c \<le> 57 then St 39 else St 0)
      else if 70 < c then (if 97 \<le> c \<and> c \<le> 102 then St 39 else St 0)
      else St 39)"

definition req_42 :: "int \<Rightarrow> req_action jump" where
  "req_42 w =
     (if w = 32 then req_tr37
      else if w \<in> {33, 61, 95, 126, 606, 635, 637} then St 43
      else if w = 35 then req_tr39
      else if w = 37 then St 44
      else if w = 47 then St 26
      else if w = 58 then St 46
      else if w = 63 then req_tr42
      else if w = 91 then St 47
      else if w < 65 then (if 36 \<le> w \<and> w \<le> 59 then St 43 else St 0)
      else if 90 < w then (if 97 \<le> w \<and> w \<le> 122 then St 43 else St 0)
      else St 43)"

definition req_43 :: "int \<Rightarrow> req_action jump" where
  "req_43 w =
     (if w = 32 then req_tr37
      else if w \<in> {33, 61, 95, 126, 606, 635, 637} then St 43
      else if w = 35 then req_tr39
      else if w = 37 then St 44
      else if w = 47 then St 26
      else if w = 58 then St 46
      else if w = 63 then req_tr42
      else if w < 65 then (if 36 \<le> w \<and> w \<le> 59 then St 43 else St 0)
      else if 90 < w then (if 97 \<le> w \<and> w \<le> 122 then St 43 else St 0)
      else St 43)"

definition req_44 :: "int \<Rightarrow> req_action jump" where
  "req_44 c =
     (if c < 65 then (if 48 \<le> c \<and> c \<le> 57 then St 45 else St 0)
      else if 70 < c then (if 97 \<le> c \<and> c \<le> 102 then St 45 else St 0)
      else St 45)"

definition req_45 :: "int \<Rightarrow> req_action jump" where
  "req_45 c =
     (if c < 65 then (if 48 \<le> c \<and> c \<le> 57 then St 43 else St 0)
      else if 70 < c then (if 97 \<le> c \<and> c \<le> 102 then St 43 else St 0)
      else St 43)"

definition req_46 :: "int \<Rightarrow> req_action jump" where
  "req_46 c =
     (if c = 32 then req_tr37
      else if c = 35 then req_tr39
      else if c = 47 then St 26
      else if c = 63 then req_tr42
      else if 48 \<le> c \<and> c \<le> 57 then St 46
      else St 0)"

definition req_47 :: "int \<Rightarrow> req_action jump" where
  "req_47 c =
     (if c = 6 then St 48
      else if c = 58 then St 167
      else if c = 118 then St 169
      else if c < 65 then (if 48 \<le> c \<and> c \<le> 57 then St 91 else St 0)
      else if 70 < c then (if 97 \<le> c \<and> c \<le> 102 then St 91 else St 0)
      else St 91)"

definition req_48 :: "int \<Rightarrow> req_action jump" where
  "req_48 c =
     (if c < 65 then (if 48 \<le> c \<and> c \<le> 57 then St 49 else St 0)
      else if 70 < c then (if 97 \<le> c \<and> c \<le> 102 then St 49 else St 0)
      else St 49)"

definition req_49 :: "int \<Rightarrow> req_action jump" where
  "req_49 c =
     (if c = 58 then St 53
      else if c < 65 then (if 48 \<le> c \<and> c \<le> 57 then St 50 else St 0)
      else if 70 < c then (if 97 \<le> c \<and> c \<le> 102 then St 50 else St 0)
      else St 50)"

definition req_50 :: "int \<Rightarrow> req_action jump" where
  "req_50 c =
     (if c = 58 then St 53
      else if c < 65 then (if 48 \<le> c \<and> c \<le> 57 then St 51 else St 0)
      else if 70 < c then (if 97 \<le> c \<and> c \<le> 102 then St 51 else St 0)
      else St 51)"

definition req_51 :: "int \<Rightarrow> req_action jump" where
  "req_51 c =
     (if c = 58 then St 53
      else if c < 65 then (if 48 \<le> c \<and> c \<le> 57 then St 52 else St 0)
      else if 70 < c then (if 97 \<le> c \<and> c \<le> 102 then St 52 else St 0)
      else St 52)"

definition req_52 :: "int \<Rightarrow> req_action jump" where
  "req_52 c = (if c = 58 then St 53 else St 0)"

definition req_53 :: "int \<Rightarrow> req_action jump" where
  "req_53 c =
     (if c = 49 then St 84
      else if c = 50 then St 87
      else if c < 65 then (if 48 \<le> c \<and> c \<le> 57 then St 54 else St 0)
      else if 70 < c then (if 97 \<le> c \<and> c \<le> 102 then St 90 else St 0)
      else St 90)"

definition req_54 :: "int \<Rightarrow> req_action jump" where
  "req_54 c =
     (if c = 46 then St 55
      else if c = 58 then St 80
      else if c < 65 then (if 48 \<le> c \<and> c \<le> 57 then St 77 else St 0)
      else if 70 < c then (if 97 \<le> c \<and> c \<le> 102 then St 77 else St 0)
      else St 77)"

definition req_55 :: "int \<Rightarrow> req_action jump" where
  "req_55 c =
     (if c = 49 then St 72
      else if c = 50 then St 74
      else if 48 \<le> c \<and> c \<le> 57 then St 56
      else St 0)"

definition req_56 :: "int \<Rightarrow> req_action jump" where
  "req_56 c = (if c = 46 then St 57 else St 0)"

definition req_57 :: "int \<Rightarrow> req_action jump" where
  "req_57 c =
     (if c = 49 then St 67
      else if c = 50 then St 69
      else if 48 \<le> c \<and> c \<le> 57 then St 58
      else St 0)"

definition req_58 :: "int \<Rightarrow> req_action jump" where
  "req_58 c = (if c = 46 then St 59 else St 0)"

definition req_59 :: "int \<Rightarrow> req_action jump" where
  "req_59 c =
     (if c = 49 then St 62
      else if c = 50 then St 64
      else if 48 \<le> c \<and> c \<le> 57 then St 60
      else St 0)"

definition req_60 :: "int \<Rightarrow> req_action jump" where
  "req_60 c = (if c = 93 then St 61 else St 0)"

definition req_61 :: "int \<Rightarrow> req_action jump" where
  "req_61 c =
     (if c = 32 then req_tr37
      else if c = 35 then req_tr39
      else if c = 47 then St 26
      else if c = 58 then St 46
      else if c = 63 then req_tr42
      else St 0)"

definition req_62 :: "int \<Rightarrow> req_action jump" where
  "req_62 c = (if c = 93 then St 61 else if 48 \<le> c \<and> c \<le> 57 then St 63 else St 0)"

definition req_63 :: "int \<Rightarrow> req_action jump" where
  "req_63 c = (if c = 93 then St 61 else if 48 \<le> c \<and> c \<le> 57 then St 60 else St 0)"

definition req_64 :: "int \<Rightarrow> req_action jump" where
  "req_64 c = (if c = 48 then St 65 else if c = 53 then St 66 else if c = 93 then St 61 else St 0)"

definition req_65 :: "int \<Rightarrow> req_action jump" where
  "req_65 c = (if 48 \<le> c \<and> c \<le> 57 then St 60 else St 0)"

definition req_66 :: "int \<Rightarrow> req_action jump" where
  "req_66 c = (if c = 48 then St 60 else St 0)"

definition req_67 :: "int \<Rightarrow> req_action jump" where
  "req_67 c = (if c = 46 then St 59 else if 48 \<le> c \<and> c \<le> 57 then St 68 else St 0)"

definition req_68 :: "int \<Rightarrow> req_action jump" where
  "req_68 c = (if c = 46 then St 59 else if 48 \<le> c \<and> c \<le> 57 then St 58 else St 0)"

definition req_69 :: "int \<Rightarrow> req_action jump" where
  "req_69 c = (if c = 46 then St 59 else if c = 48 then St 70 else if c = 53 then St 71 else St 0)"

definition req_70 :: "int \<Rightarrow> req_action jump" where
  "req_70 c = (if 48 \<le> c \<and> c \<le> 57 then St 58 else St 0)"

definition req_71 :: "int \<Rightarrow> req_action jump" where
  "req_71 c = (if c = 48 then St 58 else St 0)"

definition req_72 :: "int \<Rightarrow> req_action jump" where
  "req_72 c = (if c = 46 then St 57 else if 48 \<le> c \<and> c \<le> 57 then St 73 else St 0)"

definition req_73 :: "int \<Rightarrow> req_action jump" where
  "req_73 c = (if c = 46 then St 57 else if 48 \<le> c \<and> c \<le> 57 then St 56 else St 0)"

definition req_74 :: "int \<Rightarrow> req_action jump" where
  "req_74 c = (if c = 46 then St 57 else if c = 48 then St 75 else if c = 53 then St 76 else St 0)"

definition req_75 :: "int \<Rightarrow> req_action jump" where
  "req_75 c = (if 48 \<le> c \<and> c \<le> 57 then St 56 else St 0)"

definition req_76 :: "int \<Rightarrow> req_action jump" where
  "req_76 c = (if c = 48 then St 56 else St 0)"

definition req_77 :: "int \<Rightarrow> req_action jump" where
  "req_77 c =
     (if c = 58 then St 80
      else if c < 65 then (if 48 \<le> c \<and> c \<le> 57 then St 78 else St 0)
      else if 70 < c then (if 97 \<le> c \<and> c \<le> 102 then St 78 else St 0)
      else St 78)"

definition req_78 :: "int \<Rightarrow> req_action jump" where
  "req_78 c =
     (if c = 58 then St 80
      else if c < 65 then (if 48 \<le> c \<and> c \<le> 57 then St 79 else St 0)
      else if 70 < c then (if 97 \<le> c \<and> c \<le> 102 then St 79 else St 0)
      else St 79)"

definition req_79 :: "int \<Rightarrow> req_action jump" where
  "req_79 c = (if c = 58 then St 80 else St 0)"

definition req_80 :: "int \<Rightarrow> req_action jump" where
  "req_80 c =
     (if c < 65 then (if 48 \<le> c \<and> c \<le> 57 then St 81 else St 0)
      else if 70 < c then (if 97 \<le> c \<and> c \<le> 102 then St 81 else St 0)
      else St 81)"

definition req_81 :: "int \<Rightarrow> req_action jump" where
  "req_81 c =
     (if c = 93 then St 61
      else if c < 65 then (if 48 \<le> c \<and> c \<le> 57 then St 82 else St 0)
      else if 70 < c then (if 97 \<le> c \<and> c \<le> 102 then St 82 else St 0)
      else St 82)"

definition req_82 :: "int \<Rightarrow> req_action jump" where
  "req_82 c =
     (if c = 93 then St 61
      else if c < 65 then (if 48 \<le> c \<and> c \<le> 57 then St 83 else St 0)
      else if 70 < c then (if 97 \<le> c \<and> c \<le> 102 then St 83 else St 0)
      else St 83)"

definition req_83 :: "int \<Rightarrow> req_action jump" where
  "req_83 c =
     (if c = 93 then St 61
      else if c < 65 then (if 48 \<le> c \<and> c \<le> 57 then St 60 else St 0)
      else if 70 < c then (if 97 \<le> c \<and> c \<le> 102 then St 60 else St 0)
      else St 60)"

definition req_84 :: "int \<Rightarrow> req_action jump" where
  "req_84 c =
     (if c = 46 then St 55
      else if c = 58 then St 80
      else if c < 65 then (if 48 \<le> c \<and> c \<le> 57 then St 85 else St 0)
      else if 70 < c then (if 97 \<le> c \<and> c \<le> 102 then St 77 else St 0)
      else St 77)"

definition req_85 :: "int \<Rightarrow> req_action jump" where
  "req_85 c =
     (if c = 46 then St 55
      else if c = 58 then St 80
      else if c < 65 then (if 48 \<le> c \<and> c \<le> 57 then St 86 else St 0)
      else if 70 < c then (if 97 \<le> c \<and> c \<le> 102 then St 78 else St 0)
      else St 78)"

definition req_86 :: "int \<Rightarrow> req_action jump" where
  "req_86 c =
     (if c = 46 then St 55
      else if c = 58 then St 80
      else if c < 65 then (if 48 \<le> c \<and> c \<le> 57 then St 79 else St 0)
      else if 70 < c then (if 97 \<le> c \<and> c \<le> 102 then St 79 else St 0)
      else St 79)"

definition req_87 :: "int \<Rightarrow> req_action jump" where
  "req_87 c =
     (if c = 46 then St 55
      else if c = 48 then St 88
      else if c = 53 then St 89
      else if c = 58 then St 80
      else if c < 65 then (if 49 \<le> c \<and> c \<le> 57 then St 77 else St 0)
      else if 70 < c then (if 97 \<le> c \<and> c \<le> 102 then St 77 else St 0)
      else St 77)"

definition req_88 :: "int \<Rightarrow> req_action jump" where
  "req_88 c =
     (if c = 58 then St 80
      else if c < 65 then (if 48 \<le> c \<and> c \<le> 57 then St 86 else St 0)
      else if 70 < c then (if 97 \<le> c \<and> c \<le> 102 then St 78 else St 0)
      else St 78)"

definition req_89 :: "int \<Rightarrow> req_action jump" where
  "req_89 c =
     (if c = 48 then St 86
      else if c = 58 then St 80
      else if c < 65 then (if 49 \<le> c \<and> c \<le> 57 then St 78 else St 0)
      else if 70 < c then (if 97 \<le> c \<and> c \<le> 102 then St 78 else St 0)
      else St 78)"

definition req_90 :: "int \<Rightarrow> req_action jump" where
  "req_90 c =
     (if c = 58 then St 80
      else if c < 65 then (if 48 \<le> c \<and> c \<le> 57 then St 77 else St 0)
      else if 70 < c then (if 97 \<le> c \<and> c \<le> 102 then St 77 else St 0)
      else St 77)"

definition req_91 :: "int \<Rightarrow> req_action jump" where
  "req_91 c =
     (if c = 58 then St 95
      else if c < 65 then (if 48 \<le> c \<and> c \<le> 57 then St 92 else St 0)
      else if 70 < c then (if 97 \<le> c \<and> c \<le> 102 then St 92 else St 0)
      else St 92)"

definition req_92 :: "int \<Rightarrow> req_action jump" where
  "req_92 c =
     (if c = 58 then St 95
      else if c < 65 then (if 48 \<le> c \<and> c \<le> 57 then St 93 else St 0)
      else if 70 < c then (if 97 \<le> c \<and> c \<le> 102 then St 93 else St 0)
      else St 93)"

definition req_93 :: "int \<Rightarrow> req_action jump" where
  "req_93 c =
     (if c = 58 then St 95
      else if c < 65 then (if 48 \<le> c \<and> c \<le> 57 then St 94 else St 0)
      else if 70 < c then (if 97 \<le> c \<and> c \<le> 102 then St 94 else St 0)
      else St 94)"

definition req_94 :: "int \<Rightarrow> req_action jump" where
  "req_94 c = (if c = 58 then St 95 else St 0)"

definition req_95 :: "int \<Rightarrow> req_action jump" where
  "req_95 c =
     (if c = 58 then St 166
      else if c < 65 then (if 48 \<le> c \<and> c \<le> 57 then St 96 else St 0)
      else if 70 < c then (if 97 \<le> c \<and> c \<le> 102 then St 96 else St 0)
      else St 96)"

definition req_96 :: "int \<Rightarrow> req_action jump" where
  "req_96 c =
     (if c = 58 then St 100
      else if c < 65 then (if 48 \<le> c \<and> c \<le> 57 then St 97 else St 0)
      else if 70 < c then (if 97 \<le> c \<and> c \<le> 102 then St 97 else St 0)
      else St 97)"

definition req_97 :: "int \<Rightarrow> req_action jump" where
  "req_97 c =
     (if c = 58 then St 100
      else if c < 65 then (if 48 \<le> c \<and> c \<le> 57 then St 98 else St 0)
      else if 70 < c then (if 97 \<le> c \<and> c \<le> 102 then St 98 else St 0)
      else St 98)"

definition req_98 :: "int \<Rightarrow> req_action jump" where
  "req_98 c =
     (if c = 58 then St 100
      else if c < 65 then (if 48 \<le> c \<and> c \<le> 57 then St 99 else St 0)
      else if 70 < c then (if 97 \<le> c \<and> c \<le> 102 then St 99 else St 0)
      else St 99)"

definition req_99 :: "int \<Rightarrow> req_action jump" where
  "req_99 c = (if c = 58 then St 100 else St 0)"

definition req_100 :: "int \<Rightarrow> req_action jump" where
  "req_100 c =
     (if c = 58 then St 165
      else if c < 65 then (if 48 \<le> c \<and> c \<le> 57 then St 101 else St 0)
      else if 70 < c then (if 97 \<le> c \<and> c \<le> 102 then St 101 else St 0)
      else St 101)"

definition req_101 :: "int \<Rightarrow> req_action jump" where
  "req_101 c =
     (if c = 58 then St 105
      else if c < 65 then (if 48 \<le> c \<and> c \<le> 57 then St 102 else St 0)
      else if 70 < c then (if 97 \<le> c \<and> c \<le> 102 then St 102 else St 0)
      else St 102)"

definition req_102 :: "int \<Rightarrow> req_action jump" where
  "req_102 c =
     (if c = 58 then St 105
      else if c < 65 then (if 48 \<le> c \<and> c \<le> 57 then St 103 else St 0)
      else if 70 < c then (if 97 \<le> c \<and> c \<le> 102 then St 103 else St 0)
      else St 103)"

definition req_103 :: "int \<Rightarrow> req_action jump" where
  "req_103 c =
     (if c = 58 then St 105
      else if c < 65 then (if 48 \<le> c \<and> c \<le> 57 then St 104 else St 0)
      else if 70 < c then (if 97 \<le> c \<and> c \<le> 102 then St 104 else St 0)
      else St 104)"

definition req_104 :: "int \<Rightarrow> req_action jump" where
  "req_104 c = (if c = 58 then St 105 else St 0)"

definition req_105 :: "int \<Rightarrow> req_action jump" where
  "req_105 c =
     (if c = 58 then St 164
      else if c < 65 then (if 48 \<le> c \<and> c \<le> 57 then St 106 else St 0)
      else if 70 < c then (if 97 \<le> c \<and> c \<le> 102 then St 106 else St 0)
      else St 106)"

definition req_106 :: "int \<Rightarrow> req_action jump" where
  "req_106 c =
     (if c = 58 then St 110
      else if c < 65 then (if 48 \<le> c \<and> c \<le> 57 then St 107 else St 0)
      else if 70 < c then (if 97 \<le> c \<and> c \<le> 102 then St 107 else St 0)
      else St 107)"

definition req_107 :: "int \<Rightarrow> req_action jump" where
  "req_107 c =
     (if c = 58 then St 110
      else if c < 65 then (if 48 \<le> c \<and> c \<le> 57 then St 108 else St 0)
      else if 70 < c then (if 97 \<le> c \<and> c \<le> 102 then St 108 else St 0)
      else St 108)"

definition req_108 :: "int \<Rightarrow> req_action jump" where
  "req_108 c =
     (if c = 58 then St 110
      else if c < 65 then (if 48 \<le> c \<and> c \<le> 57 then St 109 else St 0)
      else if 70 < c then (if 97 \<le> c \<and> c \<le> 102 then St 109 else St 0)
      else St 109)"

definition req_109 :: "int \<Rightarrow> req_action jump" where
  "req_109 c = (if c = 58 then St 110 else St 0)"

definition req_110 :: "int \<Rightarrow> req_action jump" where
  "req_110 c =
     (if c = 58 then St 163
      else if c < 65 then (if 48 \<le> c \<and> c \<le> 57 then St 111 else St 0)
      else if 70 < c then (if 97 \<le> c \<and> c \<le> 102 then St 111 else St 0)
      else St 111)"

definition req_111 :: "int \<Rightarrow> req_action jump" where
  "req_111 c =
     (if c = 58 then St 115
      else if c < 65 then (if 48 \<le> c \<and> c \<le> 57 then St 112 else St 0)
      else if 70 < c then (if 97 \<le> c \<and> c \<le> 102 then St 112 else St 0)
      else St 112)"

definition req_112 :: "int \<Rightarrow> req_action jump" where
  "req_112 c =
     (if c = 58 then St 115
      else if c < 65 then (if 48 \<le> c \<and> c \<le> 57 then St 113 else St 0)
      else if 70 < c then (if 97 \<le> c \<and> c \<le> 102 then St 113 else St 0)
      else St 113)"

definition req_113 :: "int \<Rightarrow> req_action jump" where
  "req_113 c =
     (if c = 58 then St 115
      else if c < 65 then (if 48 \<le> c \<and> c \<le> 57 then St 114 else St 0)
      else if 70 < c then (if 97 \<le> c \<and> c \<le> 102 then St 114 else St 0)
      else St 114)"

definition req_114 :: "int \<Rightarrow> req_action jump" where
  "req_114 c = (if c = 58 then St 115 else St 0)"

definition req_115 :: "int \<Rightarrow> req_action jump" where
  "req_115 c =
     (if c = 58 then St 151
      else if c < 65 then (if 48 \<le> c \<and> c \<le> 57 then St 116 else St 0)
      else if 70 < c then (if 97 \<le> c \<and> c \<le> 102 then St 116 else St 0)
      else St 116)"

definition req_116 :: "int \<Rightarrow> req_action jump" where
  "req_116 c =
     (if c = 58 then St 120
      else if c < 65 then (if 48 \<le> c \<and> c \<le> 57 then St 117 else St 0)
      else if 70 < c then (if 97 \<le> c \<and> c \<le> 102 then St 117 else St 0)
      else St 117)"

definition req_117 :: "int \<Rightarrow> req_action jump" where
  "req_117 c =
     (if c = 58 then St 120
      else if c < 65 then (if 48 \<le> c \<and> c \<le> 57 then St 118 else St 0)
      else if 70 < c then (if 97 \<le> c \<and> c \<le> 102 then St 118 else St 0)
      else St 118)"

definition req_118 :: "int \<Rightarrow> req_action jump" where
  "req_118 c =
     (if c = 58 then St 120
      else if c < 65 then (if 48 \<le> c \<and> c \<le> 57 then St 119 else St 0)
      else if 70 < c then (if 97 \<le> c \<and> c \<le> 102 then St 119 else St 0)
      else St 119)"

definition req_119 :: "int \<Rightarrow> req_action jump" where
  "req_119 c = (if c = 58 then St 120 else St 0)"

definition req_120 :: "int \<Rightarrow> req_action jump" where
  "req_120 c =
     (if c = 58 then St 150
      else if c < 65 then (if 48 \<le> c \<and> c \<le> 57 then St 121 else St 0)
      else if 70 < c then (if 97 \<le> c \<and> c \<le> 102 then St 121 else St 0)
      else St 121)"

definition req_121 :: "int \<Rightarrow> req_action jump" where
  "req_121 c =
     (if c = 58 then St 125
      else if c < 65 then (if 48 \<le> c \<and> c \<le> 57 then St 122 else St 0)
      else if 70 < c then (if 97 \<le> c \<and> c \<le> 102 then St 122 else St 0)
      else St 122)"

definition req_122 :: "int \<Rightarrow> req_action jump" where
  "req_122 c =
     (if c = 58 then St 125
      else if c < 65 then (if 48 \<le> c \<and> c \<le> 57 then St 123 else St 0)
      else if 70 < c then (if 97 \<le> c \<and> c \<le> 102 then St 123 else St 0)
      else St 123)"

definition req_123 :: "int \<Rightarrow> req_action jump" where
  "req_123 c =
     (if c = 58 then St 125
      else if c < 65 then (if 48 \<le> c \<and> c \<le> 57 then St 124 else St 0)
      else if 70 < c then (if 97 \<le> c \<and> c \<le> 102 then St 124 else St 0)
      else St 124)"

definition req_124 :: "int \<Rightarrow> req_action jump" where
  "req_124 c = (if c = 58 then St 125 else St 0)"

definition req_125 :: "int \<Rightarrow> req_action jump" where
  "req_125 c =
     (if c = 58 then St 126
      else if c < 65 then (if 48 \<le> c \<and> c \<le> 57 then St 121 else St 0)
      else if 70 < c then (if 97 \<le> c \<and> c \<le> 102 then St 121 else St 0)
      else St 121)"

definition req_126 :: "int \<Rightarrow> req_action jump" where
  "req_126 c =
     (if c = 49 then St 143
      else if c = 50 then St 146
      else if c = 93 then St 61
      else if c < 48 then (if 2 \<le> c \<and> c \<le> 3 then St 48 else St 0)
      else if 57 < c then
        (if 70 < c then (if 97 \<le> c \<and> c \<le> 102 then St 149 else St 0)
         else if 65 \<le> c then St 149
         else St 0)
      else St 127)"

definition req_127 :: "int \<Rightarrow> req_action jump" where
  "req_127 c =
     (if c = 46 then St 55
      else if c = 58 then St 131
      else if c = 93 then St 61
      else if c < 65 then (if 48 \<le> c \<and> c \<le> 57 then St 128 else St 0)
      else if 70 < c then (if 97 \<le> c \<and> c \<le> 102 then St 128 else St 0)
      else St 128)"

definition req_128 :: "int \<Rightarrow> req_action jump" where
  "req_128 c =
     (if c = 58 then St 131
      else if c = 93 then St 61
      else if c < 65 then (if 48 \<le> c \<and> c \<le> 57 then St 129 else St 0)
      else if 70 < c then (if 97 \<le> c \<and> c \<le> 102 then St 129 else St 0)
      else St 129)"

definition req_129 :: "int \<Rightarrow> req_action jump" where
  "req_129 c =
     (if c = 58 then St 131
      else if c = 93 then St 61
      else if c < 65 then (if 48 \<le> c \<and> c \<le> 57 then St 130 else St 0)
      else if 70 < c then (if 97 \<le> c \<and> c \<le> 102 then St 130 else St 0)
      else St 130)"

definition req_130 :: "int \<Rightarrow> req_action jump" where
  "req_130 c = (if c = 58 then St 131 else if c = 93 then St 61 else St 0)"

definition req_131 :: "int \<Rightarrow> req_action jump" where
  "req_131 c =
     (if c = 49 then St 136
      else if c = 50 then St 139
      else if c < 65 then (if 48 \<le> c \<and> c \<le> 57 then St 132 else St 0)
      else if 70 < c then (if 97 \<le> c \<and> c \<le> 102 then St 142 else St 0)
      else St 142)"

definition req_132 :: "int \<Rightarrow> req_action jump" where
  "req_132 c =
     (if c = 46 then St 55
      else if c = 58 then St 80
      else if c = 93 then St 61
      else if c < 65 then (if 48 \<le> c \<and> c \<le> 57 then St 133 else St 0)
      else if 70 < c then (if 97 \<le> c \<and> c \<le> 102 then St 133 else St 0)
      else St 133)"

definition req_133 :: "int \<Rightarrow> req_action jump" where
  "req_133 c =
     (if c = 58 then St 80
      else if c = 93 then St 61
      else if c < 65 then (if 48 \<le> c \<and> c \<le> 57 then St 134 else St 0)
      else if 70 < c then (if 97 \<le> c \<and> c \<le> 102 then St 134 else St 0)
      else St 134)"

definition req_134 :: "int \<Rightarrow> req_action jump" where
  "req_134 c =
     (if c = 58 then St 80
      else if c = 93 then St 61
      else if c < 65 then (if 48 \<le> c \<and> c \<le> 57 then St 135 else St 0)
      else if 70 < c then (if 97 \<le> c \<and> c \<le> 102 then St 135 else St 0)
      else St 135)"

definition req_135 :: "int \<Rightarrow> req_action jump" where
  "req_135 c = (if c = 58 then St 80 else if c = 93 then St 61 else St 0)"

definition req_136 :: "int \<Rightarrow> req_action jump" where
  "req_136 c =
     (if c = 46 then St 55
      else if c = 58 then St 80
      else if c = 93 then St 61
      else if c < 65 then (if 48 \<le> c \<and> c \<le> 57 then St 137 else St 0)
      else if 70 < c then (if 97 \<le> c \<and> c \<le> 102 then St 133 else St 0)
      else St 133)"

definition req_137 :: "int \<Rightarrow> req_action jump" where
  "req_137 c =
     (if c = 46 then St 55
      else if c = 58 then St 80
      else if c = 93 then St 61
      else if c < 65 then (if 48 \<le> c \<and> c \<le> 57 then St 138 else St 0)
      else if 70 < c then (if 97 \<le> c \<and> c \<le> 102 then St 134 else St 0)
      else St 134)"

definition req_138 :: "int \<Rightarrow> req_action jump" where
  "req_138 c =
     (if c = 46 then St 55
      else if c = 58 then St 80
      else if c = 93 then St 61
      else if c < 65 then (if 48 \<le> c \<and> c \<le> 57 then St 135 else St 0)
      else if 70 < c then (if 97 \<le> c \<and> c \<le> 102 then St 135 else St 0)
      else St 135)"

definition req_139 :: "int \<Rightarrow> req_action jump" where
  "req_139 c =
     (if c = 46 then St 55
      else if c = 48 then St 140
      else if c = 53 then St 141
      else if c = 58 then St 80
      else if c = 93 then St 61
      else if c < 65 then (if 49 \<le> c \<and> c \<le> 57 then St 133 else St 0)
      else if 70 < c then (if 97 \<le> c \<and> c \<le> 102 then St 133 else St 0)
      else St 133)"

definition req_140 :: "int \<Rightarrow> req_action jump" where
  "req_140 c =
     (if c = 58 then St 80
      else if c = 93 then St 61
      else if c < 65 then (if 48 \<le> c \<and> c \<le> 57 then St 138 else St 0)
      else if 70 < c then (if 97 \<le> c \<and> c \<le> 102 then St 134 else St 0)
      else St 134)"

definition req_141 :: "int \<Rightarrow> req_action jump" where
  "req_141 c =
     (if c = 48 then St 138
      else if c = 58 then St 80
      else if c = 93 then St 61
      else if c < 65 then (if 49 \<le> c \<and> c \<le> 57 then St 134 else St 0)
      else if 70 < c then (if 97 \<le> c \<and> c \<le> 102 then St 134 else St 0)
      else St 134)"

definition req_142 :: "int \<Rightarrow> req_action jump" where
  "req_142 c =
     (if c = 58 then St 80
      else if c = 93 then St 61
      else if c < 65 then (if 48 \<le> c \<and> c \<le> 57 then St 133 else St 0)
      else if 70 < c then (if 97 \<le> c \<and> c \<le> 102 then St 133 else St 0)
      else St 133)"

definition req_143 :: "int \<Rightarrow> req_action jump" where
  "req_143 c =
     (if c = 46 then St 55
      else if c = 58 then St 131
      else if c = 93 then St 61
      else if c < 65 then (if 48 \<le> c \<and> c \<le> 57 then St 144 else St 0)
      else if 70 < c then (if 97 \<le> c \<and> c \<le> 102 then St 128 else St 0)
      else St 128)"

definition req_144 :: "int \<Rightarrow> req_action jump" where
  "req_144 c =
     (if c = 46 then St 55
      else if c = 58 then St 131
      else if c = 93 then St 61
      else if c < 65 then (if 48 \<le> c \<and> c \<le> 57 then St 145 else St 0)
      else if 70 < c then (if 97 \<le> c \<and> c \<le> 102 then St 129 else St 0)
      else St 129)"

definition req_145 :: "int \<Rightarrow> req_action jump" where
  "req_145 c =
     (if c = 46 then St 55
      else if c = 58 then St 131
      else if c = 93 then St 61
      else if c < 65 then (if 48 \<le> c \<and> c \<le> 57 then St 130 else St 0)
      else if 70 < c then (if 97 \<le> c \<and> c \<le> 102 then St 130 else St 0)
      else St 130)"

definition req_146 :: "int \<Rightarrow> req_action jump" where
  "req_146 c =
     (if c = 46 then St 55
      else if c = 48 then St 147
      else if c = 53 then St 148
      else if c = 58 then St 131
      else if c = 93 then St 61
      else if c < 65 then (if 49 \<le> c \<and> c \<le> 57 then St 128 else St 0)
      else if 70 < c then (if 97 \<le> c \<and> c \<le> 102 then St 128 else St 0)
      else St 128)"

definition req_147 :: "int \<Rightarrow> req_action jump" where
  "req_147 c =
     (if c = 58 then St 131
      else if c = 93 then St 61
      else if c < 65 then (if 48 \<le> c \<and> c \<le> 57 then St 145 else St 0)
      else if 70 < c then (if 97 \<le> c \<and> c \<le> 102 then St 129 else St 0)
      else St 129)"

definition req_148 :: "int \<Rightarrow> req_action jump" where
  "req_148 c =
     (if c = 48 then St 145
      else if c = 58 then St 131
      else if c = 93 then St 61
      else if c < 65 then (if 49 \<le> c \<and> c \<le> 57 then St 129 else St 0)
      else if 70 < c then (if 97 \<le> c \<and> c \<le> 102 then St 129 else St 0)
      else St 129)"

definition req_149 :: "int \<Rightarrow> req_action jump" where
  "req_149 c =
     (if c = 58 then St 131
      else if c = 93 then St 61
      else if c < 65 then (if 48 \<le> c \<and> c \<le> 57 then St 128 else St 0)
      else if 70 < c then (if 97 \<le> c \<and> c \<le> 102 then St 128 else St 0)
      else St 128)"

definition req_150 :: "int \<Rightarrow> req_action jump" where
  "req_150 c =
     (if c = 49 then St 143
      else if c = 50 then St 146
      else if c < 48 then (if 2 \<le> c \<and> c \<le> 3 then St 48 else St 0)
      else if 57 < c then
        (if 70 < c then (if 97 \<le> c \<and> c \<le> 102 then St 149 else St 0)
         else if 65 \<le> c then St 149
         else St 0)
      else St 127)"

definition req_151 :: "int \<Rightarrow> req_action jump" where
  "req_151 c =
     (if c = 49 then St 156
      else if c = 50 then St 159
      else if c < 48 then (if 2 \<le> c \<and> c \<le> 3 then St 48 else St 0)
      else if 57 < c then
        (if 70 < c then (if 97 \<le> c \<and> c \<le> 102 then St 162 else St 0)
         else if 65 \<le> c then St 162
         else St 0)
      else St 152)"

definition req_152 :: "int \<Rightarrow> req_action jump" where
  "req_152 c =
     (if c = 46 then St 55
      else if c = 58 then St 131
      else if c < 65 then (if 48 \<le> c \<and> c \<le> 57 then St 153 else St 0)
      else if 70 < c then (if 97 \<le> c \<and> c \<le> 102 then St 153 else St 0)
      else St 153)"

definition req_153 :: "int \<Rightarrow> req_action jump" where
  "req_153 c =
     (if c = 58 then St 131
      else if c < 65 then (if 48 \<le> c \<and> c \<le> 57 then St 154 else St 0)
      else if 70 < c then (if 97 \<le> c \<and> c \<le> 102 then St 154 else St 0)
      else St 154)"

definition req_154 :: "int \<Rightarrow> req_action jump" where
  "req_154 c =
     (if c = 58 then St 131
      else if c < 65 then (if 48 \<le> c \<and> c \<le> 57 then St 155 else St 0)
      else if 70 < c then (if 97 \<le> c \<and> c \<le> 102 then St 155 else St 0)
      else St 155)"

definition req_155 :: "int \<Rightarrow> req_action jump" where
  "req_155 c = (if c = 58 then St 131 else St 0)"

definition req_156 :: "int \<Rightarrow> req_action jump" where
  "req_156 c =
     (if c = 46 then St 55
      else if c = 58 then St 131
      else if c < 65 then (if 48 \<le> c \<and> c \<le> 57 then St 157 else St 0)
      else if 70 < c then (if 97 \<le> c \<and> c \<le> 102 then St 153 else St 0)
      else St 153)"

definition req_157 :: "int \<Rightarrow> req_action jump" where
  "req_157 c =
     (if c = 46 then St 55
      else if c = 58 then St 131
      else if c < 65 then (if 48 \<le> c \<and> c \<le> 57 then St 158 else St 0)
      else if 70 < c then (if 97 \<le> c \<and> c \<le> 102 then St 154 else St 0)
      else St 154)"

definition req_158 :: "int \<Rightarrow> req_action jump" where
  "req_158 c =
     (if c = 46 then St 55
      else if c = 58 then St 131
      else if c < 65 then (if 48 \<le> c \<and> c \<le> 57 then St 155 else St 0)
      else if 70 < c then (if 97 \<le> c \<and> c \<le> 102 then St 155 else St 0)
      else St 155)"

definition req_159 :: "int \<Rightarrow> req_action jump" where
  "req_159 c =
     (if c = 46 then St 55
      else if c = 48 then St 160
      else if c = 53 then St 161
      else if c = 58 then St 131
      else if c < 65 then (if 49 \<le> c \<and> c \<le> 57 then St 153 else St 0)
      else if 70 < c then (if 97 \<le> c \<and> c \<le> 102 then St 153 else St 0)
      else St 153)"

definition req_160 :: "int \<Rightarrow> req_action jump" where
  "req_160 c =
     (if c = 58 then St 131
      else if c < 65 then (if 48 \<le> c \<and> c \<le> 57 then St 158 else St 0)
      else if 70 < c then (if 97 \<le> c \<and> c \<le> 102 then St 154 else St 0)
      else St 154)"

definition req_161 :: "int \<Rightarrow> req_action jump" where
  "req_161 c =
     (if c = 48 then St 158
      else if c = 58 then St 131
      else if c < 65 then (if 49 \<le> c \<and> c \<le> 57 then St 154 else St 0)
      else if 70 < c then (if 97 \<le> c \<and> c \<le> 102 then St 154 else St 0)
      else St 154)"

definition req_162 :: "int \<Rightarrow> req_action jump" where
  "req_162 c =
     (if c = 58 then St 131
      else if c < 65 then (if 48 \<le> c \<and> c \<le> 57 then St 153 else St 0)
      else if 70 < c then (if 97 \<le> c \<and> c \<le> 102 then St 153 else St 0)
      else St 153)"

definition req_163 :: "int \<Rightarrow> req_action jump" where
  "req_163 c =
     (if c < 48 then (if 2 \<le> c \<and> c \<le> 3 then St 48 else St 0)
      else if 57 < c then
        (if 70 < c then (if 97 \<le> c \<and> c \<le> 102 then St 49 else St 0)
         else if 65 \<le> c then St 49
         else St 0)
      else St 49)"

definition req_164 :: "int \<Rightarrow> req_action jump" where
  "req_164 c = (if 2 \<le> c \<and> c \<le> 3 then St 48 else St 0)"

definition req_165 :: "int \<Rightarrow> req_action jump" where
  "req_165 c = (if c = 3 then St 48 else St 0)"

definition req_166 :: "int \<Rightarrow> req_action jump" where
  "req_166 c = (if c = 4 then St 48 else St 0)"

definition req_167 :: "int \<Rightarrow> req_action jump" where
  "req_167 c = (if c = 58 then St 168 else St 0)"

definition req_168 :: "int \<Rightarrow> req_action jump" where
  "req_168 c =
     (if c = 49 then St 143
      else if c = 50 then St 146
      else if c = 93 then St 61
      else if c < 48 then (if 2 \<le> c \<and> c \<le> 5 then St 48 else St 0)
      else if 57 < c then
        (if 70 < c then (if 97 \<le> c \<and> c \<le> 102 then St 149 else St 0)
         else if 65 \<le> c then St 149
         else St 0)
      else St 127)"

definition req_169 :: "int \<Rightarrow> req_action jump" where
  "req_169 c =
     (if c < 65 then (if 48 \<le> c \<and> c \<le> 57 then St 170 else St 0)
      else if 70 < c then (if 97 \<le> c \<and> c \<le> 102 then St 170 else St 0)
      else St 170)"

definition req_170 :: "int \<Rightarrow> req_action jump" where
  "req_170 c =
     (if c = 46 then St 171
      else if c < 65 then (if 48 \<le> c \<and> c \<le> 57 then St 170 else St 0)
      else if 70 < c then (if 97 \<le> c \<and> c \<le> 102 then St 170 else St 0)
      else St 170)"

definition req_171 :: "int \<Rightarrow> req_action jump" where
  "req_171 w =
     (if w \<in> {33, 36, 61, 95, 126, 606, 635, 637} then St 172
      else if w < 48 then (if 38 \<le> w \<and> w \<le> 46 then St 172 else St 0)
      else if 59 < w then
        (if 90 < w then (if 97 \<le> w \<and> w \<le> 122 then St 172 else St 0)
         else if 65 \<le> w then St 172
         else St 0)
      else St 172)"

definition req_172 :: "int \<Rightarrow> req_action jump" where
  "req_172 w =
     (if w \<in> {33, 36, 61, 95, 126, 606, 635, 637} then St 172
      else if w = 93 then St 61
      else if w < 48 then (if 38 \<le> w \<and> w \<le> 46 then St 172 else St 0)
      else if 59 < w then
        (if 90 < w then (if 97 \<le> w \<and> w \<le> 122 then St 172 else St 0)
         else if 65 \<le> w then St 172
         else St 0)
      else St 172)"

definition req_173 :: "int \<Rightarrow> req_action jump" where
  "req_173 w =
     (if w = 32 then req_tr37
      else if w \<in> {33, 59, 61, 64, 95, 126, 606, 635, 637} then St 19
      else if w = 35 then req_tr39
      else if w = 37 then St 24
      else if w = 43 then St 173
      else if w = 47 then St 26
      else if w = 58 then St 174
      else if w = 63 then req_tr42
      else if w < 45 then (if 36 \<le> w \<and> w \<le> 44 then St 19 else St 0)
      else if 57 < w then
        (if 90 < w then (if 97 \<le> w \<and> w \<le> 122 then St 173 else St 0)
         else if 65 \<le> w then St 173
         else St 0)
      else St 173)"

definition req_states_lo :: "bool \<Rightarrow> (int \<Rightarrow> req_action jump) list" where
  "req_states_lo relaxed =
    (let w = (\<lambda>f c. f (widec relaxed c)) in
     [req_1, req_2, w req_3, req_4, req_5, req_6, req_7, req_8, req_9, req_10, req_11, req_12,
      req_13, req_14, req_15, req_16, req_17, req_18, w req_19, w req_20, w req_21, req_22, req_23,
      req_24, req_25, w req_26, req_27, req_28, w req_29, w req_30, req_31, req_32, w req_33, w
      req_34, w req_35, req_36, req_37, w req_38, w req_39, req_40, req_41, w req_42, w req_43,
      req_44, req_45, req_46, req_47, req_48, req_49, req_50, req_51, req_52, req_53, req_54,
      req_55, req_56, req_57, req_58, req_59, req_60, req_61, req_62, req_63, req_64, req_65,
      req_66, req_67, req_68, req_69, req_70, req_71, req_72, req_73, req_74, req_75, req_76,
      req_77, req_78, req_79, req_80, req_81, req_82, req_83, req_84, req_85, req_86, req_87,
      req_88, req_89, req_90, req_91, req_92, req_93, req_94, req_95, req_96, req_97, req_98,
      req_99, req_100, req_101, req_102, req_103, req_104, req_105, req_106, req_107, req_108,
      req_109, req_110, req_111, req_112, req_113, req_114, req_115, req_116, req_117, req_118,
      req_119, req_120, req_121, req_122, req_123, req_124, req_125, req_126, req_127, req_128,
      req_129, req_130, req_131, req_132, req_133, req_134, req_135, req_136, req_137, req_138,
      req_139, req_140, req_141, req_142, req_143, req_144, req_145, req_146, req_147, req_148,
      req_149, req_150, req_151, req_152, req_153, req_154, req_155, req_156, req_157, req_158,
      req_159, req_160, req_161, req_162, req_163, req_164, req_165, req_166, req_167, req_168,
      req_169, req_170, w req_171, w req_172, w req_173])"

end
