(* ===== verification/RequestStatesURI.thy ===== *)
theory RequestStatesURI
  imports RequestStates
begin

text \<open>
  The states 174 to 349 of the machine in exhy/http/http11_parser.cpp: absolute URIs with their schemes, the
  messages that start with an angle bracket or an at sign, the rest of the method, the IPv6 addresses, and the
  two final states.
\<close>

definition req_174 :: "int \<Rightarrow> req_action jump" where
  "req_174 w =
     (if w = 32 then req_tr6
      else if w \<in> {33, 61, 95, 126, 606, 635, 637} then req_tr203
      else if w = 35 then req_tr8
      else if w = 37 then req_tr204
      else if w = 47 then req_tr10
      else if w = 63 then req_tr11
      else if w < 36 then (if w \<le> - 1 then req_tr203 else St 0)
      else if 59 < w then
        (if 90 < w then (if 97 \<le> w \<and> w \<le> 122 then req_tr203 else St 0)
         else if 64 \<le> w then req_tr203
         else St 0)
      else req_tr203)"

definition req_175 :: "int \<Rightarrow> req_action jump" where
  "req_175 c =
     (if c = 32 then req_tr4
      else if 57 < c then (if 65 \<le> c \<and> c \<le> 90 then St 176 else St 0)
      else if 48 \<le> c then St 176
      else St 0)"

definition req_176 :: "int \<Rightarrow> req_action jump" where
  "req_176 c =
     (if c = 32 then req_tr4
      else if 57 < c then (if 65 \<le> c \<and> c \<le> 90 then St 177 else St 0)
      else if 48 \<le> c then St 177
      else St 0)"

definition req_177 :: "int \<Rightarrow> req_action jump" where
  "req_177 c =
     (if c = 32 then req_tr4
      else if 57 < c then (if 65 \<le> c \<and> c \<le> 90 then St 178 else St 0)
      else if 48 \<le> c then St 178
      else St 0)"

definition req_178 :: "int \<Rightarrow> req_action jump" where
  "req_178 c =
     (if c = 32 then req_tr4
      else if 57 < c then (if 65 \<le> c \<and> c \<le> 90 then St 179 else St 0)
      else if 48 \<le> c then St 179
      else St 0)"

definition req_179 :: "int \<Rightarrow> req_action jump" where
  "req_179 c =
     (if c = 32 then req_tr4
      else if 57 < c then (if 65 \<le> c \<and> c \<le> 90 then St 180 else St 0)
      else if 48 \<le> c then St 180
      else St 0)"

definition req_180 :: "int \<Rightarrow> req_action jump" where
  "req_180 c =
     (if c = 32 then req_tr4
      else if 57 < c then (if 65 \<le> c \<and> c \<le> 90 then St 181 else St 0)
      else if 48 \<le> c then St 181
      else St 0)"

definition req_181 :: "int \<Rightarrow> req_action jump" where
  "req_181 c =
     (if c = 32 then req_tr4
      else if 57 < c then (if 65 \<le> c \<and> c \<le> 90 then St 182 else St 0)
      else if 48 \<le> c then St 182
      else St 0)"

definition req_182 :: "int \<Rightarrow> req_action jump" where
  "req_182 c =
     (if c = 32 then req_tr4
      else if 57 < c then (if 65 \<le> c \<and> c \<le> 90 then St 183 else St 0)
      else if 48 \<le> c then St 183
      else St 0)"

definition req_183 :: "int \<Rightarrow> req_action jump" where
  "req_183 c =
     (if c = 32 then req_tr4
      else if 57 < c then (if 65 \<le> c \<and> c \<le> 90 then St 184 else St 0)
      else if 48 \<le> c then St 184
      else St 0)"

definition req_184 :: "int \<Rightarrow> req_action jump" where
  "req_184 c =
     (if c = 32 then req_tr4
      else if 57 < c then (if 65 \<le> c \<and> c \<le> 90 then St 185 else St 0)
      else if 48 \<le> c then St 185
      else St 0)"

definition req_185 :: "int \<Rightarrow> req_action jump" where
  "req_185 c =
     (if c = 32 then req_tr4
      else if 57 < c then (if 65 \<le> c \<and> c \<le> 90 then St 186 else St 0)
      else if 48 \<le> c then St 186
      else St 0)"

definition req_186 :: "int \<Rightarrow> req_action jump" where
  "req_186 c =
     (if c = 32 then req_tr4
      else if 57 < c then (if 65 \<le> c \<and> c \<le> 90 then St 187 else St 0)
      else if 48 \<le> c then St 187
      else St 0)"

definition req_187 :: "int \<Rightarrow> req_action jump" where
  "req_187 c =
     (if c = 32 then req_tr4
      else if 57 < c then (if 65 \<le> c \<and> c \<le> 90 then St 188 else St 0)
      else if 48 \<le> c then St 188
      else St 0)"

definition req_188 :: "int \<Rightarrow> req_action jump" where
  "req_188 c =
     (if c = 32 then req_tr4
      else if 57 < c then (if 65 \<le> c \<and> c \<le> 90 then St 189 else St 0)
      else if 48 \<le> c then St 189
      else St 0)"

definition req_189 :: "int \<Rightarrow> req_action jump" where
  "req_189 c =
     (if c = 32 then req_tr4
      else if 57 < c then (if 65 \<le> c \<and> c \<le> 90 then St 190 else St 0)
      else if 48 \<le> c then St 190
      else St 0)"

definition req_190 :: "int \<Rightarrow> req_action jump" where
  "req_190 c =
     (if c = 32 then req_tr4
      else if 57 < c then (if 65 \<le> c \<and> c \<le> 90 then St 191 else St 0)
      else if 48 \<le> c then St 191
      else St 0)"

definition req_191 :: "int \<Rightarrow> req_action jump" where
  "req_191 c =
     (if c = 32 then req_tr4
      else if 57 < c then (if 65 \<le> c \<and> c \<le> 90 then St 192 else St 0)
      else if 48 \<le> c then St 192
      else St 0)"

definition req_192 :: "int \<Rightarrow> req_action jump" where
  "req_192 c =
     (if c = 32 then req_tr4
      else if 57 < c then (if 65 \<le> c \<and> c \<le> 90 then St 193 else St 0)
      else if 48 \<le> c then St 193
      else St 0)"

definition req_193 :: "int \<Rightarrow> req_action jump" where
  "req_193 c = (if c = 32 then req_tr4 else St 0)"

definition req_194 :: "int \<Rightarrow> req_action jump" where
  "req_194 c =
     (if c < 48 then (if 45 \<le> c \<and> c \<le> 46 then St 195 else St 0)
      else if 57 < c then
        (if 90 < c then (if 97 \<le> c \<and> c \<le> 122 then St 195 else St 0)
         else if 65 \<le> c then St 195
         else St 0)
      else St 195)"

definition req_195 :: "int \<Rightarrow> req_action jump" where
  "req_195 c =
     (if c \<in> {32, 47, 62} then req_tr224
      else if c < 45 then (if 9 \<le> c \<and> c \<le> 13 then req_tr224 else St 0)
      else if 57 < c then
        (if 90 < c then (if 97 \<le> c \<and> c \<le> 122 then St 195 else St 0)
         else if 65 \<le> c then St 195
         else St 0)
      else St 195)"

definition req_196 :: "int \<Rightarrow> req_action jump" where
  "req_196 c = (if c = 62 then St 197 else St 196)"

definition req_197 :: "int \<Rightarrow> req_action jump" where
  "req_197 c = (if c = 0 then req_tr227 else if c = 62 then St 197 else St 196)"

definition req_198 :: "int \<Rightarrow> req_action jump" where
  "req_198 w =
     (if w = 32 then req_tr228
      else if w \<in> {33, 59, 61, 95, 126, 606, 635, 637} then St 202
      else if w = 37 then St 203
      else if w = 47 then St 208
      else if w < 64 then (if 36 \<le> w \<and> w \<le> 57 then St 202 else St 0)
      else if 90 < w then (if 97 \<le> w \<and> w \<le> 122 then St 202 else St 0)
      else St 202)"

definition req_199 :: "int \<Rightarrow> req_action jump" where
  "req_199 c = (if c = 123 then req_tr232 else St 0)"

definition req_200 :: "int \<Rightarrow> req_action jump" where
  "req_200 c = (if c = 125 then St 201 else St 200)"

definition req_201 :: "int \<Rightarrow> req_action jump" where
  "req_201 c = (if c = 0 then req_tr235 else if c = 125 then St 201 else St 200)"

definition req_202 :: "int \<Rightarrow> req_action jump" where
  "req_202 w =
     (if w = 32 then req_tr228
      else if w \<in> {33, 59, 61, 95, 126, 606, 635, 637} then St 202
      else if w = 37 then St 203
      else if w = 47 then St 205
      else if w < 64 then (if 36 \<le> w \<and> w \<le> 57 then St 202 else St 0)
      else if 90 < w then (if 97 \<le> w \<and> w \<le> 122 then St 202 else St 0)
      else St 202)"

definition req_203 :: "int \<Rightarrow> req_action jump" where
  "req_203 c =
     (if c < 65 then (if 48 \<le> c \<and> c \<le> 57 then St 204 else St 0)
      else if 70 < c then (if 97 \<le> c \<and> c \<le> 102 then St 204 else St 0)
      else St 204)"

definition req_204 :: "int \<Rightarrow> req_action jump" where
  "req_204 c =
     (if c < 65 then (if 48 \<le> c \<and> c \<le> 57 then St 202 else St 0)
      else if 70 < c then (if 97 \<le> c \<and> c \<le> 102 then St 202 else St 0)
      else St 202)"

definition req_205 :: "int \<Rightarrow> req_action jump" where
  "req_205 w =
     (if w = 32 then req_tr228
      else if w \<in> {33, 61, 95, 126, 606, 635, 637} then St 205
      else if w = 37 then St 206
      else if w < 36 then (if w \<le> - 1 then St 205 else St 0)
      else if 59 < w then
        (if 90 < w then (if 97 \<le> w \<and> w \<le> 122 then St 205 else St 0)
         else if 64 \<le> w then St 205
         else St 0)
      else St 205)"

definition req_206 :: "int \<Rightarrow> req_action jump" where
  "req_206 c =
     (if c < 65 then (if 48 \<le> c \<and> c \<le> 57 then St 207 else St 0)
      else if 70 < c then (if 97 \<le> c \<and> c \<le> 102 then St 207 else St 0)
      else St 207)"

definition req_207 :: "int \<Rightarrow> req_action jump" where
  "req_207 c =
     (if c < 65 then (if 48 \<le> c \<and> c \<le> 57 then St 205 else St 0)
      else if 70 < c then (if 97 \<le> c \<and> c \<le> 102 then St 205 else St 0)
      else St 205)"

definition req_208 :: "int \<Rightarrow> req_action jump" where
  "req_208 w =
     (if w = 32 then req_tr228
      else if w \<in> {33, 61, 95, 126, 606, 635, 637} then St 205
      else if w = 37 then St 206
      else if w = 47 then St 209
      else if w < 36 then (if w \<le> - 1 then St 205 else St 0)
      else if 59 < w then
        (if 90 < w then (if 97 \<le> w \<and> w \<le> 122 then St 205 else St 0)
         else if 64 \<le> w then St 205
         else St 0)
      else St 205)"

definition req_209 :: "int \<Rightarrow> req_action jump" where
  "req_209 w =
     (if w = 32 then req_tr228
      else if w \<in> {33, 61, 95, 126, 606, 635, 637} then St 210
      else if w = 37 then St 211
      else if w = 47 then St 205
      else if w = 58 then St 213
      else if w = 64 then St 217
      else if w = 91 then St 222
      else if w < 65 then (if 36 \<le> w \<and> w \<le> 59 then St 210 else St 0)
      else if 90 < w then (if 97 \<le> w \<and> w \<le> 122 then St 210 else St 0)
      else St 210)"

definition req_210 :: "int \<Rightarrow> req_action jump" where
  "req_210 w =
     (if w = 32 then req_tr228
      else if w \<in> {33, 61, 95, 126, 606, 635, 637} then St 210
      else if w = 37 then St 211
      else if w = 47 then St 205
      else if w = 58 then St 213
      else if w = 64 then St 217
      else if w < 65 then (if 36 \<le> w \<and> w \<le> 59 then St 210 else St 0)
      else if 90 < w then (if 97 \<le> w \<and> w \<le> 122 then St 210 else St 0)
      else St 210)"

definition req_211 :: "int \<Rightarrow> req_action jump" where
  "req_211 c =
     (if c < 65 then (if 48 \<le> c \<and> c \<le> 57 then St 212 else St 0)
      else if 70 < c then (if 97 \<le> c \<and> c \<le> 102 then St 212 else St 0)
      else St 212)"

definition req_212 :: "int \<Rightarrow> req_action jump" where
  "req_212 c =
     (if c < 65 then (if 48 \<le> c \<and> c \<le> 57 then St 210 else St 0)
      else if 70 < c then (if 97 \<le> c \<and> c \<le> 102 then St 210 else St 0)
      else St 210)"

definition req_213 :: "int \<Rightarrow> req_action jump" where
  "req_213 w =
     (if w = 32 then req_tr228
      else if w \<in> {33, 61, 95, 126, 606, 635, 637} then St 214
      else if w = 37 then St 215
      else if w = 47 then St 205
      else if w = 64 then St 217
      else if w < 58 then
        (if 46 < w then (if 48 \<le> w \<and> w \<le> 57 then St 213 else St 0)
         else if 36 \<le> w then St 214
         else St 0)
      else if 59 < w then
        (if 90 < w then (if 97 \<le> w \<and> w \<le> 122 then St 214 else St 0)
         else if 65 \<le> w then St 214
         else St 0)
      else St 214)"

definition req_214 :: "int \<Rightarrow> req_action jump" where
  "req_214 w =
     (if w \<in> {33, 61, 95, 126, 606, 635, 637} then St 214
      else if w = 37 then St 215
      else if w = 64 then St 217
      else if w < 48 then (if 36 \<le> w \<and> w \<le> 46 then St 214 else St 0)
      else if 59 < w then
        (if 90 < w then (if 97 \<le> w \<and> w \<le> 122 then St 214 else St 0)
         else if 65 \<le> w then St 214
         else St 0)
      else St 214)"

definition req_215 :: "int \<Rightarrow> req_action jump" where
  "req_215 c =
     (if c < 65 then (if 48 \<le> c \<and> c \<le> 57 then St 216 else St 0)
      else if 70 < c then (if 97 \<le> c \<and> c \<le> 102 then St 216 else St 0)
      else St 216)"

definition req_216 :: "int \<Rightarrow> req_action jump" where
  "req_216 c =
     (if c < 65 then (if 48 \<le> c \<and> c \<le> 57 then St 214 else St 0)
      else if 70 < c then (if 97 \<le> c \<and> c \<le> 102 then St 214 else St 0)
      else St 214)"

definition req_217 :: "int \<Rightarrow> req_action jump" where
  "req_217 w =
     (if w = 32 then req_tr228
      else if w \<in> {33, 61, 95, 126, 606, 635, 637} then St 218
      else if w = 37 then St 219
      else if w = 47 then St 205
      else if w = 58 then St 221
      else if w = 91 then St 222
      else if w < 65 then (if 36 \<le> w \<and> w \<le> 59 then St 218 else St 0)
      else if 90 < w then (if 97 \<le> w \<and> w \<le> 122 then St 218 else St 0)
      else St 218)"

definition req_218 :: "int \<Rightarrow> req_action jump" where
  "req_218 w =
     (if w = 32 then req_tr228
      else if w \<in> {33, 61, 95, 126, 606, 635, 637} then St 218
      else if w = 37 then St 219
      else if w = 47 then St 205
      else if w = 58 then St 221
      else if w < 65 then (if 36 \<le> w \<and> w \<le> 59 then St 218 else St 0)
      else if 90 < w then (if 97 \<le> w \<and> w \<le> 122 then St 218 else St 0)
      else St 218)"

definition req_219 :: "int \<Rightarrow> req_action jump" where
  "req_219 c =
     (if c < 65 then (if 48 \<le> c \<and> c \<le> 57 then St 220 else St 0)
      else if 70 < c then (if 97 \<le> c \<and> c \<le> 102 then St 220 else St 0)
      else St 220)"

definition req_220 :: "int \<Rightarrow> req_action jump" where
  "req_220 c =
     (if c < 65 then (if 48 \<le> c \<and> c \<le> 57 then St 218 else St 0)
      else if 70 < c then (if 97 \<le> c \<and> c \<le> 102 then St 218 else St 0)
      else St 218)"

definition req_221 :: "int \<Rightarrow> req_action jump" where
  "req_221 c =
     (if c = 32 then req_tr228
      else if c = 47 then St 205
      else if 48 \<le> c \<and> c \<le> 57 then St 221
      else St 0)"

definition req_222 :: "int \<Rightarrow> req_action jump" where
  "req_222 c =
     (if c = 6 then St 223
      else if c = 58 then St 342
      else if c = 118 then St 344
      else if c < 65 then (if 48 \<le> c \<and> c \<le> 57 then St 266 else St 0)
      else if 70 < c then (if 97 \<le> c \<and> c \<le> 102 then St 266 else St 0)
      else St 266)"

definition req_223 :: "int \<Rightarrow> req_action jump" where
  "req_223 c =
     (if c < 65 then (if 48 \<le> c \<and> c \<le> 57 then St 224 else St 0)
      else if 70 < c then (if 97 \<le> c \<and> c \<le> 102 then St 224 else St 0)
      else St 224)"

definition req_224 :: "int \<Rightarrow> req_action jump" where
  "req_224 c =
     (if c = 58 then St 228
      else if c < 65 then (if 48 \<le> c \<and> c \<le> 57 then St 225 else St 0)
      else if 70 < c then (if 97 \<le> c \<and> c \<le> 102 then St 225 else St 0)
      else St 225)"

definition req_225 :: "int \<Rightarrow> req_action jump" where
  "req_225 c =
     (if c = 58 then St 228
      else if c < 65 then (if 48 \<le> c \<and> c \<le> 57 then St 226 else St 0)
      else if 70 < c then (if 97 \<le> c \<and> c \<le> 102 then St 226 else St 0)
      else St 226)"

definition req_226 :: "int \<Rightarrow> req_action jump" where
  "req_226 c =
     (if c = 58 then St 228
      else if c < 65 then (if 48 \<le> c \<and> c \<le> 57 then St 227 else St 0)
      else if 70 < c then (if 97 \<le> c \<and> c \<le> 102 then St 227 else St 0)
      else St 227)"

definition req_227 :: "int \<Rightarrow> req_action jump" where
  "req_227 c = (if c = 58 then St 228 else St 0)"

definition req_228 :: "int \<Rightarrow> req_action jump" where
  "req_228 c =
     (if c = 49 then St 259
      else if c = 50 then St 262
      else if c < 65 then (if 48 \<le> c \<and> c \<le> 57 then St 229 else St 0)
      else if 70 < c then (if 97 \<le> c \<and> c \<le> 102 then St 265 else St 0)
      else St 265)"

definition req_229 :: "int \<Rightarrow> req_action jump" where
  "req_229 c =
     (if c = 46 then St 230
      else if c = 58 then St 255
      else if c < 65 then (if 48 \<le> c \<and> c \<le> 57 then St 252 else St 0)
      else if 70 < c then (if 97 \<le> c \<and> c \<le> 102 then St 252 else St 0)
      else St 252)"

definition req_230 :: "int \<Rightarrow> req_action jump" where
  "req_230 c =
     (if c = 49 then St 247
      else if c = 50 then St 249
      else if 48 \<le> c \<and> c \<le> 57 then St 231
      else St 0)"

definition req_231 :: "int \<Rightarrow> req_action jump" where
  "req_231 c = (if c = 46 then St 232 else St 0)"

definition req_232 :: "int \<Rightarrow> req_action jump" where
  "req_232 c =
     (if c = 49 then St 242
      else if c = 50 then St 244
      else if 48 \<le> c \<and> c \<le> 57 then St 233
      else St 0)"

definition req_233 :: "int \<Rightarrow> req_action jump" where
  "req_233 c = (if c = 46 then St 234 else St 0)"

definition req_234 :: "int \<Rightarrow> req_action jump" where
  "req_234 c =
     (if c = 49 then St 237
      else if c = 50 then St 239
      else if 48 \<le> c \<and> c \<le> 57 then St 235
      else St 0)"

definition req_235 :: "int \<Rightarrow> req_action jump" where
  "req_235 c = (if c = 93 then St 236 else St 0)"

definition req_236 :: "int \<Rightarrow> req_action jump" where
  "req_236 c = (if c = 32 then req_tr228 else if c = 47 then St 205 else if c = 58 then St 221 else St 0)"

definition req_237 :: "int \<Rightarrow> req_action jump" where
  "req_237 c = (if c = 93 then St 236 else if 48 \<le> c \<and> c \<le> 57 then St 238 else St 0)"

definition req_238 :: "int \<Rightarrow> req_action jump" where
  "req_238 c = (if c = 93 then St 236 else if 48 \<le> c \<and> c \<le> 57 then St 235 else St 0)"

definition req_239 :: "int \<Rightarrow> req_action jump" where
  "req_239 c = (if c = 48 then St 240 else if c = 53 then St 241 else if c = 93 then St 236 else St 0)"

definition req_240 :: "int \<Rightarrow> req_action jump" where
  "req_240 c = (if 48 \<le> c \<and> c \<le> 57 then St 235 else St 0)"

definition req_241 :: "int \<Rightarrow> req_action jump" where
  "req_241 c = (if c = 48 then St 235 else St 0)"

definition req_242 :: "int \<Rightarrow> req_action jump" where
  "req_242 c = (if c = 46 then St 234 else if 48 \<le> c \<and> c \<le> 57 then St 243 else St 0)"

definition req_243 :: "int \<Rightarrow> req_action jump" where
  "req_243 c = (if c = 46 then St 234 else if 48 \<le> c \<and> c \<le> 57 then St 233 else St 0)"

definition req_244 :: "int \<Rightarrow> req_action jump" where
  "req_244 c = (if c = 46 then St 234 else if c = 48 then St 245 else if c = 53 then St 246 else St 0)"

definition req_245 :: "int \<Rightarrow> req_action jump" where
  "req_245 c = (if 48 \<le> c \<and> c \<le> 57 then St 233 else St 0)"

definition req_246 :: "int \<Rightarrow> req_action jump" where
  "req_246 c = (if c = 48 then St 233 else St 0)"

definition req_247 :: "int \<Rightarrow> req_action jump" where
  "req_247 c = (if c = 46 then St 232 else if 48 \<le> c \<and> c \<le> 57 then St 248 else St 0)"

definition req_248 :: "int \<Rightarrow> req_action jump" where
  "req_248 c = (if c = 46 then St 232 else if 48 \<le> c \<and> c \<le> 57 then St 231 else St 0)"

definition req_249 :: "int \<Rightarrow> req_action jump" where
  "req_249 c = (if c = 46 then St 232 else if c = 48 then St 250 else if c = 53 then St 251 else St 0)"

definition req_250 :: "int \<Rightarrow> req_action jump" where
  "req_250 c = (if 48 \<le> c \<and> c \<le> 57 then St 231 else St 0)"

definition req_251 :: "int \<Rightarrow> req_action jump" where
  "req_251 c = (if c = 48 then St 231 else St 0)"

definition req_252 :: "int \<Rightarrow> req_action jump" where
  "req_252 c =
     (if c = 58 then St 255
      else if c < 65 then (if 48 \<le> c \<and> c \<le> 57 then St 253 else St 0)
      else if 70 < c then (if 97 \<le> c \<and> c \<le> 102 then St 253 else St 0)
      else St 253)"

definition req_253 :: "int \<Rightarrow> req_action jump" where
  "req_253 c =
     (if c = 58 then St 255
      else if c < 65 then (if 48 \<le> c \<and> c \<le> 57 then St 254 else St 0)
      else if 70 < c then (if 97 \<le> c \<and> c \<le> 102 then St 254 else St 0)
      else St 254)"

definition req_254 :: "int \<Rightarrow> req_action jump" where
  "req_254 c = (if c = 58 then St 255 else St 0)"

definition req_255 :: "int \<Rightarrow> req_action jump" where
  "req_255 c =
     (if c < 65 then (if 48 \<le> c \<and> c \<le> 57 then St 256 else St 0)
      else if 70 < c then (if 97 \<le> c \<and> c \<le> 102 then St 256 else St 0)
      else St 256)"

definition req_256 :: "int \<Rightarrow> req_action jump" where
  "req_256 c =
     (if c = 93 then St 236
      else if c < 65 then (if 48 \<le> c \<and> c \<le> 57 then St 257 else St 0)
      else if 70 < c then (if 97 \<le> c \<and> c \<le> 102 then St 257 else St 0)
      else St 257)"

definition req_257 :: "int \<Rightarrow> req_action jump" where
  "req_257 c =
     (if c = 93 then St 236
      else if c < 65 then (if 48 \<le> c \<and> c \<le> 57 then St 258 else St 0)
      else if 70 < c then (if 97 \<le> c \<and> c \<le> 102 then St 258 else St 0)
      else St 258)"

definition req_258 :: "int \<Rightarrow> req_action jump" where
  "req_258 c =
     (if c = 93 then St 236
      else if c < 65 then (if 48 \<le> c \<and> c \<le> 57 then St 235 else St 0)
      else if 70 < c then (if 97 \<le> c \<and> c \<le> 102 then St 235 else St 0)
      else St 235)"

definition req_259 :: "int \<Rightarrow> req_action jump" where
  "req_259 c =
     (if c = 46 then St 230
      else if c = 58 then St 255
      else if c < 65 then (if 48 \<le> c \<and> c \<le> 57 then St 260 else St 0)
      else if 70 < c then (if 97 \<le> c \<and> c \<le> 102 then St 252 else St 0)
      else St 252)"

definition req_260 :: "int \<Rightarrow> req_action jump" where
  "req_260 c =
     (if c = 46 then St 230
      else if c = 58 then St 255
      else if c < 65 then (if 48 \<le> c \<and> c \<le> 57 then St 261 else St 0)
      else if 70 < c then (if 97 \<le> c \<and> c \<le> 102 then St 253 else St 0)
      else St 253)"

definition req_261 :: "int \<Rightarrow> req_action jump" where
  "req_261 c =
     (if c = 46 then St 230
      else if c = 58 then St 255
      else if c < 65 then (if 48 \<le> c \<and> c \<le> 57 then St 254 else St 0)
      else if 70 < c then (if 97 \<le> c \<and> c \<le> 102 then St 254 else St 0)
      else St 254)"

definition req_262 :: "int \<Rightarrow> req_action jump" where
  "req_262 c =
     (if c = 46 then St 230
      else if c = 48 then St 263
      else if c = 53 then St 264
      else if c = 58 then St 255
      else if c < 65 then (if 49 \<le> c \<and> c \<le> 57 then St 252 else St 0)
      else if 70 < c then (if 97 \<le> c \<and> c \<le> 102 then St 252 else St 0)
      else St 252)"

definition req_263 :: "int \<Rightarrow> req_action jump" where
  "req_263 c =
     (if c = 58 then St 255
      else if c < 65 then (if 48 \<le> c \<and> c \<le> 57 then St 261 else St 0)
      else if 70 < c then (if 97 \<le> c \<and> c \<le> 102 then St 253 else St 0)
      else St 253)"

definition req_264 :: "int \<Rightarrow> req_action jump" where
  "req_264 c =
     (if c = 48 then St 261
      else if c = 58 then St 255
      else if c < 65 then (if 49 \<le> c \<and> c \<le> 57 then St 253 else St 0)
      else if 70 < c then (if 97 \<le> c \<and> c \<le> 102 then St 253 else St 0)
      else St 253)"

definition req_265 :: "int \<Rightarrow> req_action jump" where
  "req_265 c =
     (if c = 58 then St 255
      else if c < 65 then (if 48 \<le> c \<and> c \<le> 57 then St 252 else St 0)
      else if 70 < c then (if 97 \<le> c \<and> c \<le> 102 then St 252 else St 0)
      else St 252)"

definition req_266 :: "int \<Rightarrow> req_action jump" where
  "req_266 c =
     (if c = 58 then St 270
      else if c < 65 then (if 48 \<le> c \<and> c \<le> 57 then St 267 else St 0)
      else if 70 < c then (if 97 \<le> c \<and> c \<le> 102 then St 267 else St 0)
      else St 267)"

definition req_267 :: "int \<Rightarrow> req_action jump" where
  "req_267 c =
     (if c = 58 then St 270
      else if c < 65 then (if 48 \<le> c \<and> c \<le> 57 then St 268 else St 0)
      else if 70 < c then (if 97 \<le> c \<and> c \<le> 102 then St 268 else St 0)
      else St 268)"

definition req_268 :: "int \<Rightarrow> req_action jump" where
  "req_268 c =
     (if c = 58 then St 270
      else if c < 65 then (if 48 \<le> c \<and> c \<le> 57 then St 269 else St 0)
      else if 70 < c then (if 97 \<le> c \<and> c \<le> 102 then St 269 else St 0)
      else St 269)"

definition req_269 :: "int \<Rightarrow> req_action jump" where
  "req_269 c = (if c = 58 then St 270 else St 0)"

definition req_270 :: "int \<Rightarrow> req_action jump" where
  "req_270 c =
     (if c = 58 then St 341
      else if c < 65 then (if 48 \<le> c \<and> c \<le> 57 then St 271 else St 0)
      else if 70 < c then (if 97 \<le> c \<and> c \<le> 102 then St 271 else St 0)
      else St 271)"

definition req_271 :: "int \<Rightarrow> req_action jump" where
  "req_271 c =
     (if c = 58 then St 275
      else if c < 65 then (if 48 \<le> c \<and> c \<le> 57 then St 272 else St 0)
      else if 70 < c then (if 97 \<le> c \<and> c \<le> 102 then St 272 else St 0)
      else St 272)"

definition req_272 :: "int \<Rightarrow> req_action jump" where
  "req_272 c =
     (if c = 58 then St 275
      else if c < 65 then (if 48 \<le> c \<and> c \<le> 57 then St 273 else St 0)
      else if 70 < c then (if 97 \<le> c \<and> c \<le> 102 then St 273 else St 0)
      else St 273)"

definition req_273 :: "int \<Rightarrow> req_action jump" where
  "req_273 c =
     (if c = 58 then St 275
      else if c < 65 then (if 48 \<le> c \<and> c \<le> 57 then St 274 else St 0)
      else if 70 < c then (if 97 \<le> c \<and> c \<le> 102 then St 274 else St 0)
      else St 274)"

definition req_274 :: "int \<Rightarrow> req_action jump" where
  "req_274 c = (if c = 58 then St 275 else St 0)"

definition req_275 :: "int \<Rightarrow> req_action jump" where
  "req_275 c =
     (if c = 58 then St 340
      else if c < 65 then (if 48 \<le> c \<and> c \<le> 57 then St 276 else St 0)
      else if 70 < c then (if 97 \<le> c \<and> c \<le> 102 then St 276 else St 0)
      else St 276)"

definition req_276 :: "int \<Rightarrow> req_action jump" where
  "req_276 c =
     (if c = 58 then St 280
      else if c < 65 then (if 48 \<le> c \<and> c \<le> 57 then St 277 else St 0)
      else if 70 < c then (if 97 \<le> c \<and> c \<le> 102 then St 277 else St 0)
      else St 277)"

definition req_277 :: "int \<Rightarrow> req_action jump" where
  "req_277 c =
     (if c = 58 then St 280
      else if c < 65 then (if 48 \<le> c \<and> c \<le> 57 then St 278 else St 0)
      else if 70 < c then (if 97 \<le> c \<and> c \<le> 102 then St 278 else St 0)
      else St 278)"

definition req_278 :: "int \<Rightarrow> req_action jump" where
  "req_278 c =
     (if c = 58 then St 280
      else if c < 65 then (if 48 \<le> c \<and> c \<le> 57 then St 279 else St 0)
      else if 70 < c then (if 97 \<le> c \<and> c \<le> 102 then St 279 else St 0)
      else St 279)"

definition req_279 :: "int \<Rightarrow> req_action jump" where
  "req_279 c = (if c = 58 then St 280 else St 0)"

definition req_280 :: "int \<Rightarrow> req_action jump" where
  "req_280 c =
     (if c = 58 then St 339
      else if c < 65 then (if 48 \<le> c \<and> c \<le> 57 then St 281 else St 0)
      else if 70 < c then (if 97 \<le> c \<and> c \<le> 102 then St 281 else St 0)
      else St 281)"

definition req_281 :: "int \<Rightarrow> req_action jump" where
  "req_281 c =
     (if c = 58 then St 285
      else if c < 65 then (if 48 \<le> c \<and> c \<le> 57 then St 282 else St 0)
      else if 70 < c then (if 97 \<le> c \<and> c \<le> 102 then St 282 else St 0)
      else St 282)"

definition req_282 :: "int \<Rightarrow> req_action jump" where
  "req_282 c =
     (if c = 58 then St 285
      else if c < 65 then (if 48 \<le> c \<and> c \<le> 57 then St 283 else St 0)
      else if 70 < c then (if 97 \<le> c \<and> c \<le> 102 then St 283 else St 0)
      else St 283)"

definition req_283 :: "int \<Rightarrow> req_action jump" where
  "req_283 c =
     (if c = 58 then St 285
      else if c < 65 then (if 48 \<le> c \<and> c \<le> 57 then St 284 else St 0)
      else if 70 < c then (if 97 \<le> c \<and> c \<le> 102 then St 284 else St 0)
      else St 284)"

definition req_284 :: "int \<Rightarrow> req_action jump" where
  "req_284 c = (if c = 58 then St 285 else St 0)"

definition req_285 :: "int \<Rightarrow> req_action jump" where
  "req_285 c =
     (if c = 58 then St 338
      else if c < 65 then (if 48 \<le> c \<and> c \<le> 57 then St 286 else St 0)
      else if 70 < c then (if 97 \<le> c \<and> c \<le> 102 then St 286 else St 0)
      else St 286)"

definition req_286 :: "int \<Rightarrow> req_action jump" where
  "req_286 c =
     (if c = 58 then St 290
      else if c < 65 then (if 48 \<le> c \<and> c \<le> 57 then St 287 else St 0)
      else if 70 < c then (if 97 \<le> c \<and> c \<le> 102 then St 287 else St 0)
      else St 287)"

definition req_287 :: "int \<Rightarrow> req_action jump" where
  "req_287 c =
     (if c = 58 then St 290
      else if c < 65 then (if 48 \<le> c \<and> c \<le> 57 then St 288 else St 0)
      else if 70 < c then (if 97 \<le> c \<and> c \<le> 102 then St 288 else St 0)
      else St 288)"

definition req_288 :: "int \<Rightarrow> req_action jump" where
  "req_288 c =
     (if c = 58 then St 290
      else if c < 65 then (if 48 \<le> c \<and> c \<le> 57 then St 289 else St 0)
      else if 70 < c then (if 97 \<le> c \<and> c \<le> 102 then St 289 else St 0)
      else St 289)"

definition req_289 :: "int \<Rightarrow> req_action jump" where
  "req_289 c = (if c = 58 then St 290 else St 0)"

definition req_290 :: "int \<Rightarrow> req_action jump" where
  "req_290 c =
     (if c = 58 then St 326
      else if c < 65 then (if 48 \<le> c \<and> c \<le> 57 then St 291 else St 0)
      else if 70 < c then (if 97 \<le> c \<and> c \<le> 102 then St 291 else St 0)
      else St 291)"

definition req_291 :: "int \<Rightarrow> req_action jump" where
  "req_291 c =
     (if c = 58 then St 295
      else if c < 65 then (if 48 \<le> c \<and> c \<le> 57 then St 292 else St 0)
      else if 70 < c then (if 97 \<le> c \<and> c \<le> 102 then St 292 else St 0)
      else St 292)"

definition req_292 :: "int \<Rightarrow> req_action jump" where
  "req_292 c =
     (if c = 58 then St 295
      else if c < 65 then (if 48 \<le> c \<and> c \<le> 57 then St 293 else St 0)
      else if 70 < c then (if 97 \<le> c \<and> c \<le> 102 then St 293 else St 0)
      else St 293)"

definition req_293 :: "int \<Rightarrow> req_action jump" where
  "req_293 c =
     (if c = 58 then St 295
      else if c < 65 then (if 48 \<le> c \<and> c \<le> 57 then St 294 else St 0)
      else if 70 < c then (if 97 \<le> c \<and> c \<le> 102 then St 294 else St 0)
      else St 294)"

definition req_294 :: "int \<Rightarrow> req_action jump" where
  "req_294 c = (if c = 58 then St 295 else St 0)"

definition req_295 :: "int \<Rightarrow> req_action jump" where
  "req_295 c =
     (if c = 58 then St 325
      else if c < 65 then (if 48 \<le> c \<and> c \<le> 57 then St 296 else St 0)
      else if 70 < c then (if 97 \<le> c \<and> c \<le> 102 then St 296 else St 0)
      else St 296)"

definition req_296 :: "int \<Rightarrow> req_action jump" where
  "req_296 c =
     (if c = 58 then St 300
      else if c < 65 then (if 48 \<le> c \<and> c \<le> 57 then St 297 else St 0)
      else if 70 < c then (if 97 \<le> c \<and> c \<le> 102 then St 297 else St 0)
      else St 297)"

definition req_297 :: "int \<Rightarrow> req_action jump" where
  "req_297 c =
     (if c = 58 then St 300
      else if c < 65 then (if 48 \<le> c \<and> c \<le> 57 then St 298 else St 0)
      else if 70 < c then (if 97 \<le> c \<and> c \<le> 102 then St 298 else St 0)
      else St 298)"

definition req_298 :: "int \<Rightarrow> req_action jump" where
  "req_298 c =
     (if c = 58 then St 300
      else if c < 65 then (if 48 \<le> c \<and> c \<le> 57 then St 299 else St 0)
      else if 70 < c then (if 97 \<le> c \<and> c \<le> 102 then St 299 else St 0)
      else St 299)"

definition req_299 :: "int \<Rightarrow> req_action jump" where
  "req_299 c = (if c = 58 then St 300 else St 0)"

definition req_300 :: "int \<Rightarrow> req_action jump" where
  "req_300 c =
     (if c = 58 then St 301
      else if c < 65 then (if 48 \<le> c \<and> c \<le> 57 then St 296 else St 0)
      else if 70 < c then (if 97 \<le> c \<and> c \<le> 102 then St 296 else St 0)
      else St 296)"

definition req_301 :: "int \<Rightarrow> req_action jump" where
  "req_301 c =
     (if c = 49 then St 318
      else if c = 50 then St 321
      else if c = 93 then St 236
      else if c < 48 then (if 2 \<le> c \<and> c \<le> 3 then St 223 else St 0)
      else if 57 < c then
        (if 70 < c then (if 97 \<le> c \<and> c \<le> 102 then St 324 else St 0)
         else if 65 \<le> c then St 324
         else St 0)
      else St 302)"

definition req_302 :: "int \<Rightarrow> req_action jump" where
  "req_302 c =
     (if c = 46 then St 230
      else if c = 58 then St 306
      else if c = 93 then St 236
      else if c < 65 then (if 48 \<le> c \<and> c \<le> 57 then St 303 else St 0)
      else if 70 < c then (if 97 \<le> c \<and> c \<le> 102 then St 303 else St 0)
      else St 303)"

definition req_303 :: "int \<Rightarrow> req_action jump" where
  "req_303 c =
     (if c = 58 then St 306
      else if c = 93 then St 236
      else if c < 65 then (if 48 \<le> c \<and> c \<le> 57 then St 304 else St 0)
      else if 70 < c then (if 97 \<le> c \<and> c \<le> 102 then St 304 else St 0)
      else St 304)"

definition req_304 :: "int \<Rightarrow> req_action jump" where
  "req_304 c =
     (if c = 58 then St 306
      else if c = 93 then St 236
      else if c < 65 then (if 48 \<le> c \<and> c \<le> 57 then St 305 else St 0)
      else if 70 < c then (if 97 \<le> c \<and> c \<le> 102 then St 305 else St 0)
      else St 305)"

definition req_305 :: "int \<Rightarrow> req_action jump" where
  "req_305 c = (if c = 58 then St 306 else if c = 93 then St 236 else St 0)"

definition req_306 :: "int \<Rightarrow> req_action jump" where
  "req_306 c =
     (if c = 49 then St 311
      else if c = 50 then St 314
      else if c < 65 then (if 48 \<le> c \<and> c \<le> 57 then St 307 else St 0)
      else if 70 < c then (if 97 \<le> c \<and> c \<le> 102 then St 317 else St 0)
      else St 317)"

definition req_307 :: "int \<Rightarrow> req_action jump" where
  "req_307 c =
     (if c = 46 then St 230
      else if c = 58 then St 255
      else if c = 93 then St 236
      else if c < 65 then (if 48 \<le> c \<and> c \<le> 57 then St 308 else St 0)
      else if 70 < c then (if 97 \<le> c \<and> c \<le> 102 then St 308 else St 0)
      else St 308)"

definition req_308 :: "int \<Rightarrow> req_action jump" where
  "req_308 c =
     (if c = 58 then St 255
      else if c = 93 then St 236
      else if c < 65 then (if 48 \<le> c \<and> c \<le> 57 then St 309 else St 0)
      else if 70 < c then (if 97 \<le> c \<and> c \<le> 102 then St 309 else St 0)
      else St 309)"

definition req_309 :: "int \<Rightarrow> req_action jump" where
  "req_309 c =
     (if c = 58 then St 255
      else if c = 93 then St 236
      else if c < 65 then (if 48 \<le> c \<and> c \<le> 57 then St 310 else St 0)
      else if 70 < c then (if 97 \<le> c \<and> c \<le> 102 then St 310 else St 0)
      else St 310)"

definition req_310 :: "int \<Rightarrow> req_action jump" where
  "req_310 c = (if c = 58 then St 255 else if c = 93 then St 236 else St 0)"

definition req_311 :: "int \<Rightarrow> req_action jump" where
  "req_311 c =
     (if c = 46 then St 230
      else if c = 58 then St 255
      else if c = 93 then St 236
      else if c < 65 then (if 48 \<le> c \<and> c \<le> 57 then St 312 else St 0)
      else if 70 < c then (if 97 \<le> c \<and> c \<le> 102 then St 308 else St 0)
      else St 308)"

definition req_312 :: "int \<Rightarrow> req_action jump" where
  "req_312 c =
     (if c = 46 then St 230
      else if c = 58 then St 255
      else if c = 93 then St 236
      else if c < 65 then (if 48 \<le> c \<and> c \<le> 57 then St 313 else St 0)
      else if 70 < c then (if 97 \<le> c \<and> c \<le> 102 then St 309 else St 0)
      else St 309)"

definition req_313 :: "int \<Rightarrow> req_action jump" where
  "req_313 c =
     (if c = 46 then St 230
      else if c = 58 then St 255
      else if c = 93 then St 236
      else if c < 65 then (if 48 \<le> c \<and> c \<le> 57 then St 310 else St 0)
      else if 70 < c then (if 97 \<le> c \<and> c \<le> 102 then St 310 else St 0)
      else St 310)"

definition req_314 :: "int \<Rightarrow> req_action jump" where
  "req_314 c =
     (if c = 46 then St 230
      else if c = 48 then St 315
      else if c = 53 then St 316
      else if c = 58 then St 255
      else if c = 93 then St 236
      else if c < 65 then (if 49 \<le> c \<and> c \<le> 57 then St 308 else St 0)
      else if 70 < c then (if 97 \<le> c \<and> c \<le> 102 then St 308 else St 0)
      else St 308)"

definition req_315 :: "int \<Rightarrow> req_action jump" where
  "req_315 c =
     (if c = 58 then St 255
      else if c = 93 then St 236
      else if c < 65 then (if 48 \<le> c \<and> c \<le> 57 then St 313 else St 0)
      else if 70 < c then (if 97 \<le> c \<and> c \<le> 102 then St 309 else St 0)
      else St 309)"

definition req_316 :: "int \<Rightarrow> req_action jump" where
  "req_316 c =
     (if c = 48 then St 313
      else if c = 58 then St 255
      else if c = 93 then St 236
      else if c < 65 then (if 49 \<le> c \<and> c \<le> 57 then St 309 else St 0)
      else if 70 < c then (if 97 \<le> c \<and> c \<le> 102 then St 309 else St 0)
      else St 309)"

definition req_317 :: "int \<Rightarrow> req_action jump" where
  "req_317 c =
     (if c = 58 then St 255
      else if c = 93 then St 236
      else if c < 65 then (if 48 \<le> c \<and> c \<le> 57 then St 308 else St 0)
      else if 70 < c then (if 97 \<le> c \<and> c \<le> 102 then St 308 else St 0)
      else St 308)"

definition req_318 :: "int \<Rightarrow> req_action jump" where
  "req_318 c =
     (if c = 46 then St 230
      else if c = 58 then St 306
      else if c = 93 then St 236
      else if c < 65 then (if 48 \<le> c \<and> c \<le> 57 then St 319 else St 0)
      else if 70 < c then (if 97 \<le> c \<and> c \<le> 102 then St 303 else St 0)
      else St 303)"

definition req_319 :: "int \<Rightarrow> req_action jump" where
  "req_319 c =
     (if c = 46 then St 230
      else if c = 58 then St 306
      else if c = 93 then St 236
      else if c < 65 then (if 48 \<le> c \<and> c \<le> 57 then St 320 else St 0)
      else if 70 < c then (if 97 \<le> c \<and> c \<le> 102 then St 304 else St 0)
      else St 304)"

definition req_320 :: "int \<Rightarrow> req_action jump" where
  "req_320 c =
     (if c = 46 then St 230
      else if c = 58 then St 306
      else if c = 93 then St 236
      else if c < 65 then (if 48 \<le> c \<and> c \<le> 57 then St 305 else St 0)
      else if 70 < c then (if 97 \<le> c \<and> c \<le> 102 then St 305 else St 0)
      else St 305)"

definition req_321 :: "int \<Rightarrow> req_action jump" where
  "req_321 c =
     (if c = 46 then St 230
      else if c = 48 then St 322
      else if c = 53 then St 323
      else if c = 58 then St 306
      else if c = 93 then St 236
      else if c < 65 then (if 49 \<le> c \<and> c \<le> 57 then St 303 else St 0)
      else if 70 < c then (if 97 \<le> c \<and> c \<le> 102 then St 303 else St 0)
      else St 303)"

definition req_322 :: "int \<Rightarrow> req_action jump" where
  "req_322 c =
     (if c = 58 then St 306
      else if c = 93 then St 236
      else if c < 65 then (if 48 \<le> c \<and> c \<le> 57 then St 320 else St 0)
      else if 70 < c then (if 97 \<le> c \<and> c \<le> 102 then St 304 else St 0)
      else St 304)"

definition req_323 :: "int \<Rightarrow> req_action jump" where
  "req_323 c =
     (if c = 48 then St 320
      else if c = 58 then St 306
      else if c = 93 then St 236
      else if c < 65 then (if 49 \<le> c \<and> c \<le> 57 then St 304 else St 0)
      else if 70 < c then (if 97 \<le> c \<and> c \<le> 102 then St 304 else St 0)
      else St 304)"

definition req_324 :: "int \<Rightarrow> req_action jump" where
  "req_324 c =
     (if c = 58 then St 306
      else if c = 93 then St 236
      else if c < 65 then (if 48 \<le> c \<and> c \<le> 57 then St 303 else St 0)
      else if 70 < c then (if 97 \<le> c \<and> c \<le> 102 then St 303 else St 0)
      else St 303)"

definition req_325 :: "int \<Rightarrow> req_action jump" where
  "req_325 c =
     (if c = 49 then St 318
      else if c = 50 then St 321
      else if c < 48 then (if 2 \<le> c \<and> c \<le> 3 then St 223 else St 0)
      else if 57 < c then
        (if 70 < c then (if 97 \<le> c \<and> c \<le> 102 then St 324 else St 0)
         else if 65 \<le> c then St 324
         else St 0)
      else St 302)"

definition req_326 :: "int \<Rightarrow> req_action jump" where
  "req_326 c =
     (if c = 49 then St 331
      else if c = 50 then St 334
      else if c < 48 then (if 2 \<le> c \<and> c \<le> 3 then St 223 else St 0)
      else if 57 < c then
        (if 70 < c then (if 97 \<le> c \<and> c \<le> 102 then St 337 else St 0)
         else if 65 \<le> c then St 337
         else St 0)
      else St 327)"

definition req_327 :: "int \<Rightarrow> req_action jump" where
  "req_327 c =
     (if c = 46 then St 230
      else if c = 58 then St 306
      else if c < 65 then (if 48 \<le> c \<and> c \<le> 57 then St 328 else St 0)
      else if 70 < c then (if 97 \<le> c \<and> c \<le> 102 then St 328 else St 0)
      else St 328)"

definition req_328 :: "int \<Rightarrow> req_action jump" where
  "req_328 c =
     (if c = 58 then St 306
      else if c < 65 then (if 48 \<le> c \<and> c \<le> 57 then St 329 else St 0)
      else if 70 < c then (if 97 \<le> c \<and> c \<le> 102 then St 329 else St 0)
      else St 329)"

definition req_329 :: "int \<Rightarrow> req_action jump" where
  "req_329 c =
     (if c = 58 then St 306
      else if c < 65 then (if 48 \<le> c \<and> c \<le> 57 then St 330 else St 0)
      else if 70 < c then (if 97 \<le> c \<and> c \<le> 102 then St 330 else St 0)
      else St 330)"

definition req_330 :: "int \<Rightarrow> req_action jump" where
  "req_330 c = (if c = 58 then St 306 else St 0)"

definition req_331 :: "int \<Rightarrow> req_action jump" where
  "req_331 c =
     (if c = 46 then St 230
      else if c = 58 then St 306
      else if c < 65 then (if 48 \<le> c \<and> c \<le> 57 then St 332 else St 0)
      else if 70 < c then (if 97 \<le> c \<and> c \<le> 102 then St 328 else St 0)
      else St 328)"

definition req_332 :: "int \<Rightarrow> req_action jump" where
  "req_332 c =
     (if c = 46 then St 230
      else if c = 58 then St 306
      else if c < 65 then (if 48 \<le> c \<and> c \<le> 57 then St 333 else St 0)
      else if 70 < c then (if 97 \<le> c \<and> c \<le> 102 then St 329 else St 0)
      else St 329)"

definition req_333 :: "int \<Rightarrow> req_action jump" where
  "req_333 c =
     (if c = 46 then St 230
      else if c = 58 then St 306
      else if c < 65 then (if 48 \<le> c \<and> c \<le> 57 then St 330 else St 0)
      else if 70 < c then (if 97 \<le> c \<and> c \<le> 102 then St 330 else St 0)
      else St 330)"

definition req_334 :: "int \<Rightarrow> req_action jump" where
  "req_334 c =
     (if c = 46 then St 230
      else if c = 48 then St 335
      else if c = 53 then St 336
      else if c = 58 then St 306
      else if c < 65 then (if 49 \<le> c \<and> c \<le> 57 then St 328 else St 0)
      else if 70 < c then (if 97 \<le> c \<and> c \<le> 102 then St 328 else St 0)
      else St 328)"

definition req_335 :: "int \<Rightarrow> req_action jump" where
  "req_335 c =
     (if c = 58 then St 306
      else if c < 65 then (if 48 \<le> c \<and> c \<le> 57 then St 333 else St 0)
      else if 70 < c then (if 97 \<le> c \<and> c \<le> 102 then St 329 else St 0)
      else St 329)"

definition req_336 :: "int \<Rightarrow> req_action jump" where
  "req_336 c =
     (if c = 48 then St 333
      else if c = 58 then St 306
      else if c < 65 then (if 49 \<le> c \<and> c \<le> 57 then St 329 else St 0)
      else if 70 < c then (if 97 \<le> c \<and> c \<le> 102 then St 329 else St 0)
      else St 329)"

definition req_337 :: "int \<Rightarrow> req_action jump" where
  "req_337 c =
     (if c = 58 then St 306
      else if c < 65 then (if 48 \<le> c \<and> c \<le> 57 then St 328 else St 0)
      else if 70 < c then (if 97 \<le> c \<and> c \<le> 102 then St 328 else St 0)
      else St 328)"

definition req_338 :: "int \<Rightarrow> req_action jump" where
  "req_338 c =
     (if c < 48 then (if 2 \<le> c \<and> c \<le> 3 then St 223 else St 0)
      else if 57 < c then
        (if 70 < c then (if 97 \<le> c \<and> c \<le> 102 then St 224 else St 0)
         else if 65 \<le> c then St 224
         else St 0)
      else St 224)"

definition req_339 :: "int \<Rightarrow> req_action jump" where
  "req_339 c = (if 2 \<le> c \<and> c \<le> 3 then St 223 else St 0)"

definition req_340 :: "int \<Rightarrow> req_action jump" where
  "req_340 c = (if c = 3 then St 223 else St 0)"

definition req_341 :: "int \<Rightarrow> req_action jump" where
  "req_341 c = (if c = 4 then St 223 else St 0)"

definition req_342 :: "int \<Rightarrow> req_action jump" where
  "req_342 c = (if c = 58 then St 343 else St 0)"

definition req_343 :: "int \<Rightarrow> req_action jump" where
  "req_343 c =
     (if c = 49 then St 318
      else if c = 50 then St 321
      else if c = 93 then St 236
      else if c < 48 then (if 2 \<le> c \<and> c \<le> 5 then St 223 else St 0)
      else if 57 < c then
        (if 70 < c then (if 97 \<le> c \<and> c \<le> 102 then St 324 else St 0)
         else if 65 \<le> c then St 324
         else St 0)
      else St 302)"

definition req_344 :: "int \<Rightarrow> req_action jump" where
  "req_344 c =
     (if c < 65 then (if 48 \<le> c \<and> c \<le> 57 then St 345 else St 0)
      else if 70 < c then (if 97 \<le> c \<and> c \<le> 102 then St 345 else St 0)
      else St 345)"

definition req_345 :: "int \<Rightarrow> req_action jump" where
  "req_345 c =
     (if c = 46 then St 346
      else if c < 65 then (if 48 \<le> c \<and> c \<le> 57 then St 345 else St 0)
      else if 70 < c then (if 97 \<le> c \<and> c \<le> 102 then St 345 else St 0)
      else St 345)"

definition req_346 :: "int \<Rightarrow> req_action jump" where
  "req_346 w =
     (if w \<in> {33, 36, 61, 95, 126, 606, 635, 637} then St 347
      else if w < 48 then (if 38 \<le> w \<and> w \<le> 46 then St 347 else St 0)
      else if 59 < w then
        (if 90 < w then (if 97 \<le> w \<and> w \<le> 122 then St 347 else St 0)
         else if 65 \<le> w then St 347
         else St 0)
      else St 347)"

definition req_347 :: "int \<Rightarrow> req_action jump" where
  "req_347 w =
     (if w \<in> {33, 36, 61, 95, 126, 606, 635, 637} then St 347
      else if w = 93 then St 236
      else if w < 48 then (if 38 \<le> w \<and> w \<le> 46 then St 347 else St 0)
      else if 59 < w then
        (if 90 < w then (if 97 \<le> w \<and> w \<le> 122 then St 347 else St 0)
         else if 65 \<le> w then St 347
         else St 0)
      else St 347)"

definition req_348 :: "int \<Rightarrow> req_action jump" where
  "req_348 c =
     (if c \<in> {33, 124, 126} then St 14
      else if c = 58 then req_tr27
      else if c < 42 then
        (if c < 10 then (if 1 \<le> c \<and> c \<le> 8 then St 14 else St 0)
         else if 31 < c then (if 35 \<le> c \<and> c \<le> 39 then St 14 else St 0)
         else St 14)
      else if 43 < c then
        (if c < 48 then (if 45 \<le> c \<and> c \<le> 46 then St 14 else St 0)
         else if 57 < c then
           (if 90 < c then (if 94 \<le> c \<and> c \<le> 122 then St 14 else St 0)
            else if 65 \<le> c then St 14
            else St 0)
         else St 14)
      else St 14)"

definition req_349 :: "int \<Rightarrow> req_action jump" where
  "req_349 _ = St 0"

definition req_states_hi :: "bool \<Rightarrow> (int \<Rightarrow> req_action jump) list" where
  "req_states_hi relaxed =
    (let w = (\<lambda>f c. f (widec relaxed c)) in
     [w req_174, req_175, req_176, req_177, req_178, req_179, req_180, req_181, req_182, req_183,
      req_184, req_185, req_186, req_187, req_188, req_189, req_190, req_191, req_192, req_193,
      req_194, req_195, req_196, req_197, w req_198, req_199, req_200, req_201, w req_202, req_203,
      req_204, w req_205, req_206, req_207, w req_208, w req_209, w req_210, req_211, req_212, w
      req_213, w req_214, req_215, req_216, w req_217, w req_218, req_219, req_220, req_221,
      req_222, req_223, req_224, req_225, req_226, req_227, req_228, req_229, req_230, req_231,
      req_232, req_233, req_234, req_235, req_236, req_237, req_238, req_239, req_240, req_241,
      req_242, req_243, req_244, req_245, req_246, req_247, req_248, req_249, req_250, req_251,
      req_252, req_253, req_254, req_255, req_256, req_257, req_258, req_259, req_260, req_261,
      req_262, req_263, req_264, req_265, req_266, req_267, req_268, req_269, req_270, req_271,
      req_272, req_273, req_274, req_275, req_276, req_277, req_278, req_279, req_280, req_281,
      req_282, req_283, req_284, req_285, req_286, req_287, req_288, req_289, req_290, req_291,
      req_292, req_293, req_294, req_295, req_296, req_297, req_298, req_299, req_300, req_301,
      req_302, req_303, req_304, req_305, req_306, req_307, req_308, req_309, req_310, req_311,
      req_312, req_313, req_314, req_315, req_316, req_317, req_318, req_319, req_320, req_321,
      req_322, req_323, req_324, req_325, req_326, req_327, req_328, req_329, req_330, req_331,
      req_332, req_333, req_334, req_335, req_336, req_337, req_338, req_339, req_340, req_341,
      req_342, req_343, req_344, req_345, w req_346, w req_347, req_348, req_349])"

end
