(* ===== verification/Http.thy ===== *)
theory Http
  imports StdString StdOrdered
begin

text \<open>
  HTTP messages (exhy/http/http.h, http.cpp): the method and status tables, the case-insensitive
  order of header names, and HttpRequest and HttpResponse with their maps and their output. An
  HttpStatus is the number of its enumerator, since the client parser casts any number to it.
  Output is the string written. Strings are compared in the C locale.
\<close>

section \<open>Methods and status codes\<close>

datatype HttpMethod =
    DELETE | GET | HEAD | POST | PUT | CONNECT | OPTIONS | TRACE | COPY | LOCK | MKCOL | MOVE |
    PROPFIND | PROPPATCH | SEARCH | UNLOCK | BIND | REBIND | UNBIND | ACL | REPORT |
    MKACTIVITY | CHECKOUT | MERGE | MSEARCH | NOTIFY | SUBSCRIBE | UNSUBSCRIBE | PATCH |
    PURGE | MKCALENDAR | LINK | UNLINK | SOURCE | INVALID_METHOD

definition method_table :: "(HttpMethod \<times> string) list" where
  "method_table =
    [(DELETE, ''DELETE''), (GET, ''GET''), (HEAD, ''HEAD''), (POST, ''POST''), (PUT, ''PUT''),
     (CONNECT, ''CONNECT''), (OPTIONS, ''OPTIONS''), (TRACE, ''TRACE''), (COPY, ''COPY''),
     (LOCK, ''LOCK''), (MKCOL, ''MKCOL''), (MOVE, ''MOVE''), (PROPFIND, ''PROPFIND''),
     (PROPPATCH, ''PROPPATCH''), (SEARCH, ''SEARCH''), (UNLOCK, ''UNLOCK''), (BIND, ''BIND''),
     (REBIND, ''REBIND''), (UNBIND, ''UNBIND''), (ACL, ''ACL''), (REPORT, ''REPORT''),
     (MKACTIVITY, ''MKACTIVITY''), (CHECKOUT, ''CHECKOUT''), (MERGE, ''MERGE''),
     (MSEARCH, ''M-SEARCH''), (NOTIFY, ''NOTIFY''), (SUBSCRIBE, ''SUBSCRIBE''),
     (UNSUBSCRIBE, ''UNSUBSCRIBE''), (PATCH, ''PATCH''), (PURGE, ''PURGE''),
     (MKCALENDAR, ''MKCALENDAR''), (LINK, ''LINK''), (UNLINK, ''UNLINK''), (SOURCE, ''SOURCE'')]"

text \<open>The value of an enumerator is its place in the list.\<close>

definition HttpMethod_num :: "HttpMethod \<Rightarrow> nat" where
  "HttpMethod_num m = length (takeWhile (\<lambda>p. fst p \<noteq> m) method_table)"

definition StringToHttpMethod :: "string \<Rightarrow> HttpMethod" where
  "StringToHttpMethod m =
     (case List.find (\<lambda>p. snd p = cstr m) method_table of None \<Rightarrow> INVALID_METHOD | Some p \<Rightarrow> fst p)"

definition CharsToHttpMethod :: "string \<Rightarrow> HttpMethod" where
  "CharsToHttpMethod m =
     (case List.find (\<lambda>p. starts_with (snd p) m) method_table of None \<Rightarrow> INVALID_METHOD | Some p \<Rightarrow> fst p)"

definition s_method_string :: "string list" where
  "s_method_string = map snd method_table"

definition HttpMethodToString :: "HttpMethod \<Rightarrow> string" where
  "HttpMethodToString m =
     (if length s_method_string \<le> HttpMethod_num m then ''<unknow>'' else s_method_string ! HttpMethod_num m)"

definition status_table :: "(int \<times> string) list" where
  "status_table =
    [(100, ''Continue''), (101, ''Switching Protocols''), (102, ''Processing''), (200, ''OK''),
     (201, ''Created''), (202, ''Accepted''), (203, ''Non-Authoritative Information''),
     (204, ''No Content''), (205, ''Reset Content''), (206, ''Partial Content''),
     (207, ''Multi-Status''), (208, ''Already Reported''), (226, ''IM Used''),
     (300, ''Multiple Choices''), (301, ''Moved Permanently''), (302, ''Found''),
     (303, ''See Other''), (304, ''Not Modified''), (305, ''Use Proxy''),
     (307, ''Temporary Redirect''), (308, ''Permanent Redirect''), (400, ''Bad Request''),
     (401, ''Unauthorized''), (402, ''Payment Required''), (403, ''Forbidden''),
     (404, ''Not Found''), (405, ''Method Not Allowed''), (406, ''Not Acceptable''),
     (407, ''Proxy Authentication Required''), (408, ''Request Timeout''), (409, ''Conflict''),
     (410, ''Gone''), (411, ''Length Required''), (412, ''Precondition Failed''),
     (413, ''Payload Too Large''), (414, ''URI Too Long''), (415, ''Unsupported Media Type''),
     (416, ''Range Not Satisfiable''), (417, ''Expectation Failed''),
     (421, ''Misdirected Request''), (422, ''Unprocessable Entity''), (423, ''Locked''),
     (424, ''Failed Dependency''), (426, ''Upgrade Required''),
     (428, ''Precondition Required''), (429, ''Too Many Requests''),
     (431, ''Request Header Fields Too Large''), (451, ''Unavailable For Legal Reasons''),
     (500, ''Internal Server Error''), (501, ''Not Implemented''), (502, ''Bad Gateway''),
     (503, ''Service Unavailable''), (504, ''Gateway Timeout''),
     (505, ''HTTP Version Not Supported''), (506, ''Variant Also Negotiates''),
     (507, ''Insufficient Storage''), (508, ''Loop Detected''), (510, ''Not Extended''),
     (511, ''Network Authentication Required'')]"

definition HttpStatusToString :: "int \<Rightarrow> string" where
  "HttpStatusToString s = (case map_of status_table s of None \<Rightarrow> ''<unknow>'' | Some d \<Rightarrow> d)"

section \<open>Header maps\<close>

definition CaseInsensitiveLess :: "string \<Rightarrow> string \<Rightarrow> bool" where
  "CaseInsensitiveLess lhs rhs \<longleftrightarrow> strcasecmp lhs rhs < 0"

type_synonym header_map = "(string \<times> string) list"

definition hm_find :: "string \<Rightarrow> header_map \<Rightarrow> string option" where
  "hm_find key m = map_find CaseInsensitiveLess key m"

definition hm_put :: "string \<Rightarrow> string \<Rightarrow> header_map \<Rightarrow> header_map" where
  "hm_put key val m = map_put CaseInsensitiveLess key val m"

definition hm_erase :: "string \<Rightarrow> header_map \<Rightarrow> header_map" where
  "hm_erase key m = map_erase CaseInsensitiveLess key m"

text \<open>\<open>cast\<close> is boost::lexical_cast to the type asked for, \<open>None\<close> when it throws.\<close>

definition checkGetAs :: "(string \<Rightarrow> 't option) \<Rightarrow> header_map \<Rightarrow> string \<Rightarrow> 't \<Rightarrow> bool \<times> 't" where
  "checkGetAs cast m key def =
     (case hm_find key m of
        None \<Rightarrow> (False, def)
      | Some v \<Rightarrow> (case cast v of Some x \<Rightarrow> (True, x) | None \<Rightarrow> (False, def)))"

definition getAs :: "(string \<Rightarrow> 't option) \<Rightarrow> header_map \<Rightarrow> string \<Rightarrow> 't \<Rightarrow> 't" where
  "getAs cast m key def =
     (case hm_find key m of
        None \<Rightarrow> def
      | Some v \<Rightarrow> (case cast v of Some x \<Rightarrow> x | None \<Rightarrow> def))"

section \<open>HttpRequest\<close>

record http_request =
  rq_method :: HttpMethod
  rq_version :: byte
  rq_close :: bool
  rq_websocket :: bool
  rq_parserParamFlag :: byte
  rq_path :: string
  rq_query :: string
  rq_fragment :: string
  rq_body :: string
  rq_headers :: header_map
  rq_params :: header_map
  rq_cookies :: header_map

definition new_HttpRequest :: "byte \<Rightarrow> bool \<Rightarrow> http_request" where
  "new_HttpRequest version close =
     \<lparr>rq_method = GET, rq_version = version, rq_close = close, rq_websocket = False,
      rq_parserParamFlag = 0, rq_path = ''/'', rq_query = [], rq_fragment = [], rq_body = [],
      rq_headers = [], rq_params = [], rq_cookies = []\<rparr>"

text \<open>The three methods that would parse parameters and cookies do nothing.\<close>

definition initQueryParam :: "http_request \<Rightarrow> http_request" where
  "initQueryParam r = (if rq_parserParamFlag r AND 1 \<noteq> 0 then r else r)"

definition initBodyParam :: "http_request \<Rightarrow> http_request" where
  "initBodyParam r = (if rq_parserParamFlag r AND 2 \<noteq> 0 then r else r)"

definition initCookies :: "http_request \<Rightarrow> http_request" where
  "initCookies r = r"

definition initParam :: "http_request \<Rightarrow> http_request" where
  "initParam r = initCookies (initBodyParam (initQueryParam r))"

definition or_default :: "string option \<Rightarrow> string \<Rightarrow> string" where
  "or_default x def = (case x of None \<Rightarrow> def | Some v \<Rightarrow> v)"

definition getHeader :: "http_request \<Rightarrow> string \<Rightarrow> string \<Rightarrow> string" where
  "getHeader r key def = or_default (hm_find key (rq_headers r)) def"

definition getParam :: "http_request \<Rightarrow> string \<Rightarrow> string \<Rightarrow> string" where
  "getParam r key def = or_default (hm_find key (rq_params (initBodyParam (initQueryParam r)))) def"

definition getCookie :: "http_request \<Rightarrow> string \<Rightarrow> string \<Rightarrow> string" where
  "getCookie r key def = or_default (hm_find key (rq_cookies (initCookies r))) def"

definition setHeader :: "string \<Rightarrow> string \<Rightarrow> http_request \<Rightarrow> http_request" where
  "setHeader key val r = r\<lparr>rq_headers := hm_put key val (rq_headers r)\<rparr>"

definition setParam :: "string \<Rightarrow> string \<Rightarrow> http_request \<Rightarrow> http_request" where
  "setParam key val r = r\<lparr>rq_params := hm_put key val (rq_params r)\<rparr>"

definition setCookie :: "string \<Rightarrow> string \<Rightarrow> http_request \<Rightarrow> http_request" where
  "setCookie key val r = r\<lparr>rq_cookies := hm_put key val (rq_cookies r)\<rparr>"

definition delHeader :: "string \<Rightarrow> http_request \<Rightarrow> http_request" where
  "delHeader key r = r\<lparr>rq_headers := hm_erase key (rq_headers r)\<rparr>"

definition delParam :: "string \<Rightarrow> http_request \<Rightarrow> http_request" where
  "delParam key r = r\<lparr>rq_params := hm_erase key (rq_params r)\<rparr>"

definition delCookie :: "string \<Rightarrow> http_request \<Rightarrow> http_request" where
  "delCookie key r = r\<lparr>rq_cookies := hm_erase key (rq_cookies r)\<rparr>"

text \<open>\<open>hasHeader\<close> and its kin: the value is what \<open>*val\<close> is set to, when it is.\<close>

definition hasHeader :: "http_request \<Rightarrow> string \<Rightarrow> bool \<times> string option" where
  "hasHeader r key = (case hm_find key (rq_headers r) of None \<Rightarrow> (False, None) | Some v \<Rightarrow> (True, Some v))"

definition hasParam :: "http_request \<Rightarrow> string \<Rightarrow> bool \<times> string option" where
  "hasParam r key =
     (case hm_find key (rq_params (initBodyParam (initQueryParam r))) of
        None \<Rightarrow> (False, None) | Some v \<Rightarrow> (True, Some v))"

definition hasCookie :: "http_request \<Rightarrow> string \<Rightarrow> bool \<times> string option" where
  "hasCookie r key =
     (case hm_find key (rq_cookies (initCookies r)) of None \<Rightarrow> (False, None) | Some v \<Rightarrow> (True, Some v))"

text \<open>\<open>init\<close> takes over what the connection header says.\<close>

definition init_request :: "http_request \<Rightarrow> http_request" where
  "init_request r =
     (let conn = getHeader r ''connection'' []
      in if conn \<noteq> []
         then (if strcasecmp conn ''keep-alive'' = 0 then r\<lparr>rq_close := False\<rparr> else r\<lparr>rq_close := True\<rparr>)
         else r)"

section \<open>Output\<close>

definition CRLF :: string where
  "CRLF = [CHR 0x0D, CHR 0x0A]"

definition dump_version :: "byte \<Rightarrow> string" where
  "dump_version v = dec (unat (drop_bit 4 v)) @ ''.'' @ dec (unat (v AND 0x0F))"

definition dump_connection :: "bool \<Rightarrow> string" where
  "dump_connection close = ''connection: '' @ (if close then ''close'' else ''keep-alive'') @ CRLF"

text \<open>The loop over the headers, which skips the connection header unless this is a websocket.\<close>

primrec dump_headers :: "bool \<Rightarrow> header_map \<Rightarrow> string" where
  "dump_headers ws [] = []"
| "dump_headers ws (p # m) =
     (if \<not> ws \<and> strcasecmp (fst p) ''connection'' = 0 then dump_headers ws m
      else fst p @ '': '' @ snd p @ CRLF @ dump_headers ws m)"

definition dump_request :: "http_request \<Rightarrow> string" where
  "dump_request r =
     HttpMethodToString (rq_method r) @ '' '' @ rq_path r @
     (if rq_query r = [] then [] else ''?'') @ rq_query r @
     (if rq_fragment r = [] then [] else ''#'') @ rq_fragment r @
     '' HTTP/'' @ dump_version (rq_version r) @ CRLF @
     (if \<not> rq_websocket r then dump_connection (rq_close r) else []) @
     dump_headers (rq_websocket r) (rq_headers r) @
     (if rq_body r \<noteq> [] then ''content-length2: '' @ dec (length (rq_body r)) @ CRLF @ CRLF @ rq_body r
      else CRLF)"

section \<open>HttpResponse\<close>

record http_response =
  rs_status :: int
  rs_version :: byte
  rs_close :: bool
  rs_websocket :: bool
  rs_body :: string
  rs_reason :: string
  rs_headers :: header_map
  rs_cookies :: "string list"

definition new_HttpResponse :: "byte \<Rightarrow> bool \<Rightarrow> http_response" where
  "new_HttpResponse version close =
     \<lparr>rs_status = 200, rs_version = version, rs_close = close, rs_websocket = False,
      rs_body = [], rs_reason = [], rs_headers = [], rs_cookies = []\<rparr>"

definition createResponse :: "http_request \<Rightarrow> http_response" where
  "createResponse r = new_HttpResponse (rq_version r) (rq_close r)"

definition rs_getHeader :: "http_response \<Rightarrow> string \<Rightarrow> string \<Rightarrow> string" where
  "rs_getHeader r key def = or_default (hm_find key (rs_headers r)) def"

definition rs_setHeader :: "string \<Rightarrow> string \<Rightarrow> http_response \<Rightarrow> http_response" where
  "rs_setHeader key val r = r\<lparr>rs_headers := hm_put key val (rs_headers r)\<rparr>"

definition rs_delHeader :: "string \<Rightarrow> http_response \<Rightarrow> http_response" where
  "rs_delHeader key r = r\<lparr>rs_headers := hm_erase key (rs_headers r)\<rparr>"

definition setRedirect :: "string \<Rightarrow> http_response \<Rightarrow> http_response" where
  "setRedirect uri r = rs_setHeader ''Location'' uri (r\<lparr>rs_status := 302\<rparr>)"

text \<open>\<open>time2str\<close> is Time2Str, which formats the local time of the process.\<close>

definition cookie_string ::
  "(int \<Rightarrow> string \<Rightarrow> string) \<Rightarrow> string \<Rightarrow> string \<Rightarrow> int \<Rightarrow> string \<Rightarrow> string \<Rightarrow> bool \<Rightarrow> string" where
  "cookie_string time2str key val expired path domain secure =
     key @ ''='' @ val @
     (if 0 < expired then '';expires='' @ time2str expired ''%a, %d %b %Y %H:%M:%S'' @ '' GMT'' else []) @
     (if domain \<noteq> [] then '';domain='' @ domain else []) @
     (if path \<noteq> [] then '';path='' @ path else []) @
     (if secure then '';secure'' else [])"

definition rs_setCookie ::
  "(int \<Rightarrow> string \<Rightarrow> string) \<Rightarrow> string \<Rightarrow> string \<Rightarrow> int \<Rightarrow> string \<Rightarrow> string \<Rightarrow> bool \<Rightarrow>
     http_response \<Rightarrow> http_response" where
  "rs_setCookie time2str key val expired path domain secure r =
     r\<lparr>rs_cookies := rs_cookies r @ [cookie_string time2str key val expired path domain secure]\<rparr>"

definition dump_response :: "http_response \<Rightarrow> string" where
  "dump_response r =
     ''HTTP/'' @ dump_version (rs_version r) @ '' '' @ dec (unat (word_of_int (rs_status r) :: u32)) @ '' '' @
     (if rs_reason r = [] then HttpStatusToString (rs_status r) else rs_reason r) @ CRLF @
     dump_headers (rs_websocket r) (rs_headers r) @
     concat (map (\<lambda>c. ''Set-Cookie: '' @ c @ CRLF) (rs_cookies r)) @
     (if \<not> rs_websocket r then dump_connection (rs_close r) else []) @
     (if rs_body r \<noteq> [] then ''content-length: '' @ dec (length (rs_body r)) @ CRLF @ CRLF @ rs_body r
      else CRLF)"

section \<open>The order of header names\<close>

text \<open>
  The comparator of the header maps is a strict weak order, so the laws of \<open>std::map\<close> hold for
  them; two names are the same key when they agree up to case, up to a NUL.
\<close>

interpretation ci: strict_weak CaseInsensitiveLess
proof unfold_locales
  fix a b c
  show "\<not> CaseInsensitiveLess a a"
    by (simp add: CaseInsensitiveLess_def strcasecmp_less lexordp_irreflexive')
  show "CaseInsensitiveLess a b \<Longrightarrow> CaseInsensitiveLess b c \<Longrightarrow> CaseInsensitiveLess a c"
    by (auto simp: CaseInsensitiveLess_def strcasecmp_less intro: lexordp_trans)
  show "CaseInsensitiveLess a c \<Longrightarrow> CaseInsensitiveLess a b \<or> CaseInsensitiveLess b c"
    unfolding CaseInsensitiveLess_def strcasecmp_less by (metis lexordp_linear lexordp_trans)
qed

lemma equiv_case_key: "equiv_by CaseInsensitiveLess a b \<longleftrightarrow> case_key a = case_key b"
  unfolding equiv_by_def CaseInsensitiveLess_def strcasecmp_less
  by (metis lexordp_irreflexive' lexordp_linear)

definition hm_ok :: "header_map \<Rightarrow> bool" where
  "hm_ok m \<longleftrightarrow> map_ok CaseInsensitiveLess m"

text \<open>What a header map stands for: a finite map on names up to case.\<close>

definition hm_abs :: "header_map \<Rightarrow> nat list \<Rightarrow> string option" where
  "hm_abs m = map_of (map (\<lambda>(k, v). (case_key k, v)) m)"

lemma hm_abs_absent:
  assumes "\<forall>j \<in> fst ` set m. CaseInsensitiveLess key j" "map_ok CaseInsensitiveLess m"
  shows "hm_abs m (case_key key) = None"
proof -
  have "case_key key \<noteq> case_key j" if "j \<in> fst ` set m" for j
    using assms(1) that equiv_case_key [of key j] by (auto simp: equiv_by_def)
  then show ?thesis by (force simp: hm_abs_def map_of_eq_None_iff)
qed

lemma hm_find_abs: "hm_ok m \<Longrightarrow> hm_find key m = hm_abs m (case_key key)"
proof (induction m)
  case (Cons p m)
  obtain j v where p: "p = (j, v)" by force
  have ok: "hm_ok m" and above: "\<forall>i \<in> fst ` set m. CaseInsensitiveLess j i"
    using Cons.prems p by (auto simp: hm_ok_def map_ok_def)
  consider "CaseInsensitiveLess j key" | "CaseInsensitiveLess key j" | "equiv_by CaseInsensitiveLess j key"
    by (auto simp: equiv_by_def)
  then show ?case
  proof cases
    case 1
    then have "case_key j \<noteq> case_key key" using equiv_case_key [of j key] by (auto simp: equiv_by_def)
    then show ?thesis using 1 Cons.IH [OF ok] p by (simp add: hm_find_def hm_abs_def)
  next
    case 2
    then have "\<forall>i \<in> fst ` set m. CaseInsensitiveLess key i" using above ci.trans by blast
    then have "hm_abs m (case_key key) = None" using hm_abs_absent ok by (simp add: hm_ok_def)
    moreover have "case_key j \<noteq> case_key key" using 2 equiv_case_key [of j key] by (auto simp: equiv_by_def)
    ultimately show ?thesis using 2 ci.asym [OF 2] p by (simp add: hm_find_def hm_abs_def)
  next
    case 3
    then show ?thesis using p equiv_case_key [of j key] by (auto simp: hm_find_def hm_abs_def equiv_by_def)
  qed
qed (simp add: hm_find_def hm_abs_def)

lemma case_key_surj_find:
  assumes "hm_ok m" "hm_ok n" "\<And>key. hm_find key m = (if case_key key = c then w else hm_find key n)"
    "c = case_key k"
  shows "hm_abs m = (hm_abs n)(c := w)"
proof
  fix x
  show "hm_abs m x = ((hm_abs n)(c := w)) x"
  proof (cases "\<exists>key. case_key key = x")
    case True
    then obtain key where "x = case_key key" by blast
    then show ?thesis using assms(3) [of key] hm_find_abs assms(1,2) by simp
  next
    case False
    then have "hm_abs m x = None" "hm_abs n x = None" "x \<noteq> c"
      using assms(4) by (auto simp: hm_abs_def map_of_eq_None_iff)
    then show ?thesis by simp
  qed
qed

lemma hm_put_ok: "hm_ok m \<Longrightarrow> hm_ok (hm_put k v m)"
  by (simp add: hm_ok_def hm_put_def ci.map_ok_put)

lemma hm_erase_ok: "hm_ok m \<Longrightarrow> hm_ok (hm_erase k m)"
  by (simp add: hm_ok_def hm_erase_def ci.map_ok_erase)

lemma hm_put_abs: "hm_ok m \<Longrightarrow> hm_abs (hm_put k v m) = (hm_abs m)(case_key k \<mapsto> v)"
  by (rule case_key_surj_find [OF hm_put_ok _ _ refl])
     (simp_all add: hm_ok_def hm_find_def hm_put_def ci.map_find_put equiv_case_key)

lemma hm_erase_abs: "hm_ok m \<Longrightarrow> hm_abs (hm_erase k m) = (hm_abs m)(case_key k := None)"
  by (rule case_key_surj_find [OF hm_erase_ok _ _ refl])
     (simp_all add: hm_ok_def hm_find_def hm_erase_def ci.map_find_erase equiv_case_key)

lemma hm_empty: "hm_ok []" "hm_abs [] = Map.empty"
  by (simp_all add: hm_ok_def map_ok_def hm_abs_def)

text \<open>
  Claim C29. The header maps refine finite maps on names up to case: on every map built by
  \<open>m[k] = v\<close> and \<open>erase\<close>, these and \<open>find\<close> are update, removal and application, so the last value
  set for a name in any spelling is the one returned, and no other name is touched.
\<close>

theorem header_map_refines:
  assumes "hm_ok m"
  shows "hm_ok (hm_put k v m) \<and> hm_ok (hm_erase k m) \<and> hm_find k m = hm_abs m (case_key k) \<and>
    hm_abs (hm_put k v m) = (hm_abs m)(case_key k \<mapsto> v) \<and>
    hm_abs (hm_erase k m) = (hm_abs m)(case_key k := None)"
  using assms hm_put_ok hm_erase_ok hm_put_abs hm_erase_abs hm_find_abs by blast

theorem header_map_refines_witness:
  "hm_find ''CONTENT-type'' [(''Content-Type'', ''text/html'')] = Some ''text/html''"
proof -
  have ok: "hm_ok [(''Content-Type'', ''text/html'')]" by (simp add: hm_ok_def map_ok_def)
  have "case_key ''CONTENT-type'' = case_key ''Content-Type''" by code_simp
  then show ?thesis
    using header_map_refines [OF ok, of "''CONTENT-type''"] by (simp add: hm_abs_def)
qed

section \<open>Requests and responses\<close>

definition rq_ok :: "http_request \<Rightarrow> bool" where
  "rq_ok r \<longleftrightarrow> hm_ok (rq_headers r) \<and> hm_ok (rq_params r) \<and> hm_ok (rq_cookies r)"

lemma rq_ok_new: "rq_ok (new_HttpRequest version close)"
  by (simp add: rq_ok_def new_HttpRequest_def hm_empty)

lemma init_param_id [simp]:
  "initQueryParam r = r" "initBodyParam r = r" "initCookies r = r" "initParam r = r"
  by (simp_all add: initQueryParam_def initBodyParam_def initCookies_def initParam_def)

lemmas hm_ops = hm_put_ok hm_erase_ok hm_put_abs hm_erase_abs hm_find_abs

text \<open>
  A request keeps three independent maps: the value set last for a name, in any
  spelling, is the one got, every other name keeps its value, and a removed name has none.
\<close>

theorem last_value_wins:
  assumes "rq_ok r"
  shows "rq_ok (setHeader k v r) \<and> rq_ok (setParam k v r) \<and> rq_ok (setCookie k v r) \<and>
    getHeader (setHeader k v r) j d = (if case_key j = case_key k then v else getHeader r j d) \<and>
    getParam (setParam k v r) j d = (if case_key j = case_key k then v else getParam r j d) \<and>
    getCookie (setCookie k v r) j d = (if case_key j = case_key k then v else getCookie r j d) \<and>
    getHeader (delHeader k r) j d = (if case_key j = case_key k then d else getHeader r j d) \<and>
    hasHeader (delHeader k r) k = (False, None) \<and> hasHeader (setHeader k v r) k = (True, Some v) \<and>
    getHeader (setCookie k v (setParam k v r)) j d = getHeader r j d"
  using assms
  by (auto simp: rq_ok_def hm_ops getHeader_def getParam_def getCookie_def setHeader_def setParam_def setCookie_def
      delHeader_def hasHeader_def or_default_def)

theorem last_value_wins_witness:
  "getHeader (setHeader ''Host'' ''a'' (setHeader ''HOST'' ''b'' (new_HttpRequest 0x11 True))) ''host'' [] = ''a''"
proof -
  have "rq_ok (setHeader ''HOST'' ''b'' (new_HttpRequest 0x11 True))"
    using rq_ok_new [of "0x11" True] by (simp add: rq_ok_def setHeader_def hm_put_ok)
  moreover have "case_key ''host'' = case_key ''Host''" by code_simp
  ultimately show ?thesis using last_value_wins [of _ "''Host''" "''a''" "''host''" "[]"] by simp
qed

text \<open>
  init takes over the connection header: without one, or with an empty one, nothing
  changes; else the connection is to be closed unless the header says keep-alive, in any case.
\<close>

theorem init_request_close:
  "init_request r = r\<lparr>rq_close :=
     (if getHeader r ''connection'' [] = [] then rq_close r
      else case_key (getHeader r ''connection'' []) \<noteq> case_key ''keep-alive'')\<rparr>"
  by (simp add: init_request_def Let_def strcasecmp_zero)

section \<open>The method table\<close>

lemma starts_with_Nil: "starts_with [] s"
  by (simp add: starts_with_def)

lemma starts_with_Cons: "c \<noteq> CHR 0x00 \<Longrightarrow> starts_with (a # l) (c # s) \<longleftrightarrow> a = c \<and> starts_with l s"
  by (auto simp: starts_with_def cstr_def)

lemmas table_simps = HttpMethodToString_def HttpMethod_num_def s_method_string_def method_table_def

lemma CharsToHttpMethod_name:
  "m \<noteq> INVALID_METHOD \<Longrightarrow> CharsToHttpMethod (HttpMethodToString m @ s) = m"
  by (cases m) (simp_all add: table_simps CharsToHttpMethod_def starts_with_Nil starts_with_Cons)

lemma StringToHttpMethod_name:
  "m \<noteq> INVALID_METHOD \<Longrightarrow> StringToHttpMethod (HttpMethodToString m) = m"
  by (cases m) (simp_all add: table_simps StringToHttpMethod_def cstr_def)

lemma StringToHttpMethod_accepts:
  assumes "StringToHttpMethod t \<noteq> INVALID_METHOD"
  shows "HttpMethodToString (StringToHttpMethod t) = cstr t"
proof -
  obtain p where p: "List.find (\<lambda>p. snd p = cstr t) method_table = Some p"
    using assms by (auto simp: StringToHttpMethod_def split: option.splits)
  then have "p \<in> set method_table" "snd p = cstr t" by (auto simp: find_Some_iff)
  moreover have "\<forall>p \<in> set method_table. HttpMethodToString (fst p) = snd p" by code_simp
  ultimately show ?thesis using p by (simp add: StringToHttpMethod_def)
qed

text \<open>
  The table of methods: every method's name is read back as the method by both readers,
  and StringToHttpMethod accepts nothing else; but CharsToHttpMethod takes every text that begins
  with a method's name, however it goes on, for that method.
\<close>

theorem method_names:
  "(m \<noteq> INVALID_METHOD \<longrightarrow>
      StringToHttpMethod (HttpMethodToString m) = m \<and> CharsToHttpMethod (HttpMethodToString m @ s) = m) \<and>
   (StringToHttpMethod t \<noteq> INVALID_METHOD \<longrightarrow> HttpMethodToString (StringToHttpMethod t) = cstr t)"
  using CharsToHttpMethod_name StringToHttpMethod_name StringToHttpMethod_accepts by blast

theorem method_names_witness:
  "StringToHttpMethod ''M-SEARCH'' = MSEARCH \<and> CharsToHttpMethod ''GETTER /'' = GET"
proof -
  have "HttpMethodToString MSEARCH = ''M-SEARCH''" "HttpMethodToString GET @ ''TER /'' = ''GETTER /''"
    by code_simp+
  then show ?thesis using method_names [of MSEARCH] method_names [of GET "''TER /''"] by auto
qed

end
