(* ===== verification/RequestParser.thy ===== *)
theory RequestParser
  imports RequestStatesURI Http
begin

text \<open>
  The functions of exhy/http/http11_parser.cpp around the machine, and HttpRequestParser
  (exhy/http/http_parser.h, http_parser.cpp) with its callbacks. The machine only says where a token is in
  the buffer it is given; a callback that takes characters from outside of that buffer is a fault.
\<close>

section \<open>http\_parser\<close>

definition req_delta :: "bool \<Rightarrow> nat \<Rightarrow> int \<Rightarrow> req_action jump" where
  "req_delta relaxed cs = (if cs < 174 then req_states_lo relaxed ! (cs - 1) else req_states_hi relaxed ! (cs - 174))"

definition http_parser_init :: "http_parser \<Rightarrow> http_parser" where
  "http_parser_init h =
     h\<lparr>hp_cs := 1, hp_body_start := 0, hp_content_len := 0, hp_mark := 0, hp_nread := 0, hp_field_len := 0,
       hp_field_start := 0, hp_xml_sent := False, hp_json_sent := False\<rparr>"

definition http_parser_has_error :: "http_parser \<Rightarrow> bool" where
  "http_parser_has_error h \<longleftrightarrow> hp_cs h = 0"

definition http_parser_is_finished :: "http_parser \<Rightarrow> bool" where
  "http_parser_is_finished h \<longleftrightarrow> 348 \<le> hp_cs h"

definition http_parser_finish :: "http_parser \<Rightarrow> int" where
  "http_parser_finish h = (if http_parser_has_error h then - 1 else if http_parser_is_finished h then 1 else 0)"

text \<open>A switch on a state without a case falls through to the label \<open>_test_eof2\<close>.\<close>

definition req_exec :: "string \<Rightarrow> nat \<Rightarrow> http_parser \<Rightarrow> nat \<times> nat \<times> http_parser \<times> req_call list" where
  "req_exec buf off h =
     (if off < length buf \<and> (hp_cs h = 0 \<or> 349 < hp_cs h) then (2, off, h, [])
      else goto_run (req_delta (hp_uri_relaxed h)) (req_act (length buf)) buf off (hp_cs h) (h, []))"

definition http_parser_execute :: "http_parser \<Rightarrow> string \<Rightarrow> nat \<Rightarrow> (nat \<times> http_parser \<times> req_call list) res" where
  "http_parser_execute h buf off =
     (if buf = [] then Inr (0, h, [])
      else let h0 = h\<lparr>hp_nread := 0, hp_mark := 0, hp_field_len := 0, hp_field_start := 0\<rparr>
        in if length buf < off then Inl AssertFailed
           else let (cs, p, h1, calls) = req_exec buf off h0;
                    h2 = (if \<not> http_parser_has_error h1 then h1\<lparr>hp_cs := cs\<rparr> else h1);
                    h3 = h2\<lparr>hp_nread := hp_nread h2 + (p - off)\<rparr>
             in if hp_nread h3 \<le> length buf \<and> hp_body_start h3 \<le> length buf \<and> hp_mark h3 < length buf \<and>
                   hp_field_len h3 \<le> length buf \<and> hp_field_start h3 < length buf
                then Inr (hp_nread h3, h3, calls) else Inl AssertFailed)"

section \<open>HttpRequestParser\<close>

record request_parser =
  qp_parser :: http_parser
  qp_data :: http_request
  qp_error :: int

text \<open>\<open>h\<close> is what the parser holds before http\_parser\_init, which leaves two members as they are.\<close>

definition new_HttpRequestParser :: "http_parser \<Rightarrow> request_parser" where
  "new_HttpRequestParser h = \<lparr>qp_parser = http_parser_init h, qp_data = new_HttpRequest 0x11 True, qp_error = 0\<rparr>"

definition setError :: "int \<Rightarrow> request_parser \<Rightarrow> request_parser" where
  "setError v q = q\<lparr>qp_error := v\<rparr>"

text \<open>\<open>std::string(at, length)\<close>.\<close>

definition string_at :: "string \<Rightarrow> nat \<Rightarrow> nat \<Rightarrow> string res" where
  "string_at buf at len =
     (if 2 ^ 63 \<le> len then Inl LengthError
      else if length buf < at + len then Inl OutOfBounds
      else Inr (block_at at len buf))"

text \<open>\<open>strncmp(at, lit, len) == 0\<close>.\<close>

definition strn_equal :: "string \<Rightarrow> string \<Rightarrow> nat \<Rightarrow> bool" where
  "strn_equal at lit len \<longleftrightarrow> take len (cstr at) = take len (cstr lit)"

definition on_request_method :: "string \<Rightarrow> nat \<Rightarrow> nat \<Rightarrow> request_parser \<Rightarrow> request_parser res" where
  "on_request_method buf at len q =
     (let m = CharsToHttpMethod (drop at buf)
      in if m = INVALID_METHOD then sbind (string_at buf at len) (\<lambda>_. Inr (setError 1000 q))
         else Inr (q\<lparr>qp_data := (qp_data q)\<lparr>rq_method := m\<rparr>\<rparr>))"

definition on_request_fragment :: "string \<Rightarrow> nat \<Rightarrow> nat \<Rightarrow> request_parser \<Rightarrow> request_parser res" where
  "on_request_fragment buf at len q =
     sbind (string_at buf at len) (\<lambda>s. Inr (q\<lparr>qp_data := (qp_data q)\<lparr>rq_fragment := s\<rparr>\<rparr>))"

definition on_request_path :: "string \<Rightarrow> nat \<Rightarrow> nat \<Rightarrow> request_parser \<Rightarrow> request_parser res" where
  "on_request_path buf at len q =
     sbind (string_at buf at len) (\<lambda>s. Inr (q\<lparr>qp_data := (qp_data q)\<lparr>rq_path := s\<rparr>\<rparr>))"

definition on_request_query :: "string \<Rightarrow> nat \<Rightarrow> nat \<Rightarrow> request_parser \<Rightarrow> request_parser res" where
  "on_request_query buf at len q =
     sbind (string_at buf at len) (\<lambda>s. Inr (q\<lparr>qp_data := (qp_data q)\<lparr>rq_query := s\<rparr>\<rparr>))"

definition http_version_of :: "string \<Rightarrow> nat \<Rightarrow> byte option" where
  "http_version_of at len =
     (if strn_equal at ''HTTP/1.1'' len then Some 0x11
      else if strn_equal at ''HTTP/1.0'' len then Some 0x10 else None)"

definition on_request_version :: "string \<Rightarrow> nat \<Rightarrow> nat \<Rightarrow> request_parser \<Rightarrow> request_parser res" where
  "on_request_version buf at len q =
     sbind (string_at buf at len)
       (\<lambda>_. case http_version_of (drop at buf) len of
              None \<Rightarrow> Inr (setError 1001 q)
            | Some v \<Rightarrow> Inr (q\<lparr>qp_data := (qp_data q)\<lparr>rq_version := v\<rparr>\<rparr>))"

definition on_request_http_field :: "string \<Rightarrow> nat \<Rightarrow> nat \<Rightarrow> nat \<Rightarrow> nat \<Rightarrow> request_parser \<Rightarrow> request_parser res" where
  "on_request_http_field buf field flen value' vlen q =
     sbind (string_at buf field flen) (\<lambda>f.
       sbind (string_at buf value' vlen) (\<lambda>v.
         Inr (if flen = 0 then q else q\<lparr>qp_data := setHeader f v (qp_data q)\<rparr>)))"

fun on_request :: "string \<Rightarrow> req_call \<Rightarrow> request_parser \<Rightarrow> request_parser res" where
  "on_request buf (OnMethod at len) q = on_request_method buf at len q"
| "on_request buf (OnUri at len) q = Inr q"
| "on_request buf (OnFragment at len) q = on_request_fragment buf at len q"
| "on_request buf (OnPath at len) q = on_request_path buf at len q"
| "on_request buf (OnQuery at len) q = on_request_query buf at len q"
| "on_request buf (OnVersion at len) q = on_request_version buf at len q"
| "on_request buf (OnHeaderDone at len) q = Inr q"
| "on_request buf (OnField field flen value' vlen) q = on_request_http_field buf field flen value' vlen q"

primrec on_requests :: "string \<Rightarrow> req_call list \<Rightarrow> request_parser \<Rightarrow> request_parser res" where
  "on_requests buf [] q = Inr q"
| "on_requests buf (c # cs) q = sbind (on_request buf c q) (on_requests buf cs)"

lemma on_requests_append: "on_requests buf (cs @ ds) q = sbind (on_requests buf cs q) (on_requests buf ds)"
proof (induction cs arbitrary: q)
  case (Cons c cs)
  then show ?case by (cases "on_request buf c q") auto
qed simp

text \<open>The number of characters consumed, what is left of the buffer, and the parser.\<close>

definition rqp_execute :: "request_parser \<Rightarrow> string \<Rightarrow> (nat \<times> string \<times> request_parser) res" where
  "rqp_execute q data =
     sbind (http_parser_execute (qp_parser q) data 0) (\<lambda>(offset, h, calls).
       sbind (on_requests data calls q) (\<lambda>q1. Inr (offset, drop offset data, q1\<lparr>qp_parser := h\<rparr>)))"

definition rqp_isFinished :: "request_parser \<Rightarrow> int" where
  "rqp_isFinished q = http_parser_finish (qp_parser q)"

definition rqp_hasError :: "request_parser \<Rightarrow> bool" where
  "rqp_hasError q \<longleftrightarrow> qp_error q \<noteq> 0 \<or> http_parser_has_error (qp_parser q)"

text \<open>\<open>cast\<close> is boost::lexical\_cast to uint64\_t.\<close>

definition rqp_getContentLength :: "(string \<Rightarrow> u64 option) \<Rightarrow> request_parser \<Rightarrow> u64" where
  "rqp_getContentLength cast q = getAs cast (rq_headers (qp_data q)) ''content-length'' 0"

end
