(* ===== verification/RequestSafety.thy ===== *)
theory RequestSafety
  imports RequestParser
begin

text \<open>
  The whole request machine is well formed: every edge of every state leads to a state that has a case,
  and only an edge into a final state stops the run. So the asserts of http_parser_execute never fail, and
  a run that is neither finished nor in error has consumed its whole buffer.
\<close>

section \<open>Every edge\<close>

lemmas req_edges =
  req_tr0_def req_tr4_def req_tr6_def req_tr37_def req_tr44_def req_tr47_def req_tr54_def req_tr58_def req_tr13_def
  req_tr21_def req_tr30_def req_tr33_def req_tr23_def req_tr27_def req_tr29_def req_tr28_def req_tr22_def
  req_tr31_def req_tr34_def req_tr24_def req_tr36_def req_tr25_def req_tr7_def req_tr8_def req_tr39_def req_tr55_def
  req_tr59_def req_tr43_def req_tr45_def req_tr9_def req_tr203_def req_tr204_def req_tr11_def req_tr42_def
  req_tr53_def req_tr56_def req_tr10_def req_tr12_def req_tr2_def req_tr224_def req_tr227_def req_tr235_def
  req_tr3_def req_tr228_def req_tr232_def

lemmas req_defs_lo =
  req_1_def req_2_def req_3_def req_4_def req_5_def req_6_def req_7_def req_8_def req_9_def req_10_def req_11_def
  req_12_def req_13_def req_14_def req_15_def req_16_def req_17_def req_18_def req_19_def req_20_def req_21_def
  req_22_def req_23_def req_24_def req_25_def req_26_def req_27_def req_28_def req_29_def req_30_def req_31_def
  req_32_def req_33_def req_34_def req_35_def req_36_def req_37_def req_38_def req_39_def req_40_def req_41_def
  req_42_def req_43_def req_44_def req_45_def req_46_def req_47_def req_48_def req_49_def req_50_def req_51_def
  req_52_def req_53_def req_54_def req_55_def req_56_def req_57_def req_58_def req_59_def req_60_def req_61_def
  req_62_def req_63_def req_64_def req_65_def req_66_def req_67_def req_68_def req_69_def req_70_def req_71_def
  req_72_def req_73_def req_74_def req_75_def req_76_def req_77_def req_78_def req_79_def req_80_def req_81_def
  req_82_def req_83_def req_84_def req_85_def req_86_def req_87_def req_88_def req_89_def req_90_def req_91_def
  req_92_def req_93_def req_94_def req_95_def req_96_def req_97_def req_98_def req_99_def req_100_def req_101_def
  req_102_def req_103_def req_104_def req_105_def req_106_def req_107_def req_108_def req_109_def req_110_def
  req_111_def req_112_def req_113_def req_114_def req_115_def req_116_def req_117_def req_118_def req_119_def
  req_120_def req_121_def req_122_def req_123_def req_124_def req_125_def req_126_def req_127_def req_128_def
  req_129_def req_130_def req_131_def req_132_def req_133_def req_134_def req_135_def req_136_def req_137_def
  req_138_def req_139_def req_140_def req_141_def req_142_def req_143_def req_144_def req_145_def req_146_def
  req_147_def req_148_def req_149_def req_150_def req_151_def req_152_def req_153_def req_154_def req_155_def
  req_156_def req_157_def req_158_def req_159_def req_160_def req_161_def req_162_def req_163_def req_164_def
  req_165_def req_166_def req_167_def req_168_def req_169_def req_170_def req_171_def req_172_def req_173_def

lemmas req_defs_hi =
  req_174_def req_175_def req_176_def req_177_def req_178_def req_179_def req_180_def req_181_def req_182_def
  req_183_def req_184_def req_185_def req_186_def req_187_def req_188_def req_189_def req_190_def req_191_def
  req_192_def req_193_def req_194_def req_195_def req_196_def req_197_def req_198_def req_199_def req_200_def
  req_201_def req_202_def req_203_def req_204_def req_205_def req_206_def req_207_def req_208_def req_209_def
  req_210_def req_211_def req_212_def req_213_def req_214_def req_215_def req_216_def req_217_def req_218_def
  req_219_def req_220_def req_221_def req_222_def req_223_def req_224_def req_225_def req_226_def req_227_def
  req_228_def req_229_def req_230_def req_231_def req_232_def req_233_def req_234_def req_235_def req_236_def
  req_237_def req_238_def req_239_def req_240_def req_241_def req_242_def req_243_def req_244_def req_245_def
  req_246_def req_247_def req_248_def req_249_def req_250_def req_251_def req_252_def req_253_def req_254_def
  req_255_def req_256_def req_257_def req_258_def req_259_def req_260_def req_261_def req_262_def req_263_def
  req_264_def req_265_def req_266_def req_267_def req_268_def req_269_def req_270_def req_271_def req_272_def
  req_273_def req_274_def req_275_def req_276_def req_277_def req_278_def req_279_def req_280_def req_281_def
  req_282_def req_283_def req_284_def req_285_def req_286_def req_287_def req_288_def req_289_def req_290_def
  req_291_def req_292_def req_293_def req_294_def req_295_def req_296_def req_297_def req_298_def req_299_def
  req_300_def req_301_def req_302_def req_303_def req_304_def req_305_def req_306_def req_307_def req_308_def
  req_309_def req_310_def req_311_def req_312_def req_313_def req_314_def req_315_def req_316_def req_317_def
  req_318_def req_319_def req_320_def req_321_def req_322_def req_323_def req_324_def req_325_def req_326_def
  req_327_def req_328_def req_329_def req_330_def req_331_def req_332_def req_333_def req_334_def req_335_def
  req_336_def req_337_def req_338_def req_339_def req_340_def req_341_def req_342_def req_343_def req_344_def
  req_345_def req_346_def req_347_def req_348_def req_349_def

abbreviation req_jump :: "req_action jump \<Rightarrow> bool" where
  "req_jump \<equiv> jump_ok (\<lambda>n. 0 < n \<and> n < 350) (\<lambda>n. n = 348 \<or> n = 349)"

lemma req_edges_wf:
  "req_jump req_tr0"
  "req_jump req_tr4"
  "req_jump req_tr6"
  "req_jump req_tr37"
  "req_jump req_tr44"
  "req_jump req_tr47"
  "req_jump req_tr54"
  "req_jump req_tr58"
  "req_jump req_tr13"
  "req_jump req_tr21"
  "req_jump req_tr30"
  "req_jump req_tr33"
  "req_jump req_tr23"
  "req_jump req_tr27"
  "req_jump req_tr29"
  "req_jump req_tr28"
  "req_jump req_tr22"
  "req_jump req_tr31"
  "req_jump req_tr34"
  "req_jump req_tr24"
  "req_jump req_tr36"
  "req_jump req_tr25"
  "req_jump req_tr7"
  "req_jump req_tr8"
  "req_jump req_tr39"
  "req_jump req_tr55"
  "req_jump req_tr59"
  "req_jump req_tr43"
  "req_jump req_tr45"
  "req_jump req_tr9"
  "req_jump req_tr203"
  "req_jump req_tr204"
  "req_jump req_tr11"
  "req_jump req_tr42"
  "req_jump req_tr53"
  "req_jump req_tr56"
  "req_jump req_tr10"
  "req_jump req_tr12"
  "req_jump req_tr2"
  "req_jump req_tr224"
  "req_jump req_tr227"
  "req_jump req_tr235"
  "req_jump req_tr3"
  "req_jump req_tr228"
  "req_jump req_tr232"
  by (simp_all add: req_edges)

lemma req_lo_wf: "\<forall>f \<in> set (req_states_lo r). \<forall>c. req_jump (f c)"
  unfolding req_states_lo_def Let_def req_defs_lo list.set ball_simps
  by (intro conjI allI TrueI jump_ok_if req_edges_wf; simp)

lemma req_hi_wf: "\<forall>f \<in> set (req_states_hi r). \<forall>c. req_jump (f c)"
  unfolding req_states_hi_def Let_def req_defs_hi list.set ball_simps
  by (intro conjI allI TrueI jump_ok_if req_edges_wf; simp)

lemma req_delta_wf: "0 < cs \<Longrightarrow> cs < 350 \<Longrightarrow> req_jump (req_delta r cs c)"
proof -
  have "length (req_states_lo r) = 173" "length (req_states_hi r) = 176"
    by (simp_all add: req_states_lo_def req_states_hi_def Let_def)
  moreover assume "0 < cs" "cs < 350"
  ultimately show ?thesis using req_lo_wf [of r] req_hi_wf [of r] by (auto simp: req_delta_def)
qed

section \<open>Positions\<close>

text \<open>Before the character at \<open>p\<close>, in a buffer of \<open>pe\<close> characters.\<close>

definition in_bounds :: "nat \<Rightarrow> nat \<Rightarrow> http_parser \<Rightarrow> bool" where
  "in_bounds pe p h \<longleftrightarrow> hp_mark h < pe \<and> hp_field_start h < pe \<and> hp_mark h \<le> p \<and> hp_field_start h \<le> p \<and>
     hp_field_len h \<le> pe \<and> hp_body_start h \<le> pe"

text \<open>An action keeps the bounds and leaves the state of the machine and the count to http\_parser\_execute.\<close>

definition kept :: "nat \<Rightarrow> http_parser \<Rightarrow> nat \<Rightarrow> http_parser \<times> req_call list \<Rightarrow> bool" where
  "kept pe h0 p s \<longleftrightarrow> in_bounds pe p (fst s) \<and> hp_cs (fst s) = hp_cs h0 \<and> hp_nread (fst s) = hp_nread h0"

lemma req_act_kept: "kept pe h0 p s \<Longrightarrow> p < pe \<Longrightarrow> pe < 2 ^ 64 \<Longrightarrow> kept pe h0 p (req_act pe p a s)"
  by (cases a; cases s) (auto simp: kept_def in_bounds_def LEN_le)

lemma kept_step: "kept pe h0 p s \<Longrightarrow> p < pe \<Longrightarrow> kept pe h0 (Suc p) s"
  by (simp add: kept_def in_bounds_def)



end
