(* ===== verification/ResponseMachine.thy ===== *)
theory ResponseMachine
  imports RequestMachine
begin

text \<open>
  The actions of the machine in exhy/http/httpclient_parser.cpp, its state (httpclient_parser.h), and strtol,
  which reads the numbers of a head.
\<close>

section \<open>strtol\<close>

definition is_space :: "char \<Rightarrow> bool" where
  "is_space c \<longleftrightarrow> (let n = (of_char c :: nat) in n = 32 \<or> 9 \<le> n \<and> n \<le> 13)"

text \<open>The value of a digit in a base up to 36, and 99 of any other character.\<close>

definition digit_of :: "char \<Rightarrow> nat" where
  "digit_of c =
     (let n = of_char c in
      if 48 \<le> n \<and> n \<le> 57 then n - 48
      else if 97 \<le> n \<and> n \<le> 122 then n - 87
      else if 65 \<le> n \<and> n \<le> 90 then n - 55
      else 99)"

definition based :: "nat \<Rightarrow> string \<Rightarrow> nat" where
  "based b s = foldl (\<lambda>n c. b * n + digit_of c) 0 (takeWhile (\<lambda>c. digit_of c < b) s)"

text \<open>Blanks, a sign, 0x for base 16, digits; the result is cut off at the ends of \<open>long\<close>.\<close>

definition strtol :: "nat \<Rightarrow> string \<Rightarrow> int" where
  "strtol b s =
     (let s1 = dropWhile is_space (cstr s);
          neg = (s1 \<noteq> [] \<and> hd s1 = CHR ''-'');
          s2 = (if s1 \<noteq> [] \<and> (hd s1 = CHR ''-'' \<or> hd s1 = CHR ''+'') then tl s1 else s1);
          s3 = (if b = 16 \<and> (take 2 s2 = ''0x'' \<or> take 2 s2 = ''0X'') then drop 2 s2 else s2);
          n = int (based b s3)
      in if neg then max (- (2 ^ 63)) (- n) else min (2 ^ 63 - 1) n)"

text \<open>The conversion of a \<open>long\<close> to \<open>int\<close>.\<close>

definition long_to_int :: "int \<Rightarrow> int" where
  "long_to_int n = sint (word_of_int n :: u32)"

definition atoi :: "string \<Rightarrow> int" where
  "atoi s = long_to_int (strtol 10 s)"

section \<open>Actions\<close>

datatype rsp_action =
    RMark | RStartField | RWriteField | RStartValue | WriteContentLen | WriteConnectionClose | RWriteValue
  | ReasonPhrase | StatusCode | RHttpVersion | ChunkSize | TransChunked | RDone

datatype rsp_call =
    OnReason nat nat | OnStatus nat nat | OnChunk nat nat | OnRVersion nat nat | OnRHeaderDone nat nat
  | OnLastChunk nat nat | OnRField nat nat nat nat

record httpclient_parser =
  cp_cs :: nat
  cp_body_start :: nat
  cp_content_len :: int
  cp_status :: int
  cp_chunked :: bool
  cp_chunks_done :: bool
  cp_close :: bool
  cp_nread :: nat
  cp_mark :: nat
  cp_field_start :: nat
  cp_field_len :: nat

text \<open>The actions at the position \<open>p\<close> of the buffer, which ends with a NUL. All callbacks are set.\<close>

fun rsp_act :: "string \<Rightarrow> nat \<Rightarrow> rsp_action \<Rightarrow> httpclient_parser \<times> rsp_call list \<Rightarrow> httpclient_parser \<times> rsp_call list" where
  "rsp_act buf p RMark (h, cs) = (h\<lparr>cp_mark := p\<rparr>, cs)"
| "rsp_act buf p RStartField (h, cs) = (h\<lparr>cp_field_start := p\<rparr>, cs)"
| "rsp_act buf p RWriteField (h, cs) = (h\<lparr>cp_field_len := LEN (cp_field_start h) p\<rparr>, cs)"
| "rsp_act buf p RStartValue (h, cs) = (h\<lparr>cp_mark := p\<rparr>, cs)"
| "rsp_act buf p WriteContentLen (h, cs) = (h\<lparr>cp_content_len := long_to_int (strtol 10 (drop (cp_mark h) buf))\<rparr>, cs)"
| "rsp_act buf p WriteConnectionClose (h, cs) = (h\<lparr>cp_close := True\<rparr>, cs)"
| "rsp_act buf p RWriteValue (h, cs) =
     (h, cs @ [OnRField (cp_field_start h) (cp_field_len h) (cp_mark h) (LEN (cp_mark h) p)])"
| "rsp_act buf p ReasonPhrase (h, cs) = (h, cs @ [OnReason (cp_mark h) (LEN (cp_mark h) p)])"
| "rsp_act buf p StatusCode (h, cs) =
     (h\<lparr>cp_status := long_to_int (strtol 10 (drop (cp_mark h) buf))\<rparr>, cs @ [OnStatus (cp_mark h) (LEN (cp_mark h) p)])"
| "rsp_act buf p RHttpVersion (h, cs) = (h, cs @ [OnRVersion (cp_mark h) (LEN (cp_mark h) p)])"
| "rsp_act buf p ChunkSize (h, cs) =
     (let n = long_to_int (strtol 16 (drop (cp_mark h) buf));
          h1 = h\<lparr>cp_chunked := True, cp_content_len := n, cp_chunks_done := (n \<le> 0)\<rparr>
      in (h1, cs @ [if cp_chunks_done h1 then OnLastChunk (cp_mark h) (LEN (cp_mark h) p)
                    else OnChunk (cp_mark h) (LEN (cp_mark h) p)]))"
| "rsp_act buf p TransChunked (h, cs) = (h\<lparr>cp_chunked := True\<rparr>, cs)"
| "rsp_act buf p RDone (h, cs) =
     (h\<lparr>cp_body_start := p + 1\<rparr>, cs @ [OnRHeaderDone (p + 1) (length buf - p - 1)])"

end
