(* ===== verification/ResponseStates.thy ===== *)
theory ResponseStates
  imports ResponseMachine
begin

text \<open>
  The machine in exhy/http/httpclient_parser.cpp, one definition per label \<open>case n:\<close> and per block \<open>trn:\<close>: the
  header of a chunk with its extensions (2 to 7), the status line (8 to 19), the header lines (20 to 24), and
  the lines connection: close (25 to 43), transfer-encoding: chunked (44 to 88) and content-length (101 to 119), which the
  machine follows letter by letter beside the line of any other name. Four states are final.
\<close>

section \<open>Edges with actions\<close>

definition rsp_tr0 :: "rsp_action jump" where
  "rsp_tr0 = Tr [RMark] 2"

definition rsp_tr3 :: "rsp_action jump" where
  "rsp_tr3 = Stop [ChunkSize, RDone] 120"

definition rsp_tr7 :: "rsp_action jump" where
  "rsp_tr7 = Stop [RDone] 120"

definition rsp_tr9 :: "rsp_action jump" where
  "rsp_tr9 = Stop [RWriteField, RStartValue, RWriteValue, RDone] 120"

definition rsp_tr15 :: "rsp_action jump" where
  "rsp_tr15 = Stop [RWriteValue, RDone] 120"

definition rsp_tr74 :: "rsp_action jump" where
  "rsp_tr74 = Stop [WriteConnectionClose, RDone] 120"

definition rsp_tr4 :: "rsp_action jump" where
  "rsp_tr4 = Tr [ChunkSize] 3"

definition rsp_tr10 :: "rsp_action jump" where
  "rsp_tr10 = Tr [RWriteField, RStartValue, RWriteValue] 3"

definition rsp_tr16 :: "rsp_action jump" where
  "rsp_tr16 = Tr [RWriteValue] 3"

definition rsp_tr75 :: "rsp_action jump" where
  "rsp_tr75 = Tr [WriteConnectionClose] 3"

definition rsp_tr6 :: "rsp_action jump" where
  "rsp_tr6 = Tr [ChunkSize] 4"

definition rsp_tr12 :: "rsp_action jump" where
  "rsp_tr12 = Tr [RWriteField, RStartValue, RWriteValue] 4"

definition rsp_tr18 :: "rsp_action jump" where
  "rsp_tr18 = Tr [RWriteValue] 4"

definition rsp_tr8 :: "rsp_action jump" where
  "rsp_tr8 = Tr [RStartField] 5"

definition rsp_tr13 :: "rsp_action jump" where
  "rsp_tr13 = Tr [RWriteField, RStartValue] 6"

definition rsp_tr14 :: "rsp_action jump" where
  "rsp_tr14 = Tr [RStartValue] 7"

definition rsp_tr2 :: "rsp_action jump" where
  "rsp_tr2 = Tr [RMark] 8"

definition rsp_tr26 :: "rsp_action jump" where
  "rsp_tr26 = Tr [RHttpVersion] 16"

definition rsp_tr27 :: "rsp_action jump" where
  "rsp_tr27 = Tr [RMark] 17"

definition rsp_tr28 :: "rsp_action jump" where
  "rsp_tr28 = Tr [StatusCode] 18"

definition rsp_tr30 :: "rsp_action jump" where
  "rsp_tr30 = Tr [RMark] 19"

definition rsp_tr45 :: "rsp_action jump" where
  "rsp_tr45 = Tr [RWriteValue] 20"

definition rsp_tr32 :: "rsp_action jump" where
  "rsp_tr32 = Tr [ReasonPhrase] 20"

definition rsp_tr42 :: "rsp_action jump" where
  "rsp_tr42 = Tr [RStartValue, RWriteValue] 20"

definition rsp_tr111 :: "rsp_action jump" where
  "rsp_tr111 = Tr [RWriteValue, TransChunked] 20"

definition rsp_tr113 :: "rsp_action jump" where
  "rsp_tr113 = Tr [TransChunked] 20"

definition rsp_tr158 :: "rsp_action jump" where
  "rsp_tr158 = Tr [WriteContentLen, RWriteValue] 20"

definition rsp_tr35 :: "rsp_action jump" where
  "rsp_tr35 = Tr [RStartField] 21"

definition rsp_tr76 :: "rsp_action jump" where
  "rsp_tr76 = Tr [WriteConnectionClose, RStartField] 21"

definition rsp_tr41 :: "rsp_action jump" where
  "rsp_tr41 = Tr [RStartValue] 22"

definition rsp_tr39 :: "rsp_action jump" where
  "rsp_tr39 = Tr [RWriteField] 22"

definition rsp_tr40 :: "rsp_action jump" where
  "rsp_tr40 = Tr [RStartValue] 23"

definition rsp_tr46 :: "rsp_action jump" where
  "rsp_tr46 = Tr [RWriteValue] 24"

definition rsp_tr33 :: "rsp_action jump" where
  "rsp_tr33 = Tr [ReasonPhrase] 24"

definition rsp_tr43 :: "rsp_action jump" where
  "rsp_tr43 = Tr [RStartValue, RWriteValue] 24"

definition rsp_tr159 :: "rsp_action jump" where
  "rsp_tr159 = Tr [WriteContentLen, RWriteValue] 24"

definition rsp_tr36 :: "rsp_action jump" where
  "rsp_tr36 = Tr [RStartField] 25"

definition rsp_tr77 :: "rsp_action jump" where
  "rsp_tr77 = Tr [WriteConnectionClose, RStartField] 25"

definition rsp_tr59 :: "rsp_action jump" where
  "rsp_tr59 = Tr [RStartValue] 35"

definition rsp_tr58 :: "rsp_action jump" where
  "rsp_tr58 = Tr [RWriteField] 35"

definition rsp_tr60 :: "rsp_action jump" where
  "rsp_tr60 = Tr [RStartValue, RWriteValue] 36"

definition rsp_tr136 :: "rsp_action jump" where
  "rsp_tr136 = Tr [RWriteValue] 43"

definition rsp_tr37 :: "rsp_action jump" where
  "rsp_tr37 = Tr [RStartField] 44"

definition rsp_tr78 :: "rsp_action jump" where
  "rsp_tr78 = Tr [WriteConnectionClose, RStartField] 44"

definition rsp_tr96 :: "rsp_action jump" where
  "rsp_tr96 = Tr [RStartValue] 61"

definition rsp_tr95 :: "rsp_action jump" where
  "rsp_tr95 = Tr [RWriteField] 61"

definition rsp_tr97 :: "rsp_action jump" where
  "rsp_tr97 = Tr [RStartValue, RWriteValue] 62"

definition rsp_tr104 :: "rsp_action jump" where
  "rsp_tr104 = Tr [RStartValue] 64"

definition rsp_tr112 :: "rsp_action jump" where
  "rsp_tr112 = Tr [RWriteValue] 71"

definition rsp_tr101 :: "rsp_action jump" where
  "rsp_tr101 = Stop [RDone] 121"

definition rsp_tr103 :: "rsp_action jump" where
  "rsp_tr103 = Tr [RStartValue, RStartField] 73"

definition rsp_tr98 :: "rsp_action jump" where
  "rsp_tr98 = Tr [RStartValue, RWriteValue] 80"

definition rsp_tr99 :: "rsp_action jump" where
  "rsp_tr99 = Tr [RStartValue] 81"

definition rsp_tr137 :: "rsp_action jump" where
  "rsp_tr137 = Tr [RWriteValue] 88"

definition rsp_tr64 :: "rsp_action jump" where
  "rsp_tr64 = Stop [RDone] 122"

definition rsp_tr66 :: "rsp_action jump" where
  "rsp_tr66 = Tr [RStartField] 90"

definition rsp_tr61 :: "rsp_action jump" where
  "rsp_tr61 = Tr [RStartValue, RWriteValue] 95"

definition rsp_tr62 :: "rsp_action jump" where
  "rsp_tr62 = Tr [RStartValue] 96"

definition rsp_tr149 :: "rsp_action jump" where
  "rsp_tr149 = Tr [RStartValue] 112"

definition rsp_tr148 :: "rsp_action jump" where
  "rsp_tr148 = Tr [RWriteField] 112"

definition rsp_tr150 :: "rsp_action jump" where
  "rsp_tr150 = Tr [RStartValue, RWriteValue] 113"

definition rsp_tr157 :: "rsp_action jump" where
  "rsp_tr157 = Tr [RStartValue] 115"

definition rsp_tr154 :: "rsp_action jump" where
  "rsp_tr154 = Stop [RDone] 123"

definition rsp_tr156 :: "rsp_action jump" where
  "rsp_tr156 = Tr [RStartValue, RStartField] 117"

definition rsp_tr151 :: "rsp_action jump" where
  "rsp_tr151 = Tr [RStartValue, RWriteValue] 118"

definition rsp_tr152 :: "rsp_action jump" where
  "rsp_tr152 = Tr [RStartValue] 119"

section \<open>States\<close>

definition rsp_1 :: "int \<Rightarrow> rsp_action jump" where
  "rsp_1 c =
     (if c = 72 then rsp_tr2
      else if c < 65 then (if 48 \<le> c \<and> c \<le> 57 then rsp_tr0 else St 0)
      else if 70 < c then (if 97 \<le> c \<and> c \<le> 102 then rsp_tr0 else St 0)
      else rsp_tr0)"

definition rsp_2 :: "int \<Rightarrow> rsp_action jump" where
  "rsp_2 c =
     (if c = 10 then rsp_tr3
      else if c = 13 then rsp_tr4
      else if c = 59 then rsp_tr6
      else if c < 65 then (if 48 \<le> c \<and> c \<le> 57 then St 2 else St 0)
      else if 70 < c then (if 97 \<le> c \<and> c \<le> 102 then St 2 else St 0)
      else St 2)"

definition rsp_3 :: "int \<Rightarrow> rsp_action jump" where
  "rsp_3 c = (if c = 10 then rsp_tr7 else St 0)"

definition rsp_4 :: "int \<Rightarrow> rsp_action jump" where
  "rsp_4 c =
     (if c \<in> {33, 124, 126} then rsp_tr8
      else if c < 45 then
        (if 39 < c then (if 42 \<le> c \<and> c \<le> 43 then rsp_tr8 else St 0)
         else if 35 \<le> c then rsp_tr8
         else St 0)
      else if 46 < c then
        (if c < 65 then (if 48 \<le> c \<and> c \<le> 57 then rsp_tr8 else St 0)
         else if 90 < c then (if 94 \<le> c \<and> c \<le> 122 then rsp_tr8 else St 0)
         else rsp_tr8)
      else rsp_tr8)"

definition rsp_5 :: "int \<Rightarrow> rsp_action jump" where
  "rsp_5 c =
     (if c = 10 then rsp_tr9
      else if c = 13 then rsp_tr10
      else if c \<in> {33, 124, 126} then St 5
      else if c = 59 then rsp_tr12
      else if c = 61 then rsp_tr13
      else if c < 45 then
        (if 39 < c then (if 42 \<le> c \<and> c \<le> 43 then St 5 else St 0)
         else if 35 \<le> c then St 5
         else St 0)
      else if 46 < c then
        (if c < 65 then (if 48 \<le> c \<and> c \<le> 57 then St 5 else St 0)
         else if 90 < c then (if 94 \<le> c \<and> c \<le> 122 then St 5 else St 0)
         else St 5)
      else St 5)"

definition rsp_6 :: "int \<Rightarrow> rsp_action jump" where
  "rsp_6 c =
     (if c \<in> {33, 124, 126} then rsp_tr14
      else if c < 45 then
        (if 39 < c then (if 42 \<le> c \<and> c \<le> 43 then rsp_tr14 else St 0)
         else if 35 \<le> c then rsp_tr14
         else St 0)
      else if 46 < c then
        (if c < 65 then (if 48 \<le> c \<and> c \<le> 57 then rsp_tr14 else St 0)
         else if 90 < c then (if 94 \<le> c \<and> c \<le> 122 then rsp_tr14 else St 0)
         else rsp_tr14)
      else rsp_tr14)"

definition rsp_7 :: "int \<Rightarrow> rsp_action jump" where
  "rsp_7 c =
     (if c = 10 then rsp_tr15
      else if c = 13 then rsp_tr16
      else if c \<in> {33, 124, 126} then St 7
      else if c = 59 then rsp_tr18
      else if c < 45 then
        (if 39 < c then (if 42 \<le> c \<and> c \<le> 43 then St 7 else St 0)
         else if 35 \<le> c then St 7
         else St 0)
      else if 46 < c then
        (if c < 65 then (if 48 \<le> c \<and> c \<le> 57 then St 7 else St 0)
         else if 90 < c then (if 94 \<le> c \<and> c \<le> 122 then St 7 else St 0)
         else St 7)
      else St 7)"

definition rsp_8 :: "int \<Rightarrow> rsp_action jump" where
  "rsp_8 c = (if c = 84 then St 9 else St 0)"

definition rsp_9 :: "int \<Rightarrow> rsp_action jump" where
  "rsp_9 c = (if c = 84 then St 10 else St 0)"

definition rsp_10 :: "int \<Rightarrow> rsp_action jump" where
  "rsp_10 c = (if c = 80 then St 11 else St 0)"

definition rsp_11 :: "int \<Rightarrow> rsp_action jump" where
  "rsp_11 c = (if c = 47 then St 12 else St 0)"

definition rsp_12 :: "int \<Rightarrow> rsp_action jump" where
  "rsp_12 c = (if 48 \<le> c \<and> c \<le> 57 then St 13 else St 0)"

definition rsp_13 :: "int \<Rightarrow> rsp_action jump" where
  "rsp_13 c = (if c = 46 then St 14 else if 48 \<le> c \<and> c \<le> 57 then St 13 else St 0)"

definition rsp_14 :: "int \<Rightarrow> rsp_action jump" where
  "rsp_14 c = (if 48 \<le> c \<and> c \<le> 57 then St 15 else St 0)"

definition rsp_15 :: "int \<Rightarrow> rsp_action jump" where
  "rsp_15 c = (if c = 32 then rsp_tr26 else if 48 \<le> c \<and> c \<le> 57 then St 15 else St 0)"

definition rsp_16 :: "int \<Rightarrow> rsp_action jump" where
  "rsp_16 c = (if 48 \<le> c \<and> c \<le> 57 then rsp_tr27 else St 0)"

definition rsp_17 :: "int \<Rightarrow> rsp_action jump" where
  "rsp_17 c = (if c = 32 then rsp_tr28 else if 48 \<le> c \<and> c \<le> 57 then St 17 else St 0)"

definition rsp_18 :: "int \<Rightarrow> rsp_action jump" where
  "rsp_18 c = (if c = 10 then St 0 else rsp_tr30)"

definition rsp_19 :: "int \<Rightarrow> rsp_action jump" where
  "rsp_19 c = (if c = 10 then rsp_tr32 else if c = 13 then rsp_tr33 else St 19)"

definition rsp_20 :: "int \<Rightarrow> rsp_action jump" where
  "rsp_20 c =
     (if c = 10 then rsp_tr7
      else if c = 13 then St 3
      else if c \<in> {33, 124, 126} then rsp_tr35
      else if c \<in> {67, 99} then rsp_tr36
      else if c \<in> {84, 116} then rsp_tr37
      else if c < 45 then
        (if 39 < c then (if 42 \<le> c \<and> c \<le> 43 then rsp_tr35 else St 0)
         else if 35 \<le> c then rsp_tr35
         else St 0)
      else if 46 < c then
        (if c < 65 then (if 48 \<le> c \<and> c \<le> 57 then rsp_tr35 else St 0)
         else if 90 < c then (if 94 \<le> c \<and> c \<le> 122 then rsp_tr35 else St 0)
         else rsp_tr35)
      else rsp_tr35)"

definition rsp_21 :: "int \<Rightarrow> rsp_action jump" where
  "rsp_21 c =
     (if c \<in> {33, 124, 126} then St 21
      else if c = 58 then rsp_tr39
      else if c < 45 then
        (if 39 < c then (if 42 \<le> c \<and> c \<le> 43 then St 21 else St 0)
         else if 35 \<le> c then St 21
         else St 0)
      else if 46 < c then
        (if c < 65 then (if 48 \<le> c \<and> c \<le> 57 then St 21 else St 0)
         else if 90 < c then (if 94 \<le> c \<and> c \<le> 122 then St 21 else St 0)
         else St 21)
      else St 21)"

definition rsp_22 :: "int \<Rightarrow> rsp_action jump" where
  "rsp_22 c =
     (if c = 10 then rsp_tr42
      else if c = 13 then rsp_tr43
      else if c = 32 then rsp_tr41
      else if 9 \<le> c \<and> c \<le> 12 then rsp_tr41
      else rsp_tr40)"

definition rsp_23 :: "int \<Rightarrow> rsp_action jump" where
  "rsp_23 c = (if c = 10 then rsp_tr45 else if c = 13 then rsp_tr46 else St 23)"

definition rsp_24 :: "int \<Rightarrow> rsp_action jump" where
  "rsp_24 c = (if c = 10 then St 20 else St 0)"

definition rsp_25 :: "int \<Rightarrow> rsp_action jump" where
  "rsp_25 c =
     (if c \<in> {33, 124, 126} then St 21
      else if c = 58 then rsp_tr39
      else if c \<in> {79, 111} then St 26
      else if c < 45 then
        (if 39 < c then (if 42 \<le> c \<and> c \<le> 43 then St 21 else St 0)
         else if 35 \<le> c then St 21
         else St 0)
      else if 46 < c then
        (if c < 65 then (if 48 \<le> c \<and> c \<le> 57 then St 21 else St 0)
         else if 90 < c then (if 94 \<le> c \<and> c \<le> 122 then St 21 else St 0)
         else St 21)
      else St 21)"

definition rsp_26 :: "int \<Rightarrow> rsp_action jump" where
  "rsp_26 c =
     (if c \<in> {33, 124, 126} then St 21
      else if c = 58 then rsp_tr39
      else if c \<in> {78, 110} then St 27
      else if c < 45 then
        (if 39 < c then (if 42 \<le> c \<and> c \<le> 43 then St 21 else St 0)
         else if 35 \<le> c then St 21
         else St 0)
      else if 46 < c then
        (if c < 65 then (if 48 \<le> c \<and> c \<le> 57 then St 21 else St 0)
         else if 90 < c then (if 94 \<le> c \<and> c \<le> 122 then St 21 else St 0)
         else St 21)
      else St 21)"

definition rsp_27 :: "int \<Rightarrow> rsp_action jump" where
  "rsp_27 c =
     (if c \<in> {33, 124, 126} then St 21
      else if c = 58 then rsp_tr39
      else if c \<in> {78, 110} then St 28
      else if c \<in> {84, 116} then St 101
      else if c < 45 then
        (if 39 < c then (if 42 \<le> c \<and> c \<le> 43 then St 21 else St 0)
         else if 35 \<le> c then St 21
         else St 0)
      else if 46 < c then
        (if c < 65 then (if 48 \<le> c \<and> c \<le> 57 then St 21 else St 0)
         else if 90 < c then (if 94 \<le> c \<and> c \<le> 122 then St 21 else St 0)
         else St 21)
      else St 21)"

definition rsp_28 :: "int \<Rightarrow> rsp_action jump" where
  "rsp_28 c =
     (if c \<in> {33, 124, 126} then St 21
      else if c = 58 then rsp_tr39
      else if c \<in> {69, 101} then St 29
      else if c < 45 then
        (if 39 < c then (if 42 \<le> c \<and> c \<le> 43 then St 21 else St 0)
         else if 35 \<le> c then St 21
         else St 0)
      else if 46 < c then
        (if c < 65 then (if 48 \<le> c \<and> c \<le> 57 then St 21 else St 0)
         else if 90 < c then (if 94 \<le> c \<and> c \<le> 122 then St 21 else St 0)
         else St 21)
      else St 21)"

definition rsp_29 :: "int \<Rightarrow> rsp_action jump" where
  "rsp_29 c =
     (if c \<in> {33, 124, 126} then St 21
      else if c = 58 then rsp_tr39
      else if c \<in> {67, 99} then St 30
      else if c < 45 then
        (if 39 < c then (if 42 \<le> c \<and> c \<le> 43 then St 21 else St 0)
         else if 35 \<le> c then St 21
         else St 0)
      else if 46 < c then
        (if c < 65 then (if 48 \<le> c \<and> c \<le> 57 then St 21 else St 0)
         else if 90 < c then (if 94 \<le> c \<and> c \<le> 122 then St 21 else St 0)
         else St 21)
      else St 21)"

definition rsp_30 :: "int \<Rightarrow> rsp_action jump" where
  "rsp_30 c =
     (if c \<in> {33, 124, 126} then St 21
      else if c = 58 then rsp_tr39
      else if c \<in> {84, 116} then St 31
      else if c < 45 then
        (if 39 < c then (if 42 \<le> c \<and> c \<le> 43 then St 21 else St 0)
         else if 35 \<le> c then St 21
         else St 0)
      else if 46 < c then
        (if c < 65 then (if 48 \<le> c \<and> c \<le> 57 then St 21 else St 0)
         else if 90 < c then (if 94 \<le> c \<and> c \<le> 122 then St 21 else St 0)
         else St 21)
      else St 21)"

definition rsp_31 :: "int \<Rightarrow> rsp_action jump" where
  "rsp_31 c =
     (if c \<in> {33, 124, 126} then St 21
      else if c = 58 then rsp_tr39
      else if c \<in> {73, 105} then St 32
      else if c < 45 then
        (if 39 < c then (if 42 \<le> c \<and> c \<le> 43 then St 21 else St 0)
         else if 35 \<le> c then St 21
         else St 0)
      else if 46 < c then
        (if c < 65 then (if 48 \<le> c \<and> c \<le> 57 then St 21 else St 0)
         else if 90 < c then (if 94 \<le> c \<and> c \<le> 122 then St 21 else St 0)
         else St 21)
      else St 21)"

definition rsp_32 :: "int \<Rightarrow> rsp_action jump" where
  "rsp_32 c =
     (if c \<in> {33, 124, 126} then St 21
      else if c = 58 then rsp_tr39
      else if c \<in> {79, 111} then St 33
      else if c < 45 then
        (if 39 < c then (if 42 \<le> c \<and> c \<le> 43 then St 21 else St 0)
         else if 35 \<le> c then St 21
         else St 0)
      else if 46 < c then
        (if c < 65 then (if 48 \<le> c \<and> c \<le> 57 then St 21 else St 0)
         else if 90 < c then (if 94 \<le> c \<and> c \<le> 122 then St 21 else St 0)
         else St 21)
      else St 21)"

definition rsp_33 :: "int \<Rightarrow> rsp_action jump" where
  "rsp_33 c =
     (if c \<in> {33, 124, 126} then St 21
      else if c = 58 then rsp_tr39
      else if c \<in> {78, 110} then St 34
      else if c < 45 then
        (if 39 < c then (if 42 \<le> c \<and> c \<le> 43 then St 21 else St 0)
         else if 35 \<le> c then St 21
         else St 0)
      else if 46 < c then
        (if c < 65 then (if 48 \<le> c \<and> c \<le> 57 then St 21 else St 0)
         else if 90 < c then (if 94 \<le> c \<and> c \<le> 122 then St 21 else St 0)
         else St 21)
      else St 21)"

definition rsp_34 :: "int \<Rightarrow> rsp_action jump" where
  "rsp_34 c =
     (if c \<in> {33, 124, 126} then St 21
      else if c = 58 then rsp_tr58
      else if c < 45 then
        (if 39 < c then (if 42 \<le> c \<and> c \<le> 43 then St 21 else St 0)
         else if 35 \<le> c then St 21
         else St 0)
      else if 46 < c then
        (if c < 65 then (if 48 \<le> c \<and> c \<le> 57 then St 21 else St 0)
         else if 90 < c then (if 94 \<le> c \<and> c \<le> 122 then St 21 else St 0)
         else St 21)
      else St 21)"

definition rsp_35 :: "int \<Rightarrow> rsp_action jump" where
  "rsp_35 c =
     (if c = 10 then rsp_tr60
      else if c = 13 then rsp_tr61
      else if c = 32 then rsp_tr59
      else if c \<in> {67, 99} then rsp_tr62
      else if 9 \<le> c \<and> c \<le> 12 then rsp_tr59
      else rsp_tr40)"

definition rsp_36 :: "int \<Rightarrow> rsp_action jump" where
  "rsp_36 c =
     (if c = 10 then rsp_tr64
      else if c = 13 then St 89
      else if c = 32 then St 37
      else if c \<in> {33, 124, 126} then rsp_tr35
      else if c \<in> {67, 99} then rsp_tr66
      else if c \<in> {84, 116} then rsp_tr37
      else if c < 45 then
        (if c < 35 then (if 9 \<le> c \<and> c \<le> 12 then St 37 else St 0)
         else if 39 < c then (if 42 \<le> c \<and> c \<le> 43 then rsp_tr35 else St 0)
         else rsp_tr35)
      else if 46 < c then
        (if c < 65 then (if 48 \<le> c \<and> c \<le> 57 then rsp_tr35 else St 0)
         else if 90 < c then (if 94 \<le> c \<and> c \<le> 122 then rsp_tr35 else St 0)
         else rsp_tr35)
      else rsp_tr35)"

definition rsp_37 :: "int \<Rightarrow> rsp_action jump" where
  "rsp_37 c =
     (if c = 32 then St 37
      else if c \<in> {67, 99} then St 38
      else if 9 \<le> c \<and> c \<le> 13 then St 37
      else St 0)"

definition rsp_38 :: "int \<Rightarrow> rsp_action jump" where
  "rsp_38 c = (if c \<in> {76, 108} then St 39 else St 0)"

definition rsp_39 :: "int \<Rightarrow> rsp_action jump" where
  "rsp_39 c = (if c \<in> {79, 111} then St 40 else St 0)"

definition rsp_40 :: "int \<Rightarrow> rsp_action jump" where
  "rsp_40 c = (if c \<in> {83, 115} then St 41 else St 0)"

definition rsp_41 :: "int \<Rightarrow> rsp_action jump" where
  "rsp_41 c = (if c \<in> {69, 101} then St 42 else St 0)"

definition rsp_42 :: "int \<Rightarrow> rsp_action jump" where
  "rsp_42 c = (if c = 10 then St 43 else if c = 13 then St 88 else St 0)"

definition rsp_43 :: "int \<Rightarrow> rsp_action jump" where
  "rsp_43 c =
     (if c = 10 then rsp_tr74
      else if c = 13 then rsp_tr75
      else if c \<in> {33, 124, 126} then rsp_tr76
      else if c \<in> {67, 99} then rsp_tr77
      else if c \<in> {84, 116} then rsp_tr78
      else if c < 45 then
        (if 39 < c then (if 42 \<le> c \<and> c \<le> 43 then rsp_tr76 else St 0)
         else if 35 \<le> c then rsp_tr76
         else St 0)
      else if 46 < c then
        (if c < 65 then (if 48 \<le> c \<and> c \<le> 57 then rsp_tr76 else St 0)
         else if 90 < c then (if 94 \<le> c \<and> c \<le> 122 then rsp_tr76 else St 0)
         else rsp_tr76)
      else rsp_tr76)"

definition rsp_44 :: "int \<Rightarrow> rsp_action jump" where
  "rsp_44 c =
     (if c \<in> {33, 124, 126} then St 21
      else if c = 58 then rsp_tr39
      else if c \<in> {82, 114} then St 45
      else if c < 45 then
        (if 39 < c then (if 42 \<le> c \<and> c \<le> 43 then St 21 else St 0)
         else if 35 \<le> c then St 21
         else St 0)
      else if 46 < c then
        (if c < 65 then (if 48 \<le> c \<and> c \<le> 57 then St 21 else St 0)
         else if 90 < c then (if 94 \<le> c \<and> c \<le> 122 then St 21 else St 0)
         else St 21)
      else St 21)"

definition rsp_45 :: "int \<Rightarrow> rsp_action jump" where
  "rsp_45 c =
     (if c \<in> {33, 124, 126} then St 21
      else if c = 58 then rsp_tr39
      else if c \<in> {65, 97} then St 46
      else if c < 45 then
        (if 39 < c then (if 42 \<le> c \<and> c \<le> 43 then St 21 else St 0)
         else if 35 \<le> c then St 21
         else St 0)
      else if 46 < c then
        (if c < 66 then (if 48 \<le> c \<and> c \<le> 57 then St 21 else St 0)
         else if 90 < c then (if 94 \<le> c \<and> c \<le> 122 then St 21 else St 0)
         else St 21)
      else St 21)"

definition rsp_46 :: "int \<Rightarrow> rsp_action jump" where
  "rsp_46 c =
     (if c \<in> {33, 124, 126} then St 21
      else if c = 58 then rsp_tr39
      else if c \<in> {78, 110} then St 47
      else if c < 45 then
        (if 39 < c then (if 42 \<le> c \<and> c \<le> 43 then St 21 else St 0)
         else if 35 \<le> c then St 21
         else St 0)
      else if 46 < c then
        (if c < 65 then (if 48 \<le> c \<and> c \<le> 57 then St 21 else St 0)
         else if 90 < c then (if 94 \<le> c \<and> c \<le> 122 then St 21 else St 0)
         else St 21)
      else St 21)"

definition rsp_47 :: "int \<Rightarrow> rsp_action jump" where
  "rsp_47 c =
     (if c \<in> {33, 124, 126} then St 21
      else if c = 58 then rsp_tr39
      else if c \<in> {83, 115} then St 48
      else if c < 45 then
        (if 39 < c then (if 42 \<le> c \<and> c \<le> 43 then St 21 else St 0)
         else if 35 \<le> c then St 21
         else St 0)
      else if 46 < c then
        (if c < 65 then (if 48 \<le> c \<and> c \<le> 57 then St 21 else St 0)
         else if 90 < c then (if 94 \<le> c \<and> c \<le> 122 then St 21 else St 0)
         else St 21)
      else St 21)"

definition rsp_48 :: "int \<Rightarrow> rsp_action jump" where
  "rsp_48 c =
     (if c \<in> {33, 124, 126} then St 21
      else if c = 58 then rsp_tr39
      else if c \<in> {70, 102} then St 49
      else if c < 45 then
        (if 39 < c then (if 42 \<le> c \<and> c \<le> 43 then St 21 else St 0)
         else if 35 \<le> c then St 21
         else St 0)
      else if 46 < c then
        (if c < 65 then (if 48 \<le> c \<and> c \<le> 57 then St 21 else St 0)
         else if 90 < c then (if 94 \<le> c \<and> c \<le> 122 then St 21 else St 0)
         else St 21)
      else St 21)"

definition rsp_49 :: "int \<Rightarrow> rsp_action jump" where
  "rsp_49 c =
     (if c \<in> {33, 124, 126} then St 21
      else if c = 58 then rsp_tr39
      else if c \<in> {69, 101} then St 50
      else if c < 45 then
        (if 39 < c then (if 42 \<le> c \<and> c \<le> 43 then St 21 else St 0)
         else if 35 \<le> c then St 21
         else St 0)
      else if 46 < c then
        (if c < 65 then (if 48 \<le> c \<and> c \<le> 57 then St 21 else St 0)
         else if 90 < c then (if 94 \<le> c \<and> c \<le> 122 then St 21 else St 0)
         else St 21)
      else St 21)"

definition rsp_50 :: "int \<Rightarrow> rsp_action jump" where
  "rsp_50 c =
     (if c \<in> {33, 124, 126} then St 21
      else if c = 58 then rsp_tr39
      else if c \<in> {82, 114} then St 51
      else if c < 45 then
        (if 39 < c then (if 42 \<le> c \<and> c \<le> 43 then St 21 else St 0)
         else if 35 \<le> c then St 21
         else St 0)
      else if 46 < c then
        (if c < 65 then (if 48 \<le> c \<and> c \<le> 57 then St 21 else St 0)
         else if 90 < c then (if 94 \<le> c \<and> c \<le> 122 then St 21 else St 0)
         else St 21)
      else St 21)"

definition rsp_51 :: "int \<Rightarrow> rsp_action jump" where
  "rsp_51 c =
     (if c \<in> {33, 46, 124, 126} then St 21
      else if c = 45 then St 52
      else if c = 58 then rsp_tr39
      else if c < 48 then
        (if 39 < c then (if 42 \<le> c \<and> c \<le> 43 then St 21 else St 0)
         else if 35 \<le> c then St 21
         else St 0)
      else if 57 < c then
        (if 90 < c then (if 94 \<le> c \<and> c \<le> 122 then St 21 else St 0)
         else if 65 \<le> c then St 21
         else St 0)
      else St 21)"

definition rsp_52 :: "int \<Rightarrow> rsp_action jump" where
  "rsp_52 c =
     (if c \<in> {33, 124, 126} then St 21
      else if c = 58 then rsp_tr39
      else if c \<in> {69, 101} then St 53
      else if c < 45 then
        (if 39 < c then (if 42 \<le> c \<and> c \<le> 43 then St 21 else St 0)
         else if 35 \<le> c then St 21
         else St 0)
      else if 46 < c then
        (if c < 65 then (if 48 \<le> c \<and> c \<le> 57 then St 21 else St 0)
         else if 90 < c then (if 94 \<le> c \<and> c \<le> 122 then St 21 else St 0)
         else St 21)
      else St 21)"

definition rsp_53 :: "int \<Rightarrow> rsp_action jump" where
  "rsp_53 c =
     (if c \<in> {33, 124, 126} then St 21
      else if c = 58 then rsp_tr39
      else if c \<in> {78, 110} then St 54
      else if c < 45 then
        (if 39 < c then (if 42 \<le> c \<and> c \<le> 43 then St 21 else St 0)
         else if 35 \<le> c then St 21
         else St 0)
      else if 46 < c then
        (if c < 65 then (if 48 \<le> c \<and> c \<le> 57 then St 21 else St 0)
         else if 90 < c then (if 94 \<le> c \<and> c \<le> 122 then St 21 else St 0)
         else St 21)
      else St 21)"

definition rsp_54 :: "int \<Rightarrow> rsp_action jump" where
  "rsp_54 c =
     (if c \<in> {33, 124, 126} then St 21
      else if c = 58 then rsp_tr39
      else if c \<in> {67, 99} then St 55
      else if c < 45 then
        (if 39 < c then (if 42 \<le> c \<and> c \<le> 43 then St 21 else St 0)
         else if 35 \<le> c then St 21
         else St 0)
      else if 46 < c then
        (if c < 65 then (if 48 \<le> c \<and> c \<le> 57 then St 21 else St 0)
         else if 90 < c then (if 94 \<le> c \<and> c \<le> 122 then St 21 else St 0)
         else St 21)
      else St 21)"

definition rsp_55 :: "int \<Rightarrow> rsp_action jump" where
  "rsp_55 c =
     (if c \<in> {33, 124, 126} then St 21
      else if c = 58 then rsp_tr39
      else if c \<in> {79, 111} then St 56
      else if c < 45 then
        (if 39 < c then (if 42 \<le> c \<and> c \<le> 43 then St 21 else St 0)
         else if 35 \<le> c then St 21
         else St 0)
      else if 46 < c then
        (if c < 65 then (if 48 \<le> c \<and> c \<le> 57 then St 21 else St 0)
         else if 90 < c then (if 94 \<le> c \<and> c \<le> 122 then St 21 else St 0)
         else St 21)
      else St 21)"

definition rsp_56 :: "int \<Rightarrow> rsp_action jump" where
  "rsp_56 c =
     (if c \<in> {33, 124, 126} then St 21
      else if c = 58 then rsp_tr39
      else if c \<in> {68, 100} then St 57
      else if c < 45 then
        (if 39 < c then (if 42 \<le> c \<and> c \<le> 43 then St 21 else St 0)
         else if 35 \<le> c then St 21
         else St 0)
      else if 46 < c then
        (if c < 65 then (if 48 \<le> c \<and> c \<le> 57 then St 21 else St 0)
         else if 90 < c then (if 94 \<le> c \<and> c \<le> 122 then St 21 else St 0)
         else St 21)
      else St 21)"

definition rsp_57 :: "int \<Rightarrow> rsp_action jump" where
  "rsp_57 c =
     (if c \<in> {33, 124, 126} then St 21
      else if c = 58 then rsp_tr39
      else if c \<in> {73, 105} then St 58
      else if c < 45 then
        (if 39 < c then (if 42 \<le> c \<and> c \<le> 43 then St 21 else St 0)
         else if 35 \<le> c then St 21
         else St 0)
      else if 46 < c then
        (if c < 65 then (if 48 \<le> c \<and> c \<le> 57 then St 21 else St 0)
         else if 90 < c then (if 94 \<le> c \<and> c \<le> 122 then St 21 else St 0)
         else St 21)
      else St 21)"

definition rsp_58 :: "int \<Rightarrow> rsp_action jump" where
  "rsp_58 c =
     (if c \<in> {33, 124, 126} then St 21
      else if c = 58 then rsp_tr39
      else if c \<in> {78, 110} then St 59
      else if c < 45 then
        (if 39 < c then (if 42 \<le> c \<and> c \<le> 43 then St 21 else St 0)
         else if 35 \<le> c then St 21
         else St 0)
      else if 46 < c then
        (if c < 65 then (if 48 \<le> c \<and> c \<le> 57 then St 21 else St 0)
         else if 90 < c then (if 94 \<le> c \<and> c \<le> 122 then St 21 else St 0)
         else St 21)
      else St 21)"

definition rsp_59 :: "int \<Rightarrow> rsp_action jump" where
  "rsp_59 c =
     (if c \<in> {33, 124, 126} then St 21
      else if c = 58 then rsp_tr39
      else if c \<in> {71, 103} then St 60
      else if c < 45 then
        (if 39 < c then (if 42 \<le> c \<and> c \<le> 43 then St 21 else St 0)
         else if 35 \<le> c then St 21
         else St 0)
      else if 46 < c then
        (if c < 65 then (if 48 \<le> c \<and> c \<le> 57 then St 21 else St 0)
         else if 90 < c then (if 94 \<le> c \<and> c \<le> 122 then St 21 else St 0)
         else St 21)
      else St 21)"

definition rsp_60 :: "int \<Rightarrow> rsp_action jump" where
  "rsp_60 c =
     (if c \<in> {33, 124, 126} then St 21
      else if c = 58 then rsp_tr95
      else if c < 45 then
        (if 39 < c then (if 42 \<le> c \<and> c \<le> 43 then St 21 else St 0)
         else if 35 \<le> c then St 21
         else St 0)
      else if 46 < c then
        (if c < 65 then (if 48 \<le> c \<and> c \<le> 57 then St 21 else St 0)
         else if 90 < c then (if 94 \<le> c \<and> c \<le> 122 then St 21 else St 0)
         else St 21)
      else St 21)"

definition rsp_61 :: "int \<Rightarrow> rsp_action jump" where
  "rsp_61 c =
     (if c = 10 then rsp_tr97
      else if c = 13 then rsp_tr98
      else if c = 32 then rsp_tr96
      else if c \<in> {67, 99} then rsp_tr99
      else if 9 \<le> c \<and> c \<le> 12 then rsp_tr96
      else rsp_tr40)"

definition rsp_62 :: "int \<Rightarrow> rsp_action jump" where
  "rsp_62 c =
     (if c = 10 then rsp_tr101
      else if c = 13 then St 72
      else if c = 32 then St 63
      else if c \<in> {33, 124, 126} then rsp_tr35
      else if c \<in> {67, 99} then rsp_tr103
      else if c \<in> {84, 116} then rsp_tr37
      else if c < 45 then
        (if c < 35 then (if 9 \<le> c \<and> c \<le> 12 then St 63 else St 0)
         else if 39 < c then (if 42 \<le> c \<and> c \<le> 43 then rsp_tr35 else St 0)
         else rsp_tr35)
      else if 46 < c then
        (if c < 65 then (if 48 \<le> c \<and> c \<le> 57 then rsp_tr35 else St 0)
         else if 90 < c then (if 94 \<le> c \<and> c \<le> 122 then rsp_tr35 else St 0)
         else rsp_tr35)
      else rsp_tr35)"

definition rsp_63 :: "int \<Rightarrow> rsp_action jump" where
  "rsp_63 c =
     (if c = 32 then St 63
      else if c \<in> {67, 99} then rsp_tr104
      else if 9 \<le> c \<and> c \<le> 13 then St 63
      else St 0)"

definition rsp_64 :: "int \<Rightarrow> rsp_action jump" where
  "rsp_64 c = (if c \<in> {72, 104} then St 65 else St 0)"

definition rsp_65 :: "int \<Rightarrow> rsp_action jump" where
  "rsp_65 c = (if c \<in> {85, 117} then St 66 else St 0)"

definition rsp_66 :: "int \<Rightarrow> rsp_action jump" where
  "rsp_66 c = (if c \<in> {78, 110} then St 67 else St 0)"

definition rsp_67 :: "int \<Rightarrow> rsp_action jump" where
  "rsp_67 c = (if c \<in> {75, 107} then St 68 else St 0)"

definition rsp_68 :: "int \<Rightarrow> rsp_action jump" where
  "rsp_68 c = (if c \<in> {69, 101} then St 69 else St 0)"

definition rsp_69 :: "int \<Rightarrow> rsp_action jump" where
  "rsp_69 c = (if c \<in> {68, 100} then St 70 else St 0)"

definition rsp_70 :: "int \<Rightarrow> rsp_action jump" where
  "rsp_70 c = (if c = 10 then rsp_tr111 else if c = 13 then rsp_tr112 else St 0)"

definition rsp_71 :: "int \<Rightarrow> rsp_action jump" where
  "rsp_71 c = (if c = 10 then rsp_tr113 else St 0)"

definition rsp_72 :: "int \<Rightarrow> rsp_action jump" where
  "rsp_72 c =
     (if c = 10 then rsp_tr101
      else if c = 32 then St 63
      else if c \<in> {67, 99} then rsp_tr104
      else if 9 \<le> c \<and> c \<le> 13 then St 63
      else St 0)"

definition rsp_73 :: "int \<Rightarrow> rsp_action jump" where
  "rsp_73 c =
     (if c \<in> {33, 124, 126} then St 21
      else if c = 58 then rsp_tr39
      else if c \<in> {72, 104} then St 74
      else if c \<in> {79, 111} then St 26
      else if c < 45 then
        (if 39 < c then (if 42 \<le> c \<and> c \<le> 43 then St 21 else St 0)
         else if 35 \<le> c then St 21
         else St 0)
      else if 46 < c then
        (if c < 65 then (if 48 \<le> c \<and> c \<le> 57 then St 21 else St 0)
         else if 90 < c then (if 94 \<le> c \<and> c \<le> 122 then St 21 else St 0)
         else St 21)
      else St 21)"

definition rsp_74 :: "int \<Rightarrow> rsp_action jump" where
  "rsp_74 c =
     (if c \<in> {33, 124, 126} then St 21
      else if c = 58 then rsp_tr39
      else if c \<in> {85, 117} then St 75
      else if c < 45 then
        (if 39 < c then (if 42 \<le> c \<and> c \<le> 43 then St 21 else St 0)
         else if 35 \<le> c then St 21
         else St 0)
      else if 46 < c then
        (if c < 65 then (if 48 \<le> c \<and> c \<le> 57 then St 21 else St 0)
         else if 90 < c then (if 94 \<le> c \<and> c \<le> 122 then St 21 else St 0)
         else St 21)
      else St 21)"

definition rsp_75 :: "int \<Rightarrow> rsp_action jump" where
  "rsp_75 c =
     (if c \<in> {33, 124, 126} then St 21
      else if c = 58 then rsp_tr39
      else if c \<in> {78, 110} then St 76
      else if c < 45 then
        (if 39 < c then (if 42 \<le> c \<and> c \<le> 43 then St 21 else St 0)
         else if 35 \<le> c then St 21
         else St 0)
      else if 46 < c then
        (if c < 65 then (if 48 \<le> c \<and> c \<le> 57 then St 21 else St 0)
         else if 90 < c then (if 94 \<le> c \<and> c \<le> 122 then St 21 else St 0)
         else St 21)
      else St 21)"

definition rsp_76 :: "int \<Rightarrow> rsp_action jump" where
  "rsp_76 c =
     (if c \<in> {33, 124, 126} then St 21
      else if c = 58 then rsp_tr39
      else if c \<in> {75, 107} then St 77
      else if c < 45 then
        (if 39 < c then (if 42 \<le> c \<and> c \<le> 43 then St 21 else St 0)
         else if 35 \<le> c then St 21
         else St 0)
      else if 46 < c then
        (if c < 65 then (if 48 \<le> c \<and> c \<le> 57 then St 21 else St 0)
         else if 90 < c then (if 94 \<le> c \<and> c \<le> 122 then St 21 else St 0)
         else St 21)
      else St 21)"

definition rsp_77 :: "int \<Rightarrow> rsp_action jump" where
  "rsp_77 c =
     (if c \<in> {33, 124, 126} then St 21
      else if c = 58 then rsp_tr39
      else if c \<in> {69, 101} then St 78
      else if c < 45 then
        (if 39 < c then (if 42 \<le> c \<and> c \<le> 43 then St 21 else St 0)
         else if 35 \<le> c then St 21
         else St 0)
      else if 46 < c then
        (if c < 65 then (if 48 \<le> c \<and> c \<le> 57 then St 21 else St 0)
         else if 90 < c then (if 94 \<le> c \<and> c \<le> 122 then St 21 else St 0)
         else St 21)
      else St 21)"

definition rsp_78 :: "int \<Rightarrow> rsp_action jump" where
  "rsp_78 c =
     (if c \<in> {33, 124, 126} then St 21
      else if c = 58 then rsp_tr39
      else if c \<in> {68, 100} then St 79
      else if c < 45 then
        (if 39 < c then (if 42 \<le> c \<and> c \<le> 43 then St 21 else St 0)
         else if 35 \<le> c then St 21
         else St 0)
      else if 46 < c then
        (if c < 65 then (if 48 \<le> c \<and> c \<le> 57 then St 21 else St 0)
         else if 90 < c then (if 94 \<le> c \<and> c \<le> 122 then St 21 else St 0)
         else St 21)
      else St 21)"

definition rsp_79 :: "int \<Rightarrow> rsp_action jump" where
  "rsp_79 c =
     (if c = 10 then rsp_tr111
      else if c = 13 then rsp_tr112
      else if c \<in> {33, 124, 126} then St 21
      else if c = 58 then rsp_tr39
      else if c < 45 then
        (if 39 < c then (if 42 \<le> c \<and> c \<le> 43 then St 21 else St 0)
         else if 35 \<le> c then St 21
         else St 0)
      else if 46 < c then
        (if c < 65 then (if 48 \<le> c \<and> c \<le> 57 then St 21 else St 0)
         else if 90 < c then (if 94 \<le> c \<and> c \<le> 122 then St 21 else St 0)
         else St 21)
      else St 21)"

definition rsp_80 :: "int \<Rightarrow> rsp_action jump" where
  "rsp_80 c =
     (if c = 10 then St 62
      else if c = 32 then St 63
      else if c \<in> {67, 99} then rsp_tr104
      else if 9 \<le> c \<and> c \<le> 13 then St 63
      else St 0)"

definition rsp_81 :: "int \<Rightarrow> rsp_action jump" where
  "rsp_81 c =
     (if c = 10 then rsp_tr45
      else if c = 13 then rsp_tr46
      else if c \<in> {72, 104} then St 82
      else St 23)"

definition rsp_82 :: "int \<Rightarrow> rsp_action jump" where
  "rsp_82 c =
     (if c = 10 then rsp_tr45
      else if c = 13 then rsp_tr46
      else if c \<in> {85, 117} then St 83
      else St 23)"

definition rsp_83 :: "int \<Rightarrow> rsp_action jump" where
  "rsp_83 c =
     (if c = 10 then rsp_tr45
      else if c = 13 then rsp_tr46
      else if c \<in> {78, 110} then St 84
      else St 23)"

definition rsp_84 :: "int \<Rightarrow> rsp_action jump" where
  "rsp_84 c =
     (if c = 10 then rsp_tr45
      else if c = 13 then rsp_tr46
      else if c \<in> {75, 107} then St 85
      else St 23)"

definition rsp_85 :: "int \<Rightarrow> rsp_action jump" where
  "rsp_85 c =
     (if c = 10 then rsp_tr45
      else if c = 13 then rsp_tr46
      else if c \<in> {69, 101} then St 86
      else St 23)"

definition rsp_86 :: "int \<Rightarrow> rsp_action jump" where
  "rsp_86 c =
     (if c = 10 then rsp_tr45
      else if c = 13 then rsp_tr46
      else if c \<in> {68, 100} then St 87
      else St 23)"

definition rsp_87 :: "int \<Rightarrow> rsp_action jump" where
  "rsp_87 c = (if c = 10 then rsp_tr111 else if c = 13 then rsp_tr112 else St 23)"

definition rsp_88 :: "int \<Rightarrow> rsp_action jump" where
  "rsp_88 c = (if c = 10 then St 43 else St 0)"

definition rsp_89 :: "int \<Rightarrow> rsp_action jump" where
  "rsp_89 c =
     (if c = 10 then rsp_tr64
      else if c = 32 then St 37
      else if c \<in> {67, 99} then St 38
      else if 9 \<le> c \<and> c \<le> 13 then St 37
      else St 0)"

definition rsp_90 :: "int \<Rightarrow> rsp_action jump" where
  "rsp_90 c =
     (if c \<in> {33, 124, 126} then St 21
      else if c = 58 then rsp_tr39
      else if c \<in> {76, 108} then St 91
      else if c \<in> {79, 111} then St 26
      else if c < 45 then
        (if 39 < c then (if 42 \<le> c \<and> c \<le> 43 then St 21 else St 0)
         else if 35 \<le> c then St 21
         else St 0)
      else if 46 < c then
        (if c < 65 then (if 48 \<le> c \<and> c \<le> 57 then St 21 else St 0)
         else if 90 < c then (if 94 \<le> c \<and> c \<le> 122 then St 21 else St 0)
         else St 21)
      else St 21)"

definition rsp_91 :: "int \<Rightarrow> rsp_action jump" where
  "rsp_91 c =
     (if c \<in> {33, 124, 126} then St 21
      else if c = 58 then rsp_tr39
      else if c \<in> {79, 111} then St 92
      else if c < 45 then
        (if 39 < c then (if 42 \<le> c \<and> c \<le> 43 then St 21 else St 0)
         else if 35 \<le> c then St 21
         else St 0)
      else if 46 < c then
        (if c < 65 then (if 48 \<le> c \<and> c \<le> 57 then St 21 else St 0)
         else if 90 < c then (if 94 \<le> c \<and> c \<le> 122 then St 21 else St 0)
         else St 21)
      else St 21)"

definition rsp_92 :: "int \<Rightarrow> rsp_action jump" where
  "rsp_92 c =
     (if c \<in> {33, 124, 126} then St 21
      else if c = 58 then rsp_tr39
      else if c \<in> {83, 115} then St 93
      else if c < 45 then
        (if 39 < c then (if 42 \<le> c \<and> c \<le> 43 then St 21 else St 0)
         else if 35 \<le> c then St 21
         else St 0)
      else if 46 < c then
        (if c < 65 then (if 48 \<le> c \<and> c \<le> 57 then St 21 else St 0)
         else if 90 < c then (if 94 \<le> c \<and> c \<le> 122 then St 21 else St 0)
         else St 21)
      else St 21)"

definition rsp_93 :: "int \<Rightarrow> rsp_action jump" where
  "rsp_93 c =
     (if c \<in> {33, 124, 126} then St 21
      else if c = 58 then rsp_tr39
      else if c \<in> {69, 101} then St 94
      else if c < 45 then
        (if 39 < c then (if 42 \<le> c \<and> c \<le> 43 then St 21 else St 0)
         else if 35 \<le> c then St 21
         else St 0)
      else if 46 < c then
        (if c < 65 then (if 48 \<le> c \<and> c \<le> 57 then St 21 else St 0)
         else if 90 < c then (if 94 \<le> c \<and> c \<le> 122 then St 21 else St 0)
         else St 21)
      else St 21)"

definition rsp_94 :: "int \<Rightarrow> rsp_action jump" where
  "rsp_94 c =
     (if c = 10 then St 43
      else if c = 13 then St 88
      else if c \<in> {33, 124, 126} then St 21
      else if c = 58 then rsp_tr39
      else if c < 45 then
        (if 39 < c then (if 42 \<le> c \<and> c \<le> 43 then St 21 else St 0)
         else if 35 \<le> c then St 21
         else St 0)
      else if 46 < c then
        (if c < 65 then (if 48 \<le> c \<and> c \<le> 57 then St 21 else St 0)
         else if 90 < c then (if 94 \<le> c \<and> c \<le> 122 then St 21 else St 0)
         else St 21)
      else St 21)"

definition rsp_95 :: "int \<Rightarrow> rsp_action jump" where
  "rsp_95 c =
     (if c = 10 then St 36
      else if c = 32 then St 37
      else if c \<in> {67, 99} then St 38
      else if 9 \<le> c \<and> c \<le> 13 then St 37
      else St 0)"

definition rsp_96 :: "int \<Rightarrow> rsp_action jump" where
  "rsp_96 c =
     (if c = 10 then rsp_tr45
      else if c = 13 then rsp_tr46
      else if c \<in> {76, 108} then St 97
      else St 23)"

definition rsp_97 :: "int \<Rightarrow> rsp_action jump" where
  "rsp_97 c =
     (if c = 10 then rsp_tr45
      else if c = 13 then rsp_tr46
      else if c \<in> {79, 111} then St 98
      else St 23)"

definition rsp_98 :: "int \<Rightarrow> rsp_action jump" where
  "rsp_98 c =
     (if c = 10 then rsp_tr45
      else if c = 13 then rsp_tr46
      else if c \<in> {83, 115} then St 99
      else St 23)"

definition rsp_99 :: "int \<Rightarrow> rsp_action jump" where
  "rsp_99 c =
     (if c = 10 then rsp_tr45
      else if c = 13 then rsp_tr46
      else if c \<in> {69, 101} then St 100
      else St 23)"

definition rsp_100 :: "int \<Rightarrow> rsp_action jump" where
  "rsp_100 c = (if c = 10 then rsp_tr136 else if c = 13 then rsp_tr137 else St 23)"

definition rsp_101 :: "int \<Rightarrow> rsp_action jump" where
  "rsp_101 c =
     (if c \<in> {33, 124, 126} then St 21
      else if c = 58 then rsp_tr39
      else if c \<in> {69, 101} then St 102
      else if c < 45 then
        (if 39 < c then (if 42 \<le> c \<and> c \<le> 43 then St 21 else St 0)
         else if 35 \<le> c then St 21
         else St 0)
      else if 46 < c then
        (if c < 65 then (if 48 \<le> c \<and> c \<le> 57 then St 21 else St 0)
         else if 90 < c then (if 94 \<le> c \<and> c \<le> 122 then St 21 else St 0)
         else St 21)
      else St 21)"

definition rsp_102 :: "int \<Rightarrow> rsp_action jump" where
  "rsp_102 c =
     (if c \<in> {33, 124, 126} then St 21
      else if c = 58 then rsp_tr39
      else if c \<in> {78, 110} then St 103
      else if c < 45 then
        (if 39 < c then (if 42 \<le> c \<and> c \<le> 43 then St 21 else St 0)
         else if 35 \<le> c then St 21
         else St 0)
      else if 46 < c then
        (if c < 65 then (if 48 \<le> c \<and> c \<le> 57 then St 21 else St 0)
         else if 90 < c then (if 94 \<le> c \<and> c \<le> 122 then St 21 else St 0)
         else St 21)
      else St 21)"

definition rsp_103 :: "int \<Rightarrow> rsp_action jump" where
  "rsp_103 c =
     (if c \<in> {33, 124, 126} then St 21
      else if c = 58 then rsp_tr39
      else if c \<in> {84, 116} then St 104
      else if c < 45 then
        (if 39 < c then (if 42 \<le> c \<and> c \<le> 43 then St 21 else St 0)
         else if 35 \<le> c then St 21
         else St 0)
      else if 46 < c then
        (if c < 65 then (if 48 \<le> c \<and> c \<le> 57 then St 21 else St 0)
         else if 90 < c then (if 94 \<le> c \<and> c \<le> 122 then St 21 else St 0)
         else St 21)
      else St 21)"

definition rsp_104 :: "int \<Rightarrow> rsp_action jump" where
  "rsp_104 c =
     (if c \<in> {33, 46, 124, 126} then St 21
      else if c = 45 then St 105
      else if c = 58 then rsp_tr39
      else if c < 48 then
        (if 39 < c then (if 42 \<le> c \<and> c \<le> 43 then St 21 else St 0)
         else if 35 \<le> c then St 21
         else St 0)
      else if 57 < c then
        (if 90 < c then (if 94 \<le> c \<and> c \<le> 122 then St 21 else St 0)
         else if 65 \<le> c then St 21
         else St 0)
      else St 21)"

definition rsp_105 :: "int \<Rightarrow> rsp_action jump" where
  "rsp_105 c =
     (if c \<in> {33, 124, 126} then St 21
      else if c = 58 then rsp_tr39
      else if c \<in> {76, 108} then St 106
      else if c < 45 then
        (if 39 < c then (if 42 \<le> c \<and> c \<le> 43 then St 21 else St 0)
         else if 35 \<le> c then St 21
         else St 0)
      else if 46 < c then
        (if c < 65 then (if 48 \<le> c \<and> c \<le> 57 then St 21 else St 0)
         else if 90 < c then (if 94 \<le> c \<and> c \<le> 122 then St 21 else St 0)
         else St 21)
      else St 21)"

definition rsp_106 :: "int \<Rightarrow> rsp_action jump" where
  "rsp_106 c =
     (if c \<in> {33, 124, 126} then St 21
      else if c = 58 then rsp_tr39
      else if c \<in> {69, 101} then St 107
      else if c < 45 then
        (if 39 < c then (if 42 \<le> c \<and> c \<le> 43 then St 21 else St 0)
         else if 35 \<le> c then St 21
         else St 0)
      else if 46 < c then
        (if c < 65 then (if 48 \<le> c \<and> c \<le> 57 then St 21 else St 0)
         else if 90 < c then (if 94 \<le> c \<and> c \<le> 122 then St 21 else St 0)
         else St 21)
      else St 21)"

definition rsp_107 :: "int \<Rightarrow> rsp_action jump" where
  "rsp_107 c =
     (if c \<in> {33, 124, 126} then St 21
      else if c = 58 then rsp_tr39
      else if c \<in> {78, 110} then St 108
      else if c < 45 then
        (if 39 < c then (if 42 \<le> c \<and> c \<le> 43 then St 21 else St 0)
         else if 35 \<le> c then St 21
         else St 0)
      else if 46 < c then
        (if c < 65 then (if 48 \<le> c \<and> c \<le> 57 then St 21 else St 0)
         else if 90 < c then (if 94 \<le> c \<and> c \<le> 122 then St 21 else St 0)
         else St 21)
      else St 21)"

definition rsp_108 :: "int \<Rightarrow> rsp_action jump" where
  "rsp_108 c =
     (if c \<in> {33, 124, 126} then St 21
      else if c = 58 then rsp_tr39
      else if c \<in> {71, 103} then St 109
      else if c < 45 then
        (if 39 < c then (if 42 \<le> c \<and> c \<le> 43 then St 21 else St 0)
         else if 35 \<le> c then St 21
         else St 0)
      else if 46 < c then
        (if c < 65 then (if 48 \<le> c \<and> c \<le> 57 then St 21 else St 0)
         else if 90 < c then (if 94 \<le> c \<and> c \<le> 122 then St 21 else St 0)
         else St 21)
      else St 21)"

definition rsp_109 :: "int \<Rightarrow> rsp_action jump" where
  "rsp_109 c =
     (if c \<in> {33, 124, 126} then St 21
      else if c = 58 then rsp_tr39
      else if c \<in> {84, 116} then St 110
      else if c < 45 then
        (if 39 < c then (if 42 \<le> c \<and> c \<le> 43 then St 21 else St 0)
         else if 35 \<le> c then St 21
         else St 0)
      else if 46 < c then
        (if c < 65 then (if 48 \<le> c \<and> c \<le> 57 then St 21 else St 0)
         else if 90 < c then (if 94 \<le> c \<and> c \<le> 122 then St 21 else St 0)
         else St 21)
      else St 21)"

definition rsp_110 :: "int \<Rightarrow> rsp_action jump" where
  "rsp_110 c =
     (if c \<in> {33, 124, 126} then St 21
      else if c = 58 then rsp_tr39
      else if c \<in> {72, 104} then St 111
      else if c < 45 then
        (if 39 < c then (if 42 \<le> c \<and> c \<le> 43 then St 21 else St 0)
         else if 35 \<le> c then St 21
         else St 0)
      else if 46 < c then
        (if c < 65 then (if 48 \<le> c \<and> c \<le> 57 then St 21 else St 0)
         else if 90 < c then (if 94 \<le> c \<and> c \<le> 122 then St 21 else St 0)
         else St 21)
      else St 21)"

definition rsp_111 :: "int \<Rightarrow> rsp_action jump" where
  "rsp_111 c =
     (if c \<in> {33, 124, 126} then St 21
      else if c = 58 then rsp_tr148
      else if c < 45 then
        (if 39 < c then (if 42 \<le> c \<and> c \<le> 43 then St 21 else St 0)
         else if 35 \<le> c then St 21
         else St 0)
      else if 46 < c then
        (if c < 65 then (if 48 \<le> c \<and> c \<le> 57 then St 21 else St 0)
         else if 90 < c then (if 94 \<le> c \<and> c \<le> 122 then St 21 else St 0)
         else St 21)
      else St 21)"

definition rsp_112 :: "int \<Rightarrow> rsp_action jump" where
  "rsp_112 c =
     (if c = 10 then rsp_tr150
      else if c = 13 then rsp_tr151
      else if c = 32 then rsp_tr149
      else if 12 < c then (if 48 \<le> c \<and> c \<le> 57 then rsp_tr152 else rsp_tr40)
      else if 9 \<le> c then rsp_tr149
      else rsp_tr40)"

definition rsp_113 :: "int \<Rightarrow> rsp_action jump" where
  "rsp_113 c =
     (if c = 10 then rsp_tr154
      else if c = 13 then St 116
      else if c = 32 then St 114
      else if c \<in> {33, 124, 126} then rsp_tr35
      else if c \<in> {67, 99} then rsp_tr36
      else if c \<in> {84, 116} then rsp_tr37
      else if c < 45 then
        (if c < 35 then (if 9 \<le> c \<and> c \<le> 12 then St 114 else St 0)
         else if 39 < c then (if 42 \<le> c \<and> c \<le> 43 then rsp_tr35 else St 0)
         else rsp_tr35)
      else if 46 < c then
        (if c < 65 then (if 48 \<le> c \<and> c \<le> 57 then rsp_tr156 else St 0)
         else if 90 < c then (if 94 \<le> c \<and> c \<le> 122 then rsp_tr35 else St 0)
         else rsp_tr35)
      else rsp_tr35)"

definition rsp_114 :: "int \<Rightarrow> rsp_action jump" where
  "rsp_114 c =
     (if c = 32 then St 114
      else if 13 < c then (if 48 \<le> c \<and> c \<le> 57 then rsp_tr157 else St 0)
      else if 9 \<le> c then St 114
      else St 0)"

definition rsp_115 :: "int \<Rightarrow> rsp_action jump" where
  "rsp_115 c =
     (if c = 10 then rsp_tr158
      else if c = 13 then rsp_tr159
      else if 48 \<le> c \<and> c \<le> 57 then St 115
      else St 0)"

definition rsp_116 :: "int \<Rightarrow> rsp_action jump" where
  "rsp_116 c =
     (if c = 10 then rsp_tr154
      else if c = 32 then St 114
      else if 13 < c then (if 48 \<le> c \<and> c \<le> 57 then rsp_tr157 else St 0)
      else if 9 \<le> c then St 114
      else St 0)"

definition rsp_117 :: "int \<Rightarrow> rsp_action jump" where
  "rsp_117 c =
     (if c = 10 then rsp_tr158
      else if c = 13 then rsp_tr159
      else if c \<in> {33, 124, 126} then St 21
      else if c = 58 then rsp_tr39
      else if c < 45 then
        (if 39 < c then (if 42 \<le> c \<and> c \<le> 43 then St 21 else St 0)
         else if 35 \<le> c then St 21
         else St 0)
      else if 46 < c then
        (if c < 65 then (if 48 \<le> c \<and> c \<le> 57 then St 117 else St 0)
         else if 90 < c then (if 94 \<le> c \<and> c \<le> 122 then St 21 else St 0)
         else St 21)
      else St 21)"

definition rsp_118 :: "int \<Rightarrow> rsp_action jump" where
  "rsp_118 c =
     (if c = 10 then St 113
      else if c = 32 then St 114
      else if 13 < c then (if 48 \<le> c \<and> c \<le> 57 then rsp_tr157 else St 0)
      else if 9 \<le> c then St 114
      else St 0)"

definition rsp_119 :: "int \<Rightarrow> rsp_action jump" where
  "rsp_119 c =
     (if c = 10 then rsp_tr158
      else if c = 13 then rsp_tr159
      else if 48 \<le> c \<and> c \<le> 57 then St 119
      else St 23)"

definition rsp_120 :: "int \<Rightarrow> rsp_action jump" where
  "rsp_120 _ = St 0"

definition rsp_121 :: "int \<Rightarrow> rsp_action jump" where
  "rsp_121 c =
     (if c = 32 then St 63
      else if c \<in> {67, 99} then rsp_tr104
      else if 9 \<le> c \<and> c \<le> 13 then St 63
      else St 0)"

definition rsp_122 :: "int \<Rightarrow> rsp_action jump" where
  "rsp_122 c =
     (if c = 32 then St 37
      else if c \<in> {67, 99} then St 38
      else if 9 \<le> c \<and> c \<le> 13 then St 37
      else St 0)"

definition rsp_123 :: "int \<Rightarrow> rsp_action jump" where
  "rsp_123 c =
     (if c = 32 then St 114
      else if 13 < c then (if 48 \<le> c \<and> c \<le> 57 then rsp_tr157 else St 0)
      else if 9 \<le> c then St 114
      else St 0)"

definition rsp_states :: "(int \<Rightarrow> rsp_action jump) list" where
  "rsp_states =
     [rsp_1, rsp_2, rsp_3, rsp_4, rsp_5, rsp_6, rsp_7, rsp_8, rsp_9, rsp_10, rsp_11, rsp_12, rsp_13,
      rsp_14, rsp_15, rsp_16, rsp_17, rsp_18, rsp_19, rsp_20, rsp_21, rsp_22, rsp_23, rsp_24,
      rsp_25, rsp_26, rsp_27, rsp_28, rsp_29, rsp_30, rsp_31, rsp_32, rsp_33, rsp_34, rsp_35,
      rsp_36, rsp_37, rsp_38, rsp_39, rsp_40, rsp_41, rsp_42, rsp_43, rsp_44, rsp_45, rsp_46,
      rsp_47, rsp_48, rsp_49, rsp_50, rsp_51, rsp_52, rsp_53, rsp_54, rsp_55, rsp_56, rsp_57,
      rsp_58, rsp_59, rsp_60, rsp_61, rsp_62, rsp_63, rsp_64, rsp_65, rsp_66, rsp_67, rsp_68,
      rsp_69, rsp_70, rsp_71, rsp_72, rsp_73, rsp_74, rsp_75, rsp_76, rsp_77, rsp_78, rsp_79,
      rsp_80, rsp_81, rsp_82, rsp_83, rsp_84, rsp_85, rsp_86, rsp_87, rsp_88, rsp_89, rsp_90,
      rsp_91, rsp_92, rsp_93, rsp_94, rsp_95, rsp_96, rsp_97, rsp_98, rsp_99, rsp_100, rsp_101,
      rsp_102, rsp_103, rsp_104, rsp_105, rsp_106, rsp_107, rsp_108, rsp_109, rsp_110, rsp_111,
      rsp_112, rsp_113, rsp_114, rsp_115, rsp_116, rsp_117, rsp_118, rsp_119, rsp_120, rsp_121,
      rsp_122, rsp_123]"

end
