(* ===== verification/ResponseParser.thy ===== *)
theory ResponseParser
  imports ResponseStates RequestParser
begin

text \<open>
  The functions of exhy/http/httpclient_parser.cpp around the machine, and HttpResponseParser
  (exhy/http/http_parser.h, http_parser.cpp) with its callbacks.
\<close>

section \<open>httpclient\_parser\<close>

definition rsp_delta :: "nat \<Rightarrow> int \<Rightarrow> rsp_action jump" where
  "rsp_delta cs = rsp_states ! (cs - 1)"

text \<open>The member \<open>status\<close> is left as it is.\<close>

definition httpclient_parser_init :: "httpclient_parser \<Rightarrow> httpclient_parser" where
  "httpclient_parser_init h =
     h\<lparr>cp_cs := 1, cp_body_start := 0, cp_content_len := - 1, cp_chunked := False, cp_chunks_done := False, cp_mark := 0,
       cp_nread := 0, cp_field_len := 0, cp_field_start := 0, cp_close := False\<rparr>"

definition httpclient_parser_has_error :: "httpclient_parser \<Rightarrow> bool" where
  "httpclient_parser_has_error h \<longleftrightarrow> cp_cs h = 0"

definition httpclient_parser_is_finished :: "httpclient_parser \<Rightarrow> bool" where
  "httpclient_parser_is_finished h \<longleftrightarrow> cp_cs h = 120"

definition httpclient_parser_finish :: "httpclient_parser \<Rightarrow> int" where
  "httpclient_parser_finish h =
     (if httpclient_parser_has_error h then - 1 else if httpclient_parser_is_finished h then 1 else 0)"

definition rsp_exec :: "string \<Rightarrow> nat \<Rightarrow> httpclient_parser \<Rightarrow> nat \<times> nat \<times> httpclient_parser \<times> rsp_call list" where
  "rsp_exec buf off h =
     (if off < length buf \<and> (cp_cs h = 0 \<or> 123 < cp_cs h) then (2, off, h, [])
      else goto_run rsp_delta (rsp_act buf) buf off (cp_cs h) (h, []))"

text \<open>
  The callers store a NUL behind the buffer, so the assert on \<open>*pe\<close> holds. The checks at the end give
  \<open>-1\<close>.
\<close>

definition httpclient_parser_execute ::
  "httpclient_parser \<Rightarrow> string \<Rightarrow> nat \<Rightarrow> (int \<times> httpclient_parser \<times> rsp_call list) res" where
  "httpclient_parser_execute h buf off =
     (let h0 = h\<lparr>cp_nread := 0, cp_mark := 0, cp_field_len := 0, cp_field_start := 0\<rparr>
      in if length buf < off then Inl AssertFailed
         else let (cs, p, h1, calls) = rsp_exec buf off h0;
                  h2 = h1\<lparr>cp_cs := cs\<rparr>;
                  h3 = h2\<lparr>cp_nread := cp_nread h2 + (p - off)\<rparr>
           in if \<not> (cp_nread h3 \<le> length buf \<and> cp_body_start h3 \<le> length buf) then Inl AssertFailed
              else if cp_mark h3 < length buf \<and> cp_field_len h3 \<le> length buf \<and> cp_field_start h3 < length buf
              then Inr (sint (word_of_nat (cp_nread h3) :: u32), h3, calls)
              else Inr (- 1, h3, calls))"

section \<open>HttpResponseParser\<close>

record response_parser =
  sp_parser :: httpclient_parser
  sp_data :: http_response
  sp_error :: int

definition new_HttpResponseParser :: "httpclient_parser \<Rightarrow> response_parser" where
  "new_HttpResponseParser h =
     \<lparr>sp_parser = httpclient_parser_init h, sp_data = new_HttpResponse 0x11 True, sp_error = 0\<rparr>"

definition on_response_reason :: "string \<Rightarrow> nat \<Rightarrow> nat \<Rightarrow> response_parser \<Rightarrow> response_parser res" where
  "on_response_reason buf at len q =
     sbind (string_at buf at len) (\<lambda>s. Inr (q\<lparr>sp_data := (sp_data q)\<lparr>rs_reason := s\<rparr>\<rparr>))"

definition on_response_status :: "string \<Rightarrow> nat \<Rightarrow> nat \<Rightarrow> response_parser \<Rightarrow> response_parser res" where
  "on_response_status buf at len q = Inr (q\<lparr>sp_data := (sp_data q)\<lparr>rs_status := atoi (drop at buf)\<rparr>\<rparr>)"

definition on_response_version :: "string \<Rightarrow> nat \<Rightarrow> nat \<Rightarrow> response_parser \<Rightarrow> response_parser res" where
  "on_response_version buf at len q =
     (case http_version_of (drop at buf) len of
        None \<Rightarrow> sbind (string_at buf at len) (\<lambda>_. Inr (q\<lparr>sp_error := 1001\<rparr>))
      | Some v \<Rightarrow> Inr (q\<lparr>sp_data := (sp_data q)\<lparr>rs_version := v\<rparr>\<rparr>))"

definition on_response_http_field :: "string \<Rightarrow> nat \<Rightarrow> nat \<Rightarrow> nat \<Rightarrow> nat \<Rightarrow> response_parser \<Rightarrow> response_parser res" where
  "on_response_http_field buf field flen value' vlen q =
     (if flen = 0 then Inr q
      else sbind (string_at buf field flen) (\<lambda>f.
        sbind (string_at buf value' vlen) (\<lambda>v. Inr (q\<lparr>sp_data := rs_setHeader f v (sp_data q)\<rparr>))))"

fun on_response :: "string \<Rightarrow> rsp_call \<Rightarrow> response_parser \<Rightarrow> response_parser res" where
  "on_response buf (OnReason at len) q = on_response_reason buf at len q"
| "on_response buf (OnStatus at len) q = on_response_status buf at len q"
| "on_response buf (OnChunk at len) q = Inr q"
| "on_response buf (OnRVersion at len) q = on_response_version buf at len q"
| "on_response buf (OnRHeaderDone at len) q = Inr q"
| "on_response buf (OnLastChunk at len) q = Inr q"
| "on_response buf (OnRField field flen value' vlen) q = on_response_http_field buf field flen value' vlen q"

primrec on_responses :: "string \<Rightarrow> rsp_call list \<Rightarrow> response_parser \<Rightarrow> response_parser res" where
  "on_responses buf [] q = Inr q"
| "on_responses buf (c # cs) q = sbind (on_response buf c q) (on_responses buf cs)"

lemma on_responses_append: "on_responses buf (cs @ ds) q = sbind (on_responses buf cs q) (on_responses buf ds)"
proof (induction cs arbitrary: q)
  case (Cons c cs)
  then show ?case by (cases "on_response buf c q") auto
qed simp

text \<open>
  The number of characters consumed, what is left of the buffer, and the parser. Of the result \<open>-1\<close>,
  converted to size\_t, memmove takes the character before the buffer.
\<close>

definition rsp_execute :: "response_parser \<Rightarrow> string \<Rightarrow> bool \<Rightarrow> (nat \<times> string \<times> response_parser) res" where
  "rsp_execute q data chunk =
     (let h0 = (if chunk then httpclient_parser_init (sp_parser q) else sp_parser q)
      in sbind (httpclient_parser_execute h0 data 0) (\<lambda>(offset, h, calls).
           sbind (on_responses data calls q) (\<lambda>q1.
             if offset < 0 then Inl OutOfBounds
             else Inr (nat offset, drop (nat offset) data, q1\<lparr>sp_parser := h\<rparr>))))"

definition rsp_isFinished :: "response_parser \<Rightarrow> int" where
  "rsp_isFinished q = httpclient_parser_finish (sp_parser q)"

definition rsp_hasError :: "response_parser \<Rightarrow> bool" where
  "rsp_hasError q \<longleftrightarrow> sp_error q \<noteq> 0 \<or> httpclient_parser_has_error (sp_parser q)"

definition rsp_getContentLength :: "(string \<Rightarrow> u64 option) \<Rightarrow> response_parser \<Rightarrow> u64" where
  "rsp_getContentLength cast q = getAs cast (rs_headers (sp_data q)) ''content-length'' 0"

end
