(* ===== verification/HttpServlet.thy ===== *)
theory HttpServlet
  imports Http
begin

text \<open>
  The servlets of the HTTP server (exhy/http/http_servlet.h, http_servlet.cpp): which servlet
  answers a path, and the one that answers when none is found. A handler gets the request, the
  response and the session (the rest of the world) and returns its result with the three as it
  left them. \<open>fnm pattern text\<close> is fnmatch with no flags, true when it returns 0.
\<close>

section \<open>Servlets\<close>

type_synonym 'e handler = "http_request \<times> http_response \<times> 'e \<Rightarrow> int \<times> http_request \<times> http_response \<times> 'e"

text \<open>\<open>Handler\<close> is any other class with its virtual \<open>handle\<close>; an empty function cannot be called.\<close>

datatype 'e servlet =
    FunctionServlet "'e handler option"
  | NotFoundServlet string string
  | Handler "'e handler"

definition html_404 :: "string \<Rightarrow> string" where
  "html_404 name =
     ''<html><head><title>404 Not Found'' @ ''</title></head><body><center><h1>404 Not Found</h1></center>'' @
     ''<hr><center>'' @ name @ ''</center></body></html>''"

definition new_NotFoundServlet :: "string \<Rightarrow> 'e servlet" where
  "new_NotFoundServlet name = NotFoundServlet name (html_404 name)"

definition NotFoundServlet_handle :: "string \<Rightarrow> http_response \<Rightarrow> http_response" where
  "NotFoundServlet_handle m_content rsp =
     (rs_setHeader ''Content-Type'' ''text/html'' (rs_setHeader ''Server'' ''exhy/1.0.0'' (rsp\<lparr>rs_status := 404\<rparr>)))
       \<lparr>rs_body := m_content\<rparr>"

fun servlet_handle ::
  "'e servlet \<Rightarrow> http_request \<times> http_response \<times> 'e \<Rightarrow> (int \<times> http_request \<times> http_response \<times> 'e) res" where
  "servlet_handle (FunctionServlet None) x = Inl EmptyCall"
| "servlet_handle (FunctionServlet (Some cb)) x = Inr (cb x)"
| "servlet_handle (NotFoundServlet name m_content) (req, rsp, e) = Inr (0, req, NotFoundServlet_handle m_content rsp, e)"
| "servlet_handle (Handler h) x = Inr (h x)"

section \<open>ServletDispatch\<close>

text \<open>A pointer to a servlet may be null.\<close>

record 'e dispatch =
  sd_datas :: "string \<Rightarrow> 'e servlet option option"
  sd_globs :: "(string \<times> 'e servlet option) list"
  sd_default :: "'e servlet option"

definition new_ServletDispatch :: "'e dispatch" where
  "new_ServletDispatch =
     \<lparr>sd_datas = Map.empty, sd_globs = [], sd_default = Some (new_NotFoundServlet ''wxy/1.0.0'')\<rparr>"

definition addServlet :: "string \<Rightarrow> 'e servlet option \<Rightarrow> 'e dispatch \<Rightarrow> 'e dispatch" where
  "addServlet uri slt d = d\<lparr>sd_datas := (sd_datas d)(uri \<mapsto> slt)\<rparr>"

definition addServlet_cb :: "string \<Rightarrow> 'e handler option \<Rightarrow> 'e dispatch \<Rightarrow> 'e dispatch" where
  "addServlet_cb uri cb d = d\<lparr>sd_datas := (sd_datas d)(uri \<mapsto> Some (FunctionServlet cb))\<rparr>"

text \<open>The loops that look for a pattern and erase it, or return its servlet.\<close>

fun erase_glob :: "string \<Rightarrow> (string \<times> 's) list \<Rightarrow> (string \<times> 's) list" where
  "erase_glob uri [] = []"
| "erase_glob uri (p # ps) = (if fst p = uri then ps else p # erase_glob uri ps)"

fun find_glob :: "string \<Rightarrow> (string \<times> 's option) list \<Rightarrow> 's option" where
  "find_glob uri [] = None"
| "find_glob uri (p # ps) = (if fst p = uri then snd p else find_glob uri ps)"

definition addGlobServlet :: "string \<Rightarrow> 'e servlet option \<Rightarrow> 'e dispatch \<Rightarrow> 'e dispatch" where
  "addGlobServlet uri slt d = d\<lparr>sd_globs := erase_glob uri (sd_globs d) @ [(uri, slt)]\<rparr>"

definition addGlobServlet_cb :: "string \<Rightarrow> 'e handler option \<Rightarrow> 'e dispatch \<Rightarrow> 'e dispatch" where
  "addGlobServlet_cb uri cb d = addGlobServlet uri (Some (FunctionServlet cb)) d"

definition delServlet :: "string \<Rightarrow> 'e dispatch \<Rightarrow> 'e dispatch" where
  "delServlet uri d = d\<lparr>sd_datas := (sd_datas d)(uri := None)\<rparr>"

definition delGlobServlet :: "string \<Rightarrow> 'e dispatch \<Rightarrow> 'e dispatch" where
  "delGlobServlet uri d = d\<lparr>sd_globs := erase_glob uri (sd_globs d)\<rparr>"

definition getServlet :: "string \<Rightarrow> 'e dispatch \<Rightarrow> 'e servlet option" where
  "getServlet uri d = (case sd_datas d uri of None \<Rightarrow> None | Some s \<Rightarrow> s)"

definition getGlobServlet :: "string \<Rightarrow> 'e dispatch \<Rightarrow> 'e servlet option" where
  "getGlobServlet uri d = find_glob uri (sd_globs d)"

fun match_glob :: "(string \<Rightarrow> string \<Rightarrow> bool) \<Rightarrow> string \<Rightarrow> 's option \<Rightarrow> (string \<times> 's option) list \<Rightarrow> 's option" where
  "match_glob fnm uri dflt [] = dflt"
| "match_glob fnm uri dflt (p # ps) =
     (if fnm (cstr (fst p)) (cstr uri) then snd p else match_glob fnm uri dflt ps)"

definition getMatchedServlet :: "(string \<Rightarrow> string \<Rightarrow> bool) \<Rightarrow> string \<Rightarrow> 'e dispatch \<Rightarrow> 'e servlet option" where
  "getMatchedServlet fnm uri d =
     (case sd_datas d uri of
        Some s \<Rightarrow> s
      | None \<Rightarrow> match_glob fnm uri (sd_default d) (sd_globs d))"

definition dispatch_handle ::
  "(string \<Rightarrow> string \<Rightarrow> bool) \<Rightarrow> 'e dispatch \<Rightarrow> http_request \<times> http_response \<times> 'e \<Rightarrow>
     (int \<times> http_request \<times> http_response \<times> 'e) res" where
  "dispatch_handle fnm d x =
     (case getMatchedServlet fnm (rq_path (fst x)) d of
        Some stl \<Rightarrow> sbind (servlet_handle stl x) (\<lambda>(r, y). Inr (0, y))
      | None \<Rightarrow> Inr (0, x))"

section \<open>The patterns\<close>

text \<open>Every pattern is registered at most once.\<close>

definition globs_ok :: "'e dispatch \<Rightarrow> bool" where
  "globs_ok d \<longleftrightarrow> distinct (map fst (sd_globs d))"

text \<open>The histories of a dispatcher.\<close>

datatype 'e sd_op =
    Add string "'e servlet option" | AddCb string "'e handler option"
  | AddGlob string "'e servlet option" | AddGlobCb string "'e handler option"
  | Del string | DelGlob string | SetDefault "'e servlet option"

fun sd_run :: "'e sd_op \<Rightarrow> 'e dispatch \<Rightarrow> 'e dispatch" where
  "sd_run (Add u s) d = addServlet u s d"
| "sd_run (AddCb u c) d = addServlet_cb u c d"
| "sd_run (AddGlob u s) d = addGlobServlet u s d"
| "sd_run (AddGlobCb u c) d = addGlobServlet_cb u c d"
| "sd_run (Del u) d = delServlet u d"
| "sd_run (DelGlob u) d = delGlobServlet u d"
| "sd_run (SetDefault s) d = d\<lparr>sd_default := s\<rparr>"

lemma erase_glob_filter: "distinct (map fst ps) \<Longrightarrow> erase_glob u ps = filter (\<lambda>p. fst p \<noteq> u) ps"
proof (induction ps)
  case (Cons p ps)
  show ?case
  proof (cases "fst p = u")
    case True
    then have "\<forall>q \<in> set ps. fst q \<noteq> u" using Cons.prems by (metis distinct.simps(2) image_eqI list.set_map list.simps(9))
    then show ?thesis using True by (simp add: filter_id_conv)
  qed (use Cons in simp)
qed simp

lemma globs_ok_run: "globs_ok d \<Longrightarrow> globs_ok (sd_run x d)"
  by (cases x)
     (auto simp: globs_ok_def addServlet_def addServlet_cb_def addGlobServlet_def addGlobServlet_cb_def delServlet_def
       delGlobServlet_def erase_glob_filter distinct_map_filter)

lemma globs_ok_history: "globs_ok (fold sd_run xs new_ServletDispatch)"
proof -
  have "globs_ok d \<Longrightarrow> globs_ok (fold sd_run xs d)" for d :: "'a dispatch"
    by (induction xs arbitrary: d) (simp_all add: globs_ok_run)
  then show ?thesis by (simp add: globs_ok_def new_ServletDispatch_def)
qed

lemma match_glob_first:
  "match_glob fnm uri dflt ps =
     (case List.find (\<lambda>p. fnm (cstr (fst p)) (cstr uri)) ps of None \<Rightarrow> dflt | Some p \<Rightarrow> snd p)"
  by (induction ps) auto

text \<open>
  Claim C37. After any history the patterns are distinct and stand in the order of their last
  registration; a path goes to the servlet registered for exactly it, else to that of the first
  pattern that matches, else to the default.
\<close>

theorem dispatch_order:
  fixes d :: "'e dispatch"
  assumes "d = fold sd_run xs new_ServletDispatch"
  shows "distinct (map fst (sd_globs d)) \<and>
    sd_globs (addGlobServlet u s d) = filter (\<lambda>p. fst p \<noteq> u) (sd_globs d) @ [(u, s)] \<and>
    sd_globs (delGlobServlet u d) = filter (\<lambda>p. fst p \<noteq> u) (sd_globs d) \<and>
    getMatchedServlet fnm uri d =
      (case sd_datas d uri of
         Some t \<Rightarrow> t
       | None \<Rightarrow> (case List.find (\<lambda>p. fnm (cstr (fst p)) (cstr uri)) (sd_globs d) of
                     None \<Rightarrow> sd_default d | Some p \<Rightarrow> snd p)) \<and>
    getMatchedServlet fnm uri (addServlet uri t d) = t"
proof -
  have "distinct (map fst (sd_globs d))"
    using globs_ok_history [of xs] assms by (simp add: globs_ok_def)
  then show ?thesis
    by (simp add: addGlobServlet_def delGlobServlet_def erase_glob_filter getMatchedServlet_def match_glob_first
        addServlet_def split: option.split)
qed

theorem dispatch_order_witness:
  "getMatchedServlet (\<lambda>p t. p = t) ''b''
     (fold sd_run [AddGlob ''a'' None, AddGlob ''b'' (Some (NotFoundServlet ''x'' ''y'')), AddGlob ''a'' None]
        (new_ServletDispatch :: unit dispatch)) = Some (NotFoundServlet ''x'' ''y'')"
  using dispatch_order [OF refl, of "[AddGlob ''a'' None, AddGlob ''b'' (Some (NotFoundServlet ''x'' ''y'')), AddGlob ''a'' None]"
      "''c''" None "\<lambda>p t. p = t" "''b''" None]
  by (auto simp: addGlobServlet_def new_ServletDispatch_def)

text \<open>
  A path nothing is registered for gets the page of NotFoundServlet: status 404, the two
  headers and the body are set, the other headers, the cookies, the version and the close flag of
  the response stay, and neither the request nor the session is touched.
\<close>

theorem unmatched_gets_404:
  assumes "sd_datas d (rq_path req) = None" "\<forall>p \<in> set (sd_globs d). \<not> fnm (cstr (fst p)) (cstr (rq_path req))"
    "sd_default d = sd_default new_ServletDispatch" "hm_ok (rs_headers rsp)"
  shows "\<exists>rsp'. dispatch_handle fnm d (req, rsp, e) = Inr (0, req, rsp', e) \<and>
    rs_status rsp' = 404 \<and> rs_body rsp' = html_404 ''wxy/1.0.0'' \<and> rs_version rsp' = rs_version rsp \<and>
    rs_close rsp' = rs_close rsp \<and> rs_cookies rsp' = rs_cookies rsp \<and>
    hm_abs (rs_headers rsp') = (hm_abs (rs_headers rsp))
      (case_key ''Server'' \<mapsto> ''exhy/1.0.0'', case_key ''Content-Type'' \<mapsto> ''text/html'')"
proof -
  have "List.find (\<lambda>p. fnm (cstr (fst p)) (cstr (rq_path req))) (sd_globs d) = None"
    using assms(2) by (auto simp: find_None_iff)
  then show ?thesis
    using assms(1,3,4)
    by (simp add: dispatch_handle_def getMatchedServlet_def match_glob_first new_ServletDispatch_def
        new_NotFoundServlet_def NotFoundServlet_handle_def rs_setHeader_def hm_put_abs hm_put_ok)
qed

theorem unmatched_gets_404_witness:
  "\<exists>rsp'. dispatch_handle (\<lambda>p t. False) new_ServletDispatch
      (new_HttpRequest 0x11 False, new_HttpResponse 0x11 False, ()) = Inr (0, new_HttpRequest 0x11 False, rsp', ()) \<and>
     rs_status rsp' = 404"
  using unmatched_gets_404 [of new_ServletDispatch "new_HttpRequest 0x11 False" "\<lambda>p t. False" "new_HttpResponse 0x11 False" "()"]
  by (auto simp: new_ServletDispatch_def new_HttpResponse_def hm_empty)

end
