(* ===== verification/Stream.thy ===== *)
theory Stream
  imports ByteView
begin

text \<open>
  Streams (exhy/exhy_stream.cpp) and the stream over a socket
  (exhy/streams/socket_stream.cpp). The four loops readFixSize and writeFixSize move a whole
  number of bytes with an operation that may move fewer; they share one loop here, over a state
  that holds the stream and the buffer or ByteArray. What the kernel's recv and send do is an
  argument of the SocketStream operations; \<open>ksock\<close> is a socket that behaves as their manual
  says, and the instance the laws are proved for.
\<close>

section \<open>The loops of Stream\<close>

text \<open>\<open>len\<close> of one step is an int64_t; the result of the loop is the last \<open>len\<close>, or \<open>length\<close>.\<close>

function fix_loop :: "('s \<Rightarrow> int \<Rightarrow> (int \<times> 's) res) \<Rightarrow> int \<Rightarrow> 's \<Rightarrow> int \<Rightarrow> (int \<times> 's) res" where
  "fix_loop step whole s left =
     (if left \<le> 0 then Inr (whole, s)
      else sbind (step s left)
             (\<lambda>(len, s'). if len \<le> 0 then Inr (len, s') else fix_loop step whole s' (left - len)))"
  by pat_completeness auto
termination by (relation "measure (\<lambda>(_, _, _, left). nat left)") auto

declare fix_loop.simps [simp del]

text \<open>The conversion of the int64_t or size_t result to the int the functions return.\<close>

definition to_int :: "int \<Rightarrow> int" where
  "to_int r = sint (word_of_int r :: u32)"

lemma to_int_small: "- (2 ^ 31) \<le> r \<Longrightarrow> r < 2 ^ 31 \<Longrightarrow> to_int r = r"
  by (simp add: to_int_def int_word_sint)

definition FixSize :: "('s \<Rightarrow> int \<Rightarrow> (int \<times> 's) res) \<Rightarrow> 's \<Rightarrow> nat \<Rightarrow> (int \<times> 's) res" where
  "FixSize step s len = sbind (fix_loop step (int len) s (int len)) (\<lambda>(r, s'). Inr (to_int r, s'))"

text \<open>
  The virtual \<open>read\<close> and \<open>write\<close> of a stream on a raw buffer: \<open>rd s n\<close> gives the result, the bytes
  stored and the new stream; \<open>wr s bs\<close> the result and the new stream. The buffer is the bytes
  received so far, or those still to send.
\<close>

definition read_buf_step ::
  "('s \<Rightarrow> nat \<Rightarrow> (int \<times> byte list \<times> 's) res) \<Rightarrow> 's \<times> byte list \<Rightarrow> int \<Rightarrow> (int \<times> 's \<times> byte list) res" where
  "read_buf_step rd s n = sbind (rd (fst s) (nat n)) (\<lambda>(len, bs, s'). Inr (len, s', snd s @ bs))"

definition write_buf_step ::
  "('s \<Rightarrow> byte list \<Rightarrow> (int \<times> 's) res) \<Rightarrow> 's \<times> byte list \<Rightarrow> int \<Rightarrow> (int \<times> 's \<times> byte list) res" where
  "write_buf_step wr s n =
     sbind (wr (fst s) (take (nat n) (snd s))) (\<lambda>(len, s'). Inr (len, s', drop (nat len) (snd s)))"

definition array_step ::
  "('s \<Rightarrow> bytearray \<Rightarrow> nat \<Rightarrow> (int \<times> 's \<times> bytearray) res) \<Rightarrow> 's \<times> bytearray \<Rightarrow> int \<Rightarrow>
     (int \<times> 's \<times> bytearray) res" where
  "array_step op s n = op (fst s) (snd s) (nat n)"

definition readFixSize_buf ::
  "('s \<Rightarrow> nat \<Rightarrow> (int \<times> byte list \<times> 's) res) \<Rightarrow> 's \<Rightarrow> nat \<Rightarrow> (int \<times> 's \<times> byte list) res" where
  "readFixSize_buf rd s = FixSize (read_buf_step rd) (s, [])"

definition writeFixSize_buf ::
  "('s \<Rightarrow> byte list \<Rightarrow> (int \<times> 's) res) \<Rightarrow> 's \<Rightarrow> byte list \<Rightarrow> (int \<times> 's \<times> byte list) res" where
  "writeFixSize_buf wr s bs = FixSize (write_buf_step wr) (s, bs) (length bs)"

definition readFixSize ::
  "('s \<Rightarrow> bytearray \<Rightarrow> nat \<Rightarrow> (int \<times> 's \<times> bytearray) res) \<Rightarrow> 's \<Rightarrow> bytearray \<Rightarrow> nat \<Rightarrow>
     (int \<times> 's \<times> bytearray) res" where
  "readFixSize rd s ba = FixSize (array_step rd) (s, ba)"

definition writeFixSize ::
  "('s \<Rightarrow> bytearray \<Rightarrow> nat \<Rightarrow> (int \<times> 's \<times> bytearray) res) \<Rightarrow> 's \<Rightarrow> bytearray \<Rightarrow> nat \<Rightarrow>
     (int \<times> 's \<times> bytearray) res" where
  "writeFixSize wr s ba = FixSize (array_step wr) (s, ba)"

section \<open>SocketStream\<close>

record 'k sstream =
  m_socket :: "'k option"
  m_owner :: bool

definition isConnected :: "('k \<Rightarrow> bool) \<Rightarrow> 'k sstream \<Rightarrow> bool" where
  "isConnected conn s = (case m_socket s of None \<Rightarrow> False | Some k \<Rightarrow> conn k)"

definition stream_close :: "('k \<Rightarrow> 'k) \<Rightarrow> 'k sstream \<Rightarrow> 'k sstream" where
  "stream_close cl s = s\<lparr>m_socket := map_option cl (m_socket s)\<rparr>"

definition delete_SocketStream :: "('k \<Rightarrow> 'k) \<Rightarrow> 'k sstream \<Rightarrow> 'k sstream" where
  "delete_SocketStream cl s = (if m_owner s \<and> m_socket s \<noteq> None then s\<lparr>m_socket := map_option cl (m_socket s)\<rparr> else s)"

definition stream_read ::
  "('k \<Rightarrow> bool) \<Rightarrow> ('k \<Rightarrow> nat \<Rightarrow> int \<times> byte list \<times> 'k) \<Rightarrow> 'k sstream \<Rightarrow> nat \<Rightarrow> (int \<times> byte list \<times> 'k sstream) res" where
  "stream_read conn recv s n =
     (if \<not> isConnected conn s then Inr (-1, [], s)
      else let (rt, bs, k) = recv (the (m_socket s)) n in Inr (rt, bs, s\<lparr>m_socket := Some k\<rparr>))"

definition stream_write ::
  "('k \<Rightarrow> bool) \<Rightarrow> ('k \<Rightarrow> byte list \<Rightarrow> int \<times> 'k) \<Rightarrow> 'k sstream \<Rightarrow> byte list \<Rightarrow> (int \<times> 'k sstream) res" where
  "stream_write conn send s bs =
     (if \<not> isConnected conn s then Inr (-1, s)
      else let (rt, k) = send (the (m_socket s)) bs in Inr (rt, s\<lparr>m_socket := Some k\<rparr>))"

text \<open>\<open>&iovs[0]\<close> of an empty vector is out of bounds.\<close>

definition stream_read_ba ::
  "('k \<Rightarrow> bool) \<Rightarrow> ('k \<Rightarrow> nat \<Rightarrow> int \<times> byte list \<times> 'k) \<Rightarrow> 'k sstream \<Rightarrow> bytearray \<Rightarrow> nat \<Rightarrow>
     (int \<times> 'k sstream \<times> bytearray) res" where
  "stream_read_ba conn recv s ba n =
     (if \<not> isConnected conn s then Inr (-1, s, ba)
      else sbind (getWriteBuffers ba n)
        (\<lambda>(_, iovs, ba1).
           if iovs = [] then Inl OutOfBounds
           else let (rt, bs, k) = recv (the (m_socket s)) (sum_list (map iov_len iovs));
                    ba2 = scatter iovs bs ba1; s' = s\<lparr>m_socket := Some k\<rparr>
             in if 0 < rt then sbind (setPosition ba2 (m_position ba2 + nat rt)) (\<lambda>ba3. Inr (rt, s', ba3))
                else Inr (rt, s', ba2)))"

definition stream_write_ba ::
  "('k \<Rightarrow> bool) \<Rightarrow> ('k \<Rightarrow> byte list \<Rightarrow> int \<times> 'k) \<Rightarrow> 'k sstream \<Rightarrow> bytearray \<Rightarrow> nat \<Rightarrow>
     (int \<times> 'k sstream \<times> bytearray) res" where
  "stream_write_ba conn send s ba n =
     (if \<not> isConnected conn s then Inr (-1, s, ba)
      else sbind (getReadBuffers ba n)
        (\<lambda>(_, iovs).
           if iovs = [] then Inl OutOfBounds
           else let (rt, k) = send (the (m_socket s)) (gather ba iovs); s' = s\<lparr>m_socket := Some k\<rparr>
             in if 0 < rt then sbind (setPosition ba (m_position ba + nat rt)) (\<lambda>ba1. Inr (rt, s', ba1))
                else Inr (rt, s', ba)))"

section \<open>The contract of a step that moves bytes\<close>

text \<open>
  \<open>moved s n t\<close>: between the states \<open>s\<close> and \<open>t\<close>, \<open>n\<close> bytes have been moved. A step moves as many
  bytes as it says, never more than asked for, and none when it fails.
\<close>

locale mover =
  fixes step :: "'s \<Rightarrow> int \<Rightarrow> (int \<times> 's) res"
    and invar :: "'s \<Rightarrow> bool"
    and moved :: "'s \<Rightarrow> nat \<Rightarrow> 's \<Rightarrow> bool"
  assumes step_law: "invar s \<Longrightarrow> 0 < n \<Longrightarrow> step s n = Inr (len, t) \<Longrightarrow>
      invar t \<and> -1 \<le> len \<and> len \<le> n \<and> moved s (nat len) t"
    and moved_refl: "invar s \<Longrightarrow> moved s 0 s"
    and moved_trans: "moved s a t \<Longrightarrow> moved t b u \<Longrightarrow> moved s (a + b) u"
begin

lemma fix_loop_moves:
  assumes "invar s" "0 \<le> left" "fix_loop step whole s left = Inr (r, t)"
  shows "\<exists>m. invar t \<and> moved s m t \<and> (r = whole \<and> int m = left \<or> (r = 0 \<or> r = -1) \<and> int m < left)"
  using assms
proof (induction "nat left" arbitrary: s left rule: less_induct)
  case less
  show ?case
  proof (cases "left \<le> 0")
    case True
    then have "r = whole" "t = s" "left = 0" using less.prems by (simp_all add: fix_loop.simps [of step whole s])
    then show ?thesis using less.prems(1) moved_refl by (intro exI [of _ 0]) simp
  next
    case False
    then obtain len s1 where 1: "step s left = Inr (len, s1)"
        "(if len \<le> 0 then Inr (len, s1) else fix_loop step whole s1 (left - len)) = Inr (r, t)"
      using less.prems(3) by (auto simp: fix_loop.simps [of step whole s] elim!: sbind_eq_InrE)
    have law: "invar s1" "-1 \<le> len" "len \<le> left" "moved s (nat len) s1"
      using step_law [OF less.prems(1) _ 1(1)] False by auto
    show ?thesis
    proof (cases "len \<le> 0")
      case True
      then show ?thesis using 1(2) law False by (intro exI [of _ 0]) auto
    next
      case pos: False
      then have "nat (left - len) < nat left" "0 \<le> left - len" using law(3) by auto
      then obtain m where m: "invar t" "moved s1 m t" "r = whole \<and> int m = left - len \<or> (r = 0 \<or> r = -1) \<and> int m < left - len"
        using less.hyps [of "left - len" s1] law(1) 1(2) pos by auto
      have "moved s (nat len + m) t" by (rule moved_trans [OF law(4) m(2)])
      then show ?thesis using m pos by (intro exI [of _ "nat len + m"]) auto
    qed
  qed
qed

lemma FixSize_moves:
  assumes "invar s" "n < 2 ^ 31" "FixSize step s n = Inr (r, t)"
  shows "\<exists>m. invar t \<and> moved s m t \<and> (r = int n \<and> m = n \<or> (r = 0 \<or> r = -1) \<and> m < n)"
proof -
  obtain r' where r: "fix_loop step (int n) s (int n) = Inr (r', t)" "r = to_int r'"
    using assms(3) by (auto simp: FixSize_def elim!: sbind_eq_InrE)
  obtain m where m: "invar t" "moved s m t"
      "r' = int n \<and> int m = int n \<or> (r' = 0 \<or> r' = -1) \<and> int m < int n"
    using fix_loop_moves [OF assms(1) _ r(1)] by auto
  moreover have "to_int (int n) = int n" "to_int 0 = 0" "to_int (-1) = -1"
    using assms(2) by (simp_all add: to_int_small)
  ultimately show ?thesis using r(2) by auto
qed

end

text \<open>A mover that also says how much it can surely move.\<close>

locale live_mover = mover +
  fixes avail :: "'s \<Rightarrow> nat"
  assumes live: "invar s \<Longrightarrow> 0 < n \<Longrightarrow> n \<le> int (avail s) \<Longrightarrow>
      \<exists>len t. step s n = Inr (len, t) \<and> 0 < len \<and> int (avail s) - len \<le> int (avail t)"
begin

lemma fix_loop_completes:
  assumes "invar s" "0 \<le> left" "left \<le> int (avail s)"
  shows "\<exists>t. fix_loop step whole s left = Inr (whole, t) \<and> invar t \<and> moved s (nat left) t"
  using assms
proof (induction "nat left" arbitrary: s left rule: less_induct)
  case less
  show ?case
  proof (cases "left \<le> 0")
    case True
    then show ?thesis using less.prems moved_refl by (simp add: fix_loop.simps [of step whole s])
  next
    case False
    then obtain len s1 where 1: "step s left = Inr (len, s1)" "0 < len" "int (avail s) - len \<le> int (avail s1)"
      using live [OF less.prems(1), of left] less.prems(3) by auto
    have law: "invar s1" "len \<le> left" "moved s (nat len) s1"
      using step_law [OF less.prems(1) _ 1(1)] False by auto
    have "nat (left - len) < nat left" "0 \<le> left - len" "left - len \<le> int (avail s1)"
      using law(2) 1(2,3) less.prems(3) by auto
    then obtain t where t: "fix_loop step whole s1 (left - len) = Inr (whole, t)" "invar t"
        "moved s1 (nat (left - len)) t"
      using less.hyps law(1) by blast
    have "moved s (nat len + nat (left - len)) t" by (rule moved_trans [OF law(3) t(3)])
    moreover have "nat len + nat (left - len) = nat left" using law(2) 1(2) by simp
    ultimately show ?thesis using t 1 False by (simp add: fix_loop.simps [of step whole s])
  qed
qed

lemma FixSize_completes:
  assumes "invar s" "n < 2 ^ 31" "n \<le> avail s"
  shows "\<exists>t. FixSize step s n = Inr (int n, t) \<and> invar t \<and> moved s n t"
  using fix_loop_completes [OF assms(1), of "int n" "int n"] assms(2,3)
  by (auto simp: FixSize_def to_int_small)

end

section \<open>The contract of a connected socket\<close>

text \<open>
  What a SocketStream relies on: recv hands out the incoming bytes in order and no more than asked
  for, send takes bytes from the front of what it is given and appends them to the outgoing ones.
\<close>

locale stream_socket =
  fixes conn :: "'k \<Rightarrow> bool"
    and recv :: "'k \<Rightarrow> nat \<Rightarrow> int \<times> byte list \<times> 'k"
    and send :: "'k \<Rightarrow> byte list \<Rightarrow> int \<times> 'k"
    and inp :: "'k \<Rightarrow> byte list"
    and out :: "'k \<Rightarrow> byte list"
  assumes recv_law: "conn k \<Longrightarrow> recv k n = (rt, bs, k') \<Longrightarrow>
      -1 \<le> rt \<and> rt \<le> int n \<and> length bs = nat rt \<and> inp k = bs @ inp k' \<and> out k' = out k"
    and send_law: "conn k \<Longrightarrow> send k bs = (rt, k') \<Longrightarrow>
      -1 \<le> rt \<and> rt \<le> int (length bs) \<and> inp k' = inp k \<and> out k' = out k @ take (nat rt) bs"

text \<open>While the connection lasts, a blocking recv returns something as long as something comes.\<close>

locale steady_socket = stream_socket conn recv send inp out
  for conn :: "'k \<Rightarrow> bool" and recv send inp out +
  assumes recv_live: "conn k \<Longrightarrow> 0 < n \<Longrightarrow> inp k \<noteq> [] \<Longrightarrow> recv k n = (rt, bs, k') \<Longrightarrow> 0 < rt \<and> conn k'"
    and send_live: "conn k \<Longrightarrow> bs \<noteq> [] \<Longrightarrow> send k bs = (rt, k') \<Longrightarrow> 0 < rt \<and> conn k'"

text \<open>The bytes that come in and have gone out through the socket of a stream.\<close>

definition stream_bytes :: "('k \<Rightarrow> byte list) \<Rightarrow> 'k sstream \<Rightarrow> byte list" where
  "stream_bytes f s = (case m_socket s of None \<Rightarrow> [] | Some k \<Rightarrow> f k)"

lemma stream_bytes_simps [simp]:
  "stream_bytes f (s\<lparr>m_socket := Some k\<rparr>) = f k"
  "m_socket s = Some k \<Longrightarrow> stream_bytes f s = f k"
  by (simp_all add: stream_bytes_def)

lemma isConnectedE:
  assumes "isConnected conn s"
  obtains k where "m_socket s = Some k" "conn k"
  using assms by (auto simp: isConnected_def split: option.splits)

text \<open>What it means that \<open>n\<close> bytes have been moved, for each of the four loops.\<close>

definition read_moved ::
  "('k \<Rightarrow> byte list) \<Rightarrow> ('k \<Rightarrow> byte list) \<Rightarrow> 'k sstream \<times> byte list \<Rightarrow> nat \<Rightarrow> 'k sstream \<times> byte list \<Rightarrow> bool" where
  "read_moved inp out s n t \<longleftrightarrow> (\<exists>bs. length bs = n \<and> stream_bytes inp (fst s) = bs @ stream_bytes inp (fst t) \<and>
     stream_bytes out (fst t) = stream_bytes out (fst s) \<and> snd t = snd s @ bs)"

definition write_moved ::
  "('k \<Rightarrow> byte list) \<Rightarrow> ('k \<Rightarrow> byte list) \<Rightarrow> 'k sstream \<times> byte list \<Rightarrow> nat \<Rightarrow> 'k sstream \<times> byte list \<Rightarrow> bool" where
  "write_moved inp out s n t \<longleftrightarrow> (\<exists>bs. length bs = n \<and> snd s = bs @ snd t \<and>
     stream_bytes inp (fst t) = stream_bytes inp (fst s) \<and>
     stream_bytes out (fst t) = stream_bytes out (fst s) @ bs)"

definition array_read_moved ::
  "('k \<Rightarrow> byte list) \<Rightarrow> ('k \<Rightarrow> byte list) \<Rightarrow> 'k sstream \<times> bytearray \<Rightarrow> nat \<Rightarrow> 'k sstream \<times> bytearray \<Rightarrow> bool" where
  "array_read_moved inp out s n t \<longleftrightarrow> (\<exists>bs j. length bs = n \<and>
     stream_bytes inp (fst s) = bs @ stream_bytes inp (fst t) \<and>
     stream_bytes out (fst t) = stream_bytes out (fst s) \<and>
     mem (snd t) = overwrite (m_position (snd s)) bs (mem (snd s) @ j) \<and>
     m_position (snd s) + n \<le> length (mem (snd s) @ j) \<and> m_position (snd t) = m_position (snd s) + n \<and>
     m_size (snd t) = (if n = 0 then m_size (snd s) else max (m_size (snd s)) (m_position (snd s) + n)))"

definition array_write_moved ::
  "('k \<Rightarrow> byte list) \<Rightarrow> ('k \<Rightarrow> byte list) \<Rightarrow> 'k sstream \<times> bytearray \<Rightarrow> nat \<Rightarrow> 'k sstream \<times> bytearray \<Rightarrow> bool" where
  "array_write_moved inp out s n t \<longleftrightarrow>
     m_position (snd s) + n \<le> m_size (snd s) \<and>
     stream_bytes inp (fst t) = stream_bytes inp (fst s) \<and>
     stream_bytes out (fst t) = stream_bytes out (fst s) @ block_at (m_position (snd s)) n (mem (snd s)) \<and>
     mem (snd t) = mem (snd s) \<and> m_position (snd t) = m_position (snd s) + n \<and> m_size (snd t) = m_size (snd s)"

definition can_write :: "'k sstream \<times> bytearray \<Rightarrow> bool" where
  "can_write s \<longleftrightarrow> wf (snd s) \<and> m_position (snd s) \<le> m_size (snd s)"

sublocale stream_socket \<subseteq> into_buffer: mover "read_buf_step (stream_read conn recv)" "\<lambda>_. True" "read_moved inp out"
proof unfold_locales
  fix s :: "'k sstream \<times> byte list" and n len t
  assume n: "0 < n" and st: "read_buf_step (stream_read conn recv) s n = Inr (len, t)"
  show "True \<and> -1 \<le> len \<and> len \<le> n \<and> read_moved inp out s (nat len) t"
  proof (cases "isConnected conn (fst s)")
    case False
    then show ?thesis using n st by (auto simp: read_buf_step_def stream_read_def read_moved_def)
  next
    case True
    then obtain k where k: "m_socket (fst s) = Some k" "conn k" by (rule isConnectedE)
    obtain rt bs k' where r: "recv k (nat n) = (rt, bs, k')" by (metis prod_cases3)
    have "len = rt" "t = ((fst s)\<lparr>m_socket := Some k'\<rparr>, snd s @ bs)"
      using st True k(1) r by (simp_all add: read_buf_step_def stream_read_def)
    then show ?thesis using recv_law [OF k(2) r] n k(1) by (auto simp: read_moved_def)
  qed
next
  fix s a t b u
  assume "read_moved inp out s a t" "read_moved inp out t b u"
  then obtain bs cs where "length bs = a" "stream_bytes inp (fst s) = bs @ stream_bytes inp (fst t)"
      "stream_bytes out (fst t) = stream_bytes out (fst s)" "snd t = snd s @ bs"
      "length cs = b" "stream_bytes inp (fst t) = cs @ stream_bytes inp (fst u)"
      "stream_bytes out (fst u) = stream_bytes out (fst t)" "snd u = snd t @ cs"
    by (auto simp: read_moved_def)
  then show "read_moved inp out s (a + b) u"
    unfolding read_moved_def by (intro exI [of _ "bs @ cs"]) simp
qed (simp add: read_moved_def)

sublocale stream_socket \<subseteq> from_buffer: mover "write_buf_step (stream_write conn send)" "\<lambda>_. True" "write_moved inp out"
proof unfold_locales
  fix s :: "'k sstream \<times> byte list" and n len t
  assume n: "0 < n" and st: "write_buf_step (stream_write conn send) s n = Inr (len, t)"
  show "True \<and> -1 \<le> len \<and> len \<le> n \<and> write_moved inp out s (nat len) t"
  proof (cases "isConnected conn (fst s)")
    case False
    then show ?thesis using n st by (auto simp: write_buf_step_def stream_write_def write_moved_def)
  next
    case True
    then obtain k where k: "m_socket (fst s) = Some k" "conn k" by (rule isConnectedE)
    obtain rt k' where r: "send k (take (nat n) (snd s)) = (rt, k')" by (metis surj_pair)
    have t: "len = rt" "t = ((fst s)\<lparr>m_socket := Some k'\<rparr>, drop (nat rt) (snd s))"
      using st True k(1) r by (auto simp: write_buf_step_def stream_write_def)
    have law: "-1 \<le> rt" "rt \<le> int (length (take (nat n) (snd s)))" "inp k' = inp k"
        "out k' = out k @ take (nat rt) (take (nat n) (snd s))"
      using send_law [OF k(2) r] by auto
    then have "nat rt \<le> nat n" "nat rt \<le> length (snd s)" using n by auto
    then show ?thesis using law k(1) t n unfolding write_moved_def
      by (auto simp: min_def intro!: exI [of _ "take (nat rt) (snd s)"])
  qed
next
  fix s a t b u
  assume "write_moved inp out s a t" "write_moved inp out t b u"
  then obtain bs cs where "length bs = a" "snd s = bs @ snd t" "stream_bytes inp (fst t) = stream_bytes inp (fst s)"
      "stream_bytes out (fst t) = stream_bytes out (fst s) @ bs"
      "length cs = b" "snd t = cs @ snd u" "stream_bytes inp (fst u) = stream_bytes inp (fst t)"
      "stream_bytes out (fst u) = stream_bytes out (fst t) @ cs"
    by (auto simp: write_moved_def)
  then show "write_moved inp out s (a + b) u"
    unfolding write_moved_def by (intro exI [of _ "bs @ cs"]) simp
qed (simp add: write_moved_def)

lemma stream_read_ba_step:
  assumes "wf ba" "m_socket s = Some k" "conn k" "recv k n = (rt, bs, k')" "0 < n"
    "rt \<le> int n" "length bs = nat rt"
  shows "\<exists>ba' j. stream_read_ba conn recv s ba n = Inr (rt, s\<lparr>m_socket := Some k'\<rparr>, ba') \<and> wf ba' \<and>
    mem ba' = overwrite (m_position ba) bs (mem ba @ j) \<and>
    m_position ba + nat rt \<le> length (mem ba @ j) \<and> m_position ba' = m_position ba + nat rt \<and>
    m_size ba' = (if nat rt = 0 then m_size ba else max (m_size ba) (m_position ba + nat rt))"
proof -
  have "length bs \<le> n" using assms(6,7) by simp
  then obtain vs ba1 j where g: "getWriteBuffers ba n = Inr (n, vs, ba1)" and w: "wf (scatter vs bs ba1)"
      "mem (scatter vs bs ba1) = overwrite (m_position ba) bs (mem ba @ j)"
      "m_position ba + n \<le> length (mem ba @ j)" "m_position (scatter vs bs ba1) = m_position ba"
      "m_size (scatter vs bs ba1) = m_size ba" "sum_list (map iov_len vs) = n"
    using getWriteBuffers_spec [OF assms(1)] by blast
  have vs: "vs \<noteq> []" using w(6) assms(5) by auto
  have c: "isConnected conn s" using assms(2,3) by (simp add: isConnected_def)
  show ?thesis
  proof (cases "0 < rt")
    case True
    have "m_position ba + nat rt \<le> m_capacity (scatter vs bs ba1)"
      using w(1,2,3) assms(6,7) by (simp flip: length_mem)
    then obtain ba3 where "setPosition (scatter vs bs ba1) (m_position ba + nat rt) = Inr ba3" "wf ba3"
        "mem ba3 = mem (scatter vs bs ba1)" "m_position ba3 = m_position ba + nat rt"
        "m_size ba3 = max (m_size ba) (m_position ba + nat rt)"
      using setPosition_spec [OF w(1)] w(5) by auto
    then show ?thesis using True g vs c assms(2,4,6) w
      by (intro exI [of _ ba3] exI [of _ j]) (simp add: stream_read_ba_def Let_def)
  next
    case False
    then show ?thesis using g vs c assms(2,4,7) w
      by (intro exI [of _ "scatter vs bs ba1"] exI [of _ j]) (simp add: stream_read_ba_def Let_def)
  qed
qed

sublocale stream_socket \<subseteq> into_array: mover "array_step (stream_read_ba conn recv)" "\<lambda>s. wf (snd s)"
  "array_read_moved inp out"
proof unfold_locales
  fix s :: "'k sstream \<times> bytearray" and n len t
  assume wf: "wf (snd s)" and n: "0 < n" and st: "array_step (stream_read_ba conn recv) s n = Inr (len, t)"
  show "wf (snd t) \<and> -1 \<le> len \<and> len \<le> n \<and> array_read_moved inp out s (nat len) t"
  proof (cases "isConnected conn (fst s)")
    case False
    then have "t = s" "len = -1" using st by (auto simp: array_step_def stream_read_ba_def)
    moreover have "m_position (snd s) \<le> length (mem (snd s))" using wf length_mem [OF wf] by (simp add: wf_def)
    ultimately show ?thesis using n wf by (simp add: array_read_moved_def)
  next
    case True
    then obtain k where k: "m_socket (fst s) = Some k" "conn k" by (rule isConnectedE)
    obtain rt bs k' where r: "recv k (nat n) = (rt, bs, k')" by (metis prod_cases3)
    have law: "-1 \<le> rt" "rt \<le> int (nat n)" "length bs = nat rt" "inp k = bs @ inp k'" "out k' = out k"
      using recv_law [OF k(2) r] by auto
    then obtain ba' j where "stream_read_ba conn recv (fst s) (snd s) (nat n) = Inr (rt, (fst s)\<lparr>m_socket := Some k'\<rparr>, ba')"
        "wf ba'" "mem ba' = overwrite (m_position (snd s)) bs (mem (snd s) @ j)"
        "m_position (snd s) + nat rt \<le> length (mem (snd s) @ j)" "m_position ba' = m_position (snd s) + nat rt"
        "m_size ba' = (if nat rt = 0 then m_size (snd s) else max (m_size (snd s)) (m_position (snd s) + nat rt))"
      using stream_read_ba_step [where conn = conn and recv = recv and n = "nat n", OF wf k(1,2) r] n
      by (metis zero_less_nat_eq)
    then show ?thesis using st n k law unfolding array_step_def array_read_moved_def
      by (auto intro!: exI [of _ bs] exI [of _ j])
  qed
next
  fix s :: "'k sstream \<times> bytearray" assume "wf (snd s)"
  then have "m_position (snd s) \<le> length (mem (snd s))" using length_mem by (simp add: wf_def)
  then show "array_read_moved inp out s 0 s" by (simp add: array_read_moved_def)
next
  fix s a t b u
  assume "array_read_moved inp out s a t" "array_read_moved inp out t b u"
  then obtain bs i cs j where 1: "length bs = a" "stream_bytes inp (fst s) = bs @ stream_bytes inp (fst t)"
      "stream_bytes out (fst t) = stream_bytes out (fst s)"
      "mem (snd t) = overwrite (m_position (snd s)) bs (mem (snd s) @ i)"
      "m_position (snd s) + a \<le> length (mem (snd s) @ i)" "m_position (snd t) = m_position (snd s) + a"
      "m_size (snd t) = (if a = 0 then m_size (snd s) else max (m_size (snd s)) (m_position (snd s) + a))"
    and 2: "length cs = b" "stream_bytes inp (fst t) = cs @ stream_bytes inp (fst u)"
      "stream_bytes out (fst u) = stream_bytes out (fst t)"
      "mem (snd u) = overwrite (m_position (snd t)) cs (mem (snd t) @ j)"
      "m_position (snd t) + b \<le> length (mem (snd t) @ j)" "m_position (snd u) = m_position (snd t) + b"
      "m_size (snd u) = (if b = 0 then m_size (snd t) else max (m_size (snd t)) (m_position (snd t) + b))"
    unfolding array_read_moved_def by blast
  let ?p = "m_position (snd s)" and ?m = "mem (snd s)"
  have "mem (snd t) @ j = overwrite ?p bs (?m @ (i @ j))"
    using 1(1,4,5) overwrite_left [of ?p bs "?m @ i" j] by simp
  then have "mem (snd u) = overwrite ?p (bs @ cs) (?m @ (i @ j))"
    using 2(1,4,5) 1(1,4,5,6) overwrite_append [of ?p bs "?m @ (i @ j)" cs] by simp
  moreover have "?p + (a + b) \<le> length (?m @ (i @ j))" using 1(1,4,5,6) 2(5) by simp
  ultimately show "array_read_moved inp out s (a + b) u"
    unfolding array_read_moved_def using 1(1,2,3,6,7) 2(1,2,3,6,7)
    by (intro exI [of _ "bs @ cs"] exI [of _ "i @ j"]) auto
qed

lemma stream_write_ba_step:
  assumes "wf ba" "m_position ba < m_size ba" "m_socket s = Some k" "conn k" "0 < n"
    "m = min n (m_size ba - m_position ba)" "send k (block_at (m_position ba) m (mem ba)) = (rt, k')" "rt \<le> int m"
  shows "\<exists>ba'. stream_write_ba conn send s ba n = Inr (rt, s\<lparr>m_socket := Some k'\<rparr>, ba') \<and> wf ba' \<and>
    mem ba' = mem ba \<and> m_position ba' = m_position ba + nat rt \<and> m_size ba' = m_size ba"
proof -
  obtain vs where g: "getReadBuffers ba n = Inr (m, vs)" "gather ba vs = block_at (m_position ba) m (mem ba)"
      "covers (m_baseSize ba) (length (m_nodes ba)) vs (m_position ba) m"
    using getReadBuffers_spec [OF assms(1) _ assms(6)] assms(2) by auto
  have vs: "vs \<noteq> []" using covers_len [OF g(3)] assms(2,5,6) by auto
  have c: "isConnected conn s" using assms(3,4) by (simp add: isConnected_def)
  show ?thesis
  proof (cases "0 < rt")
    case True
    have p: "m_position ba + nat rt \<le> m_size ba" using assms(2,6,8) by auto
    then have "m_position ba + nat rt \<le> m_capacity ba" using assms(1) by (simp add: wf_def)
    then obtain ba' where "setPosition ba (m_position ba + nat rt) = Inr ba'" "wf ba'" "mem ba' = mem ba"
        "m_position ba' = m_position ba + nat rt" "m_size ba' = max (m_size ba) (m_position ba + nat rt)"
      using setPosition_spec [OF assms(1)] by blast
    then show ?thesis using True g vs c assms(3,7) p by (simp add: stream_write_ba_def Let_def max_def)
  next
    case False
    then show ?thesis using g vs c assms(1,3,7) by (simp add: stream_write_ba_def Let_def)
  qed
qed

lemma stream_write_ba_empty:
  assumes "isConnected conn s" "m_size ba = m_position ba"
  shows "stream_write_ba conn send s ba n = Inl OutOfBounds"
  using assms by (simp add: stream_write_ba_def getReadBuffers_def getReadSize_def Let_def)

sublocale stream_socket \<subseteq> from_array: mover "array_step (stream_write_ba conn send)" can_write
  "array_write_moved inp out"
proof unfold_locales
  fix s :: "'k sstream \<times> bytearray" and n len t
  assume cw: "can_write s" and n: "0 < n" and st: "array_step (stream_write_ba conn send) s n = Inr (len, t)"
  show "can_write t \<and> -1 \<le> len \<and> len \<le> n \<and> array_write_moved inp out s (nat len) t"
  proof (cases "isConnected conn (fst s)")
    case False
    then have "t = s" "len = -1" using st by (auto simp: array_step_def stream_write_ba_def)
    then show ?thesis using n cw by (simp add: array_write_moved_def can_write_def)
  next
    case True
    then obtain k where k: "m_socket (fst s) = Some k" "conn k" by (rule isConnectedE)
    have wf: "wf (snd s)" and p: "m_position (snd s) \<noteq> m_size (snd s)" "m_position (snd s) \<le> m_size (snd s)"
      using cw st stream_write_ba_empty [OF True] by (auto simp: can_write_def array_step_def)
    then have p: "m_position (snd s) < m_size (snd s)" by simp
    define m where "m = min (nat n) (m_size (snd s) - m_position (snd s))"
    let ?b = "block_at (m_position (snd s)) m (mem (snd s))"
    obtain rt k' where r: "send k ?b = (rt, k')" by (metis surj_pair)
    have "m_size (snd s) \<le> length (mem (snd s))" using wf length_mem [OF wf] by (simp add: wf_def)
    then have lb: "length ?b = m" using p by (simp add: m_def min_def)
    then have law: "-1 \<le> rt" "rt \<le> int m" "inp k' = inp k" "out k' = out k @ take (nat rt) ?b"
      using send_law [OF k(2) r] by auto
    obtain ba' where b: "stream_write_ba conn send (fst s) (snd s) (nat n) = Inr (rt, (fst s)\<lparr>m_socket := Some k'\<rparr>, ba')"
        "wf ba'" "mem ba' = mem (snd s)" "m_position ba' = m_position (snd s) + nat rt" "m_size ba' = m_size (snd s)"
      using stream_write_ba_step [where conn = conn and send = send and n = "nat n", OF wf p k _ m_def r law(2)] n
      by auto
    have "take (nat rt) ?b = block_at (m_position (snd s)) (nat rt) (mem (snd s))"
      using law(2) by (simp add: block_at_def min_def)
    moreover have "m_position (snd s) + nat rt \<le> m_size (snd s)" "rt \<le> n" using law(2) n p by (auto simp: m_def)
    ultimately show ?thesis using st b k(1) law by (auto simp: array_step_def array_write_moved_def can_write_def)
  qed
next
  fix s a t b u
  assume "array_write_moved inp out s a t" "array_write_moved inp out t b u"
  then show "array_write_moved inp out s (a + b) u" by (auto simp: array_write_moved_def block_at_add add.assoc)
qed (simp add: array_write_moved_def can_write_def)

text \<open>With a steady socket the loops get everything that is there.\<close>

definition can_read :: "('k \<Rightarrow> bool) \<Rightarrow> ('k \<Rightarrow> byte list) \<Rightarrow> 'k sstream \<Rightarrow> nat" where
  "can_read conn inp s = (if isConnected conn s then length (stream_bytes inp s) else 0)"

definition can_send :: "('k \<Rightarrow> bool) \<Rightarrow> 'k sstream \<Rightarrow> nat \<Rightarrow> nat" where
  "can_send conn s n = (if isConnected conn s then n else 0)"

context steady_socket
begin

lemma steady_recv:
  assumes "0 < n" "n \<le> can_read conn inp s"
  obtains k rt bs k' where "m_socket s = Some k" "conn k" "recv k n = (rt, bs, k')" "0 < rt" "conn k'"
    "rt \<le> int n" "length bs = nat rt" "inp k = bs @ inp k'"
proof -
  have "isConnected conn s" "stream_bytes inp s \<noteq> []" using assms by (auto simp: can_read_def split: if_splits)
  then obtain k where k: "m_socket s = Some k" "conn k" "inp k \<noteq> []" by (auto elim!: isConnectedE)
  obtain rt bs k' where r: "recv k n = (rt, bs, k')" by (metis prod_cases3)
  show thesis using that [OF k(1,2) r] recv_law [OF k(2) r] recv_live [OF k(2) assms(1) k(3) r] by blast
qed

lemma steady_send:
  assumes "isConnected conn s" "bs \<noteq> []"
  obtains k rt k' where "m_socket s = Some k" "conn k" "send k bs = (rt, k')" "0 < rt" "conn k'"
    "rt \<le> int (length bs)"
proof -
  obtain k where k: "m_socket s = Some k" "conn k" using assms(1) by (rule isConnectedE)
  obtain rt k' where r: "send k bs = (rt, k')" by (metis surj_pair)
  show thesis using that [OF k r] send_law [OF k(2) r] send_live [OF k(2) assms(2) r] by blast
qed

end

sublocale steady_socket \<subseteq> all_into_buffer: live_mover "read_buf_step (stream_read conn recv)" "\<lambda>_. True"
  "read_moved inp out" "\<lambda>s. can_read conn inp (fst s)"
proof unfold_locales
  fix s :: "'k sstream \<times> byte list" and n
  assume n: "0 < n" "n \<le> int (can_read conn inp (fst s))"
  then obtain k rt bs k' where k: "m_socket (fst s) = Some k" "conn k" "recv k (nat n) = (rt, bs, k')" "0 < rt"
      "conn k'" "length bs = nat rt" "inp k = bs @ inp k'"
    using steady_recv [of "nat n" "fst s"] by (metis nat_le_iff zero_less_nat_eq)
  then show "\<exists>len t. read_buf_step (stream_read conn recv) s n = Inr (len, t) \<and> 0 < len \<and>
      int (can_read conn inp (fst s)) - len \<le> int (can_read conn inp (fst t))"
    by (simp add: read_buf_step_def stream_read_def can_read_def isConnected_def)
qed

sublocale steady_socket \<subseteq> all_from_buffer: live_mover "write_buf_step (stream_write conn send)" "\<lambda>_. True"
  "write_moved inp out" "\<lambda>s. can_send conn (fst s) (length (snd s))"
proof unfold_locales
  fix s :: "'k sstream \<times> byte list" and n
  assume n: "0 < n" "n \<le> int (can_send conn (fst s) (length (snd s)))"
  then have c: "isConnected conn (fst s)" "take (nat n) (snd s) \<noteq> []" by (auto simp: can_send_def split: if_splits)
  obtain k rt k' where k: "m_socket (fst s) = Some k" "conn k" "send k (take (nat n) (snd s)) = (rt, k')" "0 < rt"
      "conn k'" "rt \<le> int (length (take (nat n) (snd s)))"
    by (rule steady_send [OF c])
  then show "\<exists>len t. write_buf_step (stream_write conn send) s n = Inr (len, t) \<and> 0 < len \<and>
      int (can_send conn (fst s) (length (snd s))) - len \<le> int (can_send conn (fst t) (length (snd t)))"
    by (simp add: write_buf_step_def stream_write_def can_send_def isConnected_def)
qed

sublocale steady_socket \<subseteq> all_into_array: live_mover "array_step (stream_read_ba conn recv)" "\<lambda>s. wf (snd s)"
  "array_read_moved inp out" "\<lambda>s. can_read conn inp (fst s)"
proof unfold_locales
  fix s :: "'k sstream \<times> bytearray" and n
  assume wf: "wf (snd s)" and n: "0 < n" "n \<le> int (can_read conn inp (fst s))"
  then obtain k rt bs k' where k: "m_socket (fst s) = Some k" "conn k" "recv k (nat n) = (rt, bs, k')" "0 < rt"
      "conn k'" "rt \<le> int (nat n)" "length bs = nat rt" "inp k = bs @ inp k'"
    using steady_recv [of "nat n" "fst s"] by (metis nat_le_iff zero_less_nat_eq)
  have "0 < nat n" using n by simp
  then obtain ba' where "stream_read_ba conn recv (fst s) (snd s) (nat n) = Inr (rt, (fst s)\<lparr>m_socket := Some k'\<rparr>, ba')"
    using stream_read_ba_step [where conn = conn and recv = recv and n = "nat n", OF wf k(1-3) _ k(6,7)] by blast
  then show "\<exists>len t. array_step (stream_read_ba conn recv) s n = Inr (len, t) \<and> 0 < len \<and>
      int (can_read conn inp (fst s)) - len \<le> int (can_read conn inp (fst t))"
    using k by (simp add: array_step_def can_read_def isConnected_def)
qed

context steady_socket
begin

lemma steady_write_array:
  assumes "can_write s" "isConnected conn (fst s)" "m_position (snd s) < m_size (snd s)" "0 < n"
  obtains rt t where "array_step (stream_write_ba conn send) s n = Inr (rt, t)" "0 < rt" "rt \<le> n"
    "isConnected conn (fst t)" "can_write t" "m_size (snd t) = m_size (snd s)"
    "m_position (snd t) = m_position (snd s) + nat rt"
proof -
  let ?p = "m_position (snd s)"
  define m where "m = min (nat n) (m_size (snd s) - ?p)"
  have wf: "wf (snd s)" using assms(1) by (simp add: can_write_def)
  then have "m_size (snd s) \<le> length (mem (snd s))" using length_mem by (simp add: wf_def)
  then have lb: "length (block_at ?p m (mem (snd s))) = m" using assms(3) by (simp add: m_def min_def)
  moreover have "0 < m" using assms(3,4) by (simp add: m_def)
  ultimately have ne: "block_at ?p m (mem (snd s)) \<noteq> []" by force
  obtain k rt k' where k: "m_socket (fst s) = Some k" "conn k" "send k (block_at ?p m (mem (snd s))) = (rt, k')"
      "0 < rt" "conn k'" "rt \<le> int m"
    by (rule steady_send [OF assms(2) ne]) (auto simp: lb)
  have "0 < nat n" using assms(4) by simp
  then obtain ba' where "stream_write_ba conn send (fst s) (snd s) (nat n) = Inr (rt, (fst s)\<lparr>m_socket := Some k'\<rparr>, ba')"
      "wf ba'" "m_position ba' = ?p + nat rt" "m_size ba' = m_size (snd s)"
    using stream_write_ba_step [where conn = conn and send = send and n = "nat n", OF wf assms(3) k(1,2) _ m_def k(3,6)]
    by blast
  moreover have "rt \<le> n" "?p + nat rt \<le> m_size (snd s)" using k(4,6) assms(3) by (auto simp: m_def)
  ultimately show thesis
    using k by (intro that [of rt "((fst s)\<lparr>m_socket := Some k'\<rparr>, ba')"])
      (simp_all add: array_step_def isConnected_def can_write_def)
qed

lemma write_array_overrun:
  assumes "can_write s" "isConnected conn (fst s)" "int (m_size (snd s) - m_position (snd s)) < left"
  shows "fix_loop (array_step (stream_write_ba conn send)) whole s left = Inl OutOfBounds"
  using assms
proof (induction "m_size (snd s) - m_position (snd s)" arbitrary: s left rule: less_induct)
  case less
  show ?case
  proof (cases "m_position (snd s) < m_size (snd s)")
    case False
    then have "m_size (snd s) = m_position (snd s)" using less.prems(1) by (simp add: can_write_def)
    then show ?thesis
      using less.prems stream_write_ba_empty [OF less.prems(2)] by (simp add: fix_loop.simps [of _ whole s] array_step_def)
  next
    case True
    obtain rt t where t: "array_step (stream_write_ba conn send) s left = Inr (rt, t)" "0 < rt" "rt \<le> left"
        "isConnected conn (fst t)" "can_write t" "m_size (snd t) = m_size (snd s)"
        "m_position (snd t) = m_position (snd s) + nat rt"
      by (rule steady_write_array [OF less.prems(1,2) True]) (use less.prems(3) in auto)
    have "m_position (snd t) \<le> m_size (snd t)" using t(5) by (simp add: can_write_def)
    then have "fix_loop (array_step (stream_write_ba conn send)) whole t (left - rt) = Inl OutOfBounds"
      using t True less.prems(3) by (intro less.hyps) auto
    then show ?thesis using t less.prems(3) by (simp add: fix_loop.simps [of _ whole s])
  qed
qed

end

sublocale steady_socket \<subseteq> all_from_array: live_mover "array_step (stream_write_ba conn send)" can_write
  "array_write_moved inp out" "\<lambda>s. can_send conn (fst s) (m_size (snd s) - m_position (snd s))"
proof unfold_locales
  fix s :: "'k sstream \<times> bytearray" and n
  assume cw: "can_write s" and n: "0 < n" "n \<le> int (can_send conn (fst s) (m_size (snd s) - m_position (snd s)))"
  have c: "isConnected conn (fst s)" "m_position (snd s) < m_size (snd s)"
    using n by (auto simp: can_send_def split: if_splits)
  obtain rt t where "array_step (stream_write_ba conn send) s n = Inr (rt, t)" "0 < rt" "rt \<le> n"
      "isConnected conn (fst t)" "can_write t" "m_size (snd t) = m_size (snd s)"
      "m_position (snd t) = m_position (snd s) + nat rt"
    by (rule steady_write_array [OF cw c n(1)])
  then show "\<exists>len t. array_step (stream_write_ba conn send) s n = Inr (len, t) \<and> 0 < len \<and>
      int (can_send conn (fst s) (m_size (snd s) - m_position (snd s))) - len \<le>
      int (can_send conn (fst t) (m_size (snd t) - m_position (snd t)))"
    using c by (simp add: can_send_def)
qed

text \<open>What the loops do with a socket that keeps the contract.\<close>

context stream_socket
begin

lemmas loops_move = into_buffer.FixSize_moves from_buffer.FixSize_moves
  into_array.FixSize_moves from_array.FixSize_moves

end

context steady_socket
begin

lemmas loops_complete = all_into_buffer.FixSize_completes all_from_buffer.FixSize_completes
  all_into_array.FixSize_completes all_from_array.FixSize_completes

end

section \<open>A socket that behaves as the manual says\<close>

text \<open>
  \<open>k_in\<close> is what the peer has sent, in segments; a recv takes bytes from the first one only. The
  socket buffer takes at most \<open>k_room\<close> bytes of one send; the kernel drains it before the next.
\<close>

record ksock =
  k_connected :: bool
  k_in :: "byte list list"
  k_out :: "byte list"
  k_room :: nat

definition k_recv :: "ksock \<Rightarrow> nat \<Rightarrow> int \<times> byte list \<times> ksock" where
  "k_recv k n =
     (case dropWhile (\<lambda>seg. seg = []) (k_in k) of
        [] \<Rightarrow> (0, [], k)
      | seg # segs \<Rightarrow> (int (length (take n seg)), take n seg, k\<lparr>k_in := drop n seg # segs\<rparr>))"

definition k_send :: "ksock \<Rightarrow> byte list \<Rightarrow> int \<times> ksock" where
  "k_send k bs =
     (let n = min (length bs) (Suc (k_room k)) in (int n, k\<lparr>k_out := k_out k @ take n bs\<rparr>))"

definition k_input :: "ksock \<Rightarrow> byte list" where
  "k_input k = concat (k_in k)"

definition sample_stream :: "ksock sstream" where
  "sample_stream = \<lparr>m_socket = Some \<lparr>k_connected = True, k_in = [[7], [8, 9]], k_out = [], k_room = 0\<rparr>, m_owner = True\<rparr>"

lemma concat_dropWhile_Nil: "concat (dropWhile (\<lambda>seg. seg = []) xss) = concat xss"
  by (induction xss) auto

lemma first_segment: "concat xss \<noteq> [] \<Longrightarrow> \<exists>seg segs. dropWhile (\<lambda>seg. seg = []) xss = seg # segs \<and> seg \<noteq> []"
  by (induction xss) auto

interpretation ks: steady_socket k_connected k_recv k_send k_input k_out
proof unfold_locales
  fix k n rt bs k'
  assume r: "k_recv k n = (rt, bs, k')"
  show "-1 \<le> rt \<and> rt \<le> int n \<and> length bs = nat rt \<and> k_input k = bs @ k_input k' \<and> k_out k' = k_out k"
  proof (cases "dropWhile (\<lambda>seg. seg = []) (k_in k)")
    case Nil
    then show ?thesis using r Nil by (auto simp: k_recv_def k_input_def simp del: dropWhile_eq_Nil_conv)
  next
    case (Cons seg segs)
    then have "concat (k_in k) = seg @ concat segs" using concat_dropWhile_Nil [of "k_in k"] by simp
    then show ?thesis using r Cons by (auto simp: k_recv_def k_input_def)
  qed
next
  fix k n rt bs k'
  assume "0 < n" "k_input k \<noteq> []" "k_connected k" and r: "k_recv k n = (rt, bs, k')"
  moreover obtain seg segs where "dropWhile (\<lambda>seg. seg = []) (k_in k) = seg # segs" "seg \<noteq> []"
    using first_segment calculation(2) unfolding k_input_def by blast
  ultimately show "0 < rt \<and> k_connected k'" by (auto simp: k_recv_def k_input_def)
qed (auto simp: k_send_def k_input_def Let_def)

section \<open>The four loops\<close>

text \<open>
  Claim C20. readFixSize into a ByteArray, whatever recv does: the bytes taken from the socket are
  the ones stored at the position, in order; it returns the length when all have come, and else
  the 0 or -1 of the recv that ended it, with the bytes so far kept and the position behind them.
\<close>

theorem readFixSize_stores:
  assumes "stream_socket conn recv send inp out" "wf ba" "n < 2 ^ 31"
    "readFixSize (stream_read_ba conn recv) s ba n = Inr (r, s', ba')"
  shows "\<exists>bs j. stream_bytes inp s = bs @ stream_bytes inp s' \<and> stream_bytes out s' = stream_bytes out s \<and>
    wf ba' \<and> mem ba' = overwrite (m_position ba) bs (mem ba @ j) \<and>
    m_position ba' = m_position ba + length bs \<and>
    (r = int n \<and> length bs = n \<or> (r = 0 \<or> r = -1) \<and> length bs < n)"
  using stream_socket.loops_move(3) [OF assms(1), of "(s, ba)" n r "(s', ba')"] assms(2-)
  by (fastforce simp: readFixSize_def array_read_moved_def)

theorem readFixSize_stores_witness:
  "\<exists>s' ba' bs. readFixSize (stream_read_ba k_connected k_recv) sample_stream sample 2 = Inr (2, s', ba') \<and>
     stream_bytes k_input sample_stream = bs @ stream_bytes k_input s' \<and> length bs = 2"
proof -
  have "case readFixSize (stream_read_ba k_connected k_recv) sample_stream sample 2 of
      Inl _ \<Rightarrow> False | Inr (r, s', ba') \<Rightarrow> r = 2"
    by code_simp
  then obtain s' ba' where r: "readFixSize (stream_read_ba k_connected k_recv) sample_stream sample 2 = Inr (2, s', ba')"
    by (auto split: sum.splits)
  then show ?thesis using readFixSize_stores [OF ks.stream_socket_axioms wf_sample _ r] by auto
qed



text \<open>
  writeFixSize from a ByteArray, whatever send does: the socket has got exactly the bytes
  between the old position and the new one, and the array is unchanged.
\<close>

theorem writeFixSize_sends:
  assumes "stream_socket conn recv send inp out" "wf ba" "m_position ba \<le> m_size ba" "n < 2 ^ 31"
    "writeFixSize (stream_write_ba conn send) s ba n = Inr (r, s', ba')"
  shows "\<exists>m. stream_bytes out s' = stream_bytes out s @ block_at (m_position ba) m (mem ba) \<and>
    stream_bytes inp s' = stream_bytes inp s \<and>
    wf ba' \<and> mem ba' = mem ba \<and> m_size ba' = m_size ba \<and> m_position ba' = m_position ba + m \<and>
    m_position ba' \<le> m_size ba \<and> (r = int n \<and> m = n \<or> (r = 0 \<or> r = -1) \<and> m < n)"
  using stream_socket.loops_move(4) [OF assms(1), of "(s, ba)" n r "(s', ba')"] assms(2-)
  by (auto simp: writeFixSize_def array_write_moved_def can_write_def)

theorem writeFixSize_sends_witness:
  "\<exists>s' ba' m. writeFixSize (stream_write_ba k_connected k_send) sample_stream sample 3 = Inr (3, s', ba') \<and>
     stream_bytes k_out s' = block_at 1 m (mem sample) \<and> m_position ba' = 1 + m \<and> m = 3"
proof -
  have "case writeFixSize (stream_write_ba k_connected k_send) sample_stream sample 3 of
      Inl _ \<Rightarrow> False | Inr (r, s', ba') \<Rightarrow> r = 3"
    by code_simp
  then obtain s' ba' where r: "writeFixSize (stream_write_ba k_connected k_send) sample_stream sample 3 = Inr (3, s', ba')"
    by (auto split: sum.splits)
  then show ?thesis using writeFixSize_sends [OF ks.stream_socket_axioms wf_sample _ _ r]
    by (auto simp: sample_stream_def stream_bytes_def)
qed

text \<open>
  The loops over raw buffers: readFixSize leaves in the buffer what it took from the
  socket, writeFixSize has handed the socket what it no longer holds, and the results are as above.
\<close>

theorem buffer_loops_move:
  assumes "stream_socket conn recv send inp out"
  shows "(n < 2 ^ 31 \<longrightarrow> readFixSize_buf (stream_read conn recv) s n = Inr (r, s', bs) \<longrightarrow>
      stream_bytes inp s = bs @ stream_bytes inp s' \<and> stream_bytes out s' = stream_bytes out s \<and>
      (r = int n \<and> length bs = n \<or> (r = 0 \<or> r = -1) \<and> length bs < n)) \<and>
    (length cs < 2 ^ 31 \<longrightarrow> writeFixSize_buf (stream_write conn send) s cs = Inr (r, s', rest) \<longrightarrow>
      (\<exists>ds. cs = ds @ rest \<and> stream_bytes out s' = stream_bytes out s @ ds \<and>
        stream_bytes inp s' = stream_bytes inp s \<and>
        (r = int (length cs) \<and> rest = [] \<or> (r = 0 \<or> r = -1) \<and> rest \<noteq> [])))"
proof (intro conjI impI)
  assume "n < 2 ^ 31" "readFixSize_buf (stream_read conn recv) s n = Inr (r, s', bs)"
  then obtain m where "read_moved inp out (s, []) m (s', bs)" "r = int n \<and> m = n \<or> (r = 0 \<or> r = -1) \<and> m < n"
    using stream_socket.loops_move(1) [OF assms, where s = "(s, [])" and n = n and r = r and t = "(s', bs)"]
    unfolding readFixSize_buf_def by blast
  then show "stream_bytes inp s = bs @ stream_bytes inp s'" "stream_bytes out s' = stream_bytes out s"
      "r = int n \<and> length bs = n \<or> (r = 0 \<or> r = -1) \<and> length bs < n"
    by (auto simp: read_moved_def)
next
  assume "length cs < 2 ^ 31" "writeFixSize_buf (stream_write conn send) s cs = Inr (r, s', rest)"
  then obtain m where m: "write_moved inp out (s, cs) m (s', rest)"
      "r = int (length cs) \<and> m = length cs \<or> (r = 0 \<or> r = -1) \<and> m < length cs"
    using stream_socket.loops_move(2) [OF assms, where s = "(s, cs)" and n = "length cs" and r = r and t = "(s', rest)"]
    unfolding writeFixSize_buf_def by blast
  obtain ds where ds: "length ds = m" "cs = ds @ rest" "stream_bytes inp s' = stream_bytes inp s"
      "stream_bytes out s' = stream_bytes out s @ ds"
    using m(1) unfolding write_moved_def by auto
  moreover have "length cs = m + length rest" using ds(1,2) by simp
  ultimately show "\<exists>ds. cs = ds @ rest \<and> stream_bytes out s' = stream_bytes out s @ ds \<and>
        stream_bytes inp s' = stream_bytes inp s \<and>
        (r = int (length cs) \<and> rest = [] \<or> (r = 0 \<or> r = -1) \<and> rest \<noteq> [])"
    using m(2) by (intro exI [of _ ds]) auto
qed

theorem buffer_loops_move_witness:
  "\<exists>s' bs. readFixSize_buf (stream_read k_connected k_recv) sample_stream 5 = Inr (0, s', bs) \<and>
     stream_bytes k_input sample_stream = bs @ stream_bytes k_input s' \<and> length bs < 5"
proof -
  have "case readFixSize_buf (stream_read k_connected k_recv) sample_stream 5 of
      Inl _ \<Rightarrow> False | Inr (r, s', bs) \<Rightarrow> r = 0"
    by code_simp
  then obtain s' bs where r: "readFixSize_buf (stream_read k_connected k_recv) sample_stream 5 = Inr (0, s', bs)"
    by (auto split: sum.splits)
  then show ?thesis
    using buffer_loops_move [OF ks.stream_socket_axioms, of 5 sample_stream 0 s' bs] by auto
qed

text \<open>
  Asked for more bytes than the ByteArray has left to read, writeFixSize sends those and
  then, with the connection still up, takes the address of the first element of an empty vector.
\<close>

theorem writeFixSize_overrun:
  assumes "steady_socket conn recv send inp out" "wf ba" "m_position ba \<le> m_size ba"
    "isConnected conn s" "m_size ba - m_position ba < n"
  shows "writeFixSize (stream_write_ba conn send) s ba n = Inl OutOfBounds"
  using steady_socket.write_array_overrun [OF assms(1), of "(s, ba)" "int n" "int n"] assms(2-)
  by (simp add: writeFixSize_def FixSize_def can_write_def)

theorem writeFixSize_overrun_witness:
  "writeFixSize (stream_write_ba k_connected k_send) sample_stream sample 5 = Inl OutOfBounds"
  by (rule writeFixSize_overrun [OF ks.steady_socket_axioms wf_sample])
     (simp_all add: sample_stream_def isConnected_def)

end
