(* ===== verification/HttpSession.thy ===== *)
theory HttpSession
  imports RequestParser HttpServlet Stream
begin

text \<open>
  The server's side of a connection (exhy/http/http_session.cpp, http_server.cpp): recvRequest with its
  buffer and its body, sendResponse and the loop of handleClient. A buffer is the characters that
  are valid in it; streams carry bytes. The loops may wait for ever, so they give \<open>None\<close> when they do not
  return. \<open>cl\<close> closes the socket.
\<close>

section \<open>Bytes and characters\<close>

definition chars_of :: "byte list \<Rightarrow> string" where
  "chars_of = map (\<lambda>b. char_of (unat b))"

definition bytes_of :: "string \<Rightarrow> byte list" where
  "bytes_of = map of_char"

lemma chars_of_simps [simp]:
  "chars_of (as @ bs) = chars_of as @ chars_of bs" "length (chars_of bs) = length bs" "chars_of [] = []"
  "bytes_of (s @ t) = bytes_of s @ bytes_of t" "length (bytes_of s) = length s" "bytes_of [] = []"
  by (simp_all add: chars_of_def bytes_of_def)

lemma chars_bytes [simp]: "chars_of (bytes_of s) = s"
proof -
  have "char_of (unat (of_char c :: byte)) = c" for c
  proof -
    have "(of_char c :: byte) = word_of_nat (of_char c)" by (simp only: of_nat_of_char)
    then have "unat (of_char c :: byte) = take_bit 8 (of_char c)" by (simp only: unsigned_of_nat) simp
    then show ?thesis by (simp add: take_bit_nat_eq_self)
  qed
  then show ?thesis by (simp add: chars_of_def bytes_of_def comp_def map_idI)
qed

lemma chars_of_take_drop: "chars_of (take n bs) = take n (chars_of bs)" "chars_of (drop n bs) = drop n (chars_of bs)"
  by (simp_all add: chars_of_def take_map drop_map)

section \<open>HttpSession\<close>

text \<open>
  The loop that reads the head: \<open>data\<close> are the first \<open>offset\<close> characters of the buffer. \<open>None\<close> inside the
  result is the null pointer after \<open>close\<close>.
\<close>

partial_function (option) recv_head ::
  "('k \<Rightarrow> bool) \<Rightarrow> ('k \<Rightarrow> nat \<Rightarrow> int \<times> byte list \<times> 'k) \<Rightarrow> ('k \<Rightarrow> 'k) \<Rightarrow> nat \<Rightarrow> request_parser \<Rightarrow> string \<Rightarrow> 'k sstream \<Rightarrow>
     ((request_parser \<times> string) option \<times> 'k sstream) res option" where
  "recv_head conn recv cl buff_size q data s =
     (case stream_read conn recv s (buff_size - length data) of
        Inl e \<Rightarrow> Some (Inl e)
      | Inr (len, bs, s1) \<Rightarrow>
          if len \<le> 0 then Some (Inr (None, stream_close cl s1))
          else (case rqp_execute q (data @ chars_of bs) of
                  Inl e \<Rightarrow> Some (Inl e)
                | Inr (nparse, rest, q1) \<Rightarrow>
                    if rqp_hasError q1 then Some (Inr (None, stream_close cl s1))
                    else if int (length rest) = to_int (int buff_size) then Some (Inr (None, stream_close cl s1))
                    else if rqp_isFinished q1 \<noteq> 0 then Some (Inr (Some (q1, rest), s1))
                    else recv_head conn recv cl buff_size q1 rest s1))"

text \<open>The body: what is left in the buffer and then the rest by readFixSize, into a string of \<open>len\<close> NULs.\<close>

definition recv_body ::
  "('k \<Rightarrow> bool) \<Rightarrow> ('k \<Rightarrow> nat \<Rightarrow> int \<times> byte list \<times> 'k) \<Rightarrow> ('k \<Rightarrow> 'k) \<Rightarrow> int \<Rightarrow> string \<Rightarrow> 'k sstream \<Rightarrow>
     (string option \<times> 'k sstream) res" where
  "recv_body conn recv cl len data s =
     (let body = replicate (nat len) (CHR 0x00);
          offset = int (length data);
          first = (if offset \<le> len then data else take (nat len) data);
          body1 = overwrite 0 first body;
          left = len - offset
      in if 0 < left then
           sbind (readFixSize_buf (stream_read conn recv) s (nat left))
             (\<lambda>(rt, s1, bs). if rt \<le> 0 then Inr (None, stream_close cl s1)
                              else Inr (Some (overwrite (length first) (chars_of bs) body1), s1))
         else Inr (Some body1, s))"

text \<open>\<open>h\<close> is what the members of the parser hold that nothing initialises.\<close>

definition recvRequest ::
  "('k \<Rightarrow> bool) \<Rightarrow> ('k \<Rightarrow> nat \<Rightarrow> int \<times> byte list \<times> 'k) \<Rightarrow> ('k \<Rightarrow> 'k) \<Rightarrow> (string \<Rightarrow> u64 option) \<Rightarrow> nat \<Rightarrow> http_parser \<Rightarrow>
     'k sstream \<Rightarrow> (http_request option \<times> 'k sstream) res option" where
  "recvRequest conn recv cl cast buff_size h s =
     map_option
       (\<lambda>r. sbind r (\<lambda>(m, s1).
          case m of
            None \<Rightarrow> Inr (None, s1)
          | Some (q, data) \<Rightarrow>
              let len = sint (ucast (rqp_getContentLength cast q) :: u32)
              in if 0 < len then
                   sbind (recv_body conn recv cl len data s1) (\<lambda>(b, s2).
                     case b of
                       None \<Rightarrow> Inr (None, s2)
                     | Some body \<Rightarrow> Inr (Some (init_request ((qp_data q)\<lparr>rq_body := body\<rparr>)), s2))
                 else Inr (Some (init_request (qp_data q)), s1)))
       (recv_head conn recv cl buff_size (new_HttpRequestParser h) [] s)"

definition sendResponse ::
  "('k \<Rightarrow> bool) \<Rightarrow> ('k \<Rightarrow> byte list \<Rightarrow> int \<times> 'k) \<Rightarrow> http_response \<Rightarrow> 'k sstream \<Rightarrow> (int \<times> 'k sstream) res" where
  "sendResponse conn send rsp s =
     sbind (writeFixSize_buf (stream_write conn send) s (bytes_of (dump_response rsp))) (\<lambda>(rt, s1, _). Inr (rt, s1))"

section \<open>HttpServer\<close>

text \<open>The loop of handleClient. The servlets get the session; its result is the session when it has been closed.\<close>

partial_function (option) handle_client ::
  "('k \<Rightarrow> bool) \<Rightarrow> ('k \<Rightarrow> nat \<Rightarrow> int \<times> byte list \<times> 'k) \<Rightarrow> ('k \<Rightarrow> byte list \<Rightarrow> int \<times> 'k) \<Rightarrow> ('k \<Rightarrow> 'k) \<Rightarrow>
     (string \<Rightarrow> u64 option) \<Rightarrow> nat \<Rightarrow> http_parser \<Rightarrow> (string \<Rightarrow> string \<Rightarrow> bool) \<Rightarrow> bool \<Rightarrow> 'k sstream dispatch \<Rightarrow>
     'k sstream \<Rightarrow> 'k sstream res option" where
  "handle_client conn recv send cl cast buff_size h fnm keepalive d s =
     (case recvRequest conn recv cl cast buff_size h s of
        None \<Rightarrow> None
      | Some (Inl e) \<Rightarrow> Some (Inl e)
      | Some (Inr (None, s1)) \<Rightarrow> Some (Inr (stream_close cl s1))
      | Some (Inr (Some req, s1)) \<Rightarrow>
          (case dispatch_handle fnm d
                  (req, (new_HttpResponse (rq_version req) (rq_close req \<or> \<not> keepalive))\<lparr>rs_body := ''hello wxy 2021 11 20''\<rparr>, s1) of
             Inl e \<Rightarrow> Some (Inl e)
           | Inr (_, req1, rsp, s2) \<Rightarrow>
               (case sendResponse conn send rsp s2 of
                  Inl e \<Rightarrow> Some (Inl e)
                | Inr (_, s3) \<Rightarrow>
                    if \<not> keepalive \<or> rq_close req1 then Some (Inr (stream_close cl s3))
                    else handle_client conn recv send cl cast buff_size h fnm keepalive d s3)))"

end
