(* ===== verification/HttpWire.thy ===== *)
theory HttpWire
  imports Http
begin

text \<open>
  What a peer that reads by the rules of HTTP/1.1 makes of the output of HttpRequest and
  HttpResponse: a reference reader (start line, header lines up to the empty line, the rest is the
  body) and the theorems that it finds in the output exactly what the object holds.
\<close>

section \<open>A reference reader\<close>

fun split_crlf :: "string \<Rightarrow> (string \<times> string) option" where
  "split_crlf (c # d # s) =
     (if c = CHR 0x0D \<and> d = CHR 0x0A then Some ([], s)
      else map_option (\<lambda>(l, r). (c # l, r)) (split_crlf (d # s)))"
| "split_crlf s = None"

lemma split_crlf_shorter: "split_crlf s = Some (l, r) \<Longrightarrow> length r < length s"
  by (induction s arbitrary: l rule: split_crlf.induct) (auto split: if_splits)

lemma split_crlf_line: "CHR 0x0D \<notin> set l \<Longrightarrow> split_crlf (l @ CRLF @ s) = Some (l, s)"
proof (induction l)
  case (Cons c l)
  then show ?case by (cases l) (auto simp: CRLF_def)
qed (simp add: CRLF_def)

definition split_header :: "string \<Rightarrow> string \<times> string" where
  "split_header l = (takeWhile (\<lambda>c. c \<noteq> CHR '':'') l, drop 2 (dropWhile (\<lambda>c. c \<noteq> CHR '':'') l))"

lemma split_header_line: "CHR '':'' \<notin> set k \<Longrightarrow> split_header (k @ '': '' @ v) = (k, v)"
  by (induction k) (auto simp: split_header_def)

function read_headers :: "string \<Rightarrow> ((string \<times> string) list \<times> string) option" where
  "read_headers s =
     (case split_crlf s of
        None \<Rightarrow> None
      | Some (l, r) \<Rightarrow>
          if l = [] then Some ([], r)
          else map_option (\<lambda>(hs, b). (split_header l # hs, b)) (read_headers r))"
  by pat_completeness auto
termination by (relation "measure length") (auto dest: split_crlf_shorter)

declare read_headers.simps [simp del]

definition read_message :: "string \<Rightarrow> (string \<times> (string \<times> string) list \<times> string) option" where
  "read_message s = (case split_crlf s of None \<Rightarrow> None | Some (l, r) \<Rightarrow> map_option (Pair l) (read_headers r))"

section \<open>Reading what was written\<close>

definition header_line :: "string \<times> string \<Rightarrow> string" where
  "header_line p = fst p @ '': '' @ snd p @ CRLF"

definition clean_header :: "string \<times> string \<Rightarrow> bool" where
  "clean_header p \<longleftrightarrow> CHR 0x0D \<notin> set (fst p) \<and> CHR '':'' \<notin> set (fst p) \<and> CHR 0x0D \<notin> set (snd p)"

lemma read_headers_lines:
  "list_all clean_header hs \<Longrightarrow> read_headers (concat (map header_line hs) @ CRLF @ body) = Some (hs, body)"
proof (induction hs)
  case Nil
  then show ?case using split_crlf_line [of "[]" body] by (simp add: read_headers.simps)
next
  case (Cons p hs)
  have "CHR 0x0D \<notin> set (fst p @ '': '' @ snd p)" "CHR '':'' \<notin> set (fst p)"
    using Cons.prems by (auto simp: clean_header_def)
  then have "split_crlf ((fst p @ '': '' @ snd p) @ CRLF @ (concat (map header_line hs) @ CRLF @ body)) =
      Some (fst p @ '': '' @ snd p, concat (map header_line hs) @ CRLF @ body)"
    "split_header (fst p @ '': '' @ snd p) = p"
    using split_crlf_line [of "fst p @ '': '' @ snd p"] split_header_line [of "fst p" "snd p"] by auto
  moreover have "header_line p = fst p @ '': '' @ snd p @ CRLF" by (simp add: header_line_def)
  ultimately show ?case using Cons by (simp add: read_headers.simps [of "fst p @ _"])
qed

lemma read_message_lines:
  assumes "CHR 0x0D \<notin> set l" "list_all clean_header hs"
  shows "read_message (l @ CRLF @ concat (map header_line hs) @ CRLF @ body) = Some (l, hs, body)"
  using split_crlf_line [OF assms(1)] read_headers_lines [OF assms(2)] by (simp add: read_message_def)

lemma dump_headers_lines:
  "dump_headers ws m =
     concat (map header_line (filter (\<lambda>p. ws \<or> case_key (fst p) \<noteq> case_key ''connection'') m))"
  by (induction m) (auto simp: header_line_def strcasecmp_zero)

definition connection_header :: "bool \<Rightarrow> string \<times> string" where
  "connection_header close = (''connection'', if close then ''close'' else ''keep-alive'')"

lemma dump_connection_line: "dump_connection close = header_line (connection_header close)"
  by (simp add: dump_connection_def header_line_def connection_header_def)

lemma dec_no_CR: "CHR 0x0D \<notin> set (dec n)"
  using dec_digits [of n] by (auto simp: is_digit_def)

lemma dump_version_no_CR: "CHR 0x0D \<notin> set (dump_version v)"
  by (simp add: dump_version_def dec_no_CR)

lemma status_string_no_CR: "CHR 0x0D \<notin> set (HttpStatusToString s)"
proof (cases "map_of status_table s")
  case (Some d)
  then have "(s, d) \<in> set status_table" by (rule map_of_SomeD)
  moreover have "\<forall>p \<in> set status_table. CHR 0x0D \<notin> set (snd p)" by code_simp
  ultimately show ?thesis using Some by (auto simp: HttpStatusToString_def)
qed (simp add: HttpStatusToString_def)

lemma method_string_no_CR: "CHR 0x0D \<notin> set (HttpMethodToString m)"
  by (cases m) (simp_all add: table_simps)

section \<open>Responses\<close>

definition status_line :: "http_response \<Rightarrow> string" where
  "status_line r = ''HTTP/'' @ dump_version (rs_version r) @ '' '' @ dec (unat (word_of_int (rs_status r) :: u32)) @ '' '' @
     (if rs_reason r = [] then HttpStatusToString (rs_status r) else rs_reason r)"

definition rs_fields :: "http_response \<Rightarrow> (string \<times> string) list" where
  "rs_fields r =
     filter (\<lambda>p. rs_websocket r \<or> case_key (fst p) \<noteq> case_key ''connection'') (rs_headers r) @
     map (Pair ''Set-Cookie'') (rs_cookies r) @
     (if rs_websocket r then [] else [connection_header (rs_close r)]) @
     (if rs_body r = [] then [] else [(''content-length'', dec (length (rs_body r)))])"

definition clean_response :: "http_response \<Rightarrow> bool" where
  "clean_response r \<longleftrightarrow> list_all clean_header (rs_headers r) \<and> list_all (\<lambda>c. CHR 0x0D \<notin> set c) (rs_cookies r) \<and>
     CHR 0x0D \<notin> set (rs_reason r)"

lemma dump_response_lines:
  "dump_response r = status_line r @ CRLF @ concat (map header_line (rs_fields r)) @ CRLF @ rs_body r"
  by (simp add: dump_response_def status_line_def rs_fields_def dump_headers_lines dump_connection_line
      header_line_def comp_def)

lemma clean_fields:
  "clean_response r \<Longrightarrow> CHR 0x0D \<notin> set (status_line r) \<and> list_all clean_header (rs_fields r)"
  by (auto simp: clean_response_def status_line_def rs_fields_def dump_version_no_CR dec_no_CR status_string_no_CR
      clean_header_def connection_header_def list_all_iff)

text \<open>
  Claim C28. What HttpResponse writes is one HTTP message: a reader finds the status line, the
  headers (the connection header only in the form of the close flag), the cookies and the whole
  body; the content-length header gives the length of a body that is not empty.
\<close>

theorem response_read_back:
  assumes "clean_response r"
  shows "read_message (dump_response r) = Some (status_line r, rs_fields r, rs_body r) \<and>
    (rs_body r \<noteq> [] \<longrightarrow> (''content-length'', dec (length (rs_body r))) \<in> set (rs_fields r) \<and>
       undec (dec (length (rs_body r))) = length (rs_body r)) \<and>
    (\<not> rs_websocket r \<longrightarrow> filter (\<lambda>p. case_key (fst p) = case_key ''connection'') (rs_fields r) = [connection_header (rs_close r)])"
proof (intro conjI impI)
  show "read_message (dump_response r) = Some (status_line r, rs_fields r, rs_body r)"
    unfolding dump_response_lines using clean_fields [OF assms] by (intro read_message_lines) auto
next
  assume "\<not> rs_websocket r"
  moreover have "case_key ''Set-Cookie'' \<noteq> case_key ''connection''" "case_key ''content-length'' \<noteq> case_key ''connection''"
    by code_simp+
  ultimately show "filter (\<lambda>p. case_key (fst p) = case_key ''connection'') (rs_fields r) = [connection_header (rs_close r)]"
    by (auto simp: rs_fields_def connection_header_def filter_empty_conv)
qed (simp_all add: rs_fields_def undec_dec)

definition sample_response :: http_response where
  "sample_response = (rs_setHeader ''Connection'' ''x'' (rs_setHeader ''Server'' ''exhy'' (new_HttpResponse 0x11 False)))
     \<lparr>rs_body := ''hello'', rs_cookies := [''a=b'']\<rparr>"

theorem response_read_back_witness:
  "read_message (dump_response sample_response) =
     Some (''HTTP/1.1 200 OK'', [(''Server'', ''exhy''), (''Set-Cookie'', ''a=b''), (''connection'', ''keep-alive''),
       (''content-length'', ''5'')], ''hello'')"
proof -
  have "clean_response sample_response" "status_line sample_response = ''HTTP/1.1 200 OK''" "rs_body sample_response = ''hello''"
    "rs_fields sample_response = [(''Server'', ''exhy''), (''Set-Cookie'', ''a=b''), (''connection'', ''keep-alive''), (''content-length'', ''5'')]"
    by code_simp+
  then show ?thesis using response_read_back [of sample_response] by simp
qed

section \<open>Requests\<close>

definition request_line :: "http_request \<Rightarrow> string" where
  "request_line r = HttpMethodToString (rq_method r) @ '' '' @ rq_path r @
     (if rq_query r = [] then [] else ''?'' @ rq_query r) @
     (if rq_fragment r = [] then [] else ''#'' @ rq_fragment r) @ '' HTTP/'' @ dump_version (rq_version r)"

definition rq_fields :: "http_request \<Rightarrow> (string \<times> string) list" where
  "rq_fields r =
     (if rq_websocket r then [] else [connection_header (rq_close r)]) @
     filter (\<lambda>p. rq_websocket r \<or> case_key (fst p) \<noteq> case_key ''connection'') (rq_headers r) @
     (if rq_body r = [] then [] else [(''content-length2'', dec (length (rq_body r)))])"

definition clean_request :: "http_request \<Rightarrow> bool" where
  "clean_request r \<longleftrightarrow> list_all clean_header (rq_headers r) \<and>
     CHR 0x0D \<notin> set (rq_path r) \<and> CHR 0x0D \<notin> set (rq_query r) \<and> CHR 0x0D \<notin> set (rq_fragment r)"

lemma dump_request_lines:
  "dump_request r = request_line r @ CRLF @ concat (map header_line (rq_fields r)) @ CRLF @ rq_body r"
  by (simp add: dump_request_def request_line_def rq_fields_def dump_headers_lines dump_connection_line header_line_def)

lemma clean_rq_fields:
  "clean_request r \<Longrightarrow> CHR 0x0D \<notin> set (request_line r) \<and> list_all clean_header (rq_fields r)"
  by (auto simp: clean_request_def request_line_def rq_fields_def dump_version_no_CR dec_no_CR method_string_no_CR
      clean_header_def connection_header_def list_all_iff)

text \<open>
  What HttpRequest writes is one HTTP message with its request line, headers and body,
  but the length of the body is announced as content-length2: unless the caller has set a
  content-length header, the message has none.
\<close>

theorem request_without_length:
  assumes "clean_request r" "\<forall>p \<in> set (rq_headers r). case_key (fst p) \<noteq> case_key ''content-length''"
  shows "read_message (dump_request r) = Some (request_line r, rq_fields r, rq_body r) \<and>
    (\<forall>p \<in> set (rq_fields r). case_key (fst p) \<noteq> case_key ''content-length'')"
proof
  show "read_message (dump_request r) = Some (request_line r, rq_fields r, rq_body r)"
    unfolding dump_request_lines using clean_rq_fields [OF assms(1)] by (intro read_message_lines) auto
  have "case_key ''connection'' \<noteq> case_key ''content-length''" "case_key ''content-length2'' \<noteq> case_key ''content-length''"
    by code_simp+
  then show "\<forall>p \<in> set (rq_fields r). case_key (fst p) \<noteq> case_key ''content-length''"
    using assms(2) by (auto simp: rq_fields_def connection_header_def)
qed

theorem request_without_length_witness:
  "read_message (dump_request ((new_HttpRequest 0x11 True)\<lparr>rq_body := ''hello'', rq_method := POST\<rparr>)) =
     Some (''POST / HTTP/1.1'', [(''connection'', ''close''), (''content-length2'', ''5'')], ''hello'')"
proof -
  let ?r = "(new_HttpRequest 0x11 True)\<lparr>rq_body := ''hello'', rq_method := POST\<rparr>"
  have "clean_request ?r" "request_line ?r = ''POST / HTTP/1.1''" "rq_headers ?r = []" "rq_body ?r = ''hello''"
    "rq_fields ?r = [(''connection'', ''close''), (''content-length2'', ''5'')]"
    by code_simp+
  then show ?thesis using request_without_length [of ?r] by simp
qed

end
