(* ===== verification/RequestFacts.thy ===== *)
theory RequestFacts
  imports RequestParser HttpWire
begin

text \<open>
  What the request parser makes of a well-formed message. A piece of the message takes the machine from
  one state to another and adds calls; the calls, applied to the buffer, set the fields of the request.
\<close>

section \<open>The states on the way\<close>

lemmas req_tables = req_states_lo_def req_states_hi_def

lemma req_delta_small:
  "req_delta r 1 = req_1" "req_delta r 2 = req_2" "req_delta r 3 = req_3 \<circ> widec r" "req_delta r 4 = req_4"
  "req_delta r 5 = req_5" "req_delta r 6 = req_6" "req_delta r 7 = req_7" "req_delta r 8 = req_8"
  "req_delta r 9 = req_9" "req_delta r 10 = req_10" "req_delta r 11 = req_11" "req_delta r 12 = req_12"
  "req_delta r 13 = req_13" "req_delta r 14 = req_14" "req_delta r 15 = req_15" "req_delta r 16 = req_16"
  "req_delta r 17 = req_17" "req_delta r 18 = req_18" "req_delta r 20 = req_20 \<circ> widec r"
  "req_delta r 21 = req_21 \<circ> widec r" "req_delta r 22 = req_22" "req_delta r 23 = req_23"
  "req_delta r 26 = req_26 \<circ> widec r" "req_delta r 27 = req_27" "req_delta r 28 = req_28"
  "req_delta r 29 = req_29 \<circ> widec r" "req_delta r 30 = req_30 \<circ> widec r" "req_delta r 31 = req_31"
  "req_delta r 32 = req_32" "req_delta r 33 = req_33 \<circ> widec r"
  by (simp_all add: req_delta_def req_states_lo_def Let_def comp_def)

lemmas req_delta_start = req_delta_small(1) [unfolded One_nat_def]

lemma req_delta_method:
  "req_delta r 175 = req_175" "req_delta r 176 = req_176" "req_delta r 177 = req_177" "req_delta r 178 = req_178"
  "req_delta r 179 = req_179" "req_delta r 180 = req_180" "req_delta r 181 = req_181" "req_delta r 182 = req_182"
  "req_delta r 183 = req_183" "req_delta r 184 = req_184" "req_delta r 185 = req_185" "req_delta r 186 = req_186"
  by (simp_all add: req_delta_def req_states_hi_def Let_def comp_def)

text \<open>The states from which a path, a query and a fragment are read have the form of \<open>req_26\<close>.\<close>

section \<open>Characters\<close>

definition path_char :: "char \<Rightarrow> bool" where
  "path_char c \<longleftrightarrow> (let n = sc c in n < 0 \<or> n \<in> {33, 36, 61, 95, 126} \<or> 38 \<le> n \<and> n \<le> 59 \<or> 64 \<le> n \<and> n \<le> 90 \<or> 97 \<le> n \<and> n \<le> 122)"

definition query_char :: "char \<Rightarrow> bool" where
  "query_char c \<longleftrightarrow> path_char c \<or> sc c = 63"

definition hex_digit :: "char \<Rightarrow> bool" where
  "hex_digit c \<longleftrightarrow> (let n = sc c in 48 \<le> n \<and> n \<le> 57 \<or> 65 \<le> n \<and> n \<le> 70 \<or> 97 \<le> n \<and> n \<le> 102)"

text \<open>Characters of a class, and percent signs with two hexadecimal digits.\<close>

fun encoded :: "(char \<Rightarrow> bool) \<Rightarrow> string \<Rightarrow> bool" where
  "encoded ok [] = True"
| "encoded ok (c # cs) =
     (if c = CHR ''%'' then (case cs of a # b # ds \<Rightarrow> hex_digit a \<and> hex_digit b \<and> encoded ok ds | _ \<Rightarrow> False)
      else ok c \<and> encoded ok cs)"

definition token_char :: "char \<Rightarrow> bool" where
  "token_char c \<longleftrightarrow> (let n = sc c in n \<in> {33, 42, 43, 45, 46, 124, 126} \<or> 35 \<le> n \<and> n \<le> 39 \<or> 48 \<le> n \<and> n \<le> 57 \<or>
     65 \<le> n \<and> n \<le> 90 \<or> 94 \<le> n \<and> n \<le> 122)"

definition value_char :: "char \<Rightarrow> bool" where
  "value_char c \<longleftrightarrow> sc c \<notin> {0, 10, 13, 127}"

definition good_field :: "string \<times> string \<Rightarrow> bool" where
  "good_field p \<longleftrightarrow> fst p \<noteq> [] \<and> list_all token_char (fst p) \<and> list_all value_char (snd p) \<and>
     (snd p = [] \<or> sc (hd (snd p)) \<notin> {9, 32})"

lemma sc_literals [simp]:
  "sc (CHR ''%'') = 37" "sc (CHR ''/'') = 47" "sc (CHR ''?'') = 63" "sc (CHR ''#'') = 35" "sc (CHR '' '') = 32"
  "sc (CHR '':'') = 58" "sc (CHR 0x0D) = 13" "sc (CHR 0x0A) = 10" "sc (CHR ''H'') = 72" "sc (CHR ''T'') = 84"
  "sc (CHR ''P'') = 80" "sc (CHR ''.'') = 46" "sc (CHR ''0'') = 48" "sc (CHR ''1'') = 49"
  by (simp_all add: sc_def Let_def)

lemma hex_digit_steps:
  "hex_digit a \<Longrightarrow> req_27 (sc a) = St 28" "hex_digit a \<Longrightarrow> req_28 (sc a) = St 26"
  "hex_digit a \<Longrightarrow> req_31 (sc a) = St 32" "hex_digit a \<Longrightarrow> req_32 (sc a) = St 30"
  "hex_digit a \<Longrightarrow> req_22 (sc a) = St 23" "hex_digit a \<Longrightarrow> req_23 (sc a) = St 21"
  unfolding hex_digit_def req_27_def req_28_def req_31_def req_32_def req_22_def req_23_def Let_def insert_iff empty_iff
  by (elim disjE conjE; simp)+

lemma widec_path_char: "path_char c \<Longrightarrow> widec r (sc c) = sc c" "query_char c \<Longrightarrow> widec r (sc c) = sc c"
  by (auto simp: path_char_def query_char_def widec_def Let_def)

lemma widec_literals [simp]: "n \<noteq> 94 \<Longrightarrow> n \<noteq> 125 \<Longrightarrow> n \<noteq> 123 \<Longrightarrow> widec r n = n"
  by (simp add: widec_def Let_def)

lemma path_char_steps:
  "path_char c \<Longrightarrow> req_26 (sc c) = St 26" "path_char c \<Longrightarrow> sc c \<noteq> 47 \<Longrightarrow> req_33 (sc c) = St 26"
  unfolding path_char_def req_26_def req_33_def Let_def insert_iff empty_iff
  by (elim disjE conjE; simp)+

lemma query_char_steps:
  "query_char c \<Longrightarrow> req_30 (sc c) = St 30" "query_char c \<Longrightarrow> req_29 (sc c) = req_tr53"
  "query_char c \<Longrightarrow> req_21 (sc c) = St 21" "query_char c \<Longrightarrow> req_20 (sc c) = req_tr43"
  unfolding query_char_def path_char_def req_30_def req_29_def req_21_def req_20_def Let_def insert_iff empty_iff
  by (elim disjE conjE; simp)+

lemma token_steps: "token_char c \<Longrightarrow> req_14 (sc c) = St 14" "token_char c \<Longrightarrow> req_13 (sc c) = req_tr23"
  unfolding token_char_def req_14_def req_13_def Let_def insert_iff empty_iff
  by (elim disjE conjE; simp)+

lemma value_steps:
  "value_char c \<Longrightarrow> req_16 (sc c) = St 16" "value_char c \<Longrightarrow> sc c \<notin> {9, 32} \<Longrightarrow> req_15 (sc c) = req_tr28"
  by (simp_all add: value_char_def req_16_def req_15_def)

lemma good_chars: "path_char c \<Longrightarrow> c \<noteq> CHR ''%''" "query_char c \<Longrightarrow> c \<noteq> CHR ''%''" "hex_digit c \<Longrightarrow> c \<noteq> CHR ''%''"
  by (auto simp: path_char_def query_char_def hex_digit_def)

lemma percent_steps:
  "req_26 37 = St 27" "req_30 37 = St 31" "req_29 37 = req_tr56" "req_21 37 = St 22" "req_20 37 = req_tr45"
  by (simp_all add: req_26_def req_30_def req_29_def req_21_def req_20_def)

section \<open>Runs over percent-encoded text\<close>

text \<open>
  \<open>q\<close> reads the characters of a class, and a percent sign with two digits through \<open>q1\<close> and \<open>q2\<close>; \<open>q0\<close> is
  where the text starts, with what it does at the first character.
\<close>

lemma encoded_span:
  assumes ok: "\<And>c xs p s. ok c \<Longrightarrow> R (c # xs) p q s = R xs (p + 1) q s"
    and pct: "\<And>xs p s. R (CHR ''%'' # xs) p q s = R xs (p + 1) q1 s"
    and hex: "\<And>a xs p s. hex_digit a \<Longrightarrow> R (a # xs) p q1 s = R xs (p + 1) q2 s"
      "\<And>a xs p s. hex_digit a \<Longrightarrow> R (a # xs) p q2 s = R xs (p + 1) q s"
    and "encoded ok xs"
  shows "R (xs @ ys) (p :: nat) q s = R ys (p + length xs) q s"
  using assms(1,5)
proof (induction ok xs arbitrary: p rule: encoded.induct)
  case (2 ok c cs)
  show ?case
  proof (cases "c = CHR ''%''")
    case True
    then obtain a b ds where "cs = a # b # ds" "hex_digit a" "hex_digit b" "encoded ok ds"
      using "2.prems"(2) by (auto split: list.splits)
    then show ?thesis using "2.IH"(1) [OF True] "2.prems"(1) True pct hex by simp
  next
    case False
    then show ?thesis using "2.IH"(2) [OF False] "2.prems" by simp
  qed
qed simp

lemma encoded_first:
  assumes span: "\<And>zs ys p s. encoded ok zs \<Longrightarrow> R (zs @ ys) p q s = R ys (p + length zs) q s"
    and first: "\<And>xs p s. ok c \<Longrightarrow> R (c # xs) p q0 s = R xs (p + 1) q (f p s)"
    and pct: "\<And>xs p s. R (CHR ''%'' # xs) p q0 s = R xs (p + 1) q1 (f p s)"
    and hex: "\<And>a xs p s. hex_digit a \<Longrightarrow> R (a # xs) p q1 s = R xs (p + 1) q2 s"
      "\<And>a xs p s. hex_digit a \<Longrightarrow> R (a # xs) p q2 s = R xs (p + 1) q s"
    and "encoded ok (c # xs)"
  shows "R (c # xs @ ys) (p :: nat) q0 s = R ys (p + length (c # xs)) q (f p s)"
proof (cases "c = CHR ''%''")
  case True
  then obtain a b zs where z: "xs = a # b # zs" "hex_digit a" "hex_digit b" "encoded ok zs"
    using assms(6) by (auto split: list.splits)
  then have "R (zs @ ys) (Suc (Suc (Suc p))) q (f p s) = R ys (p + length (c # xs)) q (f p s)"
    using span [OF z(4), of ys "Suc (Suc (Suc p))"] by simp
  then show ?thesis using True z pct hex by simp
next
  case False
  then show ?thesis using span [of xs ys "p + 1" "f p s"] first assms(6) by simp
qed

section \<open>The pieces of a request\<close>

abbreviation req_run :: "bool \<Rightarrow> nat \<Rightarrow> string \<Rightarrow> nat \<Rightarrow> nat \<Rightarrow> http_parser \<times> req_call list \<Rightarrow>
    nat \<times> nat \<times> http_parser \<times> req_call list" where
  "req_run r pe \<equiv> word_run (req_delta r) (req_act pe)"

text \<open>Every method but M-SEARCH, whose name has a minus sign the grammar does not allow.\<close>

lemmas method_steps = req_1_def req_2_def req_175_def req_176_def req_177_def req_178_def req_179_def req_180_def
  req_181_def req_182_def req_183_def req_184_def req_185_def req_186_def req_tr0_def req_tr4_def

lemma method_run:
  assumes "m \<noteq> MSEARCH" "m \<noteq> INVALID_METHOD"
  shows "req_run r pe (HttpMethodToString m @ CHR '' '' # ys) 0 1 (h, cs) =
    req_run r pe ys (length (HttpMethodToString m) + 1) 3
      (h\<lparr>hp_mark := 0\<rparr>, cs @ [OnMethod 0 (length (HttpMethodToString m))])"
  using assms
  by (cases m) (simp_all add: table_simps req_delta_start req_delta_small req_delta_method method_steps sc_def Let_def LEN_def,
      simp_all add: eval_nat_numeral)

lemma path_run:
  assumes "encoded path_char xs"
  shows "req_run r pe (xs @ ys) p 26 s = req_run r pe ys (p + length xs) 26 s"
  using assms
  by (intro encoded_span [where ok = path_char and ?q1.0 = 27 and ?q2.0 = 28])
     (simp_all add: req_delta_small path_char_steps hex_digit_steps widec_path_char percent_steps)

lemma query_run:
  assumes "encoded query_char xs" "xs \<noteq> []"
  shows "req_run r pe (xs @ ys) p 29 (h, cs) = req_run r pe ys (p + length xs) 30 (h\<lparr>hp_query_start := p\<rparr>, cs)"
proof -
  obtain c zs where xs: "xs = c # zs" using assms(2) by (cases xs) auto
  have "req_run r pe (c # zs @ ys) p 29 (h, cs) =
      req_run r pe ys (p + length (c # zs)) 30 (req_act pe p StartQuery (h, cs))"
  proof (rule encoded_first [where R = "req_run r pe" and ok = query_char and ?q1.0 = 31 and ?q2.0 = 32 and
        f = "\<lambda>p. req_act pe p StartQuery"])
    show "req_run r pe (zs @ ys) p 30 s = req_run r pe ys (p + length zs) 30 s" if "encoded query_char zs" for zs ys p s
      using that
      by (intro encoded_span [where ok = query_char and ?q1.0 = 31 and ?q2.0 = 32])
         (simp_all add: req_delta_small query_char_steps hex_digit_steps widec_path_char percent_steps)
  qed (use assms xs in \<open>simp_all add: req_delta_small query_char_steps hex_digit_steps widec_path_char percent_steps
        req_tr53_def req_tr56_def\<close>)
  then show ?thesis using xs by simp
qed

lemma fragment_run:
  assumes "encoded query_char xs" "xs \<noteq> []"
  shows "req_run r pe (xs @ ys) p 20 (h, cs) = req_run r pe ys (p + length xs) 21 (h\<lparr>hp_mark := p\<rparr>, cs)"
proof -
  obtain c zs where xs: "xs = c # zs" using assms(2) by (cases xs) auto
  have "req_run r pe (c # zs @ ys) p 20 (h, cs) =
      req_run r pe ys (p + length (c # zs)) 21 (req_act pe p Mark (h, cs))"
  proof (rule encoded_first [where R = "req_run r pe" and ok = query_char and ?q1.0 = 22 and ?q2.0 = 23 and
        f = "\<lambda>p. req_act pe p Mark"])
    show "req_run r pe (zs @ ys) p 21 s = req_run r pe ys (p + length zs) 21 s" if "encoded query_char zs" for zs ys p s
      using that
      by (intro encoded_span [where ok = query_char and ?q1.0 = 22 and ?q2.0 = 23])
         (simp_all add: req_delta_small query_char_steps hex_digit_steps widec_path_char percent_steps)
  qed (use assms xs in \<open>simp_all add: req_delta_small query_char_steps hex_digit_steps widec_path_char percent_steps
        req_tr43_def req_tr45_def\<close>)
  then show ?thesis using xs by simp
qed

text \<open>Behind a path: a blank, a question mark or a number sign.\<close>

lemma path_end_steps:
  "req_26 32 = req_tr37" "req_26 35 = req_tr39" "req_26 63 = req_tr42" "req_26 47 = St 26"
  "req_33 32 = req_tr37" "req_33 35 = req_tr39" "req_33 63 = req_tr42" "req_33 37 = St 27"
  "req_3 47 = req_tr10" "req_30 32 = req_tr58" "req_30 35 = req_tr59" "req_21 32 = req_tr47"
  by (simp_all add: req_26_def req_33_def req_3_def req_30_def req_21_def)

lemmas target_edges = req_tr37_def req_tr39_def req_tr42_def req_tr10_def req_tr58_def req_tr59_def req_tr47_def

definition good_path :: "string \<Rightarrow> bool" where
  "good_path p \<longleftrightarrow> (case p of [] \<Rightarrow> False
     | c # xs \<Rightarrow> c = CHR ''/'' \<and> encoded path_char xs \<and> (case xs of [] \<Rightarrow> True | d # _ \<Rightarrow> d \<noteq> CHR ''/''))"

lemma path_rest_run:
  assumes "encoded path_char xs" "\<And>d zs. xs = d # zs \<Longrightarrow> d \<noteq> CHR ''/''" "c \<in> {CHR '' '', CHR ''?'', CHR ''#''}"
  shows "req_run r pe (xs @ c # ys) p 33 s = req_run r pe (c # ys) (p + length xs) 26 s"
proof (cases xs)
  case Nil
  then show ?thesis using assms(3) by (auto simp: req_delta_small path_end_steps)
next
  case (Cons d zs)
  have "sc d \<noteq> 47" if "path_char d"
  proof
    assume "sc d = 47"
    moreover have "(of_char d :: nat) < 256" by simp
    ultimately have "(of_char d :: nat) = of_char (CHR ''/'')"
      unfolding sc_def Let_def by (simp split: if_splits; linarith)
    then show False using assms(2) Cons by (metis of_char_eq_iff)
  qed
  then have "req_run r pe (d # zs @ c # ys) p 33 s = req_run r pe (c # ys) (p + length (d # zs)) 26 ((\<lambda>p s. s) p s)"
    using assms(1) Cons
    by (intro encoded_first [where R = "req_run r pe" and ok = path_char and ?q1.0 = 27 and ?q2.0 = 28])
       (simp_all add: path_run req_delta_small path_char_steps hex_digit_steps widec_path_char path_end_steps)
  then show ?thesis using Cons by simp
qed

definition target :: "string \<Rightarrow> string \<Rightarrow> string \<Rightarrow> string" where
  "target path query fragment =
     path @ (if query = [] then [] else ''?'' @ query) @ (if fragment = [] then [] else ''#'' @ fragment)"

definition target_calls :: "nat \<Rightarrow> string \<Rightarrow> string \<Rightarrow> string \<Rightarrow> req_call list" where
  "target_calls a path query fragment =
     (let q = a + length path; f = q + (if query = [] then 0 else length query + 1)
      in [OnPath a (length path)] @ (if query = [] then [] else [OnQuery (q + 1) (length query)]) @
         [OnUri a (f - a)] @ (if fragment = [] then [] else [OnFragment (f + 1) (length fragment)]))"

lemma target_run:
  assumes "good_path path" "encoded query_char query" "encoded query_char fragment"
    "a + length (target path query fragment) < 2 ^ 64"
  shows "\<exists>m n. m \<le> a + length (target path query fragment) \<and>
    req_run r pe (target path query fragment @ CHR '' '' # ys) a 3 (h, cs) =
    req_run r pe ys (a + length (target path query fragment) + 1) 4
      (h\<lparr>hp_mark := m, hp_query_start := n\<rparr>, cs @ target_calls a path query fragment)"
proof -
  obtain xs where path: "path = CHR ''/'' # xs" "encoded path_char xs" "\<And>d zs. xs = d # zs \<Longrightarrow> d \<noteq> CHR ''/''"
    using assms(1) by (auto simp: good_path_def split: list.splits if_splits)
  note steps = path(1) target_def target_calls_def Let_def req_delta_small path_end_steps target_edges LEN_le
    path_rest_run [OF path(2,3)] query_run [OF assms(2)] fragment_run [OF assms(3)]
  consider "query = []" "fragment = []" | "query = []" "fragment \<noteq> []" | "query \<noteq> []" "fragment = []"
    | "query \<noteq> []" "fragment \<noteq> []" by blast
  then show ?thesis
  proof cases
    case 1
    then show ?thesis using assms(4)
      by - (rule exI [of _ a], rule exI [of _ "hp_query_start h"], cases h, simp add: steps add.assoc)
  next
    case 2
    then show ?thesis using assms(4)
      by - (rule exI [of _ "a + length path + 1"], rule exI [of _ "hp_query_start h"], cases h, simp add: steps add.assoc)
  next
    case 3
    then show ?thesis using assms(4)
      by - (rule exI [of _ a], rule exI [of _ "a + length path + 1"], cases h, simp add: steps add.assoc)
  next
    case 4
    then show ?thesis using assms(4)
      by - (rule exI [of _ "a + length path + length query + 2"], rule exI [of _ "a + length path + 1"], cases h, simp add: steps add.assoc)
  qed
qed

lemma version_run:
  assumes "v \<in> {''1.0'', ''1.1''}"
  shows "req_run r pe (''HTTP/'' @ v @ CRLF @ ys) p 4 (h, cs) =
    req_run r pe ys (p + 10) 13 (h\<lparr>hp_mark := p\<rparr>, cs @ [OnVersion p 8])"
proof -
  have "LEN p (Suc (Suc (Suc (Suc (Suc (Suc (Suc (Suc p)))))))) = 8" by (simp add: LEN_def)
  moreover have ten: "p + 10 = Suc (Suc (Suc (Suc (Suc (Suc (Suc (Suc (Suc (Suc p)))))))))" by simp
  ultimately show ?thesis using assms unfolding ten
    by (auto simp: CRLF_def req_delta_small req_4_def req_5_def req_6_def req_7_def req_8_def req_9_def req_10_def
        req_11_def req_12_def req_17_def req_tr13_def req_tr22_def)
qed

section \<open>Header lines and the end\<close>

lemma field_end_steps:
  "req_14 58 = req_tr27" "req_15 32 = req_tr29" "req_15 13 = req_tr31" "req_16 13 = req_tr34" "req_17 10 = St 13"
  "req_13 13 = req_tr25" "req_18 10 = req_tr36"
  by (simp_all add: req_14_def req_15_def req_16_def req_17_def req_13_def req_18_def)

lemmas field_edges = req_tr27_def req_tr29_def req_tr31_def req_tr34_def req_tr23_def req_tr28_def req_tr25_def req_tr36_def

lemma length_CRLF: "length CRLF = Suc (Suc 0)"
  by (simp add: CRLF_def)

definition field_call :: "nat \<Rightarrow> string \<times> string \<Rightarrow> req_call" where
  "field_call p f = OnField p (length (fst f)) (p + length (fst f) + 2) (length (snd f))"

lemma field_run:
  assumes "good_field f" "p + length (header_line f) < 2 ^ 64"
  shows "req_run r pe (header_line f @ ys) p 13 (h, cs) =
    req_run r pe ys (p + length (header_line f)) 13
      (h\<lparr>hp_field_start := p, hp_field_len := length (fst f), hp_mark := p + length (fst f) + 2\<rparr>, cs @ [field_call p f])"
proof -
  obtain k v where f: "f = (k, v)" by (cases f)
  obtain c ks where k: "k = c # ks" "token_char c" "\<forall>d \<in> set ks. token_char d"
    using assms(1) f by (cases k) (auto simp: good_field_def list_all_iff)
  have name: "req_run r pe (ks @ zs) q 14 s = req_run r pe zs (q + length ks) 14 s" for zs q s
    using k by (intro word_run_span) (simp_all add: req_delta_small token_steps)
  have tail: "req_run r pe (v @ CRLF @ ys) q 15 (h', cs') =
      req_run r pe ys (q + length v + 2) 13 (h'\<lparr>hp_mark := q\<rparr>, cs' @ [OnField (hp_field_start h') (hp_field_len h') q (length v)])"
    if "q + length v < 2 ^ 64" for q h' cs'
  proof (cases v)
    case Nil
    then show ?thesis using that
      by (simp add: CRLF_def req_delta_small field_end_steps field_edges LEN_le)
  next
    case (Cons d vs)
    have "req_run r pe (vs @ zs) q 16 s = req_run r pe zs (q + length vs) 16 s" for zs q s
      using assms(1) f Cons by (intro word_run_span) (simp_all add: req_delta_small value_steps good_field_def list_all_iff)
    then show ?thesis using assms(1) f Cons that
      by (simp add: CRLF_def req_delta_small field_end_steps field_edges LEN_le value_steps good_field_def)
  qed
  show ?thesis using assms(2) k(2)
    by (simp add: f k(1) header_line_def req_delta_small token_steps name tail field_end_steps field_edges LEN_le
        field_call_def add.assoc length_CRLF)
qed

primrec field_calls :: "nat \<Rightarrow> (string \<times> string) list \<Rightarrow> req_call list" where
  "field_calls p [] = []"
| "field_calls p (f # fs) = field_call p f # field_calls (p + length (header_line f)) fs"

text \<open>What stays of the parser over the pieces: no mark lies behind the position.\<close>

definition calm :: "nat \<Rightarrow> http_parser \<Rightarrow> http_parser \<Rightarrow> bool" where
  "calm n h0 h \<longleftrightarrow> hp_mark h \<le> n \<and> hp_field_start h \<le> n \<and> hp_field_len h \<le> n \<and>
     hp_cs h = hp_cs h0 \<and> hp_body_start h = hp_body_start h0 \<and> hp_nread h = hp_nread h0 \<and>
     hp_xml_sent h = hp_xml_sent h0 \<and> hp_json_sent h = hp_json_sent h0"

lemma calm_mono: "calm n h0 h \<Longrightarrow> n \<le> k \<Longrightarrow> calm k h0 h"
  by (simp add: calm_def)

lemma fields_run:
  assumes "list_all good_field fs" "p + length (concat (map header_line fs)) < 2 ^ 64" "calm p h0 h"
  shows "\<exists>h'. calm (p + length (concat (map header_line fs))) h0 h' \<and>
    req_run r pe (concat (map header_line fs) @ ys) p 13 (h, cs) =
    req_run r pe ys (p + length (concat (map header_line fs))) 13 (h', cs @ field_calls p fs)"
  using assms
proof (induction fs arbitrary: p h cs)
  case Nil
  then show ?case by auto
next
  case (Cons f fs)
  let ?h = "h\<lparr>hp_field_start := p, hp_field_len := length (fst f), hp_mark := p + length (fst f) + 2\<rparr>"
  have "calm (p + length (header_line f)) h0 ?h" using Cons.prems(3) by (simp add: calm_def header_line_def)
  then obtain h' where "calm (p + length (header_line f) + length (concat (map header_line fs))) h0 h'"
      "req_run r pe (concat (map header_line fs) @ ys) (p + length (header_line f)) 13 (?h, cs @ [field_call p f]) =
       req_run r pe ys (p + length (header_line f) + length (concat (map header_line fs))) 13
         (h', (cs @ [field_call p f]) @ field_calls (p + length (header_line f)) fs)"
    using Cons.IH [of "p + length (header_line f)" ?h "cs @ [field_call p f]"] Cons.prems(1,2) by (auto simp: add.assoc)
  then show ?case using Cons.prems(1,2) field_run [of f p r pe _ h cs] by (auto simp: add.assoc)
qed

lemma end_run:
  assumes "\<not> hp_xml_sent h" "\<not> hp_json_sent h"
  shows "req_run r pe (CRLF @ ys) p 13 (h, cs) =
    (348, p + 2, h\<lparr>hp_field_start := p, hp_body_start := p + 2\<rparr>, cs @ [OnHeaderDone (p + 2) (pe - p - 2)])"
  using assms by (simp add: CRLF_def req_delta_small field_end_steps field_edges)

section \<open>A whole request\<close>

definition head_line :: "HttpMethod \<Rightarrow> string \<Rightarrow> string \<Rightarrow> string \<Rightarrow> string \<Rightarrow> string" where
  "head_line m path query fragment v =
     HttpMethodToString m @ '' '' @ target path query fragment @ '' '' @ ''HTTP/'' @ v @ CRLF"

definition head_calls :: "HttpMethod \<Rightarrow> string \<Rightarrow> string \<Rightarrow> string \<Rightarrow> (string \<times> string) list \<Rightarrow> req_call list" where
  "head_calls m path query fragment fs =
     (let n = length (HttpMethodToString m); t = n + length (target path query fragment)
      in [OnMethod 0 n] @ target_calls (n + 1) path query fragment @ [OnVersion (t + 2) 8] @ field_calls (t + 12) fs)"

lemma head_run:
  assumes "m \<noteq> MSEARCH" "m \<noteq> INVALID_METHOD" "good_path path" "encoded query_char query" "encoded query_char fragment"
    "v \<in> {''1.0'', ''1.1''}" "list_all good_field fs" "calm 0 h0 h0" "\<not> hp_xml_sent h0" "\<not> hp_json_sent h0"
    and msg: "msg = head_line m path query fragment v @ concat (map header_line fs) @ CRLF @ body" "length msg < 2 ^ 63"
  shows "\<exists>h'. calm (length msg - length body - 2) h0 h' \<and> req_run r (length msg) msg 0 1 (h0, []) =
    (348, length msg - length body,
      h'\<lparr>hp_field_start := length msg - length body - 2, hp_body_start := length msg - length body\<rparr>,
      head_calls m path query fragment fs @ [OnHeaderDone (length msg - length body) (length body)])"
proof -
  let ?n = "length (HttpMethodToString m)" and ?t = "length (target path query fragment)"
  let ?k = "length (concat (map header_line fs))" and ?run = "req_run r (length msg)"
  let ?fields = "concat (map header_line fs) @ CRLF @ body"
  have len: "length msg = ?n + ?t + 12 + ?k + 2 + length body" using assms(6)
    by (auto simp: msg(1) head_line_def CRLF_def)
  obtain mk q where t: "?run (target path query fragment @ CHR '' '' # ''HTTP/'' @ v @ CRLF @ ?fields) (?n + 1) 3
        (h0\<lparr>hp_mark := 0\<rparr>, [OnMethod 0 ?n]) =
      ?run (''HTTP/'' @ v @ CRLF @ ?fields) (?n + 1 + ?t + 1) 4
        (h0\<lparr>hp_mark := 0, hp_mark := mk, hp_query_start := q\<rparr>, [OnMethod 0 ?n] @ target_calls (?n + 1) path query fragment)"
    using target_run [OF assms(3,4,5), of "?n + 1" r "length msg" "''HTTP/'' @ v @ CRLF @ ?fields" "h0\<lparr>hp_mark := 0\<rparr>"
        "[OnMethod 0 ?n]"] len msg(2) by auto
  let ?h = "h0\<lparr>hp_query_start := q, hp_mark := ?n + ?t + 2\<rparr>"
  let ?cs = "[OnMethod 0 ?n] @ target_calls (?n + 1) path query fragment @ [OnVersion (?n + ?t + 2) 8]"
  have "calm (?n + ?t + 12) h0 ?h" using assms(8) by (simp add: calm_def)
  moreover have "?n + ?t + 12 + ?k < 2 ^ 64" using len msg(2) by simp
  ultimately obtain h' where f: "calm (?n + ?t + 12 + ?k) h0 h'"
      "?run ?fields (?n + ?t + 12) 13 (?h, ?cs) =
       ?run (CRLF @ body) (?n + ?t + 12 + ?k) 13 (h', ?cs @ field_calls (?n + ?t + 12) fs)"
    using fields_run [OF assms(7)] by blast
  have "?run msg 0 1 (h0, []) =
      ?run (HttpMethodToString m @ CHR '' '' # target path query fragment @ CHR '' '' # ''HTTP/'' @ v @ CRLF @ ?fields) 0 1 (h0, [])"
    by (simp only: msg(1) head_line_def append_assoc append_Cons append_Nil)
  also have "\<dots> = ?run (target path query fragment @ CHR '' '' # ''HTTP/'' @ v @ CRLF @ ?fields) (?n + 1) 3
      (h0\<lparr>hp_mark := 0\<rparr>, [OnMethod 0 ?n])"
    by (simp only: method_run [OF assms(1,2)] append_Nil)
  also note t
  also have "?run (''HTTP/'' @ v @ CRLF @ ?fields) (?n + 1 + ?t + 1) 4
      (h0\<lparr>hp_mark := 0, hp_mark := mk, hp_query_start := q\<rparr>, [OnMethod 0 ?n] @ target_calls (?n + 1) path query fragment) =
      ?run ?fields (?n + ?t + 12) 13 (?h, ?cs)"
    unfolding version_run [OF assms(6)] by (simp add: add.commute add.left_commute)
  also note f(2)
  also have "?run (CRLF @ body) (?n + ?t + 12 + ?k) 13 (h', ?cs @ field_calls (?n + ?t + 12) fs) =
      (348, ?n + ?t + 12 + ?k + 2, h'\<lparr>hp_field_start := ?n + ?t + 12 + ?k, hp_body_start := ?n + ?t + 12 + ?k + 2\<rparr>,
       head_calls m path query fragment fs @ [OnHeaderDone (?n + ?t + 12 + ?k + 2) (length body)])"
    using f(1) assms(9,10) by (subst end_run) (simp_all add: calm_def head_calls_def Let_def len)
  finally have "?run msg 0 1 (h0, []) =
      (348, ?n + ?t + 12 + ?k + 2, h'\<lparr>hp_field_start := ?n + ?t + 12 + ?k, hp_body_start := ?n + ?t + 12 + ?k + 2\<rparr>,
       head_calls m path query fragment fs @ [OnHeaderDone (?n + ?t + 12 + ?k + 2) (length body)])" .
  moreover have "length msg - length body - 2 = ?n + ?t + 12 + ?k" "length msg - length body = ?n + ?t + 12 + ?k + 2"
    using len by simp_all
  ultimately show ?thesis using f(1) by metis
qed

lemma execute_head:
  assumes "m \<noteq> MSEARCH" "m \<noteq> INVALID_METHOD" "good_path path" "encoded query_char query" "encoded query_char fragment"
    "v \<in> {''1.0'', ''1.1''}" "list_all good_field fs"
    and msg: "msg = head_line m path query fragment v @ concat (map header_line fs) @ CRLF @ body" "length msg < 2 ^ 63"
  shows "\<exists>h'. http_parser_execute (http_parser_init h) msg 0 =
      Inr (length msg - length body, h',
        head_calls m path query fragment fs @ [OnHeaderDone (length msg - length body) (length body)]) \<and> hp_cs h' = 348"
proof -
  define h0 where "h0 = (http_parser_init h)\<lparr>hp_nread := 0, hp_mark := 0, hp_field_len := 0, hp_field_start := 0\<rparr>"
  have h0: "calm 0 h0 h0" "\<not> hp_xml_sent h0" "\<not> hp_json_sent h0" "hp_cs h0 = 1" "hp_body_start h0 = 0" "hp_nread h0 = 0"
    by (simp_all add: h0_def http_parser_init_def calm_def)
  have len: "2 + length body \<le> length msg" "msg \<noteq> []" by (simp_all add: msg(1) head_line_def CRLF_def)
  obtain h' where h': "calm (length msg - length body - 2) h0 h'"
      "req_run (hp_uri_relaxed h0) (length msg) msg 0 1 (h0, []) =
      (348, length msg - length body,
       h'\<lparr>hp_field_start := length msg - length body - 2, hp_body_start := length msg - length body\<rparr>,
       head_calls m path query fragment fs @ [OnHeaderDone (length msg - length body) (length body)])"
    using head_run [OF assms(1-7) h0(1-3) msg] by blast
  have "req_exec msg 0 h0 = (348, length msg - length body,
       h'\<lparr>hp_field_start := length msg - length body - 2, hp_body_start := length msg - length body\<rparr>,
       head_calls m path query fragment fs @ [OnHeaderDone (length msg - length body) (length body)])"
    using h'(2) h0(4) by (simp add: req_exec_def goto_run_word)
  moreover have "hp_cs h' = 1" "hp_nread h' = 0" "hp_mark h' < length msg" "hp_field_len h' \<le> length msg"
    using h'(1) h0 len by (auto simp: calm_def)
  ultimately show ?thesis using len
    by (simp add: http_parser_execute_def h0_def [symmetric] Let_def http_parser_has_error_def)
qed

section \<open>The request the callbacks build\<close>

lemma string_at_middle:
  assumes "buf = pre @ xs @ post" "length buf < 2 ^ 63"
  shows "string_at buf (length pre) (length xs) = Inr xs"
  using assms by (simp add: string_at_def block_at_def)

definition put_fields :: "(string \<times> string) list \<Rightarrow> header_map \<Rightarrow> header_map" where
  "put_fields fs m = fold (\<lambda>f. hm_put (fst f) (snd f)) fs m"

lemma on_field_calls:
  assumes "buf = pre @ concat (map header_line fs) @ post" "length buf < 2 ^ 63" "list_all good_field fs"
  shows "on_requests buf (field_calls (length pre) fs) q =
    Inr (q\<lparr>qp_data := (qp_data q)\<lparr>rq_headers := put_fields fs (rq_headers (qp_data q))\<rparr>\<rparr>)"
  using assms
proof (induction fs arbitrary: pre q)
  case Nil
  then show ?case by (simp add: put_fields_def)
next
  case (Cons f fs)
  obtain k v where f: "f = (k, v)" by (cases f)
  have "k \<noteq> []" using Cons.prems(3) f by (simp add: good_field_def)
  moreover have "string_at buf (length pre) (length k) = Inr k"
    using Cons.prems(1,2) f by (intro string_at_middle) (auto simp: header_line_def)
  moreover have "string_at buf (length (pre @ k @ '': '')) (length v) = Inr v"
    using Cons.prems(1,2) f by (intro string_at_middle) (auto simp: header_line_def)
  ultimately have "on_request buf (field_call (length pre) f) q = Inr (q\<lparr>qp_data := setHeader k v (qp_data q)\<rparr>)"
    by (simp add: field_call_def f on_request_http_field_def)
  moreover have "buf = (pre @ header_line f) @ concat (map header_line fs) @ post" using Cons.prems(1) by simp
  ultimately show ?case
    using Cons.IH [of "pre @ header_line f" "q\<lparr>qp_data := setHeader k v (qp_data q)\<rparr>"] Cons.prems(2,3)
    by (simp add: f setHeader_def put_fields_def)
qed

lemma on_target_calls:
  assumes "buf = pre @ target path query fragment @ post" "length buf < 2 ^ 63"
    "rq_query (qp_data q) = []" "rq_fragment (qp_data q) = []"
  shows "on_requests buf (target_calls (length pre) path query fragment) q =
    Inr (q\<lparr>qp_data := (qp_data q)\<lparr>rq_path := path, rq_query := query, rq_fragment := fragment\<rparr>\<rparr>)"
proof -
  have p: "string_at buf (length pre) (length path) = Inr path"
    using assms(1,2) by (intro string_at_middle) (auto simp: target_def)
  have q: "query \<noteq> [] \<Longrightarrow> string_at buf (length (pre @ path @ ''?'')) (length query) = Inr query"
    using assms(1,2) by (intro string_at_middle) (auto simp: target_def)
  have f: "fragment \<noteq> [] \<Longrightarrow>
      string_at buf (length (pre @ path @ (if query = [] then [] else ''?'' @ query) @ ''#'')) (length fragment) = Inr fragment"
    using assms(1,2) by (intro string_at_middle) (auto simp: target_def)
  show ?thesis using p q f assms(3,4)
    by (cases "query = []"; cases "fragment = []")
       (simp_all add: target_calls_def Let_def on_request_path_def on_request_query_def on_request_fragment_def
          ac_simps)
qed

definition version_text :: "byte \<Rightarrow> string" where
  "version_text v = (if v = 0x11 then ''1.1'' else ''1.0'')"

lemma on_version_call:
  assumes "buf = pre @ ''HTTP/'' @ version_text v @ post" "length buf < 2 ^ 63" "v = 0x10 \<or> v = 0x11"
  shows "on_request buf (OnVersion (length pre) 8) q = Inr (q\<lparr>qp_data := (qp_data q)\<lparr>rq_version := v\<rparr>\<rparr>)"
proof -
  have eight: "length (''HTTP/'' @ version_text v) = 8" by (simp add: version_text_def)
  have "string_at buf (length pre) (length (''HTTP/'' @ version_text v)) = Inr (''HTTP/'' @ version_text v)"
    using assms(1,2) by (intro string_at_middle) simp_all
  then have "string_at buf (length pre) 8 = Inr (''HTTP/'' @ version_text v)" unfolding eight .
  moreover have "http_version_of (drop (length pre) buf) 8 = Some v"
    using assms(1,3) by (auto simp: http_version_of_def strn_equal_def cstr_def version_text_def)
  ultimately show ?thesis by (simp add: on_request_version_def)
qed

lemma on_head_calls:
  assumes "m \<noteq> INVALID_METHOD" "list_all good_field fs" "v = 0x10 \<or> v = 0x11"
    and msg: "msg = head_line m path query fragment (version_text v) @ concat (map header_line fs) @ post" "length msg < 2 ^ 63"
    and q: "rq_query (qp_data q) = []" "rq_fragment (qp_data q) = []"
  shows "on_requests msg (head_calls m path query fragment fs @ [OnHeaderDone a b]) q =
    Inr (q\<lparr>qp_data := (qp_data q)\<lparr>rq_method := m, rq_path := path, rq_query := query, rq_fragment := fragment,
      rq_version := v, rq_headers := put_fields fs (rq_headers (qp_data q))\<rparr>\<rparr>)"
proof -
  let ?m = "HttpMethodToString m" and ?t = "target path query fragment"
  have form: "msg = (?m @ '' '') @ ?t @ ('' HTTP/'' @ version_text v @ CRLF @ concat (map header_line fs) @ post)"
    "msg = (?m @ '' '' @ ?t @ '' '') @ ''HTTP/'' @ version_text v @ (CRLF @ concat (map header_line fs) @ post)"
    "msg = (?m @ '' '' @ ?t @ '' HTTP/'' @ version_text v @ CRLF) @ concat (map header_line fs) @ post"
    by (simp_all add: msg(1) head_line_def)
  have "CharsToHttpMethod msg = m" using CharsToHttpMethod_name [OF assms(1)] by (simp add: form(1))
  then have "on_request msg (OnMethod 0 (length ?m)) q = Inr (q\<lparr>qp_data := (qp_data q)\<lparr>rq_method := m\<rparr>\<rparr>)"
    using assms(1) by (simp add: on_request_method_def Let_def)
  moreover have "length (version_text v) = 3" by (simp add: version_text_def)
  ultimately show ?thesis
    using on_target_calls [OF form(1) msg(2)] on_version_call [OF form(2) msg(2) assms(3)]
      on_field_calls [OF form(3) msg(2) assms(2)] q
    by (simp add: head_calls_def Let_def on_requests_append length_CRLF ac_simps)
qed

section \<open>The parser reads what HttpRequest writes\<close>

definition sendable :: "http_request \<Rightarrow> bool" where
  "sendable r \<longleftrightarrow> rq_method r \<noteq> MSEARCH \<and> rq_method r \<noteq> INVALID_METHOD \<and> good_path (rq_path r) \<and>
     encoded query_char (rq_query r) \<and> encoded query_char (rq_fragment r) \<and> (rq_version r = 0x10 \<or> rq_version r = 0x11) \<and>
     list_all good_field (rq_headers r)"

lemma good_digits: "is_digit c \<Longrightarrow> value_char c \<and> sc c \<noteq> 9 \<and> sc c \<noteq> 32"
  by (auto simp: is_digit_def value_char_def sc_def Let_def)

lemma good_rq_fields: "list_all good_field (rq_headers r) \<Longrightarrow> list_all good_field (rq_fields r)"
proof -
  have "good_field (connection_header True)" "good_field (connection_header False)" by code_simp+
  then have "good_field (connection_header c)" for c by (cases c) simp_all
  moreover have "good_field (''content-length2'', dec n)" for n
  proof -
    have "list_all token_char ''content-length2''" by code_simp
    moreover have "list_all value_char (dec n)" "dec n = [] \<or> sc (hd (dec n)) \<notin> {9, 32}"
      using dec_digits [of n] good_digits by (cases "dec n"; auto simp: list_all_iff)+
    ultimately show ?thesis by (simp add: good_field_def)
  qed
  moreover assume "list_all good_field (rq_headers r)"
  ultimately show ?thesis by (auto simp: rq_fields_def list_all_iff)
qed

definition request_head :: "http_request \<Rightarrow> string" where
  "request_head r = request_line r @ CRLF @ concat (map header_line (rq_fields r)) @ CRLF"

lemma dump_request_head: "dump_request r = request_head r @ rq_body r"
  by (simp add: dump_request_lines request_head_def)

text \<open>The request that is built from the head.\<close>

definition parsed_request :: "http_request \<Rightarrow> http_request" where
  "parsed_request r =
     (new_HttpRequest (rq_version r) True)\<lparr>rq_method := rq_method r, rq_path := rq_path r, rq_query := rq_query r,
      rq_fragment := rq_fragment r, rq_headers := put_fields (rq_fields r) []\<rparr>"

lemma head_parsed:
  assumes "sendable r" "length (request_head r @ tail) < 2 ^ 63"
  shows "\<exists>q. rqp_execute (new_HttpRequestParser h) (request_head r @ tail) = Inr (length (request_head r), tail, q) \<and>
    rqp_isFinished q = 1 \<and> \<not> rqp_hasError q \<and> qp_data q = parsed_request r"
proof -
  let ?msg = "request_head r @ tail"
  have v: "rq_version r = 0x10 \<or> rq_version r = 0x11" using assms(1) by (simp add: sendable_def)
  moreover have "dump_version 0x10 = version_text 0x10" "dump_version 0x11 = version_text 0x11" by code_simp+
  ultimately have "dump_version (rq_version r) = version_text (rq_version r)" by auto
  then have msg: "?msg = head_line (rq_method r) (rq_path r) (rq_query r) (rq_fragment r) (version_text (rq_version r)) @
      concat (map header_line (rq_fields r)) @ CRLF @ tail"
    by (simp add: request_head_def request_line_def head_line_def target_def)
  have fs: "list_all good_field (rq_fields r)" using assms(1) by (intro good_rq_fields) (simp add: sendable_def)
  have "version_text (rq_version r) \<in> {''1.0'', ''1.1''}" by (simp add: version_text_def)
  then obtain h' where h': "http_parser_execute (http_parser_init h) ?msg 0 =
      Inr (length ?msg - length tail, h', head_calls (rq_method r) (rq_path r) (rq_query r) (rq_fragment r) (rq_fields r) @
        [OnHeaderDone (length ?msg - length tail) (length tail)])" "hp_cs h' = 348"
    using execute_head [OF _ _ _ _ _ _ fs msg assms(2), of h] assms(1) by (auto simp: sendable_def)
  then show ?thesis
    using on_head_calls [OF _ fs v msg assms(2), of "new_HttpRequestParser h"] assms(1)
    by (simp add: rqp_execute_def new_HttpRequestParser_def sendable_def new_HttpRequest_def rqp_isFinished_def
        rqp_hasError_def http_parser_finish_def http_parser_has_error_def http_parser_is_finished_def parsed_request_def)
qed

subsection \<open>The headers of the parsed request\<close>

lemma put_fields_abs:
  "hm_ok m \<Longrightarrow> hm_ok (put_fields fs m) \<and>
     hm_abs (put_fields fs m) = hm_abs m ++ map_of (rev (map (\<lambda>(k, v). (case_key k, v)) fs))"
proof (induction fs arbitrary: m)
  case (Cons f fs)
  obtain k v where f: "f = (k, v)" by (cases f)
  have "hm_abs (put_fields (f # fs) m) = hm_abs (hm_put k v m) ++ map_of (rev (map (\<lambda>(k, v). (case_key k, v)) fs))"
    using Cons.IH [OF hm_put_ok [OF Cons.prems]] by (simp add: f put_fields_def)
  also have "\<dots> = hm_abs m ++ map_of (rev (map (\<lambda>(k, v). (case_key k, v)) (f # fs)))"
    by (rule ext) (simp add: f hm_put_abs [OF Cons.prems] map_add_def split: option.split)
  finally show ?case using Cons.IH [OF hm_put_ok [OF Cons.prems]] by (simp add: f put_fields_def)
qed (simp add: put_fields_def)

lemma hm_ok_distinct: "hm_ok m \<Longrightarrow> distinct (map (\<lambda>p. case_key (fst p)) m)"
proof (induction m)
  case (Cons p m)
  have "hm_ok m" "\<forall>j \<in> fst ` set m. CaseInsensitiveLess (fst p) j"
    using Cons.prems by (cases p, auto simp: hm_ok_def map_ok_def)+
  then show ?case using Cons.IH equiv_case_key [of "fst p"] by (force simp: equiv_by_def)
qed simp

lemma map_of_rev_distinct:
  assumes "distinct (map fst xs)"
  shows "map_of (rev xs) = map_of xs"
proof
  fix k
  have "map_of (rev xs) k = Some v \<longleftrightarrow> map_of xs k = Some v" for v
    using assms by (simp add: map_of_eq_Some_iff rev_map [symmetric])
  then show "map_of (rev xs) k = map_of xs k" by (metis not_None_eq)
qed

definition case_pair :: "string \<times> string \<Rightarrow> nat list \<times> string" where
  "case_pair = (\<lambda>(k, v). (case_key k, v))"

lemma map_of_filter_keys:
  "map_of (map case_pair (filter (\<lambda>p. Q (case_key (fst p))) xs)) x = (if Q x then map_of (map case_pair xs) x else None)"
  by (induction xs) (auto simp: case_pair_def)

text \<open>Lookup after the fields of a map have been put between others; the last field of a name counts.\<close>

lemma put_fields_find:
  assumes "hm_ok m"
  shows "hm_find key (put_fields (pre @ filter (\<lambda>p. Q (case_key (fst p))) m @ post) []) =
    (case map_of (rev (map case_pair post)) (case_key key) of
       Some v \<Rightarrow> Some v
     | None \<Rightarrow> (case if Q (case_key key) then hm_find key m else None of
                 Some v \<Rightarrow> Some v
               | None \<Rightarrow> map_of (rev (map case_pair pre)) (case_key key)))"
proof -
  let ?ms = "filter (\<lambda>p. Q (case_key (fst p))) m"
  have d: "distinct (map fst (map case_pair m))"
    using hm_ok_distinct [OF assms] by (simp add: case_pair_def comp_def case_prod_beta)
  then have "distinct (map fst (map case_pair ?ms))" by (simp add: distinct_map inj_on_def comp_def)
  then have f: "map_of (rev (map case_pair ?ms)) x = (if Q x then hm_abs m x else None)" for x
    unfolding map_of_rev_distinct [OF \<open>distinct (map fst (map case_pair ?ms))\<close>]
    using map_of_filter_keys [of Q m x] by (simp add: case_pair_def hm_abs_def)
  have "hm_find key (put_fields (pre @ ?ms @ post) []) = map_of (rev (map case_pair (pre @ ?ms @ post))) (case_key key)"
    using put_fields_abs [OF hm_empty(1), of "pre @ ?ms @ post"] by (simp add: hm_find_abs hm_empty case_pair_def)
  then show ?thesis
    using f [of "case_key key"] hm_find_abs [OF assms, of key] by (auto simp: map_add_def split: option.splits)
qed

text \<open>
  Every header is found again under its name, but for the connection header, which has the value of
  the close flag, and for the announced length of the body.
\<close>

lemma parsed_headers:
  assumes "hm_ok (rq_headers r)"
  shows "hm_find key (rq_headers (parsed_request r)) =
    (if case_key key = case_key ''content-length2'' \<and> rq_body r \<noteq> [] then Some (dec (length (rq_body r)))
     else if case_key key = case_key ''connection'' \<and> \<not> rq_websocket r then Some (if rq_close r then ''close'' else ''keep-alive'')
     else hm_find key (rq_headers r))"
proof -
  have ne: "case_key ''content-length2'' \<noteq> case_key ''connection''" by code_simp
  show ?thesis
    using put_fields_find [OF assms, of key "if rq_websocket r then [] else [connection_header (rq_close r)]"
        "\<lambda>k. rq_websocket r \<or> k \<noteq> case_key ''connection''"
        "if rq_body r = [] then [] else [(''content-length2'', dec (length (rq_body r)))]"] ne
    by (auto simp: parsed_request_def rq_fields_def connection_header_def case_pair_def split: option.splits)
qed

end
