(* ===== verification/HttpSessionFacts.thy ===== *)
theory HttpSessionFacts
  imports HttpSession RequestFacts
begin

text \<open>
  What a server receives of the requests that are written to it, and what it makes of a request that
  comes in pieces.
\<close>

lemma bytes_of_take_drop: "bytes_of (take n s) = take n (bytes_of s)" "bytes_of (drop n s) = drop n (bytes_of s)"
  by (simp_all add: bytes_of_def take_map drop_map)

section \<open>A request that comes with one read\<close>

lemma recv_head_whole:
  assumes "sendable r" "m_socket s = Some k" "conn k" "recv k buff = (rt, bs, k')" "0 < rt"
    "chars_of bs = request_head r @ tail" "length bs \<le> buff" "buff < 2 ^ 31"
  shows "\<exists>q. recv_head conn recv cl buff (new_HttpRequestParser h) [] s = Some (Inr (Some (q, tail), s\<lparr>m_socket := Some k'\<rparr>)) \<and>
    qp_data q = parsed_request r"
proof -
  have len: "length (request_head r) + length tail = length bs"
    using assms(6) chars_of_simps(2) [of bs] by (metis length_append)
  then have "length (request_head r @ tail) < 2 ^ 63" using assms(7,8) by simp
  then obtain q where q: "rqp_execute (new_HttpRequestParser h) (request_head r @ tail) = Inr (length (request_head r), tail, q)"
      "rqp_isFinished q = 1" "\<not> rqp_hasError q" "qp_data q = parsed_request r"
    using head_parsed [OF assms(1)] by blast
  have "stream_read conn recv s (buff - length ([] :: string)) = Inr (rt, bs, s\<lparr>m_socket := Some k'\<rparr>)"
    using assms(2-4) by (simp add: stream_read_def isConnected_def)
  moreover have "request_head r \<noteq> []" by (simp add: request_head_def CRLF_def)
  then have "length tail < buff" using len assms(7) by (cases "request_head r") auto
  moreover have "to_int (int buff) = int buff" using assms(8) by (intro to_int_small) simp_all
  ultimately show ?thesis using q assms(5,6) by (simp add: recv_head.simps [of conn recv cl buff])
qed

lemma recv_body_whole:
  assumes "steady_socket conn recv send inp out" "isConnected conn s" "j \<le> length body" "length body < 2 ^ 31"
    "stream_bytes inp s = bytes_of (drop j body) @ later"
  shows "\<exists>s'. recv_body conn recv cl (int (length body)) (take j body) s = Inr (Some body, s') \<and> stream_bytes inp s' = later"
proof (cases "j < length body")
  case False
  then show ?thesis using assms(3,5) by (intro exI [of _ s]) (simp add: recv_body_def Let_def overwrite_def)
next
  case True
  let ?n = "length body - j"
  have n: "?n < 2 ^ 31" "?n \<le> length (stream_bytes inp s)" using assms(4,5) by simp_all
  obtain t where t: "FixSize (read_buf_step (stream_read conn recv)) (s, []) ?n = Inr (int ?n, t)" "read_moved inp out (s, []) ?n t"
    using steady_socket.loops_complete(1) [OF assms(1), where s = "(s, [])" and n = ?n] assms(2) n by (auto simp: can_read_def)
  have "chars_of (snd t) = drop j body" "stream_bytes inp (fst t) = later"
  proof -
    obtain bs where bs: "length bs = ?n" "stream_bytes inp s = bs @ stream_bytes inp (fst t)" "snd t = bs"
      using t(2) by (auto simp: read_moved_def)
    then have "bs = bytes_of (drop j body) \<and> stream_bytes inp (fst t) = later"
      using assms(5) by (metis append_eq_append_conv chars_of_simps(5) length_drop)
    then show "chars_of (snd t) = drop j body" "stream_bytes inp (fst t) = later" using bs(3) by simp_all
  qed
  moreover have "overwrite j (drop j body) (overwrite 0 (take j body) (replicate (length body) (CHR 0x00))) = body"
    using True by (simp add: overwrite_def)
  moreover have "readFixSize_buf (stream_read conn recv) s ?n = Inr (int ?n, fst t, snd t)"
    using t(1) by (simp add: readFixSize_buf_def)
  ultimately show ?thesis using True by (cases t) (simp add: recv_body_def Let_def nat_diff_distrib')
qed

lemma content_length_int: "n < 2 ^ 31 \<Longrightarrow> sint (ucast (word_of_nat n :: u64) :: u32) = int n"
proof -
  assume n: "n < 2 ^ 31"
  then have "(ucast (word_of_nat n :: u64) :: u32) = word_of_int (int n)"
    by (simp add: unsigned_of_nat take_bit_nat_eq_self)
  then show ?thesis using n to_int_small [of "int n"] by (simp add: to_int_def)
qed

lemma parsed_names:
  "case_key ''content-length'' \<noteq> case_key ''content-length2''" "case_key ''content-length'' \<noteq> case_key ''connection''"
  "case_key ''connection'' \<noteq> case_key ''content-length2''"
  by code_simp+

lemma parsed_length:
  assumes "hm_ok (rq_headers r)" "getAs cast (rq_headers r) ''content-length'' 0 = w"
  shows "getAs cast (rq_headers (parsed_request r)) ''content-length'' 0 = w"
  using parsed_headers [OF assms(1), of "''content-length''"] assms(2) parsed_names by (simp add: getAs_def)

text \<open>What \<open>init\<close> makes of the parsed request and its body.\<close>

lemma received_request:
  fixes b :: string
  assumes "hm_ok (rq_headers r)"
  defines "req \<equiv> init_request ((parsed_request r)\<lparr>rq_body := b\<rparr>)"
  shows "rq_method req = rq_method r" "rq_path req = rq_path r" "rq_query req = rq_query r" "rq_fragment req = rq_fragment r"
    "rq_version req = rq_version r" "rq_body req = b" "rq_headers req = rq_headers (parsed_request r)"
    "\<not> rq_websocket r \<Longrightarrow> rq_close req = rq_close r"
proof -
  show "rq_method req = rq_method r" "rq_path req = rq_path r" "rq_query req = rq_query r" "rq_fragment req = rq_fragment r"
    "rq_version req = rq_version r" "rq_body req = b" "rq_headers req = rq_headers (parsed_request r)"
    by (simp_all add: req_def init_request_def Let_def parsed_request_def new_HttpRequest_def)
  have "getHeader ((parsed_request r)\<lparr>rq_body := b\<rparr>) ''connection'' [] = (if rq_close r then ''close'' else ''keep-alive'')"
    if "\<not> rq_websocket r"
    using parsed_headers [OF assms(1), of "''connection''"] parsed_names that by (auto simp: getHeader_def or_default_def)
  moreover have "strcasecmp ''close'' ''keep-alive'' \<noteq> 0" "strcasecmp ''keep-alive'' ''keep-alive'' = 0" by code_simp+
  ultimately show "rq_close req = rq_close r" if "\<not> rq_websocket r"
    using that by (simp add: req_def init_request_def Let_def)
qed

lemma first_read:
  assumes "steady_socket conn recv send inp out" "conn k" "inp k = bytes_of (head @ body) @ later"
    "recv k buff = (rt, bs, k')" "int (length head) \<le> rt" "rt \<le> int (length (head @ body))" "head \<noteq> []"
  defines "j \<equiv> nat rt - length head"
  shows "j \<le> length body" "chars_of bs = head @ take j body" "inp k' = bytes_of (drop j body) @ later"
    "conn k'" "0 < rt" "length bs \<le> buff"
proof -
  have law: "length bs = nat rt" "inp k = bs @ inp k'" "rt \<le> int buff"
    using stream_socket.recv_law [OF steady_socket.axioms(1) [OF assms(1)] assms(2,4)] by auto
  have j: "nat rt = length head + j" "nat rt \<le> length (bytes_of (head @ body))" using assms(5,6) by (auto simp: j_def)
  then show "j \<le> length body" by simp
  have "take (nat rt) (bytes_of (head @ body) @ later) = bs" "drop (nat rt) (bytes_of (head @ body) @ later) = inp k'"
    using law(1,2) assms(3) by (metis append_eq_conv_conj)+
  then have "bs = take (nat rt) (bytes_of (head @ body))" "inp k' = drop (nat rt) (bytes_of (head @ body)) @ later"
    using j(2) by auto
  then show "chars_of bs = head @ take j body" "inp k' = bytes_of (drop j body) @ later"
    using j(1) by (simp_all add: chars_of_take_drop bytes_of_take_drop)
  show "0 < rt" using assms(5,7) by (cases head) auto
  then have "0 < buff" using law(3) by simp
  moreover have "inp k \<noteq> []" using assms(3,7) by (simp add: bytes_of_def)
  ultimately show "conn k'" using steady_socket.recv_live [OF assms(1,2) _ _ assms(4)] by blast
  show "length bs \<le> buff" using law(1,3) by simp
qed


definition sample_request :: http_request where
  "sample_request = (setHeader ''Content-Length'' ''2'' (setHeader ''Host'' ''exhy'' (new_HttpRequest 0x11 False)))
     \<lparr>rq_method := POST, rq_path := ''/a%20b/'', rq_query := ''q=1'', rq_body := ''hi''\<rparr>"

definition sample_client :: "ksock sstream" where
  "sample_client =
     \<lparr>m_socket = Some \<lparr>k_connected = True, k_in = [bytes_of (dump_request sample_request)], k_out = [], k_room = 0\<rparr>, m_owner = True\<rparr>"


section \<open>A request that comes in two pieces\<close>

text \<open>What a call of execute makes of its buffer, and the next call with more data behind what is left.\<close>

definition executes_to :: "(nat \<times> string \<times> request_parser) res \<Rightarrow> nat \<Rightarrow> int \<Rightarrow> HttpMethod \<Rightarrow> bool" where
  "executes_to x n fin m =
     (case x of Inl _ \<Rightarrow> False
      | Inr (k, rest, q) \<Rightarrow> k = n \<and> rest = [] \<and> \<not> rqp_hasError q \<and> rqp_isFinished q = fin \<and> rq_method (qp_data q) = m)"

definition execute_then :: "(nat \<times> string \<times> request_parser) res \<Rightarrow> string \<Rightarrow> (nat \<times> string \<times> request_parser) res" where
  "execute_then x data = sbind x (\<lambda>(_, rest, q). rqp_execute q (rest @ data))"

lemmas run_simps = rqp_execute_def http_parser_execute_def req_exec_def goto_run_word new_HttpRequestParser_def http_parser_init_def
  Let_def http_parser_has_error_def http_parser_is_finished_def http_parser_finish_def rqp_hasError_def rqp_isFinished_def
  sc_def LEN_def CRLF_def string_at_def block_at_def

lemmas step_simps = req_delta_start req_delta_small req_delta_method method_steps req_3_def req_33_def req_4_def req_5_def
  req_6_def req_7_def req_8_def req_9_def req_10_def req_11_def req_12_def req_13_def req_17_def req_18_def
  req_tr10_def req_tr37_def req_tr13_def req_tr22_def req_tr25_def req_tr36_def widec_def

lemmas call_simps = on_request_method_def on_request_path_def on_request_version_def http_version_of_def strn_equal_def
  cstr_def CharsToHttpMethod_def method_table_def starts_with_Nil starts_with_Cons

text \<open>
  The parser forgets a token that one read has cut in two: of UNLOCK, read as UN and LOCK, it makes the method LOCK,
  although the whole text is read as UNLOCK.
\<close>

theorem split_method_misread:
  "executes_to (rqp_execute (new_HttpRequestParser h) (''UNLOCK / HTTP/1.1'' @ CRLF @ CRLF)) 21 1 UNLOCK \<and>
   executes_to (rqp_execute (new_HttpRequestParser h) ''UN'') 2 0 GET \<and>
   executes_to (execute_then (rqp_execute (new_HttpRequestParser h) ''UN'') (''LOCK / HTTP/1.1'' @ CRLF @ CRLF)) 19 1 LOCK"
proof (intro conjI)
  show "executes_to (rqp_execute (new_HttpRequestParser h) ''UN'') 2 0 GET"
    by (simp add: executes_to_def run_simps step_simps new_HttpRequest_def)
  show "executes_to (rqp_execute (new_HttpRequestParser h) (''UNLOCK / HTTP/1.1'' @ CRLF @ CRLF)) 21 1 UNLOCK"
    by (simp add: executes_to_def run_simps step_simps call_simps)
  show "executes_to (execute_then (rqp_execute (new_HttpRequestParser h) ''UN'') (''LOCK / HTTP/1.1'' @ CRLF @ CRLF)) 19 1 LOCK"
    by (simp add: executes_to_def execute_then_def run_simps step_simps call_simps)
qed

end
