(* ===== verification/ResponseLines.thy ===== *)
theory ResponseLines
  imports ResponseSafety RequestFacts
begin

text \<open>
  What the response machine makes of a header line. It follows three names letter by letter; a line of any name but
  transfer-encoding is stored as a field and leaves the machine at the start of a line.
\<close>

section \<open>The states of a header line\<close>

text \<open>Within a name, where a value starts, within a value.\<close>

definition name_states :: "nat set" where
  "name_states = {21} \<union> {25..<35} \<union> {44..<61} \<union> {101..<112}"

definition value_starts :: "nat set" where
  "value_starts = {22, 35, 61, 112}"

definition chunked_states :: "nat set" where
  "chunked_states = {81..<88}"

definition value_states :: "nat set" where
  "value_states = {23, 119} \<union> chunked_states \<union> {96..<101}"

lemmas state_lists = name_states_def value_starts_def chunked_states_def value_states_def

lemmas line_defs = rsp_20_def rsp_21_def rsp_22_def rsp_23_def rsp_24_def rsp_25_def rsp_26_def rsp_27_def rsp_28_def rsp_29_def
  rsp_30_def rsp_31_def rsp_32_def rsp_33_def rsp_34_def rsp_35_def rsp_43_def rsp_44_def rsp_45_def rsp_46_def rsp_47_def
  rsp_48_def rsp_49_def rsp_50_def rsp_51_def rsp_52_def rsp_53_def rsp_54_def rsp_55_def rsp_56_def rsp_57_def rsp_58_def
  rsp_59_def rsp_60_def rsp_61_def rsp_71_def rsp_81_def rsp_82_def rsp_83_def rsp_84_def rsp_85_def rsp_86_def rsp_87_def
  rsp_88_def rsp_3_def rsp_96_def rsp_97_def rsp_98_def rsp_99_def rsp_100_def rsp_101_def rsp_102_def rsp_103_def rsp_104_def rsp_105_def
  rsp_106_def rsp_107_def rsp_108_def rsp_109_def rsp_110_def rsp_111_def rsp_112_def rsp_119_def

lemma rsp_delta_line:
  "rsp_delta 3 = rsp_3" "rsp_delta 20 = rsp_20" "rsp_delta 21 = rsp_21" "rsp_delta 22 = rsp_22"
  "rsp_delta 23 = rsp_23" "rsp_delta 24 = rsp_24" "rsp_delta 25 = rsp_25" "rsp_delta 26 = rsp_26"
  "rsp_delta 27 = rsp_27" "rsp_delta 28 = rsp_28" "rsp_delta 29 = rsp_29" "rsp_delta 30 = rsp_30"
  "rsp_delta 31 = rsp_31" "rsp_delta 32 = rsp_32" "rsp_delta 33 = rsp_33" "rsp_delta 34 = rsp_34"
  "rsp_delta 35 = rsp_35" "rsp_delta 43 = rsp_43" "rsp_delta 44 = rsp_44" "rsp_delta 45 = rsp_45"
  "rsp_delta 46 = rsp_46" "rsp_delta 47 = rsp_47" "rsp_delta 48 = rsp_48" "rsp_delta 49 = rsp_49"
  "rsp_delta 50 = rsp_50" "rsp_delta 51 = rsp_51" "rsp_delta 52 = rsp_52" "rsp_delta 53 = rsp_53"
  "rsp_delta 54 = rsp_54" "rsp_delta 55 = rsp_55" "rsp_delta 56 = rsp_56" "rsp_delta 57 = rsp_57"
  "rsp_delta 58 = rsp_58" "rsp_delta 59 = rsp_59" "rsp_delta 60 = rsp_60" "rsp_delta 61 = rsp_61"
  "rsp_delta 71 = rsp_71" "rsp_delta 81 = rsp_81" "rsp_delta 82 = rsp_82" "rsp_delta 83 = rsp_83"
  "rsp_delta 84 = rsp_84" "rsp_delta 85 = rsp_85" "rsp_delta 86 = rsp_86" "rsp_delta 87 = rsp_87"
  "rsp_delta 88 = rsp_88" "rsp_delta 96 = rsp_96" "rsp_delta 97 = rsp_97" "rsp_delta 98 = rsp_98"
  "rsp_delta 99 = rsp_99" "rsp_delta 100 = rsp_100" "rsp_delta 101 = rsp_101" "rsp_delta 102 = rsp_102"
  "rsp_delta 103 = rsp_103" "rsp_delta 104 = rsp_104" "rsp_delta 105 = rsp_105" "rsp_delta 106 = rsp_106"
  "rsp_delta 107 = rsp_107" "rsp_delta 108 = rsp_108" "rsp_delta 109 = rsp_109" "rsp_delta 110 = rsp_110"
  "rsp_delta 111 = rsp_111" "rsp_delta 112 = rsp_112" "rsp_delta 119 = rsp_119"
  by (simp_all add: rsp_delta_def rsp_states_def)

text \<open>The letters of transfer-encoding, which lead from the state 43 + k to the next.\<close>

definition te :: "nat \<Rightarrow> int list" where
  "te k = [[84, 116], [82, 114], [65, 97], [78, 110], [83, 115], [70, 102], [69, 101], [82, 114], [45], [69, 101], [78, 110],
     [67, 99], [79, 111], [68, 100], [73, 105], [78, 110], [71, 103]] ! k"

definition name_step :: "nat \<Rightarrow> int \<Rightarrow> rsp_action jump \<Rightarrow> bool" where
  "name_step n c j \<longleftrightarrow>
     (case j of St m \<Rightarrow> m \<in> name_states \<and> (44 \<le> m \<and> m < 61 \<longrightarrow> m = n + 1 \<and> 44 \<le> n \<and> c \<in> set (te (m - 44))) | _ \<Rightarrow> False)"

lemma name_step_if: "(b \<Longrightarrow> name_step n c x) \<Longrightarrow> (\<not> b \<Longrightarrow> name_step n c y) \<Longrightarrow> name_step n c (if b then x else y)"
  by simp

definition token_code :: "int \<Rightarrow> bool" where
  "token_code n \<longleftrightarrow> (n \<in> {33, 42, 43, 45, 46, 124, 126} \<or> 35 \<le> n \<and> n \<le> 39 \<or> 48 \<le> n \<and> n \<le> 57 \<or>
     65 \<le> n \<and> n \<le> 90 \<or> 94 \<le> n \<and> n \<le> 122)"

lemma name_step_leaves:
  "name_step n c (St 21)" "26 \<le> m \<Longrightarrow> m < 35 \<Longrightarrow> name_step n c (St m)" "101 \<le> m \<Longrightarrow> m < 112 \<Longrightarrow> name_step n c (St m)"
  "44 \<le> n \<Longrightarrow> n < 60 \<Longrightarrow> m = n + 1 \<Longrightarrow> c \<in> set (te (n - 43)) \<Longrightarrow> name_step n c (St m)"
  by (auto simp: name_step_def name_states_def)

lemma name_steps:
  assumes "token_code c"
  shows
    "name_step 21 c (rsp_21 c)"
    "name_step 25 c (rsp_25 c)"
    "name_step 26 c (rsp_26 c)"
    "name_step 27 c (rsp_27 c)"
    "name_step 28 c (rsp_28 c)"
    "name_step 29 c (rsp_29 c)"
    "name_step 30 c (rsp_30 c)"
    "name_step 31 c (rsp_31 c)"
    "name_step 32 c (rsp_32 c)"
    "name_step 33 c (rsp_33 c)"
    "name_step 34 c (rsp_34 c)"
    "name_step 44 c (rsp_44 c)"
    "name_step 45 c (rsp_45 c)"
    "name_step 46 c (rsp_46 c)"
    "name_step 47 c (rsp_47 c)"
    "name_step 48 c (rsp_48 c)"
    "name_step 49 c (rsp_49 c)"
    "name_step 50 c (rsp_50 c)"
    "name_step 51 c (rsp_51 c)"
    "name_step 52 c (rsp_52 c)"
    "name_step 53 c (rsp_53 c)"
    "name_step 54 c (rsp_54 c)"
    "name_step 55 c (rsp_55 c)"
    "name_step 56 c (rsp_56 c)"
    "name_step 57 c (rsp_57 c)"
    "name_step 58 c (rsp_58 c)"
    "name_step 59 c (rsp_59 c)"
    "name_step 60 c (rsp_60 c)"
    "name_step 101 c (rsp_101 c)"
    "name_step 102 c (rsp_102 c)"
    "name_step 103 c (rsp_103 c)"
    "name_step 104 c (rsp_104 c)"
    "name_step 105 c (rsp_105 c)"
    "name_step 106 c (rsp_106 c)"
    "name_step 107 c (rsp_107 c)"
    "name_step 108 c (rsp_108 c)"
    "name_step 109 c (rsp_109 c)"
    "name_step 110 c (rsp_110 c)"
    "name_step 111 c (rsp_111 c)"
  unfolding line_defs
  by (intro name_step_if; use assms in \<open>(simp add: name_step_leaves te_def; fail) | (auto simp: token_code_def)\<close>)+

lemma name_states_step:
  assumes "token_code c" "n \<in> name_states"
  shows "name_step n c (rsp_delta n c)"
proof -
  have "\<forall>n \<in> name_states. name_step n c (rsp_delta n c)"
    using name_steps [OF assms(1)]
    by (simp add: name_states_def ball_Un atLeastLessThan_upt rsp_delta_line)
  then show ?thesis using assms(2) by blast
qed

text \<open>The first character of a line, the colon, the first character of a value, the others, and the end of the line.\<close>

definition start_jump :: "int \<Rightarrow> rsp_action jump \<Rightarrow> bool" where
  "start_jump c j \<longleftrightarrow>
     (case j of Tr as m \<Rightarrow> (as = [RStartField] \<or> as = [WriteConnectionClose, RStartField]) \<and> m \<in> {21, 25, 44} \<and>
        (m = 44 \<longrightarrow> c \<in> set (te 0)) | _ \<Rightarrow> False)"

definition colon_jump :: "nat \<Rightarrow> rsp_action jump \<Rightarrow> bool" where
  "colon_jump n j \<longleftrightarrow> (case j of Tr as v \<Rightarrow> as = [RWriteField] \<and> v \<in> value_starts \<and> (v = 61 \<longrightarrow> n = 60) | _ \<Rightarrow> False)"

definition first_jump :: "nat \<Rightarrow> rsp_action jump \<Rightarrow> bool" where
  "first_jump v j \<longleftrightarrow>
     (case j of Tr as w \<Rightarrow> as = [RStartValue] \<and> w \<in> value_states \<and> (w \<in> chunked_states \<longrightarrow> v = 61) | _ \<Rightarrow> False)"

definition value_jump :: "nat \<Rightarrow> rsp_action jump \<Rightarrow> bool" where
  "value_jump w j \<longleftrightarrow> (case j of St x \<Rightarrow> x \<in> value_states \<and> (x \<in> chunked_states \<longrightarrow> w \<in> chunked_states) | _ \<Rightarrow> False)"

definition end_jump :: "nat \<Rightarrow> rsp_action jump \<Rightarrow> bool" where
  "end_jump w j \<longleftrightarrow>
     (case j of Tr as x \<Rightarrow> (as = [RWriteValue] \<or> as = [WriteContentLen, RWriteValue]) \<and> x \<in> {24, 71, 88} \<and>
        (x = 71 \<longrightarrow> w \<in> chunked_states) | _ \<Rightarrow> False)"

lemma jump_ifs:
  "(b \<Longrightarrow> start_jump c x) \<Longrightarrow> (\<not> b \<Longrightarrow> start_jump c y) \<Longrightarrow> start_jump c (if b then x else y)"
  "(b \<Longrightarrow> first_jump v x) \<Longrightarrow> (\<not> b \<Longrightarrow> first_jump v y) \<Longrightarrow> first_jump v (if b then x else y)"
  "(b \<Longrightarrow> value_jump v x) \<Longrightarrow> (\<not> b \<Longrightarrow> value_jump v y) \<Longrightarrow> value_jump v (if b then x else y)"
  by simp_all

lemma start_steps:
  assumes "token_code c"
  shows "start_jump c (rsp_20 c)" "start_jump c (rsp_43 c)"
  unfolding line_defs
  by (intro jump_ifs; use assms in \<open>(simp add: start_jump_def te_def rsp_edges; fail) | (auto simp: token_code_def)\<close>)+

lemma colon_steps: "n \<in> name_states \<Longrightarrow> colon_jump n (rsp_delta n 58)"
proof -
  have "\<forall>n \<in> name_states. colon_jump n (rsp_delta n 58)"
    by (simp add: name_states_def ball_Un atLeastLessThan_upt rsp_delta_line line_defs colon_jump_def value_starts_def rsp_edges)
  then show "n \<in> name_states \<Longrightarrow> colon_jump n (rsp_delta n 58)" by blast
qed

lemma blank_steps: "v \<in> value_starts \<Longrightarrow> rsp_delta v 32 = Tr [RStartValue] v"
  by (auto simp: value_starts_def rsp_delta_line line_defs rsp_edges)

lemma first_steps: "v \<in> value_starts \<Longrightarrow> c < 9 \<or> 13 < c \<Longrightarrow> c \<noteq> 32 \<Longrightarrow> first_jump v (rsp_delta v c)"
  by (auto simp: value_starts_def rsp_delta_line line_defs rsp_edges first_jump_def value_states_def chunked_states_def)

lemma value_states_all: "(\<forall>w \<in> value_states. P w) \<longleftrightarrow> P 23 \<and> P 81 \<and> P 82 \<and> P 83 \<and> P 84 \<and> P 85 \<and> P 86 \<and> P 87 \<and>
    P 96 \<and> P 97 \<and> P 98 \<and> P 99 \<and> P 100 \<and> P 119"
  by (auto simp: value_states_def chunked_states_def ball_Un atLeastLessThan_upt)

lemma value_steps_rsp: "w \<in> value_states \<Longrightarrow> c \<noteq> 10 \<Longrightarrow> c \<noteq> 13 \<Longrightarrow> value_jump w (rsp_delta w c)"
proof -
  assume c: "c \<noteq> 10" "c \<noteq> 13"
  have "\<forall>w \<in> value_states. value_jump w (rsp_delta w c)"
    unfolding value_states_all rsp_delta_line line_defs
    using c by (simp add: value_jump_def value_states_def chunked_states_def)
  then show "w \<in> value_states \<Longrightarrow> value_jump w (rsp_delta w c)" by blast
qed

lemma value_ends: "w \<in> value_states \<Longrightarrow> end_jump w (rsp_delta w 13)"
proof -
  have "\<forall>w \<in> value_states. end_jump w (rsp_delta w 13)"
    unfolding value_states_all rsp_delta_line line_defs by (simp add: end_jump_def chunked_states_def rsp_edges)
  then show "w \<in> value_states \<Longrightarrow> end_jump w (rsp_delta w 13)" by blast
qed

lemma line_ends: "rsp_24 10 = St 20" "rsp_88 10 = St 43"
  by (simp_all add: line_defs)

section \<open>A header line\<close>

abbreviation rsp_run :: "string \<Rightarrow> string \<Rightarrow> nat \<Rightarrow> nat \<Rightarrow> httpclient_parser \<times> rsp_call list \<Rightarrow>
    nat \<times> nat \<times> httpclient_parser \<times> rsp_call list" where
  "rsp_run buf \<equiv> word_run rsp_delta (rsp_act buf)"

lemma token_char_code: "token_char c \<longleftrightarrow> token_code (sc c)"
  by (simp add: token_char_def token_code_def Let_def)

lemma sc_of_char: "sc c = n \<Longrightarrow> 0 \<le> n \<Longrightarrow> (of_char c :: nat) = nat n"
proof -
  have "int (of_char c) < 256" by simp
  moreover have "sc c = int (of_char c) \<or> sc c = int (of_char c) - 256" by (simp add: sc_def Let_def)
  ultimately show "sc c = n \<Longrightarrow> 0 \<le> n \<Longrightarrow> (of_char c :: nat) = nat n" by linarith
qed

lemma te_key: "case_key ''transfer-encoding'' = [116, 114, 97, 110, 115, 102, 101, 114, 45, 101, 110, 99, 111, 100, 105, 110, 103]"
  by code_simp

lemma te_lower: "k < 17 \<Longrightarrow> sc c \<in> set (te k) \<Longrightarrow> lower c = case_key ''transfer-encoding'' ! k"
proof -
  assume "sc c \<in> set (te k)"
  moreover assume "k < 17"
  then have "k \<in> {0, 1, 2, 3, 4, 5, 6, 7, 8, 9, 10, 11, 12, 13, 14, 15, 16}" unfolding insert_iff empty_iff by presburger
  ultimately show ?thesis by (auto simp: te_def te_key lower_def Let_def dest!: sc_of_char)
qed

text \<open>The states of transfer-encoding are reached by its letters only.\<close>

definition in_te :: "nat \<Rightarrow> string \<Rightarrow> bool" where
  "in_te n xs \<longleftrightarrow> (44 \<le> n \<and> n < 61 \<longrightarrow> map lower xs = take (n - 43) (case_key ''transfer-encoding''))"

lemma in_te_step:
  assumes "name_step n (sc c) (St m)" "in_te n xs" "n \<in> name_states"
  shows "m \<in> name_states \<and> in_te m (xs @ [c])"
proof -
  have m: "m \<in> name_states" "44 \<le> m \<and> m < 61 \<longrightarrow> m = n + 1 \<and> 44 \<le> n \<and> sc c \<in> set (te (m - 44))"
    using assms(1) by (simp_all add: name_step_def)
  have "in_te m (xs @ [c])"
    unfolding in_te_def
  proof
    assume r: "44 \<le> m \<and> m < 61"
    then have n: "m = Suc n" "44 \<le> n" "n - 43 < 17" "sc c \<in> set (te (n - 43))" using m(2) by auto
    have "m - 43 = Suc (n - 43)" "length (case_key ''transfer-encoding'') = 17" using n(1,2) by (auto simp: te_key)
    then have "take (m - 43) (case_key ''transfer-encoding'') =
        take (n - 43) (case_key ''transfer-encoding'') @ [case_key ''transfer-encoding'' ! (n - 43)]"
      using n(3) take_Suc_conv_app_nth [of "n - 43" "case_key ''transfer-encoding''"] by (simp only: \<open>m - 43 = Suc (n - 43)\<close>)
    then show "map lower (xs @ [c]) = take (m - 43) (case_key ''transfer-encoding'')"
      using assms(2) n te_lower [OF n(3,4)] r by (simp add: in_te_def)
  qed
  then show ?thesis using m(1) by simp
qed

lemma name_run:
  assumes "list_all token_char ks" "n \<in> name_states" "in_te n xs"
  shows "\<exists>m \<in> name_states. in_te m (xs @ ks) \<and> (\<forall>ys p s. rsp_run buf (ks @ ys) p n s = rsp_run buf ys (p + length ks) m s)"
  using assms
proof (induction ks arbitrary: n xs)
  case (Cons c ks)
  have "name_step n (sc c) (rsp_delta n (sc c))" using Cons.prems by (intro name_states_step) (simp_all add: token_char_code)
  moreover obtain m where m: "rsp_delta n (sc c) = St m"
    using calculation by (auto simp: name_step_def split: jump.splits)
  ultimately have "m \<in> name_states \<and> in_te m (xs @ [c])" using in_te_step Cons.prems by metis
  moreover have "m \<noteq> 0" using calculation by (auto simp: name_states_def)
  ultimately show ?case using Cons.IH [of m "xs @ [c]"] Cons.prems(1) m by auto
qed auto

definition rsp_value_char :: "char \<Rightarrow> bool" where
  "rsp_value_char c \<longleftrightarrow> sc c \<noteq> 10 \<and> sc c \<noteq> 13"

lemma value_run:
  assumes "list_all rsp_value_char vs" "w \<in> value_states"
  shows "\<exists>x \<in> value_states. (x \<in> chunked_states \<longrightarrow> w \<in> chunked_states) \<and>
    (\<forall>ys p s. rsp_run buf (vs @ ys) p w s = rsp_run buf ys (p + length vs) x s)"
  using assms
proof (induction vs arbitrary: w)
  case (Cons c vs)
  then have "value_jump w (rsp_delta w (sc c))" using value_steps_rsp by (simp add: rsp_value_char_def)
  then obtain x where x: "rsp_delta w (sc c) = St x" "x \<in> value_states" "x \<in> chunked_states \<longrightarrow> w \<in> chunked_states"
    by (auto simp: value_jump_def split: jump.splits)
  moreover have "x \<noteq> 0" using x(2) by (auto simp: value_states_def chunked_states_def)
  ultimately show ?case using Cons.IH [of x] Cons.prems(1) by auto
qed auto

text \<open>A line is stored as a field unless its name is transfer-encoding. A value starts with no blank and is not empty.\<close>

definition rsp_field :: "string \<times> string \<Rightarrow> bool" where
  "rsp_field f \<longleftrightarrow> fst f \<noteq> [] \<and> list_all token_char (fst f) \<and> case_key (fst f) \<noteq> case_key ''transfer-encoding'' \<and>
     snd f \<noteq> [] \<and> list_all rsp_value_char (snd f) \<and> (sc (hd (snd f)) < 9 \<or> 13 < sc (hd (snd f))) \<and> sc (hd (snd f)) \<noteq> 32"

definition rsp_field_call :: "nat \<Rightarrow> string \<times> string \<Rightarrow> rsp_call" where
  "rsp_field_call p f = OnRField p (length (fst f)) (p + length (fst f) + 2) (length (snd f))"

lemma token_key: "list_all token_char k \<Longrightarrow> case_key k = map lower k"
proof -
  assume "list_all token_char k"
  then have "CHR 0x00 \<notin> set k" by (auto simp: list_all_iff token_char_def sc_def Let_def)
  then show ?thesis by (simp add: case_key_def)
qed

lemma line_start_run:
  assumes "q \<in> {20, 43}" "list_all token_char k" "k \<noteq> []" "case_key k \<noteq> case_key ''transfer-encoding''"
    "p + length k < 2 ^ 64"
  shows "\<exists>v h1. v \<in> value_starts \<and> v \<noteq> 61 \<and> cp_chunked h1 = cp_chunked h \<and> cp_field_start h1 = p \<and> cp_field_len h1 = length k \<and>
    (\<forall>ys. rsp_run buf (k @ CHR '':'' # ys) p q (h, cs) = rsp_run buf ys (p + length k + 1) v (h1, cs))"
proof -
  obtain c ks where k: "k = c # ks" "token_char c" "list_all token_char ks" using assms(2,3) by (cases k) auto
  have "start_jump (sc c) (rsp_delta q (sc c))"
    using start_steps [of "sc c"] k(2) assms(1) by (auto simp: token_char_code rsp_delta_line)
  then obtain as m where m: "rsp_delta q (sc c) = Tr as m" "as = [RStartField] \<or> as = [WriteConnectionClose, RStartField]"
      "m \<in> {21, 25, 44}" "m = 44 \<longrightarrow> sc c \<in> set (te 0)"
    by (auto simp: start_jump_def split: jump.splits)
  then have "in_te m [c]" using te_lower [of 0 c] by (auto simp: in_te_def te_key)
  moreover have "m \<in> name_states" using m(3) by (auto simp: name_states_def)
  ultimately obtain n where n: "n \<in> name_states" "in_te n k"
      "\<And>ys p s. rsp_run buf (ks @ ys) p m s = rsp_run buf ys (p + length ks) n s"
    using name_run [OF k(3), of m "[c]" buf] k(1) by auto
  have "n \<noteq> 60" using n(2) assms(2,4) by (auto simp: in_te_def token_key te_key)
  then obtain v where v: "rsp_delta n 58 = Tr [RWriteField] v" "v \<in> value_starts" "v \<noteq> 61"
    using colon_steps [OF n(1)] by (auto simp: colon_jump_def split: jump.splits)
  define h1 where "h1 = fst (fold (rsp_act buf p) as (h, cs))"
  have h1: "fold (rsp_act buf p) as (h, cs) = (h1, cs)" "cp_chunked h1 = cp_chunked h" "cp_field_start h1 = p"
    using m(2) by (auto simp: h1_def)
  have "rsp_run buf (k @ CHR '':'' # ys) p q (h, cs) =
      rsp_run buf ys (p + length k + 1) v (h1\<lparr>cp_field_len := length k\<rparr>, cs)" for ys
    using assms(5) by (simp add: k(1) m(1) h1 n(3) v(1) LEN_le)
  then show ?thesis using v h1 by (intro exI [of _ v] exI [of _ "h1\<lparr>cp_field_len := length k\<rparr>"]) simp
qed

lemma line_value_run:
  assumes "v \<in> value_starts" "v \<noteq> 61" "d \<noteq> []" "list_all rsp_value_char d" "sc (hd d) < 9 \<or> 13 < sc (hd d)" "sc (hd d) \<noteq> 32"
    "p + 1 + length d < 2 ^ 64"
  shows "\<exists>q h1. q \<in> {20, 43} \<and> cp_chunked h1 = cp_chunked h \<and>
    (\<forall>ys. rsp_run buf (CHR '' '' # d @ CRLF @ ys) p v (h, cs) = rsp_run buf ys (p + length d + 3) q
      (h1, cs @ [OnRField (cp_field_start h) (cp_field_len h) (p + 1) (length d)]))"
proof -
  obtain c xs where d: "d = c # xs" "list_all rsp_value_char xs" using assms(3,4) by (cases d) auto
  then have "first_jump v (rsp_delta v (sc c))" using first_steps assms(1,5,6) by simp
  then obtain w where w: "rsp_delta v (sc c) = Tr [RStartValue] w" "w \<in> value_states" "w \<notin> chunked_states"
    using assms(2) by (auto simp: first_jump_def split: jump.splits)
  obtain x where x: "x \<in> value_states" "x \<notin> chunked_states"
      "\<And>ys p s. rsp_run buf (xs @ ys) p w s = rsp_run buf ys (p + length xs) x s"
    using value_run [OF d(2) w(2), of buf] w(3) by blast
  obtain as e where e: "rsp_delta x 13 = Tr as e" "as = [RWriteValue] \<or> as = [WriteContentLen, RWriteValue]" "e = 24 \<or> e = 88"
    using value_ends [OF x(1)] x(2) by (auto simp: end_jump_def split: jump.splits)
  obtain q where q: "rsp_delta e 10 = St q" "q \<in> {20, 43}" using e(3) line_ends by (auto simp: rsp_delta_line)
  define h1 where "h1 = fst (fold (rsp_act buf (p + 1 + length d)) as (h\<lparr>cp_mark := p + 1\<rparr>, cs))"
  have h1: "fold (rsp_act buf (p + 1 + length d)) as (h\<lparr>cp_mark := p + 1\<rparr>, cs) =
      (h1, cs @ [OnRField (cp_field_start h) (cp_field_len h) (p + 1) (length d)])" "cp_chunked h1 = cp_chunked h"
    using e(2) assms(7) by (auto simp: h1_def LEN_le)
  have "q \<noteq> 0" using q(2) by auto
  then have "rsp_run buf (CHR '' '' # d @ CRLF @ ys) p v (h, cs) = rsp_run buf ys (p + length d + 3) q
      (h1, cs @ [OnRField (cp_field_start h) (cp_field_len h) (p + 1) (length d)])" for ys
    using h1(1) by (simp add: d(1) CRLF_def blank_steps [OF assms(1)] w(1) x(3) e(1) q(1) eval_nat_numeral)
  then show ?thesis using q(2) h1(2) by blast
qed

end
