(* ===== verification/ResponseFacts.thy ===== *)
theory ResponseFacts
  imports ResponseLines
begin

text \<open>
  The response parser reads the head that HttpResponse::dump writes: the status line, every header line and
  the end of the head, and the callbacks build the response from them.
\<close>

section \<open>Numbers\<close>

lemma digit_code: "is_digit c \<Longrightarrow> digit_of c = digit_val c \<and> digit_of c < 10 \<and> \<not> is_space c \<and> c \<noteq> CHR 0x00 \<and> c \<noteq> CHR ''-'' \<and> c \<noteq> CHR ''+''"
  by (auto simp: is_digit_def digit_of_def digit_val_def is_space_def Let_def)

lemma based_dec: "10 \<le> digit_of e \<Longrightarrow> based 10 (dec n @ e # ys) = n"
proof -
  assume e: "10 \<le> digit_of e"
  have all: "\<forall>c \<in> set (dec n). is_digit c" using dec_digits by blast
  then have ten: "\<forall>c \<in> set (dec n). digit_of c < 10" using digit_code by blast
  have "takeWhile (\<lambda>c. digit_of c < 10) (dec n @ e # ys) = dec n"
    using ten e by (simp add: takeWhile_append2)
  moreover have "foldl (\<lambda>n c. 10 * n + digit_of c) m xs = foldl (\<lambda>n c. 10 * n + digit_val c) m xs"
    if "\<forall>c \<in> set xs. is_digit c" for m xs
    using that by (induction xs arbitrary: m) (simp_all add: digit_code)
  ultimately show ?thesis using all undec_dec [of n] by (simp add: based_def undec_def)
qed

lemma dec_Cons: "\<exists>c cs. dec n = c # cs \<and> is_digit c"
proof (cases "dec n")
  case Nil
  moreover have "dec n \<noteq> []" by (subst dec.simps) simp
  ultimately show ?thesis by simp
next
  case (Cons c cs)
  then show ?thesis using dec_digits [of n] by simp
qed

lemma strtol_dec: "n < 2 ^ 63 \<Longrightarrow> 10 \<le> digit_of e \<Longrightarrow> e \<noteq> CHR 0x00 \<Longrightarrow> strtol 10 (dec n @ e # ys) = int n"
proof -
  assume n: "n < 2 ^ 63" and e: "10 \<le> digit_of e" "e \<noteq> CHR 0x00"
  obtain c cs where c: "dec n = c # cs" "is_digit c" using dec_Cons by blast
  have "\<forall>c \<in> set (dec n). c \<noteq> CHR 0x00" using dec_digits digit_code by blast
  then have "cstr (dec n @ e # ys) = dec n @ e # cstr ys" using e(2) by (simp add: cstr_def takeWhile_append2)
  moreover have "based 10 (dec n @ e # cstr ys) = n" using e(1) by (rule based_dec)
  ultimately show ?thesis using n digit_code [OF c(2)] by (simp add: strtol_def Let_def c(1))
qed

lemma blank_ends: "10 \<le> digit_of (CHR '' '')" "CHR '' '' \<noteq> CHR 0x00"
  by (simp_all add: digit_of_def)

lemma long_to_int_u32: "long_to_int (int (unat (word_of_int s :: u32))) = s" if "- (2 ^ 31) \<le> s" "s < 2 ^ 31"
  using that by (simp add: long_to_int_def int_word_sint)

section \<open>The status line\<close>

definition rsp_status_line :: "string \<Rightarrow> nat \<Rightarrow> string \<Rightarrow> string" where
  "rsp_status_line v n reason = ''HTTP/'' @ v @ '' '' @ dec n @ '' '' @ reason @ CRLF"

lemma rsp_delta_status:
  "rsp_delta 1 = rsp_1" "rsp_delta 3 = rsp_3" "rsp_delta 8 = rsp_8" "rsp_delta 9 = rsp_9" "rsp_delta 10 = rsp_10"
  "rsp_delta 11 = rsp_11" "rsp_delta 12 = rsp_12" "rsp_delta 13 = rsp_13" "rsp_delta 14 = rsp_14" "rsp_delta 15 = rsp_15"
  "rsp_delta 16 = rsp_16" "rsp_delta 17 = rsp_17" "rsp_delta 18 = rsp_18" "rsp_delta 19 = rsp_19" "rsp_delta 24 = rsp_24"
  by (simp_all add: rsp_delta_def rsp_states_def)

lemmas rsp_delta_start = rsp_delta_status(1) [unfolded One_nat_def]

lemmas status_defs = rsp_1_def rsp_3_def rsp_8_def rsp_9_def rsp_10_def rsp_11_def rsp_12_def rsp_13_def rsp_14_def rsp_15_def
  rsp_24_def rsp_tr2_def rsp_tr26_def rsp_tr27_def rsp_tr28_def rsp_tr30_def
  rsp_tr33_def rsp_tr7_def

lemma digit_steps: "is_digit c \<Longrightarrow> rsp_16 (sc c) = Tr [RMark] 17" "is_digit c \<Longrightarrow> rsp_17 (sc c) = St 17" "rsp_17 32 = rsp_tr28"
  by (auto simp: is_digit_def sc_def Let_def rsp_16_def rsp_17_def rsp_tr27_def)

lemma reason_steps: "rsp_value_char c \<Longrightarrow> rsp_18 (sc c) = Tr [RMark] 19" "rsp_value_char c \<Longrightarrow> rsp_19 (sc c) = St 19" "rsp_19 13 = rsp_tr33"
  by (auto simp: rsp_value_char_def rsp_18_def rsp_19_def rsp_tr30_def)

lemma status_run:
  assumes "v \<in> {''1.0'', ''1.1''}" "reason \<noteq> []" "list_all rsp_value_char reason" "length buf < 2 ^ 63"
    "buf = rsp_status_line v n reason @ ys" "n < 2 ^ 63"
  shows "\<exists>h1. cp_chunked h1 = cp_chunked h \<and> rsp_run buf buf 0 1 (h, []) =
    rsp_run buf ys (length (rsp_status_line v n reason)) 20
      (h1, [OnRVersion 0 8, OnStatus 9 (length (dec n)), OnReason (10 + length (dec n)) (length reason)])"
proof -
  obtain c cs where c: "dec n = c # cs" "is_digit c" using dec_Cons by blast
  have cs: "\<forall>d \<in> set cs. is_digit d" using dec_digits [of n] c(1) by simp
  obtain r rs where r: "reason = r # rs" using assms(2) by (cases reason) auto
  have digits: "rsp_run buf (cs @ zs) p 17 s = rsp_run buf zs (p + length cs) 17 s" for zs p s
    using cs by (intro word_run_span) (simp_all add: rsp_delta_status digit_steps)
  have words: "rsp_run buf (rs @ zs) p 19 s = rsp_run buf zs (p + length rs) 19 s" for zs p s
    using assms(3) r by (intro word_run_span) (simp_all add: rsp_delta_status reason_steps list_all_iff)
  have len: "length (rsp_status_line v n reason) = length (dec n) + length reason + 12"
    using assms(1) by (auto simp: rsp_status_line_def CRLF_def)
  have bound: "length (dec n) + length reason + 12 < 2 ^ 63" using assms(4,5) len by simp
  have nums: "9 = Suc (Suc (Suc (Suc (Suc (Suc (Suc (Suc (Suc (0)))))))))" "\<And>n. 11 + n = Suc (Suc (Suc (Suc (Suc (Suc (Suc (Suc (Suc (Suc (Suc (n)))))))))))"
    "\<And>n. 14 + n = Suc (Suc (Suc (Suc (Suc (Suc (Suc (Suc (Suc (Suc (Suc (Suc (Suc (Suc (n))))))))))))))" "\<And>n. nat (1 + int n) = Suc n"
    by simp_all
  let ?h1 = "h\<lparr>cp_status := long_to_int (strtol 10 (drop 9 buf)), cp_mark := 10 + length (dec n)\<rparr>"
  have "rsp_run buf (rsp_status_line v n reason @ ys) 0 1 (h, []) =
    rsp_run buf ys (length (rsp_status_line v n reason)) 20
      (?h1, [OnRVersion 0 8, OnStatus 9 (length (dec n)), OnReason (10 + length (dec n)) (length reason)])"
    using assms(1,3) bound unfolding len
    by (auto simp: rsp_status_line_def c(1) r CRLF_def rsp_delta_status status_defs digits words LEN_def
        digit_steps c(2) reason_steps rsp_delta_start list_all_iff) (simp_all add: nums)
  then show ?thesis using assms(5) by (intro exI [of _ ?h1]) simp
qed

section \<open>The head\<close>

lemma rsp_field_run:
  assumes "q \<in> {20, 43}" "rsp_field f" "p + length (header_line f) < 2 ^ 64"
  shows "\<exists>q' h1. q' \<in> {20, 43} \<and> cp_chunked h1 = cp_chunked h \<and>
    (\<forall>ys. rsp_run buf (header_line f @ ys) p q (h, cs) =
       rsp_run buf ys (p + length (header_line f)) q' (h1, cs @ [rsp_field_call p f]))"
proof -
  obtain k d where f: "f = (k, d)" by (cases f)
  have len: "length (header_line f) = length k + length d + 4" by (simp add: f header_line_def CRLF_def)
  have fd: "k \<noteq> []" "list_all token_char k" "case_key k \<noteq> case_key ''transfer-encoding''" "d \<noteq> []" "list_all rsp_value_char d"
    "sc (hd d) < 9 \<or> 13 < sc (hd d)" "sc (hd d) \<noteq> 32"
    using assms(2) by (simp_all add: f rsp_field_def)
  obtain v h1 where v: "v \<in> value_starts" "v \<noteq> 61" "cp_chunked h1 = cp_chunked h" "cp_field_start h1 = p"
      "cp_field_len h1 = length k"
      "\<And>ys. rsp_run buf (k @ CHR '':'' # ys) p q (h, cs) = rsp_run buf ys (p + length k + 1) v (h1, cs)"
    using line_start_run [OF assms(1) fd(2,1,3), of p h buf cs] assms(3) len by auto
  obtain q' h2 where q: "q' \<in> {20, 43}" "cp_chunked h2 = cp_chunked h1"
      "\<And>ys. rsp_run buf (CHR '' '' # d @ CRLF @ ys) (p + length k + 1) v (h1, cs) =
        rsp_run buf ys (p + length k + 1 + length d + 3) q' (h2, cs @ [OnRField p (length k) (p + length k + 1 + 1) (length d)])"
    using line_value_run [OF v(1,2) fd(4-7), of "p + length k + 1" h1 buf cs] v(4,5) assms(3) len by auto
  have "header_line f @ ys = k @ CHR '':'' # CHR '' '' # d @ CRLF @ ys" for ys by (simp add: f header_line_def)
  moreover have "p + length k + 1 + length d + 3 = p + length (header_line f)" "p + length k + 1 + 1 = p + length k + 2"
    by (simp_all add: len)
  ultimately have "rsp_run buf (header_line f @ ys) p q (h, cs) =
      rsp_run buf ys (p + length (header_line f)) q' (h2, cs @ [rsp_field_call p f])" for ys
    using v(6) [of "CHR '' '' # d @ CRLF @ ys"] q(3) [of ys] by (simp only: rsp_field_call_def f fst_conv snd_conv)
  then show ?thesis using q(1,2) v(3) by auto
qed

primrec rsp_field_calls :: "nat \<Rightarrow> (string \<times> string) list \<Rightarrow> rsp_call list" where
  "rsp_field_calls p [] = []"
| "rsp_field_calls p (f # fs) = rsp_field_call p f # rsp_field_calls (p + length (header_line f)) fs"

lemma rsp_fields_run:
  assumes "q \<in> {20, 43}" "list_all rsp_field fs" "p + length (concat (map header_line fs)) < 2 ^ 64"
  shows "\<exists>q' h1. q' \<in> {20, 43} \<and> cp_chunked h1 = cp_chunked h \<and>
    (\<forall>ys. rsp_run buf (concat (map header_line fs) @ ys) p q (h, cs) =
       rsp_run buf ys (p + length (concat (map header_line fs))) q' (h1, cs @ rsp_field_calls p fs))"
  using assms
proof (induction fs arbitrary: p q h cs)
  case Nil
  then show ?case by auto
next
  case (Cons f fs)
  obtain q1 h1 where 1: "q1 \<in> {20, 43}" "cp_chunked h1 = cp_chunked h"
      "\<And>ys. rsp_run buf (header_line f @ ys) p q (h, cs) =
        rsp_run buf ys (p + length (header_line f)) q1 (h1, cs @ [rsp_field_call p f])"
    using rsp_field_run [of q f p h buf cs] Cons.prems by auto
  obtain q2 h2 where 2: "q2 \<in> {20, 43}" "cp_chunked h2 = cp_chunked h1"
      "\<And>ys. rsp_run buf (concat (map header_line fs) @ ys) (p + length (header_line f)) q1 (h1, cs @ [rsp_field_call p f]) =
        rsp_run buf ys (p + length (header_line f) + length (concat (map header_line fs))) q2
          (h2, (cs @ [rsp_field_call p f]) @ rsp_field_calls (p + length (header_line f)) fs)"
    using Cons.IH [OF 1(1), of "p + length (header_line f)" h1 "cs @ [rsp_field_call p f]"] Cons.prems by auto
  then show ?case using 1 by (intro exI [of _ q2] exI [of _ h2]) (simp add: add.assoc)
qed

lemma rsp_end_run:
  assumes "q \<in> {20, 43}"
  shows "\<exists>h1. cp_chunked h1 = cp_chunked h \<and>
    rsp_run buf (CRLF @ ys) p q (h, cs) = (120, p + 2, h1, cs @ [OnRHeaderDone (p + 2) (length buf - p - 2)])"
proof -
  have "rsp_20 13 = St 3" "rsp_43 13 = Tr [WriteConnectionClose] 3" "rsp_3 10 = rsp_tr7"
    by (simp_all add: line_defs rsp_edges)
  then show ?thesis using assms by (auto simp: CRLF_def rsp_delta_line rsp_edges)
qed

definition rsp_head_calls :: "nat \<Rightarrow> string \<Rightarrow> (string \<times> string) list \<Rightarrow> rsp_call list" where
  "rsp_head_calls n reason fs =
     [OnRVersion 0 8, OnStatus 9 (length (dec n)), OnReason (10 + length (dec n)) (length reason)] @
     rsp_field_calls (12 + length (dec n) + length reason) fs"

lemma execute_response_head:
  assumes "v \<in> {''1.0'', ''1.1''}" "reason \<noteq> []" "list_all rsp_value_char reason" "n < 2 ^ 63" "list_all rsp_field fs"
    and buf: "buf = rsp_status_line v n reason @ concat (map header_line fs) @ CRLF @ body" "length buf < 2 ^ 31"
  shows "\<exists>h'. httpclient_parser_execute (httpclient_parser_init h) buf 0 =
      Inr (int (length buf - length body), h',
        rsp_head_calls n reason fs @ [OnRHeaderDone (length buf - length body) (length body)]) \<and>
      cp_cs h' = 120 \<and> \<not> cp_chunked h'"
proof -
  define h0 where "h0 = (httpclient_parser_init h)\<lparr>cp_nread := 0, cp_mark := 0, cp_field_len := 0, cp_field_start := 0\<rparr>"
  have h0: "cp_cs h0 = 1" "\<not> cp_chunked h0" "cp_body_start h0 = 0" "cp_nread h0 = 0" "cp_mark h0 = 0" "cp_field_start h0 = 0"
    "cp_field_len h0 = 0"
    by (simp_all add: h0_def httpclient_parser_init_def)
  let ?s = "length (rsp_status_line v n reason)" and ?k = "length (concat (map header_line fs))"
  have s: "?s = 12 + length (dec n) + length reason" using assms(1) by (auto simp: rsp_status_line_def CRLF_def)
  have len: "length buf = ?s + ?k + 2 + length body" by (simp add: buf(1) CRLF_def)
  obtain h1 where h1: "cp_chunked h1 = cp_chunked h0" "rsp_run buf buf 0 1 (h0, []) =
      rsp_run buf (concat (map header_line fs) @ CRLF @ body) ?s 20
        (h1, [OnRVersion 0 8, OnStatus 9 (length (dec n)), OnReason (10 + length (dec n)) (length reason)])"
    using status_run [OF assms(1-3) _ buf(1) assms(4), of h0] buf(2) by auto
  let ?c = "[OnRVersion 0 8, OnStatus 9 (length (dec n)), OnReason (10 + length (dec n)) (length reason)]"
  have calls: "rsp_head_calls n reason fs = ?c @ rsp_field_calls ?s fs" by (simp add: rsp_head_calls_def s)
  obtain q h2 where h2: "q \<in> {20, 43}" "cp_chunked h2 = cp_chunked h1"
      "rsp_run buf (concat (map header_line fs) @ CRLF @ body) ?s 20
        (h1, ?c) =
       rsp_run buf (CRLF @ body) (?s + ?k) q (h2, rsp_head_calls n reason fs)"
    unfolding calls using rsp_fields_run [OF _ assms(5), of 20 ?s h1 buf ?c] buf(2) len by auto
  obtain h3 where h3: "cp_chunked h3 = cp_chunked h2" "rsp_run buf (CRLF @ body) (?s + ?k) q (h2, rsp_head_calls n reason fs) =
      (120, ?s + ?k + 2, h3, rsp_head_calls n reason fs @ [OnRHeaderDone (?s + ?k + 2) (length buf - (?s + ?k) - 2)])"
    using rsp_end_run [OF h2(1)] by blast
  have run: "rsp_run buf buf 0 1 (h0, []) =
      (120, ?s + ?k + 2, h3, rsp_head_calls n reason fs @ [OnRHeaderDone (?s + ?k + 2) (length body)])"
    using h1(2) h2(3) h3(2) len by simp
  moreover have "rsp_kept (length buf) h0 0 (h0, [])" using h0 len by (simp add: rsp_kept_def)
  ultimately have kept: "rsp_kept (length buf) h0 (?s + ?k + 2) (h3, rsp_head_calls n reason fs @ [OnRHeaderDone (?s + ?k + 2) (length body)])"
    using rsp_run_kept [of buf h0 1] buf(2) by simp
  have "rsp_exec buf 0 h0 = (120, ?s + ?k + 2, h3, rsp_head_calls n reason fs @ [OnRHeaderDone (?s + ?k + 2) (length body)])"
    using run h0 by (simp add: rsp_exec_def goto_run_word)
  moreover have "sint (word_of_nat (?s + ?k + 2) :: u32) = int (?s + ?k + 2)"
    using len buf(2) by (intro sint_of_nat_small) simp
  moreover have "length buf - length body = ?s + ?k + 2" using len by simp
  ultimately show ?thesis using kept h0 h1(1) h2(2) h3(1) len
    by (simp add: httpclient_parser_execute_def h0_def [symmetric] Let_def rsp_kept_def)
qed

section \<open>The response the callbacks build\<close>

lemma on_rsp_field_calls:
  assumes "buf = pre @ concat (map header_line fs) @ post" "length buf < 2 ^ 63" "list_all rsp_field fs"
  shows "on_responses buf (rsp_field_calls (length pre) fs) q =
    Inr (q\<lparr>sp_data := (sp_data q)\<lparr>rs_headers := put_fields fs (rs_headers (sp_data q))\<rparr>\<rparr>)"
  using assms
proof (induction fs arbitrary: pre q)
  case Nil
  then show ?case by (simp add: put_fields_def)
next
  case (Cons f fs)
  obtain k v where f: "f = (k, v)" by (cases f)
  have "k \<noteq> []" using Cons.prems(3) f by (simp add: rsp_field_def)
  moreover have "string_at buf (length pre) (length k) = Inr k"
    using Cons.prems(1,2) f by (intro string_at_middle) (auto simp: header_line_def)
  moreover have "string_at buf (length (pre @ k @ '': '')) (length v) = Inr v"
    using Cons.prems(1,2) f by (intro string_at_middle) (auto simp: header_line_def)
  ultimately have "on_response buf (rsp_field_call (length pre) f) q = Inr (q\<lparr>sp_data := rs_setHeader k v (sp_data q)\<rparr>)"
    by (simp add: rsp_field_call_def f on_response_http_field_def)
  moreover have "buf = (pre @ header_line f) @ concat (map header_line fs) @ post" using Cons.prems(1) by simp
  ultimately show ?case
    using Cons.IH [of "pre @ header_line f" "q\<lparr>sp_data := rs_setHeader k v (sp_data q)\<rparr>"] Cons.prems(2,3)
    by (simp add: f rs_setHeader_def put_fields_def)
qed

lemma on_rsp_head_calls:
  assumes "v = 0x10 \<or> v = 0x11" "list_all rsp_field fs" "n < 2 ^ 63"
    and buf: "buf = rsp_status_line (version_text v) n reason @ concat (map header_line fs) @ post" "length buf < 2 ^ 63"
  shows "on_responses buf (rsp_head_calls n reason fs @ [OnRHeaderDone a b]) q =
    Inr (q\<lparr>sp_data := (sp_data q)\<lparr>rs_version := v, rs_status := long_to_int (int n), rs_reason := reason,
      rs_headers := put_fields fs (rs_headers (sp_data q))\<rparr>\<rparr>)"
proof -
  have ten: "length (version_text v) = 3" by (simp add: version_text_def)
  have form: "buf = (''HTTP/'' @ version_text v @ '' '' @ dec n @ '' '') @ reason @ (CRLF @ concat (map header_line fs) @ post)"
    "buf = rsp_status_line (version_text v) n reason @ concat (map header_line fs) @ post"
    "drop 9 buf = dec n @ CHR '' '' # reason @ CRLF @ concat (map header_line fs) @ post"
    using ten by (simp_all add: buf(1) rsp_status_line_def)
  have "http_version_of buf 8 = Some v"
    using assms(1) by (auto simp: buf(1) rsp_status_line_def http_version_of_def strn_equal_def cstr_def version_text_def)
  moreover have "string_at buf (10 + length (dec n)) (length reason) = Inr reason"
    using string_at_middle [OF form(1) buf(2)] ten by (simp add: ac_simps)
  moreover have "atoi (drop 9 buf) = long_to_int (int n)" unfolding form(3) by (simp only: atoi_def strtol_dec [OF assms(3) blank_ends])
  moreover have "12 + length (dec n) + length reason = length (rsp_status_line (version_text v) n reason)"
    using ten by (simp add: rsp_status_line_def CRLF_def)
  ultimately show ?thesis
    using on_rsp_field_calls [OF form(2) buf(2) assms(2)]
    by (simp add: rsp_head_calls_def on_responses_append on_response_version_def on_response_status_def on_response_reason_def)
qed

section \<open>The parser reads what HttpResponse writes\<close>

definition reason_text :: "http_response \<Rightarrow> string" where
  "reason_text r = (if rs_reason r = [] then HttpStatusToString (rs_status r) else rs_reason r)"

definition plain_value :: "string \<Rightarrow> bool" where
  "plain_value s \<longleftrightarrow> s \<noteq> [] \<and> list_all rsp_value_char s \<and> (sc (hd s) < 9 \<or> 13 < sc (hd s)) \<and> sc (hd s) \<noteq> 32"

definition sendable_response :: "http_response \<Rightarrow> bool" where
  "sendable_response r \<longleftrightarrow> (rs_version r = 0x10 \<or> rs_version r = 0x11) \<and> - (2 ^ 31) \<le> rs_status r \<and> rs_status r < 2 ^ 31 \<and>
     list_all rsp_value_char (rs_reason r) \<and> list_all rsp_field (rs_headers r) \<and> list_all plain_value (rs_cookies r)"

lemma rsp_status_words: "list_all (\<lambda>p. list_all rsp_value_char (snd p) \<and> snd p \<noteq> []) status_table"
  "list_all rsp_value_char ''<unknow>''"
  by code_simp+

lemma reason_text_ok: "list_all rsp_value_char (rs_reason r) \<Longrightarrow> list_all rsp_value_char (reason_text r) \<and> reason_text r \<noteq> []"
proof -
  have "list_all rsp_value_char (HttpStatusToString s) \<and> HttpStatusToString s \<noteq> []" for s
  proof (cases "map_of status_table s")
    case (Some d)
    then have "(s, d) \<in> set status_table" by (rule map_of_SomeD)
    then show ?thesis using rsp_status_words(1) Some by (fastforce simp: HttpStatusToString_def list_all_iff)
  qed (use rsp_status_words(2) in \<open>simp add: HttpStatusToString_def\<close>)
  then show "list_all rsp_value_char (rs_reason r) \<Longrightarrow> list_all rsp_value_char (reason_text r) \<and> reason_text r \<noteq> []"
    by (simp add: reason_text_def)
qed

lemma digit_value: "is_digit c \<Longrightarrow> rsp_value_char c \<and> 13 < sc c \<and> sc c \<noteq> 32"
  by (auto simp: is_digit_def rsp_value_char_def sc_def Let_def)

lemma sendable_fields: "sendable_response r \<Longrightarrow> list_all rsp_field (rs_fields r)"
proof -
  have "rsp_field (connection_header True)" "rsp_field (connection_header False)" by code_simp+
  then have "rsp_field (connection_header c)" for c by (cases c) simp_all
  moreover have names: "rsp_field (''content-length'', ''0'')" "rsp_field (''Set-Cookie'', ''0'')" by code_simp+
  moreover have "plain_value (dec n)" for n
  proof -
    obtain c cs where c: "dec n = c # cs" "is_digit c" using dec_Cons by blast
    moreover have "list_all rsp_value_char (dec n)" using dec_digits [of n] digit_value by (simp add: list_all_iff)
    ultimately show ?thesis using digit_value [OF c(2)] by (simp add: plain_value_def)
  qed
  moreover have "rsp_field (''content-length'', v)" "rsp_field (''Set-Cookie'', v)" if "plain_value v" for v
    using names that unfolding rsp_field_def plain_value_def fst_conv snd_conv by blast+
  ultimately show "sendable_response r \<Longrightarrow> list_all rsp_field (rs_fields r)"
    by (auto simp: rs_fields_def sendable_response_def list_all_iff)
qed

definition response_head :: "http_response \<Rightarrow> string" where
  "response_head r = rsp_status_line (version_text (rs_version r)) (unat (word_of_int (rs_status r) :: u32)) (reason_text r) @
     concat (map header_line (rs_fields r)) @ CRLF"

lemma dump_response_head: "sendable_response r \<Longrightarrow> dump_response r = response_head r @ rs_body r"
proof -
  have "dump_version 0x10 = version_text 0x10" "dump_version 0x11 = version_text 0x11" by code_simp+
  then show "sendable_response r \<Longrightarrow> dump_response r = response_head r @ rs_body r"
    by (auto simp: sendable_response_def dump_response_lines response_head_def status_line_def rsp_status_line_def reason_text_def)
qed

definition parsed_response :: "http_response \<Rightarrow> http_response" where
  "parsed_response r =
     (new_HttpResponse (rs_version r) True)\<lparr>rs_status := rs_status r, rs_reason := reason_text r,
      rs_headers := put_fields (rs_fields r) []\<rparr>"

lemma response_head_parsed:
  assumes "sendable_response r" "length (response_head r @ tail) < 2 ^ 31"
  shows "\<exists>q. rsp_execute (new_HttpResponseParser h) (response_head r @ tail) False = Inr (length (response_head r), tail, q) \<and>
    rsp_isFinished q = 1 \<and> \<not> rsp_hasError q \<and> sp_data q = parsed_response r \<and> \<not> cp_chunked (sp_parser q)"
proof -
  let ?buf = "response_head r @ tail" and ?n = "unat (word_of_int (rs_status r) :: u32)"
  have buf: "?buf = rsp_status_line (version_text (rs_version r)) ?n (reason_text r) @ concat (map header_line (rs_fields r)) @ CRLF @ tail"
    by (simp add: response_head_def)
  have fs: "list_all rsp_field (rs_fields r)" using sendable_fields assms(1) .
  have v: "rs_version r = 0x10 \<or> rs_version r = 0x11" "list_all rsp_value_char (reason_text r)" "reason_text r \<noteq> []"
    using assms(1) reason_text_ok [of r] by (auto simp: sendable_response_def)
  have status: "long_to_int (int ?n) = rs_status r"
    using assms(1) by (intro long_to_int_u32) (simp_all add: sendable_response_def)
  have "?n < 2 ^ 32" using unsigned_less [of "word_of_int (rs_status r) :: u32"] by simp
  then have n: "?n < 2 ^ 63" by simp
  have "version_text (rs_version r) \<in> {''1.0'', ''1.1''}" by (simp add: version_text_def)
  then obtain h' where h': "httpclient_parser_execute (httpclient_parser_init h) ?buf 0 =
      Inr (int (length (response_head r)), h', rsp_head_calls ?n (reason_text r) (rs_fields r) @
        [OnRHeaderDone (length (response_head r)) (length tail)])" "cp_cs h' = 120" "\<not> cp_chunked h'"
    using execute_response_head [OF _ v(3,2) n fs buf assms(2), of h] by auto
  then show ?thesis
    using on_rsp_head_calls [OF v(1) fs n buf, of "length (response_head r)" "length tail" "new_HttpResponseParser h"] assms(2) status
    by (simp add: rsp_execute_def new_HttpResponseParser_def new_HttpResponse_def rsp_isFinished_def rsp_hasError_def
        httpclient_parser_finish_def httpclient_parser_has_error_def httpclient_parser_is_finished_def parsed_response_def)
qed

text \<open>Of the cookies only the last one is kept.\<close>

lemma parsed_response_headers:
  assumes "hm_ok (rs_headers r)"
  shows "hm_find key (rs_headers (parsed_response r)) =
    (if case_key key = case_key ''content-length'' \<and> rs_body r \<noteq> [] then Some (dec (length (rs_body r)))
     else if case_key key = case_key ''connection'' \<and> \<not> rs_websocket r then Some (if rs_close r then ''close'' else ''keep-alive'')
     else if case_key key = case_key ''Set-Cookie'' \<and> rs_cookies r \<noteq> [] then Some (last (rs_cookies r))
     else hm_find key (rs_headers r))"
proof -
  have ne: "case_key ''content-length'' \<noteq> case_key ''connection''" "case_key ''content-length'' \<noteq> case_key ''Set-Cookie''"
    "case_key ''connection'' \<noteq> case_key ''Set-Cookie''"
    by code_simp+
  have "map_of (rev (map case_pair (map (Pair ''Set-Cookie'') cs))) k =
      (if k = case_key ''Set-Cookie'' \<and> cs \<noteq> [] then Some (last cs) else None)" for cs k
    by (induction cs) (auto simp: case_pair_def map_add_def split: option.splits)
  then show ?thesis
    using put_fields_find [OF assms, of key "[]" "\<lambda>k. rs_websocket r \<or> k \<noteq> case_key ''connection''"
        "map (Pair ''Set-Cookie'') (rs_cookies r) @ (if rs_websocket r then [] else [connection_header (rs_close r)]) @
         (if rs_body r = [] then [] else [(''content-length'', dec (length (rs_body r)))])"] ne
    by (auto simp: parsed_response_def rs_fields_def connection_header_def case_pair_def map_add_def split: option.splits)
qed

end
