(* ===== verification/ZlibStream.thy ===== *)
theory ZlibStream
  imports Stream
begin

text \<open>
  ZlibStream (exhy/streams/zlib_stream.h, zlib_stream.cpp): a stream that compresses or decompresses what is
  written to it into a list of buffers of one size. zlib itself is a parameter: \<open>deflate\<close> and \<open>inflate\<close> take the
  state of the z\_stream, the input at next\_in, avail\_out and whether flush is Z\_FINISH, and give
  their result, the number of bytes taken, the bytes put out and the new state.
\<close>

type_synonym 'z flate = "'z \<Rightarrow> byte list \<Rightarrow> nat \<Rightarrow> bool \<Rightarrow> int \<times> nat \<times> byte list \<times> 'z"

datatype zlib_type = ZLIB | DEFLATE | GZIP

text \<open>A buffer is its first \<open>iov_len\<close> bytes. \<open>z_ended\<close> says that deflateEnd or inflateEnd has been called.\<close>

record 'z zlib_stream =
  z_state :: 'z
  z_next_in :: "byte list"
  z_ended :: bool
  z_buffSize :: nat
  z_encode :: bool
  z_free :: bool
  z_buffs :: "byte list list"

section \<open>Construction\<close>

text \<open>\<open>deflateInit2\<close> and \<open>inflateInit2\<close> take the parameters and give their result and the state.\<close>

definition zs_init ::
  "(int \<Rightarrow> int \<Rightarrow> int \<Rightarrow> int \<Rightarrow> int \<times> 'z) \<Rightarrow> (int \<Rightarrow> int \<times> 'z) \<Rightarrow> bool \<Rightarrow> zlib_type \<Rightarrow> int \<Rightarrow> int \<Rightarrow> int \<Rightarrow> int \<Rightarrow> (int \<times> 'z) res" where
  "zs_init deflateInit2 inflateInit2 enc typ level window_bits memlevel strategy =
     (if \<not> (0 \<le> level \<and> level \<le> 9 \<or> level = - 1) then Inl AssertFailed
      else if \<not> (8 \<le> window_bits \<and> window_bits \<le> 15) then Inl AssertFailed
      else if \<not> (1 \<le> memlevel \<and> memlevel \<le> 9) then Inl AssertFailed
      else let wb = (case typ of DEFLATE \<Rightarrow> - window_bits | GZIP \<Rightarrow> window_bits + 16 | ZLIB \<Rightarrow> window_bits)
        in Inr (if enc then deflateInit2 level wb memlevel strategy else inflateInit2 wb))"

definition zs_Create ::
  "(int \<Rightarrow> int \<Rightarrow> int \<Rightarrow> int \<Rightarrow> int \<times> 'z) \<Rightarrow> (int \<Rightarrow> int \<times> 'z) \<Rightarrow> bool \<Rightarrow> nat \<Rightarrow> zlib_type \<Rightarrow> int \<Rightarrow> int \<Rightarrow> int \<Rightarrow> int \<Rightarrow>
     'z zlib_stream option res" where
  "zs_Create deflateInit2 inflateInit2 enc buff_size typ level window_bits memlevel strategy =
     sbind (zs_init deflateInit2 inflateInit2 enc typ level window_bits memlevel strategy)
       (\<lambda>(rt, z). Inr (if rt = 0 then Some \<lparr>z_state = z, z_next_in = [], z_ended = False, z_buffSize = buff_size,
                                            z_encode = enc, z_free = True, z_buffs = []\<rparr>
                       else None))"

text \<open>The defaults of the header: level -1, 15 window bits, memory level 8, strategy 0.\<close>

definition zs_CreateGzip where
  "zs_CreateGzip deflateInit2 inflateInit2 enc buff_size = zs_Create deflateInit2 inflateInit2 enc buff_size GZIP (- 1) 15 8 0"

definition zs_CreateZlib where
  "zs_CreateZlib deflateInit2 inflateInit2 enc buff_size = zs_Create deflateInit2 inflateInit2 enc buff_size ZLIB (- 1) 15 8 0"

definition zs_CreateDeflate where
  "zs_CreateDeflate deflateInit2 inflateInit2 enc buff_size = zs_Create deflateInit2 inflateInit2 enc buff_size DEFLATE (- 1) 15 8 0"

section \<open>The loops of encode and decode\<close>

text \<open>The buffers with one at the end that has room: the last one, or a new one.\<close>

definition with_room :: "nat \<Rightarrow> byte list list \<Rightarrow> byte list list" where
  "with_room n bufs = (if bufs \<noteq> [] \<and> length (last bufs) \<noteq> n then bufs else bufs @ [[]])"

text \<open>After the end the z\_stream has no state, and zlib answers Z\_STREAM\_ERROR.\<close>

definition zcall :: "'z flate \<Rightarrow> 'z zlib_stream \<Rightarrow> nat \<Rightarrow> bool \<Rightarrow> int \<times> nat \<times> byte list \<times> 'z" where
  "zcall f z n fin = (if z_ended z then (- 2, 0, [], z_state z) else f (z_state z) (z_next_in z) n fin)"

partial_function (option) flate_loop :: "'z flate \<Rightarrow> bool \<Rightarrow> 'z zlib_stream \<Rightarrow> (int \<times> 'z zlib_stream) option" where
  "flate_loop f fin z =
     (let bufs = with_room (z_buffSize z) (z_buffs z); ivc = last bufs; avail_out = z_buffSize z - length ivc
      in case zcall f z avail_out fin of (ret, k, out, st) \<Rightarrow>
           let z1 = z\<lparr>z_state := st, z_next_in := drop k (z_next_in z), z_buffs := bufs\<rparr>
           in if ret = - 2 then Some (ret, z1)
              else let z2 = z1\<lparr>z_buffs := butlast bufs @ [ivc @ out]\<rparr>
                in if length out = avail_out then flate_loop f fin z2 else Some (0, z2))"

text \<open>One vector after the other; input that is left when the inner loop ends is dropped.\<close>

primrec flate_vectors :: "'z flate \<Rightarrow> bool \<Rightarrow> 'z zlib_stream \<Rightarrow> byte list list \<Rightarrow> (int \<times> 'z zlib_stream) option" where
  "flate_vectors f fin z [] = Some (0, z)"
| "flate_vectors f fin z (v # vs) =
     (case flate_loop f (fin \<and> vs = []) (z\<lparr>z_next_in := v\<rparr>) of
        None \<Rightarrow> None
      | Some (ret, z1) \<Rightarrow> if ret = - 2 then Some (ret, z1) else flate_vectors f fin z1 vs)"

definition zs_code :: "'z flate \<Rightarrow> bool \<Rightarrow> 'z zlib_stream \<Rightarrow> byte list list \<Rightarrow> (int \<times> 'z zlib_stream) option" where
  "zs_code f fin z vs =
     (case flate_vectors f fin z vs of
        None \<Rightarrow> None
      | Some (ret, z1) \<Rightarrow> Some (ret, if ret \<noteq> - 2 \<and> fin \<and> vs \<noteq> [] then z1\<lparr>z_ended := True\<rparr> else z1))"

section \<open>The stream\<close>

definition zs_write_buf :: "'z flate \<Rightarrow> 'z flate \<Rightarrow> 'z zlib_stream \<Rightarrow> byte list \<Rightarrow> (int \<times> 'z zlib_stream) option" where
  "zs_write_buf deflate inflate z bs = zs_code (if z_encode z then deflate else inflate) False z [bs]"

text \<open>Again \<open>&buffers[0]\<close> of an empty vector is out of bounds.\<close>

definition zs_write_ba :: "'z flate \<Rightarrow> 'z flate \<Rightarrow> 'z zlib_stream \<Rightarrow> bytearray \<Rightarrow> nat \<Rightarrow> (int \<times> 'z zlib_stream) option res" where
  "zs_write_ba deflate inflate z ba n =
     sbind (getReadBuffers ba n) (\<lambda>(_, iovs).
       if iovs = [] then Inl OutOfBounds
       else Inr (zs_code (if z_encode z then deflate else inflate) False z (map (iov_bytes ba) iovs)))"

definition zs_flush :: "'z flate \<Rightarrow> 'z flate \<Rightarrow> 'z zlib_stream \<Rightarrow> (int \<times> 'z zlib_stream) option" where
  "zs_flush deflate inflate z = zs_code (if z_encode z then deflate else inflate) True z [[]]"

definition zs_close :: "'z flate \<Rightarrow> 'z flate \<Rightarrow> 'z zlib_stream \<Rightarrow> 'z zlib_stream option" where
  "zs_close deflate inflate z = map_option snd (zs_flush deflate inflate z)"

definition zs_read :: "'z zlib_stream \<Rightarrow> nat \<Rightarrow> (int \<times> byte list \<times> 'z zlib_stream) res" where
  "zs_read z n = Inl LogicError"

definition getResult :: "'z zlib_stream \<Rightarrow> byte list" where
  "getResult z = concat (z_buffs z)"

definition zs_getByteArray :: "(nat \<Rightarrow> nat \<Rightarrow> byte) \<Rightarrow> nat \<Rightarrow> 'z zlib_stream \<Rightarrow> bytearray res" where
  "zs_getByteArray junk base z =
     sbind (foldl (\<lambda>r b. sbind r (\<lambda>ba. write_ba ba b)) (Inr (new_ByteArray junk base)) (z_buffs z))
       (\<lambda>ba. setPosition ba 0)"

section \<open>What zlib promises\<close>

text \<open>
  From a state and input zlib will put out \<open>produced\<close> and end in \<open>after\<close>; a call with room puts out as much of that
  as fits, and has taken the whole input when room is left.
\<close>

definition flate_law ::
  "'z flate \<Rightarrow> ('z \<Rightarrow> byte list \<Rightarrow> bool \<Rightarrow> byte list) \<Rightarrow> ('z \<Rightarrow> byte list \<Rightarrow> bool \<Rightarrow> 'z) \<Rightarrow> bool" where
  "flate_law f produced after \<longleftrightarrow>
     (\<forall>z inp n fin ret k out z'. 0 < n \<longrightarrow> f z inp n fin = (ret, k, out, z') \<longrightarrow>
        ret \<noteq> - 2 \<and> out = take n (produced z inp fin) \<and> produced z' (drop k inp) fin = drop n (produced z inp fin) \<and>
        after z' (drop k inp) fin = after z inp fin \<and> (length out < n \<longrightarrow> z' = after z inp fin))"

text \<open>Every buffer but the last is full.\<close>

definition bufs_ok :: "'z zlib_stream \<Rightarrow> bool" where
  "bufs_ok z \<longleftrightarrow> 0 < z_buffSize z \<and> (\<forall>b \<in> set (butlast (z_buffs z)). length b = z_buffSize z) \<and>
     (z_buffs z \<noteq> [] \<longrightarrow> length (last (z_buffs z)) \<le> z_buffSize z)"

lemma with_room_ok:
  assumes "bufs_ok z"
  defines "bufs \<equiv> with_room (z_buffSize z) (z_buffs z)"
  shows "bufs \<noteq> [] \<and> concat bufs = getResult z \<and> length (last bufs) < z_buffSize z \<and>
    (\<forall>b \<in> set (butlast bufs). length b = z_buffSize z)"
proof (cases "z_buffs z" rule: rev_cases)
  case Nil
  then show ?thesis using assms(1) by (simp add: bufs_def with_room_def getResult_def bufs_ok_def)
next
  case (snoc bs b)
  have "butlast (bs @ [b, []]) = bs @ [b]" by (simp add: butlast_append)
  then show ?thesis using assms(1) snoc by (auto simp: bufs_def with_room_def getResult_def bufs_ok_def)
qed

lemma flate_loop_result:
  assumes "flate_law f produced after" "bufs_ok z" "\<not> z_ended z"
  shows "\<exists>z'. flate_loop f fin z = Some (0, z') \<and> bufs_ok z' \<and> \<not> z_ended z' \<and> z_buffSize z' = z_buffSize z \<and>
    z_encode z' = z_encode z \<and> z_state z' = after (z_state z) (z_next_in z) fin \<and>
    getResult z' = getResult z @ produced (z_state z) (z_next_in z) fin"
  using assms(2,3)
proof (induction "length (produced (z_state z) (z_next_in z) fin)" arbitrary: z rule: less_induct)
  case less
  define bufs where "bufs = with_room (z_buffSize z) (z_buffs z)"
  define n where "n = z_buffSize z - length (last bufs)"
  let ?p = "produced (z_state z) (z_next_in z) fin"
  have b: "bufs \<noteq> []" "concat bufs = getResult z" "length (last bufs) < z_buffSize z"
      "\<forall>b \<in> set (butlast bufs). length b = z_buffSize z" "0 < n"
    using with_room_ok [OF less.prems(1)] by (simp_all add: bufs_def n_def)
  obtain ret k out st where call: "f (z_state z) (z_next_in z) n fin = (ret, k, out, st)" by (metis prod_cases4)
  have law: "ret \<noteq> - 2" "out = take n ?p" "produced st (drop k (z_next_in z)) fin = drop n ?p"
      "after st (drop k (z_next_in z)) fin = after (z_state z) (z_next_in z) fin"
      "length out < n \<Longrightarrow> st = after (z_state z) (z_next_in z) fin"
    using assms(1) b(5) call unfolding flate_law_def by blast+
  define z2 where "z2 = z\<lparr>z_state := st, z_next_in := drop k (z_next_in z), z_buffs := butlast bufs @ [last bufs @ out]\<rparr>"
  have "concat bufs = concat (butlast bufs) @ last bufs" using b(1) by (metis append_butlast_last_id concat_append concat.simps append_Nil2)
  then have z2: "bufs_ok z2" "\<not> z_ended z2" "getResult z2 = getResult z @ out" "z_buffSize z2 = z_buffSize z" "z_encode z2 = z_encode z"
    using b law(2) less.prems(2) by (auto simp: z2_def bufs_ok_def getResult_def n_def)
  have step: "flate_loop f fin z = (if length out = n then flate_loop f fin z2 else Some (0, z2))"
    using law(1) call less.prems(2)
    by (subst flate_loop.simps) (simp add: bufs_def [symmetric] n_def [symmetric] zcall_def Let_def z2_def)
  show ?case
  proof (cases "length out = n")
    case True
    then have "length (produced (z_state z2) (z_next_in z2) fin) < length ?p" using law(2,3) b(5) by (auto simp: z2_def)
    then show ?thesis using less.hyps [OF _ z2(1,2)] step True law(2-4) z2(3-5) by (auto simp: z2_def)
  next
    case False
    then have "length out < n" "?p = out" using law(2) by auto
    then show ?thesis using step False z2 law(5) by (simp add: z2_def)
  qed
qed

text \<open>What the whole of the input makes: every vector without Z\_FINISH, and then the end.\<close>

definition whole :: "('z \<Rightarrow> byte list \<Rightarrow> bool \<Rightarrow> byte list) \<Rightarrow> ('z \<Rightarrow> byte list \<Rightarrow> bool \<Rightarrow> 'z) \<Rightarrow> 'z \<Rightarrow> byte list \<Rightarrow> byte list" where
  "whole produced after z bs = produced z bs False @ produced (after z bs False) [] True"

lemma write_flush_result:
  assumes "flate_law (if z_encode z then deflate else inflate) produced after" "bufs_ok z" "\<not> z_ended z"
  shows "\<exists>z1 z2. zs_write_buf deflate inflate z bs = Some (0, z1) \<and> zs_flush deflate inflate z1 = Some (0, z2) \<and>
    getResult z2 = getResult z @ whole produced after (z_state z) bs \<and> bufs_ok z2 \<and> z_ended z2"
proof -
  define f where "f = (if z_encode z then deflate else inflate)"
  obtain z1 where 1: "flate_loop f False (z\<lparr>z_next_in := bs\<rparr>) = Some (0, z1)" "bufs_ok z1" "\<not> z_ended z1"
      "z_encode z1 = z_encode z" "z_state z1 = after (z_state z) bs False"
      "getResult z1 = getResult z @ produced (z_state z) bs False"
    using flate_loop_result [OF assms(1), of "z\<lparr>z_next_in := bs\<rparr>" False] assms(2,3)
    by (auto simp: f_def bufs_ok_def getResult_def)
  obtain z2 where 2: "flate_loop f True (z1\<lparr>z_next_in := []\<rparr>) = Some (0, z2)" "bufs_ok z2"
      "getResult z2 = getResult z1 @ produced (z_state z1) [] True"
    using flate_loop_result [OF assms(1), of "z1\<lparr>z_next_in := []\<rparr>" True] 1(2,3)
    by (auto simp: f_def bufs_ok_def getResult_def)
  have "zs_write_buf deflate inflate z bs = Some (0, z1)"
    using 1(1) by (simp add: zs_write_buf_def zs_code_def f_def)
  moreover have "zs_flush deflate inflate z1 = Some (0, z2\<lparr>z_ended := True\<rparr>)"
    using 1(4) 2(1) by (simp add: zs_flush_def zs_code_def f_def)
  ultimately show ?thesis using 1(5,6) 2(2,3) by (simp add: whole_def bufs_ok_def getResult_def)
qed


text \<open>A codec that stores the bytes as they are.\<close>

definition stored :: "byte list flate" where
  "stored z inp n fin = (0, length inp, take n (z @ inp), drop n (z @ inp))"

lemma stored_law: "flate_law stored (\<lambda>z inp fin. z @ inp) (\<lambda>z inp fin. [])"
  by (auto simp: flate_law_def stored_def)


end
