(* ===== verification/UriTables.thy ===== *)
theory UriTables
  imports Main
begin

text \<open>
  The tables of the machine of URIs (exhy/exhy_uri.cpp, generated by Ragel from exhy_uri.rl), element by element, the
  long ones in pieces.
\<close>

definition uri_actions :: "nat list" where
  "uri_actions =
    [0, 1, 0, 1, 1, 1, 2, 1, 3, 1, 4, 1, 5, 1, 6, 1, 7, 1, 8, 2, 0, 7, 2, 0, 8, 2, 1, 3, 2, 1, 4, 2, 1, 5, 2, 3, 1,
     2, 5, 1, 3, 1, 3, 6, 3, 1, 5, 6, 3, 3, 1, 6, 3, 5, 1, 6]"

definition uri_key_offsets1 :: "nat list" where
  "uri_key_offsets1 =
    [0, 0, 6, 12, 18, 24, 30, 36, 42, 48, 50, 52, 53, 59, 61, 63, 64, 70, 72, 74, 75, 81, 83, 85, 88, 91, 95, 98,
     101, 104, 108, 111, 117, 123, 137, 143, 149, 155, 161, 169, 176, 183, 190, 191, 198, 205, 212, 219, 220, 227,
     234, 241, 248, 249, 256, 263, 270, 277, 278, 285, 292, 299, 306, 307, 314, 321, 328, 335, 336, 347, 349, 351,
     352, 358, 360, 362, 363, 369, 371, 373, 374, 380, 382, 384, 385, 388, 391, 395, 398, 401, 404, 408, 411, 414,
     417, 421, 424, 432, 439, 446, 447, 454, 461, 468, 475, 483, 491, 499, 508, 516, 526, 534, 540, 547, 557, 565,
     572, 579, 580, 588, 596, 604, 613, 621, 631, 639, 646, 652, 659, 666, 673, 674, 680, 687, 694, 701, 702, 708,
     715, 722, 729, 730, 736, 743, 750, 757, 758, 759, 770, 779, 787, 795, 797, 807, 816, 824, 832, 834, 844, 853,
     861, 869, 871, 881, 890, 898, 906, 908, 918, 927, 935, 943, 945, 955, 964, 972, 980, 982, 991, 1000, 1009, 1019,
     1028, 1039, 1048, 1056, 1065, 1074, 1083, 1093, 1102, 1113, 1122, 1130, 1139, 1148, 1157, 1167, 1176, 1187,
     1196, 1204, 1213, 1222, 1231, 1241, 1250, 1261, 1270, 1278, 1287, 1296, 1305, 1315, 1324, 1335, 1344, 1352,
     1361, 1370, 1379, 1389, 1398, 1409, 1418, 1426, 1432, 1439, 1452, 1466, 1468, 1470, 1471, 1477, 1479, 1481,
     1482, 1488, 1490, 1492, 1493, 1499, 1501, 1503, 1509, 1515, 1518, 1521, 1525, 1528, 1531, 1534, 1538, 1541,
     1547, 1553, 1567, 1573, 1579, 1585, 1591, 1599, 1606, 1613, 1620, 1621, 1628, 1635, 1642, 1649, 1650, 1657,
     1664, 1671, 1678, 1679, 1686, 1693, 1700, 1707, 1708, 1715, 1722, 1729, 1736, 1737, 1744, 1751, 1758, 1765,
     1766, 1777, 1779, 1781, 1782, 1788, 1790, 1792, 1793, 1799, 1801, 1803, 1804, 1810, 1812, 1814, 1815, 1818,
     1821, 1825, 1828, 1831, 1834, 1838, 1841, 1844, 1847, 1851, 1854, 1862]"

definition uri_key_offsets2 :: "nat list" where
  "uri_key_offsets2 =
    [1869, 1876, 1877, 1884, 1891, 1898, 1905, 1913, 1921, 1929, 1938, 1946, 1956, 1964, 1970, 1977, 1987, 1995,
     2002, 2009, 2010, 2018, 2026, 2034, 2043, 2051, 2061, 2069, 2076, 2082, 2089, 2096, 2103, 2104, 2110, 2117,
     2124, 2131, 2132, 2138, 2145, 2152, 2159, 2160, 2166, 2173, 2180, 2187, 2188, 2189, 2200, 2209, 2217, 2225,
     2227, 2237, 2246, 2254, 2262, 2264, 2274, 2283, 2291, 2299, 2301, 2311, 2320, 2328, 2336, 2338, 2348, 2357,
     2365, 2373, 2375, 2385, 2394, 2402, 2410, 2412, 2421, 2430, 2439, 2449, 2458, 2469, 2478, 2486, 2495, 2504,
     2513, 2523, 2532, 2543, 2552, 2560, 2569, 2578, 2587, 2597, 2606, 2617, 2626, 2634, 2643, 2652, 2661, 2671,
     2680, 2691, 2700, 2708, 2717, 2726, 2735, 2745, 2754, 2765, 2774, 2782, 2791, 2800, 2809, 2819, 2828, 2839,
     2848, 2856, 2862, 2869, 2882, 2896, 2916, 2932, 2945, 2958, 2972, 2985, 2998, 3013, 3037, 3041, 3046, 3051,
     3057, 3063, 3070, 3076, 3092, 3111, 3134, 3149, 3165, 3187, 3203, 3225, 3241, 3257, 3276, 3295, 3315, 3335,
     3354, 3373, 3393, 3413, 3432, 3451, 3471, 3491, 3510, 3527, 3550, 3567, 3590, 3607, 3624, 3644, 3664, 3685,
     3706, 3726, 3746, 3767, 3788, 3808, 3828, 3849, 3870, 3893, 3908, 3923, 3947, 3951, 3965, 3970, 3975, 3981,
     3987, 3994, 4000, 4016, 4035, 4058, 4073, 4089, 4111, 4127, 4149, 4165, 4181, 4200, 4219, 4239, 4259, 4278,
     4297, 4317, 4337, 4356, 4375, 4395, 4415, 4434, 4451, 4474, 4491, 4514, 4531, 4548, 4568, 4588, 4609, 4630,
     4650, 4670, 4691, 4712, 4732, 4752, 4773]"

definition uri_key_offsets :: "nat list" where
  "uri_key_offsets = uri_key_offsets1 @ uri_key_offsets2"

definition uri_trans_keys1 :: "int list" where
  "uri_trans_keys1 =
    [48, 57, 65, 70, 97, 102, 48, 57, 65, 70, 97, 102, 48, 57, 65, 70, 97, 102, 48, 57, 65, 70, 97, 102, 48, 57, 65,
     70, 97, 102, 48, 57, 65, 70, 97, 102, 48, 57, 65, 70, 97, 102, 48, 57, 65, 70, 97, 102, 48, 52, 48, 57, 46, 2,
     48, 49, 50, 51, 57, 48, 52, 48, 57, 46, 2, 48, 49, 50, 51, 57, 48, 52, 48, 57, 46, 2, 48, 49, 50, 51, 57, 48,
     52, 48, 57, 46, 48, 57, 46, 48, 57, 46, 53, 48, 57, 46, 48, 53, 46, 48, 57, 46, 48, 57, 46, 53, 48, 57, 46, 48,
     53, 48, 57, 65, 70, 97, 102, 48, 57, 65, 70, 97, 102, 33, 37, 61, 64, 95, 126, 36, 46, 48, 59, 65, 90, 97, 122,
     48, 57, 65, 70, 97, 102, 48, 57, 65, 70, 97, 102, 48, 57, 65, 70, 97, 102, 48, 57, 65, 70, 97, 102, 58, 118, 48,
     57, 65, 70, 97, 102, 58, 48, 57, 65, 70, 97, 102, 58, 48, 57, 65, 70, 97, 102, 58, 48, 57, 65, 70, 97, 102, 58,
     58, 48, 57, 65, 70, 97, 102, 58, 48, 57, 65, 70, 97, 102, 58, 48, 57, 65, 70, 97, 102, 58, 48, 57, 65, 70, 97,
     102, 58, 58, 48, 57, 65, 70, 97, 102, 58, 48, 57, 65, 70, 97, 102, 58, 48, 57, 65, 70, 97, 102, 58, 48, 57, 65,
     70, 97, 102, 58, 58, 48, 57, 65, 70, 97, 102, 58, 48, 57, 65, 70, 97, 102, 58, 48, 57, 65, 70, 97, 102, 58, 48,
     57, 65, 70, 97, 102, 58, 58, 48, 57, 65, 70, 97, 102, 58, 48, 57, 65, 70, 97, 102, 58, 48, 57, 65, 70, 97, 102,
     58, 48, 57, 65, 70, 97, 102, 58, 58, 48, 57, 65, 70, 97, 102, 58, 48, 57, 65, 70, 97]"

definition uri_trans_keys2 :: "int list" where
  "uri_trans_keys2 =
    [102, 58, 48, 57, 65, 70, 97, 102, 58, 48, 57, 65, 70, 97, 102, 58, 2, 48, 49, 50, 58, 51, 57, 65, 70, 97, 102,
     48, 52, 48, 57, 46, 2, 48, 49, 50, 51, 57, 48, 52, 48, 57, 46, 2, 48, 49, 50, 51, 57, 48, 52, 48, 57, 46, 2, 48,
     49, 50, 51, 57, 48, 52, 48, 57, 93, 93, 48, 57, 93, 48, 57, 53, 93, 48, 57, 93, 48, 53, 46, 48, 57, 46, 48, 57,
     46, 53, 48, 57, 46, 48, 53, 46, 48, 57, 46, 48, 57, 46, 53, 48, 57, 46, 48, 53, 46, 58, 48, 57, 65, 70, 97, 102,
     58, 48, 57, 65, 70, 97, 102, 58, 48, 57, 65, 70, 97, 102, 58, 58, 48, 57, 65, 70, 97, 102, 93, 48, 57, 65, 70,
     97, 102, 93, 48, 57, 65, 70, 97, 102, 93, 48, 57, 65, 70, 97, 102, 46, 58, 48, 57, 65, 70, 97, 102, 46, 58, 48,
     57, 65, 70, 97, 102, 46, 58, 48, 57, 65, 70, 97, 102, 46, 53, 58, 48, 57, 65, 70, 97, 102, 46, 58, 48, 57, 65,
     70, 97, 102, 46, 58, 48, 53, 54, 57, 65, 70, 97, 102, 46, 58, 48, 57, 65, 70, 97, 102, 48, 57, 65, 70, 97, 102,
     58, 48, 57, 65, 70, 97, 102, 2, 48, 49, 50, 51, 57, 65, 70, 97, 102, 46, 58, 48, 57, 65, 70, 97, 102, 58, 48,
     57, 65, 70, 97, 102, 58, 48, 57, 65, 70, 97, 102, 58, 46, 58, 48, 57, 65, 70, 97, 102, 46, 58, 48, 57, 65, 70,
     97, 102, 46, 58, 48, 57, 65, 70, 97, 102, 46, 53, 58, 48, 57, 65, 70, 97, 102, 46, 58, 48, 57, 65, 70, 97, 102,
     46, 58, 48, 53, 54, 57, 65, 70, 97, 102, 46, 58, 48, 57, 65, 70, 97, 102, 58]"

definition uri_trans_keys3 :: "int list" where
  "uri_trans_keys3 =
    [48, 57, 65, 70, 97, 102, 48, 57, 65, 70, 97, 102, 58, 48, 57, 65, 70, 97, 102, 58, 48, 57, 65, 70, 97, 102, 58,
     48, 57, 65, 70, 97, 102, 58, 48, 57, 65, 70, 97, 102, 58, 48, 57, 65, 70, 97, 102, 58, 48, 57, 65, 70, 97, 102,
     58, 48, 57, 65, 70, 97, 102, 58, 48, 57, 65, 70, 97, 102, 58, 48, 57, 65, 70, 97, 102, 58, 48, 57, 65, 70, 97,
     102, 58, 48, 57, 65, 70, 97, 102, 58, 48, 57, 65, 70, 97, 102, 58, 48, 57, 65, 70, 97, 102, 58, 48, 57, 65, 70,
     97, 102, 58, 48, 57, 65, 70, 97, 102, 58, 58, 2, 48, 49, 50, 93, 51, 57, 65, 70, 97, 102, 46, 58, 93, 48, 57,
     65, 70, 97, 102, 58, 93, 48, 57, 65, 70, 97, 102, 58, 93, 48, 57, 65, 70, 97, 102, 58, 93, 2, 48, 49, 50, 51,
     57, 65, 70, 97, 102, 46, 58, 93, 48, 57, 65, 70, 97, 102, 58, 93, 48, 57, 65, 70, 97, 102, 58, 93, 48, 57, 65,
     70, 97, 102, 58, 93, 2, 48, 49, 50, 51, 57, 65, 70, 97, 102, 46, 58, 93, 48, 57, 65, 70, 97, 102, 58, 93, 48,
     57, 65, 70, 97, 102, 58, 93, 48, 57, 65, 70, 97, 102, 58, 93, 2, 48, 49, 50, 51, 57, 65, 70, 97, 102, 46, 58,
     93, 48, 57, 65, 70, 97, 102, 58, 93, 48, 57, 65, 70, 97, 102, 58, 93, 48, 57, 65, 70, 97, 102, 58, 93, 2, 48,
     49, 50, 51, 57, 65, 70, 97, 102, 46, 58, 93, 48, 57, 65, 70, 97, 102, 58, 93, 48, 57, 65, 70, 97, 102, 58, 93,
     48, 57, 65, 70, 97, 102, 58, 93, 2, 48, 49, 50, 51, 57, 65, 70, 97, 102, 46, 58, 93, 48, 57]"

definition uri_trans_keys4 :: "int list" where
  "uri_trans_keys4 =
    [65, 70, 97, 102, 58, 93, 48, 57, 65, 70, 97, 102, 58, 93, 48, 57, 65, 70, 97, 102, 58, 93, 46, 58, 93, 48, 57,
     65, 70, 97, 102, 46, 58, 93, 48, 57, 65, 70, 97, 102, 46, 58, 93, 48, 57, 65, 70, 97, 102, 46, 53, 58, 93, 48,
     57, 65, 70, 97, 102, 46, 58, 93, 48, 57, 65, 70, 97, 102, 46, 58, 93, 48, 53, 54, 57, 65, 70, 97, 102, 46, 58,
     93, 48, 57, 65, 70, 97, 102, 58, 93, 48, 57, 65, 70, 97, 102, 46, 58, 93, 48, 57, 65, 70, 97, 102, 46, 58, 93,
     48, 57, 65, 70, 97, 102, 46, 58, 93, 48, 57, 65, 70, 97, 102, 46, 53, 58, 93, 48, 57, 65, 70, 97, 102, 46, 58,
     93, 48, 57, 65, 70, 97, 102, 46, 58, 93, 48, 53, 54, 57, 65, 70, 97, 102, 46, 58, 93, 48, 57, 65, 70, 97, 102,
     58, 93, 48, 57, 65, 70, 97, 102, 46, 58, 93, 48, 57, 65, 70, 97, 102, 46, 58, 93, 48, 57, 65, 70, 97, 102, 46,
     58, 93, 48, 57, 65, 70, 97, 102, 46, 53, 58, 93, 48, 57, 65, 70, 97, 102, 46, 58, 93, 48, 57, 65, 70, 97, 102,
     46, 58, 93, 48, 53, 54, 57, 65, 70, 97, 102, 46, 58, 93, 48, 57, 65, 70, 97, 102, 58, 93, 48, 57, 65, 70, 97,
     102, 46, 58, 93, 48, 57, 65, 70, 97, 102, 46, 58, 93, 48, 57, 65, 70, 97, 102, 46, 58, 93, 48, 57, 65, 70, 97,
     102, 46, 53, 58, 93, 48, 57, 65, 70, 97, 102, 46, 58, 93, 48, 57, 65, 70, 97, 102, 46, 58, 93, 48, 53, 54, 57,
     65, 70, 97, 102, 46, 58, 93, 48, 57, 65, 70, 97, 102, 58, 93, 48, 57, 65, 70, 97, 102, 46, 58]"

definition uri_trans_keys5 :: "int list" where
  "uri_trans_keys5 =
    [93, 48, 57, 65, 70, 97, 102, 46, 58, 93, 48, 57, 65, 70, 97, 102, 46, 58, 93, 48, 57, 65, 70, 97, 102, 46, 53,
     58, 93, 48, 57, 65, 70, 97, 102, 46, 58, 93, 48, 57, 65, 70, 97, 102, 46, 58, 93, 48, 53, 54, 57, 65, 70, 97,
     102, 46, 58, 93, 48, 57, 65, 70, 97, 102, 58, 93, 48, 57, 65, 70, 97, 102, 46, 58, 93, 48, 57, 65, 70, 97, 102,
     46, 58, 93, 48, 57, 65, 70, 97, 102, 46, 58, 93, 48, 57, 65, 70, 97, 102, 46, 53, 58, 93, 48, 57, 65, 70, 97,
     102, 46, 58, 93, 48, 57, 65, 70, 97, 102, 46, 58, 93, 48, 53, 54, 57, 65, 70, 97, 102, 46, 58, 93, 48, 57, 65,
     70, 97, 102, 58, 93, 48, 57, 65, 70, 97, 102, 48, 57, 65, 70, 97, 102, 46, 48, 57, 65, 70, 97, 102, 33, 36, 61,
     95, 126, 38, 46, 48, 59, 65, 90, 97, 122, 33, 36, 61, 93, 95, 126, 38, 46, 48, 59, 65, 90, 97, 122, 48, 52, 48,
     57, 46, 2, 48, 49, 50, 51, 57, 48, 52, 48, 57, 46, 2, 48, 49, 50, 51, 57, 48, 52, 48, 57, 46, 2, 48, 49, 50, 51,
     57, 48, 52, 48, 57, 48, 57, 65, 70, 97, 102, 48, 57, 65, 70, 97, 102, 46, 48, 57, 46, 48, 57, 46, 53, 48, 57,
     46, 48, 53, 46, 48, 57, 46, 48, 57, 46, 53, 48, 57, 46, 48, 53, 48, 57, 65, 70, 97, 102, 48, 57, 65, 70, 97,
     102, 33, 37, 61, 64, 95, 126, 36, 46, 48, 59, 65, 90, 97, 122, 48, 57, 65, 70, 97, 102, 48, 57, 65, 70, 97, 102,
     48, 57, 65, 70, 97, 102, 48, 57, 65, 70, 97, 102, 58, 118, 48, 57, 65, 70, 97, 102, 58]"

definition uri_trans_keys6 :: "int list" where
  "uri_trans_keys6 =
    [48, 57, 65, 70, 97, 102, 58, 48, 57, 65, 70, 97, 102, 58, 48, 57, 65, 70, 97, 102, 58, 58, 48, 57, 65, 70, 97,
     102, 58, 48, 57, 65, 70, 97, 102, 58, 48, 57, 65, 70, 97, 102, 58, 48, 57, 65, 70, 97, 102, 58, 58, 48, 57, 65,
     70, 97, 102, 58, 48, 57, 65, 70, 97, 102, 58, 48, 57, 65, 70, 97, 102, 58, 48, 57, 65, 70, 97, 102, 58, 58, 48,
     57, 65, 70, 97, 102, 58, 48, 57, 65, 70, 97, 102, 58, 48, 57, 65, 70, 97, 102, 58, 48, 57, 65, 70, 97, 102, 58,
     58, 48, 57, 65, 70, 97, 102, 58, 48, 57, 65, 70, 97, 102, 58, 48, 57, 65, 70, 97, 102, 58, 48, 57, 65, 70, 97,
     102, 58, 58, 48, 57, 65, 70, 97, 102, 58, 48, 57, 65, 70, 97, 102, 58, 48, 57, 65, 70, 97, 102, 58, 48, 57, 65,
     70, 97, 102, 58, 2, 48, 49, 50, 58, 51, 57, 65, 70, 97, 102, 48, 52, 48, 57, 46, 2, 48, 49, 50, 51, 57, 48, 52,
     48, 57, 46, 2, 48, 49, 50, 51, 57, 48, 52, 48, 57, 46, 2, 48, 49, 50, 51, 57, 48, 52, 48, 57, 93, 93, 48, 57,
     93, 48, 57, 53, 93, 48, 57, 93, 48, 53, 46, 48, 57, 46, 48, 57, 46, 53, 48, 57, 46, 48, 53, 46, 48, 57, 46, 48,
     57, 46, 53, 48, 57, 46, 48, 53, 46, 58, 48, 57, 65, 70, 97, 102, 58, 48, 57, 65, 70, 97, 102, 58, 48, 57, 65,
     70, 97, 102, 58, 58, 48, 57, 65, 70, 97, 102, 93, 48, 57, 65, 70, 97, 102, 93, 48, 57, 65, 70, 97, 102, 93, 48,
     57, 65, 70, 97, 102, 46, 58, 48, 57, 65, 70, 97, 102, 46, 58, 48, 57, 65, 70, 97]"

definition uri_trans_keys7 :: "int list" where
  "uri_trans_keys7 =
    [102, 46, 58, 48, 57, 65, 70, 97, 102, 46, 53, 58, 48, 57, 65, 70, 97, 102, 46, 58, 48, 57, 65, 70, 97, 102, 46,
     58, 48, 53, 54, 57, 65, 70, 97, 102, 46, 58, 48, 57, 65, 70, 97, 102, 48, 57, 65, 70, 97, 102, 58, 48, 57, 65,
     70, 97, 102, 2, 48, 49, 50, 51, 57, 65, 70, 97, 102, 46, 58, 48, 57, 65, 70, 97, 102, 58, 48, 57, 65, 70, 97,
     102, 58, 48, 57, 65, 70, 97, 102, 58, 46, 58, 48, 57, 65, 70, 97, 102, 46, 58, 48, 57, 65, 70, 97, 102, 46, 58,
     48, 57, 65, 70, 97, 102, 46, 53, 58, 48, 57, 65, 70, 97, 102, 46, 58, 48, 57, 65, 70, 97, 102, 46, 58, 48, 53,
     54, 57, 65, 70, 97, 102, 46, 58, 48, 57, 65, 70, 97, 102, 58, 48, 57, 65, 70, 97, 102, 48, 57, 65, 70, 97, 102,
     58, 48, 57, 65, 70, 97, 102, 58, 48, 57, 65, 70, 97, 102, 58, 48, 57, 65, 70, 97, 102, 58, 48, 57, 65, 70, 97,
     102, 58, 48, 57, 65, 70, 97, 102, 58, 48, 57, 65, 70, 97, 102, 58, 48, 57, 65, 70, 97, 102, 58, 48, 57, 65, 70,
     97, 102, 58, 48, 57, 65, 70, 97, 102, 58, 48, 57, 65, 70, 97, 102, 58, 48, 57, 65, 70, 97, 102, 58, 48, 57, 65,
     70, 97, 102, 58, 48, 57, 65, 70, 97, 102, 58, 48, 57, 65, 70, 97, 102, 58, 48, 57, 65, 70, 97, 102, 58, 58, 2,
     48, 49, 50, 93, 51, 57, 65, 70, 97, 102, 46, 58, 93, 48, 57, 65, 70, 97, 102, 58, 93, 48, 57, 65, 70, 97, 102,
     58, 93, 48, 57, 65, 70, 97, 102, 58, 93, 2, 48, 49, 50, 51, 57, 65, 70, 97, 102, 46, 58, 93]"

definition uri_trans_keys8 :: "int list" where
  "uri_trans_keys8 =
    [48, 57, 65, 70, 97, 102, 58, 93, 48, 57, 65, 70, 97, 102, 58, 93, 48, 57, 65, 70, 97, 102, 58, 93, 2, 48, 49,
     50, 51, 57, 65, 70, 97, 102, 46, 58, 93, 48, 57, 65, 70, 97, 102, 58, 93, 48, 57, 65, 70, 97, 102, 58, 93, 48,
     57, 65, 70, 97, 102, 58, 93, 2, 48, 49, 50, 51, 57, 65, 70, 97, 102, 46, 58, 93, 48, 57, 65, 70, 97, 102, 58,
     93, 48, 57, 65, 70, 97, 102, 58, 93, 48, 57, 65, 70, 97, 102, 58, 93, 2, 48, 49, 50, 51, 57, 65, 70, 97, 102,
     46, 58, 93, 48, 57, 65, 70, 97, 102, 58, 93, 48, 57, 65, 70, 97, 102, 58, 93, 48, 57, 65, 70, 97, 102, 58, 93,
     2, 48, 49, 50, 51, 57, 65, 70, 97, 102, 46, 58, 93, 48, 57, 65, 70, 97, 102, 58, 93, 48, 57, 65, 70, 97, 102,
     58, 93, 48, 57, 65, 70, 97, 102, 58, 93, 46, 58, 93, 48, 57, 65, 70, 97, 102, 46, 58, 93, 48, 57, 65, 70, 97,
     102, 46, 58, 93, 48, 57, 65, 70, 97, 102, 46, 53, 58, 93, 48, 57, 65, 70, 97, 102, 46, 58, 93, 48, 57, 65, 70,
     97, 102, 46, 58, 93, 48, 53, 54, 57, 65, 70, 97, 102, 46, 58, 93, 48, 57, 65, 70, 97, 102, 58, 93, 48, 57, 65,
     70, 97, 102, 46, 58, 93, 48, 57, 65, 70, 97, 102, 46, 58, 93, 48, 57, 65, 70, 97, 102, 46, 58, 93, 48, 57, 65,
     70, 97, 102, 46, 53, 58, 93, 48, 57, 65, 70, 97, 102, 46, 58, 93, 48, 57, 65, 70, 97, 102, 46, 58, 93, 48, 53,
     54, 57, 65, 70, 97, 102, 46, 58, 93, 48, 57, 65, 70, 97, 102, 58, 93, 48, 57, 65, 70, 97, 102]"

definition uri_trans_keys9 :: "int list" where
  "uri_trans_keys9 =
    [46, 58, 93, 48, 57, 65, 70, 97, 102, 46, 58, 93, 48, 57, 65, 70, 97, 102, 46, 58, 93, 48, 57, 65, 70, 97, 102,
     46, 53, 58, 93, 48, 57, 65, 70, 97, 102, 46, 58, 93, 48, 57, 65, 70, 97, 102, 46, 58, 93, 48, 53, 54, 57, 65,
     70, 97, 102, 46, 58, 93, 48, 57, 65, 70, 97, 102, 58, 93, 48, 57, 65, 70, 97, 102, 46, 58, 93, 48, 57, 65, 70,
     97, 102, 46, 58, 93, 48, 57, 65, 70, 97, 102, 46, 58, 93, 48, 57, 65, 70, 97, 102, 46, 53, 58, 93, 48, 57, 65,
     70, 97, 102, 46, 58, 93, 48, 57, 65, 70, 97, 102, 46, 58, 93, 48, 53, 54, 57, 65, 70, 97, 102, 46, 58, 93, 48,
     57, 65, 70, 97, 102, 58, 93, 48, 57, 65, 70, 97, 102, 46, 58, 93, 48, 57, 65, 70, 97, 102, 46, 58, 93, 48, 57,
     65, 70, 97, 102, 46, 58, 93, 48, 57, 65, 70, 97, 102, 46, 53, 58, 93, 48, 57, 65, 70, 97, 102, 46, 58, 93, 48,
     57, 65, 70, 97, 102, 46, 58, 93, 48, 53, 54, 57, 65, 70, 97, 102, 46, 58, 93, 48, 57, 65, 70, 97, 102, 58, 93,
     48, 57, 65, 70, 97, 102, 46, 58, 93, 48, 57, 65, 70, 97, 102, 46, 58, 93, 48, 57, 65, 70, 97, 102, 46, 58, 93,
     48, 57, 65, 70, 97, 102, 46, 53, 58, 93, 48, 57, 65, 70, 97, 102, 46, 58, 93, 48, 57, 65, 70, 97, 102, 46, 58,
     93, 48, 53, 54, 57, 65, 70, 97, 102, 46, 58, 93, 48, 57, 65, 70, 97, 102, 58, 93, 48, 57, 65, 70, 97, 102, 48,
     57, 65, 70, 97, 102, 46, 48, 57, 65, 70, 97, 102, 33, 36, 61, 95, 126, 38, 46, 48, 59, 65, 90]"

definition uri_trans_keys10 :: "int list" where
  "uri_trans_keys10 =
    [97, 122, 33, 36, 61, 93, 95, 126, 38, 46, 48, 59, 65, 90, 97, 122, 34, 35, 37, 47, 58, 60, 62, 63, 96, 127, 0,
     32, 65, 90, 91, 94, 97, 122, 123, 125, 34, 35, 37, 47, 58, 60, 62, 63, 96, 127, 0, 32, 91, 94, 123, 125, 37, 60,
     62, 96, 127, 0, 32, 34, 35, 91, 94, 123, 125, 37, 60, 62, 96, 127, 0, 32, 34, 35, 91, 94, 123, 125, 34, 35, 37,
     60, 62, 63, 96, 127, 0, 32, 91, 94, 123, 125, 34, 35, 37, 60, 62, 96, 127, 0, 32, 91, 94, 123, 125, 34, 35, 37,
     60, 62, 96, 127, 0, 32, 91, 94, 123, 125, 34, 35, 37, 47, 60, 62, 63, 96, 127, 0, 32, 91, 94, 123, 125, 2, 33,
     35, 37, 47, 48, 49, 50, 58, 59, 61, 63, 64, 91, 95, 126, 36, 46, 51, 57, 65, 90, 97, 122, 35, 47, 58, 63, 35,
     47, 63, 48, 57, 35, 47, 63, 48, 57, 35, 47, 58, 63, 48, 57, 35, 47, 58, 63, 48, 57, 35, 47, 53, 58, 63, 48, 57,
     35, 47, 58, 63, 48, 53, 33, 35, 37, 47, 58, 61, 63, 64, 95, 126, 36, 59, 65, 90, 97, 122, 33, 35, 37, 47, 61,
     63, 64, 95, 126, 36, 46, 48, 57, 58, 59, 65, 90, 97, 122, 2, 33, 35, 37, 47, 48, 49, 50, 58, 59, 61, 63, 91, 95,
     126, 36, 46, 51, 57, 65, 90, 97, 122, 33, 35, 37, 47, 58, 61, 63, 95, 126, 36, 59, 65, 90, 97, 122, 33, 35, 37,
     46, 47, 58, 61, 63, 95, 126, 36, 59, 65, 90, 97, 122, 2, 33, 35, 37, 47, 48, 49, 50, 58, 59, 61, 63, 95, 126,
     36, 46, 51, 57, 65, 90, 97, 122, 33, 35, 37, 46, 47, 58, 61, 63, 95, 126, 36, 59, 65]"

definition uri_trans_keys11 :: "int list" where
  "uri_trans_keys11 =
    [90, 97, 122, 2, 33, 35, 37, 47, 48, 49, 50, 58, 59, 61, 63, 95, 126, 36, 46, 51, 57, 65, 90, 97, 122, 33, 35,
     37, 46, 47, 58, 61, 63, 95, 126, 36, 59, 65, 90, 97, 122, 2, 33, 35, 37, 47, 58, 61, 63, 95, 126, 36, 59, 65,
     90, 97, 122, 33, 35, 37, 46, 47, 58, 59, 61, 63, 95, 126, 36, 45, 48, 57, 65, 90, 97, 122, 33, 35, 37, 46, 47,
     58, 59, 61, 63, 95, 126, 36, 45, 48, 57, 65, 90, 97, 122, 33, 35, 37, 46, 47, 53, 58, 59, 61, 63, 95, 126, 36,
     45, 48, 57, 65, 90, 97, 122, 33, 35, 37, 46, 47, 58, 61, 63, 95, 126, 36, 45, 48, 53, 54, 59, 65, 90, 97, 122,
     33, 35, 37, 46, 47, 58, 59, 61, 63, 95, 126, 36, 45, 48, 57, 65, 90, 97, 122, 33, 35, 37, 46, 47, 58, 59, 61,
     63, 95, 126, 36, 45, 48, 57, 65, 90, 97, 122, 33, 35, 37, 46, 47, 53, 58, 59, 61, 63, 95, 126, 36, 45, 48, 57,
     65, 90, 97, 122, 33, 35, 37, 46, 47, 58, 61, 63, 95, 126, 36, 45, 48, 53, 54, 59, 65, 90, 97, 122, 33, 35, 37,
     46, 47, 58, 59, 61, 63, 95, 126, 36, 45, 48, 57, 65, 90, 97, 122, 33, 35, 37, 46, 47, 58, 59, 61, 63, 95, 126,
     36, 45, 48, 57, 65, 90, 97, 122, 33, 35, 37, 46, 47, 53, 58, 59, 61, 63, 95, 126, 36, 45, 48, 57, 65, 90, 97,
     122, 33, 35, 37, 46, 47, 58, 61, 63, 95, 126, 36, 45, 48, 53, 54, 59, 65, 90, 97, 122, 33, 35, 37, 47, 61, 63,
     64, 95, 126, 36, 46, 48, 57, 58, 59, 65, 90, 97, 122, 33, 35, 37, 46, 47, 58, 61, 63, 64, 95]"

definition uri_trans_keys12 :: "int list" where
  "uri_trans_keys12 =
    [126, 36, 59, 65, 90, 97, 122, 2, 33, 35, 37, 47, 48, 49, 50, 58, 59, 61, 63, 64, 95, 126, 36, 46, 51, 57, 65,
     90, 97, 122, 33, 35, 37, 46, 47, 58, 61, 63, 64, 95, 126, 36, 59, 65, 90, 97, 122, 2, 33, 35, 37, 47, 48, 49,
     50, 58, 59, 61, 63, 64, 95, 126, 36, 46, 51, 57, 65, 90, 97, 122, 33, 35, 37, 46, 47, 58, 61, 63, 64, 95, 126,
     36, 59, 65, 90, 97, 122, 2, 33, 35, 37, 47, 58, 61, 63, 64, 95, 126, 36, 59, 65, 90, 97, 122, 33, 35, 37, 46,
     47, 58, 59, 61, 63, 64, 95, 126, 36, 45, 48, 57, 65, 90, 97, 122, 33, 35, 37, 46, 47, 58, 59, 61, 63, 64, 95,
     126, 36, 45, 48, 57, 65, 90, 97, 122, 33, 35, 37, 46, 47, 53, 58, 59, 61, 63, 64, 95, 126, 36, 45, 48, 57, 65,
     90, 97, 122, 33, 35, 37, 46, 47, 58, 61, 63, 64, 95, 126, 36, 45, 48, 53, 54, 59, 65, 90, 97, 122, 33, 35, 37,
     46, 47, 58, 59, 61, 63, 64, 95, 126, 36, 45, 48, 57, 65, 90, 97, 122, 33, 35, 37, 46, 47, 58, 59, 61, 63, 64,
     95, 126, 36, 45, 48, 57, 65, 90, 97, 122, 33, 35, 37, 46, 47, 53, 58, 59, 61, 63, 64, 95, 126, 36, 45, 48, 57,
     65, 90, 97, 122, 33, 35, 37, 46, 47, 58, 61, 63, 64, 95, 126, 36, 45, 48, 53, 54, 59, 65, 90, 97, 122, 33, 35,
     37, 46, 47, 58, 59, 61, 63, 64, 95, 126, 36, 45, 48, 57, 65, 90, 97, 122, 33, 35, 37, 46, 47, 58, 59, 61, 63,
     64, 95, 126, 36, 45, 48, 57, 65, 90, 97, 122, 33, 35, 37, 46, 47, 53, 58, 59, 61, 63, 64, 95]"

definition uri_trans_keys13 :: "int list" where
  "uri_trans_keys13 =
    [126, 36, 45, 48, 57, 65, 90, 97, 122, 33, 35, 37, 46, 47, 58, 61, 63, 64, 95, 126, 36, 45, 48, 53, 54, 59, 65,
     90, 97, 122, 34, 35, 37, 43, 47, 58, 60, 62, 63, 96, 127, 0, 32, 45, 57, 65, 90, 91, 94, 97, 122, 123, 125, 34,
     35, 37, 47, 60, 62, 63, 96, 127, 0, 32, 91, 94, 123, 125, 34, 35, 37, 47, 60, 62, 63, 96, 127, 0, 32, 91, 94,
     123, 125, 2, 33, 35, 37, 47, 48, 49, 50, 58, 59, 61, 63, 64, 91, 95, 126, 36, 46, 51, 57, 65, 90, 97, 122, 35,
     47, 58, 63, 34, 35, 37, 60, 62, 63, 96, 127, 0, 32, 91, 94, 123, 125, 35, 47, 63, 48, 57, 35, 47, 63, 48, 57,
     35, 47, 58, 63, 48, 57, 35, 47, 58, 63, 48, 57, 35, 47, 53, 58, 63, 48, 57, 35, 47, 58, 63, 48, 53, 33, 35, 37,
     47, 58, 61, 63, 64, 95, 126, 36, 59, 65, 90, 97, 122, 33, 35, 37, 47, 61, 63, 64, 95, 126, 36, 46, 48, 57, 58,
     59, 65, 90, 97, 122, 2, 33, 35, 37, 47, 48, 49, 50, 58, 59, 61, 63, 91, 95, 126, 36, 46, 51, 57, 65, 90, 97,
     122, 33, 35, 37, 47, 58, 61, 63, 95, 126, 36, 59, 65, 90, 97, 122, 33, 35, 37, 46, 47, 58, 61, 63, 95, 126, 36,
     59, 65, 90, 97, 122, 2, 33, 35, 37, 47, 48, 49, 50, 58, 59, 61, 63, 95, 126, 36, 46, 51, 57, 65, 90, 97, 122,
     33, 35, 37, 46, 47, 58, 61, 63, 95, 126, 36, 59, 65, 90, 97, 122, 2, 33, 35, 37, 47, 48, 49, 50, 58, 59, 61, 63,
     95, 126, 36, 46, 51, 57, 65, 90, 97, 122, 33, 35, 37, 46, 47, 58, 61, 63, 95, 126, 36]"

definition uri_trans_keys14 :: "int list" where
  "uri_trans_keys14 =
    [59, 65, 90, 97, 122, 2, 33, 35, 37, 47, 58, 61, 63, 95, 126, 36, 59, 65, 90, 97, 122, 33, 35, 37, 46, 47, 58,
     59, 61, 63, 95, 126, 36, 45, 48, 57, 65, 90, 97, 122, 33, 35, 37, 46, 47, 58, 59, 61, 63, 95, 126, 36, 45, 48,
     57, 65, 90, 97, 122, 33, 35, 37, 46, 47, 53, 58, 59, 61, 63, 95, 126, 36, 45, 48, 57, 65, 90, 97, 122, 33, 35,
     37, 46, 47, 58, 61, 63, 95, 126, 36, 45, 48, 53, 54, 59, 65, 90, 97, 122, 33, 35, 37, 46, 47, 58, 59, 61, 63,
     95, 126, 36, 45, 48, 57, 65, 90, 97, 122, 33, 35, 37, 46, 47, 58, 59, 61, 63, 95, 126, 36, 45, 48, 57, 65, 90,
     97, 122, 33, 35, 37, 46, 47, 53, 58, 59, 61, 63, 95, 126, 36, 45, 48, 57, 65, 90, 97, 122, 33, 35, 37, 46, 47,
     58, 61, 63, 95, 126, 36, 45, 48, 53, 54, 59, 65, 90, 97, 122, 33, 35, 37, 46, 47, 58, 59, 61, 63, 95, 126, 36,
     45, 48, 57, 65, 90, 97, 122, 33, 35, 37, 46, 47, 58, 59, 61, 63, 95, 126, 36, 45, 48, 57, 65, 90, 97, 122, 33,
     35, 37, 46, 47, 53, 58, 59, 61, 63, 95, 126, 36, 45, 48, 57, 65, 90, 97, 122, 33, 35, 37, 46, 47, 58, 61, 63,
     95, 126, 36, 45, 48, 53, 54, 59, 65, 90, 97, 122, 33, 35, 37, 47, 61, 63, 64, 95, 126, 36, 46, 48, 57, 58, 59,
     65, 90, 97, 122, 33, 35, 37, 46, 47, 58, 61, 63, 64, 95, 126, 36, 59, 65, 90, 97, 122, 2, 33, 35, 37, 47, 48,
     49, 50, 58, 59, 61, 63, 64, 95, 126, 36, 46, 51, 57, 65, 90, 97, 122, 33, 35, 37, 46, 47, 58]"

definition uri_trans_keys15 :: "int list" where
  "uri_trans_keys15 =
    [61, 63, 64, 95, 126, 36, 59, 65, 90, 97, 122, 2, 33, 35, 37, 47, 48, 49, 50, 58, 59, 61, 63, 64, 95, 126, 36,
     46, 51, 57, 65, 90, 97, 122, 33, 35, 37, 46, 47, 58, 61, 63, 64, 95, 126, 36, 59, 65, 90, 97, 122, 2, 33, 35,
     37, 47, 58, 61, 63, 64, 95, 126, 36, 59, 65, 90, 97, 122, 33, 35, 37, 46, 47, 58, 59, 61, 63, 64, 95, 126, 36,
     45, 48, 57, 65, 90, 97, 122, 33, 35, 37, 46, 47, 58, 59, 61, 63, 64, 95, 126, 36, 45, 48, 57, 65, 90, 97, 122,
     33, 35, 37, 46, 47, 53, 58, 59, 61, 63, 64, 95, 126, 36, 45, 48, 57, 65, 90, 97, 122, 33, 35, 37, 46, 47, 58,
     61, 63, 64, 95, 126, 36, 45, 48, 53, 54, 59, 65, 90, 97, 122, 33, 35, 37, 46, 47, 58, 59, 61, 63, 64, 95, 126,
     36, 45, 48, 57, 65, 90, 97, 122, 33, 35, 37, 46, 47, 58, 59, 61, 63, 64, 95, 126, 36, 45, 48, 57, 65, 90, 97,
     122, 33, 35, 37, 46, 47, 53, 58, 59, 61, 63, 64, 95, 126, 36, 45, 48, 57, 65, 90, 97, 122, 33, 35, 37, 46, 47,
     58, 61, 63, 64, 95, 126, 36, 45, 48, 53, 54, 59, 65, 90, 97, 122, 33, 35, 37, 46, 47, 58, 59, 61, 63, 64, 95,
     126, 36, 45, 48, 57, 65, 90, 97, 122, 33, 35, 37, 46, 47, 58, 59, 61, 63, 64, 95, 126, 36, 45, 48, 57, 65, 90,
     97, 122, 33, 35, 37, 46, 47, 53, 58, 59, 61, 63, 64, 95, 126, 36, 45, 48, 57, 65, 90, 97, 122, 33, 35, 37, 46,
     47, 58, 61, 63, 64, 95, 126, 36, 45, 48, 53, 54, 59, 65, 90, 97, 122, 0]"

definition uri_trans_keys :: "int list" where
  "uri_trans_keys = uri_trans_keys1 @ uri_trans_keys2 @ uri_trans_keys3 @ uri_trans_keys4 @ uri_trans_keys5 @ uri_trans_keys6 @ uri_trans_keys7 @ uri_trans_keys8 @ uri_trans_keys9 @ uri_trans_keys10 @ uri_trans_keys11 @ uri_trans_keys12 @ uri_trans_keys13 @ uri_trans_keys14 @ uri_trans_keys15"

definition uri_single_lengths1 :: "nat list" where
  "uri_single_lengths1 =
    [0, 0, 0, 0, 0, 0, 0, 0, 0, 0, 0, 1, 4, 0, 0, 1, 4, 0, 0, 1, 4, 0, 0, 1, 1, 2, 1, 1, 1, 2, 1, 0, 0, 6, 0, 0, 0,
     0, 2, 1, 1, 1, 1, 1, 1, 1, 1, 1, 1, 1, 1, 1, 1, 1, 1, 1, 1, 1, 1, 1, 1, 1, 1, 1, 1, 1, 1, 1, 5, 0, 0, 1, 4, 0,
     0, 1, 4, 0, 0, 1, 4, 0, 0, 1, 1, 1, 2, 1, 1, 1, 2, 1, 1, 1, 2, 1, 2, 1, 1, 1, 1, 1, 1, 1, 2, 2, 2, 3, 2, 2, 2,
     0, 1, 4, 2, 1, 1, 1, 2, 2, 2, 3, 2, 2, 2, 1, 0, 1, 1, 1, 1, 0, 1, 1, 1, 1, 0, 1, 1, 1, 1, 0, 1, 1, 1, 1, 1, 5,
     3, 2, 2, 2, 4, 3, 2, 2, 2, 4, 3, 2, 2, 2, 4, 3, 2, 2, 2, 4, 3, 2, 2, 2, 4, 3, 2, 2, 2, 3, 3, 3, 4, 3, 3, 3, 2,
     3, 3, 3, 4, 3, 3, 3, 2, 3, 3, 3, 4, 3, 3, 3, 2, 3, 3, 3, 4, 3, 3, 3, 2, 3, 3, 3, 4, 3, 3, 3, 2, 3, 3, 3, 4, 3,
     3, 3, 2, 0, 1, 5, 6, 0, 0, 1, 4, 0, 0, 1, 4, 0, 0, 1, 4, 0, 0, 0, 0, 1, 1, 2, 1, 1, 1, 2, 1, 0, 0, 6, 0, 0, 0,
     0, 2, 1, 1, 1, 1, 1, 1, 1, 1, 1, 1, 1, 1, 1, 1, 1, 1, 1, 1, 1, 1, 1, 1, 1, 1, 1, 1, 1, 1, 1, 5, 0, 0, 1, 4, 0,
     0, 1, 4, 0, 0, 1, 4, 0, 0, 1, 1, 1, 2, 1, 1, 1, 2, 1, 1, 1, 2, 1, 2, 1]"

definition uri_single_lengths2 :: "nat list" where
  "uri_single_lengths2 =
    [1, 1, 1, 1, 1, 1, 2, 2, 2, 3, 2, 2, 2, 0, 1, 4, 2, 1, 1, 1, 2, 2, 2, 3, 2, 2, 2, 1, 0, 1, 1, 1, 1, 0, 1, 1, 1,
     1, 0, 1, 1, 1, 1, 0, 1, 1, 1, 1, 1, 5, 3, 2, 2, 2, 4, 3, 2, 2, 2, 4, 3, 2, 2, 2, 4, 3, 2, 2, 2, 4, 3, 2, 2, 2,
     4, 3, 2, 2, 2, 3, 3, 3, 4, 3, 3, 3, 2, 3, 3, 3, 4, 3, 3, 3, 2, 3, 3, 3, 4, 3, 3, 3, 2, 3, 3, 3, 4, 3, 3, 3, 2,
     3, 3, 3, 4, 3, 3, 3, 2, 3, 3, 3, 4, 3, 3, 3, 2, 0, 1, 5, 6, 10, 10, 5, 5, 8, 7, 7, 9, 16, 4, 3, 3, 4, 4, 5, 4,
     10, 9, 15, 9, 10, 14, 10, 14, 10, 10, 11, 11, 12, 10, 11, 11, 12, 10, 11, 11, 12, 10, 9, 11, 15, 11, 15, 11, 11,
     12, 12, 13, 11, 12, 12, 13, 11, 12, 12, 13, 11, 11, 9, 9, 16, 4, 8, 3, 3, 4, 4, 5, 4, 10, 9, 15, 9, 10, 14, 10,
     14, 10, 10, 11, 11, 12, 10, 11, 11, 12, 10, 11, 11, 12, 10, 9, 11, 15, 11, 15, 11, 11, 12, 12, 13, 11, 12, 12,
     13, 11, 12, 12, 13, 11]"

definition uri_single_lengths :: "nat list" where
  "uri_single_lengths = uri_single_lengths1 @ uri_single_lengths2"

definition uri_range_lengths1 :: "nat list" where
  "uri_range_lengths1 =
    [0, 3, 3, 3, 3, 3, 3, 3, 3, 1, 1, 0, 1, 1, 1, 0, 1, 1, 1, 0, 1, 1, 1, 1, 1, 1, 1, 1, 1, 1, 1, 3, 3, 4, 3, 3, 3,
     3, 3, 3, 3, 3, 0, 3, 3, 3, 3, 0, 3, 3, 3, 3, 0, 3, 3, 3, 3, 0, 3, 3, 3, 3, 0, 3, 3, 3, 3, 0, 3, 1, 1, 0, 1, 1,
     1, 0, 1, 1, 1, 0, 1, 1, 1, 0, 1, 1, 1, 1, 1, 1, 1, 1, 1, 1, 1, 1, 3, 3, 3, 0, 3, 3, 3, 3, 3, 3, 3, 3, 3, 4, 3,
     3, 3, 3, 3, 3, 3, 0, 3, 3, 3, 3, 3, 4, 3, 3, 3, 3, 3, 3, 0, 3, 3, 3, 3, 0, 3, 3, 3, 3, 0, 3, 3, 3, 3, 0, 0, 3,
     3, 3, 3, 0, 3, 3, 3, 3, 0, 3, 3, 3, 3, 0, 3, 3, 3, 3, 0, 3, 3, 3, 3, 0, 3, 3, 3, 3, 0, 3, 3, 3, 3, 3, 4, 3, 3,
     3, 3, 3, 3, 3, 4, 3, 3, 3, 3, 3, 3, 3, 4, 3, 3, 3, 3, 3, 3, 3, 4, 3, 3, 3, 3, 3, 3, 3, 4, 3, 3, 3, 3, 3, 3, 3,
     4, 3, 3, 3, 3, 4, 4, 1, 1, 0, 1, 1, 1, 0, 1, 1, 1, 0, 1, 1, 1, 3, 3, 1, 1, 1, 1, 1, 1, 1, 1, 3, 3, 4, 3, 3, 3,
     3, 3, 3, 3, 3, 0, 3, 3, 3, 3, 0, 3, 3, 3, 3, 0, 3, 3, 3, 3, 0, 3, 3, 3, 3, 0, 3, 3, 3, 3, 0, 3, 1, 1, 0, 1, 1,
     1, 0, 1, 1, 1, 0, 1, 1, 1, 0, 1, 1, 1, 1, 1, 1, 1, 1, 1, 1, 1, 1, 3, 3]"

definition uri_range_lengths2 :: "nat list" where
  "uri_range_lengths2 =
    [3, 0, 3, 3, 3, 3, 3, 3, 3, 3, 3, 4, 3, 3, 3, 3, 3, 3, 3, 0, 3, 3, 3, 3, 3, 4, 3, 3, 3, 3, 3, 3, 0, 3, 3, 3, 3,
     0, 3, 3, 3, 3, 0, 3, 3, 3, 3, 0, 0, 3, 3, 3, 3, 0, 3, 3, 3, 3, 0, 3, 3, 3, 3, 0, 3, 3, 3, 3, 0, 3, 3, 3, 3, 0,
     3, 3, 3, 3, 0, 3, 3, 3, 3, 3, 4, 3, 3, 3, 3, 3, 3, 3, 4, 3, 3, 3, 3, 3, 3, 3, 4, 3, 3, 3, 3, 3, 3, 3, 4, 3, 3,
     3, 3, 3, 3, 3, 4, 3, 3, 3, 3, 3, 3, 3, 4, 3, 3, 3, 3, 4, 4, 5, 3, 4, 4, 3, 3, 3, 3, 4, 0, 1, 1, 1, 1, 1, 1, 3,
     5, 4, 3, 3, 4, 3, 4, 3, 3, 4, 4, 4, 5, 4, 4, 4, 5, 4, 4, 4, 5, 5, 3, 4, 3, 4, 3, 3, 4, 4, 4, 5, 4, 4, 4, 5, 4,
     4, 4, 5, 6, 3, 3, 4, 0, 3, 1, 1, 1, 1, 1, 1, 3, 5, 4, 3, 3, 4, 3, 4, 3, 3, 4, 4, 4, 5, 4, 4, 4, 5, 4, 4, 4, 5,
     5, 3, 4, 3, 4, 3, 3, 4, 4, 4, 5, 4, 4, 4, 5, 4, 4, 4, 5]"

definition uri_range_lengths :: "nat list" where
  "uri_range_lengths = uri_range_lengths1 @ uri_range_lengths2"

definition uri_index_offsets1 :: "nat list" where
  "uri_index_offsets1 =
    [0, 0, 4, 8, 12, 16, 20, 24, 28, 32, 34, 36, 38, 44, 46, 48, 50, 56, 58, 60, 62, 68, 70, 72, 75, 78, 82, 85, 88,
     91, 95, 98, 102, 106, 117, 121, 125, 129, 133, 139, 144, 149, 154, 156, 161, 166, 171, 176, 178, 183, 188, 193,
     198, 200, 205, 210, 215, 220, 222, 227, 232, 237, 242, 244, 249, 254, 259, 264, 266, 275, 277, 279, 281, 287,
     289, 291, 293, 299, 301, 303, 305, 311, 313, 315, 317, 320, 323, 327, 330, 333, 336, 340, 343, 346, 349, 353,
     356, 362, 367, 372, 374, 379, 384, 389, 394, 400, 406, 412, 419, 425, 432, 438, 442, 447, 455, 461, 466, 471,
     473, 479, 485, 491, 498, 504, 511, 517, 522, 526, 531, 536, 541, 543, 547, 552, 557, 562, 564, 568, 573, 578,
     583, 585, 589, 594, 599, 604, 606, 608, 617, 624, 630, 636, 639, 647, 654, 660, 666, 669, 677, 684, 690, 696,
     699, 707, 714, 720, 726, 729, 737, 744, 750, 756, 759, 767, 774, 780, 786, 789, 796, 803, 810, 818, 825, 833,
     840, 846, 853, 860, 867, 875, 882, 890, 897, 903, 910, 917, 924, 932, 939, 947, 954, 960, 967, 974, 981, 989,
     996, 1004, 1011, 1017, 1024, 1031, 1038, 1046, 1053, 1061, 1068, 1074, 1081, 1088, 1095, 1103, 1110, 1118, 1125,
     1131, 1135, 1140, 1150, 1161, 1163, 1165, 1167, 1173, 1175, 1177, 1179, 1185, 1187, 1189, 1191, 1197, 1199,
     1201, 1205, 1209, 1212, 1215, 1219, 1222, 1225, 1228, 1232, 1235, 1239, 1243, 1254, 1258, 1262, 1266, 1270,
     1276, 1281, 1286, 1291, 1293, 1298, 1303, 1308, 1313, 1315, 1320, 1325, 1330, 1335, 1337, 1342, 1347, 1352,
     1357, 1359, 1364, 1369, 1374, 1379, 1381, 1386, 1391, 1396, 1401, 1403, 1412, 1414, 1416, 1418, 1424, 1426,
     1428, 1430, 1436, 1438, 1440, 1442, 1448, 1450, 1452, 1454, 1457, 1460, 1464, 1467, 1470, 1473, 1477, 1480,
     1483, 1486, 1490, 1493, 1499]"

definition uri_index_offsets2 :: "nat list" where
  "uri_index_offsets2 =
    [1504, 1509, 1511, 1516, 1521, 1526, 1531, 1537, 1543, 1549, 1556, 1562, 1569, 1575, 1579, 1584, 1592, 1598,
     1603, 1608, 1610, 1616, 1622, 1628, 1635, 1641, 1648, 1654, 1659, 1663, 1668, 1673, 1678, 1680, 1684, 1689,
     1694, 1699, 1701, 1705, 1710, 1715, 1720, 1722, 1726, 1731, 1736, 1741, 1743, 1745, 1754, 1761, 1767, 1773,
     1776, 1784, 1791, 1797, 1803, 1806, 1814, 1821, 1827, 1833, 1836, 1844, 1851, 1857, 1863, 1866, 1874, 1881,
     1887, 1893, 1896, 1904, 1911, 1917, 1923, 1926, 1933, 1940, 1947, 1955, 1962, 1970, 1977, 1983, 1990, 1997,
     2004, 2012, 2019, 2027, 2034, 2040, 2047, 2054, 2061, 2069, 2076, 2084, 2091, 2097, 2104, 2111, 2118, 2126,
     2133, 2141, 2148, 2154, 2161, 2168, 2175, 2183, 2190, 2198, 2205, 2211, 2218, 2225, 2232, 2240, 2247, 2255,
     2262, 2268, 2272, 2277, 2287, 2298, 2314, 2328, 2338, 2348, 2360, 2371, 2382, 2395, 2416, 2421, 2426, 2431,
     2437, 2443, 2450, 2456, 2470, 2485, 2505, 2518, 2532, 2551, 2565, 2584, 2598, 2612, 2628, 2644, 2661, 2677,
     2693, 2709, 2726, 2742, 2758, 2774, 2791, 2807, 2822, 2837, 2857, 2872, 2892, 2907, 2922, 2939, 2956, 2974,
     2991, 3008, 3025, 3043, 3060, 3077, 3094, 3112, 3129, 3147, 3160, 3173, 3194, 3199, 3211, 3216, 3221, 3227,
     3233, 3240, 3246, 3260, 3275, 3295, 3308, 3322, 3341, 3355, 3374, 3388, 3402, 3418, 3434, 3451, 3467, 3483,
     3499, 3516, 3532, 3548, 3564, 3581, 3597, 3612, 3627, 3647, 3662, 3682, 3697, 3712, 3729, 3746, 3764, 3781,
     3798, 3815, 3833, 3850, 3867, 3884, 3902]"

definition uri_index_offsets :: "nat list" where
  "uri_index_offsets = uri_index_offsets1 @ uri_index_offsets2"

definition uri_indicies1 :: "nat list" where
  "uri_indicies1 =
    [0, 0, 0, 1, 2, 2, 2, 1, 3, 3, 3, 1, 4, 4, 4, 1, 5, 5, 5, 1, 6, 6, 6, 1, 7, 7, 7, 1, 8, 8, 8, 1, 9, 1, 10, 1, 11,
     1, 12, 13, 14, 15, 16, 1, 17, 1, 13, 1, 18, 1, 19, 20, 21, 22, 23, 1, 24, 1, 20, 1, 25, 1, 26, 27, 28, 29, 30,
     1, 31, 1, 27, 1, 25, 23, 1, 25, 20, 1, 25, 32, 20, 1, 25, 20, 1, 18, 16, 1, 18, 13, 1, 18, 33, 13, 1, 18, 13, 1,
     34, 34, 34, 1, 35, 35, 35, 1, 36, 37, 36, 38, 36, 36, 36, 36, 36, 36, 1, 39, 39, 39, 1, 36, 36, 36, 1, 40, 40,
     40, 1, 41, 41, 41, 1, 43, 44, 42, 42, 42, 1, 46, 45, 45, 45, 1, 46, 47, 47, 47, 1, 46, 48, 48, 48, 1, 46, 1, 50,
     49, 49, 49, 1, 52, 51, 51, 51, 1, 52, 53, 53, 53, 1, 52, 54, 54, 54, 1, 52, 1, 56, 55, 55, 55, 1, 58, 57, 57,
     57, 1, 58, 59, 59, 59, 1, 58, 60, 60, 60, 1, 58, 1, 62, 61, 61, 61, 1, 64, 63, 63, 63, 1, 64, 65, 65, 65, 1, 64,
     66, 66, 66, 1, 64, 1, 68, 67, 67, 67, 1, 70, 69, 69, 69, 1, 70, 71, 71, 71, 1, 70, 72, 72, 72, 1, 70, 1, 74, 73,
     73, 73, 1, 76, 75, 75, 75, 1, 76, 77, 77, 77, 1, 76, 78, 78, 78, 1, 76, 1, 79, 80, 81, 82, 84, 83, 85, 85, 1,
     86, 1, 87, 1, 88, 1, 89, 90, 91, 92, 93, 1, 94, 1, 90, 1, 95, 1, 96, 97, 98, 99, 100, 1, 101, 1, 97, 1, 102, 1,
     103, 104, 105, 106, 107, 1, 108, 1, 104, 1, 27, 1, 27, 107, 1]"

definition uri_indicies2 :: "nat list" where
  "uri_indicies2 =
    [27, 104, 1, 109, 27, 104, 1, 27, 104, 1, 102, 100, 1, 102, 97, 1, 102, 110, 97, 1, 102, 97, 1, 95, 93, 1, 95,
     90, 1, 95, 111, 90, 1, 95, 90, 1, 88, 113, 112, 112, 112, 1, 113, 114, 114, 114, 1, 113, 115, 115, 115, 1, 113,
     1, 104, 116, 116, 116, 1, 27, 117, 117, 117, 1, 27, 118, 118, 118, 1, 27, 104, 104, 104, 1, 88, 113, 119, 112,
     112, 1, 88, 113, 120, 114, 114, 1, 88, 113, 115, 115, 115, 1, 88, 122, 113, 121, 112, 112, 1, 88, 113, 114, 114,
     114, 1, 88, 113, 120, 114, 114, 114, 1, 88, 113, 121, 112, 112, 1, 116, 116, 116, 1, 113, 112, 112, 112, 1, 79,
     123, 124, 125, 126, 127, 127, 1, 88, 84, 128, 128, 128, 1, 84, 129, 129, 129, 1, 84, 130, 130, 130, 1, 84, 1,
     88, 84, 131, 128, 128, 1, 88, 84, 132, 129, 129, 1, 88, 84, 130, 130, 130, 1, 88, 134, 84, 133, 128, 128, 1, 88,
     84, 129, 129, 129, 1, 88, 84, 132, 129, 129, 129, 1, 88, 84, 133, 128, 128, 1, 84, 128, 128, 128, 1, 135, 135,
     135, 1, 74, 136, 136, 136, 1, 74, 137, 137, 137, 1, 74, 138, 138, 138, 1, 74, 1, 139, 139, 139, 1, 68, 140, 140,
     140, 1, 68, 141, 141, 141, 1, 68, 142, 142, 142, 1, 68, 1, 143, 143, 143, 1, 62, 144, 144, 144, 1, 62, 145, 145,
     145, 1, 62, 146, 146, 146, 1, 62, 1, 147, 147, 147, 1, 56, 148, 148, 148, 1, 56, 149, 149, 149, 1, 56, 150, 150,
     150, 1, 56, 1, 151, 1, 79, 152, 153, 154, 27, 155, 156, 156, 1, 88, 158, 27, 157, 157, 157, 1, 158, 27, 159,
     159, 159, 1, 158, 27, 160, 160, 160, 1, 158, 27, 1, 79]"

definition uri_indicies3 :: "nat list" where
  "uri_indicies3 =
    [161, 162, 163, 164, 165, 165, 1, 88, 167, 27, 166, 166, 166, 1, 167, 27, 168, 168, 168, 1, 167, 27, 169, 169,
     169, 1, 167, 27, 1, 79, 170, 171, 172, 173, 174, 174, 1, 88, 176, 27, 175, 175, 175, 1, 176, 27, 177, 177, 177,
     1, 176, 27, 178, 178, 178, 1, 176, 27, 1, 79, 179, 180, 181, 182, 183, 183, 1, 88, 185, 27, 184, 184, 184, 1,
     185, 27, 186, 186, 186, 1, 185, 27, 187, 187, 187, 1, 185, 27, 1, 79, 188, 189, 190, 191, 192, 192, 1, 88, 194,
     27, 193, 193, 193, 1, 194, 27, 195, 195, 195, 1, 194, 27, 196, 196, 196, 1, 194, 27, 1, 79, 197, 198, 199, 200,
     201, 201, 1, 88, 84, 27, 202, 202, 202, 1, 84, 27, 203, 203, 203, 1, 84, 27, 204, 204, 204, 1, 84, 27, 1, 88,
     84, 27, 205, 202, 202, 1, 88, 84, 27, 206, 203, 203, 1, 88, 84, 27, 204, 204, 204, 1, 88, 208, 84, 27, 207, 202,
     202, 1, 88, 84, 27, 203, 203, 203, 1, 88, 84, 27, 206, 203, 203, 203, 1, 88, 84, 27, 207, 202, 202, 1, 84, 27,
     202, 202, 202, 1, 88, 194, 27, 209, 193, 193, 1, 88, 194, 27, 210, 195, 195, 1, 88, 194, 27, 196, 196, 196, 1,
     88, 212, 194, 27, 211, 193, 193, 1, 88, 194, 27, 195, 195, 195, 1, 88, 194, 27, 210, 195, 195, 195, 1, 88, 194,
     27, 211, 193, 193, 1, 194, 27, 193, 193, 193, 1, 88, 185, 27, 213, 184, 184, 1, 88, 185, 27, 214, 186, 186, 1,
     88, 185, 27, 187, 187, 187, 1, 88, 216, 185, 27, 215, 184, 184, 1, 88, 185, 27, 186, 186, 186, 1, 88, 185, 27,
     214, 186, 186, 186, 1, 88, 185, 27, 215, 184, 184, 1, 185, 27, 184, 184, 184, 1]"

definition uri_indicies4 :: "nat list" where
  "uri_indicies4 =
    [88, 176, 27, 217, 175, 175, 1, 88, 176, 27, 218, 177, 177, 1, 88, 176, 27, 178, 178, 178, 1, 88, 220, 176, 27,
     219, 175, 175, 1, 88, 176, 27, 177, 177, 177, 1, 88, 176, 27, 218, 177, 177, 177, 1, 88, 176, 27, 219, 175, 175,
     1, 176, 27, 175, 175, 175, 1, 88, 167, 27, 221, 166, 166, 1, 88, 167, 27, 222, 168, 168, 1, 88, 167, 27, 169,
     169, 169, 1, 88, 224, 167, 27, 223, 166, 166, 1, 88, 167, 27, 168, 168, 168, 1, 88, 167, 27, 222, 168, 168, 168,
     1, 88, 167, 27, 223, 166, 166, 1, 167, 27, 166, 166, 166, 1, 88, 158, 27, 225, 157, 157, 1, 88, 158, 27, 226,
     159, 159, 1, 88, 158, 27, 160, 160, 160, 1, 88, 228, 158, 27, 227, 157, 157, 1, 88, 158, 27, 159, 159, 159, 1,
     88, 158, 27, 226, 159, 159, 159, 1, 88, 158, 27, 227, 157, 157, 1, 158, 27, 157, 157, 157, 1, 229, 229, 229, 1,
     230, 229, 229, 229, 1, 231, 231, 231, 231, 231, 231, 231, 231, 231, 1, 231, 231, 231, 27, 231, 231, 231, 231,
     231, 231, 1, 232, 1, 233, 1, 234, 1, 235, 236, 237, 238, 239, 1, 240, 1, 236, 1, 241, 1, 242, 243, 244, 245,
     246, 1, 247, 1, 243, 1, 248, 1, 249, 250, 251, 252, 253, 1, 254, 1, 250, 1, 255, 255, 255, 1, 256, 256, 256, 1,
     248, 246, 1, 248, 243, 1, 248, 257, 243, 1, 248, 243, 1, 241, 239, 1, 241, 236, 1, 241, 258, 236, 1, 241, 236,
     1, 259, 259, 259, 1, 260, 260, 260, 1, 261, 262, 261, 263, 261, 261, 261, 261, 261, 261, 1, 264, 264, 264, 1,
     261, 261, 261, 1, 265, 265, 265, 1, 266, 266, 266, 1, 268, 269, 267, 267, 267, 1, 271, 270, 270, 270]"

definition uri_indicies5 :: "nat list" where
  "uri_indicies5 =
    [1, 271, 272, 272, 272, 1, 271, 273, 273, 273, 1, 271, 1, 275, 274, 274, 274, 1, 277, 276, 276, 276, 1, 277, 278,
     278, 278, 1, 277, 279, 279, 279, 1, 277, 1, 281, 280, 280, 280, 1, 283, 282, 282, 282, 1, 283, 284, 284, 284, 1,
     283, 285, 285, 285, 1, 283, 1, 287, 286, 286, 286, 1, 289, 288, 288, 288, 1, 289, 290, 290, 290, 1, 289, 291,
     291, 291, 1, 289, 1, 293, 292, 292, 292, 1, 295, 294, 294, 294, 1, 295, 296, 296, 296, 1, 295, 297, 297, 297, 1,
     295, 1, 299, 298, 298, 298, 1, 301, 300, 300, 300, 1, 301, 302, 302, 302, 1, 301, 303, 303, 303, 1, 301, 1, 304,
     305, 306, 307, 309, 308, 310, 310, 1, 311, 1, 312, 1, 313, 1, 314, 315, 316, 317, 318, 1, 319, 1, 315, 1, 320,
     1, 321, 322, 323, 324, 325, 1, 326, 1, 322, 1, 327, 1, 328, 329, 330, 331, 332, 1, 333, 1, 329, 1, 250, 1, 250,
     332, 1, 250, 329, 1, 334, 250, 329, 1, 250, 329, 1, 327, 325, 1, 327, 322, 1, 327, 335, 322, 1, 327, 322, 1,
     320, 318, 1, 320, 315, 1, 320, 336, 315, 1, 320, 315, 1, 313, 338, 337, 337, 337, 1, 338, 339, 339, 339, 1, 338,
     340, 340, 340, 1, 338, 1, 329, 341, 341, 341, 1, 250, 342, 342, 342, 1, 250, 343, 343, 343, 1, 250, 329, 329,
     329, 1, 313, 338, 344, 337, 337, 1, 313, 338, 345, 339, 339, 1, 313, 338, 340, 340, 340, 1, 313, 347, 338, 346,
     337, 337, 1, 313, 338, 339, 339, 339, 1, 313, 338, 345, 339, 339, 339, 1, 313, 338, 346, 337, 337, 1, 341, 341,
     341, 1, 338, 337, 337, 337, 1, 304, 348, 349, 350, 351, 352, 352, 1, 313, 309, 353, 353, 353, 1, 309, 354]"

definition uri_indicies6 :: "nat list" where
  "uri_indicies6 =
    [354, 354, 1, 309, 355, 355, 355, 1, 309, 1, 313, 309, 356, 353, 353, 1, 313, 309, 357, 354, 354, 1, 313, 309,
     355, 355, 355, 1, 313, 359, 309, 358, 353, 353, 1, 313, 309, 354, 354, 354, 1, 313, 309, 357, 354, 354, 354, 1,
     313, 309, 358, 353, 353, 1, 309, 353, 353, 353, 1, 360, 360, 360, 1, 299, 361, 361, 361, 1, 299, 362, 362, 362,
     1, 299, 363, 363, 363, 1, 299, 1, 364, 364, 364, 1, 293, 365, 365, 365, 1, 293, 366, 366, 366, 1, 293, 367, 367,
     367, 1, 293, 1, 368, 368, 368, 1, 287, 369, 369, 369, 1, 287, 370, 370, 370, 1, 287, 371, 371, 371, 1, 287, 1,
     372, 372, 372, 1, 281, 373, 373, 373, 1, 281, 374, 374, 374, 1, 281, 375, 375, 375, 1, 281, 1, 376, 1, 304, 377,
     378, 379, 250, 380, 381, 381, 1, 313, 383, 250, 382, 382, 382, 1, 383, 250, 384, 384, 384, 1, 383, 250, 385,
     385, 385, 1, 383, 250, 1, 304, 386, 387, 388, 389, 390, 390, 1, 313, 392, 250, 391, 391, 391, 1, 392, 250, 393,
     393, 393, 1, 392, 250, 394, 394, 394, 1, 392, 250, 1, 304, 395, 396, 397, 398, 399, 399, 1, 313, 401, 250, 400,
     400, 400, 1, 401, 250, 402, 402, 402, 1, 401, 250, 403, 403, 403, 1, 401, 250, 1, 304, 404, 405, 406, 407, 408,
     408, 1, 313, 410, 250, 409, 409, 409, 1, 410, 250, 411, 411, 411, 1, 410, 250, 412, 412, 412, 1, 410, 250, 1,
     304, 413, 414, 415, 416, 417, 417, 1, 313, 419, 250, 418, 418, 418, 1, 419, 250, 420, 420, 420, 1, 419, 250,
     421, 421, 421, 1, 419, 250, 1, 304, 422, 423, 424, 425, 426, 426, 1, 313, 309, 250, 427, 427, 427, 1, 309, 250,
     428, 428, 428, 1, 309, 250, 429]"

definition uri_indicies7 :: "nat list" where
  "uri_indicies7 =
    [429, 429, 1, 309, 250, 1, 313, 309, 250, 430, 427, 427, 1, 313, 309, 250, 431, 428, 428, 1, 313, 309, 250, 429,
     429, 429, 1, 313, 433, 309, 250, 432, 427, 427, 1, 313, 309, 250, 428, 428, 428, 1, 313, 309, 250, 431, 428,
     428, 428, 1, 313, 309, 250, 432, 427, 427, 1, 309, 250, 427, 427, 427, 1, 313, 419, 250, 434, 418, 418, 1, 313,
     419, 250, 435, 420, 420, 1, 313, 419, 250, 421, 421, 421, 1, 313, 437, 419, 250, 436, 418, 418, 1, 313, 419,
     250, 420, 420, 420, 1, 313, 419, 250, 435, 420, 420, 420, 1, 313, 419, 250, 436, 418, 418, 1, 419, 250, 418,
     418, 418, 1, 313, 410, 250, 438, 409, 409, 1, 313, 410, 250, 439, 411, 411, 1, 313, 410, 250, 412, 412, 412, 1,
     313, 441, 410, 250, 440, 409, 409, 1, 313, 410, 250, 411, 411, 411, 1, 313, 410, 250, 439, 411, 411, 411, 1,
     313, 410, 250, 440, 409, 409, 1, 410, 250, 409, 409, 409, 1, 313, 401, 250, 442, 400, 400, 1, 313, 401, 250,
     443, 402, 402, 1, 313, 401, 250, 403, 403, 403, 1, 313, 445, 401, 250, 444, 400, 400, 1, 313, 401, 250, 402,
     402, 402, 1, 313, 401, 250, 443, 402, 402, 402, 1, 313, 401, 250, 444, 400, 400, 1, 401, 250, 400, 400, 400, 1,
     313, 392, 250, 446, 391, 391, 1, 313, 392, 250, 447, 393, 393, 1, 313, 392, 250, 394, 394, 394, 1, 313, 449,
     392, 250, 448, 391, 391, 1, 313, 392, 250, 393, 393, 393, 1, 313, 392, 250, 447, 393, 393, 393, 1, 313, 392,
     250, 448, 391, 391, 1, 392, 250, 391, 391, 391, 1, 313, 383, 250, 450, 382, 382, 1, 313, 383, 250, 451, 384,
     384, 1, 313, 383, 250, 385, 385, 385, 1, 313, 453, 383, 250, 452, 382, 382, 1]"

definition uri_indicies8 :: "nat list" where
  "uri_indicies8 =
    [313, 383, 250, 384, 384, 384, 1, 313, 383, 250, 451, 384, 384, 384, 1, 313, 383, 250, 452, 382, 382, 1, 383,
     250, 382, 382, 382, 1, 454, 454, 454, 1, 455, 454, 454, 454, 1, 456, 456, 456, 456, 456, 456, 456, 456, 456, 1,
     456, 456, 456, 250, 456, 456, 456, 456, 456, 456, 1, 1, 457, 458, 459, 1, 1, 1, 460, 1, 1, 1, 461, 1, 461, 1, 4,
     1, 457, 458, 6, 1, 1, 1, 460, 1, 1, 1, 1, 1, 4, 463, 1, 1, 1, 1, 1, 1, 1, 1, 462, 464, 1, 1, 1, 1, 1, 1, 1, 1,
     2, 1, 457, 465, 1, 1, 460, 1, 1, 1, 1, 1, 6, 1, 467, 468, 1, 1, 1, 1, 1, 1, 1, 466, 1, 469, 470, 1, 1, 1, 1, 1,
     1, 1, 8, 1, 457, 465, 471, 1, 1, 460, 1, 1, 1, 1, 1, 6, 472, 473, 474, 475, 476, 477, 478, 479, 481, 473, 473,
     482, 483, 484, 473, 473, 473, 480, 473, 473, 1, 485, 486, 487, 488, 1, 489, 490, 492, 491, 1, 493, 494, 496,
     495, 1, 485, 486, 487, 488, 30, 1, 485, 486, 487, 488, 27, 1, 485, 486, 497, 487, 488, 27, 1, 485, 486, 487,
     488, 27, 1, 35, 485, 498, 486, 499, 35, 488, 38, 35, 35, 35, 35, 35, 1, 36, 489, 37, 490, 36, 492, 38, 36, 36,
     36, 500, 36, 36, 36, 1, 472, 501, 474, 502, 476, 503, 504, 505, 507, 501, 501, 482, 484, 501, 501, 501, 506,
     501, 501, 1, 41, 485, 508, 486, 487, 41, 488, 41, 41, 41, 41, 41, 1, 41, 485, 508, 509, 486, 487, 41, 488, 41,
     41, 41, 41, 41, 1, 12, 41, 485, 508, 486, 510, 511, 512, 487, 41, 41, 488, 41, 41, 41, 513, 41, 41, 1, 41, 485,
     508, 514, 486, 487, 41, 488, 41]"

definition uri_indicies9 :: "nat list" where
  "uri_indicies9 =
    [41, 41, 41, 41, 1, 19, 41, 485, 508, 486, 515, 516, 517, 487, 41, 41, 488, 41, 41, 41, 518, 41, 41, 1, 41, 485,
     508, 519, 486, 487, 41, 488, 41, 41, 41, 41, 41, 1, 26, 41, 485, 508, 486, 487, 41, 488, 41, 41, 41, 41, 41, 1,
     41, 485, 508, 519, 486, 487, 41, 41, 488, 41, 41, 41, 518, 41, 41, 1, 41, 485, 508, 519, 486, 487, 41, 41, 488,
     41, 41, 41, 515, 41, 41, 1, 41, 485, 508, 519, 486, 520, 487, 41, 41, 488, 41, 41, 41, 515, 41, 41, 1, 41, 485,
     508, 519, 486, 487, 41, 488, 41, 41, 41, 515, 41, 41, 41, 1, 41, 485, 508, 514, 486, 487, 41, 41, 488, 41, 41,
     41, 513, 41, 41, 1, 41, 485, 508, 514, 486, 487, 41, 41, 488, 41, 41, 41, 510, 41, 41, 1, 41, 485, 508, 514,
     486, 521, 487, 41, 41, 488, 41, 41, 41, 510, 41, 41, 1, 41, 485, 508, 514, 486, 487, 41, 488, 41, 41, 41, 510,
     41, 41, 41, 1, 41, 485, 508, 509, 486, 487, 41, 41, 488, 41, 41, 41, 522, 41, 41, 1, 41, 485, 508, 509, 486,
     487, 41, 41, 488, 41, 41, 41, 523, 41, 41, 1, 41, 485, 508, 509, 486, 524, 487, 41, 41, 488, 41, 41, 41, 523,
     41, 41, 1, 41, 485, 508, 509, 486, 487, 41, 488, 41, 41, 41, 523, 41, 41, 41, 1, 36, 493, 37, 494, 36, 496, 38,
     36, 36, 36, 525, 36, 36, 36, 1, 35, 485, 498, 526, 486, 499, 35, 488, 38, 35, 35, 35, 35, 35, 1, 12, 35, 485,
     498, 486, 527, 528, 529, 499, 35, 35, 488, 38, 35, 35, 35, 530, 35, 35, 1, 35, 485, 498, 531, 486, 499, 35, 488,
     38, 35, 35, 35, 35, 35, 1, 19, 35, 485, 498, 486, 532, 533, 534]"

definition uri_indicies10 :: "nat list" where
  "uri_indicies10 =
    [499, 35, 35, 488, 38, 35, 35, 35, 535, 35, 35, 1, 35, 485, 498, 536, 486, 499, 35, 488, 38, 35, 35, 35, 35, 35,
     1, 26, 35, 485, 498, 486, 499, 35, 488, 38, 35, 35, 35, 35, 35, 1, 35, 485, 498, 536, 486, 499, 35, 35, 488, 38,
     35, 35, 35, 535, 35, 35, 1, 35, 485, 498, 536, 486, 499, 35, 35, 488, 38, 35, 35, 35, 532, 35, 35, 1, 35, 485,
     498, 536, 486, 537, 499, 35, 35, 488, 38, 35, 35, 35, 532, 35, 35, 1, 35, 485, 498, 536, 486, 499, 35, 488, 38,
     35, 35, 35, 532, 35, 35, 35, 1, 35, 485, 498, 531, 486, 499, 35, 35, 488, 38, 35, 35, 35, 530, 35, 35, 1, 35,
     485, 498, 531, 486, 499, 35, 35, 488, 38, 35, 35, 35, 527, 35, 35, 1, 35, 485, 498, 531, 486, 538, 499, 35, 35,
     488, 38, 35, 35, 35, 527, 35, 35, 1, 35, 485, 498, 531, 486, 499, 35, 488, 38, 35, 35, 35, 527, 35, 35, 35, 1,
     35, 485, 498, 526, 486, 499, 35, 35, 488, 38, 35, 35, 35, 539, 35, 35, 1, 35, 485, 498, 526, 486, 499, 35, 35,
     488, 38, 35, 35, 35, 540, 35, 35, 1, 35, 485, 498, 526, 486, 541, 499, 35, 35, 488, 38, 35, 35, 35, 540, 35, 35,
     1, 35, 485, 498, 526, 486, 499, 35, 488, 38, 35, 35, 35, 540, 35, 35, 35, 1, 1, 457, 458, 542, 6, 543, 1, 1,
     460, 1, 1, 1, 542, 542, 1, 542, 1, 4, 1, 457, 465, 544, 1, 1, 460, 1, 1, 1, 1, 1, 6, 1, 457, 465, 545, 1, 1,
     460, 1, 1, 1, 1, 1, 6, 546, 547, 548, 549, 550, 551, 552, 553, 555, 547, 547, 556, 557, 558, 547, 547, 547, 554,
     547, 547, 1, 559, 560, 561, 562, 1, 1]"

definition uri_indicies11 :: "nat list" where
  "uri_indicies11 =
    [563, 564, 1, 1, 565, 1, 1, 1, 1, 1, 256, 566, 567, 569, 568, 1, 570, 571, 573, 572, 1, 559, 560, 561, 562, 253,
     1, 559, 560, 561, 562, 250, 1, 559, 560, 574, 561, 562, 250, 1, 559, 560, 561, 562, 250, 1, 260, 559, 575, 560,
     576, 260, 562, 263, 260, 260, 260, 260, 260, 1, 261, 566, 262, 567, 261, 569, 263, 261, 261, 261, 577, 261, 261,
     261, 1, 546, 578, 548, 579, 550, 580, 581, 582, 584, 578, 578, 556, 558, 578, 578, 578, 583, 578, 578, 1, 266,
     559, 585, 560, 561, 266, 562, 266, 266, 266, 266, 266, 1, 266, 559, 585, 586, 560, 561, 266, 562, 266, 266, 266,
     266, 266, 1, 235, 266, 559, 585, 560, 587, 588, 589, 561, 266, 266, 562, 266, 266, 266, 590, 266, 266, 1, 266,
     559, 585, 591, 560, 561, 266, 562, 266, 266, 266, 266, 266, 1, 242, 266, 559, 585, 560, 592, 593, 594, 561, 266,
     266, 562, 266, 266, 266, 595, 266, 266, 1, 266, 559, 585, 596, 560, 561, 266, 562, 266, 266, 266, 266, 266, 1,
     249, 266, 559, 585, 560, 561, 266, 562, 266, 266, 266, 266, 266, 1, 266, 559, 585, 596, 560, 561, 266, 266, 562,
     266, 266, 266, 595, 266, 266, 1, 266, 559, 585, 596, 560, 561, 266, 266, 562, 266, 266, 266, 592, 266, 266, 1,
     266, 559, 585, 596, 560, 597, 561, 266, 266, 562, 266, 266, 266, 592, 266, 266, 1, 266, 559, 585, 596, 560, 561,
     266, 562, 266, 266, 266, 592, 266, 266, 266, 1, 266, 559, 585, 591, 560, 561, 266, 266, 562, 266, 266, 266, 590,
     266, 266, 1, 266, 559, 585, 591, 560, 561, 266, 266, 562, 266, 266, 266, 587, 266, 266, 1, 266, 559, 585, 591,
     560, 598, 561, 266, 266, 562, 266, 266, 266, 587, 266, 266, 1, 266, 559, 585, 591]"

definition uri_indicies12 :: "nat list" where
  "uri_indicies12 =
    [560, 561, 266, 562, 266, 266, 266, 587, 266, 266, 266, 1, 266, 559, 585, 586, 560, 561, 266, 266, 562, 266, 266,
     266, 599, 266, 266, 1, 266, 559, 585, 586, 560, 561, 266, 266, 562, 266, 266, 266, 600, 266, 266, 1, 266, 559,
     585, 586, 560, 601, 561, 266, 266, 562, 266, 266, 266, 600, 266, 266, 1, 266, 559, 585, 586, 560, 561, 266, 562,
     266, 266, 266, 600, 266, 266, 266, 1, 261, 570, 262, 571, 261, 573, 263, 261, 261, 261, 602, 261, 261, 261, 1,
     260, 559, 575, 603, 560, 576, 260, 562, 263, 260, 260, 260, 260, 260, 1, 235, 260, 559, 575, 560, 604, 605, 606,
     576, 260, 260, 562, 263, 260, 260, 260, 607, 260, 260, 1, 260, 559, 575, 608, 560, 576, 260, 562, 263, 260, 260,
     260, 260, 260, 1, 242, 260, 559, 575, 560, 609, 610, 611, 576, 260, 260, 562, 263, 260, 260, 260, 612, 260, 260,
     1, 260, 559, 575, 613, 560, 576, 260, 562, 263, 260, 260, 260, 260, 260, 1, 249, 260, 559, 575, 560, 576, 260,
     562, 263, 260, 260, 260, 260, 260, 1, 260, 559, 575, 613, 560, 576, 260, 260, 562, 263, 260, 260, 260, 612, 260,
     260, 1, 260, 559, 575, 613, 560, 576, 260, 260, 562, 263, 260, 260, 260, 609, 260, 260, 1, 260, 559, 575, 613,
     560, 614, 576, 260, 260, 562, 263, 260, 260, 260, 609, 260, 260, 1, 260, 559, 575, 613, 560, 576, 260, 562, 263,
     260, 260, 260, 609, 260, 260, 260, 1, 260, 559, 575, 608, 560, 576, 260, 260, 562, 263, 260, 260, 260, 607, 260,
     260, 1, 260, 559, 575, 608, 560, 576, 260, 260, 562, 263, 260, 260, 260, 604, 260, 260, 1, 260, 559, 575, 608,
     560, 615, 576, 260, 260, 562, 263, 260, 260, 260, 604, 260, 260, 1, 260, 559, 575, 608, 560, 576, 260]"

definition uri_indicies13 :: "nat list" where
  "uri_indicies13 =
    [562, 263, 260, 260, 260, 604, 260, 260, 260, 1, 260, 559, 575, 603, 560, 576, 260, 260, 562, 263, 260, 260, 260,
     616, 260, 260, 1, 260, 559, 575, 603, 560, 576, 260, 260, 562, 263, 260, 260, 260, 617, 260, 260, 1, 260, 559,
     575, 603, 560, 618, 576, 260, 260, 562, 263, 260, 260, 260, 617, 260, 260, 1, 260, 559, 575, 603, 560, 576, 260,
     562, 263, 260, 260, 260, 617, 260, 260, 260, 1, 0]"

definition uri_indicies :: "nat list" where
  "uri_indicies = uri_indicies1 @ uri_indicies2 @ uri_indicies3 @ uri_indicies4 @ uri_indicies5 @ uri_indicies6 @ uri_indicies7 @ uri_indicies8 @ uri_indicies9 @ uri_indicies10 @ uri_indicies11 @ uri_indicies12 @ uri_indicies13"

definition uri_trans_targs1 :: "nat list" where
  "uri_trans_targs1 =
    [2, 0, 454, 4, 452, 6, 455, 8, 457, 10, 11, 12, 13, 15, 27, 29, 28, 14, 16, 17, 19, 23, 25, 24, 18, 20, 21, 460,
     463, 465, 464, 22, 26, 30, 32, 467, 33, 34, 469, 35, 37, 470, 39, 146, 225, 40, 43, 41, 42, 44, 141, 45, 48, 46,
     47, 49, 136, 50, 53, 51, 52, 54, 131, 55, 58, 56, 57, 59, 126, 60, 63, 61, 62, 64, 113, 65, 68, 66, 67, 69, 96,
     104, 107, 110, 111, 112, 70, 71, 72, 73, 75, 92, 94, 93, 74, 76, 77, 79, 88, 90, 89, 78, 80, 81, 83, 84, 86, 85,
     82, 87, 91, 95, 97, 100, 98, 99, 101, 102, 103, 105, 106, 108, 109, 114, 118, 121, 124, 125, 115, 116, 117, 119,
     120, 122, 123, 127, 128, 129, 130, 132, 133, 134, 135, 137, 138, 139, 140, 142, 143, 144, 145, 147, 148, 217,
     220, 223, 224, 149, 152, 150, 151, 153, 209, 212, 215, 216, 154, 157, 155, 156, 158, 201, 204, 207, 208, 159,
     162, 160, 161, 163, 193, 196, 199, 200, 164, 167, 165, 166, 168, 185, 188, 191, 192, 169, 172, 170, 171, 173,
     177, 180, 183, 184, 174, 175, 176, 178, 179, 181, 182, 186, 187, 189, 190, 194, 195, 197, 198, 202, 203, 205,
     206, 210, 211, 213, 214, 218, 219, 221, 222, 226, 227, 228, 230, 231, 232, 233, 235, 249, 251, 250, 234, 236,
     237, 239, 245, 247, 246, 238, 240, 241, 512, 516, 518, 517, 242, 244, 513, 248, 252, 254, 520, 255, 256, 522,
     257, 259, 523, 261, 368, 447, 262, 265, 263, 264, 266, 363, 267, 270, 268, 269, 271, 358, 272, 275, 273, 274,
     276, 353, 277, 280, 278, 279, 281, 348, 282, 285, 283, 284, 286, 335, 287, 290, 288, 289, 291, 318, 326, 329,
     332, 333, 334, 292, 293, 294, 295, 297, 314, 316, 315, 296]"

definition uri_trans_targs2 :: "nat list" where
  "uri_trans_targs2 =
    [298, 299, 301, 310, 312, 311, 300, 302, 303, 305, 306, 308, 307, 304, 309, 313, 317, 319, 322, 320, 321, 323,
     324, 325, 327, 328, 330, 331, 336, 340, 343, 346, 347, 337, 338, 339, 341, 342, 344, 345, 349, 350, 351, 352,
     354, 355, 356, 357, 359, 360, 361, 362, 364, 365, 366, 367, 369, 370, 439, 442, 445, 446, 371, 374, 372, 373,
     375, 431, 434, 437, 438, 376, 379, 377, 378, 380, 423, 426, 429, 430, 381, 384, 382, 383, 385, 415, 418, 421,
     422, 386, 389, 387, 388, 390, 407, 410, 413, 414, 391, 394, 392, 393, 395, 399, 402, 405, 406, 396, 397, 398,
     400, 401, 403, 404, 408, 409, 411, 412, 416, 417, 419, 420, 424, 425, 427, 428, 432, 433, 435, 436, 440, 441,
     443, 444, 448, 449, 450, 453, 3, 458, 456, 508, 454, 1, 1, 5, 457, 453, 7, 453, 7, 459, 9, 467, 453, 31, 455,
     490, 504, 506, 505, 468, 456, 469, 38, 453, 455, 461, 456, 453, 455, 462, 456, 453, 455, 462, 456, 466, 31, 468,
     489, 470, 36, 471, 485, 487, 486, 461, 36, 472, 473, 481, 483, 482, 474, 475, 477, 479, 478, 476, 480, 484, 486,
     471, 488, 489, 491, 492, 500, 502, 501, 493, 494, 496, 498, 497, 495, 499, 503, 505, 490, 507, 508, 509, 510,
     511, 229, 520, 453, 253, 513, 543, 557, 559, 558, 521, 456, 522, 260, 453, 513, 514, 456, 453, 243, 456, 453,
     513, 515, 456, 453, 513, 515, 456, 519, 253, 521, 542, 523, 258, 524, 538, 540, 539, 514, 258, 525, 526, 534,
     536, 535, 527, 528, 530, 532, 531, 529, 533, 537, 539, 524, 541, 542, 544, 545, 553, 555, 554, 546, 547, 549,
     551, 550, 548, 552, 556, 558, 543, 560]"

definition uri_trans_targs :: "nat list" where
  "uri_trans_targs = uri_trans_targs1 @ uri_trans_targs2"

definition uri_trans_actions1 :: "nat list" where
  "uri_trans_actions1 =
    [0, 0, 0, 0, 0, 0, 0, 0, 0, 0, 0, 0, 0, 0, 0, 0, 0, 0, 0, 0, 0, 0, 0, 0, 0, 0, 0, 0, 0, 0, 0, 0, 0, 0, 0, 0, 0,
     0, 9, 0, 0, 0, 0, 0, 0, 0, 0, 0, 0, 0, 0, 0, 0, 0, 0, 0, 0, 0, 0, 0, 0, 0, 0, 0, 0, 0, 0, 0, 0, 0, 0, 0, 0, 0,
     0, 0, 0, 0, 0, 0, 0, 0, 0, 0, 0, 0, 0, 0, 0, 0, 0, 0, 0, 0, 0, 0, 0, 0, 0, 0, 0, 0, 0, 0, 0, 0, 0, 0, 0, 0, 0,
     0, 0, 0, 0, 0, 0, 0, 0, 0, 0, 0, 0, 0, 0, 0, 0, 0, 0, 0, 0, 0, 0, 0, 0, 0, 0, 0, 0, 0, 0, 0, 0, 0, 0, 0, 0, 0,
     0, 0, 0, 0, 0, 0, 0, 0, 0, 0, 0, 0, 0, 0, 0, 0, 0, 0, 0, 0, 0, 0, 0, 0, 0, 0, 0, 0, 0, 0, 0, 0, 0, 0, 0, 0, 0,
     0, 0, 0, 0, 0, 0, 0, 0, 0, 0, 0, 0, 0, 0, 0, 0, 0, 0, 0, 0, 0, 0, 0, 0, 0, 0, 0, 0, 0, 0, 0, 0, 0, 0, 0, 0, 0,
     0, 0, 0, 0, 0, 0, 0, 0, 0, 0, 0, 0, 0, 0, 0, 0, 0, 0, 0, 0, 0, 0, 0, 0, 0, 0, 0, 0, 0, 0, 0, 0, 0, 0, 0, 0, 0,
     0, 0, 0, 0, 9, 0, 0, 0, 0, 0, 0, 0, 0, 0, 0, 0, 0, 0, 0, 0, 0, 0, 0, 0, 0, 0, 0, 0, 0, 0, 0, 0, 0, 0, 0, 0, 0,
     0, 0, 0, 0, 0, 0, 0, 0, 0, 0, 0, 0, 0, 0, 0, 0, 0, 0, 0, 0, 0, 0, 0, 0]"

definition uri_trans_actions2 :: "nat list" where
  "uri_trans_actions2 =
    [0, 0, 0, 0, 0, 0, 0, 0, 0, 0, 0, 0, 0, 0, 0, 0, 0, 0, 0, 0, 0, 0, 0, 0, 0, 0, 0, 0, 0, 0, 0, 0, 0, 0, 0, 0, 0,
     0, 0, 0, 0, 0, 0, 0, 0, 0, 0, 0, 0, 0, 0, 0, 0, 0, 0, 0, 0, 0, 0, 0, 0, 0, 0, 0, 0, 0, 0, 0, 0, 0, 0, 0, 0, 0,
     0, 0, 0, 0, 0, 0, 0, 0, 0, 0, 0, 0, 0, 0, 0, 0, 0, 0, 0, 0, 0, 0, 0, 0, 0, 0, 0, 0, 0, 0, 0, 0, 0, 0, 0, 0, 0,
     0, 0, 0, 0, 0, 0, 0, 0, 0, 0, 0, 0, 0, 0, 0, 0, 0, 0, 0, 0, 0, 0, 0, 0, 0, 0, 0, 0, 0, 0, 1, 1, 1, 0, 0, 1, 19,
     1, 15, 0, 0, 3, 3, 31, 3, 31, 3, 3, 3, 3, 31, 31, 28, 3, 11, 11, 11, 11, 25, 25, 3, 25, 7, 7, 0, 7, 0, 0, 11, 3,
     3, 3, 3, 3, 3, 3, 31, 0, 0, 0, 0, 0, 0, 0, 0, 0, 0, 0, 0, 0, 0, 0, 0, 0, 0, 0, 0, 0, 0, 0, 0, 0, 0, 0, 0, 0, 0,
     0, 0, 0, 0, 0, 5, 0, 0, 3, 3, 44, 3, 31, 3, 3, 3, 3, 31, 44, 28, 3, 52, 37, 11, 52, 13, 0, 13, 40, 25, 3, 40,
     48, 34, 0, 48, 0, 0, 11, 3, 3, 3, 3, 3, 3, 3, 31, 0, 0, 0, 0, 0, 0, 0, 0, 0, 0, 0, 0, 0, 0, 0, 0, 0, 0, 0, 0, 0,
     0, 0, 0, 0, 0, 0, 0, 0, 0, 0, 0, 0, 0]"

definition uri_trans_actions :: "nat list" where
  "uri_trans_actions = uri_trans_actions1 @ uri_trans_actions2"

definition uri_eof_actions1 :: "nat list" where
  "uri_eof_actions1 =
    [0, 0, 0, 0, 0, 0, 0, 0, 0, 0, 0, 0, 0, 0, 0, 0, 0, 0, 0, 0, 0, 0, 0, 0, 0, 0, 0, 0, 0, 0, 0, 0, 0, 0, 0, 0, 0,
     0, 0, 0, 0, 0, 0, 0, 0, 0, 0, 0, 0, 0, 0, 0, 0, 0, 0, 0, 0, 0, 0, 0, 0, 0, 0, 0, 0, 0, 0, 0, 0, 0, 0, 0, 0, 0,
     0, 0, 0, 0, 0, 0, 0, 0, 0, 0, 0, 0, 0, 0, 0, 0, 0, 0, 0, 0, 0, 0, 0, 0, 0, 0, 0, 0, 0, 0, 0, 0, 0, 0, 0, 0, 0,
     0, 0, 0, 0, 0, 0, 0, 0, 0, 0, 0, 0, 0, 0, 0, 0, 0, 0, 0, 0, 0, 0, 0, 0, 0, 0, 0, 0, 0, 0, 0, 0, 0, 0, 0, 0, 0,
     0, 0, 0, 0, 0, 0, 0, 0, 0, 0, 0, 0, 0, 0, 0, 0, 0, 0, 0, 0, 0, 0, 0, 0, 0, 0, 0, 0, 0, 0, 0, 0, 0, 0, 0, 0, 0,
     0, 0, 0, 0, 0, 0, 0, 0, 0, 0, 0, 0, 0, 0, 0, 0, 0, 0, 0, 0, 0, 0, 0, 0, 0, 0, 0, 0, 0, 0, 0, 0, 0, 0, 0, 0, 0,
     0, 0, 0, 0, 0, 0, 0, 0, 0, 0, 0, 0, 0, 0, 0, 0, 0, 0, 0, 0, 0, 0, 0, 0, 0, 0, 0, 0, 0, 0, 0, 0, 0, 0, 0, 0, 0,
     0, 0, 0, 0, 0, 0, 0, 0, 0, 0, 0, 0, 0, 0, 0, 0, 0, 0, 0, 0, 0, 0, 0, 0, 0, 0, 0, 0, 0, 0, 0, 0, 0, 0, 0, 0, 0,
     0, 0, 0, 0, 0, 0, 0, 0, 0, 0, 0, 0, 0, 0, 0, 0, 0, 0, 0, 0, 0, 0, 0, 0]"

definition uri_eof_actions2 :: "nat list" where
  "uri_eof_actions2 =
    [0, 0, 0, 0, 0, 0, 0, 0, 0, 0, 0, 0, 0, 0, 0, 0, 0, 0, 0, 0, 0, 0, 0, 0, 0, 0, 0, 0, 0, 0, 0, 0, 0, 0, 0, 0, 0,
     0, 0, 0, 0, 0, 0, 0, 0, 0, 0, 0, 0, 0, 0, 0, 0, 0, 0, 0, 0, 0, 0, 0, 0, 0, 0, 0, 0, 0, 0, 0, 0, 0, 0, 0, 0, 0,
     0, 0, 0, 0, 0, 0, 0, 0, 0, 0, 0, 0, 0, 0, 0, 0, 0, 0, 0, 0, 0, 0, 0, 0, 0, 0, 0, 0, 0, 0, 0, 0, 0, 0, 0, 0, 0,
     0, 0, 0, 0, 0, 0, 0, 0, 0, 0, 0, 0, 0, 0, 0, 0, 0, 0, 0, 0, 0, 0, 22, 17, 0, 19, 15, 0, 31, 11, 25, 7, 11, 11,
     11, 11, 11, 25, 31, 11, 11, 11, 11, 11, 11, 11, 11, 11, 11, 11, 11, 11, 11, 11, 11, 11, 11, 11, 7, 11, 11, 11,
     11, 11, 11, 11, 11, 11, 11, 11, 11, 11, 11, 11, 11, 11, 11, 0, 0, 0, 44, 52, 13, 40, 48, 52, 52, 52, 52, 52, 40,
     44, 52, 52, 52, 52, 52, 52, 52, 52, 52, 52, 52, 52, 52, 52, 52, 52, 52, 52, 52, 48, 52, 52, 52, 52, 52, 52, 52,
     52, 52, 52, 52, 52, 52, 52, 52, 52, 52, 52]"

definition uri_eof_actions :: "nat list" where
  "uri_eof_actions = uri_eof_actions1 @ uri_eof_actions2"

end
