(* ===== verification/Uri.thy ===== *)
theory Uri
  imports Address
begin

text \<open>
  Uri (exhy/exhy_uri.h, exhy_uri.cpp) behind the generated parser: the members with their accessors, the
  default ports, the text, and the address of the host.
\<close>

record uri =
  u_scheme :: string
  u_userinfo :: string
  u_host :: string
  u_path :: string
  u_query :: string
  u_fragment :: string
  u_port :: int

definition new_Uri :: uri where
  "new_Uri = \<lparr>u_scheme = [], u_userinfo = [], u_host = [], u_path = [], u_query = [], u_fragment = [], u_port = 0\<rparr>"

definition isDefaultPort :: "uri \<Rightarrow> bool" where
  "isDefaultPort u =
     (if u_port u = 0 then True
      else if u_scheme u = ''http'' \<or> u_scheme u = ''ws'' then u_port u = 80
      else if u_scheme u = ''https'' \<or> u_scheme u = ''wss'' then u_port u = 443
      else False)"

definition uri_getPath :: "uri \<Rightarrow> string" where
  "uri_getPath u = (if u_path u = [] then ''/'' else u_path u)"

definition uri_getPort :: "uri \<Rightarrow> int" where
  "uri_getPort u =
     (if u_port u \<noteq> 0 then u_port u
      else if u_scheme u = ''http'' \<or> u_scheme u = ''ws'' then 80
      else if u_scheme u = ''https'' \<or> u_scheme u = ''wss'' then 443
      else u_port u)"

text \<open>\<open>std::to_string\<close> of an int.\<close>

definition int_text :: "int \<Rightarrow> string" where
  "int_text n = (if n < 0 then CHR ''-'' # dec (nat (- n)) else dec (nat n))"

text \<open>What \<open>dump\<close> writes to the stream it is given; the lines it also prints to std::cout are left out.\<close>

definition uri_toString :: "uri \<Rightarrow> string" where
  "uri_toString u =
     u_scheme u @ ''://'' @ u_userinfo u @ (if u_userinfo u = [] then [] else ''@'') @ u_host u @
     (if isDefaultPort u then [] else '':'' @ int_text (u_port u)) @ uri_getPath u @
     (if u_query u = [] then [] else ''?'') @ u_query u @ (if u_fragment u = [] then [] else ''#'') @ u_fragment u"

text \<open>\<open>lookup\<close> is Address::LookupAnyIPAddress and \<open>set_port\<close> the virtual setPort of its result.\<close>

definition uri_createAddress :: "(string \<Rightarrow> 'a option) \<Rightarrow> (int \<Rightarrow> 'a \<Rightarrow> 'a) \<Rightarrow> uri \<Rightarrow> 'a option" where
  "uri_createAddress lookup set_port u = map_option (set_port (uri_getPort u)) (lookup (u_host u))"

text \<open>The port that is left out of the text is the one getPort fills in: the text does not change the peer.\<close>

lemma isDefaultPort_getPort:
  "isDefaultPort u \<Longrightarrow> u_port u \<noteq> 0 \<Longrightarrow> uri_getPort u = uri_getPort (u\<lparr>u_port := 0\<rparr>)"
  by (auto simp: isDefaultPort_def uri_getPort_def split: if_splits)

end
