(* ===== verification/UriParser.thy ===== *)
theory UriParser
  imports UriTables Uri ResponseMachine
begin

text \<open>
  Uri::Create (exhy/exhy_uri.cpp): the machine Ragel generated as tables, the two binary searches in the keys of a
  state, the actions, and the result. A position of the text is its index, a pointer into a table an index of the
  table; reading outside of a table is a fault, as is using the mark when it is NULL.
\<close>

section \<open>The searches\<close>

definition elem_at :: "'a list \<Rightarrow> int \<Rightarrow> 'a res" where
  "elem_at xs i = (if 0 \<le> i \<and> i < int (length xs) then Inr (xs ! nat i) else Inl OutOfBounds)"

text \<open>The search for a single key: its position, or nothing.\<close>

function key_search :: "int list \<Rightarrow> int \<Rightarrow> int \<Rightarrow> int \<Rightarrow> int option res" where
  "key_search keys c lo up =
     (if up < lo then Inr None
      else let mid = lo + (up - lo) div 2
        in sbind (elem_at keys mid) (\<lambda>k.
             if c < k then key_search keys c lo (mid - 1)
             else if k < c then key_search keys c (mid + 1) up
             else Inr (Some mid)))"
  by pat_completeness auto
termination by (relation "measure (\<lambda>(_, _, lo, up). nat (up - lo + 1))") auto

declare key_search.simps [simp del]

text \<open>The search for a range, which is two keys; \<open>((upper - lower) >> 1) & ~1\<close> is even.\<close>

function range_search :: "int list \<Rightarrow> int \<Rightarrow> int \<Rightarrow> int \<Rightarrow> int option res" where
  "range_search keys c lo up =
     (if up < lo then Inr None
      else let mid = lo + (up - lo) div 2 div 2 * 2
        in sbind (elem_at keys mid) (\<lambda>k0. sbind (elem_at keys (mid + 1)) (\<lambda>k1.
             if c < k0 then range_search keys c lo (mid - 2)
             else if k1 < c then range_search keys c (mid + 2) up
             else Inr (Some mid))))"
  by pat_completeness auto
termination by (relation "measure (\<lambda>(_, _, lo, up). nat (up - lo + 1))") (auto simp: Let_def)

declare range_search.simps [simp del]

text \<open>The transition of the state \<open>cs\<close> for the character \<open>c\<close>, up to the label \<open>_match\<close>.\<close>

definition uri_single :: "int \<Rightarrow> int \<Rightarrow> int \<Rightarrow> int \<Rightarrow> int option res" where
  "uri_single c keys tr klen =
     (if 0 < klen then
        sbind (key_search uri_trans_keys c keys (keys + klen - 1)) (\<lambda>r. Inr (map_option (\<lambda>mid. tr + (mid - keys)) r))
      else Inr None)"

definition uri_range :: "int \<Rightarrow> int \<Rightarrow> int \<Rightarrow> int \<Rightarrow> int res" where
  "uri_range c keys tr klen =
     (if 0 < klen then
        sbind (range_search uri_trans_keys c keys (keys + 2 * klen - 2)) (\<lambda>r.
          Inr (case r of Some mid \<Rightarrow> tr + (mid - keys) div 2 | None \<Rightarrow> tr + klen))
      else Inr tr)"

definition uri_match :: "nat \<Rightarrow> int \<Rightarrow> int res" where
  "uri_match cs c =
     sbind (elem_at uri_key_offsets (int cs)) (\<lambda>ko.
     sbind (elem_at uri_index_offsets (int cs)) (\<lambda>io.
     sbind (elem_at uri_single_lengths (int cs)) (\<lambda>sl.
     sbind (uri_single c (int ko) (int io) (int sl)) (\<lambda>r.
       case r of
         Some t \<Rightarrow> Inr t
       | None \<Rightarrow>
           sbind (elem_at uri_range_lengths (int cs)) (\<lambda>rl. uri_range c (int ko + int sl) (int io + int sl) (int rl))))))"

text \<open>The actions that are listed at an offset; offset 0 stands for none.\<close>

definition uri_acts :: "nat \<Rightarrow> nat list res" where
  "uri_acts k =
     sbind (elem_at uri_actions (int k)) (\<lambda>n.
       if length uri_actions < k + 1 + n then Inl OutOfBounds else Inr (take n (drop (k + 1) uri_actions)))"

text \<open>The next state and the actions.\<close>

definition uri_step :: "nat \<Rightarrow> int \<Rightarrow> (nat \<times> nat list) res" where
  "uri_step cs c =
     sbind (uri_match cs c) (\<lambda>i.
     sbind (elem_at uri_indicies i) (\<lambda>t.
     sbind (elem_at uri_trans_targs (int t)) (\<lambda>cs'.
     sbind (elem_at uri_trans_actions (int t)) (\<lambda>a.
       if a = 0 then Inr (cs', []) else sbind (uri_acts a) (\<lambda>as. Inr (cs', as))))))"

section \<open>Actions\<close>

text \<open>\<open>std::string(mark, p - mark)\<close>.\<close>

definition marked :: "string \<Rightarrow> nat option \<Rightarrow> nat \<Rightarrow> string res" where
  "marked s mark p = (case mark of None \<Rightarrow> Inl NullDeref | Some m \<Rightarrow> Inr (take (p - m) (drop m s)))"

type_synonym uri_state = "nat option \<times> uri"

definition uri_act :: "string \<Rightarrow> nat \<Rightarrow> nat \<Rightarrow> uri_state \<Rightarrow> uri_state res" where
  "uri_act s p a st =
     (case st of (mark, u) \<Rightarrow>
        if a = 0 \<or> a = 1 then Inr (Some p, u)
        else if a = 2 then sbind (marked s mark p) (\<lambda>x. Inr (None, u\<lparr>u_scheme := x\<rparr>))
        else if a = 3 then
          (if mark = Some p then Inr (None, u)
           else case mark of None \<Rightarrow> Inl NullDeref | Some m \<Rightarrow> Inr (None, u\<lparr>u_port := atoi (drop m s)\<rparr>))
        else if a = 4 then (case mark of None \<Rightarrow> Inr (None, u) | Some m \<Rightarrow> Inr (None, u\<lparr>u_userinfo := take (p - m) (drop m s)\<rparr>))
        else if a = 5 then (case mark of None \<Rightarrow> Inr (None, u) | Some m \<Rightarrow> Inr (Some m, u\<lparr>u_host := take (p - m) (drop m s)\<rparr>))
        else if a = 6 then sbind (marked s mark p) (\<lambda>x. Inr (None, u\<lparr>u_path := x\<rparr>))
        else if a = 7 then sbind (marked s mark p) (\<lambda>x. Inr (None, u\<lparr>u_query := x\<rparr>))
        else if a = 8 then sbind (marked s mark p) (\<lambda>x. Inr (None, u\<lparr>u_fragment := x\<rparr>))
        else Inr st)"

primrec uri_run_acts :: "string \<Rightarrow> nat \<Rightarrow> nat list \<Rightarrow> uri_state \<Rightarrow> uri_state res" where
  "uri_run_acts s p [] st = Inr st"
| "uri_run_acts s p (a # as) st = sbind (uri_act s p a st) (uri_run_acts s p as)"

text \<open>
  The switch of a transition has no case for action 8 and the one at the end has none for 2 and 4; an action without a
  case does nothing.
\<close>

definition trans_acts :: "nat list \<Rightarrow> nat list" where
  "trans_acts as = filter (\<lambda>a. a \<le> 7) as"

definition eof_acts :: "nat list \<Rightarrow> nat list" where
  "eof_acts as = filter (\<lambda>a. a \<noteq> 2 \<and> a \<noteq> 4 \<and> a \<le> 8) as"

section \<open>Create\<close>

text \<open>From the character at \<open>p\<close> on; \<open>Inl\<close> of the result is the label \<open>_out\<close>, \<open>Inr\<close> the end of the text.\<close>

primrec uri_run :: "string \<Rightarrow> nat \<Rightarrow> string \<Rightarrow> nat \<Rightarrow> uri_state \<Rightarrow> (uri_state + nat \<times> uri_state) res" where
  "uri_run s p [] cs st = Inr (Inr (cs, st))"
| "uri_run s p (c # rest) cs st =
     sbind (uri_step cs (sc c)) (\<lambda>(cs', as).
       sbind (uri_run_acts s p (trans_acts as) st) (\<lambda>st'.
         if cs' = 0 then Inr (Inl st') else uri_run s (Suc p) rest cs' st'))"

definition uri_Create :: "string \<Rightarrow> uri option res" where
  "uri_Create s =
     sbind (uri_run s 0 s 451 (None, new_Uri)) (\<lambda>r.
       case r of
         Inl _ \<Rightarrow> Inr None
       | Inr (cs, st) \<Rightarrow>
           sbind (elem_at uri_eof_actions (int cs)) (\<lambda>k.
           sbind (uri_acts k) (\<lambda>as.
           sbind (uri_run_acts s (length s) (eof_acts as) st) (\<lambda>(_, u).
             if cs = 0 then Inr None else if 451 \<le> cs then Inr (Some u) else Inr None))))"

end
