(* ===== verification/HttpClient.thy ===== *)
theory HttpClient
  imports HttpSession ResponseParser ZlibStream UriParser
begin

text \<open>
  HttpConnection (exhy/http/http_connection.cpp): receiving a response with its body, by length or in chunks,
  sending a request, and the static functions that build a request and carry it out. As in the
  session, streams carry bytes, buffers are characters, and a loop that does not return gives \<open>None\<close>.
\<close>

section \<open>Reading the head\<close>

partial_function (option) rsp_recv_head ::
  "('k \<Rightarrow> bool) \<Rightarrow> ('k \<Rightarrow> nat \<Rightarrow> int \<times> byte list \<times> 'k) \<Rightarrow> ('k \<Rightarrow> 'k) \<Rightarrow> nat \<Rightarrow> response_parser \<Rightarrow> string \<Rightarrow> 'k sstream \<Rightarrow>
     ((response_parser \<times> string) option \<times> 'k sstream) res option" where
  "rsp_recv_head conn recv cl buff_size q data s =
     (case stream_read conn recv s (buff_size - length data) of
        Inl e \<Rightarrow> Some (Inl e)
      | Inr (len, bs, s1) \<Rightarrow>
          if len \<le> 0 then Some (Inr (None, stream_close cl s1))
          else (case rsp_execute q (data @ chars_of bs) False of
                  Inl e \<Rightarrow> Some (Inl e)
                | Inr (nparse, rest, q1) \<Rightarrow>
                    if rsp_hasError q1 then Some (Inr (None, stream_close cl s1))
                    else if int (length rest) = to_int (int buff_size) then Some (Inr (None, stream_close cl s1))
                    else if rsp_isFinished q1 \<noteq> 0 then Some (Inr (Some (q1, rest), s1))
                    else rsp_recv_head conn recv cl buff_size q1 rest s1))"

section \<open>Chunks\<close>

text \<open>
  The inner loop: a chunk header from what is in the buffer, or after a read. Every call of execute starts
  the machine again.
\<close>

partial_function (option) chunk_head ::
  "('k \<Rightarrow> bool) \<Rightarrow> ('k \<Rightarrow> nat \<Rightarrow> int \<times> byte list \<times> 'k) \<Rightarrow> ('k \<Rightarrow> 'k) \<Rightarrow> nat \<Rightarrow> bool \<Rightarrow> response_parser \<Rightarrow> string \<Rightarrow> 'k sstream \<Rightarrow>
     ((response_parser \<times> string) option \<times> 'k sstream) res option" where
  "chunk_head conn recv cl buff_size begin' q data s =
     (case (if \<not> begin' \<or> data = [] then stream_read conn recv s (buff_size - length data) else Inr (1, [], s)) of
        Inl e \<Rightarrow> Some (Inl e)
      | Inr (rt, bs, s1) \<Rightarrow>
          if rt \<le> 0 then Some (Inr (None, stream_close cl s1))
          else (case rsp_execute q (data @ chars_of bs) True of
                  Inl e \<Rightarrow> Some (Inl e)
                | Inr (nparse, rest, q1) \<Rightarrow>
                    if rsp_hasError q1 then Some (Inr (None, stream_close cl s1))
                    else if int (length rest) = to_int (int buff_size) then Some (Inr (None, stream_close cl s1))
                    else if rsp_isFinished q1 \<noteq> 0 then Some (Inr (Some (q1, rest), s1))
                    else chunk_head conn recv cl buff_size False q1 rest s1))"

text \<open>The loop that reads what is missing of a chunk and its line end.\<close>

partial_function (option) read_rest ::
  "('k \<Rightarrow> bool) \<Rightarrow> ('k \<Rightarrow> nat \<Rightarrow> int \<times> byte list \<times> 'k) \<Rightarrow> ('k \<Rightarrow> 'k) \<Rightarrow> nat \<Rightarrow> int \<Rightarrow> string \<Rightarrow> 'k sstream \<Rightarrow>
     (string option \<times> 'k sstream) res option" where
  "read_rest conn recv cl buff_size left body s =
     (if left \<le> 0 then Some (Inr (Some body, s))
      else let n = (if to_int (int buff_size) < left then to_int (int buff_size) else left)
        in case stream_read conn recv s (nat (n mod 2 ^ 64)) of
             Inl e \<Rightarrow> Some (Inl e)
           | Inr (rt, bs, s1) \<Rightarrow>
               if rt \<le> 0 then Some (Inr (None, stream_close cl s1))
               else read_rest conn recv cl buff_size (left - rt) (body @ chars_of bs) s1)"

text \<open>
  The body of a chunk of \<open>n\<close> characters. \<open>append\<close> converts a negative length to size\_t and throws, and so does
  \<open>resize\<close> below 0.
\<close>

definition chunk_body ::
  "('k \<Rightarrow> bool) \<Rightarrow> ('k \<Rightarrow> nat \<Rightarrow> int \<times> byte list \<times> 'k) \<Rightarrow> ('k \<Rightarrow> 'k) \<Rightarrow> nat \<Rightarrow> int \<Rightarrow> string \<Rightarrow> string \<Rightarrow> 'k sstream \<Rightarrow>
     ((string \<times> string) option \<times> 'k sstream) res option" where
  "chunk_body conn recv cl buff_size n data body s =
     (let len = int (length data)
      in if 2 ^ 31 \<le> n + 2 then Some (Inl SignedOverflow)
         else if n + 2 \<le> len then
           (if n < 0 then Some (Inl LengthError)
            else Some (Inr (Some (drop (nat (n + 2)) data, body @ take (nat n) data), s)))
         else (case read_rest conn recv cl buff_size (n - len + 2) (body @ data) s of
                 None \<Rightarrow> None
               | Some (Inl e) \<Rightarrow> Some (Inl e)
               | Some (Inr (None, s1)) \<Rightarrow> Some (Inr (None, s1))
               | Some (Inr (Some b, s1)) \<Rightarrow>
                   if length b < 2 then Some (Inl LengthError)
                   else Some (Inr (Some ([], take (length b - 2) b), s1))))"

partial_function (option) recv_chunks ::
  "('k \<Rightarrow> bool) \<Rightarrow> ('k \<Rightarrow> nat \<Rightarrow> int \<times> byte list \<times> 'k) \<Rightarrow> ('k \<Rightarrow> 'k) \<Rightarrow> nat \<Rightarrow> response_parser \<Rightarrow> string \<Rightarrow> string \<Rightarrow> 'k sstream \<Rightarrow>
     ((response_parser \<times> string) option \<times> 'k sstream) res option" where
  "recv_chunks conn recv cl buff_size q data body s =
     (case chunk_head conn recv cl buff_size True q data s of
        None \<Rightarrow> None
      | Some (Inl e) \<Rightarrow> Some (Inl e)
      | Some (Inr (None, s1)) \<Rightarrow> Some (Inr (None, s1))
      | Some (Inr (Some (q1, data1), s1)) \<Rightarrow>
          (case chunk_body conn recv cl buff_size (cp_content_len (sp_parser q1)) data1 body s1 of
             None \<Rightarrow> None
           | Some (Inl e) \<Rightarrow> Some (Inl e)
           | Some (Inr (None, s2)) \<Rightarrow> Some (Inr (None, s2))
           | Some (Inr (Some (data2, body2), s2)) \<Rightarrow>
               if cp_chunks_done (sp_parser q1) then Some (Inr (Some (q1, body2), s2))
               else recv_chunks conn recv cl buff_size q1 data2 body2 s2))"

section \<open>Content encodings\<close>

text \<open>The functions of zlib.\<close>

record 'z zlib =
  zl_deflateInit2 :: "int \<Rightarrow> int \<Rightarrow> int \<Rightarrow> int \<Rightarrow> int \<times> 'z"
  zl_inflateInit2 :: "int \<Rightarrow> int \<times> 'z"
  zl_deflate :: "'z flate"
  zl_inflate :: "'z flate"

definition inflate_body :: "'z zlib \<Rightarrow> 'z zlib_stream option res \<Rightarrow> string \<Rightarrow> string res option" where
  "inflate_body zl created body =
     (case created of
        Inl e \<Rightarrow> Some (Inl e)
      | Inr None \<Rightarrow> Some (Inl NullDeref)
      | Inr (Some z) \<Rightarrow>
          (case zs_write_buf (zl_deflate zl) (zl_inflate zl) z (bytes_of body) of
             None \<Rightarrow> None
           | Some (_, z1) \<Rightarrow>
               (case zs_flush (zl_deflate zl) (zl_inflate zl) z1 of
                  None \<Rightarrow> None
                | Some (_, z2) \<Rightarrow> Some (Inr (chars_of (getResult z2))))))"

definition decode_body :: "'z zlib \<Rightarrow> string \<Rightarrow> string \<Rightarrow> string res option" where
  "decode_body zl encoding body =
     (if strcasecmp encoding ''gzip'' = 0 then
        inflate_body zl (zs_CreateGzip (zl_deflateInit2 zl) (zl_inflateInit2 zl) False 4096) body
      else if strcasecmp encoding ''deflate'' = 0 then
        inflate_body zl (zs_CreateDeflate (zl_deflateInit2 zl) (zl_inflateInit2 zl) False 4096) body
      else Some (Inr body))"

section \<open>recvResponse and sendRequest\<close>

text \<open>The body by its length; the length is an int64\_t here.\<close>

definition recv_length_body ::
  "('k \<Rightarrow> bool) \<Rightarrow> ('k \<Rightarrow> nat \<Rightarrow> int \<times> byte list \<times> 'k) \<Rightarrow> ('k \<Rightarrow> 'k) \<Rightarrow> (string \<Rightarrow> u64 option) \<Rightarrow> response_parser \<Rightarrow> string \<Rightarrow>
     'k sstream \<Rightarrow> (string option \<times> 'k sstream) res" where
  "recv_length_body conn recv cl cast q data s =
     (let len = sint (rsp_getContentLength cast q)
      in if 0 < len then recv_body conn recv cl len data s else Inr (Some [], s))"

definition recvResponse ::
  "('k \<Rightarrow> bool) \<Rightarrow> ('k \<Rightarrow> nat \<Rightarrow> int \<times> byte list \<times> 'k) \<Rightarrow> ('k \<Rightarrow> 'k) \<Rightarrow> (string \<Rightarrow> u64 option) \<Rightarrow> 'z zlib \<Rightarrow> nat \<Rightarrow>
     httpclient_parser \<Rightarrow> 'k sstream \<Rightarrow> (http_response option \<times> 'k sstream) res option" where
  "recvResponse conn recv cl cast zl buff_size h s =
     (case rsp_recv_head conn recv cl buff_size (new_HttpResponseParser h) [] s of
        None \<Rightarrow> None
      | Some (Inl e) \<Rightarrow> Some (Inl e)
      | Some (Inr (None, s1)) \<Rightarrow> Some (Inr (None, s1))
      | Some (Inr (Some (q, data), s1)) \<Rightarrow>
          (case (if cp_chunked (sp_parser q) then
                   recv_chunks conn recv cl buff_size q data [] s1
                 else Some (sbind (recv_length_body conn recv cl cast q data s1) (\<lambda>(b, s2). Inr (map_option (Pair q) b, s2)))) of
             None \<Rightarrow> None
           | Some (Inl e) \<Rightarrow> Some (Inl e)
           | Some (Inr (None, s2)) \<Rightarrow> Some (Inr (None, s2))
           | Some (Inr (Some (q2, body), s2)) \<Rightarrow>
               let rsp = sp_data q2
               in if body = [] then Some (Inr (Some rsp, s2))
                  else (case decode_body zl (rs_getHeader rsp ''content-encoding'' []) body of
                          None \<Rightarrow> None
                        | Some (Inl e) \<Rightarrow> Some (Inl e)
                        | Some (Inr b) \<Rightarrow> Some (Inr (Some (rsp\<lparr>rs_body := b\<rparr>), s2)))))"

definition sendRequest ::
  "('k \<Rightarrow> bool) \<Rightarrow> ('k \<Rightarrow> byte list \<Rightarrow> int \<times> 'k) \<Rightarrow> http_request \<Rightarrow> 'k sstream \<Rightarrow> (int \<times> 'k sstream) res" where
  "sendRequest conn send req s =
     sbind (writeFixSize_buf (stream_write conn send) s (bytes_of (dump_request req))) (\<lambda>(rt, s1, _). Inr (rt, s1))"

section \<open>Requests of a client\<close>

datatype result_error =
    OK | INVALID_URL | INVALID_HOST | CONNECT_FAIL | SEND_CLOSE_BY_PEER | SEND_SOCKET_ERROR | TIMEOUT
  | CREATE_SOCKET_ERROR | POOL_GET_CONNECTION | POOL_INVALID_CONNECTION

record http_result =
  hr_result :: result_error
  hr_response :: "http_response option"
  hr_error :: string

text \<open>The loop over the headers, in the order of std::map.\<close>

definition fill_header :: "string \<times> string \<Rightarrow> http_request \<times> bool \<Rightarrow> http_request \<times> bool" where
  "fill_header i x =
     (let (req, has_host) = x
      in if strcasecmp (fst i) ''connection'' = 0 then
           (if strcasecmp (snd i) ''keep-alive'' = 0 then req\<lparr>rq_close := False\<rparr> else req, has_host)
         else (setHeader (fst i) (snd i) req,
               if \<not> has_host \<and> strcasecmp (fst i) ''host'' = 0 then snd i \<noteq> [] else has_host))"

text \<open>The common part of the two functions that build a request: the headers, Host unless there is one, the body.\<close>

definition fill_request :: "(string \<times> string) list \<Rightarrow> string \<Rightarrow> string \<Rightarrow> http_request \<Rightarrow> http_request" where
  "fill_request headers host body req =
     (let (req1, has_host) = fold fill_header headers (req, False)
      in (if \<not> has_host then setHeader ''Host'' host req1 else req1)\<lparr>rq_body := body\<rparr>)"

definition client_request :: "HttpMethod \<Rightarrow> uri \<Rightarrow> (string \<times> string) list \<Rightarrow> string \<Rightarrow> http_request" where
  "client_request m u headers body =
     fill_request headers (u_host u) body
       ((new_HttpRequest 0x11 True)\<lparr>rq_path := uri_getPath u, rq_query := u_query u, rq_fragment := u_fragment u, rq_method := m\<rparr>)"

text \<open>
  What the client uses of sockets and addresses: Uri::createAddress, Socket::CreateTCP and its methods, the text of an
  address, and errno with its text after a call.
\<close>

record ('k, 'a) net =
  nt_createAddress :: "uri \<Rightarrow> 'a option"
  nt_CreateTCP :: "'a \<Rightarrow> 'k option"
  nt_connect :: "'k \<Rightarrow> 'a \<Rightarrow> bool \<times> 'k"
  nt_setRecvTimeout :: "int \<Rightarrow> 'k \<Rightarrow> 'k"
  nt_conn :: "'k \<Rightarrow> bool"
  nt_recv :: "'k \<Rightarrow> nat \<Rightarrow> int \<times> byte list \<times> 'k"
  nt_send :: "'k \<Rightarrow> byte list \<Rightarrow> int \<times> 'k"
  nt_close :: "'k \<Rightarrow> 'k"
  nt_remote :: "'k \<Rightarrow> string"
  nt_toString :: "'a \<Rightarrow> string"
  nt_errno :: "int \<times> string"

definition errno_text :: "int \<times> string \<Rightarrow> string" where
  "errno_text e = ''errno='' @ int_text (fst e) @ '' errstr='' @ snd e"

definition failed :: "result_error \<Rightarrow> string \<Rightarrow> http_result" where
  "failed e msg = \<lparr>hr_result = e, hr_response = None, hr_error = msg\<rparr>"

text \<open>
  Send the request, receive the response; \<open>peer\<close> is the text of the peer's address. The part that DoRequest and
  the doRequest of the pool share.
\<close>

definition exchange ::
  "('k, 'a) net \<Rightarrow> (string \<Rightarrow> u64 option) \<Rightarrow> 'z zlib \<Rightarrow> nat \<Rightarrow> httpclient_parser \<Rightarrow> http_request \<Rightarrow> u64 \<Rightarrow> string \<Rightarrow> 'k sstream \<Rightarrow>
     (http_result \<times> 'k sstream) res option" where
  "exchange net cast zl buff_size h req timeout_ms peer s =
     (case sendRequest (nt_conn net) (nt_send net) req s of
        Inl e \<Rightarrow> Some (Inl e)
      | Inr (rt, s1) \<Rightarrow>
          if rt = 0 then Some (Inr (failed SEND_CLOSE_BY_PEER (''send request closed by peer: '' @ peer), s1))
          else if rt < 0 then
            Some (Inr (failed SEND_SOCKET_ERROR (''send request socket error '' @ errno_text (nt_errno net)), s1))
          else (case recvResponse (nt_conn net) (nt_recv net) (nt_close net) cast zl buff_size h s1 of
                  None \<Rightarrow> None
                | Some (Inl e) \<Rightarrow> Some (Inl e)
                | Some (Inr (None, s2)) \<Rightarrow>
                    Some (Inr (failed TIMEOUT (''recv response timeout: '' @ peer @ '' timeout_ms:'' @ dec (unat timeout_ms)), s2))
                | Some (Inr (Some rsp, s2)) \<Rightarrow> Some (Inr (\<lparr>hr_result = OK, hr_response = Some rsp, hr_error = ''ok''\<rparr>, s2))))"

text \<open>
  \<open>DoRequest\<close> with a request. The result comes with the socket after the destructors of the connection and the
  socket, if one was made.
\<close>

definition DoRequest_req ::
  "('k, 'a) net \<Rightarrow> (string \<Rightarrow> u64 option) \<Rightarrow> 'z zlib \<Rightarrow> nat \<Rightarrow> httpclient_parser \<Rightarrow> http_request \<Rightarrow> uri \<Rightarrow> u64 \<Rightarrow>
     (http_result \<times> 'k option) res option" where
  "DoRequest_req net cast zl buff_size h req u timeout_ms =
     (case nt_createAddress net u of
        None \<Rightarrow> Some (Inr (failed INVALID_HOST (''invalid host: '' @ u_host u), None))
      | Some addr \<Rightarrow>
          (case nt_CreateTCP net addr of
             None \<Rightarrow> Some (Inr (failed CREATE_SOCKET_ERROR
               (''create socket fail: '' @ nt_toString net addr @ '' '' @ errno_text (nt_errno net)), None))
           | Some sock \<Rightarrow>
               let (ok, sock1) = nt_connect net sock addr
               in if \<not> ok then
                    Some (Inr (failed CONNECT_FAIL (''connect fail: '' @ nt_toString net addr), Some (nt_close net sock1)))
                  else map_option
                    (\<lambda>r. sbind r (\<lambda>(res, s). Inr (res, map_option (nt_close net) (m_socket (delete_SocketStream (nt_close net) s)))))
                    (exchange net cast zl buff_size h req timeout_ms (nt_toString net addr)
                       \<lparr>m_socket = Some (nt_setRecvTimeout net (sint timeout_ms) sock1), m_owner = True\<rparr>)))"

definition DoRequest_uri where
  "DoRequest_uri net cast zl buff_size h m u timeout_ms headers body =
     DoRequest_req net cast zl buff_size h (client_request m u headers body) u timeout_ms"

text \<open>From the text of a URI on, which has to be one.\<close>

definition DoRequest ::
  "('k, 'a) net \<Rightarrow> (string \<Rightarrow> u64 option) \<Rightarrow> 'z zlib \<Rightarrow> nat \<Rightarrow> httpclient_parser \<Rightarrow> HttpMethod \<Rightarrow> string \<Rightarrow>
     u64 \<Rightarrow> (string \<times> string) list \<Rightarrow> string \<Rightarrow> (http_result \<times> 'k option) res option" where
  "DoRequest net cast zl buff_size h m url timeout_ms headers body =
     (case uri_Create url of
        Inl e \<Rightarrow> Some (Inl e)
      | Inr None \<Rightarrow> Some (Inr (failed INVALID_URL (''invalid url: '' @ url), None))
      | Inr (Some u) \<Rightarrow> DoRequest_uri net cast zl buff_size h m u timeout_ms headers body)"

definition DoGet where
  "DoGet net cast zl buff_size h url timeout_ms headers body =
     DoRequest net cast zl buff_size h GET url timeout_ms headers body"

definition DoPost where
  "DoPost net cast zl buff_size h url timeout_ms headers body =
     DoRequest net cast zl buff_size h POST url timeout_ms headers body"

end
