(* ===== verification/HttpPool.thy ===== *)
theory HttpPool
  imports HttpClient
begin

text \<open>
  HttpConnectionPool (exhy/http/http_connection.cpp). A pooled connection is owned by the pool, a lent one by
  the caller of getConnection until its deleter, ReleasePtr, takes it back or deletes it. A critical section
  is one step, and the counter is atomic.
\<close>

section \<open>The pool\<close>

record 'k http_connection =
  hc_stream :: "'k sstream"
  hc_createTime :: u64
  hc_request :: u64

record 'k http_pool =
  pl_host :: string
  pl_vhost :: string
  pl_port :: u32
  pl_maxSize :: u32
  pl_maxAliveTime :: u32
  pl_maxRequest :: u32
  pl_isHttps :: bool
  pl_conns :: "'k http_connection list"
  pl_total :: u32

definition new_HttpConnectionPool :: "string \<Rightarrow> string \<Rightarrow> u32 \<Rightarrow> bool \<Rightarrow> u32 \<Rightarrow> u32 \<Rightarrow> u32 \<Rightarrow> 'k http_pool" where
  "new_HttpConnectionPool host vhost port is_https max_size max_alive_time max_request =
     \<lparr>pl_host = host, pl_vhost = vhost, pl_port = (if port \<noteq> 0 then port else if is_https then 443 else 80),
      pl_maxSize = max_size, pl_maxAliveTime = max_alive_time, pl_maxRequest = max_request, pl_isHttps = is_https,
      pl_conns = [], pl_total = 0\<rparr>"

text \<open>A text that is no URI is logged and then used.\<close>

definition pool_Create :: "string \<Rightarrow> string \<Rightarrow> u32 \<Rightarrow> u32 \<Rightarrow> u32 \<Rightarrow> 'k http_pool res" where
  "pool_Create url vhost max_size max_alive_time max_request =
     sbind (uri_Create url) (\<lambda>r.
       case r of
         None \<Rightarrow> Inl NullDeref
       | Some u \<Rightarrow> Inr (new_HttpConnectionPool (u_host u) vhost (word_of_int (uri_getPort u)) (u_scheme u = ''https'')
                         max_size max_alive_time max_request))"

text \<open>The connections taken from the front: the ones thrown out, the one found, and the ones that stay.\<close>

fun take_connection ::
  "('k \<Rightarrow> bool) \<Rightarrow> u32 \<Rightarrow> u64 \<Rightarrow> 'k http_connection list \<Rightarrow>
     'k http_connection list \<times> 'k http_connection option \<times> 'k http_connection list" where
  "take_connection conn max_alive now [] = ([], None, [])"
| "take_connection conn max_alive now (c # cs) =
     (if \<not> isConnected conn (hc_stream c) \<or> now < hc_createTime c + ucast max_alive then
        (let (invalid, found, rest) = take_connection conn max_alive now cs in (c # invalid, found, rest))
      else ([], Some c, cs))"

text \<open>
  \<open>dial\<close> looks up the host, creates a socket and connects it to the port; \<open>None\<close> when one of the three fails.
  The result: the connections that were deleted, the connection, and the pool.
\<close>

definition getConnection ::
  "('k \<Rightarrow> bool) \<Rightarrow> (string \<Rightarrow> u32 \<Rightarrow> 'k option) \<Rightarrow> u64 \<Rightarrow> 'k http_pool \<Rightarrow>
     'k http_connection list \<times> 'k http_connection option \<times> 'k http_pool" where
  "getConnection conn dial now p =
     (let (invalid, found, rest) = take_connection conn (pl_maxAliveTime p) now (pl_conns p);
          p1 = p\<lparr>pl_conns := rest, pl_total := pl_total p - of_nat (length invalid)\<rparr>
      in case found of
           Some c \<Rightarrow> (invalid, Some c, p1)
         | None \<Rightarrow>
             (case dial (pl_host p1) (pl_port p1) of
                None \<Rightarrow> (invalid, None, p1)
              | Some k \<Rightarrow>
                  (invalid, Some \<lparr>hc_stream = \<lparr>m_socket = Some k, m_owner = True\<rparr>, hc_createTime = 0, hc_request = 0\<rparr>,
                   p1\<lparr>pl_total := pl_total p1 + 1\<rparr>)))"

text \<open>The connection that is deleted, if it is, and the pool.\<close>

definition ReleasePtr :: "('k \<Rightarrow> bool) \<Rightarrow> u64 \<Rightarrow> 'k http_connection \<Rightarrow> 'k http_pool \<Rightarrow> 'k http_connection option \<times> 'k http_pool" where
  "ReleasePtr conn now c p =
     (let c1 = c\<lparr>hc_request := hc_request c + 1\<rparr>
      in if \<not> isConnected conn (hc_stream c1) \<or> now \<le> hc_createTime c1 + ucast (pl_maxAliveTime p) \<or>
            ucast (pl_maxRequest p) \<le> hc_request c1
         then (Some c1, p\<lparr>pl_total := pl_total p - 1\<rparr>)
         else (None, p\<lparr>pl_conns := pl_conns p @ [c1]\<rparr>))"

section \<open>Requests through the pool\<close>

definition pool_request :: "'k http_pool \<Rightarrow> HttpMethod \<Rightarrow> string \<Rightarrow> (string \<times> string) list \<Rightarrow> string \<Rightarrow> http_request" where
  "pool_request p m url headers body =
     fill_request headers (if pl_vhost p = [] then pl_host p else pl_vhost p) body
       ((new_HttpRequest 0x11 True)\<lparr>rq_path := url, rq_method := m, rq_close := False\<rparr>)"

text \<open>The text of a URI that doGet, doPost and doRequest put into the path.\<close>

definition uri_target :: "uri \<Rightarrow> string" where
  "uri_target u = uri_getPath u @ (if u_query u = [] then [] else ''?'') @ u_query u @
     (if u_fragment u = [] then [] else ''#'') @ u_fragment u"

text \<open>
  \<open>later\<close> is the time when the connection is released, which is at the end of the call. The result: what
  the caller gets, the connections that were deleted, and the pool.
\<close>

definition pool_doRequest_req ::
  "('k, 'a) net \<Rightarrow> (string \<Rightarrow> u32 \<Rightarrow> 'k option) \<Rightarrow> (string \<Rightarrow> u64 option) \<Rightarrow> 'z zlib \<Rightarrow> nat \<Rightarrow> httpclient_parser \<Rightarrow> u64 \<Rightarrow> u64 \<Rightarrow>
     http_request \<Rightarrow> u64 \<Rightarrow> 'k http_pool \<Rightarrow> (http_result \<times> 'k http_connection list \<times> 'k http_pool) res option" where
  "pool_doRequest_req net dial cast zl buff_size h now later req timeout_ms p =
     (let (deleted, found, p1) = getConnection (nt_conn net) dial now p;
          where_text = ''pool host:'' @ pl_host p @ '' port:'' @ dec (unat (pl_port p))
      in case found of
           None \<Rightarrow> Some (Inr (failed POOL_GET_CONNECTION where_text, deleted, p1))
         | Some c \<Rightarrow>
             (case m_socket (hc_stream c) of
                None \<Rightarrow>
                  (let (gone, p2) = ReleasePtr (nt_conn net) later c p1
                   in Some (Inr (failed POOL_INVALID_CONNECTION where_text, deleted @ (case gone of None \<Rightarrow> [] | Some g \<Rightarrow> [g]), p2)))
              | Some sock \<Rightarrow>
                  map_option
                    (\<lambda>r. sbind r (\<lambda>(res, s).
                       let (gone, p2) = ReleasePtr (nt_conn net) later (c\<lparr>hc_stream := s\<rparr>) p1
                       in Inr (res, deleted @ (case gone of None \<Rightarrow> [] | Some g \<Rightarrow> [g]), p2)))
                    (exchange net cast zl buff_size h req timeout_ms (nt_remote net sock)
                       ((hc_stream c)\<lparr>m_socket := Some (nt_setRecvTimeout net (sint timeout_ms) sock)\<rparr>))))"

definition pool_doRequest where
  "pool_doRequest net dial cast zl buff_size h now later m url timeout_ms headers body p =
     pool_doRequest_req net dial cast zl buff_size h now later (pool_request p m url headers body) timeout_ms p"

definition pool_doRequest_uri where
  "pool_doRequest_uri net dial cast zl buff_size h now later m u timeout_ms headers body p =
     pool_doRequest net dial cast zl buff_size h now later m (uri_target u) timeout_ms headers body p"

definition pool_doGet where
  "pool_doGet net dial cast zl buff_size h now later url timeout_ms headers body p =
     pool_doRequest net dial cast zl buff_size h now later GET url timeout_ms headers body p"

definition pool_doPost where
  "pool_doPost net dial cast zl buff_size h now later url timeout_ms headers body p =
     pool_doRequest net dial cast zl buff_size h now later POST url timeout_ms headers body p"

section \<open>Histories\<close>

text \<open>
  The pool and the connections that are lent. A caller gets a connection, uses its stream in any way, and
  gives it back; other callers come in between.
\<close>

inductive pool_history ::
  "('k \<Rightarrow> bool) \<Rightarrow> 'k http_pool \<Rightarrow> 'k http_pool \<Rightarrow> 'k http_connection list \<Rightarrow> bool" for conn p0 where
  pool_start: "pool_history conn p0 p0 []"
| pool_get: "pool_history conn p0 p lent \<Longrightarrow> getConnection conn dial now p = (deleted, Some c, p') \<Longrightarrow>
    pool_history conn p0 p' (c # lent)"
| pool_get_fails: "pool_history conn p0 p lent \<Longrightarrow> getConnection conn dial now p = (deleted, None, p') \<Longrightarrow>
    pool_history conn p0 p' lent"
| pool_use: "pool_history conn p0 p (xs @ c # ys) \<Longrightarrow> pool_history conn p0 p (xs @ c\<lparr>hc_stream := s\<rparr> # ys)"
| pool_release: "pool_history conn p0 p (xs @ c # ys) \<Longrightarrow> ReleasePtr conn now c p = (gone, p') \<Longrightarrow>
    pool_history conn p0 p' (xs @ ys)"

text \<open>
  The counter is the number of the connections in the pool and lent; every connection in the pool has served
  fewer requests than allowed, was connected when it came back, and has the creation time 0.
\<close>

definition pool_ok :: "'k http_pool \<Rightarrow> 'k http_connection list \<Rightarrow> bool" where
  "pool_ok p lent \<longleftrightarrow> pl_total p = of_nat (length (pl_conns p) + length lent) \<and>
     (\<forall>c \<in> set (pl_conns p). hc_request c < ucast (pl_maxRequest p) \<and> hc_createTime c = 0) \<and>
     (\<forall>c \<in> set lent. hc_createTime c = 0)"

lemma take_connection_split:
  "take_connection conn m now cs = (invalid, found, rest) \<Longrightarrow>
     cs = invalid @ (case found of None \<Rightarrow> [] | Some c \<Rightarrow> [c]) @ rest \<and>
     (found = None \<longrightarrow> rest = []) \<and>
     (\<forall>c \<in> set invalid. \<not> isConnected conn (hc_stream c) \<or> now < hc_createTime c + ucast m) \<and>
     (\<forall>c. found = Some c \<longrightarrow> isConnected conn (hc_stream c) \<and> hc_createTime c + ucast m \<le> now)"
proof (induction cs arbitrary: invalid)
  case (Cons c cs)
  then show ?case by (auto split: if_splits prod.splits)
qed simp

lemma getConnection_ok:
  assumes "pool_ok p lent" "getConnection conn dial now p = (deleted, found, p')"
  shows "pool_ok p' (case found of None \<Rightarrow> lent | Some c \<Rightarrow> c # lent)"
proof -
  obtain invalid got rest where t: "take_connection conn (pl_maxAliveTime p) now (pl_conns p) = (invalid, got, rest)"
    by (metis prod_cases3)
  note sp = take_connection_split [OF t]
  have inv: "pl_total p = of_nat (length (pl_conns p) + length lent)"
    "\<forall>c \<in> set (pl_conns p). hc_request c < ucast (pl_maxRequest p) \<and> hc_createTime c = 0" "\<forall>c \<in> set lent. hc_createTime c = 0"
    using assms(1) by (simp_all add: pool_ok_def)
  show ?thesis
  proof (cases got)
    case (Some c)
    then show ?thesis using assms(2) t sp inv by (auto simp: getConnection_def pool_ok_def)
  next
    case None
    then have "pl_conns p = invalid" "rest = []" using sp by auto
    then show ?thesis using assms(2) t None inv by (auto simp: getConnection_def pool_ok_def Let_def split: option.splits)
  qed
qed

lemma ReleasePtr_ok:
  assumes "pool_ok p (xs @ c # ys)" "ReleasePtr conn now c p = (gone, p')"
  shows "pool_ok p' (xs @ ys)"
  using assms by (auto simp: ReleasePtr_def pool_ok_def Let_def split: if_splits)

lemma pool_invariant_lemma:
  assumes "pool_history conn (new_HttpConnectionPool host vhost port https max_size max_alive max_request) p lent"
  shows "pool_ok p lent"
  using assms
proof (induction p lent rule: pool_history.induct)
  case pool_start
  show ?case by (simp add: pool_ok_def new_HttpConnectionPool_def)
next
  case (pool_get p lent dial now deleted c p')
  then show ?case using getConnection_ok [of p lent conn dial now deleted "Some c" p'] by simp
next
  case (pool_get_fails p lent dial now deleted p')
  then show ?case using getConnection_ok [of p lent conn dial now deleted None p'] by simp
next
  case (pool_use p xs c ys s)
  then show ?case by (simp add: pool_ok_def)
next
  case (pool_release p xs c ys now gone p')
  then show ?case using ReleasePtr_ok by blast
qed

text \<open>
  Claim C25. In every history of a pool its counter is the number of connections in the pool and lent (modulo 2 to the 32), no pooled
  connection has served max_request requests, and all connections have the creation time 0.
\<close>

theorem pool_invariant:
  assumes "pool_history conn (new_HttpConnectionPool host vhost port https max_size max_alive max_request) p lent"
  shows "pool_ok p lent"
  using assms by (rule pool_invariant_lemma)

definition sample_pool :: "bool http_pool" where
  "sample_pool = new_HttpConnectionPool ''h'' [] 0 False 1 60000 2"

lemma sample_pool_get:
  "getConnection id (\<lambda>_ _. Some True) 2 sample_pool =
     ([], Some \<lparr>hc_stream = \<lparr>m_socket = Some True, m_owner = True\<rparr>, hc_createTime = 0, hc_request = 0\<rparr>, sample_pool\<lparr>pl_total := 1\<rparr>)"
  by (simp add: sample_pool_def new_HttpConnectionPool_def getConnection_def)

theorem pool_invariant_witness:
  "pool_ok (sample_pool\<lparr>pl_total := 1\<rparr>) [\<lparr>hc_stream = \<lparr>m_socket = Some True, m_owner = True\<rparr>, hc_createTime = 0, hc_request = 0\<rparr>]"
  using pool_invariant [OF pool_history.pool_get [OF pool_history.pool_start sample_pool_get [unfolded sample_pool_def]]]
  by (simp add: sample_pool_def)

text \<open>
  A pool hands out its first connection that is connected: the ones before it are deleted and the ones behind it
  stay, in their order; a new connection is made only when there is none. The test of the age never deletes a
  connection, since at any time after February 1970 the creation time 0 plus max_alive_time has passed.
\<close>

theorem pool_reuse:
  assumes "pool_history conn (new_HttpConnectionPool host vhost port https max_size max_alive max_request) p lent"
    "2 ^ 32 \<le> now" "getConnection conn dial now p = (deleted, found, p')"
  defines "live \<equiv> \<lambda>c. isConnected conn (hc_stream c)"
  shows "deleted = takeWhile (\<lambda>c. \<not> live c) (pl_conns p) \<and>
    (case dropWhile (\<lambda>c. \<not> live c) (pl_conns p) of
       c # rest \<Rightarrow> found = Some c \<and> pl_conns p' = rest
     | [] \<Rightarrow> pl_conns p' = [] \<and> (found = None \<longleftrightarrow> dial (pl_host p) (pl_port p) = None))"
proof -
  have age: "\<forall>c \<in> set (pl_conns p). hc_createTime c = 0" using pool_invariant_lemma [OF assms(1)] by (simp add: pool_ok_def)
  have young: "\<not> now < 0 + (ucast m :: u64)" for m :: u32
  proof -
    have m: "unat m < 2 ^ 32" using unsigned_less [of m] by simp
    then have "unat (ucast m :: u64) < 2 ^ 32" by (simp add: unsigned_ucast_eq take_bit_nat_eq_self)
    then show ?thesis using assms(2) by (simp add: word_less_nat_alt word_le_nat_alt)
  qed
  have "take_connection conn m now cs =
      (takeWhile (\<lambda>c. \<not> live c) cs, case dropWhile (\<lambda>c. \<not> live c) cs of [] \<Rightarrow> None | c # _ \<Rightarrow> Some c,
       case dropWhile (\<lambda>c. \<not> live c) cs of [] \<Rightarrow> [] | _ # rest \<Rightarrow> rest)"
    if "\<forall>c \<in> set cs. hc_createTime c = 0" for m cs
    using that young [of m] by (induction cs) (auto simp: live_def split: list.splits)
  note taken = this [OF age, of "pl_maxAliveTime p"]
  show ?thesis
  proof (cases "dropWhile (\<lambda>c. \<not> live c) (pl_conns p)")
    case Nil
    then show ?thesis using assms(3) unfolding getConnection_def taken Nil Let_def by (auto split: option.splits)
  next
    case (Cons c rest)
    then show ?thesis using assms(3) unfolding getConnection_def taken Cons Let_def by auto
  qed
qed

text \<open>A pool with a connection that was closed by the peer and one that is alive.\<close>

definition sample_conn :: "bool \<Rightarrow> bool http_connection" where
  "sample_conn k = \<lparr>hc_stream = \<lparr>m_socket = Some k, m_owner = True\<rparr>, hc_createTime = 0, hc_request = 1\<rparr>"

theorem pool_reuse_witness:
  "\<exists>p. getConnection id (\<lambda>_ _. None) (2 ^ 32) (sample_pool\<lparr>pl_total := 1, pl_conns := [sample_conn True]\<rparr>) = ([], Some (sample_conn True), p) \<and>
     pl_conns p = []"
proof -
  let ?new = "\<lparr>hc_stream = \<lparr>m_socket = Some True, m_owner = True\<rparr>, hc_createTime = 0, hc_request = 0\<rparr>"
  have release: "ReleasePtr id (2 ^ 32) ?new (sample_pool\<lparr>pl_total := 1\<rparr>) =
      (None, sample_pool\<lparr>pl_total := 1, pl_conns := [sample_conn True]\<rparr>)"
    by (simp add: ReleasePtr_def sample_pool_def sample_conn_def new_HttpConnectionPool_def isConnected_def word_le_nat_alt)
  have history: "pool_history id sample_pool (sample_pool\<lparr>pl_total := 1, pl_conns := [sample_conn True]\<rparr>) []"
    using pool_history.pool_release [where xs = "[]" and ys = "[]",
        OF _ release, of sample_pool] pool_history.pool_get [OF pool_history.pool_start sample_pool_get] by simp
  let ?p = "sample_pool\<lparr>pl_total := 1, pl_conns := [sample_conn True]\<rparr>"
  obtain deleted found p' where g: "getConnection id (\<lambda>_ _. None) (2 ^ 32) ?p = (deleted, found, p')" by (metis prod_cases3)
  have "pool_history id (new_HttpConnectionPool ''h'' [] 0 False 1 60000 2) ?p []" using history by (simp add: sample_pool_def)
  then show ?thesis using pool_reuse [OF _ _ g] g
    by (auto simp: sample_conn_def isConnected_def)
qed

end
