(* ===== verification/HttpClientFacts.thy ===== *)
theory HttpClientFacts
  imports HttpSessionFacts ResponseFacts HttpPool
begin

text \<open>
  What a client receives: the response a server has written, and the body of a response in chunks.
\<close>

section \<open>A response that comes with one read\<close>

lemma rsp_recv_head_whole:
  assumes "sendable_response r" "m_socket s = Some k" "conn k" "recv k buff = (rt, bs, k')" "0 < rt"
    "chars_of bs = response_head r @ tail" "length bs \<le> buff" "buff < 2 ^ 31"
  shows "\<exists>q. rsp_recv_head conn recv cl buff (new_HttpResponseParser h) [] s = Some (Inr (Some (q, tail), s\<lparr>m_socket := Some k'\<rparr>)) \<and>
    sp_data q = parsed_response r \<and> \<not> cp_chunked (sp_parser q)"
proof -
  have len: "length (response_head r) + length tail = length bs"
    using assms(6) chars_of_simps(2) [of bs] by (metis length_append)
  then have "length (response_head r @ tail) < 2 ^ 31" using assms(7,8) by simp
  then obtain q where q: "rsp_execute (new_HttpResponseParser h) (response_head r @ tail) False = Inr (length (response_head r), tail, q)"
      "rsp_isFinished q = 1" "\<not> rsp_hasError q" "sp_data q = parsed_response r" "\<not> cp_chunked (sp_parser q)"
    using response_head_parsed [OF assms(1)] by blast
  have "stream_read conn recv s (buff - length ([] :: string)) = Inr (rt, bs, s\<lparr>m_socket := Some k'\<rparr>)"
    using assms(2-4) by (simp add: stream_read_def isConnected_def)
  moreover have "response_head r \<noteq> []" by (simp add: response_head_def rsp_status_line_def CRLF_def)
  then have "length tail < buff" using len assms(7) by (cases "response_head r") auto
  moreover have "to_int (int buff) = int buff" using assms(8) by (intro to_int_small) simp_all
  ultimately show ?thesis using q assms(5,6) by (simp add: rsp_recv_head.simps [of conn recv cl buff])
qed

lemma parsed_response_length:
  assumes "hm_ok (rs_headers r)" "cast (dec (length (rs_body r))) = Some (word_of_nat (length (rs_body r)))"
    "rs_body r \<noteq> [] \<or> hm_find ''content-length'' (rs_headers r) = None"
  shows "getAs cast (rs_headers (parsed_response r)) ''content-length'' 0 = word_of_nat (length (rs_body r))"
proof -
  have "case_key ''content-length'' \<noteq> case_key ''connection''" "case_key ''content-length'' \<noteq> case_key ''Set-Cookie''"
    by code_simp+
  then show ?thesis using parsed_response_headers [OF assms(1), of "''content-length''"] assms(2,3)
    by (cases "rs_body r = []") (simp_all add: getAs_def)
qed

definition identity_coding :: "http_response \<Rightarrow> bool" where
  "identity_coding r \<longleftrightarrow> (case hm_find ''content-encoding'' (rs_headers r) of None \<Rightarrow> True
     | Some v \<Rightarrow> strcasecmp v ''gzip'' \<noteq> 0 \<and> strcasecmp v ''deflate'' \<noteq> 0)"

lemma identity_decoded:
  assumes "hm_ok (rs_headers r)" "identity_coding r"
  shows "decode_body zl (rs_getHeader (parsed_response r) ''content-encoding'' []) body = Some (Inr body)"
proof -
  have "case_key ''content-encoding'' \<noteq> case_key ''connection''" "case_key ''content-encoding'' \<noteq> case_key ''Set-Cookie''"
    "case_key ''content-encoding'' \<noteq> case_key ''content-length''" "strcasecmp [] ''gzip'' \<noteq> 0" "strcasecmp [] ''deflate'' \<noteq> 0"
    by code_simp+
  then show ?thesis using parsed_response_headers [OF assms(1), of "''content-encoding''"] assms(2)
    by (simp add: rs_getHeader_def identity_coding_def or_default_def decode_body_def split: option.splits)
qed

lemma content_length_int64: "n < 2 ^ 63 \<Longrightarrow> sint (word_of_nat n :: u64) = int n"
  by (simp add: signed_of_nat signed_take_bit_int_eq_self_iff)

text \<open>
  Claim C15. A client receives the response the server has written: when the first read brings the whole head, recvResponse
  returns the status, version, reason and body that were sent and the headers under their names (of the
  cookies the last one), and takes from the socket exactly the message.
\<close>

theorem response_received:
  assumes sock: "steady_socket conn recv send inp out" "m_socket s = Some k" "conn k"
    and bytes: "inp k = bytes_of (dump_response r) @ later" "length (dump_response r) < 2 ^ 31"
    and read: "recv k buff = (rt, bs, k')" "int (length (response_head r)) \<le> rt" "rt \<le> int (length (dump_response r))" "buff < 2 ^ 31"
    and rsp: "sendable_response r" "hm_ok (rs_headers r)" "identity_coding r"
      "cast (dec (length (rs_body r))) = Some (word_of_nat (length (rs_body r)))"
      "rs_body r \<noteq> [] \<or> hm_find ''content-length'' (rs_headers r) = None"
  shows "\<exists>rsp s'. recvResponse conn recv cl cast zl buff h s = Some (Inr (Some rsp, s')) \<and> stream_bytes inp s' = later \<and>
    rs_status rsp = rs_status r \<and> rs_version rsp = rs_version r \<and> rs_reason rsp = reason_text r \<and> rs_body rsp = rs_body r \<and>
    (\<forall>key. hm_find key (rs_headers rsp) =
      (if case_key key = case_key ''content-length'' \<and> rs_body r \<noteq> [] then Some (dec (length (rs_body r)))
       else if case_key key = case_key ''connection'' \<and> \<not> rs_websocket r then Some (if rs_close r then ''close'' else ''keep-alive'')
       else if case_key key = case_key ''Set-Cookie'' \<and> rs_cookies r \<noteq> [] then Some (last (rs_cookies r))
       else hm_find key (rs_headers r)))"
proof -
  let ?j = "nat rt - length (response_head r)"
  have split: "dump_response r = response_head r @ rs_body r" using dump_response_head [OF rsp(1)] .
  then have dump: "length (dump_response r) = length (response_head r) + length (rs_body r)" by simp
  have ne: "response_head r \<noteq> []" by (simp add: response_head_def rsp_status_line_def CRLF_def)
  note one = first_read [OF sock(1,3) bytes(1) [unfolded split] read(1,2) read(3) [unfolded split] ne]
  obtain q where q: "rsp_recv_head conn recv cl buff (new_HttpResponseParser h) [] s =
      Some (Inr (Some (q, take ?j (rs_body r)), s\<lparr>m_socket := Some k'\<rparr>))" "sp_data q = parsed_response r" "\<not> cp_chunked (sp_parser q)"
    using rsp_recv_head_whole [where conn = conn and recv = recv, OF rsp(1) sock(2,3) read(1) one(5,2,6) read(4)] by blast
  obtain s' where s': "recv_body conn recv cl (int (length (rs_body r))) (take ?j (rs_body r)) (s\<lparr>m_socket := Some k'\<rparr>) =
      Inr (Some (rs_body r), s')" "stream_bytes inp s' = later"
    using recv_body_whole [OF sock(1) _ one(1), of "s\<lparr>m_socket := Some k'\<rparr>" later cl] one(3,4) bytes(2) dump
    by (auto simp: isConnected_def)
  have "sint (rsp_getContentLength cast q) = int (length (rs_body r))"
    using parsed_response_length [where cast = cast and r = r, OF rsp(2,4,5)] content_length_int64 bytes(2) dump q(2) by (simp add: rsp_getContentLength_def)
  then have body: "recv_length_body conn recv cl cast q (take ?j (rs_body r)) (s\<lparr>m_socket := Some k'\<rparr>) = Inr (Some (rs_body r), s')"
    using s'(1) by (cases "rs_body r") (simp_all add: recv_length_body_def recv_body_def overwrite_def)
  have same: "rs_body r = [] \<Longrightarrow> (parsed_response r)\<lparr>rs_body := []\<rparr> = parsed_response r"
    by (simp add: parsed_response_def new_HttpResponse_def)
  have "\<exists>rsp. recvResponse conn recv cl cast zl buff h s = Some (Inr (Some rsp, s')) \<and> rsp = (parsed_response r)\<lparr>rs_body := rs_body r\<rparr>"
    using q body identity_decoded [OF rsp(2,3), of zl "rs_body r"] same by (cases "rs_body r = []") (simp_all add: recvResponse_def Let_def)
  then show ?thesis using s'(2) parsed_response_headers [OF rsp(2)] by (auto simp: parsed_response_def new_HttpResponse_def)
qed

definition sample_answer :: http_response where
  "sample_answer = (rs_setHeader ''Server'' ''exhy/1.0.0'' (new_HttpResponse 0x11 False))\<lparr>rs_status := 404, rs_body := ''no'', rs_cookies := [''a=b'']\<rparr>"

definition no_zlib :: "unit zlib" where
  "no_zlib = \<lparr>zl_deflateInit2 = (\<lambda>_ _ _ _. (0, ())), zl_inflateInit2 = (\<lambda>_. (0, ())),
     zl_deflate = (\<lambda>_ inp n _. (0, 0, [], ())), zl_inflate = (\<lambda>_ inp n _. (0, 0, [], ()))\<rparr>"

theorem response_received_witness:
  "\<forall>h. \<exists>rsp s'. recvResponse k_connected k_recv (\<lambda>k. k\<lparr>k_connected := False\<rparr>) (\<lambda>s. Some (word_of_nat (undec s))) no_zlib 200 h
      \<lparr>m_socket = Some \<lparr>k_connected = True, k_in = [bytes_of (dump_response sample_answer)], k_out = [], k_room = 0\<rparr>, m_owner = True\<rparr> =
      Some (Inr (Some rsp, s')) \<and> rs_status rsp = 404 \<and> rs_reason rsp = ''Not Found'' \<and> rs_body rsp = ''no'' \<and>
      hm_find ''server'' (rs_headers rsp) = Some ''exhy/1.0.0'' \<and> hm_find ''set-cookie'' (rs_headers rsp) = Some ''a=b''"
proof
  fix h
  let ?k = "\<lparr>k_connected = True, k_in = [bytes_of (dump_response sample_answer)], k_out = [], k_room = 0\<rparr>"
  let ?n = "length (dump_response sample_answer)"
  have r: "sendable_response sample_answer" "hm_ok (rs_headers sample_answer)" "?n \<le> 200" "dump_response sample_answer \<noteq> []"
    "identity_coding sample_answer" "rs_status sample_answer = 404" "rs_body sample_answer = ''no''" "rs_cookies sample_answer = [''a=b'']"
    "reason_text sample_answer = ''Not Found''" "hm_find ''server'' (rs_headers sample_answer) = Some ''exhy/1.0.0''"
    "case_key ''server'' \<noteq> case_key ''content-length''" "case_key ''server'' \<noteq> case_key ''connection''"
    "case_key ''server'' \<noteq> case_key ''Set-Cookie''" "case_key ''set-cookie'' = case_key ''Set-Cookie''"
    "case_key ''Set-Cookie'' \<noteq> case_key ''content-length''" "case_key ''Set-Cookie'' \<noteq> case_key ''connection''"
    by code_simp+
  have "k_recv ?k 200 = (int ?n, bytes_of (dump_response sample_answer), ?k\<lparr>k_in := [[]]\<rparr>)"
    using r(3,4) by (simp add: k_recv_def bytes_of_def)
  moreover have "k_input ?k = bytes_of (dump_response sample_answer) @ []" by (simp add: k_input_def)
  moreover have "length (response_head sample_answer) \<le> ?n" using dump_response_head [OF r(1)] by simp
  moreover have "undec (dec (length (rs_body sample_answer))) = length (rs_body sample_answer)" by (rule undec_dec)
  ultimately show "\<exists>rsp s'. recvResponse k_connected k_recv (\<lambda>k. k\<lparr>k_connected := False\<rparr>) (\<lambda>s. Some (word_of_nat (undec s))) no_zlib 200 h
      \<lparr>m_socket = Some ?k, m_owner = True\<rparr> =
      Some (Inr (Some rsp, s')) \<and> rs_status rsp = 404 \<and> rs_reason rsp = ''Not Found'' \<and> rs_body rsp = ''no'' \<and>
      hm_find ''server'' (rs_headers rsp) = Some ''exhy/1.0.0'' \<and> hm_find ''set-cookie'' (rs_headers rsp) = Some ''a=b''"
    using response_received [OF ks.steady_socket_axioms, of "\<lparr>m_socket = Some ?k, m_owner = True\<rparr>" ?k sample_answer "[]" 200 "int ?n" _ _
        "\<lambda>s. Some (word_of_nat (undec s))" "\<lambda>k. k\<lparr>k_connected := False\<rparr>" no_zlib h] r
    by fastforce
qed

section \<open>Chunks\<close>

definition chunk_text :: "string \<Rightarrow> string" where
  "chunk_text b = hex (length b) @ CRLF @ b @ CRLF"

lemma hex_char_digit: "d < 16 \<Longrightarrow> digit_of (hex_char d) = d \<and> hex_char d \<noteq> CHR 0x00 \<and> \<not> is_space (hex_char d) \<and>
    hex_char d \<noteq> CHR ''-'' \<and> hex_char d \<noteq> CHR ''+'' \<and> hex_char d \<noteq> CHR ''x'' \<and> hex_char d \<noteq> CHR ''X''"
proof -
  assume "d < 16"
  then have "d \<in> {0, 1, 2, 3, 4, 5, 6, 7, 8, 9, 10, 11, 12, 13, 14, 15}" unfolding insert_iff empty_iff by presburger
  then show ?thesis by (elim insertE emptyE; simp) code_simp+
qed

lemma hex_chars: "\<exists>c cs. hex n = c # cs" "\<forall>c \<in> set (hex n). \<exists>d < 16. c = hex_char d"
proof -
  have "hex n \<noteq> [] \<and> (\<forall>c \<in> set (hex n). \<exists>d < 16. c = hex_char d)"
  proof (induction n rule: hex.induct)
    case (1 n)
    show ?case
    proof (cases "n < 16")
      case False
      moreover have "n mod 16 < 16" by simp
      ultimately show ?thesis using 1 by (subst (1 2) hex.simps) (auto intro: exI [of _ "n mod 16"])
    qed (subst (1 2) hex.simps, auto)
  qed
  then show "\<exists>c cs. hex n = c # cs" "\<forall>c \<in> set (hex n). \<exists>d < 16. c = hex_char d" by (auto simp: neq_Nil_conv)
qed

lemma based_hex_fold: "foldl (\<lambda>n c. 16 * n + digit_of c) 0 (hex n) = n"
proof (induction n rule: hex.induct)
  case (1 n)
  show ?case
  proof (cases "n < 16")
    case True
    then show ?thesis using hex_char_digit [of n] by (subst hex.simps) simp
  next
    case False
    have "digit_of (hex_char (n mod 16)) = n mod 16" using hex_char_digit [of "n mod 16"] by simp
    then show ?thesis using 1 [OF False] False by (subst hex.simps) simp
  qed
qed

lemma strtol_hex: "n < 2 ^ 63 \<Longrightarrow> strtol 16 (hex n @ CHR 0x0D # ys) = int n"
proof -
  assume n: "n < 2 ^ 63"
  have props: "digit_of c < 16 \<and> c \<noteq> CHR 0x00 \<and> \<not> is_space c \<and> c \<noteq> CHR ''-'' \<and> c \<noteq> CHR ''+'' \<and> c \<noteq> CHR ''x'' \<and> c \<noteq> CHR ''X''"
    if "c \<in> set (hex n)" for c
  proof -
    obtain d where "d < 16" "c = hex_char d" using hex_chars(2) [of n] \<open>c \<in> set (hex n)\<close> by blast
    then show ?thesis using hex_char_digit [of d] by simp
  qed
  obtain c cs where c: "hex n = c # cs" using hex_chars(1) by blast
  have "takeWhile (\<lambda>c. digit_of c < 16) (hex n @ CHR 0x0D # zs) = hex n" for zs
    using props by (simp add: takeWhile_append2 digit_of_def)
  then have "based 16 (hex n @ CHR 0x0D # zs) = n" for zs using based_hex_fold [of n] by (simp add: based_def)
  moreover have "cstr (hex n @ CHR 0x0D # ys) = hex n @ CHR 0x0D # cstr ys"
    using props by (simp add: cstr_def takeWhile_append2)
  moreover have "take 2 (hex n @ CHR 0x0D # zs) \<noteq> ''0x'' \<and> take 2 (hex n @ CHR 0x0D # zs) \<noteq> ''0X''" for zs
    using props c by (cases cs) auto
  moreover have "dropWhile is_space (hex n @ zs) = hex n @ zs" "hd (hex n @ zs) = c" "hex n @ zs \<noteq> []" for zs
    using props [of c] c by simp_all
  moreover have "c \<noteq> CHR ''-''" "c \<noteq> CHR ''+''" using props [of c] c by simp_all
  ultimately show ?thesis using n by (simp add: strtol_def Let_def del: append_is_Nil_conv take_append)
qed

lemma hex_code: "d < 16 \<Longrightarrow> (48 \<le> sc (hex_char d) \<and> sc (hex_char d) \<le> 57) \<or> (97 \<le> sc (hex_char d) \<and> sc (hex_char d) \<le> 102)"
  by (auto simp: hex_char_def sc_def Let_def)

lemma chunk_steps:
  "d < 16 \<Longrightarrow> rsp_1 (sc (hex_char d)) = Tr [RMark] 2" "d < 16 \<Longrightarrow> rsp_2 (sc (hex_char d)) = St 2"
  "rsp_2 13 = Tr [ChunkSize] 3" "rsp_3 10 = Stop [RDone] 120" "rsp_delta (Suc 0) = rsp_1" "rsp_delta 2 = rsp_2" "rsp_delta 3 = rsp_3"
proof -
  show "d < 16 \<Longrightarrow> rsp_1 (sc (hex_char d)) = Tr [RMark] 2" "d < 16 \<Longrightarrow> rsp_2 (sc (hex_char d)) = St 2"
    using hex_code [of d] by (auto simp: rsp_1_def rsp_2_def rsp_tr0_def)
  show "rsp_2 13 = Tr [ChunkSize] 3" "rsp_3 10 = Stop [RDone] 120"
    by (simp_all add: rsp_2_def rsp_3_def rsp_edges)
  show "rsp_delta (Suc 0) = rsp_1" "rsp_delta 2 = rsp_2" "rsp_delta 3 = rsp_3" by (simp_all add: rsp_delta_def rsp_states_def)
qed

lemma chunk_header_run:
  assumes "buf = hex n @ CRLF @ ys" "n < 2 ^ 31" "length buf < 2 ^ 31"
  shows "rsp_run buf buf 0 1 (h, []) = (120, length (hex n) + 2,
    h\<lparr>cp_mark := 0, cp_chunked := True, cp_content_len := int n, cp_chunks_done := (n = 0), cp_body_start := length (hex n) + 2\<rparr>,
    [if n = 0 then OnLastChunk 0 (length (hex n)) else OnChunk 0 (length (hex n)),
     OnRHeaderDone (length (hex n) + 2) (length buf - length (hex n) - 2)])"
proof -
  obtain c cs where c: "hex n = c # cs" using hex_chars(1) by blast
  have digits: "\<exists>d < 16. c = hex_char d" "\<forall>c \<in> set cs. \<exists>d < 16. c = hex_char d" using hex_chars(2) [of n] c by auto
  have span: "rsp_run buf (cs @ zs) p 2 s = rsp_run buf zs (p + length cs) 2 s" for zs p s
    using digits(2) by (intro word_run_span) (auto simp: chunk_steps)
  have num: "long_to_int (strtol 16 buf) = int n"
    using strtol_hex [of n] assms(1,2) by (simp add: CRLF_def long_to_int_def sint_of_nat_small)
  have zero: "length (hex 0) = Suc (length cs)" if "n = 0" using c that by simp
  have len: "LEN 0 (Suc (length cs)) = Suc (length cs)" using assms(1,3) c by (intro LEN_le [THEN trans]) (auto simp: CRLF_def)
  have "rsp_run buf (c # cs @ CHR 0x0D # CHR 0x0A # ys) 0 1 (h, []) = (120, length (hex n) + 2,
    h\<lparr>cp_mark := 0, cp_chunked := True, cp_content_len := int n, cp_chunks_done := (n = 0), cp_body_start := length (hex n) + 2\<rparr>,
    [if n = 0 then OnLastChunk 0 (length (hex n)) else OnChunk 0 (length (hex n)),
     OnRHeaderDone (length (hex n) + 2) (length buf - length (hex n) - 2)])"
    using digits(1) by (auto simp: c chunk_steps span num len Let_def zero)
  then show ?thesis using assms(1) c by (simp add: CRLF_def)
qed

lemma chunk_header_parsed:
  assumes "n < 2 ^ 31" "length (hex n @ CRLF @ ys) < 2 ^ 31" "sp_error q = 0"
  shows "\<exists>h. rsp_execute q (hex n @ CRLF @ ys) True = Inr (length (hex n) + 2, ys, q\<lparr>sp_parser := h\<rparr>) \<and>
    cp_content_len h = int n \<and> cp_chunks_done h = (n = 0) \<and> cp_cs h = 120"
proof -
  let ?buf = "hex n @ CRLF @ ys"
  define h0 where "h0 = (httpclient_parser_init (sp_parser q))\<lparr>cp_nread := 0, cp_mark := 0, cp_field_len := 0, cp_field_start := 0\<rparr>"
  have h0: "cp_cs h0 = 1" "cp_nread h0 = 0" "cp_field_len h0 = 0" "cp_field_start h0 = 0"
    by (simp_all add: h0_def httpclient_parser_init_def)
  have len: "length ?buf = length (hex n) + 2 + length ys" by (simp add: CRLF_def)
  have drop: "drop (length (hex n) + 2) ?buf = ys" by (simp add: CRLF_def)
  have "rsp_exec ?buf 0 h0 = rsp_run ?buf ?buf 0 1 (h0, [])" using h0 by (simp add: rsp_exec_def goto_run_word)
  note exec = this [unfolded chunk_header_run [OF refl assms(1,2)]]
  have "sint (word_of_nat (length (hex n) + 2) :: u32) = int (length (hex n) + 2)"
    using len assms(2) by (intro sint_of_nat_small) simp
  then obtain h calls where h: "httpclient_parser_execute (httpclient_parser_init (sp_parser q)) ?buf 0 = Inr (int (length (hex n) + 2), h, calls)"
      "cp_content_len h = int n" "cp_chunks_done h = (n = 0)" "cp_cs h = 120" "on_responses ?buf calls q = Inr q"
    using exec len h0 by (simp add: httpclient_parser_execute_def h0_def [symmetric] Let_def)
  have "nat (int (length (hex n) + 2)) = length (hex n) + 2" "\<not> int (length (hex n) + 2) < 0" by simp_all
  then have "rsp_execute q ?buf True = Inr (length (hex n) + 2, ys, q\<lparr>sp_parser := h\<rparr>)"
    unfolding rsp_execute_def Let_def if_True h(1) sbind_Inr prod.case h(5) using drop by (simp only: if_False)
  then show ?thesis using h(2-4) by blast
qed

lemma chunk_head_buffered:
  assumes "n < 2 ^ 31" "length (hex n @ CRLF @ ys) \<le> buff" "buff < 2 ^ 31" "sp_error q = 0"
  shows "\<exists>h. chunk_head conn recv cl buff True q (hex n @ CRLF @ ys) s = Some (Inr (Some (q\<lparr>sp_parser := h\<rparr>, ys), s)) \<and>
    cp_content_len h = int n \<and> cp_chunks_done h = (n = 0)"
proof -
  obtain h where h: "rsp_execute q (hex n @ CRLF @ ys) True = Inr (length (hex n) + 2, ys, q\<lparr>sp_parser := h\<rparr>)"
      "cp_content_len h = int n" "cp_chunks_done h = (n = 0)" "cp_cs h = 120"
    using chunk_header_parsed [OF assms(1) _ assms(4), of ys] assms(2,3) by auto
  have "length ys < buff" using assms(2) by (simp add: CRLF_def)
  moreover have "to_int (int buff) = int buff" using assms(3) by (intro to_int_small) simp_all
  moreover have "hex n \<noteq> []" using hex_chars(1) [of n] by auto
  ultimately show ?thesis using h assms(4)
    by (intro exI [of _ h]) (simp add: chunk_head.simps [of conn recv cl buff] rsp_hasError_def rsp_isFinished_def httpclient_parser_finish_def
        httpclient_parser_has_error_def httpclient_parser_is_finished_def)
qed

text \<open>
  Claim C16. A body in chunks that is in the buffer is put together again: recvResponse's loop gives back the bodies of the chunks up
  to the one of length 0, and keeps the head of the response.
\<close>

theorem chunks_decoded:
  assumes "length (concat (map chunk_text bs) @ chunk_text [] @ tail) \<le> buff" "buff < 2 ^ 31 - 2" "[] \<notin> set bs" "sp_error q = 0"
  shows "\<exists>q'. recv_chunks conn recv cl buff q (concat (map chunk_text bs) @ chunk_text [] @ tail) body s =
      Some (Inr (Some (q', body @ concat bs), s)) \<and> sp_data q' = sp_data q"
  using assms
proof (induction bs arbitrary: q body)
  case Nil
  let ?ys = "CRLF @ tail"
  obtain h where h: "chunk_head conn recv cl buff True q (hex 0 @ CRLF @ ?ys) s = Some (Inr (Some (q\<lparr>sp_parser := h\<rparr>, ?ys), s))"
      "cp_content_len h = 0" "cp_chunks_done h"
    using chunk_head_buffered [of 0 ?ys buff q conn recv cl s] Nil.prems by (auto simp: chunk_text_def)
  then show ?case
    by (simp add: recv_chunks.simps [of conn recv cl buff] chunk_text_def chunk_body_def CRLF_def)
next
  case (Cons b bs)
  let ?zs = "concat (map chunk_text bs) @ chunk_text [] @ tail"
  let ?ys = "b @ CRLF @ ?zs"
  have "length b + length ?zs \<le> length (concat (map chunk_text (b # bs)) @ chunk_text [] @ tail)"
    by (simp add: chunk_text_def [of b])
  then have len: "length b < 2 ^ 31 - 2" "length ?zs \<le> buff" using Cons.prems(1,2) by linarith+
  have form: "concat (map chunk_text (b # bs)) @ chunk_text [] @ tail = hex (length b) @ CRLF @ ?ys"
    by (simp add: chunk_text_def [of b])
  have "length b < 2 ^ 31" "length (hex (length b) @ CRLF @ ?ys) \<le> buff" "buff < 2 ^ 31"
    using Cons.prems(1,2) len(1) by (simp_all only: form)
  then obtain h where h: "chunk_head conn recv cl buff True q (hex (length b) @ CRLF @ ?ys) s = Some (Inr (Some (q\<lparr>sp_parser := h\<rparr>, ?ys), s))"
      "cp_content_len h = int (length b)" "cp_chunks_done h = (length b = 0)"
    using chunk_head_buffered Cons.prems(4) by blast
  have "chunk_body conn recv cl buff (int (length b)) ?ys body s = Some (Inr (Some (?zs, body @ b), s))"
    using len(1) by (simp add: chunk_body_def Let_def CRLF_def nat_add_distrib)
  moreover obtain q' where "recv_chunks conn recv cl buff (q\<lparr>sp_parser := h\<rparr>) ?zs (body @ b) s = Some (Inr (Some (q', (body @ b) @ concat bs), s))"
      "sp_data q' = sp_data q"
    using Cons.IH [of "q\<lparr>sp_parser := h\<rparr>" "body @ b"] Cons.prems len(2) by auto
  moreover have "\<not> cp_chunks_done h" using h(3) Cons.prems(3) by auto
  ultimately show ?case using h(1,2) unfolding form
    by (simp add: recv_chunks.simps [of conn recv cl buff q])
qed

theorem chunks_decoded_witness:
  "\<forall>h s. \<exists>q'. recv_chunks k_connected k_recv id 64 (new_HttpResponseParser h)
      (''2'' @ CRLF @ ''ab'' @ CRLF @ ''0'' @ CRLF @ CRLF) [] s = Some (Inr (Some (q', ''ab''), s))"
proof (intro allI)
  fix h s
  have "concat (map chunk_text [''ab'']) @ chunk_text [] @ [] = ''2'' @ CRLF @ ''ab'' @ CRLF @ ''0'' @ CRLF @ CRLF" by code_simp
  moreover have "length (''2'' @ CRLF @ ''ab'' @ CRLF @ ''0'' @ CRLF @ CRLF) \<le> 64" by code_simp
  ultimately show "\<exists>q'. recv_chunks k_connected k_recv id 64 (new_HttpResponseParser h)
      (''2'' @ CRLF @ ''ab'' @ CRLF @ ''0'' @ CRLF @ CRLF) [] s = Some (Inr (Some (q', ''ab''), s))"
    using chunks_decoded [of "[''ab'']" "[]" 64 "new_HttpResponseParser h" k_connected k_recv id "[]" s]
    by (auto simp: new_HttpResponseParser_def)
qed

end
