(* ===== verification/Socket.thy ===== *)
theory Socket
  imports Uri Stream Hook
begin

text \<open>
  Socket (exhy/exhy_socket.h, exhy_socket.cpp). The calls a socket makes, of the hooked C functions, of the table of
  descriptors and of the current IOManager, are functions of the state \<open>'w\<close> of everything outside the object; a
  method takes the object and that state and gives its result and both. An address that the object shares with its
  callers is the value it had when it was stored. Log lines are left out.
\<close>

section \<open>The calls of a socket\<close>

datatype sockopt = IntOpt int | TimevalOpt int int | BytesOpt "byte list"

text \<open>
  A call gives its result first; a call that stores gives what it stores, as much as there is room for. Addresses
  are the bytes of their structures; getsockname and getpeername give the whole address, or nothing when they fail.
\<close>

record 'w sys =
  sys_socket :: "int \<Rightarrow> int \<Rightarrow> int \<Rightarrow> 'w \<Rightarrow> int \<times> 'w"
  sys_accept :: "int \<Rightarrow> 'w \<Rightarrow> int \<times> 'w"
  sys_bind :: "int \<Rightarrow> byte list \<Rightarrow> 'w \<Rightarrow> int \<times> 'w"
  sys_connect :: "int \<Rightarrow> byte list \<Rightarrow> 'w \<Rightarrow> int \<times> 'w"
  sys_connect_timeout :: "int \<Rightarrow> byte list \<Rightarrow> u64 \<Rightarrow> 'w \<Rightarrow> int \<times> 'w"
  sys_listen :: "int \<Rightarrow> int \<Rightarrow> 'w \<Rightarrow> int \<times> 'w"
  sys_close :: "int \<Rightarrow> 'w \<Rightarrow> int \<times> 'w"
  sys_send :: "int \<Rightarrow> byte list \<Rightarrow> int \<Rightarrow> 'w \<Rightarrow> int \<times> 'w"
  sys_sendto :: "int \<Rightarrow> byte list \<Rightarrow> int \<Rightarrow> byte list \<Rightarrow> 'w \<Rightarrow> int \<times> 'w"
  sys_sendmsg :: "int \<Rightarrow> byte list list \<Rightarrow> byte list option \<Rightarrow> int \<Rightarrow> 'w \<Rightarrow> int \<times> 'w"
  sys_recv :: "int \<Rightarrow> nat \<Rightarrow> int \<Rightarrow> 'w \<Rightarrow> int \<times> byte list \<times> 'w"
  sys_recvfrom :: "int \<Rightarrow> nat \<Rightarrow> int \<Rightarrow> nat \<Rightarrow> 'w \<Rightarrow> int \<times> byte list \<times> byte list \<times> 'w"
  sys_recvmsg :: "int \<Rightarrow> nat list \<Rightarrow> nat option \<Rightarrow> int \<Rightarrow> 'w \<Rightarrow> int \<times> byte list \<times> byte list \<times> 'w"
  sys_getsockopt :: "int \<Rightarrow> int \<Rightarrow> int \<Rightarrow> nat \<Rightarrow> 'w \<Rightarrow> int \<times> byte list \<times> 'w"
  sys_setsockopt :: "int \<Rightarrow> int \<Rightarrow> int \<Rightarrow> sockopt \<Rightarrow> 'w \<Rightarrow> int \<times> 'w"
  sys_getsockname :: "int \<Rightarrow> 'w \<Rightarrow> byte list option \<times> 'w"
  sys_getpeername :: "int \<Rightarrow> 'w \<Rightarrow> byte list option \<times> 'w"
  sys_ctx :: "int \<Rightarrow> 'w \<Rightarrow> fdctx option"
  sys_errno :: "'w \<Rightarrow> int"
  sys_cancelEvent :: "int \<Rightarrow> u32 \<Rightarrow> 'w \<Rightarrow> (bool \<times> 'w) res"
  sys_cancelAll :: "int \<Rightarrow> 'w \<Rightarrow> (bool \<times> 'w) res"

abbreviation (input) SOCK_STREAM :: int where "SOCK_STREAM \<equiv> 1"
abbreviation (input) SOCK_DGRAM :: int where "SOCK_DGRAM \<equiv> 2"
abbreviation (input) SO_REUSEADDR :: int where "SO_REUSEADDR \<equiv> 2"
abbreviation (input) SO_ERROR :: int where "SO_ERROR \<equiv> 4"
abbreviation (input) IPPROTO_TCP :: int where "IPPROTO_TCP \<equiv> 6"
abbreviation (input) TCP_NODELAY :: int where "TCP_NODELAY \<equiv> 1"

section \<open>The object\<close>

record socket =
  sk_sock :: int
  sk_family :: int
  sk_type :: int
  sk_protocol :: int
  sk_isConnected :: bool
  sk_localAddress :: "address option"
  sk_remoteAddress :: "address option"

definition new_Socket :: "int \<Rightarrow> int \<Rightarrow> int \<Rightarrow> socket" where
  "new_Socket family type protocol =
     \<lparr>sk_sock = - 1, sk_family = family, sk_type = type, sk_protocol = protocol, sk_isConnected = False,
      sk_localAddress = None, sk_remoteAddress = None\<rparr>"

definition isValid :: "socket \<Rightarrow> bool" where
  "isValid s \<longleftrightarrow> sk_sock s \<noteq> - 1"

definition getOption :: "'w sys \<Rightarrow> socket \<Rightarrow> int \<Rightarrow> int \<Rightarrow> nat \<Rightarrow> 'w \<Rightarrow> byte list option \<times> 'w" where
  "getOption sys s level option len w =
     (let (rt, bs, w1) = sys_getsockopt sys (sk_sock s) level option len w in (if rt \<noteq> 0 then None else Some bs, w1))"

definition setOption :: "'w sys \<Rightarrow> socket \<Rightarrow> int \<Rightarrow> int \<Rightarrow> sockopt \<Rightarrow> 'w \<Rightarrow> bool \<times> 'w" where
  "setOption sys s level option v w =
     (let (rt, w1) = sys_setsockopt sys (sk_sock s) level option v w in (rt = 0, w1))"

definition initSock :: "'w sys \<Rightarrow> socket \<Rightarrow> 'w \<Rightarrow> 'w" where
  "initSock sys s w =
     (let w1 = snd (setOption sys s SOL_SOCKET SO_REUSEADDR (IntOpt 1) w)
      in if sk_type s = SOCK_STREAM then snd (setOption sys s IPPROTO_TCP TCP_NODELAY (IntOpt 1) w1) else w1)"

definition newSock :: "'w sys \<Rightarrow> socket \<Rightarrow> 'w \<Rightarrow> socket \<times> 'w" where
  "newSock sys s w =
     (let (fd, w1) = sys_socket sys (sk_family s) (sk_type s) (sk_protocol s) w; s1 = s\<lparr>sk_sock := fd\<rparr>
      in if fd \<noteq> - 1 then (s1, initSock sys s1 w1) else (s1, w1))"

definition CreateTCP :: "address \<Rightarrow> socket" where
  "CreateTCP a = new_Socket (getFamily a) SOCK_STREAM 0"

definition CreateUDP :: "'w sys \<Rightarrow> address \<Rightarrow> 'w \<Rightarrow> socket \<times> 'w" where
  "CreateUDP sys a w = (let (s, w1) = newSock sys (new_Socket (getFamily a) SOCK_DGRAM 0) w in (s\<lparr>sk_isConnected := True\<rparr>, w1))"

definition CreateTCPSocket :: socket where "CreateTCPSocket = new_Socket AF_INET SOCK_STREAM 0"
definition CreateUDPSocket :: socket where "CreateUDPSocket = new_Socket AF_INET SOCK_DGRAM 0"
definition CreateTCPSocket6 :: socket where "CreateTCPSocket6 = new_Socket AF_INET6 SOCK_STREAM 0"
definition CreateUDPSocket6 :: socket where "CreateUDPSocket6 = new_Socket AF_INET6 SOCK_DGRAM 0"
definition CreateUnixTCPSocket :: socket where "CreateUnixTCPSocket = new_Socket AF_UNIX SOCK_STREAM 0"
definition CreateUnixUDPSocket :: socket where "CreateUnixUDPSocket = new_Socket AF_UNIX SOCK_DGRAM 0"

section \<open>Timeouts\<close>

text \<open>The conversion of the timeout to int64\_t.\<close>

definition getSendTimeout :: "'w sys \<Rightarrow> socket \<Rightarrow> 'w \<Rightarrow> int" where
  "getSendTimeout sys s w =
     (case sys_ctx sys (sk_sock s) w of Some c \<Rightarrow> sint (getTimeout SO_SNDTIMEO c) | None \<Rightarrow> - 1)"

definition getRecvTimeout :: "'w sys \<Rightarrow> socket \<Rightarrow> 'w \<Rightarrow> int" where
  "getRecvTimeout sys s w =
     (case sys_ctx sys (sk_sock s) w of Some c \<Rightarrow> sint (getTimeout SO_RCVTIMEO c) | None \<Rightarrow> - 1)"

text \<open>Division of int64\_t truncates; both members of the timeval are converted to int.\<close>

definition timeval_of :: "int \<Rightarrow> sockopt" where
  "timeval_of v =
     (let q = sgn v * (\<bar>v\<bar> div 1000); r = sgn v * (\<bar>v\<bar> mod 1000) in TimevalOpt (to_int q) (to_int (r * 1000)))"

definition setSendTimeout :: "'w sys \<Rightarrow> socket \<Rightarrow> int \<Rightarrow> 'w \<Rightarrow> 'w" where
  "setSendTimeout sys s v w = snd (setOption sys s SOL_SOCKET SO_SNDTIMEO (timeval_of v) w)"

definition setRecvTimeout :: "'w sys \<Rightarrow> socket \<Rightarrow> int \<Rightarrow> 'w \<Rightarrow> 'w" where
  "setRecvTimeout sys s v w = snd (setOption sys s SOL_SOCKET SO_RCVTIMEO (timeval_of v) w)"

text \<open>The error that is stored, or the errno of getsockopt.\<close>

definition getError :: "'w sys \<Rightarrow> socket \<Rightarrow> 'w \<Rightarrow> int \<times> 'w" where
  "getError sys s w =
     (let (r, w1) = getOption sys s SOL_SOCKET SO_ERROR 4 w
      in (case r of None \<Rightarrow> sys_errno sys w1 | Some bs \<Rightarrow> sint (of_le_bytes bs :: u32), w1))"

section \<open>Addresses\<close>

text \<open>The object for an address of the family, and the object after a call has stored bytes in its structure.\<close>

definition empty_address :: "int \<Rightarrow> address" where
  "empty_address family =
     (if family = AF_INET then IPv4Address (new_IPv4Address 0 0)
      else if family = AF_INET6 then IPv6Address new_IPv6Address
      else if family = AF_UNIX then new_UnixAddress
      else new_UnknownAddress family)"

definition store_address :: "byte list \<Rightarrow> address \<Rightarrow> address" where
  "store_address bs a =
     (let mem = overwrite 0 (take (getAddrLen a) bs) (getAddr a)
      in case a of
           IPv4Address x \<Rightarrow> (case as_sockaddr_in mem of Inr y \<Rightarrow> IPv4Address y | Inl _ \<Rightarrow> a)
         | IPv6Address x \<Rightarrow> (case as_sockaddr_in6 mem of Inr y \<Rightarrow> IPv6Address y | Inl _ \<Rightarrow> a)
         | UnixAddress u len \<Rightarrow>
             UnixAddress \<lparr>sun_family = of_le_bytes (take 2 mem), sun_path = map (\<lambda>b. char_of (unat b)) (drop 2 mem)\<rparr> len
         | UnknownAddress _ \<Rightarrow> UnknownAddress mem)"

text \<open>The length that the kernel reports is kept for the addresses of Unix sockets.\<close>

definition named :: "int \<Rightarrow> byte list \<Rightarrow> address" where
  "named family bs =
     (let a = store_address bs (empty_address family) in if family = AF_UNIX then setAddrLen (length bs) a else a)"

definition getRemoteAddress :: "'w sys \<Rightarrow> socket \<Rightarrow> 'w \<Rightarrow> address \<times> socket \<times> 'w" where
  "getRemoteAddress sys s w =
     (case sk_remoteAddress s of
        Some a \<Rightarrow> (a, s, w)
      | None \<Rightarrow>
          (case sys_getpeername sys (sk_sock s) w of
             (None, w1) \<Rightarrow> (new_UnknownAddress (sk_family s), s, w1)
           | (Some bs, w1) \<Rightarrow> (named (sk_family s) bs, s\<lparr>sk_remoteAddress := Some (named (sk_family s) bs)\<rparr>, w1)))"

definition getLocalAddress :: "'w sys \<Rightarrow> socket \<Rightarrow> 'w \<Rightarrow> address \<times> socket \<times> 'w" where
  "getLocalAddress sys s w =
     (case sk_localAddress s of
        Some a \<Rightarrow> (a, s, w)
      | None \<Rightarrow>
          (case sys_getsockname sys (sk_sock s) w of
             (None, w1) \<Rightarrow> (new_UnknownAddress (sk_family s), s, w1)
           | (Some bs, w1) \<Rightarrow> (named (sk_family s) bs, s\<lparr>sk_localAddress := Some (named (sk_family s) bs)\<rparr>, w1)))"

section \<open>Life of a socket\<close>

definition sock_close :: "'w sys \<Rightarrow> socket \<Rightarrow> 'w \<Rightarrow> bool \<times> socket \<times> 'w" where
  "sock_close sys s w =
     (if \<not> sk_isConnected s \<and> sk_sock s = - 1 then (True, s, w)
      else let s1 = s\<lparr>sk_isConnected := False\<rparr>
        in if sk_sock s1 \<noteq> - 1 then (False, s1\<lparr>sk_sock := - 1\<rparr>, snd (sys_close sys (sk_sock s1) w)) else (False, s1, w))"

definition delete_Socket :: "'w sys \<Rightarrow> socket \<Rightarrow> 'w \<Rightarrow> 'w" where
  "delete_Socket sys s w = snd (snd (sock_close sys s w))"

definition sock_init :: "'w sys \<Rightarrow> int \<Rightarrow> socket \<Rightarrow> 'w \<Rightarrow> bool \<times> socket \<times> 'w" where
  "sock_init sys fd s w =
     (case sys_ctx sys fd w of
        None \<Rightarrow> (False, s, w)
      | Some c \<Rightarrow>
          if m_isSocket c \<and> \<not> m_isClosed c then
            let s1 = s\<lparr>sk_sock := fd, sk_isConnected := True\<rparr>;
                w1 = initSock sys s1 w;
                (_, s2, w2) = getLocalAddress sys s1 w1;
                (_, s3, w3) = getRemoteAddress sys s2 w2
            in (True, s3, w3)
          else (False, s, w))"

text \<open>When init fails, the new object is deleted and the descriptor stays open.\<close>

definition sock_accept :: "'w sys \<Rightarrow> socket \<Rightarrow> 'w \<Rightarrow> socket option \<times> 'w" where
  "sock_accept sys s w =
     (let sock = new_Socket (sk_family s) (sk_type s) (sk_protocol s); (fd, w1) = sys_accept sys (sk_sock s) w
      in if fd = - 1 then (None, delete_Socket sys sock w1)
         else let (ok, sock1, w2) = sock_init sys fd sock w1
           in if ok then (Some sock1, w2) else (None, delete_Socket sys sock1 w2))"

text \<open>The tests at the start of bind and connect: a descriptor is made when there is none.\<close>

definition ensure_sock :: "'w sys \<Rightarrow> socket \<Rightarrow> 'w \<Rightarrow> socket \<times> 'w" where
  "ensure_sock sys s w = (if isValid s then (s, w) else newSock sys s w)"

definition addr_bytes :: "address \<Rightarrow> byte list" where
  "addr_bytes a = take (getAddrLen a) (getAddr a)"

definition sock_connect :: "'w sys \<Rightarrow> address \<Rightarrow> u64 \<Rightarrow> socket \<Rightarrow> 'w \<Rightarrow> bool \<times> socket \<times> 'w" where
  "sock_connect sys a timeout_ms s w =
     (let (s1, w1) = ensure_sock sys (s\<lparr>sk_remoteAddress := Some a\<rparr>) w
      in if \<not> isValid s1 then (False, s1, w1)
         else if getFamily a \<noteq> sk_family s1 then (False, s1, w1)
         else let (rt, w2) = (if timeout_ms = - 1 then sys_connect sys (sk_sock s1) (addr_bytes a) w1
                              else sys_connect_timeout sys (sk_sock s1) (addr_bytes a) timeout_ms w1)
           in if rt \<noteq> 0 then (let (_, s2, w3) = sock_close sys s1 w2 in (False, s2, w3))
              else let s2 = s1\<lparr>sk_isConnected := True\<rparr>;
                       (_, s3, w3) = getRemoteAddress sys s2 w2;
                       (_, s4, w4) = getLocalAddress sys s3 w3
                in (True, s4, w4))"

definition sock_reconnect :: "'w sys \<Rightarrow> u64 \<Rightarrow> socket \<Rightarrow> 'w \<Rightarrow> bool \<times> socket \<times> 'w" where
  "sock_reconnect sys timeout_ms s w =
     (case sk_remoteAddress s of
        None \<Rightarrow> (False, s, w)
      | Some a \<Rightarrow> sock_connect sys a timeout_ms (s\<lparr>sk_localAddress := None\<rparr>) w)"

text \<open>
  Before a Unix socket is bound, another socket tries to connect to the address; it is deleted at the end of the
  block, and when it could connect somebody listens there.
\<close>

definition unix_in_use :: "'w sys \<Rightarrow> address \<Rightarrow> 'w \<Rightarrow> bool \<times> 'w" where
  "unix_in_use sys a w =
     (let (ok, sock, w1) = sock_connect sys a (- 1) CreateUnixTCPSocket w in (ok, delete_Socket sys sock w1))"

definition sock_bind :: "'w sys \<Rightarrow> address \<Rightarrow> socket \<Rightarrow> 'w \<Rightarrow> bool \<times> socket \<times> 'w" where
  "sock_bind sys a s w =
     (let (s1, w1) = ensure_sock sys s w
      in if \<not> isValid s1 then (False, s1, w1)
         else if getFamily a \<noteq> sk_family s1 then (False, s1, w1)
         else let (used, w2) = (case a of UnixAddress _ _ \<Rightarrow> unix_in_use sys a w1 | _ \<Rightarrow> (False, w1))
           in if used then (False, s1, w2)
              else let (rt, w3) = sys_bind sys (sk_sock s1) (addr_bytes a) w2
                in if rt \<noteq> 0 then (False, s1, w3)
                   else let (_, s2, w4) = getLocalAddress sys s1 w3 in (True, s2, w4))"

definition sock_listen :: "'w sys \<Rightarrow> int \<Rightarrow> socket \<Rightarrow> 'w \<Rightarrow> bool \<times> 'w" where
  "sock_listen sys backlog s w =
     (if \<not> isValid s then (False, w)
      else let (rt, w1) = sys_listen sys (sk_sock s) backlog w in (rt = 0, w1))"

section \<open>Data\<close>

text \<open>The results are ssize\_t of the calls, converted to int.\<close>

definition sock_send :: "'w sys \<Rightarrow> socket \<Rightarrow> byte list \<Rightarrow> int \<Rightarrow> 'w \<Rightarrow> int \<times> 'w" where
  "sock_send sys s bs flags w =
     (if sk_isConnected s then (let (rt, w1) = sys_send sys (sk_sock s) bs flags w in (to_int rt, w1)) else (- 1, w))"

definition sock_send_iov :: "'w sys \<Rightarrow> socket \<Rightarrow> byte list list \<Rightarrow> int \<Rightarrow> 'w \<Rightarrow> int \<times> 'w" where
  "sock_send_iov sys s bufs flags w =
     (if sk_isConnected s then (let (rt, w1) = sys_sendmsg sys (sk_sock s) bufs None flags w in (to_int rt, w1)) else (- 1, w))"

definition sock_sendTo :: "'w sys \<Rightarrow> socket \<Rightarrow> byte list \<Rightarrow> address \<Rightarrow> int \<Rightarrow> 'w \<Rightarrow> int \<times> 'w" where
  "sock_sendTo sys s bs a flags w =
     (if sk_isConnected s then (let (rt, w1) = sys_sendto sys (sk_sock s) bs flags (addr_bytes a) w in (to_int rt, w1))
      else (- 1, w))"

definition sock_sendTo_iov :: "'w sys \<Rightarrow> socket \<Rightarrow> byte list list \<Rightarrow> address \<Rightarrow> int \<Rightarrow> 'w \<Rightarrow> int \<times> 'w" where
  "sock_sendTo_iov sys s bufs a flags w =
     (if sk_isConnected s
      then (let (rt, w1) = sys_sendmsg sys (sk_sock s) bufs (Some (addr_bytes a)) flags w in (to_int rt, w1)) else (- 1, w))"

definition sock_recv :: "'w sys \<Rightarrow> socket \<Rightarrow> nat \<Rightarrow> int \<Rightarrow> 'w \<Rightarrow> int \<times> byte list \<times> 'w" where
  "sock_recv sys s n flags w =
     (if sk_isConnected s then (let (rt, bs, w1) = sys_recv sys (sk_sock s) n flags w in (to_int rt, bs, w1)) else (- 1, [], w))"

definition sock_recv_iov :: "'w sys \<Rightarrow> socket \<Rightarrow> nat list \<Rightarrow> int \<Rightarrow> 'w \<Rightarrow> int \<times> byte list \<times> 'w" where
  "sock_recv_iov sys s lens flags w =
     (if sk_isConnected s
      then (let (rt, bs, _, w1) = sys_recvmsg sys (sk_sock s) lens None flags w in (to_int rt, bs, w1)) else (- 1, [], w))"

text \<open>The sender's address is stored in the caller's object; the length that the kernel reports is dropped.\<close>

definition sock_recvFrom :: "'w sys \<Rightarrow> socket \<Rightarrow> nat \<Rightarrow> address \<Rightarrow> int \<Rightarrow> 'w \<Rightarrow> int \<times> byte list \<times> address \<times> 'w" where
  "sock_recvFrom sys s n from_addr flags w =
     (if sk_isConnected s
      then (let (rt, bs, ad, w1) = sys_recvfrom sys (sk_sock s) n flags (getAddrLen from_addr) w
            in (to_int rt, bs, store_address ad from_addr, w1))
      else (- 1, [], from_addr, w))"

definition sock_recvFrom_iov :: "'w sys \<Rightarrow> socket \<Rightarrow> nat list \<Rightarrow> address \<Rightarrow> int \<Rightarrow> 'w \<Rightarrow> int \<times> byte list \<times> address \<times> 'w" where
  "sock_recvFrom_iov sys s lens from_addr flags w =
     (if sk_isConnected s
      then (let (rt, bs, ad, w1) = sys_recvmsg sys (sk_sock s) lens (Some (getAddrLen from_addr)) flags w
            in (to_int rt, bs, store_address ad from_addr, w1))
      else (- 1, [], from_addr, w))"

section \<open>Text and events\<close>

definition opt_address_text :: "string \<Rightarrow> address option \<Rightarrow> string res" where
  "opt_address_text name a = (case a of None \<Rightarrow> Inr [] | Some x \<Rightarrow> sbind (address_toString x) (\<lambda>t. Inr (name @ t)))"

definition sock_toString :: "socket \<Rightarrow> string res" where
  "sock_toString s =
     sbind (opt_address_text '' local_address='' (sk_localAddress s)) (\<lambda>l.
       sbind (opt_address_text '' remote_address='' (sk_remoteAddress s)) (\<lambda>r.
         Inr (''[Socket sock='' @ int_text (sk_sock s) @ '' is_connected='' @ (if sk_isConnected s then ''1'' else ''0'') @
              '' family='' @ int_text (sk_family s) @ '' type='' @ int_text (sk_type s) @
              '' protocol='' @ int_text (sk_protocol s) @ l @ r @ '']'')))"

definition cancelRead :: "'w sys \<Rightarrow> socket \<Rightarrow> 'w \<Rightarrow> (bool \<times> 'w) res" where
  "cancelRead sys s w = sys_cancelEvent sys (sk_sock s) READ w"

definition cancelWrite :: "'w sys \<Rightarrow> socket \<Rightarrow> 'w \<Rightarrow> (bool \<times> 'w) res" where
  "cancelWrite sys s w = sys_cancelEvent sys (sk_sock s) WRITE w"

definition cancelAccept :: "'w sys \<Rightarrow> socket \<Rightarrow> 'w \<Rightarrow> (bool \<times> 'w) res" where
  "cancelAccept sys s w = sys_cancelEvent sys (sk_sock s) READ w"

definition sock_cancelAll :: "'w sys \<Rightarrow> socket \<Rightarrow> 'w \<Rightarrow> (bool \<times> 'w) res" where
  "sock_cancelAll sys s w = sys_cancelAll sys (sk_sock s) w"

end
