(* ===== verification/SocketFacts.thy ===== *)
theory SocketFacts
  imports Socket HookFacts
begin

text \<open>
  Who owns which descriptor. The documented effect of the calls on the set of open descriptors (\<open>posix\<close>), what the
  methods of a socket do to that set (\<open>holds\<close>), histories of a number of sockets, and the timeouts through the hooks.
\<close>

section \<open>The contract of the calls\<close>

text \<open>A call that makes a descriptor gives one that was not open, or -1 and nothing.\<close>

definition makes_fd :: "('w \<Rightarrow> int set) \<Rightarrow> ('w \<Rightarrow> int \<times> 'w) \<Rightarrow> bool" where
  "makes_fd opens f \<longleftrightarrow> (\<forall>w fd w'. f w = (fd, w') \<longrightarrow>
     opens w' = (if fd = - 1 then opens w else insert fd (opens w)) \<and> (fd \<noteq> - 1 \<longrightarrow> fd \<notin> opens w))"

definition keeps_fds :: "('w \<Rightarrow> int set) \<Rightarrow> ('w \<Rightarrow> 'a \<times> 'w) \<Rightarrow> bool" where
  "keeps_fds opens f \<longleftrightarrow> (\<forall>w. opens (snd (f w)) = opens w)"

definition posix :: "'w sys \<Rightarrow> ('w \<Rightarrow> int set) \<Rightarrow> bool" where
  "posix sys opens \<longleftrightarrow>
     (\<forall>f t p. makes_fd opens (sys_socket sys f t p)) \<and> (\<forall>fd. makes_fd opens (sys_accept sys fd)) \<and>
     (\<forall>fd w. opens (snd (sys_close sys fd w)) = opens w - {fd}) \<and>
     (\<forall>fd a. keeps_fds opens (sys_bind sys fd a)) \<and> (\<forall>fd a. keeps_fds opens (sys_connect sys fd a)) \<and>
     (\<forall>fd a t. keeps_fds opens (sys_connect_timeout sys fd a t)) \<and> (\<forall>fd n. keeps_fds opens (sys_listen sys fd n)) \<and>
     (\<forall>fd l n v. keeps_fds opens (sys_setsockopt sys fd l n v)) \<and>
     (\<forall>fd. keeps_fds opens (sys_getsockname sys fd)) \<and> (\<forall>fd. keeps_fds opens (sys_getpeername sys fd)) \<and>
     (\<forall>fd bs fl. keeps_fds opens (sys_send sys fd bs fl)) \<and>
     (\<forall>fd w b w'. sys_cancelAll sys fd w = Inr (b, w') \<longrightarrow> opens w' = opens w) \<and>
     (\<forall>fd n fl w rt bs w'. sys_recv sys fd n fl w = (rt, bs, w') \<longrightarrow> opens w' = opens w)"

text \<open>The table has the context of a socket for every descriptor that accept returns; the hooked accept sees to it.\<close>

definition accepts_managed :: "'w sys \<Rightarrow> bool" where
  "accepts_managed sys \<longleftrightarrow> (\<forall>fd w n w'. sys_accept sys fd w = (n, w') \<longrightarrow> n \<noteq> - 1 \<longrightarrow>
     (\<exists>c. sys_ctx sys n w' = Some c \<and> m_isSocket c \<and> \<not> m_isClosed c))"

section \<open>The methods\<close>

text \<open>The socket's descriptor is open, and \<open>R\<close> is the set of the descriptors that are open beside it.\<close>

definition fdset :: "socket \<Rightarrow> int set" where
  "fdset s = {sk_sock s} - {- 1}"

definition holds :: "('w \<Rightarrow> int set) \<Rightarrow> int set \<Rightarrow> socket \<Rightarrow> 'w \<Rightarrow> bool" where
  "holds opens R s w \<longleftrightarrow> fdset s \<subseteq> opens w \<and> opens w - fdset s = R"

lemma holds_new [simp]: "holds opens R (new_Socket f t p) w \<longleftrightarrow> opens w = R"
  by (auto simp: holds_def fdset_def new_Socket_def)

lemma holds_cong: "sk_sock s' = sk_sock s \<Longrightarrow> opens w' = opens w \<Longrightarrow> holds opens R s' w' = holds opens R s w"
  by (simp add: holds_def fdset_def)

lemma keeps_fdsD: "keeps_fds opens f \<Longrightarrow> f w = (r, w') \<Longrightarrow> opens w' = opens w"
  by (metis keeps_fds_def snd_conv)

lemma makes_fdD:
  "makes_fd opens f \<Longrightarrow> f w = (fd, w') \<Longrightarrow>
     opens w' = (if fd = - 1 then opens w else insert fd (opens w)) \<and> (fd \<noteq> - 1 \<longrightarrow> fd \<notin> opens w)"
  unfolding makes_fd_def by blast

lemma setOption_opens:
  assumes "posix sys opens"
  shows "opens (snd (setOption sys s l n v w)) = opens w"
proof -
  have "keeps_fds opens (sys_setsockopt sys (sk_sock s) l n v)" using assms by (simp add: posix_def)
  then show ?thesis by (simp add: setOption_def case_prod_unfold keeps_fds_def Let_def)
qed

lemma initSock_opens:
  assumes "posix sys opens"
  shows "opens (initSock sys s w) = opens w"
  using setOption_opens [OF assms] by (simp add: initSock_def Let_def)

lemma setTimeout_opens:
  assumes "posix sys opens"
  shows "opens (setRecvTimeout sys s v w) = opens w" "opens (setSendTimeout sys s v w) = opens w"
  using setOption_opens [OF assms] by (simp_all add: setRecvTimeout_def setSendTimeout_def)

lemma newSock_holds:
  assumes "posix sys opens" "sk_sock s = - 1" "holds opens R s w" "newSock sys s w = (s', w')"
  shows "holds opens R s' w'" "sk_sock s' = - 1 \<or> sk_sock s' \<notin> R"
proof -
  have mk: "makes_fd opens (sys_socket sys (sk_family s) (sk_type s) (sk_protocol s))" using assms(1) by (simp add: posix_def)
  obtain fd w1 where c: "sys_socket sys (sk_family s) (sk_type s) (sk_protocol s) w = (fd, w1)" by fastforce
  have s': "s' = s\<lparr>sk_sock := fd\<rparr>" "opens w' = opens w1"
    using assms(4) initSock_opens [OF assms(1)] by (auto simp: newSock_def c Let_def split: if_splits)
  show "holds opens R s' w'" "sk_sock s' = - 1 \<or> sk_sock s' \<notin> R"
    using makes_fdD [OF mk c] assms(2,3) by (auto simp: s' holds_def fdset_def split: if_splits)
qed

lemma ensure_sock_holds:
  assumes "posix sys opens" "holds opens R s w" "ensure_sock sys s w = (s', w')"
  shows "holds opens R s' w'"
  using assms newSock_holds(1) [OF assms(1)] by (auto simp: ensure_sock_def isValid_def split: if_splits)

lemma getRemoteAddress_holds:
  assumes "posix sys opens" "getRemoteAddress sys s w = (a, s', w')"
  shows "sk_sock s' = sk_sock s" "opens w' = opens w" "sk_isConnected s' = sk_isConnected s"
proof -
  have k: "keeps_fds opens (sys_getpeername sys (sk_sock s))" using assms(1) by (simp add: posix_def)
  show "sk_sock s' = sk_sock s" "opens w' = opens w" "sk_isConnected s' = sk_isConnected s"
    using assms(2) keeps_fdsD [OF k] by (auto simp: getRemoteAddress_def split: option.splits prod.splits)
qed

lemma getLocalAddress_holds:
  assumes "posix sys opens" "getLocalAddress sys s w = (a, s', w')"
  shows "sk_sock s' = sk_sock s" "opens w' = opens w" "sk_isConnected s' = sk_isConnected s"
proof -
  have k: "keeps_fds opens (sys_getsockname sys (sk_sock s))" using assms(1) by (simp add: posix_def)
  show "sk_sock s' = sk_sock s" "opens w' = opens w" "sk_isConnected s' = sk_isConnected s"
    using assms(2) keeps_fdsD [OF k] by (auto simp: getLocalAddress_def split: option.splits prod.splits)
qed

lemma sock_close_holds:
  assumes "posix sys opens" "holds opens R s w" "sock_close sys s w = (b, s', w')"
  shows "opens w' = R" "sk_sock s' = - 1" "holds opens R s' w'" "\<not> sk_isConnected s'"
proof -
  have "opens (snd (sys_close sys fd w)) = opens w - {fd}" for fd using assms(1) by (simp add: posix_def)
  then show "opens w' = R" "sk_sock s' = - 1" "holds opens R s' w'" "\<not> sk_isConnected s'"
    using assms(2,3) by (auto simp: sock_close_def holds_def fdset_def Let_def split: if_splits)
qed

lemma delete_Socket_opens:
  assumes "posix sys opens" "holds opens R s w"
  shows "opens (delete_Socket sys s w) = R"
  using sock_close_holds(1) [OF assms] unfolding delete_Socket_def by (metis prod.collapse)

lemma sock_connect_holds:
  assumes px: "posix sys opens" and h: "holds opens R s w" and c: "sock_connect sys a t s w = (b, s', w')"
  shows "holds opens R s' w'" "b \<Longrightarrow> sk_isConnected s' \<and> sk_sock s' \<noteq> - 1"
proof -
  obtain s1 w1 where e: "ensure_sock sys (s\<lparr>sk_remoteAddress := Some a\<rparr>) w = (s1, w1)" by fastforce
  have h1: "holds opens R s1 w1"
    using ensure_sock_holds [OF px _ e, of R] h by (simp add: holds_def fdset_def)
  define f where "f = (if t = - 1 then sys_connect sys (sk_sock s1) (addr_bytes a)
                       else sys_connect_timeout sys (sk_sock s1) (addr_bytes a) t)"
  have k: "keeps_fds opens f" using px by (simp add: posix_def f_def)
  obtain rt w2 where f: "f w1 = (rt, w2)" by fastforce
  then have h2: "holds opens R s1 w2" using keeps_fdsD [OF k f] h1 by (simp add: holds_def)
  have f': "(if t = - 1 then sys_connect sys (sk_sock s1) (addr_bytes a) w1
             else sys_connect_timeout sys (sk_sock s1) (addr_bytes a) t w1) = (rt, w2)"
    using f by (simp add: f_def split: if_splits)
  obtain b3 s3 w3 where cl: "sock_close sys s1 w2 = (b3, s3, w3)" using prod_cases3 by blast
  obtain ra s4 w4 where gr: "getRemoteAddress sys (s1\<lparr>sk_isConnected := True\<rparr>) w2 = (ra, s4, w4)" using prod_cases3 by blast
  obtain la s5 w5 where gl: "getLocalAddress sys s4 w4 = (la, s5, w5)" using prod_cases3 by blast
  have h3: "holds opens R s3 w3" using sock_close_holds(3) [OF px h2 cl] .
  have h5: "holds opens R s5 w5" "sk_isConnected s5" "sk_sock s5 = sk_sock s1"
    using h2 getRemoteAddress_holds [OF px gr] getLocalAddress_holds [OF px gl] by (auto simp: holds_def fdset_def)
  have r: "sock_connect sys a t s w =
      (if \<not> isValid s1 \<or> getFamily a \<noteq> sk_family s1 then (False, s1, w1) else if rt \<noteq> 0 then (False, s3, w3) else (True, s5, w5))"
    by (simp add: sock_connect_def e f' cl gr gl)
  show "holds opens R s' w'" using c h1 h3 h5(1) unfolding r by (auto split: if_splits)
  show "b \<Longrightarrow> sk_isConnected s' \<and> sk_sock s' \<noteq> - 1"
    using c h5(2,3) unfolding r by (auto simp: isValid_def split: if_splits)
qed

lemma sock_reconnect_holds:
  assumes "posix sys opens" "holds opens R s w" "sock_reconnect sys t s w = (b, s', w')"
  shows "holds opens R s' w'"
proof (cases "sk_remoteAddress s")
  case (Some a)
  then have "sock_connect sys a t (s\<lparr>sk_localAddress := None\<rparr>) w = (b, s', w')"
    using assms(3) by (simp add: sock_reconnect_def)
  moreover have "holds opens R (s\<lparr>sk_localAddress := None\<rparr>) w" using assms(2) by (simp add: holds_def fdset_def)
  ultimately show ?thesis using sock_connect_holds(1) [OF assms(1)] by blast
qed (use assms(2,3) in \<open>auto simp: sock_reconnect_def\<close>)

lemma unix_in_use_opens:
  assumes "posix sys opens" "unix_in_use sys a w = (b, w')"
  shows "opens w' = opens w"
proof -
  obtain ok s w1 where c: "sock_connect sys a (- 1) CreateUnixTCPSocket w = (ok, s, w1)" using prod_cases3 by blast
  have "holds opens (opens w) s w1"
    using sock_connect_holds(1) [OF assms(1) _ c, of "opens w"] by (simp add: CreateUnixTCPSocket_def)
  then show ?thesis using assms(2) delete_Socket_opens [OF assms(1)] by (auto simp: unix_in_use_def c)
qed

lemma sock_bind_holds:
  assumes px: "posix sys opens" and h: "holds opens R s w" and c: "sock_bind sys a s w = (b, s', w')"
  shows "holds opens R s' w'"
proof -
  obtain s1 w1 where e: "ensure_sock sys s w = (s1, w1)" by fastforce
  have h1: "holds opens R s1 w1" using ensure_sock_holds [OF px h e] .
  obtain used w2 where u: "(case a of UnixAddress _ _ \<Rightarrow> unix_in_use sys a w1 | _ \<Rightarrow> (False, w1)) = (used, w2)" by fastforce
  have o2: "opens w2 = opens w1" using u unix_in_use_opens [OF px] by (auto split: address.splits)
  obtain rt w3 where bd: "sys_bind sys (sk_sock s1) (addr_bytes a) w2 = (rt, w3)" by fastforce
  have "keeps_fds opens (sys_bind sys (sk_sock s1) (addr_bytes a))" using px by (simp add: posix_def)
  then have o3: "opens w3 = opens w2" using bd keeps_fdsD by metis
  obtain la s2 w4 where gl: "getLocalAddress sys s1 w3 = (la, s2, w4)" using prod_cases3 by blast
  note g = getLocalAddress_holds [OF px gl]
  have r: "sock_bind sys a s w =
      (if \<not> isValid s1 \<or> getFamily a \<noteq> sk_family s1 then (False, s1, w1) else if used then (False, s1, w2)
       else if rt \<noteq> 0 then (False, s1, w3) else (True, s2, w4))"
    by (simp add: sock_bind_def e u bd gl)
  show ?thesis using c h1 o2 o3 g unfolding r by (auto simp: holds_def fdset_def split: if_splits)
qed

lemma sock_listen_opens:
  assumes "posix sys opens" "sock_listen sys n s w = (b, w')"
  shows "opens w' = opens w"
  using assms keeps_fdsD [of opens "sys_listen sys (sk_sock s) n" w]
  by (auto simp: sock_listen_def posix_def split: if_splits prod.splits)

text \<open>A call of init on a descriptor that is not open yet for the socket: it takes it over, or it stays where it is.\<close>

lemma sock_init_holds:
  assumes px: "posix sys opens" and i: "sock_init sys fd s w = (ok, s', w')" and m: "sk_sock s = - 1"
    and fd: "fd \<noteq> - 1" "fd \<in> opens w"
  shows "ok \<Longrightarrow> holds opens (opens w - {fd}) s' w' \<and> sk_isConnected s' \<and> sk_sock s' = fd"
    and "\<not> ok \<Longrightarrow> s' = s \<and> w' = w"
proof -
  define s1 where "s1 = s\<lparr>sk_sock := fd, sk_isConnected := True\<rparr>"
  obtain la s2 w2 where gl: "getLocalAddress sys s1 (initSock sys s1 w) = (la, s2, w2)" using prod_cases3 by blast
  obtain ra s3 w3 where gr: "getRemoteAddress sys s2 w2 = (ra, s3, w3)" using prod_cases3 by blast
  have r: "sock_init sys fd s w = (case sys_ctx sys fd w of None \<Rightarrow> (False, s, w)
      | Some c \<Rightarrow> if m_isSocket c \<and> \<not> m_isClosed c then (True, s3, w3) else (False, s, w))"
    by (simp add: sock_init_def s1_def [symmetric] gl gr split: option.split)
  show "ok \<Longrightarrow> holds opens (opens w - {fd}) s' w' \<and> sk_isConnected s' \<and> sk_sock s' = fd"
    using i fd getLocalAddress_holds [OF px gl] getRemoteAddress_holds [OF px gr] initSock_opens [OF px, of s1 w] unfolding r
    by (auto simp: holds_def fdset_def s1_def split: option.splits if_splits)
  show "\<not> ok \<Longrightarrow> s' = s \<and> w' = w" using i unfolding r by (auto split: option.splits if_splits)
qed

lemma sock_accept_holds:
  assumes px: "posix sys opens" and mg: "accepts_managed sys" and c: "sock_accept sys s w = (r, w')"
  shows "r = None \<Longrightarrow> opens w' = opens w"
    and "r = Some s' \<Longrightarrow> holds opens (opens w) s' w' \<and> sk_isConnected s' \<and> sk_sock s' \<noteq> - 1 \<and> sk_sock s' \<notin> opens w"
proof -
  define n where "n = new_Socket (sk_family s) (sk_type s) (sk_protocol s)"
  obtain fd w1 where a: "sys_accept sys (sk_sock s) w = (fd, w1)" by fastforce
  have "makes_fd opens (sys_accept sys (sk_sock s))" using px by (simp add: posix_def)
  then have mk: "opens w1 = (if fd = - 1 then opens w else insert fd (opens w))" "fd \<noteq> - 1 \<longrightarrow> fd \<notin> opens w"
    using makes_fdD a by metis+
  obtain ok n1 w2 where i: "sock_init sys fd n w1 = (ok, n1, w2)" using prod_cases3 by blast
  have n: "sk_sock n = - 1" "delete_Socket sys n v = v" for v
    by (simp_all add: n_def new_Socket_def delete_Socket_def sock_close_def)
  have rr: "sock_accept sys s w =
      (if fd = - 1 then (None, w1) else if ok then (Some n1, w2) else (None, delete_Socket sys n1 w2))"
    using n(2) by (simp add: sock_accept_def n_def [symmetric] a i)
  have ok: "ok" if nz: "fd \<noteq> - 1"
  proof -
    obtain c where "sys_ctx sys fd w1 = Some c" "m_isSocket c" "\<not> m_isClosed c"
      using mg a nz unfolding accepts_managed_def by blast
    then show ?thesis using i by (auto simp: sock_init_def Let_def split: prod.splits)
  qed
  show "r = None \<Longrightarrow> opens w' = opens w" using c ok mk unfolding rr by (auto split: if_splits)
  show "r = Some s' \<Longrightarrow> holds opens (opens w) s' w' \<and> sk_isConnected s' \<and> sk_sock s' \<noteq> - 1 \<and> sk_sock s' \<notin> opens w"
    using c ok mk sock_init_holds(1) [OF px i n(1)] unfolding rr by (auto split: if_splits)
qed

lemma CreateUDP_holds:
  assumes "posix sys opens" "CreateUDP sys a w = (s', w')"
  shows "holds opens (opens w) s' w'"
proof -
  obtain s1 where n: "newSock sys (new_Socket (getFamily a) SOCK_DGRAM 0) w = (s1, w')" and s': "s' = s1\<lparr>sk_isConnected := True\<rparr>"
    using assms(2) by (auto simp: CreateUDP_def split: prod.splits)
  have "holds opens (opens w) s1 w'"
    by (rule newSock_holds(1) [OF assms(1) _ _ n]) (simp_all add: new_Socket_def holds_def fdset_def)
  then show ?thesis by (simp add: s' holds_def fdset_def)
qed

section \<open>Histories\<close>

text \<open>What is done to one socket.\<close>

inductive sock_step :: "'w sys \<Rightarrow> socket \<Rightarrow> 'w \<Rightarrow> socket \<Rightarrow> 'w \<Rightarrow> bool" for sys where
  step_bind: "sock_bind sys a s w = (b, s', w') \<Longrightarrow> sock_step sys s w s' w'"
| step_connect: "sock_connect sys a t s w = (b, s', w') \<Longrightarrow> sock_step sys s w s' w'"
| step_reconnect: "sock_reconnect sys t s w = (b, s', w') \<Longrightarrow> sock_step sys s w s' w'"
| step_listen: "sock_listen sys n s w = (b, w') \<Longrightarrow> sock_step sys s w s w'"
| step_close: "sock_close sys s w = (b, s', w') \<Longrightarrow> sock_step sys s w s' w'"
| step_remote: "getRemoteAddress sys s w = (a, s', w') \<Longrightarrow> sock_step sys s w s' w'"
| step_local: "getLocalAddress sys s w = (a, s', w') \<Longrightarrow> sock_step sys s w s' w'"
| step_recv_timeout: "sock_step sys s w s (setRecvTimeout sys s v w)"
| step_send_timeout: "sock_step sys s w s (setSendTimeout sys s v w)"
| step_send: "sock_send sys s bs n w = (r, w') \<Longrightarrow> sock_step sys s w s w'"
| step_recv: "sock_recv sys s n fl w = (r, bs, w') \<Longrightarrow> sock_step sys s w s w'"

text \<open>The sockets there are, while they are made, used, accepted and deleted in any order.\<close>

inductive sock_history :: "'w sys \<Rightarrow> 'w \<Rightarrow> socket list \<Rightarrow> 'w \<Rightarrow> bool" for sys w0 where
  hist_start: "sock_history sys w0 [] w0"
| hist_create: "sock_history sys w0 ss w \<Longrightarrow> sock_history sys w0 (new_Socket f t p # ss) w"
| hist_udp: "sock_history sys w0 ss w \<Longrightarrow> CreateUDP sys a w = (s, w') \<Longrightarrow> sock_history sys w0 (s # ss) w'"
| hist_step: "sock_history sys w0 (xs @ s # ys) w \<Longrightarrow> sock_step sys s w s' w' \<Longrightarrow> sock_history sys w0 (xs @ s' # ys) w'"
| hist_accept: "sock_history sys w0 ss w \<Longrightarrow> s \<in> set ss \<Longrightarrow> sock_accept sys s w = (Some s', w') \<Longrightarrow>
    sock_history sys w0 (s' # ss) w'"
| hist_accept_fails: "sock_history sys w0 ss w \<Longrightarrow> s \<in> set ss \<Longrightarrow> sock_accept sys s w = (None, w') \<Longrightarrow>
    sock_history sys w0 ss w'"
| hist_delete: "sock_history sys w0 (xs @ s # ys) w \<Longrightarrow> sock_history sys w0 (xs @ ys) (delete_Socket sys s w)"

text \<open>Beside \<open>R\<close> the open descriptors are those of the sockets, each of one.\<close>

primrec owned :: "int set \<Rightarrow> socket list \<Rightarrow> int set \<Rightarrow> bool" where
  "owned R [] P \<longleftrightarrow> P = R"
| "owned R (s # ss) P \<longleftrightarrow> fdset s \<subseteq> P \<and> owned R ss (P - fdset s)"

lemma owned_focus: "owned R (xs @ s # ys) P \<longleftrightarrow> fdset s \<subseteq> P \<and> owned R (xs @ ys) (P - fdset s)"
proof (induction xs arbitrary: P)
  case (Cons x xs)
  have "P - fdset x - fdset s = P - fdset s - fdset x" by blast
  then show ?case using Cons by auto
qed simp

lemma owned_holds: "owned R (xs @ s # ys) (opens w) \<longleftrightarrow> (\<exists>Q. holds opens Q s w \<and> owned R (xs @ ys) Q)"
  by (auto simp: owned_focus holds_def)

lemma owned_distinct:
  "owned R ss P \<Longrightarrow> distinct (filter (\<lambda>fd. fd \<noteq> - 1) (map sk_sock ss)) \<and>
     P = R \<union> (set (map sk_sock ss) - {- 1}) \<and> R \<inter> (set (map sk_sock ss) - {- 1}) = {}"
proof (induction ss arbitrary: P)
  case (Cons s ss)
  then have "fdset s \<subseteq> P" "owned R ss (P - fdset s)" by auto
  then show ?case using Cons.IH [of "P - fdset s"] by (auto simp: fdset_def)
qed simp

lemma sock_step_holds:
  assumes "posix sys opens" "sock_step sys s w s' w'" "holds opens R s w"
  shows "holds opens R s' w'"
  using assms(2)
proof cases
  case (step_bind a b)
  then show ?thesis using sock_bind_holds assms(1,3) by metis
next
  case (step_connect a t b)
  then show ?thesis using sock_connect_holds(1) assms(1,3) by metis
next
  case (step_reconnect t b)
  then show ?thesis using sock_reconnect_holds assms(1,3) by metis
next
  case (step_listen n b)
  then show ?thesis using sock_listen_opens assms(1,3) by (metis holds_def)
next
  case (step_close b)
  then show ?thesis using sock_close_holds(3) assms(1,3) by metis
next
  case (step_remote a)
  then show ?thesis using getRemoteAddress_holds [OF assms(1)] assms(3) holds_cong by metis
next
  case (step_local a)
  then show ?thesis using getLocalAddress_holds [OF assms(1)] assms(3) holds_cong by metis
next
  case (step_recv_timeout v)
  then show ?thesis using setTimeout_opens(1) [OF assms(1)] assms(3) by (simp add: holds_def)
next
  case (step_send_timeout v)
  then show ?thesis using setTimeout_opens(2) [OF assms(1)] assms(3) by (simp add: holds_def)
next
  case (step_send bs n r)
  have "keeps_fds opens (sys_send sys (sk_sock s) bs n)" using assms(1) by (simp add: posix_def)
  then have "opens w' = opens w"
    using step_send(2) keeps_fdsD [of opens "sys_send sys (sk_sock s) bs n" w] by (auto simp: sock_send_def split: if_splits prod.splits)
  then show ?thesis using step_send(1) assms(3) by (simp add: holds_def)
next
  case (step_recv n fl r bs)
  have "sys_recv sys (sk_sock s) n fl w = (rt, b, v) \<Longrightarrow> opens v = opens w" for rt b v
    using assms(1) unfolding posix_def by blast
  then show ?thesis using step_recv assms(3) by (auto simp: sock_recv_def holds_def split: if_splits prod.splits)
qed

lemma history_owned:
  assumes px: "posix sys opens" and mg: "accepts_managed sys" and h: "sock_history sys w0 ss w"
  shows "owned (opens w0) ss (opens w)"
  using h
proof induction
  case (hist_create ss w f t p)
  then show ?case by (simp add: fdset_def new_Socket_def)
next
  case (hist_udp ss w a s w')
  then show ?case using CreateUDP_holds [OF px] by (fastforce simp: holds_def)
next
  case (hist_step xs s ys w s' w')
  then show ?case using sock_step_holds [OF px] unfolding owned_holds by blast
next
  case (hist_accept ss w s s' w')
  then show ?case using sock_accept_holds(2) [OF px mg, of s w "Some s'" w' s'] by (simp add: holds_def)
next
  case (hist_accept_fails ss w s w')
  then show ?case using sock_accept_holds(1) [OF px mg, of s w None w'] by simp
next
  case (hist_delete xs s ys w)
  then show ?case using delete_Socket_opens [OF px] unfolding owned_holds by blast
qed simp


text \<open>A kernel of open descriptors, of which a new one is one beyond all that are open.\<close>

definition sample_ctx :: "int \<Rightarrow> fdctx" where
  "sample_ctx fd = \<lparr>m_isInit = True, m_isSocket = True, m_sysNonblock = True, m_userNonblock = False, m_isClosed = False,
     m_fd = fd, m_recvTimeout = - 1, m_sendTimeout = - 1\<rparr>"

definition sample_new :: "int list \<Rightarrow> int \<times> int list" where
  "sample_new w = (let fd = 1 + foldr max w 0 in (fd, fd # w))"

definition sample_sys :: "int list sys" where
  "sample_sys =
     \<lparr>sys_socket = (\<lambda>_ _ _. sample_new), sys_accept = (\<lambda>_. sample_new), sys_bind = (\<lambda>_ _. Pair 0),
      sys_connect = (\<lambda>_ _. Pair 0), sys_connect_timeout = (\<lambda>_ _ _. Pair 0), sys_listen = (\<lambda>_ _. Pair 0),
      sys_close = (\<lambda>fd w. (0, filter (\<lambda>x. x \<noteq> fd) w)), sys_send = (\<lambda>_ bs _ w. (int (length bs), w)),
      sys_sendto = (\<lambda>_ bs _ _ w. (int (length bs), w)), sys_sendmsg = (\<lambda>_ _ _ _. Pair 0),
      sys_recv = (\<lambda>_ _ _ w. (0, [], w)), sys_recvfrom = (\<lambda>_ _ _ _ w. (0, [], [], w)), sys_recvmsg = (\<lambda>_ _ _ _ w. (0, [], [], w)),
      sys_getsockopt = (\<lambda>_ _ _ n w. (0, replicate n 0, w)), sys_setsockopt = (\<lambda>_ _ _ _. Pair 0),
      sys_getsockname = (\<lambda>_. Pair None), sys_getpeername = (\<lambda>_. Pair None), sys_ctx = (\<lambda>fd _. Some (sample_ctx fd)),
      sys_errno = (\<lambda>_. 0), sys_cancelEvent = (\<lambda>_ _ w. Inr (False, w)), sys_cancelAll = (\<lambda>_ w. Inr (False, w))\<rparr>"

lemma sample_fresh: "x \<in> set w \<Longrightarrow> x \<le> foldr max w (0 :: int)" "0 \<le> foldr max w (0 :: int)"
  by (induction w) auto

lemma sample_posix: "posix sample_sys set" "accepts_managed sample_sys"
proof -
  have "1 + foldr max w 0 \<notin> set w" "1 + foldr max w 0 \<noteq> - 1" for w :: "int list"
    using sample_fresh(1) [of "1 + foldr max w 0" w] sample_fresh(2) [of w] by auto
  then have "makes_fd set sample_new" by (auto simp: makes_fd_def sample_new_def Let_def)
  then show "posix sample_sys set" by (auto simp: posix_def sample_sys_def keeps_fds_def)
  show "accepts_managed sample_sys" by (simp add: accepts_managed_def sample_sys_def sample_ctx_def)
qed


section \<open>Timeouts\<close>

text \<open>setsockopt and the table of descriptors are those of the hooks.\<close>

definition uses_hooks :: "('u, 'k) hooked sys \<Rightarrow> (int \<Rightarrow> int \<Rightarrow> int \<Rightarrow> 'k syscall) \<Rightarrow> bool" where
  "uses_hooks sys real \<longleftrightarrow> sys_ctx sys = fd_ctx \<and>
     (\<forall>fd l n sec usec w r. hooked_setsockopt (real fd l n) fd l n (sec, usec) w = Inr r \<longrightarrow>
        sys_setsockopt sys fd l n (TimevalOpt sec usec) w = r)"

text \<open>The milliseconds the hook makes of the timeval are the ones the caller gave, when the seconds fit an int.\<close>

lemma timeval_roundtrip:
  assumes "- (2 ^ 31) \<le> v div 1000" "v div 1000 < 2 ^ 31 - 1"
  shows "\<exists>sec usec. timeval_of v = TimevalOpt sec usec \<and> timeval_ms sec usec = Inr (word_of_int v)"
proof -
  let ?q = "sgn v * (\<bar>v\<bar> div 1000)" and ?r = "sgn v * (\<bar>v\<bar> mod 1000)"
  have "?q * 1000 + ?r = sgn v * (\<bar>v\<bar> div 1000 * 1000 + \<bar>v\<bar> mod 1000)" by (simp only: distrib_left mult.assoc)
  then have v: "v = ?q * 1000 + ?r" by (simp only: div_mult_mod_eq mult_sgn_abs)
  have q: "- (2 ^ 31) \<le> ?q" "?q < 2 ^ 31"
    using assms by (cases v "0 :: int" rule: linorder_cases; simp; presburger)+
  have r: "- 1000 < ?r" "?r < 1000"
    by (cases v "0 :: int" rule: linorder_cases; simp; presburger)+
  have ms: "sgn (?r * 1000) * (\<bar>?r * 1000\<bar> div 1000) = ?r"
    by (cases v "0 :: int" rule: linorder_cases) (auto simp: abs_mult sgn_mult sgn_if)
  have "to_int ?q = ?q" "to_int (?r * 1000) = ?r * 1000" using q r by (auto intro!: to_int_small)
  moreover have "timeval_ms ?q (?r * 1000) = Inr (word_of_int v)"
    using q r unfolding timeval_ms_def ms Let_def by (subst (5) v) (auto simp: v [symmetric])
  ultimately show ?thesis by (simp add: timeval_of_def Let_def)
qed

lemma hooked_timeout:
  assumes "uses_hooks sys real" "hk_enable w" "fd_ctx (sk_sock s) w = Some c" "opt = SO_RCVTIMEO \<or> opt = SO_SNDTIMEO"
    and "timeval_ms sec usec = Inr x"
  shows "fd_ctx (sk_sock s) (snd (setOption sys s SOL_SOCKET opt (TimevalOpt sec usec) w)) = Some (setTimeout opt x c)"
    "hk_enable (snd (setOption sys s SOL_SOCKET opt (TimevalOpt sec usec) w))"
proof -
  obtain n w' where r: "real_call (real (sk_sock s) SOL_SOCKET opt) (upd_ctx (sk_sock s) (setTimeout opt x) w) = (n, w')"
    by fastforce
  have "hooked_setsockopt (real (sk_sock s) SOL_SOCKET opt) (sk_sock s) SOL_SOCKET opt (sec, usec) w = Inr (n, w')"
    using assms(2-5) r by (auto simp: hooked_setsockopt_def)
  then have "sys_setsockopt sys (sk_sock s) SOL_SOCKET opt (TimevalOpt sec usec) w = (n, w')"
    using assms(1) unfolding uses_hooks_def by blast
  moreover have "fd_ctx (sk_sock s) w' = Some (setTimeout opt x c)" "hk_enable w'"
    using fd_ctx_upd [OF assms(3), of "setTimeout opt x"] r assms(2)
    by (auto simp: real_call_def Let_def fd_ctx_def split: prod.splits sum.splits option.splits)
  ultimately show "fd_ctx (sk_sock s) (snd (setOption sys s SOL_SOCKET opt (TimevalOpt sec usec) w)) = Some (setTimeout opt x c)"
    "hk_enable (snd (setOption sys s SOL_SOCKET opt (TimevalOpt sec usec) w))"
    by (simp_all add: setOption_def)
qed

text \<open>
  Claim C24. A timeout set on a socket goes through the timeval and the hooked setsockopt into the table of descriptors and is
  read back, also a negative one; the other timeout keeps its value, and the next hooked call on the socket waits
  that long. The number of seconds has to fit an int.
\<close>

theorem timeout_roundtrip:
  assumes "uses_hooks sys real" "hk_enable w" "fd_ctx (sk_sock s) w = Some c"
    and "- (2 ^ 31) \<le> v div 1000" "v div 1000 < 2 ^ 31 - 1"
  shows "getRecvTimeout sys s (setRecvTimeout sys s v w) = v \<and> getSendTimeout sys s (setSendTimeout sys s v w) = v \<and>
    getSendTimeout sys s (setRecvTimeout sys s v w) = getSendTimeout sys s w \<and>
    (m_isSocket c \<and> \<not> m_isClosed c \<and> \<not> m_userNonblock c \<longrightarrow>
       do_io_path (sk_sock s) SO_RCVTIMEO (setRecvTimeout sys s v w) = Managed (word_of_int v))"
proof -
  obtain sec usec where t: "timeval_of v = TimevalOpt sec usec" "timeval_ms sec usec = Inr (word_of_int v)"
    using timeval_roundtrip [OF assms(4,5)] by blast
  note r = hooked_timeout [OF assms(1-3) _ t(2), of SO_RCVTIMEO] and w = hooked_timeout [OF assms(1-3) _ t(2), of SO_SNDTIMEO]
  have sint: "sint (word_of_int v :: u64) = v" using assms(4,5) by (simp add: int_word_sint)
  have c: "sys_ctx sys = fd_ctx" using assms(1) by (simp add: uses_hooks_def)
  have "SO_RCVTIMEO \<noteq> SO_SNDTIMEO" by (simp add: SO_RCVTIMEO_def SO_SNDTIMEO_def)
  then show ?thesis using r w assms(3) sint
    by (auto simp: getRecvTimeout_def getSendTimeout_def setRecvTimeout_def setSendTimeout_def t(1) c getTimeout_def setTimeout_def
        do_io_path_def)
qed

text \<open>The calls of a process that has hooked them, over any other calls.\<close>

definition hooked_sys :: "('u, 'k) hooked sys \<Rightarrow> ('u, 'k) hooked sys" where
  "hooked_sys base = base\<lparr>sys_ctx := fd_ctx,
     sys_setsockopt := (\<lambda>fd l n v w. case v of
        TimevalOpt sec usec \<Rightarrow> (case hooked_setsockopt (\<lambda>k. (0, 0, k)) fd l n (sec, usec) w of Inr r \<Rightarrow> r | Inl _ \<Rightarrow> (- 1, w))
      | _ \<Rightarrow> (0, w))\<rparr>"

lemma hooked_sys_uses_hooks: "uses_hooks (hooked_sys base) (\<lambda>_ _ _ k. (0, 0, k))"
  by (auto simp: uses_hooks_def hooked_sys_def split: sum.splits)

theorem timeout_roundtrip_witness:
  "\<exists>(w :: (unit, nat) hooked) c. fd_ctx 3 w = Some c \<and>
     (\<forall>base. getRecvTimeout (hooked_sys base) ((new_Socket 2 1 0)\<lparr>sk_sock := 3\<rparr>)
        (setRecvTimeout (hooked_sys base) ((new_Socket 2 1 0)\<lparr>sk_sock := 3\<rparr>) (- 1500) w) = - 1500)"
proof -
  let ?s = "(new_Socket 2 1 0)\<lparr>sk_sock := 3\<rparr>"
  define w where "w = sample_hooked\<lparr>hk_fds := \<lparr>m_datas = replicate 64 (Some 9), fd_ctxs = [9 \<mapsto> sample_ctx 3],
    fd_flags = \<lambda>_. 0\<rparr>\<rparr>"
  have w: "hk_enable w" "fd_ctx (sk_sock ?s) w = Some (sample_ctx 3)"
    by (auto simp: w_def sample_hooked_def fd_ctx_def get_lookup_def)
  have "getRecvTimeout (hooked_sys base) ?s (setRecvTimeout (hooked_sys base) ?s (- 1500) w) = - 1500" for base
    using timeout_roundtrip [OF hooked_sys_uses_hooks w, of "- 1500" base] by simp
  then show ?thesis using w(2) by (intro exI [of _ w] exI [of _ "sample_ctx 3"]) simp
qed

end
