(* ===== verification/UriSearch.thy ===== *)
theory UriSearch
  imports UriParser
begin

text \<open>
  The two binary searches of the machine of URIs find what a scan of the row from the left finds: the first key that
  is equal, the first range that holds the character. The rows only have to be sorted.
\<close>

section \<open>The scan\<close>

primrec find_key :: "int list \<Rightarrow> int \<Rightarrow> nat option" where
  "find_key [] c = None"
| "find_key (k # ks) c = (if c = k then Some 0 else map_option Suc (find_key ks c))"

fun find_range :: "int list \<Rightarrow> int \<Rightarrow> nat option" where
  "find_range (a # b # ks) c = (if a \<le> c \<and> c \<le> b then Some 0 else map_option Suc (find_range ks c))"
| "find_range ks c = None"

text \<open>The place of the transition in its row: the single keys, the ranges, and what is left.\<close>

definition row_index :: "int list \<Rightarrow> int list \<Rightarrow> int \<Rightarrow> nat" where
  "row_index sk rk c =
     (case find_key sk c of
        Some i \<Rightarrow> i
      | None \<Rightarrow> length sk + (case find_range rk c of Some i \<Rightarrow> i | None \<Rightarrow> length rk div 2))"

fun ranges_ok :: "int list \<Rightarrow> bool" where
  "ranges_ok (a # b # ks) \<longleftrightarrow> a \<le> b \<and> (ks \<noteq> [] \<longrightarrow> b < hd ks) \<and> ranges_ok ks"
| "ranges_ok ks \<longleftrightarrow> ks = []"

lemma find_key_None: "find_key ks c = None \<longleftrightarrow> c \<notin> set ks"
  by (induction ks) auto

lemma find_key_at: "sorted_wrt (<) ks \<Longrightarrow> i < length ks \<Longrightarrow> find_key ks (ks ! i) = Some i"
proof (induction ks arbitrary: i)
  case (Cons k ks)
  then show ?case by (cases i) (auto simp: less_Suc_eq_0_disj)
qed simp

lemma find_range_None:
  "find_range ks c = None \<longleftrightarrow> (\<forall>i < length ks div 2. \<not> (ks ! (2 * i) \<le> c \<and> c \<le> ks ! (2 * i + 1)))"
proof (induction ks c rule: find_range.induct)
  case (1 a b ks c)
  then show ?case by (auto simp: All_less_Suc2)
qed auto

lemma ranges_ok_sorted: "ranges_ok ks \<Longrightarrow> sorted ks"
proof (induction ks rule: ranges_ok.induct)
  case (1 a b ks)
  then show ?case by (cases ks) auto
qed auto

lemma ranges_ok_even: "ranges_ok ks \<Longrightarrow> even (length ks)"
  by (induction ks rule: ranges_ok.induct) auto

lemma find_range_at:
  "ranges_ok ks \<Longrightarrow> i < length ks div 2 \<Longrightarrow> ks ! (2 * i) \<le> c \<Longrightarrow> c \<le> ks ! (2 * i + 1) \<Longrightarrow> find_range ks c = Some i"
proof (induction ks c arbitrary: i rule: find_range.induct)
  case (1 a b ks c)
  show ?case
  proof (cases i)
    case 0
    with 1 show ?thesis by simp
  next
    case (Suc j)
    have "b < c"
    proof -
      have "sorted ks" and "2 * j < length ks" and "b < hd ks"
        using 1 Suc ranges_ok_sorted by auto
      then have "hd ks \<le> ks ! (2 * j)"
        by (metis hd_conv_nth length_0_conv less_nat_zero_code sorted_nth_mono zero_le)
      with \<open>b < hd ks\<close> 1(4) Suc show ?thesis by simp
    qed
    with 1 Suc show ?thesis by simp
  qed
qed auto

section \<open>The searches\<close>

lemma elem_at_ok [simp]: "0 \<le> i \<Longrightarrow> i < int (length xs) \<Longrightarrow> elem_at xs i = Inr (xs ! nat i)"
  by (simp add: elem_at_def)

text \<open>What a search between \<open>lo\<close> and \<open>up\<close> may answer.\<close>

definition key_found :: "int list \<Rightarrow> int \<Rightarrow> int \<Rightarrow> int \<Rightarrow> int option \<Rightarrow> bool" where
  "key_found keys c lo up r \<longleftrightarrow>
     (case r of
        Some m \<Rightarrow> lo \<le> m \<and> m \<le> up \<and> keys ! nat m = c
      | None \<Rightarrow> \<forall>i. lo \<le> i \<longrightarrow> i \<le> up \<longrightarrow> keys ! nat i \<noteq> c)"

definition range_found :: "int list \<Rightarrow> int \<Rightarrow> int \<Rightarrow> int \<Rightarrow> int option \<Rightarrow> bool" where
  "range_found keys c lo up r \<longleftrightarrow>
     (case r of
        Some m \<Rightarrow> lo \<le> m \<and> m \<le> up \<and> even (m - lo) \<and> keys ! nat m \<le> c \<and> c \<le> keys ! nat (m + 1)
      | None \<Rightarrow> \<forall>i. lo \<le> i \<longrightarrow> i \<le> up \<longrightarrow> even (i - lo) \<longrightarrow> \<not> (keys ! nat i \<le> c \<and> c \<le> keys ! nat (i + 1)))"

lemma key_found_left:
  assumes r: "key_found keys c lo (mid - 1) r" and m: "mid \<le> up"
    and o: "\<And>i. mid \<le> i \<Longrightarrow> i \<le> up \<Longrightarrow> keys ! nat i \<noteq> c"
  shows "key_found keys c lo up r"
proof (cases r)
  case None
  have "keys ! nat i \<noteq> c" if "lo \<le> i" "i \<le> up" for i
    using that r o [of i] None by (cases "mid \<le> i") (auto simp: key_found_def)
  with None show ?thesis by (auto simp: key_found_def)
qed (use r m in \<open>auto simp: key_found_def\<close>)

lemma key_found_right:
  assumes r: "key_found keys c (mid + 1) up r" and m: "lo \<le> mid"
    and o: "\<And>i. lo \<le> i \<Longrightarrow> i \<le> mid \<Longrightarrow> keys ! nat i \<noteq> c"
  shows "key_found keys c lo up r"
proof (cases r)
  case None
  have "keys ! nat i \<noteq> c" if "lo \<le> i" "i \<le> up" for i
    using that r o [of i] None by (cases "i \<le> mid") (auto simp: key_found_def)
  with None show ?thesis by (auto simp: key_found_def)
qed (use r m in \<open>auto simp: key_found_def\<close>)

lemma key_search_spec:
  assumes "0 \<le> lo" "up < int (length keys)"
    and "\<And>i j. lo \<le> i \<Longrightarrow> i < j \<Longrightarrow> j \<le> up \<Longrightarrow> keys ! nat i < keys ! nat j"
  shows "\<exists>r. key_search keys c lo up = Inr r \<and> key_found keys c lo up r"
  using assms
proof (induction keys c lo up rule: key_search.induct)
  case (1 keys c lo up)
  show ?case
  proof (cases "up < lo")
    case True
    then show ?thesis by (subst key_search.simps) (auto simp: key_found_def)
  next
    case False
    define mid where "mid = lo + (up - lo) div 2"
    have m: "lo \<le> mid" "mid \<le> up" using False by (auto simp: mid_def)
    have el: "elem_at keys mid = Inr (keys ! nat mid)" using m 1(3,4) by simp
    consider "c < keys ! nat mid" | "keys ! nat mid < c" | "keys ! nat mid = c" by linarith
    then show ?thesis
    proof cases
      case 1
      have "key_search keys c lo up = key_search keys c lo (mid - 1)"
        using False el 1 by (subst key_search.simps) (simp add: mid_def Let_def)
      moreover have "keys ! nat i \<noteq> c" if "mid \<le> i" "i \<le> up" for i
        using that 1 "1.prems"(3) [of mid i] m by (cases "i = mid") auto
      ultimately show ?thesis
        using "1.IH"(1) [OF False mid_def el] 1 "1.prems" m by (force intro: key_found_left)
    next
      case 2
      have "key_search keys c lo up = key_search keys c (mid + 1) up"
        using False el 2 by (subst key_search.simps) (simp add: mid_def Let_def)
      moreover have "keys ! nat i \<noteq> c" if "lo \<le> i" "i \<le> mid" for i
        using that 2 "1.prems"(3) [of i mid] m by (cases "i = mid") auto
      ultimately show ?thesis
        using "1.IH"(2) [OF False mid_def el] 2 "1.prems" m by (force intro: key_found_right)
    next
      case 3
      then have "key_search keys c lo up = Inr (Some mid)"
        using False el by (subst key_search.simps) (simp add: mid_def Let_def)
      with 3 m show ?thesis by (auto simp: key_found_def)
    qed
  qed
qed

lemma range_found_left:
  assumes r: "range_found keys c lo (mid - 2) r" and m: "mid \<le> up" "even (mid - lo)"
    and o: "\<And>i. mid \<le> i \<Longrightarrow> i \<le> up \<Longrightarrow> c < keys ! nat i"
  shows "range_found keys c lo up r"
proof (cases r)
  case None
  have "\<not> (keys ! nat i \<le> c \<and> c \<le> keys ! nat (i + 1))" if "lo \<le> i" "i \<le> up" "even (i - lo)" for i
  proof (cases "mid \<le> i")
    case False
    moreover have "i \<noteq> mid - 1" using that m by auto
    ultimately show ?thesis using that r None by (auto simp: range_found_def)
  qed (use that o [of i] in auto)
  with None show ?thesis by (auto simp: range_found_def)
qed (use r m in \<open>auto simp: range_found_def\<close>)

lemma range_found_right:
  assumes r: "range_found keys c (mid + 2) up r" and m: "lo \<le> mid" "even (mid - lo)"
    and o: "\<And>i. lo \<le> i \<Longrightarrow> i \<le> mid \<Longrightarrow> keys ! nat (i + 1) < c"
  shows "range_found keys c lo up r"
proof (cases r)
  case None
  have "\<not> (keys ! nat i \<le> c \<and> c \<le> keys ! nat (i + 1))" if "lo \<le> i" "i \<le> up" "even (i - lo)" for i
  proof (cases "i \<le> mid")
    case False
    moreover have "i \<noteq> mid + 1" using that m by auto
    moreover have "even (i - (mid + 2))" using that m by (auto simp: even_diff_iff)
    ultimately show ?thesis using that r None by (auto simp: range_found_def)
  qed (use that o [of i] in auto)
  with None show ?thesis by (auto simp: range_found_def)
next
  case (Some k)
  then have "even (k - (mid + 2))" using r by (simp add: range_found_def)
  then have "even (k - lo)" using m by (auto simp: even_diff_iff)
  with r m Some show ?thesis by (auto simp: range_found_def)
qed

lemma range_search_spec:
  assumes "0 \<le> lo" "up + 1 < int (length keys)" "even (up - lo)"
    and "\<And>i j. lo \<le> i \<Longrightarrow> i \<le> j \<Longrightarrow> j \<le> up + 1 \<Longrightarrow> keys ! nat i \<le> keys ! nat j"
  shows "\<exists>r. range_search keys c lo up = Inr r \<and> range_found keys c lo up r"
  using assms
proof (induction keys c lo up rule: range_search.induct)
  case (1 keys c lo up)
  show ?case
  proof (cases "up < lo")
    case True
    then show ?thesis by (subst range_search.simps) (auto simp: range_found_def)
  next
    case False
    define mid where "mid = lo + (up - lo) div 2 div 2 * 2"
    have m: "lo \<le> mid" "mid \<le> up" "even (mid - lo)" using False by (auto simp: mid_def)
    have e: "even (up - (mid + 2))" "even (mid - 2 - lo)" using m "1.prems" by (auto simp: even_diff_iff)
    have el: "elem_at keys mid = Inr (keys ! nat mid)" "elem_at keys (mid + 1) = Inr (keys ! nat (mid + 1))"
      using m "1.prems" by simp_all
    consider "c < keys ! nat mid" | "\<not> c < keys ! nat mid" "keys ! nat (mid + 1) < c"
      | "keys ! nat mid \<le> c" "c \<le> keys ! nat (mid + 1)" by linarith
    then show ?thesis
    proof cases
      case 1
      have "range_search keys c lo up = range_search keys c lo (mid - 2)"
        using False el 1 by (subst range_search.simps) (simp add: mid_def Let_def)
      moreover have "c < keys ! nat i" if "mid \<le> i" "i \<le> up" for i
        using that 1 "1.prems"(4) [of mid i] m by simp
      moreover have "\<exists>r. range_search keys c lo (mid - 2) = Inr r \<and> range_found keys c lo (mid - 2) r"
        using "1.IH"(1) [OF False mid_def el] 1 "1.prems" m e by force
      ultimately show ?thesis using m by (metis range_found_left)
    next
      case 2
      have "range_search keys c lo up = range_search keys c (mid + 2) up"
        using False el 2 by (subst range_search.simps) (simp add: mid_def Let_def)
      moreover have "keys ! nat (i + 1) < c" if "lo \<le> i" "i \<le> mid" for i
        using that 2 "1.prems"(4) [of "i + 1" "mid + 1"] m by simp
      moreover have "\<exists>r. range_search keys c (mid + 2) up = Inr r \<and> range_found keys c (mid + 2) up r"
        using "1.IH"(2) [OF False mid_def el] 2 "1.prems" m e by force
      ultimately show ?thesis using m by (metis range_found_right)
    next
      case 3
      then have "range_search keys c lo up = Inr (Some mid)"
        using False el by (subst range_search.simps) (simp add: mid_def Let_def)
      with 3 m show ?thesis by (auto simp: range_found_def)
    qed
  qed
qed

end
