(* ===== verification/UriRows.thy ===== *)
theory UriRows
  imports UriSearch
begin

text \<open>
  The rows of the machine of URIs. One pass over the tables, in blocks of forty states, shows that the row of every
  state begins where the one before ends, that its keys are sorted, and that nothing lies beyond the end of a table;
  so the searches of a state are scans of its row.
\<close>

section \<open>A row\<close>

definition keys_from :: "nat \<Rightarrow> nat \<Rightarrow> int list" where
  "keys_from k n = take n (drop k uri_trans_keys)"

definition uri_singles :: "nat \<Rightarrow> int list" where
  "uri_singles cs = keys_from (uri_key_offsets ! cs) (uri_single_lengths ! cs)"

definition uri_ranges :: "nat \<Rightarrow> int list" where
  "uri_ranges cs = keys_from (uri_key_offsets ! cs + uri_single_lengths ! cs) (2 * uri_range_lengths ! cs)"

text \<open>The tables read as rows: where the keys begin, where the transitions begin, how many single keys and ranges.\<close>

fun rows_ok :: "int list \<Rightarrow> nat \<Rightarrow> nat \<Rightarrow> (nat \<times> nat \<times> nat \<times> nat) list \<Rightarrow> bool" where
  "rows_ok ks p q [] \<longleftrightarrow> ks = [0] \<and> q = 3919"
| "rows_ok ks p q ((k, i, s, r) # rows) \<longleftrightarrow>
     p = k \<and> q = i \<and> s + 2 * r \<le> length ks \<and> sorted_wrt (<) (take s ks) \<and> ranges_ok (take (2 * r) (drop s ks)) \<and>
     rows_ok (drop (s + 2 * r) ks) (p + s + 2 * r) (q + s + r + 1) rows"

lemma rows_ok_bound: "rows_ok ks p q rows \<Longrightarrow> q \<le> 3919"
  by (induction ks p q rows rule: rows_ok.induct) auto

lemma rows_ok_nth:
  assumes "rows_ok (drop p keys) p q rows" "p \<le> length keys" "n < length rows" "rows ! n = (k, i, s, r)"
  shows "k + s + 2 * r \<le> length keys \<and> i + s + r < 3919 \<and> sorted_wrt (<) (take s (drop k keys)) \<and>
    ranges_ok (take (2 * r) (drop (k + s) keys))"
  using assms
proof (induction rows arbitrary: p q n)
  case (Cons row rows)
  obtain k' i' s' r' where row: "row = (k', i', s', r')" by (cases row)
  show ?case
  proof (cases n)
    case 0
    have "q + s' + r' + 1 \<le> 3919" using Cons.prems(1) row by (auto dest!: rows_ok_bound)
    with 0 Cons.prems row show ?thesis by (auto simp: drop_drop add.commute)
  next
    case (Suc m)
    have "rows_ok (drop (p + s' + 2 * r') keys) (p + s' + 2 * r') (q + s' + r' + 1) rows"
      using Cons.prems(1) row by (auto simp: drop_drop ac_simps)
    moreover have "p + s' + 2 * r' \<le> length keys" using Cons.prems(1,2) row by auto
    ultimately show ?thesis using Cons.IH Cons.prems Suc by simp
  qed
qed simp

lemma uri_single_scan:
  assumes b: "ko + length sk \<le> length uri_trans_keys" and sk: "sk = keys_from ko (length sk)"
    and s: "sorted_wrt (<) sk"
  shows "uri_single c (int ko) (int io) (int (length sk)) = Inr (map_option (\<lambda>i. int (io + i)) (find_key sk c))"
proof -
  have at: "uri_trans_keys ! (ko + i) = sk ! i" if "i < length sk" for i
    using b that by (subst sk) (simp add: keys_from_def)
  have at': "uri_trans_keys ! nat i = sk ! nat (i - int ko)" if "int ko \<le> i" "i < int ko + int (length sk)" for i
    using at [of "nat (i - int ko)"] that by (simp add: nat_diff_distrib)
  obtain r where r: "key_search uri_trans_keys c (int ko) (int ko + int (length sk) - 1) = Inr r"
    and f: "key_found uri_trans_keys c (int ko) (int ko + int (length sk) - 1) r"
    using key_search_spec [of "int ko" "int ko + int (length sk) - 1" uri_trans_keys c] b
    by (auto simp: at' sorted_wrt_nth_less [OF s])
  show ?thesis
  proof (cases r)
    case None
    then have n: "uri_trans_keys ! nat i \<noteq> c" if "int ko \<le> i" "i \<le> int ko + int (length sk) - 1" for i
      using f that by (simp add: key_found_def)
    have "sk ! i \<noteq> c" if "i < length sk" for i
      using n [of "int (ko + i)"] that at [OF that] by (simp add: nat_int_add)
    then have "find_key sk c = None" by (auto simp: find_key_None in_set_conv_nth)
    with r None show ?thesis by (simp add: uri_single_def)
  next
    case (Some m)
    with f have m: "int ko \<le> m" "m < int ko + int (length sk)" "c = sk ! nat (m - int ko)"
      by (auto simp: key_found_def at')
    then have "find_key sk c = Some (nat (m - int ko))" using find_key_at [OF s] by auto
    with r Some m show ?thesis by (auto simp: uri_single_def)
  qed
qed

lemma uri_range_scan:
  assumes b: "k + length rk \<le> length uri_trans_keys" and rk: "rk = keys_from k (length rk)" and s: "ranges_ok rk"
    and l: "length rk = 2 * rl"
  shows "uri_range c (int k) (int t) (int rl) = Inr (int (t + (case find_range rk c of Some i \<Rightarrow> i | None \<Rightarrow> rl)))"
proof -
  have at: "uri_trans_keys ! (k + i) = rk ! i" if "i < length rk" for i
    using b that by (subst rk) (simp add: keys_from_def)
  have at': "uri_trans_keys ! nat i = rk ! nat (i - int k)" if "int k \<le> i" "i < int k + int (length rk)" for i
    using at [of "nat (i - int k)"] that by (simp add: nat_diff_distrib)
  obtain r where r: "range_search uri_trans_keys c (int k) (int k + 2 * int rl - 2) = Inr r"
    and f: "range_found uri_trans_keys c (int k) (int k + 2 * int rl - 2) r"
    using range_search_spec [of "int k" "int k + 2 * int rl - 2" uri_trans_keys c] b l
    by (auto simp: at' sorted_nth_mono [OF ranges_ok_sorted [OF s]])
  show ?thesis
  proof (cases r)
    case None
    then have n: "\<not> (uri_trans_keys ! nat i \<le> c \<and> c \<le> uri_trans_keys ! nat (i + 1))"
      if "int k \<le> i" "i \<le> int k + 2 * int rl - 2" "even (i - int k)" for i
      using f that by (simp add: range_found_def)
    have "\<not> (rk ! (2 * i) \<le> c \<and> c \<le> rk ! (2 * i + 1))" if "i < rl" for i
      using n [of "int (k + 2 * i)"] that l at [of "2 * i"] at [of "2 * i + 1"] by (simp add: nat_add_distrib nat_mult_distrib)
    then have "find_range rk c = None" using l by (auto simp: find_range_None)
    with r None show ?thesis by (simp add: uri_range_def)
  next
    case (Some m)
    from Some f have m: "int k \<le> m" "m \<le> int k + 2 * int rl - 2" "even (m - int k)"
      "uri_trans_keys ! nat m \<le> c" "c \<le> uri_trans_keys ! nat (m + 1)"
      by (auto simp: range_found_def)
    obtain j where "m - int k = 2 * j" using m(3) by (elim evenE)
    with m obtain i where i: "m = int (k + 2 * i)" "i < rl" by (intro that [of "nat j"]) auto
    then have "find_range rk c = Some i"
      using m(4,5) l at [of "2 * i"] at [of "2 * i + 1"] by (intro find_range_at [OF s]) (auto simp: nat_add_distrib nat_mult_distrib)
    with r Some i show ?thesis by (auto simp: uri_range_def)
  qed
qed

lemma row_search:
  assumes "cs < length uri_key_offsets" "cs < length uri_index_offsets" "cs < length uri_single_lengths"
    "cs < length uri_range_lengths"
    and b: "uri_key_offsets ! cs + uri_single_lengths ! cs + 2 * uri_range_lengths ! cs \<le> length uri_trans_keys"
    and s: "sorted_wrt (<) (uri_singles cs)" and r: "ranges_ok (uri_ranges cs)"
  shows "uri_match cs c = Inr (int (uri_index_offsets ! cs + row_index (uri_singles cs) (uri_ranges cs) c))"
proof -
  define ko io sl rl where d: "ko = uri_key_offsets ! cs" "io = uri_index_offsets ! cs"
    "sl = uri_single_lengths ! cs" "rl = uri_range_lengths ! cs"
  define sk rk where sk: "sk = uri_singles cs" and rk: "rk = uri_ranges cs"
  have len: "length sk = sl" "length rk = 2 * rl"
    using b by (auto simp: d sk rk uri_singles_def uri_ranges_def keys_from_def)
  have single: "uri_single c (int ko) (int io) (int sl) = Inr (map_option (\<lambda>i. int (io + i)) (find_key sk c))"
    using uri_single_scan [of ko sk c io] b s len by (simp add: d sk uri_singles_def)
  have range: "uri_range c (int ko + int sl) (int io + int sl) (int rl) =
      Inr (int (io + sl + (case find_range rk c of Some i \<Rightarrow> i | None \<Rightarrow> rl)))"
    using uri_range_scan [of "ko + sl" rk rl c "io + sl"] b r len by (simp add: d rk uri_ranges_def)
  have "uri_match cs c = (case find_key sk c of Some i \<Rightarrow> Inr (int (io + i))
      | None \<Rightarrow> uri_range c (int ko + int sl) (int io + int sl) (int rl))"
    using assms(1-4) single by (auto simp: uri_match_def d split: option.splits)
  then show ?thesis using range len by (auto simp: row_index_def d sk rk split: option.splits)
qed

section \<open>The tables\<close>

definition block :: "nat \<Rightarrow> nat \<Rightarrow> 'a list \<Rightarrow> 'b list \<Rightarrow> 'c list \<Rightarrow> 'd list \<Rightarrow> ('a \<times> 'b \<times> 'c \<times> 'd) list" where
  "block a n ks is ss rs = take n (drop a (zip ks (zip is (zip ss rs))))"

lemma block_split: "block a (m + n) ks is ss rs = block a m ks is ss rs @ block (a + m) n ks is ss rs"
  by (simp add: block_def take_add drop_drop ac_simps)

text \<open>Forty states at a time; a block consumes its keys and leaves the rest of the table, \<open>ks\<close>, alone.\<close>

lemma rows_block1:
  "rows_ok (uri_trans_keys1 @ ks) 0 0
     (block 1 39 uri_key_offsets1 uri_index_offsets1 uri_single_lengths1 uri_range_lengths1 @ rows) \<longleftrightarrow>
   rows_ok (drop 176 uri_trans_keys1 @ ks) 176 144 rows"
  by (simp add: block_def uri_trans_keys1_def
      uri_key_offsets1_def uri_index_offsets1_def uri_single_lengths1_def uri_range_lengths1_def)

lemma rows_block2:
  "rows_ok (drop 176 uri_trans_keys1 @ uri_trans_keys2 @ ks) 176 144
     (block 40 40 uri_key_offsets1 uri_index_offsets1 uri_single_lengths1 uri_range_lengths1 @ rows) \<longleftrightarrow>
   rows_ok (drop 54 uri_trans_keys2 @ ks) 374 305 rows"
  by (simp add: block_def uri_trans_keys1_def uri_trans_keys2_def
      uri_key_offsets1_def uri_index_offsets1_def uri_single_lengths1_def uri_range_lengths1_def)

lemma rows_block3:
  "rows_ok (drop 54 uri_trans_keys2 @ ks) 374 305
     (block 80 40 uri_key_offsets1 uri_index_offsets1 uri_single_lengths1 uri_range_lengths1 @ rows) \<longleftrightarrow>
   rows_ok (drop 276 uri_trans_keys2 @ ks) 596 485 rows"
  by (simp add: block_def uri_trans_keys2_def
      uri_key_offsets1_def uri_index_offsets1_def uri_single_lengths1_def uri_range_lengths1_def)

lemma rows_block4:
  "rows_ok (drop 276 uri_trans_keys2 @ uri_trans_keys3 @ ks) 596 485
     (block 120 40 uri_key_offsets1 uri_index_offsets1 uri_single_lengths1 uri_range_lengths1 @ rows) \<longleftrightarrow>
   rows_ok (drop 221 uri_trans_keys3 @ ks) 861 690 rows"
  by (simp add: block_def uri_trans_keys2_def uri_trans_keys3_def
      uri_key_offsets1_def uri_index_offsets1_def uri_single_lengths1_def uri_range_lengths1_def)

lemma rows_block5:
  "rows_ok (drop 221 uri_trans_keys3 @ uri_trans_keys4 @ ks) 861 690
     (block 160 40 uri_key_offsets1 uri_index_offsets1 uri_single_lengths1 uri_range_lengths1 @ rows) \<longleftrightarrow>
   rows_ok (drop 236 uri_trans_keys4 @ ks) 1196 954 rows"
  by (simp add: block_def uri_trans_keys3_def uri_trans_keys4_def
      uri_key_offsets1_def uri_index_offsets1_def uri_single_lengths1_def uri_range_lengths1_def)

lemma rows_block6:
  "rows_ok (drop 236 uri_trans_keys4 @ uri_trans_keys5 @ ks) 1196 954
     (block 200 40 uri_key_offsets1 uri_index_offsets1 uri_single_lengths1 uri_range_lengths1 @ rows) \<longleftrightarrow>
   rows_ok (drop 213 uri_trans_keys5 @ ks) 1493 1191 rows"
  by (simp add: block_def uri_trans_keys4_def uri_trans_keys5_def
      uri_key_offsets1_def uri_index_offsets1_def uri_single_lengths1_def uri_range_lengths1_def)

lemma rows_block7:
  "rows_ok (drop 213 uri_trans_keys5 @ uri_trans_keys6 @ ks) 1493 1191
     (block 240 40 uri_key_offsets1 uri_index_offsets1 uri_single_lengths1 uri_range_lengths1 @ rows) \<longleftrightarrow>
   rows_ok (drop 108 uri_trans_keys6 @ ks) 1708 1359 rows"
  by (simp add: block_def uri_trans_keys5_def uri_trans_keys6_def
      uri_key_offsets1_def uri_index_offsets1_def uri_single_lengths1_def uri_range_lengths1_def)

lemma rows_block8:
  "rows_ok (drop 108 uri_trans_keys6 @ ks) 1708 1359
     (block 280 40 uri_key_offsets1 uri_index_offsets1 uri_single_lengths1 uri_range_lengths1 @ rows) \<longleftrightarrow>
   rows_ok (drop 269 uri_trans_keys6 @ ks) 1869 1504 rows"
  by (simp add: block_def uri_trans_keys6_def
      uri_key_offsets1_def uri_index_offsets1_def uri_single_lengths1_def uri_range_lengths1_def)

lemma rows_block9:
  "rows_ok (drop 269 uri_trans_keys6 @ uri_trans_keys7 @ ks) 1869 1504
     (block 0 40 uri_key_offsets2 uri_index_offsets2 uri_single_lengths2 uri_range_lengths2 @ rows) \<longleftrightarrow>
   rows_ok (drop 225 uri_trans_keys7 @ ks) 2145 1710 rows"
  by (simp add: block_def uri_trans_keys6_def uri_trans_keys7_def
      uri_key_offsets2_def uri_index_offsets2_def uri_single_lengths2_def uri_range_lengths2_def)

lemma rows_block10:
  "rows_ok (drop 225 uri_trans_keys7 @ uri_trans_keys8 @ ks) 2145 1710
     (block 40 40 uri_key_offsets2 uri_index_offsets2 uri_single_lengths2 uri_range_lengths2 @ rows) \<longleftrightarrow>
   rows_ok (drop 181 uri_trans_keys8 @ ks) 2421 1933 rows"
  by (simp add: block_def uri_trans_keys7_def uri_trans_keys8_def
      uri_key_offsets2_def uri_index_offsets2_def uri_single_lengths2_def uri_range_lengths2_def)

lemma rows_block11:
  "rows_ok (drop 181 uri_trans_keys8 @ uri_trans_keys9 @ ks) 2421 1933
     (block 80 40 uri_key_offsets2 uri_index_offsets2 uri_single_lengths2 uri_range_lengths2 @ rows) \<longleftrightarrow>
   rows_ok (drop 231 uri_trans_keys9 @ ks) 2791 2218 rows"
  by (simp add: block_def uri_trans_keys8_def uri_trans_keys9_def
      uri_key_offsets2_def uri_index_offsets2_def uri_single_lengths2_def uri_range_lengths2_def)

lemma rows_block12:
  "rows_ok (drop 231 uri_trans_keys9 @ uri_trans_keys10 @ uri_trans_keys11 @ ks) 2791 2218
     (block 120 40 uri_key_offsets2 uri_index_offsets2 uri_single_lengths2 uri_range_lengths2 @ rows) \<longleftrightarrow>
   rows_ok (drop 115 uri_trans_keys11 @ ks) 3315 2661 rows"
  by (simp add: block_def uri_trans_keys9_def uri_trans_keys10_def uri_trans_keys11_def
      uri_key_offsets2_def uri_index_offsets2_def uri_single_lengths2_def uri_range_lengths2_def)

lemma rows_block13:
  "rows_ok (drop 115 uri_trans_keys11 @ uri_trans_keys12 @ uri_trans_keys13 @ ks) 3315 2661
     (block 160 40 uri_key_offsets2 uri_index_offsets2 uri_single_lengths2 uri_range_lengths2 @ rows) \<longleftrightarrow>
   rows_ok (drop 160 uri_trans_keys13 @ ks) 4000 3246 rows"
  by (simp add: block_def uri_trans_keys11_def uri_trans_keys12_def uri_trans_keys13_def
      uri_key_offsets2_def uri_index_offsets2_def uri_single_lengths2_def uri_range_lengths2_def)

lemma rows_block14:
  "rows_ok (drop 160 uri_trans_keys13 @ uri_trans_keys14 @ uri_trans_keys15 @ ks) 4000 3246
     (block 200 40 uri_key_offsets2 uri_index_offsets2 uri_single_lengths2 uri_range_lengths2 @ rows) \<longleftrightarrow>
   rows_ok (drop 293 uri_trans_keys15 @ ks) 4773 3902 rows"
  by (simp add: block_def uri_trans_keys13_def uri_trans_keys14_def uri_trans_keys15_def
      uri_key_offsets2_def uri_index_offsets2_def uri_single_lengths2_def uri_range_lengths2_def)

lemma rows_block15:
  "rows_ok (drop 293 uri_trans_keys15 @ ks) 4773 3902
     (block 240 1 uri_key_offsets2 uri_index_offsets2 uri_single_lengths2 uri_range_lengths2 @ rows) \<longleftrightarrow>
   rows_ok (drop 314 uri_trans_keys15 @ ks) 4794 3919 rows"
  by (simp add: block_def uri_trans_keys15_def
      uri_key_offsets2_def uri_index_offsets2_def uri_single_lengths2_def uri_range_lengths2_def)

lemmas row_blocks = rows_block1 rows_block2 rows_block3 rows_block4 rows_block5 rows_block6 rows_block7 rows_block8
  rows_block9 rows_block10 rows_block11 rows_block12 rows_block13 rows_block14 rows_block15

definition uri_rows :: "(nat \<times> nat \<times> nat \<times> nat) list" where
  "uri_rows = zip uri_key_offsets (zip uri_index_offsets (zip uri_single_lengths uri_range_lengths))"

lemma table_lengths [simp]:
  "length uri_key_offsets1 = 320" "length uri_index_offsets1 = 320" "length uri_single_lengths1 = 320"
  "length uri_range_lengths1 = 320" "length uri_key_offsets2 = 241" "length uri_index_offsets2 = 241"
  "length uri_single_lengths2 = 241" "length uri_range_lengths2 = 241"
  by (simp_all add: uri_key_offsets1_def uri_index_offsets1_def uri_single_lengths1_def uri_range_lengths1_def
      uri_key_offsets2_def uri_index_offsets2_def uri_single_lengths2_def uri_range_lengths2_def)

lemma tables_561 [simp]:
  "length uri_key_offsets = 561" "length uri_index_offsets = 561" "length uri_single_lengths = 561"
  "length uri_range_lengths = 561"
  by (simp_all add: uri_key_offsets_def uri_index_offsets_def uri_single_lengths_def uri_range_lengths_def)

lemma uri_rows_blocks:
  "drop 1 uri_rows = block 1 319 uri_key_offsets1 uri_index_offsets1 uri_single_lengths1 uri_range_lengths1 @
     block 0 241 uri_key_offsets2 uri_index_offsets2 uri_single_lengths2 uri_range_lengths2"
  by (simp add: uri_rows_def block_def uri_key_offsets_def uri_index_offsets_def uri_single_lengths_def
      uri_range_lengths_def zip_append)

lemma block_319: "block 1 319 ks is ss rs = block 1 39 ks is ss rs @ block 40 40 ks is ss rs @ block 80 40 ks is ss rs @
    block 120 40 ks is ss rs @ block 160 40 ks is ss rs @ block 200 40 ks is ss rs @ block 240 40 ks is ss rs @
    block 280 40 ks is ss rs"
  using block_split [of 1 39 280 ks "is" ss rs] block_split [of 40 40 240 ks "is" ss rs]
    block_split [of 80 40 200 ks "is" ss rs] block_split [of 120 40 160 ks "is" ss rs]
    block_split [of 160 40 120 ks "is" ss rs] block_split [of 200 40 80 ks "is" ss rs]
    block_split [of 240 40 40 ks "is" ss rs] by simp

lemma block_241: "block 0 241 ks is ss rs = block 0 40 ks is ss rs @ block 40 40 ks is ss rs @ block 80 40 ks is ss rs @
    block 120 40 ks is ss rs @ block 160 40 ks is ss rs @ block 200 40 ks is ss rs @ block 240 1 ks is ss rs"
  using block_split [of 0 40 201 ks "is" ss rs] block_split [of 40 40 161 ks "is" ss rs]
    block_split [of 80 40 121 ks "is" ss rs] block_split [of 120 40 81 ks "is" ss rs]
    block_split [of 160 40 41 ks "is" ss rs] block_split [of 200 40 1 ks "is" ss rs] by simp

lemma last_key: "drop 314 uri_trans_keys15 = [0]"
  by (simp add: uri_trans_keys15_def)

lemma rows_hold: "rows_ok uri_trans_keys 0 0 (drop 1 uri_rows)"
  unfolding uri_rows_blocks block_319 block_241 uri_trans_keys_def append_assoc
  by (simp only: row_blocks rows_block14 [where ks = "[]", unfolded append_Nil2]
      rows_block15 [where ks = "[]" and rows = "[]", unfolded append_Nil2] last_key rows_ok.simps simp_thms)

section \<open>The rows of the states\<close>

lemma row_facts:
  assumes "0 < cs" "cs < 561"
  shows "uri_key_offsets ! cs + uri_single_lengths ! cs + 2 * uri_range_lengths ! cs \<le> length uri_trans_keys"
    and "uri_index_offsets ! cs + uri_single_lengths ! cs + uri_range_lengths ! cs < 3919"
    and "sorted_wrt (<) (uri_singles cs)" and "ranges_ok (uri_ranges cs)"
proof -
  have "drop 1 uri_rows ! (cs - 1) =
      (uri_key_offsets ! cs, uri_index_offsets ! cs, uri_single_lengths ! cs, uri_range_lengths ! cs)"
    and "cs - 1 < length (drop 1 uri_rows)"
    using assms by (simp_all add: uri_rows_def)
  note rows_ok_nth [of 0 uri_trans_keys 0 "drop 1 uri_rows" "cs - 1", simplified drop_0, OF rows_hold le0 this(2,1)]
  then show "uri_key_offsets ! cs + uri_single_lengths ! cs + 2 * uri_range_lengths ! cs \<le> length uri_trans_keys"
    "uri_index_offsets ! cs + uri_single_lengths ! cs + uri_range_lengths ! cs < 3919"
    "sorted_wrt (<) (uri_singles cs)" "ranges_ok (uri_ranges cs)"
    by (simp_all add: uri_singles_def uri_ranges_def keys_from_def)
qed

lemma uri_match_scan:
  "0 < cs \<Longrightarrow> cs < 561 \<Longrightarrow>
   uri_match cs c = Inr (int (uri_index_offsets ! cs + row_index (uri_singles cs) (uri_ranges cs) c))"
  by (rule row_search) (simp_all add: row_facts)

lemma find_key_nth: "find_key ks c = Some i \<Longrightarrow> ks ! i = c"
  by (induction ks arbitrary: i) (auto split: if_splits)

lemma find_key_less: "find_key ks c = Some i \<Longrightarrow> i < length ks"
  by (induction ks arbitrary: i) (auto split: if_splits)

lemma find_range_less: "find_range ks c = Some i \<Longrightarrow> i < length ks div 2"
  by (induction ks c arbitrary: i rule: find_range.induct) (auto split: if_splits)

lemma row_index_le: "row_index sk rk c \<le> length sk + length rk div 2"
  by (auto simp: row_index_def split: option.splits dest!: find_key_less find_range_less)

lemma row_lengths:
  assumes "0 < cs" "cs < 561"
  shows "length (uri_singles cs) = uri_single_lengths ! cs" "length (uri_ranges cs) = 2 * uri_range_lengths ! cs"
  using row_facts(1) [OF assms] by (simp_all add: uri_singles_def uri_ranges_def keys_from_def)

lemma row_index_bound:
  assumes "0 < cs" "cs < 561"
  shows "row_index (uri_singles cs) (uri_ranges cs) c \<le> uri_single_lengths ! cs + uri_range_lengths ! cs"
  using row_index_le [of "uri_singles cs" "uri_ranges cs" c] row_lengths [OF assms] by simp

lemma row_less:
  assumes "0 < cs" "cs < 561"
  shows "uri_index_offsets ! cs + row_index (uri_singles cs) (uri_ranges cs) c < 3919"
  using row_index_bound [OF assms, of c] row_facts(2) [OF assms] by linarith

end
