(* ===== verification/UriFacts.thy ===== *)
theory UriFacts
  imports UriRows
begin

text \<open>
  What Uri::Create does (exhy/exhy_uri.cpp): every step of the machine stays within its tables, the text of a URI is
  read back, and the texts it stumbles over.
\<close>

section \<open>The rest of the tables\<close>

definition acts_ok :: "nat \<Rightarrow> bool" where
  "acts_ok k \<longleftrightarrow> (case uri_acts k of Inl _ \<Rightarrow> False | Inr as \<Rightarrow> list_all (\<lambda>a. a \<le> 8) as)"

definition action_offsets :: "nat list" where
  "action_offsets = [0, 1, 3, 5, 7, 9, 11, 13, 15, 17, 19, 22, 25, 28, 31, 34, 37, 40, 44, 48, 52]"

lemma action_offsets_ok: "list_all acts_ok action_offsets"
  by (simp add: action_offsets_def acts_ok_def uri_acts_def elem_at_def uri_actions_def)

lemma indicies_less: "length uri_indicies = 3920" "list_all (\<lambda>t. t < 619) uri_indicies"
  by (simp_all add: uri_indicies_def uri_indicies1_def uri_indicies2_def uri_indicies3_def uri_indicies4_def
      uri_indicies5_def uri_indicies6_def uri_indicies7_def uri_indicies8_def uri_indicies9_def uri_indicies10_def
      uri_indicies11_def uri_indicies12_def uri_indicies13_def)

lemma targs_less: "length uri_trans_targs = 619" "list_all (\<lambda>t. t < 561) uri_trans_targs"
  by (simp_all add: uri_trans_targs_def uri_trans_targs1_def uri_trans_targs2_def)

lemma trans_actions_ok: "length uri_trans_actions = 619" "list_all (\<lambda>k. k \<in> set action_offsets) uri_trans_actions"
  by (simp_all add: uri_trans_actions_def uri_trans_actions1_def uri_trans_actions2_def action_offsets_def)

lemma eof_actions_ok: "length uri_eof_actions = 561" "list_all (\<lambda>k. k \<in> set action_offsets) uri_eof_actions"
  by (simp_all add: uri_eof_actions_def uri_eof_actions1_def uri_eof_actions2_def action_offsets_def)

lemma acts_total:
  assumes "list_all (\<lambda>k. k \<in> set action_offsets) ks" "i < length ks"
  shows "\<exists>as. uri_acts (ks ! i) = Inr as"
proof -
  have "ks ! i \<in> set action_offsets" using assms by (simp add: list_all_length)
  then have "acts_ok (ks ! i)" using action_offsets_ok by (simp add: list_all_iff)
  then show ?thesis by (simp add: acts_ok_def split: sum.splits)
qed

text \<open>The transition of a state for a character, read off its row.\<close>

definition row_trans :: "nat \<Rightarrow> int \<Rightarrow> nat" where
  "row_trans cs c = uri_indicies ! (uri_index_offsets ! cs + row_index (uri_singles cs) (uri_ranges cs) c)"

definition trans_out :: "nat \<Rightarrow> nat \<times> nat list" where
  "trans_out t =
     (let a = uri_trans_actions ! t
      in (uri_trans_targs ! t, if a = 0 then [] else take (uri_actions ! a) (drop (a + 1) uri_actions)))"

lemma uri_acts_Inr: "uri_acts k = Inr as \<Longrightarrow> as = take (uri_actions ! k) (drop (k + 1) uri_actions)"
  by (auto simp: uri_acts_def elem_at_def split: if_splits)

lemma row_trans_less: "0 < cs \<Longrightarrow> cs < 561 \<Longrightarrow> row_trans cs c < 619"
  using row_less [of cs c] indicies_less by (simp add: row_trans_def list_all_length)


lemma uri_step_row:
  assumes "0 < cs" "cs < 561"
  shows "uri_step cs c = Inr (trans_out (row_trans cs c))"
proof -
  let ?t = "row_trans cs c"
  have t: "?t < 619" using assms by (rule row_trans_less)
  obtain as where as: "uri_acts (uri_trans_actions ! ?t) = Inr as"
    using acts_total [OF trans_actions_ok(2)] t trans_actions_ok(1) by auto
  have "elem_at uri_indicies (int (uri_index_offsets ! cs + row_index (uri_singles cs) (uri_ranges cs) c)) = Inr ?t"
    using row_less [OF assms, of c] indicies_less(1) by (simp add: elem_at_def row_trans_def nat_int_add)
  then show ?thesis
    using t as uri_acts_Inr [OF as] targs_less(1) trans_actions_ok(1)
    by (simp add: uri_step_def uri_match_scan assms trans_out_def Let_def)
qed

lemma trans_out_less: "t < 619 \<Longrightarrow> fst (trans_out t) < 561"
  using targs_less by (simp add: trans_out_def Let_def list_all_length)

end
