(* ===== verification/UriStates.thy ===== *)
theory UriStates
  imports UriFacts
begin

text \<open>
  The states of the machine of URIs (exhy/exhy_uri.cpp) that a URI with an authority passes through, each with its
  keys and what its transitions do, read off the tables.
\<close>

section \<open>Rows\<close>

definition row_outs :: "nat \<Rightarrow> (nat \<times> nat list) list" where
  "row_outs cs =
     map trans_out (take (uri_single_lengths ! cs + uri_range_lengths ! cs + 1) (drop (uri_index_offsets ! cs) uri_indicies))"

lemma key_pieces [simp]:
  "length uri_trans_keys1 = 320" "length uri_trans_keys2 = 320" "length uri_trans_keys3 = 320"
  "length uri_trans_keys4 = 320" "length uri_trans_keys5 = 320" "length uri_trans_keys6 = 320"
  "length uri_trans_keys7 = 320" "length uri_trans_keys8 = 320" "length uri_trans_keys9 = 320"
  "length uri_trans_keys10 = 320" "length uri_trans_keys11 = 320" "length uri_trans_keys12 = 320"
  "length uri_trans_keys13 = 320" "length uri_trans_keys14 = 320" "length uri_trans_keys15 = 315"
  by (simp_all add: uri_trans_keys1_def uri_trans_keys2_def uri_trans_keys3_def uri_trans_keys4_def
      uri_trans_keys5_def uri_trans_keys6_def uri_trans_keys7_def uri_trans_keys8_def uri_trans_keys9_def
      uri_trans_keys10_def uri_trans_keys11_def uri_trans_keys12_def uri_trans_keys13_def uri_trans_keys14_def
      uri_trans_keys15_def)

lemma table_pieces [simp]:
  "length uri_indicies1 = 320" "length uri_indicies2 = 320" "length uri_indicies3 = 320" "length uri_indicies4 = 320"
  "length uri_indicies5 = 320" "length uri_indicies6 = 320" "length uri_indicies7 = 320" "length uri_indicies8 = 320"
  "length uri_indicies9 = 320" "length uri_indicies10 = 320" "length uri_indicies11 = 320" "length uri_indicies12 = 320"
  "length uri_indicies13 = 80" "length uri_trans_targs1 = 320" "length uri_trans_actions1 = 320" "length uri_eof_actions1 = 320"
  by (simp_all add: uri_indicies1_def uri_indicies2_def uri_indicies3_def uri_indicies4_def
      uri_indicies5_def uri_indicies6_def uri_indicies7_def uri_indicies8_def uri_indicies9_def uri_indicies10_def
      uri_indicies11_def uri_indicies12_def uri_indicies13_def uri_trans_targs1_def uri_trans_actions1_def
      uri_eof_actions1_def)

text \<open>
  The rewrite rules by which a row is read off, in the order in which they are used: a table is left as the pieces it
  consists of until the piece that matters is known.
\<close>

lemmas row_by_offset = uri_singles_def uri_ranges_def row_outs_def uri_key_offsets_def uri_single_lengths_def
  uri_range_lengths_def uri_index_offsets_def nth_append
lemmas row_offsets = uri_key_offsets1_def uri_key_offsets2_def uri_single_lengths1_def uri_single_lengths2_def
  uri_range_lengths1_def uri_range_lengths2_def uri_index_offsets1_def uri_index_offsets2_def
lemmas row_by_piece = keys_from_def uri_trans_keys_def uri_indicies_def
lemmas key_pieces_def = uri_trans_keys1_def uri_trans_keys2_def uri_trans_keys3_def uri_trans_keys4_def
  uri_trans_keys5_def uri_trans_keys6_def uri_trans_keys7_def uri_trans_keys8_def uri_trans_keys9_def
  uri_trans_keys10_def uri_trans_keys11_def uri_trans_keys12_def uri_trans_keys13_def uri_trans_keys14_def
  uri_trans_keys15_def
lemmas index_pieces_def = uri_indicies1_def uri_indicies2_def uri_indicies3_def uri_indicies4_def
  uri_indicies5_def uri_indicies6_def uri_indicies7_def uri_indicies8_def uri_indicies9_def uri_indicies10_def
  uri_indicies11_def uri_indicies12_def uri_indicies13_def
lemmas outs_by_piece = trans_out_def uri_trans_targs_def uri_trans_actions_def nth_append
lemmas out_pieces_def = uri_trans_targs1_def uri_trans_targs2_def uri_trans_actions1_def uri_trans_actions2_def
  uri_actions_def

lemma row_451:
  "uri_singles 451 = [34, 35, 37, 47, 58, 60, 62, 63, 96, 127]" "uri_ranges 451 = [0, 32, 65, 90, 91, 94, 97, 122, 123, 125]"
  "row_outs 451 =
    [(0, []), (453, []), (3, []), (458, []), (0, []), (0, []), (0, []), (456, []), (0, []), (0, []), (0, []),
     (508, [0]), (0, []), (508, [0]), (0, []), (452, [])]"
  by (simp_all add: row_by_offset, simp_all add: row_offsets, simp_all add: row_by_piece,
      simp_all add: key_pieces_def index_pieces_def, (simp_all add: outs_by_piece)?, (simp_all add: out_pieces_def)?)

lemma row_508:
  "uri_singles 508 = [34, 35, 37, 43, 47, 58, 60, 62, 63, 96, 127]" "uri_ranges 508 = [0, 32, 45, 57, 65, 90, 91, 94, 97, 122, 123, 125]"
  "row_outs 508 =
    [(0, []), (453, []), (3, []), (508, []), (455, []), (509, [2]), (0, []), (0, []), (456, []), (0, []), (0, []),
     (0, []), (508, []), (508, []), (0, []), (508, []), (0, []), (452, [])]"
  by (simp_all add: row_by_offset, simp_all add: row_offsets, simp_all add: row_by_piece,
      simp_all add: key_pieces_def index_pieces_def, (simp_all add: outs_by_piece)?, (simp_all add: out_pieces_def)?)

lemma row_509:
  "uri_singles 509 = [34, 35, 37, 47, 60, 62, 63, 96, 127]" "uri_ranges 509 = [0, 32, 91, 94, 123, 125]"
  "row_outs 509 =
    [(0, []), (453, []), (5, []), (510, []), (0, []), (0, []), (456, []), (0, []), (0, []), (0, []), (0, []),
     (0, []), (455, [])]"
  by (simp_all add: row_by_offset, simp_all add: row_offsets, simp_all add: row_by_piece,
      simp_all add: key_pieces_def index_pieces_def, (simp_all add: outs_by_piece)?, (simp_all add: out_pieces_def)?)

lemma row_510:
  "uri_singles 510 = [34, 35, 37, 47, 60, 62, 63, 96, 127]" "uri_ranges 510 = [0, 32, 91, 94, 123, 125]"
  "row_outs 510 =
    [(0, []), (453, []), (5, []), (511, []), (0, []), (0, []), (456, []), (0, []), (0, []), (0, []), (0, []),
     (0, []), (455, [])]"
  by (simp_all add: row_by_offset, simp_all add: row_offsets, simp_all add: row_by_piece,
      simp_all add: key_pieces_def index_pieces_def, (simp_all add: outs_by_piece)?, (simp_all add: out_pieces_def)?)

lemma row_511:
  "uri_singles 511 = [2, 33, 35, 37, 47, 48, 49, 50, 58, 59, 61, 63, 64, 91, 95, 126]" "uri_ranges 511 = [36, 46, 51, 57, 65, 90, 97, 122]"
  "row_outs 511 =
    [(229, [1]), (520, [1]), (453, [1, 5, 6]), (253, [1]), (513, [1, 5]), (543, [1]), (557, [1]), (559, [1]),
     (521, [1, 5]), (520, [1]), (520, [1]), (456, [1, 5, 6]), (522, [1, 4]), (260, [1]), (520, [1]), (520, [1]),
     (520, [1]), (558, [1]), (520, [1]), (520, [1]), (0, [])]"
  by (simp_all add: row_by_offset, simp_all add: row_offsets, simp_all add: row_by_piece,
      simp_all add: key_pieces_def index_pieces_def, (simp_all add: outs_by_piece)?, (simp_all add: out_pieces_def)?)

lemma row_520:
  "uri_singles 520 = [33, 35, 37, 47, 58, 61, 63, 64, 95, 126]" "uri_ranges 520 = [36, 59, 65, 90, 97, 122]"
  "row_outs 520 =
    [(520, []), (453, [5, 1, 6]), (253, []), (513, [5, 1]), (521, [5]), (520, []), (456, [5, 1, 6]), (522, [4]),
     (520, []), (520, []), (520, []), (520, []), (520, []), (0, [])]"
  by (simp_all add: row_by_offset, simp_all add: row_offsets, simp_all add: row_by_piece,
      simp_all add: key_pieces_def index_pieces_def, (simp_all add: outs_by_piece)?, (simp_all add: out_pieces_def)?)

lemma row_521:
  "uri_singles 521 = [33, 35, 37, 47, 61, 63, 64, 95, 126]" "uri_ranges 521 = [36, 46, 48, 57, 58, 59, 65, 90, 97, 122]"
  "row_outs 521 =
    [(255, []), (453, [1, 3, 6]), (256, []), (513, [1, 3]), (255, []), (456, [1, 3, 6]), (522, [4]), (255, []),
     (255, []), (255, []), (542, [1]), (255, []), (255, []), (255, []), (0, [])]"
  by (simp_all add: row_by_offset, simp_all add: row_offsets, simp_all add: row_by_piece,
      simp_all add: key_pieces_def index_pieces_def, (simp_all add: outs_by_piece)?, (simp_all add: out_pieces_def)?)

lemma row_542:
  "uri_singles 542 = [33, 35, 37, 47, 61, 63, 64, 95, 126]" "uri_ranges 542 = [36, 46, 48, 57, 58, 59, 65, 90, 97, 122]"
  "row_outs 542 =
    [(255, []), (453, [3, 1, 6]), (256, []), (513, [3, 1]), (255, []), (456, [3, 1, 6]), (522, [4]), (255, []),
     (255, []), (255, []), (542, []), (255, []), (255, []), (255, []), (0, [])]"
  by (simp_all add: row_by_offset, simp_all add: row_offsets, simp_all add: row_by_piece,
      simp_all add: key_pieces_def index_pieces_def, (simp_all add: outs_by_piece)?, (simp_all add: out_pieces_def)?)

lemma row_522:
  "uri_singles 522 = [2, 33, 35, 37, 47, 48, 49, 50, 58, 59, 61, 63, 91, 95, 126]" "uri_ranges 522 = [36, 46, 51, 57, 65, 90, 97, 122]"
  "row_outs 522 =
    [(229, [1]), (523, [1]), (453, [1, 5, 6]), (258, [1]), (513, [1, 5]), (524, [1]), (538, [1]), (540, [1]),
     (514, [1, 5]), (523, [1]), (523, [1]), (456, [1, 5, 6]), (260, [1]), (523, [1]), (523, [1]), (523, [1]),
     (539, [1]), (523, [1]), (523, [1]), (0, [])]"
  by (simp_all add: row_by_offset, simp_all add: row_offsets, simp_all add: row_by_piece,
      simp_all add: key_pieces_def index_pieces_def, (simp_all add: outs_by_piece)?, (simp_all add: out_pieces_def)?)

lemma row_523:
  "uri_singles 523 = [33, 35, 37, 47, 58, 61, 63, 95, 126]" "uri_ranges 523 = [36, 59, 65, 90, 97, 122]"
  "row_outs 523 =
    [(523, []), (453, [5, 1, 6]), (258, []), (513, [5, 1]), (514, [5]), (523, []), (456, [5, 1, 6]), (523, []),
     (523, []), (523, []), (523, []), (523, []), (0, [])]"
  by (simp_all add: row_by_offset, simp_all add: row_offsets, simp_all add: row_by_piece,
      simp_all add: key_pieces_def index_pieces_def, (simp_all add: outs_by_piece)?, (simp_all add: out_pieces_def)?)

lemma row_514:
  "uri_singles 514 = [35, 47, 63]" "uri_ranges 514 = [48, 57]"
  "row_outs 514 =
    [(453, [1, 3, 6]), (513, [1, 3]), (456, [1, 3, 6]), (515, [1]), (0, [])]"
  by (simp_all add: row_by_offset, simp_all add: row_offsets, simp_all add: row_by_piece,
      simp_all add: key_pieces_def index_pieces_def, (simp_all add: outs_by_piece)?, (simp_all add: out_pieces_def)?)

lemma row_515:
  "uri_singles 515 = [35, 47, 63]" "uri_ranges 515 = [48, 57]"
  "row_outs 515 =
    [(453, [3, 1, 6]), (513, [3, 1]), (456, [3, 1, 6]), (515, []), (0, [])]"
  by (simp_all add: row_by_offset, simp_all add: row_offsets, simp_all add: row_by_piece,
      simp_all add: key_pieces_def index_pieces_def, (simp_all add: outs_by_piece)?, (simp_all add: out_pieces_def)?)

lemma row_513:
  "uri_singles 513 = [34, 35, 37, 60, 62, 63, 96, 127]" "uri_ranges 513 = [0, 32, 91, 94, 123, 125]"
  "row_outs 513 =
    [(0, []), (453, [6]), (243, []), (0, []), (0, []), (456, [6]), (0, []), (0, []), (0, []), (0, []), (0, []),
     (513, [])]"
  by (simp_all add: row_by_offset, simp_all add: row_offsets, simp_all add: row_by_piece,
      simp_all add: key_pieces_def index_pieces_def, (simp_all add: outs_by_piece)?, (simp_all add: out_pieces_def)?)

lemma row_456:
  "uri_singles 456 = [34, 35, 37, 60, 62, 96, 127]" "uri_ranges 456 = [0, 32, 91, 94, 123, 125]"
  "row_outs 456 =
    [(0, []), (453, [0, 7]), (7, [0]), (0, []), (0, []), (0, []), (0, []), (0, []), (0, []), (0, []), (457, [0])]"
  by (simp_all add: row_by_offset, simp_all add: row_offsets, simp_all add: row_by_piece,
      simp_all add: key_pieces_def index_pieces_def, (simp_all add: outs_by_piece)?, (simp_all add: out_pieces_def)?)

lemma row_457:
  "uri_singles 457 = [34, 35, 37, 60, 62, 96, 127]" "uri_ranges 457 = [0, 32, 91, 94, 123, 125]"
  "row_outs 457 =
    [(0, []), (453, [7]), (7, []), (0, []), (0, []), (0, []), (0, []), (0, []), (0, []), (0, []), (457, [])]"
  by (simp_all add: row_by_offset, simp_all add: row_offsets, simp_all add: row_by_piece,
      simp_all add: key_pieces_def index_pieces_def, (simp_all add: outs_by_piece)?, (simp_all add: out_pieces_def)?)

lemma row_453:
  "uri_singles 453 = [37, 60, 62, 96, 127]" "uri_ranges 453 = [0, 32, 34, 35, 91, 94, 123, 125]"
  "row_outs 453 =
    [(1, [0]), (0, []), (0, []), (0, []), (0, []), (0, []), (0, []), (0, []), (0, []), (454, [0])]"
  by (simp_all add: row_by_offset, simp_all add: row_offsets, simp_all add: row_by_piece,
      simp_all add: key_pieces_def index_pieces_def, (simp_all add: outs_by_piece)?, (simp_all add: out_pieces_def)?)

lemma row_454:
  "uri_singles 454 = [37, 60, 62, 96, 127]" "uri_ranges 454 = [0, 32, 34, 35, 91, 94, 123, 125]"
  "row_outs 454 =
    [(1, []), (0, []), (0, []), (0, []), (0, []), (0, []), (0, []), (0, []), (0, []), (454, [])]"
  by (simp_all add: row_by_offset, simp_all add: row_offsets, simp_all add: row_by_piece,
      simp_all add: key_pieces_def index_pieces_def, (simp_all add: outs_by_piece)?, (simp_all add: out_pieces_def)?)

lemma uri_step_outs:
  assumes "0 < cs" "cs < 561"
  shows "uri_step cs c = Inr (row_outs cs ! row_index (uri_singles cs) (uri_ranges cs) c)"
  using row_index_bound [OF assms, of c] row_facts(2) [OF assms] indicies_less(1)
  by (simp add: uri_step_row assms row_outs_def row_trans_def)

end
