(* ===== verification/UriMark.thy ===== *)
theory UriMark
  imports UriStates
begin

text \<open>
  The mark of Uri::Create (exhy/exhy_uri.cpp). A part of the text is saved from the mark, and std::string cannot be
  built from a mark that is NULL; one pass over the rows shows that this happens for an empty port only.
\<close>

section \<open>The pass\<close>

text \<open>The states that are reached before the first ':' of the text, and the state of the error.\<close>

definition early :: "nat \<Rightarrow> bool" where
  "early n \<longleftrightarrow> n \<le> 32 \<or> 36 \<le> n \<and> n \<le> 42 \<or> 225 \<le> n \<and> n \<le> 228 \<or> 451 \<le> n \<and> n \<le> 460 \<or> 463 \<le> n \<and> n \<le> 467 \<or>
     469 \<le> n \<and> n \<le> 488 \<or> 490 \<le> n \<and> n \<le> 508"

text \<open>The transitions into the states 514 and 521, where a port begins, and those which end an empty port.\<close>

definition port_trans :: "nat \<Rightarrow> bool" where
  "port_trans t \<longleftrightarrow> t = 555 \<or> t = 561 \<or> t = 576 \<or> t = 584"

definition empty_trans :: "nat \<Rightarrow> bool" where
  "empty_trans t \<longleftrightarrow> t = 566 \<or> t = 567 \<or> t = 569"

text \<open>Transitions into early states, all that an early state has but for the ':'.\<close>

definition early_trans :: "nat \<Rightarrow> bool" where
  "early_trans t \<longleftrightarrow> t \<le> 35 \<or> t = 38 \<or> 40 \<le> t \<and> t \<le> 42 \<or>
     44 \<le> t \<and> t \<le> 45 \<or> 47 \<le> t \<and> t \<le> 48 \<or> 229 \<le> t \<and> t \<le> 231 \<or>
     457 \<le> t \<and> t \<le> 480 \<or> 482 \<le> t \<and> t \<le> 486 \<or> t = 488 \<or> 497 \<le> t \<and> t \<le> 498 \<or>
     501 \<le> t \<and> t \<le> 506 \<or> 508 \<le> t \<and> t \<le> 524 \<or> 526 \<le> t \<and> t \<le> 542"

definition single_ok :: "nat \<Rightarrow> int \<Rightarrow> nat \<Rightarrow> bool" where
  "single_ok n k t \<longleftrightarrow> (port_trans t \<longrightarrow> k = 58 \<and> \<not> early n) \<and>
     (empty_trans t \<longrightarrow> (n = 514 \<or> n = 521) \<and> (k = 35 \<or> k = 47 \<or> k = 63)) \<and>
     (early n \<longrightarrow> k = 58 \<or> early_trans t)"

definition other_ok :: "nat \<Rightarrow> nat \<Rightarrow> bool" where
  "other_ok n t \<longleftrightarrow> \<not> port_trans t \<and> \<not> empty_trans t \<and> (early n \<longrightarrow> early_trans t)"

text \<open>The rows from the state \<open>n\<close> on, with what is left of the keys and of the transitions.\<close>

fun marks_ok :: "int list \<Rightarrow> nat list \<Rightarrow> nat \<Rightarrow> (nat \<times> nat \<times> nat \<times> nat) list \<Rightarrow> bool" where
  "marks_ok ks ts n [] \<longleftrightarrow> True"
| "marks_ok ks ts n ((k, i, s, r) # rows) \<longleftrightarrow>
     list_all2 (single_ok n) (take s ks) (take s ts) \<and> list_all (other_ok n) (take (r + 1) (drop s ts)) \<and>
     marks_ok (drop (s + 2 * r) ks) (drop (s + r + 1) ts) (n + 1) rows"

lemmas mark_simps = single_ok_def other_ok_def port_trans_def empty_trans_def early_def early_trans_def

text \<open>Twenty states at a time; a block leaves the rest of the tables, \<open>ks\<close> and \<open>ts\<close>, alone.\<close>

lemma marks_block1:
  "marks_ok (uri_trans_keys1 @ ks) (uri_indicies1 @ ts) 1
     (block 1 19 uri_key_offsets1 uri_index_offsets1 uri_single_lengths1 uri_range_lengths1 @ rows) \<longleftrightarrow>
   marks_ok (drop 75 uri_trans_keys1 @ ks) (drop 62 uri_indicies1 @ ts) 20 rows"
  by (simp add: block_def uri_trans_keys1_def uri_indicies1_def
      row_offsets mark_simps numeral_2_eq_2 [symmetric])

lemma marks_block2:
  "marks_ok (drop 75 uri_trans_keys1 @ ks) (drop 62 uri_indicies1 @ ts) 20
     (block 20 20 uri_key_offsets1 uri_index_offsets1 uri_single_lengths1 uri_range_lengths1 @ rows) \<longleftrightarrow>
   marks_ok (drop 176 uri_trans_keys1 @ ks) (drop 144 uri_indicies1 @ ts) 40 rows"
  by (simp add: block_def uri_trans_keys1_def uri_indicies1_def
      row_offsets mark_simps)

lemma marks_block3:
  "marks_ok (drop 176 uri_trans_keys1 @ ks) (drop 144 uri_indicies1 @ ts) 40
     (block 40 20 uri_key_offsets1 uri_index_offsets1 uri_single_lengths1 uri_range_lengths1 @ rows) \<longleftrightarrow>
   marks_ok (drop 292 uri_trans_keys1 @ ks) (drop 232 uri_indicies1 @ ts) 60 rows"
  by (simp add: block_def uri_trans_keys1_def uri_indicies1_def
      row_offsets mark_simps)

lemma marks_block4:
  "marks_ok (drop 292 uri_trans_keys1 @ uri_trans_keys2 @ ks) (drop 232 uri_indicies1 @ ts) 60
     (block 60 20 uri_key_offsets1 uri_index_offsets1 uri_single_lengths1 uri_range_lengths1 @ rows) \<longleftrightarrow>
   marks_ok (drop 54 uri_trans_keys2 @ ks) (drop 305 uri_indicies1 @ ts) 80 rows"
  by (simp add: block_def uri_trans_keys1_def uri_trans_keys2_def uri_indicies1_def
      row_offsets mark_simps)

lemma marks_block5:
  "marks_ok (drop 54 uri_trans_keys2 @ ks) (drop 305 uri_indicies1 @ uri_indicies2 @ ts) 80
     (block 80 20 uri_key_offsets1 uri_index_offsets1 uri_single_lengths1 uri_range_lengths1 @ rows) \<longleftrightarrow>
   marks_ok (drop 127 uri_trans_keys2 @ ks) (drop 54 uri_indicies2 @ ts) 100 rows"
  by (simp add: block_def uri_trans_keys2_def uri_indicies1_def uri_indicies2_def
      row_offsets mark_simps)

lemma marks_block6:
  "marks_ok (drop 127 uri_trans_keys2 @ ks) (drop 54 uri_indicies2 @ ts) 100
     (block 100 20 uri_key_offsets1 uri_index_offsets1 uri_single_lengths1 uri_range_lengths1 @ rows) \<longleftrightarrow>
   marks_ok (drop 276 uri_trans_keys2 @ ks) (drop 165 uri_indicies2 @ ts) 120 rows"
  by (simp add: block_def uri_trans_keys2_def uri_indicies2_def
      row_offsets mark_simps)

lemma marks_block7:
  "marks_ok (drop 276 uri_trans_keys2 @ uri_trans_keys3 @ ks) (drop 165 uri_indicies2 @ ts) 120
     (block 120 20 uri_key_offsets1 uri_index_offsets1 uri_single_lengths1 uri_range_lengths1 @ rows) \<longleftrightarrow>
   marks_ok (drop 89 uri_trans_keys3 @ ks) (drop 263 uri_indicies2 @ ts) 140 rows"
  by (simp add: block_def uri_trans_keys2_def uri_trans_keys3_def uri_indicies2_def
      row_offsets mark_simps)

lemma marks_block8:
  "marks_ok (drop 89 uri_trans_keys3 @ ks) (drop 263 uri_indicies2 @ uri_indicies3 @ ts) 140
     (block 140 20 uri_key_offsets1 uri_index_offsets1 uri_single_lengths1 uri_range_lengths1 @ rows) \<longleftrightarrow>
   marks_ok (drop 221 uri_trans_keys3 @ ks) (drop 50 uri_indicies3 @ ts) 160 rows"
  by (simp add: block_def uri_trans_keys3_def uri_indicies2_def uri_indicies3_def
      row_offsets mark_simps)

lemma marks_block9:
  "marks_ok (drop 221 uri_trans_keys3 @ uri_trans_keys4 @ ks) (drop 50 uri_indicies3 @ ts) 160
     (block 160 20 uri_key_offsets1 uri_index_offsets1 uri_single_lengths1 uri_range_lengths1 @ rows) \<longleftrightarrow>
   marks_ok (drop 49 uri_trans_keys4 @ ks) (drop 170 uri_indicies3 @ ts) 180 rows"
  by (simp add: block_def uri_trans_keys3_def uri_trans_keys4_def uri_indicies3_def
      row_offsets mark_simps)

lemma marks_block10:
  "marks_ok (drop 49 uri_trans_keys4 @ ks) (drop 170 uri_indicies3 @ ts) 180
     (block 180 20 uri_key_offsets1 uri_index_offsets1 uri_single_lengths1 uri_range_lengths1 @ rows) \<longleftrightarrow>
   marks_ok (drop 236 uri_trans_keys4 @ ks) (drop 314 uri_indicies3 @ ts) 200 rows"
  by (simp add: block_def uri_trans_keys4_def uri_indicies3_def
      row_offsets mark_simps)

lemma marks_block11:
  "marks_ok (drop 236 uri_trans_keys4 @ uri_trans_keys5 @ ks) (drop 314 uri_indicies3 @ uri_indicies4 @ ts) 200
     (block 200 20 uri_key_offsets1 uri_index_offsets1 uri_single_lengths1 uri_range_lengths1 @ rows) \<longleftrightarrow>
   marks_ok (drop 99 uri_trans_keys5 @ ks) (drop 135 uri_indicies4 @ ts) 220 rows"
  by (simp add: block_def uri_trans_keys4_def uri_trans_keys5_def uri_indicies3_def uri_indicies4_def
      row_offsets mark_simps)

lemma marks_block12:
  "marks_ok (drop 99 uri_trans_keys5 @ ks) (drop 135 uri_indicies4 @ ts) 220
     (block 220 20 uri_key_offsets1 uri_index_offsets1 uri_single_lengths1 uri_range_lengths1 @ rows) \<longleftrightarrow>
   marks_ok (drop 213 uri_trans_keys5 @ ks) (drop 231 uri_indicies4 @ ts) 240 rows"
  by (simp add: block_def uri_trans_keys5_def uri_indicies4_def
      row_offsets mark_simps)

lemma marks_block13:
  "marks_ok (drop 213 uri_trans_keys5 @ ks) (drop 231 uri_indicies4 @ ts) 240
     (block 240 20 uri_key_offsets1 uri_index_offsets1 uri_single_lengths1 uri_range_lengths1 @ rows) \<longleftrightarrow>
   marks_ok (drop 311 uri_trans_keys5 @ ks) (drop 310 uri_indicies4 @ ts) 260 rows"
  by (simp add: block_def uri_trans_keys5_def uri_indicies4_def
      row_offsets mark_simps)

lemma marks_block14:
  "marks_ok (drop 311 uri_trans_keys5 @ uri_trans_keys6 @ ks) (drop 310 uri_indicies4 @ uri_indicies5 @ ts) 260
     (block 260 20 uri_key_offsets1 uri_index_offsets1 uri_single_lengths1 uri_range_lengths1 @ rows) \<longleftrightarrow>
   marks_ok (drop 108 uri_trans_keys6 @ ks) (drop 79 uri_indicies5 @ ts) 280 rows"
  by (simp add: block_def uri_trans_keys5_def uri_trans_keys6_def uri_indicies4_def uri_indicies5_def
      row_offsets mark_simps)

lemma marks_block15:
  "marks_ok (drop 108 uri_trans_keys6 @ ks) (drop 79 uri_indicies5 @ ts) 280
     (block 280 20 uri_key_offsets1 uri_index_offsets1 uri_single_lengths1 uri_range_lengths1 @ rows) \<longleftrightarrow>
   marks_ok (drop 201 uri_trans_keys6 @ ks) (drop 158 uri_indicies5 @ ts) 300 rows"
  by (simp add: block_def uri_trans_keys6_def uri_indicies5_def
      row_offsets mark_simps)

lemma marks_block16:
  "marks_ok (drop 201 uri_trans_keys6 @ ks) (drop 158 uri_indicies5 @ ts) 300
     (block 300 20 uri_key_offsets1 uri_index_offsets1 uri_single_lengths1 uri_range_lengths1 @ rows) \<longleftrightarrow>
   marks_ok (drop 269 uri_trans_keys6 @ ks) (drop 224 uri_indicies5 @ ts) 320 rows"
  by (simp add: block_def uri_trans_keys6_def uri_indicies5_def
      row_offsets mark_simps)

lemma marks_block17:
  "marks_ok (drop 269 uri_trans_keys6 @ uri_trans_keys7 @ ks) (drop 224 uri_indicies5 @ uri_indicies6 @ ts) 320
     (block 0 20 uri_key_offsets2 uri_index_offsets2 uri_single_lengths2 uri_range_lengths2 @ rows) \<longleftrightarrow>
   marks_ok (drop 90 uri_trans_keys7 @ ks) (drop 10 uri_indicies6 @ ts) 340 rows"
  by (simp add: block_def uri_trans_keys6_def uri_trans_keys7_def uri_indicies5_def uri_indicies6_def
      row_offsets mark_simps)

lemma marks_block18:
  "marks_ok (drop 90 uri_trans_keys7 @ ks) (drop 10 uri_indicies6 @ ts) 340
     (block 20 20 uri_key_offsets2 uri_index_offsets2 uri_single_lengths2 uri_range_lengths2 @ rows) \<longleftrightarrow>
   marks_ok (drop 225 uri_trans_keys7 @ ks) (drop 110 uri_indicies6 @ ts) 360 rows"
  by (simp add: block_def uri_trans_keys7_def uri_indicies6_def
      row_offsets mark_simps)

lemma marks_block19:
  "marks_ok (drop 225 uri_trans_keys7 @ uri_trans_keys8 @ ks) (drop 110 uri_indicies6 @ ts) 360
     (block 40 20 uri_key_offsets2 uri_index_offsets2 uri_single_lengths2 uri_range_lengths2 @ rows) \<longleftrightarrow>
   marks_ok (drop 34 uri_trans_keys8 @ ks) (drop 214 uri_indicies6 @ ts) 380 rows"
  by (simp add: block_def uri_trans_keys7_def uri_trans_keys8_def uri_indicies6_def
      row_offsets mark_simps)

lemma marks_block20:
  "marks_ok (drop 34 uri_trans_keys8 @ ks) (drop 214 uri_indicies6 @ uri_indicies7 @ ts) 380
     (block 60 20 uri_key_offsets2 uri_index_offsets2 uri_single_lengths2 uri_range_lengths2 @ rows) \<longleftrightarrow>
   marks_ok (drop 181 uri_trans_keys8 @ ks) (drop 13 uri_indicies7 @ ts) 400 rows"
  by (simp add: block_def uri_trans_keys8_def uri_indicies6_def uri_indicies7_def
      row_offsets mark_simps)

lemma marks_block21:
  "marks_ok (drop 181 uri_trans_keys8 @ uri_trans_keys9 @ ks) (drop 13 uri_indicies7 @ ts) 400
     (block 80 20 uri_key_offsets2 uri_index_offsets2 uri_single_lengths2 uri_range_lengths2 @ rows) \<longleftrightarrow>
   marks_ok (drop 46 uri_trans_keys9 @ ks) (drop 156 uri_indicies7 @ ts) 420 rows"
  by (simp add: block_def uri_trans_keys8_def uri_trans_keys9_def uri_indicies7_def
      row_offsets mark_simps)

lemma marks_block22:
  "marks_ok (drop 46 uri_trans_keys9 @ ks) (drop 156 uri_indicies7 @ ts) 420
     (block 100 20 uri_key_offsets2 uri_index_offsets2 uri_single_lengths2 uri_range_lengths2 @ rows) \<longleftrightarrow>
   marks_ok (drop 231 uri_trans_keys9 @ ks) (drop 298 uri_indicies7 @ ts) 440 rows"
  by (simp add: block_def uri_trans_keys9_def uri_indicies7_def
      row_offsets mark_simps)

lemma marks_block23:
  "marks_ok (drop 231 uri_trans_keys9 @ uri_trans_keys10 @ ks) (drop 298 uri_indicies7 @ uri_indicies8 @ ts) 440
     (block 120 20 uri_key_offsets2 uri_index_offsets2 uri_single_lengths2 uri_range_lengths2 @ rows) \<longleftrightarrow>
   marks_ok (drop 157 uri_trans_keys10 @ ks) (drop 176 uri_indicies8 @ ts) 460 rows"
  by (simp add: block_def uri_trans_keys9_def uri_trans_keys10_def uri_indicies7_def uri_indicies8_def
      row_offsets mark_simps)

lemma marks_block24:
  "marks_ok (drop 157 uri_trans_keys10 @ uri_trans_keys11 @ ks) (drop 176 uri_indicies8 @ uri_indicies9 @ ts) 460
     (block 140 20 uri_key_offsets2 uri_index_offsets2 uri_single_lengths2 uri_range_lengths2 @ rows) \<longleftrightarrow>
   marks_ok (drop 115 uri_trans_keys11 @ ks) (drop 101 uri_indicies9 @ ts) 480 rows"
  by (simp add: block_def uri_trans_keys10_def uri_trans_keys11_def uri_indicies8_def uri_indicies9_def
      row_offsets mark_simps)

lemma marks_block25:
  "marks_ok (drop 115 uri_trans_keys11 @ uri_trans_keys12 @ ks) (drop 101 uri_indicies9 @ uri_indicies10 @ ts) 480
     (block 160 20 uri_key_offsets2 uri_index_offsets2 uri_single_lengths2 uri_range_lengths2 @ rows) \<longleftrightarrow>
   marks_ok (drop 186 uri_trans_keys12 @ ks) (drop 111 uri_indicies10 @ ts) 500 rows"
  by (simp add: block_def uri_trans_keys11_def uri_trans_keys12_def uri_indicies9_def uri_indicies10_def
      row_offsets mark_simps)

lemma marks_block26:
  "marks_ok (drop 186 uri_trans_keys12 @ uri_trans_keys13 @ ks) (drop 111 uri_indicies10 @ uri_indicies11 @ ts) 500
     (block 180 20 uri_key_offsets2 uri_index_offsets2 uri_single_lengths2 uri_range_lengths2 @ rows) \<longleftrightarrow>
   marks_ok (drop 160 uri_trans_keys13 @ ks) (drop 46 uri_indicies11 @ ts) 520 rows"
  by (simp add: block_def uri_trans_keys12_def uri_trans_keys13_def uri_indicies10_def uri_indicies11_def
      row_offsets mark_simps)

lemma marks_block27:
  "marks_ok (drop 160 uri_trans_keys13 @ uri_trans_keys14 @ ks) (drop 46 uri_indicies11 @ uri_indicies12 @ ts) 520
     (block 200 20 uri_key_offsets2 uri_index_offsets2 uri_single_lengths2 uri_range_lengths2 @ rows) \<longleftrightarrow>
   marks_ok (drop 215 uri_trans_keys14 @ ks) (drop 44 uri_indicies12 @ ts) 540 rows"
  by (simp add: block_def uri_trans_keys13_def uri_trans_keys14_def uri_indicies11_def uri_indicies12_def
      row_offsets mark_simps)

lemma marks_block28:
  "marks_ok (drop 215 uri_trans_keys14 @ uri_trans_keys15 @ ks) (drop 44 uri_indicies12 @ uri_indicies13 @ ts) 540
     (block 220 20 uri_key_offsets2 uri_index_offsets2 uri_single_lengths2 uri_range_lengths2 @ rows) \<longleftrightarrow>
   marks_ok (drop 293 uri_trans_keys15 @ ks) (drop 62 uri_indicies13 @ ts) 560 rows"
  by (simp add: block_def uri_trans_keys14_def uri_trans_keys15_def uri_indicies12_def uri_indicies13_def
      row_offsets mark_simps)

lemma marks_block29:
  "marks_ok (drop 293 uri_trans_keys15 @ ks) (drop 62 uri_indicies13 @ ts) 560
     (block 240 1 uri_key_offsets2 uri_index_offsets2 uri_single_lengths2 uri_range_lengths2 @ rows) \<longleftrightarrow>
   marks_ok (drop 314 uri_trans_keys15 @ ks) (drop 79 uri_indicies13 @ ts) 561 rows"
  by (simp add: block_def uri_trans_keys15_def uri_indicies13_def
      row_offsets mark_simps)

lemmas mark_blocks =
  marks_block1 marks_block2 marks_block3 marks_block4 marks_block5 marks_block6 marks_block7 marks_block8
  marks_block9 marks_block10 marks_block11 marks_block12 marks_block13 marks_block14 marks_block15 marks_block16
  marks_block17 marks_block18 marks_block19 marks_block20 marks_block21 marks_block22 marks_block23 marks_block24
  marks_block25 marks_block26 marks_block27 marks_block28 marks_block29

lemma twenties_319: "block 1 319 ks is ss rs =
    block 1 19 ks is ss rs @ block 20 20 ks is ss rs @ block 40 20 ks is ss rs @ block 60 20 ks is ss rs @
    block 80 20 ks is ss rs @ block 100 20 ks is ss rs @ block 120 20 ks is ss rs @ block 140 20 ks is ss rs @
    block 160 20 ks is ss rs @ block 180 20 ks is ss rs @ block 200 20 ks is ss rs @ block 220 20 ks is ss rs @
    block 240 20 ks is ss rs @ block 260 20 ks is ss rs @ block 280 20 ks is ss rs @ block 300 20 ks is ss rs"
  using
    block_split [of 1 19 300 ks "is" ss rs] block_split [of 20 20 280 ks "is" ss rs]
    block_split [of 40 20 260 ks "is" ss rs] block_split [of 60 20 240 ks "is" ss rs]
    block_split [of 80 20 220 ks "is" ss rs] block_split [of 100 20 200 ks "is" ss rs]
    block_split [of 120 20 180 ks "is" ss rs] block_split [of 140 20 160 ks "is" ss rs]
    block_split [of 160 20 140 ks "is" ss rs] block_split [of 180 20 120 ks "is" ss rs]
    block_split [of 200 20 100 ks "is" ss rs] block_split [of 220 20 80 ks "is" ss rs]
    block_split [of 240 20 60 ks "is" ss rs] block_split [of 260 20 40 ks "is" ss rs]
    block_split [of 280 20 20 ks "is" ss rs]
  by simp

lemma twenties_241: "block 0 241 ks is ss rs =
    block 0 20 ks is ss rs @ block 20 20 ks is ss rs @ block 40 20 ks is ss rs @ block 60 20 ks is ss rs @
    block 80 20 ks is ss rs @ block 100 20 ks is ss rs @ block 120 20 ks is ss rs @ block 140 20 ks is ss rs @
    block 160 20 ks is ss rs @ block 180 20 ks is ss rs @ block 200 20 ks is ss rs @ block 220 20 ks is ss rs @
    block 240 1 ks is ss rs"
  using
    block_split [of 0 20 221 ks "is" ss rs] block_split [of 20 20 201 ks "is" ss rs]
    block_split [of 40 20 181 ks "is" ss rs] block_split [of 60 20 161 ks "is" ss rs]
    block_split [of 80 20 141 ks "is" ss rs] block_split [of 100 20 121 ks "is" ss rs]
    block_split [of 120 20 101 ks "is" ss rs] block_split [of 140 20 81 ks "is" ss rs]
    block_split [of 160 20 61 ks "is" ss rs] block_split [of 180 20 41 ks "is" ss rs]
    block_split [of 200 20 21 ks "is" ss rs] block_split [of 220 20 1 ks "is" ss rs]
  by simp

lemma marks_hold: "marks_ok uri_trans_keys uri_indicies 1 (drop 1 uri_rows)"
  unfolding uri_rows_blocks twenties_319 twenties_241 uri_trans_keys_def uri_indicies_def append_assoc
  by (simp only: mark_blocks marks_block28 [where ks = "[]" and ts = "[]", unfolded append_Nil2]
      marks_block29 [where ks = "[]" and ts = "[]" and rows = "[]", unfolded append_Nil2] marks_ok.simps simp_thms)

end
