(* ===== verification/UriRead.thy ===== *)
theory UriRead
  imports UriStates ResponseFacts
begin

text \<open>
  Uri::Create (exhy/exhy_uri.cpp) reads the text that Uri::toString writes: every part of the text is followed through
  the states of the machine.
\<close>

section \<open>Characters\<close>

definition letters :: string where
  "letters = ''ABCDEFGHIJKLMNOPQRSTUVWXYZabcdefghijklmnopqrstuvwxyz''"

definition digits :: string where
  "digits = ''0123456789''"

definition signs :: string where
  "signs = ''-._~!$&()*+,;='' @ [CHR 0x27]"

definition scheme_chars :: string where
  "scheme_chars = letters @ digits @ ''+-.''"

definition uri_name_chars :: string where
  "uri_name_chars = letters @ signs @ digits"

definition path_chars :: string where
  "path_chars = uri_name_chars @ '':@/''"

lemmas chars_def = letters_def digits_def signs_def scheme_chars_def uri_name_chars_def path_chars_def

lemmas state_rows = row_451 row_508 row_509 row_510 row_511 row_520 row_521 row_542 row_522 row_523 row_514 row_515
  row_513 row_456 row_457 row_453 row_454

lemmas step_simps = uri_step_outs state_rows chars_def row_index_def sc_def

section \<open>Steps\<close>

lemma scheme_steps:
  "list_all (\<lambda>c. uri_step 451 (sc c) = Inr (508, [0])) letters"
  "list_all (\<lambda>c. uri_step 508 (sc c) = Inr (508, [])) scheme_chars"
  "uri_step 508 (sc (CHR '':'')) = Inr (509, [2])" "uri_step 509 (sc (CHR ''/'')) = Inr (510, [])"
  "uri_step 510 (sc (CHR ''/'')) = Inr (511, [])"
  by (simp_all add: step_simps)

lemma authority_steps:
  "list_all (\<lambda>c. uri_step 511 (sc c) = Inr (520, [1])) (letters @ signs)"
  "list_all (\<lambda>c. uri_step 520 (sc c) = Inr (520, [])) uri_name_chars"
  "uri_step 520 (sc (CHR ''@'')) = Inr (522, [4])"
  "list_all (\<lambda>c. uri_step 522 (sc c) = Inr (523, [1])) (letters @ signs)"
  "list_all (\<lambda>c. uri_step 523 (sc c) = Inr (523, [])) uri_name_chars"
  "uri_step 520 (sc (CHR '':'')) = Inr (521, [5])" "uri_step 523 (sc (CHR '':'')) = Inr (514, [5])"
  "uri_step 520 (sc (CHR ''/'')) = Inr (513, [5, 1])" "uri_step 523 (sc (CHR ''/'')) = Inr (513, [5, 1])"
  by (simp_all add: step_simps)

lemma port_steps:
  "list_all (\<lambda>c. uri_step 521 (sc c) = Inr (542, [1])) digits"
  "list_all (\<lambda>c. uri_step 542 (sc c) = Inr (542, [])) digits"
  "list_all (\<lambda>c. uri_step 514 (sc c) = Inr (515, [1])) digits"
  "list_all (\<lambda>c. uri_step 515 (sc c) = Inr (515, [])) digits"
  "uri_step 542 (sc (CHR ''/'')) = Inr (513, [3, 1])" "uri_step 515 (sc (CHR ''/'')) = Inr (513, [3, 1])"
  by (simp_all add: step_simps)

lemma ascii_tail_steps:
  "list_all (\<lambda>c. uri_step 513 (sc c) = Inr (513, [])) path_chars"
  "list_all (\<lambda>c. uri_step 456 (sc c) = Inr (457, [0])) (CHR ''?'' # path_chars)"
  "list_all (\<lambda>c. uri_step 457 (sc c) = Inr (457, [])) (CHR ''?'' # path_chars)"
  "list_all (\<lambda>c. uri_step 453 (sc c) = Inr (454, [0])) (CHR ''?'' # path_chars)"
  "list_all (\<lambda>c. uri_step 454 (sc c) = Inr (454, [])) (CHR ''?'' # path_chars)"
  "uri_step 513 (sc (CHR ''?'')) = Inr (456, [6])" "uri_step 513 (sc (CHR ''#'')) = Inr (453, [6])"
  "uri_step 457 (sc (CHR ''#'')) = Inr (453, [7])"
  by (simp_all add: step_simps)

text \<open>The characters behind the ASCII ones are negative and stand for themselves.\<close>

lemma high_tail_steps:
  assumes "n < 0"
  shows "uri_step 513 n = Inr (513, [])" "uri_step 456 n = Inr (457, [0])" "uri_step 457 n = Inr (457, [])"
    "uri_step 453 n = Inr (454, [0])" "uri_step 454 n = Inr (454, [])"
  using assms by (simp_all add: uri_step_outs state_rows row_index_def)

lemma eof_steps:
  "uri_acts (uri_eof_actions ! 513) = Inr [6]" "uri_acts (uri_eof_actions ! 457) = Inr [7]"
  "uri_acts (uri_eof_actions ! 454) = Inr [8]"
  by (simp_all add: uri_eof_actions_def nth_append,
      simp_all add: uri_eof_actions2_def uri_acts_def elem_at_def uri_actions_def)

section \<open>Runs\<close>

lemma run_span:
  "\<forall>c \<in> set w. uri_step q (sc c) = Inr (q, []) \<Longrightarrow> 0 < q \<Longrightarrow> uri_run s p (w @ zs) q st = uri_run s (p + length w) zs q st"
  by (induction w arbitrary: p) (simp_all add: trans_acts_def)

text \<open>A word whose first character sets the mark.\<close>

lemma run_word:
  assumes "w \<noteq> []" "uri_step q (sc (hd w)) = Inr (q', [a])" "a \<le> 1" "0 < q'"
    "\<forall>c \<in> set (tl w). uri_step q' (sc c) = Inr (q', [])"
  shows "uri_run s p (w @ zs) q (m, u) = uri_run s (p + length w) zs q' (Some p, u)"
proof (cases w)
  case (Cons c w')
  have "uri_run_acts s p (trans_acts [a]) (m, u) = Inr (Some p, u)"
    using assms(3) by (auto simp: trans_acts_def uri_act_def)
  with Cons assms show ?thesis using run_span [of w' q' s "Suc p" zs] by simp
qed (use assms in simp)

lemma run_step:
  assumes "uri_step q (sc c) = Inr (q', as)" "0 < q'" "uri_run_acts s p (trans_acts as) st = Inr st'"
  shows "uri_run s p (c # zs) q st = uri_run s (Suc p) zs q' st'"
  using assms by simp

lemma marked_middle: "s = xs @ w @ zs \<Longrightarrow> m = length xs \<Longrightarrow> p = m + length w \<Longrightarrow> take (p - m) (drop m s) = w"
  by simp

definition good_scheme :: "string \<Rightarrow> bool" where
  "good_scheme w \<longleftrightarrow> w \<noteq> [] \<and> hd w \<in> set letters \<and> list_all (\<lambda>c. c \<in> set scheme_chars) w"

text \<open>A name that does not begin with a digit, where the machine could take it for an IPv4 address.\<close>

definition good_name :: "string \<Rightarrow> bool" where
  "good_name w \<longleftrightarrow> w \<noteq> [] \<and> hd w \<in> set (letters @ signs) \<and> list_all (\<lambda>c. c \<in> set uri_name_chars) w"

definition uri_path_char :: "char \<Rightarrow> bool" where
  "uri_path_char c \<longleftrightarrow> c \<in> set path_chars \<or> sc c < 0"

definition uri_query_char :: "char \<Rightarrow> bool" where
  "uri_query_char c \<longleftrightarrow> c = CHR ''?'' \<or> uri_path_char c"

lemma tl_subset: "x \<in> set (tl w) \<Longrightarrow> x \<in> set w"
  by (cases w) auto

lemma run_scheme:
  assumes "s = sch @ ''://'' @ zs" "good_scheme sch"
  shows "uri_run s 0 s 451 (None, u) = uri_run s (length (sch @ ''://'')) zs 511 (None, u\<lparr>u_scheme := sch\<rparr>)"
proof -
  have "uri_run s 0 (sch @ ''://'' @ zs) 451 (None, u) = uri_run s (length sch) (''://'' @ zs) 508 (Some 0, u)"
    using assms(2) scheme_steps(1,2) run_word [of sch 451 508 0 s 0 "''://'' @ zs" None u]
    by (auto simp: good_scheme_def list_all_iff dest!: tl_subset)
  also have "\<dots> = uri_run s (Suc (length sch)) (''//'' @ zs) 509 (None, u\<lparr>u_scheme := sch\<rparr>)"
    using scheme_steps(3) marked_middle [of s "[]" sch "''://'' @ zs"] assms(1)
    by (simp add: trans_acts_def uri_act_def marked_def)
  also have "\<dots> = uri_run s (Suc (Suc (Suc (length sch)))) zs 511 (None, u\<lparr>u_scheme := sch\<rparr>)"
    using scheme_steps(4,5) by (simp add: trans_acts_def)
  finally show ?thesis using assms(1) by simp
qed

lemma run_userinfo:
  assumes "s = pre @ ui @ CHR ''@'' # zs" "good_name ui"
  shows "uri_run s (length pre) (ui @ CHR ''@'' # zs) 511 (None, u) =
    uri_run s (length (pre @ ui @ ''@'')) zs 522 (None, u\<lparr>u_userinfo := ui\<rparr>)"
proof -
  have "uri_run s (length pre) (ui @ CHR ''@'' # zs) 511 (None, u) =
      uri_run s (length pre + length ui) (CHR ''@'' # zs) 520 (Some (length pre), u)"
    using assms(2) authority_steps(1,2) run_word [of ui 511 520 1 s "length pre" "CHR ''@'' # zs" None u]
    by (auto simp: good_name_def list_all_iff dest!: tl_subset)
  also have "\<dots> = uri_run s (length (pre @ ui @ ''@'')) zs 522 (None, u\<lparr>u_userinfo := ui\<rparr>)"
    using authority_steps(3) marked_middle [of s pre ui] assms(1)
    by (simp add: trans_acts_def uri_act_def marked_def)
  finally show ?thesis .
qed

text \<open>Behind "//" and behind the '@' the same things may follow, in states of their own.\<close>

definition host_states :: "(nat \<times> nat \<times> nat \<times> nat) set" where
  "host_states = {(511, 520, 521, 542), (522, 523, 514, 515)}"

lemma run_host:
  assumes "(q, qh, qp, qd) \<in> host_states" "good_name h"
  shows "uri_run s p (h @ zs) q (None, u) = uri_run s (p + length h) zs qh (Some p, u)"
proof -
  have "\<forall>c \<in> set (letters @ signs). uri_step q (sc c) = Inr (qh, [1])"
    and n: "\<forall>c \<in> set uri_name_chars. uri_step qh (sc c) = Inr (qh, [])" and "0 < qh"
    using assms(1) authority_steps(1,2,4,5) by (auto simp: host_states_def list_all_iff)
  moreover have "\<forall>c \<in> set (tl h). uri_step qh (sc c) = Inr (qh, [])"
    using n assms(2) tl_subset [of _ h] by (auto simp: good_name_def list_all_iff)
  ultimately show ?thesis using assms(2) by (intro run_word [where a = 1]) (auto simp: good_name_def)
qed

lemma run_host_path:
  assumes q: "(q, qh, qp, qd) \<in> host_states" and h: "good_name h" and s: "s = pre @ h @ CHR ''/'' # zs"
  shows "uri_run s (length pre) (h @ CHR ''/'' # zs) q (None, u) =
    uri_run s (Suc (length (pre @ h))) zs 513 (Some (length (pre @ h)), u\<lparr>u_host := h\<rparr>)"
proof -
  have "uri_step qh (sc (CHR ''/'')) = Inr (513, [5, 1])" using q authority_steps(8,9) by (auto simp: host_states_def)
  then show ?thesis
    unfolding run_host [OF q h] using marked_middle [of s pre h] s by (simp add: trans_acts_def uri_act_def)
qed

lemma digit_in: "is_digit c \<Longrightarrow> c \<in> set digits"
proof -
  assume "is_digit c"
  then have "(of_char c :: nat) \<in> {48..57}" by (auto simp: is_digit_def)
  then have "(of_char c :: nat) \<in> set (map of_char digits)"
    unfolding digits_def atLeastAtMost_iff by simp presburger
  then show ?thesis by auto
qed

lemma atoi_port: "n < 2 ^ 31 \<Longrightarrow> atoi (dec n @ CHR ''/'' # zs) = int n"
proof -
  assume n: "n < 2 ^ 31"
  have "strtol 10 (dec n @ CHR ''/'' # zs) = int n"
    using n by (intro strtol_dec) (simp_all add: digit_of_def)
  with n show ?thesis
    by (simp add: atoi_def long_to_int_def signed_of_nat signed_take_bit_int_eq_self_iff)
qed

lemma run_host_port_path:
  assumes q: "(q, qh, qp, qd) \<in> host_states" and h: "good_name h" and n: "n < 2 ^ 31"
    and s: "s = pre @ h @ '':'' @ dec n @ CHR ''/'' # zs"
  shows "uri_run s (length pre) (h @ '':'' @ dec n @ CHR ''/'' # zs) q (None, u) =
    uri_run s (Suc (length (pre @ h @ '':'' @ dec n))) zs 513
      (Some (length (pre @ h @ '':'' @ dec n)), u\<lparr>u_host := h, u_port := int n\<rparr>)"
proof -
  obtain c w where d: "dec n = c # w" and all: "\<forall>c \<in> set (dec n). c \<in> set digits"
    using dec_Cons [of n] dec_digits [of n] digit_in by blast
  have colon: "uri_step qh (sc (CHR '':'')) = Inr (qp, [5])"
    and ds: "\<forall>c \<in> set digits. uri_step qp (sc c) = Inr (qd, [1])" "\<forall>c \<in> set digits. uri_step qd (sc c) = Inr (qd, [])"
    and slash: "uri_step qd (sc (CHR ''/'')) = Inr (513, [3, 1])" and pos: "0 < qp" "0 < qd"
    using q authority_steps(6,7) port_steps by (auto simp: host_states_def list_all_iff)
  let ?p = "length pre" and ?m = "Suc (length pre + length h)"
  have "uri_run s ?p (h @ '':'' @ dec n @ CHR ''/'' # zs) q (None, u) =
      uri_run s (?p + length h) (CHR '':'' # dec n @ CHR ''/'' # zs) qh (Some ?p, u)"
    using run_host [OF q h] by simp
  also have "\<dots> = uri_run s ?m (dec n @ CHR ''/'' # zs) qp (Some ?p, u\<lparr>u_host := h\<rparr>)"
    using colon pos marked_middle [of s pre h] s
    by (intro run_step [where as = "[5]"]) (simp_all add: trans_acts_def uri_act_def)
  also have "\<dots> = uri_run s (?m + length (dec n)) (CHR ''/'' # zs) qd (Some ?m, u\<lparr>u_host := h\<rparr>)"
    using ds all pos d by (intro run_word [where a = 1]) auto
  also have "\<dots> = uri_run s (Suc (?m + length (dec n))) zs 513 (Some (?m + length (dec n)), u\<lparr>u_host := h, u_port := int n\<rparr>)"
    using slash d s atoi_port [OF n, of zs] 
    by (intro run_step [where as = "[3, 1]"]) (simp_all add: trans_acts_def uri_act_def)
  finally show ?thesis by (simp add: add.assoc)
qed

section \<open>Path, query and fragment\<close>

definition uri_finish :: "string \<Rightarrow> (uri_state + nat \<times> uri_state) \<Rightarrow> uri option res" where
  "uri_finish s r =
     (case r of
        Inl _ \<Rightarrow> Inr None
      | Inr (cs, st) \<Rightarrow>
          sbind (elem_at uri_eof_actions (int cs)) (\<lambda>k.
          sbind (uri_acts k) (\<lambda>as.
          sbind (uri_run_acts s (length s) (eof_acts as) st) (\<lambda>(_, u).
            if cs = 0 then Inr None else if 451 \<le> cs then Inr (Some u) else Inr None))))"

lemma uri_Create_finish: "uri_Create s = sbind (uri_run s 0 s 451 (None, new_Uri)) (uri_finish s)"
  unfolding uri_Create_def uri_finish_def ..

lemma uri_path_char_steps: "uri_path_char c \<Longrightarrow> uri_step 513 (sc c) = Inr (513, [])"
  using ascii_tail_steps(1) high_tail_steps(1) by (auto simp: uri_path_char_def list_all_iff)

lemma uri_query_char_steps:
  assumes "uri_query_char c"
  shows "uri_step 456 (sc c) = Inr (457, [0])" "uri_step 457 (sc c) = Inr (457, [])"
    "uri_step 453 (sc c) = Inr (454, [0])" "uri_step 454 (sc c) = Inr (454, [])"
  using assms ascii_tail_steps(2-5) high_tail_steps(2-5) by (auto simp: uri_query_char_def uri_path_char_def list_all_iff)

lemma finish_fragment:
  assumes "s = pre @ f" "f \<noteq> []" "list_all uri_query_char f"
  shows "sbind (uri_run s (length pre) f 453 (None, u)) (uri_finish s) = Inr (Some (u\<lparr>u_fragment := f\<rparr>))"
proof -
  have "uri_run s (length pre) (f @ []) 453 (None, u) = uri_run s (length pre + length f) [] 454 (Some (length pre), u)"
    using assms uri_query_char_steps by (intro run_word [where a = 0]) (auto simp: list_all_iff dest!: tl_subset)
  then show ?thesis
    using eof_steps(3) eof_actions_ok(1) assms(1)
    by (simp add: uri_finish_def eof_acts_def uri_act_def marked_def)
qed

text \<open>The end, or a fragment; \<open>a\<close> saves the part before it.\<close>

lemma finish_part:
  assumes "s = pre @ w @ (if f = [] then [] else CHR ''#'' # f)" "list_all uri_query_char f"
    and q: "(q, a) = (513, 6) \<or> (q, a) = (457, 7 :: nat)"
  shows "sbind (uri_run s (length (pre @ w)) (if f = [] then [] else CHR ''#'' # f) q (Some (length pre), u)) (uri_finish s) =
    Inr (Some (if a = 6 then (u\<lparr>u_path := w, u_fragment := if f = [] then u_fragment u else f\<rparr>)
      else u\<lparr>u_query := w, u_fragment := if f = [] then u_fragment u else f\<rparr>))"
proof (cases "f = []")
  case True
  then show ?thesis
    using q eof_steps(1,2) eof_actions_ok(1) assms(1)
    by (auto simp: uri_finish_def eof_acts_def uri_act_def marked_def)
next
  case False
  have st: "uri_step q (sc (CHR ''#'')) = Inr (453, [a])" using q ascii_tail_steps(7,8) by auto
  let ?u = "if a = 6 then u\<lparr>u_path := w\<rparr> else u\<lparr>u_query := w\<rparr>"
  have "uri_run s (length (pre @ w)) (CHR ''#'' # f) q (Some (length pre), u) =
      uri_run s (length (pre @ w @ ''#'')) f 453 (None, ?u)"
    using st False q assms(1) by (subst run_step [OF st]) (auto simp: trans_acts_def uri_act_def marked_def)
  with False finish_fragment [of s "pre @ w @ ''#''" f ?u] assms show ?thesis by auto
qed

lemma finish_path:
  assumes s: "s = pre @ CHR ''/'' # w @ (if y = [] then [] else CHR ''?'' # y) @ (if f = [] then [] else CHR ''#'' # f)"
    and c: "list_all uri_path_char w" "list_all uri_query_char y" "list_all uri_query_char f"
  shows "sbind (uri_run s (Suc (length pre)) (w @ (if y = [] then [] else CHR ''?'' # y) @
      (if f = [] then [] else CHR ''#'' # f)) 513 (Some (length pre), u)) (uri_finish s) =
    Inr (Some (u\<lparr>u_path := CHR ''/'' # w, u_query := if y = [] then u_query u else y,
      u_fragment := if f = [] then u_fragment u else f\<rparr>))"
proof -
  let ?f = "if f = [] then [] else CHR ''#'' # f" and ?p = "pre @ CHR ''/'' # w"
  have w: "uri_run s (Suc (length pre)) (w @ zs) 513 st = uri_run s (length ?p) zs 513 st" for zs st
    using c(1) run_span [of w 513 s "Suc (length pre)"] by (simp add: uri_path_char_steps list_all_iff)
  show ?thesis
  proof (cases "y = []")
    case True
    with finish_part [of s pre "CHR ''/'' # w" f 513 6 u] s c(3) w show ?thesis by simp
  next
    case False
    let ?u = "u\<lparr>u_path := CHR ''/'' # w\<rparr>"
    have "uri_run s (length ?p) (CHR ''?'' # y @ ?f) 513 (Some (length pre), u) =
        uri_run s (length (?p @ ''?'')) (y @ ?f) 456 (None, ?u)"
      using ascii_tail_steps(6) s by (subst run_step [OF ascii_tail_steps(6)])
        (auto simp: trans_acts_def uri_act_def marked_def)
    also have "\<dots> = uri_run s (length (?p @ ''?'' @ y)) ?f 457 (Some (length (?p @ ''?'')), ?u)"
    proof -
      have "uri_step 456 (sc (hd y)) = Inr (457, [0])" "\<forall>c \<in> set (tl y). uri_step 457 (sc c) = Inr (457, [])"
        using False c(2) uri_query_char_steps by (auto simp: list_all_iff dest!: tl_subset)
      from run_word [OF False this(1) _ _ this(2)] show ?thesis by (simp add: add.assoc)
    qed
    finally have "uri_run s (Suc (length pre)) (w @ CHR ''?'' # y @ ?f) 513 (Some (length pre), u) =
        uri_run s (length (?p @ ''?'' @ y)) ?f 457 (Some (length (?p @ ''?'')), ?u)"
      by (simp only: w)
    with False finish_part [of s "?p @ ''?''" y f 457 7 ?u] s c(3) show ?thesis by simp
  qed
qed

section \<open>The whole text\<close>

definition plain_uri :: "uri \<Rightarrow> bool" where
  "plain_uri u \<longleftrightarrow> good_scheme (u_scheme u) \<and> (u_userinfo u = [] \<or> good_name (u_userinfo u)) \<and> good_name (u_host u) \<and>
     0 \<le> u_port u \<and> u_port u < 2 ^ 31 \<and> (u_path u = [] \<or> hd (u_path u) = CHR ''/'') \<and>
     list_all uri_path_char (u_path u) \<and> list_all uri_query_char (u_query u) \<and> list_all uri_query_char (u_fragment u)"

text \<open>What is read back: the default path is written out, a default port is not.\<close>

definition uri_normal :: "uri \<Rightarrow> uri" where
  "uri_normal u = u\<lparr>u_path := uri_getPath u, u_port := if isDefaultPort u then 0 else u_port u\<rparr>"

lemma authority_run:
  assumes u: "plain_uri u" and q: "(q, qh, qp, qd) \<in> host_states"
    and s: "s = pre @ u_host u @ (if isDefaultPort u then [] else '':'' @ int_text (u_port u)) @ CHR ''/'' # zs"
  shows "\<exists>mid. s = mid @ CHR ''/'' # zs \<and>
    uri_run s (length pre) (drop (length pre) s) q (None, v) = uri_run s (Suc (length mid)) zs 513
      (Some (length mid), v\<lparr>u_host := u_host u, u_port := if isDefaultPort u then u_port v else u_port u\<rparr>)"
proof (cases "isDefaultPort u")
  case True
  with run_host_path [OF q, of "u_host u" s pre zs v] u s show ?thesis
    by (intro exI [of _ "pre @ u_host u"]) (simp add: plain_uri_def)
next
  case False
  have p: "nat (u_port u) < 2 ^ 31" "int_text (u_port u) = dec (nat (u_port u))" "int (nat (u_port u)) = u_port u"
    using u by (simp_all add: plain_uri_def int_text_def nat_less_iff)
  with run_host_port_path [OF q _ p(1), of "u_host u" s pre zs v] u s False show ?thesis
    by (intro exI [of _ "pre @ u_host u @ '':'' @ dec (nat (u_port u))"]) (simp add: plain_uri_def)
qed

lemma Create_toString:
  assumes u: "plain_uri u"
  shows "uri_Create (uri_toString u) = Inr (Some (uri_normal u))"
proof -
  obtain w where w: "uri_getPath u = CHR ''/'' # w" and wc: "list_all uri_path_char w"
    using u by (cases "u_path u") (auto simp: plain_uri_def uri_getPath_def)
  define y f sch ui where "y = u_query u" and "f = u_fragment u" and "sch = u_scheme u" and "ui = u_userinfo u"
  note parts = this
  define s where "s = uri_toString u"
  define zs where "zs = w @ (if y = [] then [] else CHR ''?'' # y) @ (if f = [] then [] else CHR ''#'' # f)"
  define pre where "pre = sch @ ''://'' @ ui @ (if ui = [] then [] else ''@'')"
  define rest where "rest = u_host u @ (if isDefaultPort u then [] else '':'' @ int_text (u_port u)) @ CHR ''/'' # zs"
  define q where "q = (if ui = [] then 511 else 522 :: nat)"
  let ?v = "new_Uri\<lparr>u_scheme := sch, u_userinfo := ui\<rparr>"
  have s: "s = pre @ rest"
    by (simp add: s_def uri_toString_def w zs_def pre_def rest_def parts)
  have "uri_run s 0 s 451 (None, new_Uri) =
      uri_run s (length (sch @ ''://'')) (ui @ (if ui = [] then [] else ''@'') @ rest) 511 (None, new_Uri\<lparr>u_scheme := sch\<rparr>)"
    using u by (intro run_scheme) (simp_all add: s pre_def plain_uri_def parts)
  also have "\<dots> = uri_run s (length pre) rest q (None, ?v)"
    using u run_userinfo [of s "sch @ ''://''" ui rest "new_Uri\<lparr>u_scheme := sch\<rparr>"]
    by (auto simp: s pre_def q_def plain_uri_def parts new_Uri_def)
  finally have front: "uri_run s 0 s 451 (None, new_Uri) = uri_run s (length pre) rest q (None, ?v)" .
  have hs: "\<exists>qh qp qd. (q, qh, qp, qd) \<in> host_states" by (simp add: q_def host_states_def)
  then obtain mid where mid: "s = mid @ CHR ''/'' # zs" and run: "uri_run s (length pre) rest q (None, ?v) =
      uri_run s (Suc (length mid)) zs 513
        (Some (length mid), ?v\<lparr>u_host := u_host u, u_port := if isDefaultPort u then 0 else u_port u\<rparr>)"
    using authority_run [OF u, of q _ _ _ s pre zs ?v] s rest_def by (auto simp: new_Uri_def)
  have "sbind (uri_run s 0 s 451 (None, new_Uri)) (uri_finish s) = Inr (Some (uri_normal u))"
    unfolding front run unfolding zs_def
    using u wc mid by (subst finish_path [where pre = mid])
      (auto simp: zs_def plain_uri_def parts uri_normal_def w new_Uri_def)
  then show ?thesis by (simp add: uri_Create_finish s_def)
qed

lemma normal_same_text: "uri_toString (uri_normal u) = uri_toString u"
  by (simp add: uri_toString_def uri_normal_def isDefaultPort_def uri_getPath_def)

lemma normal_same_port: "uri_getPort (uri_normal u) = uri_getPort u"
  by (auto simp: uri_getPort_def uri_normal_def isDefaultPort_def split: if_splits)


definition sample_uri :: uri where
  "sample_uri = \<lparr>u_scheme = ''http'', u_userinfo = ''user'', u_host = ''www.exhy.org'', u_path = ''/a/b'', u_query = ''id=1'',
     u_fragment = ''top'', u_port = 8080\<rparr>"

lemma sample_uri_plain: "plain_uri sample_uri"
  by (simp add: plain_uri_def sample_uri_def good_scheme_def good_name_def chars_def uri_path_char_def uri_query_char_def)


end
