(* ===== verification/UriSafety.thy ===== *)
theory UriSafety
  imports UriMark UriRead
begin

text \<open>
  Uri::Create (exhy/exhy_uri.cpp) on any text: no step reads outside of a table, and unless a port is empty the
  call returns.
\<close>

section \<open>Transitions\<close>

lemma marks_ok_nth:
  assumes "rows_ok (drop p keys) p q rows" "marks_ok (drop p keys) (drop q ts) n rows"
    "m < length rows" "rows ! m = (k, i, s, r)"
  shows "list_all2 (single_ok (n + m)) (take s (drop k keys)) (take s (drop i ts)) \<and>
    list_all (other_ok (n + m)) (take (r + 1) (drop (i + s) ts))"
  using assms
proof (induction rows arbitrary: p q n m)
  case (Cons row rows)
  obtain k' i' s' r' where row: "row = (k', i', s', r')" by (cases row)
  show ?case
  proof (cases m)
    case 0
    with Cons.prems row show ?thesis by (auto simp: drop_drop add.commute)
  next
    case (Suc m')
    have "rows_ok (drop (p + s' + 2 * r') keys) (p + s' + 2 * r') (q + s' + r' + 1) rows"
      and "marks_ok (drop (p + s' + 2 * r') keys) (drop (q + s' + r' + 1) ts) (n + 1) rows"
      using Cons.prems(1,2) row by (auto simp: drop_drop ac_simps)
    from Cons.IH [OF this, of m'] Cons.prems(3,4) Suc show ?thesis by simp
  qed
qed simp

lemma other_single: "other_ok n t \<Longrightarrow> single_ok n c t"
  by (simp add: other_ok_def single_ok_def)

lemma trans_ok:
  assumes cs: "0 < cs" "cs < 561"
  shows "single_ok cs c (row_trans cs c)"
proof -
  let ?io = "uri_index_offsets ! cs" and ?sl = "uri_single_lengths ! cs" and ?rl = "uri_range_lengths ! cs"
  have row: "drop 1 uri_rows ! (cs - 1) = (uri_key_offsets ! cs, ?io, ?sl, ?rl)" "cs - 1 < length (drop 1 uri_rows)"
    using cs by (simp_all add: uri_rows_def)
  have "list_all2 (single_ok (1 + (cs - 1))) (uri_singles cs) (take ?sl (drop ?io uri_indicies)) \<and>
      list_all (other_ok (1 + (cs - 1))) (take (?rl + 1) (drop (?io + ?sl) uri_indicies))"
    unfolding uri_singles_def keys_from_def
    by (rule marks_ok_nth [where p = 0 and q = 0 and rows = "drop 1 uri_rows"])
      (use row rows_hold marks_hold in simp_all)
  then have s: "list_all2 (single_ok cs) (uri_singles cs) (take ?sl (drop ?io uri_indicies))"
    and o: "list_all (other_ok cs) (take (?rl + 1) (drop (?io + ?sl) uri_indicies))"
    using cs by simp_all
  note len = row_lengths [OF cs]
  show ?thesis
  proof (cases "find_key (uri_singles cs) c")
    case (Some i)
    have "uri_singles cs ! i = c \<and> i < ?sl" using Some len(1) by (auto dest: find_key_nth find_key_less)
    with s Some row_facts(2) [OF cs] indicies_less(1) show ?thesis
      by (auto simp: row_trans_def row_index_def list_all2_conv_all_nth)
  next
    case None
    define j where "j = (case find_range (uri_ranges cs) c of Some i \<Rightarrow> i | None \<Rightarrow> ?rl)"
    have "j \<le> ?rl" using len(2) by (auto simp: j_def split: option.splits dest!: find_range_less)
    moreover have "row_index (uri_singles cs) (uri_ranges cs) c = ?sl + j"
      using None len by (auto simp: row_index_def j_def split: option.splits)
    ultimately have "other_ok cs (row_trans cs c)"
      using o row_facts(2) [OF cs] indicies_less(1) by (simp add: row_trans_def list_all_length add.assoc)
    then show ?thesis by (rule other_single)
  qed
qed

section \<open>The mark through the actions\<close>

text \<open>Whether the mark is NULL behind the actions, if it was so before; nothing for a fault.\<close>

primrec null_after :: "bool \<Rightarrow> nat list \<Rightarrow> bool option" where
  "null_after b [] = Some b"
| "null_after b (a # as) =
     (if a = 0 \<or> a = 1 then null_after False as
      else if a = 2 \<or> a = 3 \<or> a = 6 \<or> a = 7 \<or> a = 8 then (if b then None else null_after True as)
      else if a = 4 then null_after True as
      else null_after b as)"

lemma null_after_run:
  "null_after (m = None) as = Some b \<Longrightarrow> \<exists>m' u'. uri_run_acts s p as (m, u) = Inr (m', u') \<and> (m' = None \<longleftrightarrow> b)"
proof (induction as arbitrary: m u)
  case (Cons a as)
  show ?case
  proof (cases m)
    case None
    with Cons show ?thesis by (auto simp: uri_act_def marked_def split: if_splits)
  next
    case (Some k)
    with Cons show ?thesis by (auto simp: uri_act_def marked_def split: if_splits)
  qed
qed simp

lemma run_acts_error: "uri_run_acts s p as st = Inl e \<Longrightarrow> e = NullDeref"
proof (induction as arbitrary: st)
  case (Cons a as)
  then show ?case
    by (cases st) (auto simp: uri_act_def marked_def sbind_def split: if_splits option.splits sum.splits)
qed simp

text \<open>The states in which the mark may be NULL.\<close>

definition unmarked :: "nat \<Rightarrow> bool" where
  "unmarked n \<longleftrightarrow> 3 \<le> n \<and> n \<le> 6 \<or> 451 \<le> n \<and> n \<le> 453 \<or> n = 455 \<or> n = 456 \<or> n = 458 \<or> n = 459 \<or> n = 469 \<or>
     509 \<le> n \<and> n \<le> 511 \<or> n = 522"

definition keeps_mark :: "bool \<Rightarrow> nat \<times> nat list \<Rightarrow> bool" where
  "keeps_mark b out \<longleftrightarrow>
     (case null_after b (trans_acts (snd out)) of None \<Rightarrow> False | Some b' \<Rightarrow> b' \<longrightarrow> fst out = 0 \<or> unmarked (fst out))"

text \<open>Both columns of the transitions, with the number of the transition.\<close>

lemma zip_columns: "zip uri_trans_targs uri_trans_actions = zip uri_trans_targs1 uri_trans_actions1 @ zip uri_trans_targs2 uri_trans_actions2"
  by (simp add: uri_trans_targs_def uri_trans_actions_def zip_append)

lemma for_transitions:
  assumes "list_all (\<lambda>(t, g, a). P t g a) (enumerate 0 (zip uri_trans_targs uri_trans_actions))" "t < 619"
  shows "P t (uri_trans_targs ! t) (uri_trans_actions ! t)"
  using assms targs_less(1) trans_actions_ok(1) by (simp add: list_all_length nth_enumerate_eq)

definition transition_ok :: "nat \<Rightarrow> nat \<Rightarrow> nat \<Rightarrow> bool" where
  "transition_ok t g a \<longleftrightarrow>
     (if a = 0 \<or> empty_trans t then True else keeps_mark False (g, take (uri_actions ! a) (drop (a + 1) uri_actions))) \<and>
     (if g = 514 \<or> g = 521 then port_trans t else True) \<and> (if early_trans t then early g else True)"

text \<open>The columns are gone through with the numbers as numerals.\<close>

lemma enumerate_start: "enumerate 0 (x # y # z # xs) = (0, x) # (1, y) # (2, z) # enumerate 3 xs"
  by (simp add: numeral_3_eq_3 numeral_2_eq_2)

lemma transitions1: "list_all (\<lambda>(t, g, a). transition_ok t g a) (enumerate 0 (zip uri_trans_targs1 uri_trans_actions1))"
  by (simp only: uri_trans_targs1_def uri_trans_actions1_def zip_Cons_Cons zip_Nil, simp only: enumerate_start,
      simp only: enumerate_simps Suc_numeral add_num_simps, simp add: transition_ok_def mark_simps keeps_mark_def
      uri_actions_def trans_acts_def unmarked_def)

lemma transitions2: "list_all (\<lambda>(t, g, a). transition_ok t g a) (enumerate 320 (zip uri_trans_targs2 uri_trans_actions2))"
  by (simp add: uri_trans_targs2_def uri_trans_actions2_def transition_ok_def mark_simps keeps_mark_def
      uri_actions_def trans_acts_def unmarked_def)

lemma unmarked_rows:
  "list_all (\<lambda>n. list_all (keeps_mark True) (row_outs n)) [3, 4, 5, 6, 452, 455, 458, 459, 469]"
  by (simp add: row_by_offset, simp add: row_offsets, simp add: row_by_piece,
      simp add: index_pieces_def, simp add: outs_by_piece, simp add: out_pieces_def keeps_mark_def trans_acts_def unmarked_def)

lemma unmarked_state_rows:
  "list_all (\<lambda>n. list_all (keeps_mark True) (row_outs n)) [451, 453, 456, 509, 510, 511, 522]"
  by (simp add: state_rows keeps_mark_def trans_acts_def unmarked_def)

definition returns :: "bool option \<Rightarrow> bool" where
  "returns r \<longleftrightarrow> (case r of None \<Rightarrow> False | Some _ \<Rightarrow> True)"

definition eof_ok :: "nat \<Rightarrow> nat \<Rightarrow> bool" where
  "eof_ok n k \<longleftrightarrow> (if k = 0 \<or> n = 514 \<or> n = 521 then True else let as = eof_acts (take (uri_actions ! k) (drop (k + 1) uri_actions))
     in returns (null_after False as) \<and> (if unmarked n then returns (null_after True as) else True))"

lemma eof_marks1: "list_all (\<lambda>(n, k). eof_ok n k) (enumerate 0 uri_eof_actions1)"
  by (simp only: uri_eof_actions1_def, simp only: enumerate_start, simp only: enumerate_simps Suc_numeral add_num_simps,
      simp add: eof_ok_def uri_actions_def eof_acts_def unmarked_def returns_def)

lemma eof_marks2: "list_all (\<lambda>(n, k). eof_ok n k) (enumerate 320 uri_eof_actions2)"
  by (simp add: uri_eof_actions2_def eof_ok_def uri_actions_def eof_acts_def unmarked_def returns_def)

lemma eof_marks: "n < 561 \<Longrightarrow> eof_ok n (uri_eof_actions ! n)"
proof -
  assume n: "n < 561"
  have "list_all (\<lambda>(n, k). eof_ok n k) (enumerate 0 uri_eof_actions)"
    using eof_marks1 eof_marks2 by (simp add: uri_eof_actions_def enumerate_append_eq)
  then show ?thesis using n eof_actions_ok(1) by (simp add: list_all_length nth_enumerate_eq)
qed

lemma transitions: "t < 619 \<Longrightarrow> transition_ok t (uri_trans_targs ! t) (uri_trans_actions ! t)"
proof -
  assume t: "t < 619"
  have "length (zip uri_trans_targs1 uri_trans_actions1) = 320" by simp
  then have "list_all (\<lambda>(t, g, a). transition_ok t g a) (enumerate 0 (zip uri_trans_targs uri_trans_actions))"
    using transitions1 transitions2 by (simp add: zip_columns enumerate_append_eq)
  then show ?thesis using t by (rule for_transitions)
qed

text \<open>What the passes say of a step.\<close>

lemma null_after_Nil: "trans_acts [] = []"
  by (simp add: trans_acts_def)

lemma trans_marked: "t < 619 \<Longrightarrow> \<not> empty_trans t \<Longrightarrow> keeps_mark False (trans_out t)"
proof -
  assume t: "t < 619" "\<not> empty_trans t"
  show ?thesis
  proof (cases "uri_trans_actions ! t = 0")
    case True
    then show ?thesis by (simp add: trans_out_def keeps_mark_def null_after_Nil)
  next
    case False
    then show ?thesis using transitions [of t] t unfolding transition_ok_def trans_out_def Let_def by simp
  qed
qed

lemma trans_port: "t < 619 \<Longrightarrow> uri_trans_targs ! t = 514 \<or> uri_trans_targs ! t = 521 \<Longrightarrow> port_trans t"
  using transitions [of t] by (auto simp: transition_ok_def split: if_splits)

lemma trans_early: "t < 619 \<Longrightarrow> early_trans t \<Longrightarrow> early (uri_trans_targs ! t)"
  using transitions [of t] by (auto simp: transition_ok_def split: if_splits)

lemma row_trans_in:
  assumes cs: "0 < cs" "cs < 561"
  shows "row_trans cs c \<in>
    set (take (uri_single_lengths ! cs + uri_range_lengths ! cs + 1) (drop (uri_index_offsets ! cs) uri_indicies))"
  using row_index_bound [OF cs, of c] row_facts(2) [OF cs] indicies_less(1) unfolding in_set_conv_nth
  by (intro exI [of _ "row_index (uri_singles cs) (uri_ranges cs) c"]) (simp add: row_trans_def)

lemma unmarked_step:
  assumes "unmarked cs"
  shows "keeps_mark True (trans_out (row_trans cs c))"
proof -
  have cs: "0 < cs" "cs < 561" using assms by (auto simp: unmarked_def)
  have "cs \<in> set ([3, 4, 5, 6, 452, 455, 458, 459, 469] @ [451, 453, 456, 509, 510, 511, 522])"
    using assms by (simp add: unmarked_def) presburger
  then have all: "list_all (keeps_mark True) (row_outs cs)"
    using unmarked_rows unmarked_state_rows unfolding set_append list_all_iff by blast
  have "row_trans cs c \<in> set (take (uri_single_lengths ! cs + uri_range_lengths ! cs + 1) (drop (uri_index_offsets ! cs) uri_indicies))"
    using row_trans_in [OF cs] .
  with all show ?thesis by (simp add: row_outs_def list_all_iff)
qed

section \<open>Empty ports\<close>

text \<open>A ':' with nothing behind it before the path, the query, the fragment or the end; the ':' of the scheme, the
  first one, is left out of the count.\<close>

primrec empty_colon :: "string \<Rightarrow> bool" where
  "empty_colon [] = False"
| "empty_colon (c # cs) = (c = CHR '':'' \<and> (cs = [] \<or> hd cs \<in> set ''/?#'') \<or> empty_colon cs)"

definition behind_scheme :: "string \<Rightarrow> string" where
  "behind_scheme s = tl (dropWhile (\<lambda>c. c \<noteq> CHR '':'') s)"

lemma empty_colon_append: "empty_colon cs \<Longrightarrow> empty_colon (xs @ cs)"
  by (induction xs) auto

lemma empty_colon_at:
  assumes "s = y @ '':'' @ zs" "CHR '':'' \<in> set y" "zs = [] \<or> hd zs \<in> set ''/?#''"
  shows "empty_colon (behind_scheme s)"
proof -
  obtain a b where y: "y = a @ CHR '':'' # b" "CHR '':'' \<notin> set a" using split_list_first [OF assms(2)] by blast
  then have "dropWhile (\<lambda>c. c \<noteq> CHR '':'') s = CHR '':'' # b @ '':'' @ zs"
    using assms(1) by (auto simp: dropWhile_append)
  moreover have "empty_colon ('':'' @ zs)" using assms(3) by auto
  ultimately show ?thesis by (simp add: behind_scheme_def empty_colon_append)
qed

text \<open>Behind the part \<open>x\<close> of the text.\<close>

definition mark_inv :: "string \<Rightarrow> nat \<Rightarrow> nat option \<Rightarrow> bool" where
  "mark_inv x cs m \<longleftrightarrow> 0 < cs \<and> cs < 561 \<and> (m = None \<longrightarrow> unmarked cs) \<and>
     (cs = 514 \<or> cs = 521 \<longrightarrow> (\<exists>y. x = y @ '':'' \<and> CHR '':'' \<in> set y)) \<and> (\<not> early cs \<longrightarrow> CHR '':'' \<in> set x)"

lemma sc_inj: "sc c = sc d \<longleftrightarrow> c = d"
proof
  assume eq: "sc c = sc d"
  have signed: "m = n" if "m < 256" "n < 256"
    "(if int m < 128 then int m else int m - 256) = (if int n < 128 then int n else int n - 256)" for m n
    using that by (auto split: if_splits)
  have "(of_char c :: nat) = of_char d"
    by (rule signed [OF nat_of_char_less_256 nat_of_char_less_256]) (use eq in \<open>simp add: sc_def Let_def\<close>)
  then show "c = d" by simp
qed simp

lemma sc_colon: "sc c = 58 \<longleftrightarrow> c = CHR '':''"
  using sc_inj [of c "CHR '':''"] by simp

lemma sc_ends: "sc c = 35 \<or> sc c = 47 \<or> sc c = 63 \<longleftrightarrow> c \<in> set ''/?#''"
  using sc_inj [of c "CHR ''#''"] sc_inj [of c "CHR ''/''"] sc_inj [of c "CHR ''?''"] by auto

lemma step_keeps_mark:
  assumes inv: "mark_inv x cs m" and s: "s = x @ c # zs" and ne: "\<not> empty_colon (behind_scheme s)"
  shows "\<exists>cs' as m' u'. uri_step cs (sc c) = Inr (cs', as) \<and> uri_run_acts s p (trans_acts as) (m, u) = Inr (m', u') \<and>
    (cs' \<noteq> 0 \<longrightarrow> mark_inv (x @ [c]) cs' m')"
proof -
  let ?t = "row_trans cs (sc c)"
  obtain cs' as where out: "trans_out ?t = (cs', as)" by (cases "trans_out ?t")
  have cs: "0 < cs" "cs < 561" using inv by (simp_all add: mark_inv_def)
  have t: "?t < 619" and ok: "single_ok cs (sc c) ?t" using row_trans_less [OF cs] trans_ok [OF cs] by blast+
  have targ: "cs' = uri_trans_targs ! ?t" "cs' < 561" using out trans_out_less [OF t] by (auto simp: trans_out_def Let_def)
  have "\<not> empty_trans ?t"
    using ok inv empty_colon_at [of s _ "c # zs"] ne s sc_ends [of c] by (force simp: single_ok_def mark_inv_def)
  then have "keeps_mark (m = None) (cs', as)"
    using trans_marked [OF t] unmarked_step [of cs "sc c"] inv out by (cases m) (auto simp: mark_inv_def)
  then obtain b where b: "null_after (m = None) (trans_acts as) = Some b" "b \<longrightarrow> cs' = 0 \<or> unmarked cs'"
    by (auto simp: keeps_mark_def split: option.splits)
  obtain m' u' where acts: "uri_run_acts s p (trans_acts as) (m, u) = Inr (m', u')" "m' = None \<longleftrightarrow> b"
    using null_after_run [OF b(1)] by blast
  have early: "CHR '':'' \<in> set (x @ [c])" if "\<not> early cs'"
    using that ok inv trans_early [OF t] targ(1) by (auto simp: single_ok_def mark_inv_def sc_colon)
  have port: "\<exists>y. x @ [c] = y @ '':'' \<and> CHR '':'' \<in> set y" if "cs' = 514 \<or> cs' = 521"
    using that ok inv trans_port [OF t] targ(1) by (auto simp: single_ok_def mark_inv_def sc_colon)
  have "mark_inv (x @ [c]) cs' m'" if "cs' \<noteq> 0"
    using that targ(2) b(2) acts(2) early port by (simp add: mark_inv_def)
  with acts(1) out show ?thesis using uri_step_row [OF cs] by simp
qed

lemma run_keeps_mark:
  assumes "mark_inv x cs m" "s = x @ zs" "\<not> empty_colon (behind_scheme s)"
  shows "\<exists>r. uri_run s (length x) zs cs (m, u) = Inr r \<and>
    (case r of Inl _ \<Rightarrow> True | Inr (cs', m', _) \<Rightarrow> mark_inv s cs' m')"
  using assms(1,2)
proof (induction zs arbitrary: x cs m u)
  case (Cons c zs)
  from step_keeps_mark [OF Cons.prems assms(3), of "length x" u] obtain cs' as m' u' where
    st: "uri_step cs (sc c) = Inr (cs', as)" "uri_run_acts s (length x) (trans_acts as) (m, u) = Inr (m', u')"
    and inv: "cs' \<noteq> 0 \<longrightarrow> mark_inv (x @ [c]) cs' m'" by blast
  show ?case
  proof (cases "cs' = 0")
    case True
    with st show ?thesis by simp
  next
    case False
    with Cons.IH [of "x @ [c]" cs' m' u'] inv Cons.prems(2) st show ?thesis by simp
  qed
qed simp

lemma finish_returns:
  assumes inv: "mark_inv s cs m" and ne: "\<not> empty_colon (behind_scheme s)"
  shows "\<exists>r. uri_finish s (Inr (cs, m, u)) = Inr r"
proof -
  let ?k = "uri_eof_actions ! cs"
  have cs: "0 < cs" "cs < 561" using inv by (simp_all add: mark_inv_def)
  obtain as where as: "uri_acts ?k = Inr as"
    using acts_total [OF eof_actions_ok(2)] cs(2) eof_actions_ok(1) by auto
  have "cs \<noteq> 514 \<and> cs \<noteq> 521" using inv empty_colon_at [of s _ "[]"] ne by (auto simp: mark_inv_def)
  then have "\<exists>b. null_after (m = None) (eof_acts as) = Some b"
  proof (cases "?k = 0")
    case True
    then have "as = []" using as by (simp add: uri_acts_def elem_at_def uri_actions_def)
    then show ?thesis by (simp add: eof_acts_def)
  next
    case False
    with \<open>cs \<noteq> 514 \<and> cs \<noteq> 521\<close> eof_marks [OF cs(2)] uri_acts_Inr [OF as] inv show ?thesis
      by (cases m) (auto simp: eof_ok_def Let_def returns_def mark_inv_def split: option.splits)
  qed
  then obtain m' u' where "uri_run_acts s (length s) (eof_acts as) (m, u) = Inr (m', u')"
    using null_after_run by blast
  then show ?thesis using as cs eof_actions_ok(1) by (simp add: uri_finish_def)
qed

text \<open>
  Claim C12. Uri::Create returns, with a URI or without one, for every text in which no port is empty, that is, in which no ':'
  but the first is followed by the path, the query, the fragment or the end.
\<close>

theorem uri_Create_returns:
  assumes "\<not> empty_colon (behind_scheme s)"
  shows "\<exists>r. uri_Create s = Inr r"
proof -
  have "mark_inv [] 451 None" by (simp add: mark_inv_def unmarked_def early_def)
  from run_keeps_mark [OF this _ assms, of s new_Uri] obtain r where
    r: "uri_run s 0 s 451 (None, new_Uri) = Inr r"
      "case r of Inl _ \<Rightarrow> True | Inr (cs', m', _) \<Rightarrow> mark_inv s cs' m'" by auto
  have "\<exists>x. uri_finish s r = Inr x"
    using r(2) finish_returns [OF _ assms] by (cases r) (auto simp: uri_finish_def)
  with r(1) show ?thesis by (simp add: uri_Create_finish)
qed

theorem uri_Create_returns_witness:
  "\<not> empty_colon (behind_scheme ''http://exhy.org:80/a:b'') \<and> (\<exists>r. uri_Create ''http://exhy.org:80/a:b'' = Inr r)"
proof -
  have "\<not> empty_colon (behind_scheme ''http://exhy.org:80/a:b'')" by (simp add: behind_scheme_def)
  from this uri_Create_returns [OF this] show ?thesis by blast
qed

section \<open>Every text\<close>

lemma run_error:
  "0 < cs \<Longrightarrow> cs < 561 \<Longrightarrow> case uri_run s p zs cs st of
     Inl e \<Rightarrow> e = NullDeref | Inr (Inl _) \<Rightarrow> True | Inr (Inr (cs', _)) \<Rightarrow> 0 < cs' \<and> cs' < 561"
proof (induction zs arbitrary: p cs st)
  case (Cons c zs)
  let ?t = "row_trans cs (sc c)"
  obtain cs' as where out: "trans_out ?t = (cs', as)" by (cases "trans_out ?t")
  have "cs' < 561" using trans_out_less [OF row_trans_less [OF Cons.prems], of "sc c"] out by simp
  with Cons.IH [of cs' "Suc p"] uri_step_row [OF Cons.prems, of "sc c"] out run_acts_error show ?case
    by (cases "uri_run_acts s p (trans_acts as) st") (auto split: sum.splits)
qed simp

lemma finish_error: "cs < 561 \<Longrightarrow> uri_finish s (Inr (cs, st)) = Inl e \<Longrightarrow> e = NullDeref"
proof -
  assume cs: "cs < 561" and e: "uri_finish s (Inr (cs, st)) = Inl e"
  obtain as where "uri_acts (uri_eof_actions ! cs) = Inr as"
    using acts_total [OF eof_actions_ok(2)] cs eof_actions_ok(1) by auto
  with e cs eof_actions_ok(1) run_acts_error show ?thesis
    by (cases "uri_run_acts s (length s) (eof_acts as) st") (auto simp: uri_finish_def split: if_splits)
qed

text \<open>
  Claim C13. On no text does Uri::Create read outside of a table: every offset, key, transition and action the machine looks up is
  there, and the one fault left is a part that is saved from a NULL mark.
\<close>

theorem uri_Create_stays_in_tables: "(\<exists>r. uri_Create s = Inr r) \<or> uri_Create s = Inl NullDeref"
proof (cases "uri_run s 0 s 451 (None, new_Uri)")
  case (Inl e)
  then show ?thesis using run_error [of 451 s 0 s "(None, new_Uri)"] by (simp add: uri_Create_finish)
next
  case (Inr r)
  then have "case r of Inl _ \<Rightarrow> True | Inr (cs', _) \<Rightarrow> cs' < 561"
    using run_error [of 451 s 0 s "(None, new_Uri)"] by (auto split: sum.splits)
  then have "(\<exists>x. uri_finish s r = Inr x) \<or> uri_finish s r = Inl NullDeref"
    using finish_error [of _ s] by (cases r; cases "uri_finish s r") (auto simp: uri_finish_def [of _ "Inl _"])
  with Inr show ?thesis by (simp add: uri_Create_finish)
qed

text \<open>
  Claim C34. The binary searches find the transition that a scan of the row finds, the single keys first and then the ranges, in
  every state and for every character.
\<close>

theorem uri_search_is_scan:
  assumes "0 < cs" "cs < 561"
  shows "uri_match cs c = Inr (int (uri_index_offsets ! cs + row_index (uri_singles cs) (uri_ranges cs) c))"
  using assms by (rule uri_match_scan)

theorem uri_search_is_scan_witness:
  "uri_match 508 58 = Inr (int (uri_index_offsets ! 508 + row_index [34, 35, 37, 43, 47, 58, 60, 62, 63, 96, 127]
     [0, 32, 45, 57, 65, 90, 91, 94, 97, 122, 123, 125] 58))"
  using uri_search_is_scan [of 508 58] by (simp add: row_508)

text \<open>
  Claim C35. A port that is left empty is not taken: behind a scheme and a host, ":/" and any path end in the construction of a
  string from a NULL pointer.
\<close>

theorem empty_port_faults:
  assumes "good_scheme sch" "good_name h" "list_all uri_path_char w"
  shows "uri_Create (sch @ ''://'' @ h @ '':/'' @ w) = Inl NullDeref"
proof -
  let ?s = "sch @ ''://'' @ h @ '':/'' @ w" and ?pre = "sch @ ''://''" and ?u = "new_Uri\<lparr>u_scheme := sch\<rparr>"
  have slash: "uri_step 521 (sc (CHR ''/'')) = Inr (513, [1, 3])" by (simp add: uri_step_outs row_521 row_index_def)
  have "uri_run ?s 0 ?s 451 (None, new_Uri) = uri_run ?s (length ?pre) (h @ '':/'' @ w) 511 (None, ?u)"
    using assms(1) by (intro run_scheme) simp_all
  also have "\<dots> = uri_run ?s (length ?pre + length h) ('':/'' @ w) 520 (Some (length ?pre), ?u)"
    using assms(2) by (intro run_host [of _ _ 521 542]) (simp_all add: host_states_def)
  also have "\<dots> = uri_run ?s (Suc (Suc (length ?pre + length h))) w 513 (None, ?u\<lparr>u_host := h\<rparr>)"
    using authority_steps(6) slash marked_middle [of ?s ?pre h] by (simp add: trans_acts_def uri_act_def)
  also have "\<dots> = Inr (Inr (513, None, ?u\<lparr>u_host := h\<rparr>))"
    using assms(3) run_span [of w 513 ?s _ "[]"] by (simp add: uri_path_char_steps list_all_iff)
  finally show ?thesis
    using eof_steps(1) eof_actions_ok(1)
    by (simp add: uri_Create_finish uri_finish_def eof_acts_def uri_act_def marked_def)
qed

theorem empty_port_faults_witness: "uri_Create ''http://exhy.org:/index'' = Inl NullDeref"
  using empty_port_faults [of "''http''" "''exhy.org''" "''index''"]
  by (simp add: good_scheme_def good_name_def chars_def uri_path_char_def)

text \<open>A password of digits replaces the name: the mark of the port is set behind the ':', and the '@' saves from it.\<close>

lemma digit_password:
  assumes "good_scheme sch" "good_name n" "good_name h" "list_all uri_path_char w"
  shows "uri_Create (sch @ ''://'' @ n @ '':'' @ dec k @ ''@'' @ h @ ''/'' @ w) =
    Inr (Some (new_Uri\<lparr>u_scheme := sch, u_userinfo := dec k, u_host := h, u_path := CHR ''/'' # w\<rparr>))"
proof -
  let ?s = "sch @ ''://'' @ n @ '':'' @ dec k @ ''@'' @ h @ ''/'' @ w" and ?pre = "sch @ ''://''"
  let ?m = "?pre @ n @ '':''" and ?u = "new_Uri\<lparr>u_scheme := sch\<rparr>"
  let ?q = "?m @ dec k @ ''@''" and ?v = "?u\<lparr>u_host := n, u_userinfo := dec k\<rparr>"
  have at: "uri_step 542 (sc (CHR ''@'')) = Inr (522, [4])" by (simp add: uri_step_outs row_542 row_index_def sc_def)
  obtain c d where d: "dec k = c # d" and all: "\<forall>c \<in> set (dec k). c \<in> set digits"
    using dec_Cons [of k] dec_digits [of k] digit_in by blast
  have "uri_run ?s 0 ?s 451 (None, new_Uri) = uri_run ?s (length ?pre) (n @ '':'' @ dec k @ ''@'' @ h @ ''/'' @ w) 511 (None, ?u)"
    using assms(1) by (intro run_scheme) simp_all
  also have "\<dots> = uri_run ?s (length ?pre + length n) ('':'' @ dec k @ ''@'' @ h @ ''/'' @ w) 520 (Some (length ?pre), ?u)"
    using assms(2) by (intro run_host [of _ _ 521 542]) (simp_all add: host_states_def)
  also have "\<dots> = uri_run ?s (length ?m) (dec k @ ''@'' @ h @ ''/'' @ w) 521 (Some (length ?pre), ?u\<lparr>u_host := n\<rparr>)"
    using authority_steps(6) marked_middle [of ?s ?pre n] by (simp add: trans_acts_def uri_act_def)
  also have "\<dots> = uri_run ?s (length ?m + length (dec k)) (''@'' @ h @ ''/'' @ w) 542 (Some (length ?m), ?u\<lparr>u_host := n\<rparr>)"
    using port_steps(1,2) d all by (intro run_word [where a = 1]) (auto simp: list_all_iff)
  also have "\<dots> = uri_run ?s (length ?q) (h @ CHR ''/'' # w) 522 (None, ?v)"
    using at marked_middle [of ?s ?m "dec k"] by (simp add: trans_acts_def uri_act_def add.assoc)
  also have "\<dots> = uri_run ?s (Suc (length (?q @ h))) w 513 (Some (length (?q @ h)), ?v\<lparr>u_host := h\<rparr>)"
    using assms(3) by (intro run_host_path [of _ 523 514 515]) (simp_all add: host_states_def)
  finally show ?thesis
    using finish_path [of ?s "?q @ h" w "[]" "[]" "?v\<lparr>u_host := h\<rparr>"] assms(4)
    by (simp add: uri_Create_finish new_Uri_def)
qed

end
