(* ===== verification/ClientSocket.thy ===== *)
theory ClientSocket
  imports SocketFacts HttpClient UriSafety
begin

text \<open>
  The HTTP client over Socket objects. What a stream, the receiving of a response and a request of the client do to
  a property of their socket (\<open>socket_user\<close>), and what becomes of the descriptors of a client.
\<close>

section \<open>Users of a socket\<close>

definition on_stream :: "('k \<Rightarrow> bool) \<Rightarrow> 'k sstream \<Rightarrow> bool" where
  "on_stream P s \<longleftrightarrow> (\<exists>k. m_socket s = Some k \<and> P k)"

text \<open>A property of sockets that receiving, sending and closing keep.\<close>

locale socket_user =
  fixes conn :: "'k \<Rightarrow> bool"
    and recv :: "'k \<Rightarrow> nat \<Rightarrow> int \<times> byte list \<times> 'k"
    and send :: "'k \<Rightarrow> byte list \<Rightarrow> int \<times> 'k"
    and cl :: "'k \<Rightarrow> 'k"
    and P :: "'k \<Rightarrow> bool"
  assumes recv_keeps: "P k \<Longrightarrow> recv k n = (rt, bs, k') \<Longrightarrow> P k'"
    and send_keeps: "P k \<Longrightarrow> send k bs = (rt', k') \<Longrightarrow> P k'"
    and close_keeps: "P k \<Longrightarrow> P (cl k)"
begin

lemma read_keeps: "on_stream P s \<Longrightarrow> stream_read conn recv s n = Inr (rt, bs, s') \<Longrightarrow> on_stream P s'"
  using recv_keeps by (auto simp: stream_read_def isConnected_def on_stream_def split: if_splits option.splits prod.splits)

lemma write_keeps: "on_stream P s \<Longrightarrow> stream_write conn send s bs = Inr (rt, s') \<Longrightarrow> on_stream P s'"
  using send_keeps by (auto simp: stream_write_def isConnected_def on_stream_def split: if_splits option.splits prod.splits)

lemma stream_close_keeps: "on_stream P s \<Longrightarrow> on_stream P (stream_close cl s)"
  using close_keeps by (auto simp: stream_close_def on_stream_def)

lemma recv_head_keeps:
  assumes "rsp_recv_head conn recv cl n q data s = Some r" "on_stream P s" "r = Inr (m, s')"
  shows "on_stream P s'"
proof -
  have "(conn, recv, cl) = (conn, recv, cl) \<longrightarrow> on_stream P s \<longrightarrow> (\<forall>m s'. r = Inr (m, s') \<longrightarrow> on_stream P s')"
    using assms(1)
    by (rule rsp_recv_head.raw_induct [where P = "\<lambda>c rc x n q data s r. (c, rc, x) = (conn, recv, cl) \<longrightarrow> on_stream P s \<longrightarrow>
          (\<forall>m s'. r = Inr (m, s') \<longrightarrow> on_stream P s')", rotated])
      (auto dest: read_keeps stream_close_keeps split: sum.splits prod.splits if_splits)
  then show ?thesis using assms by blast
qed

lemma chunk_head_keeps:
  assumes "chunk_head conn recv cl n b q data s = Some r" "on_stream P s" "r = Inr (m, s')"
  shows "on_stream P s'"
proof -
  have "(conn, recv, cl) = (conn, recv, cl) \<longrightarrow> on_stream P s \<longrightarrow> (\<forall>m s'. r = Inr (m, s') \<longrightarrow> on_stream P s')"
    using assms(1)
    by (rule chunk_head.raw_induct [where P = "\<lambda>c rc x n b q data s r. (c, rc, x) = (conn, recv, cl) \<longrightarrow> on_stream P s \<longrightarrow>
          (\<forall>m s'. r = Inr (m, s') \<longrightarrow> on_stream P s')", rotated])
      (auto dest: read_keeps stream_close_keeps split: sum.splits prod.splits if_splits)
  then show ?thesis using assms by blast
qed

lemma read_rest_keeps:
  assumes "read_rest conn recv cl n left body s = Some r" "on_stream P s" "r = Inr (m, s')"
  shows "on_stream P s'"
proof -
  have "(conn, recv, cl) = (conn, recv, cl) \<longrightarrow> on_stream P s \<longrightarrow> (\<forall>m s'. r = Inr (m, s') \<longrightarrow> on_stream P s')"
    using assms(1)
    by (rule read_rest.raw_induct [where P = "\<lambda>c rc x n left body s r. (c, rc, x) = (conn, recv, cl) \<longrightarrow> on_stream P s \<longrightarrow>
          (\<forall>m s'. r = Inr (m, s') \<longrightarrow> on_stream P s')", rotated])
      (auto simp: Let_def dest: read_keeps stream_close_keeps split: sum.splits prod.splits if_splits)
  then show ?thesis using assms by blast
qed

lemma chunk_body_keeps:
  assumes "chunk_body conn recv cl n k data body s = Some (Inr (m, s'))" "on_stream P s"
  shows "on_stream P s'"
  using assms read_rest_keeps
  by (fastforce simp: chunk_body_def Let_def split: if_splits option.splits sum.splits prod.splits)

lemma recv_chunks_keeps:
  assumes "recv_chunks conn recv cl n q data body s = Some r" "on_stream P s" "r = Inr (m, s')"
  shows "on_stream P s'"
proof -
  have "(conn, recv, cl) = (conn, recv, cl) \<longrightarrow> on_stream P s \<longrightarrow> (\<forall>m s'. r = Inr (m, s') \<longrightarrow> on_stream P s')"
    using assms(1)
    by (rule recv_chunks.raw_induct [where P = "\<lambda>c rc x n q data body s r. (c, rc, x) = (conn, recv, cl) \<longrightarrow> on_stream P s \<longrightarrow>
          (\<forall>m s'. r = Inr (m, s') \<longrightarrow> on_stream P s')", rotated])
      (auto dest: chunk_body_keeps chunk_head_keeps [OF _ _ refl] split: option.splits sum.splits prod.splits if_splits)
  then show ?thesis using assms by blast
qed

lemma fix_loop_keeps:
  assumes step: "\<And>t n len t'. Q t \<Longrightarrow> step t n = Inr (len, t') \<Longrightarrow> Q t'" and "Q t"
  shows "fix_loop step w t left = Inr (rt, t') \<Longrightarrow> Q t'"
  using assms(2)
proof (induction "nat left" arbitrary: t left rule: less_induct)
  case less
  show ?case
  proof (cases "left \<le> 0")
    case True
    then show ?thesis using less.prems by (simp add: fix_loop.simps)
  next
    case False
    then obtain len t1 where 1: "step t left = Inr (len, t1)" using less.prems(1)
      by (subst (asm) fix_loop.simps) (auto elim!: sbind_eq_InrE)
    then have "if len \<le> 0 then t' = t1 else fix_loop step w t1 (left - len) = Inr (rt, t')"
      using less.prems(1) False by (subst (asm) fix_loop.simps) (auto split: if_splits)
    then show ?thesis using step [OF less.prems(2) 1] less.hyps [of "left - len" t1] False by (auto split: if_splits)
  qed
qed

lemma read_step_keeps:
  "on_stream P (fst t) \<Longrightarrow> read_buf_step (stream_read conn recv) t n = Inr (len, t') \<Longrightarrow> on_stream P (fst t')"
  by (auto simp: read_buf_step_def dest: read_keeps elim!: sbind_eq_InrE)

lemma write_step_keeps:
  "on_stream P (fst t) \<Longrightarrow> write_buf_step (stream_write conn send) t n = Inr (len, t') \<Longrightarrow> on_stream P (fst t')"
  by (auto simp: write_buf_step_def dest: write_keeps elim!: sbind_eq_InrE)

lemma recv_body_keeps:
  assumes "recv_body conn recv cl len data s = Inr (m, s')" "on_stream P s"
  shows "on_stream P s'"
proof -
  have loop: "on_stream P s1" if "readFixSize_buf (stream_read conn recv) s n = Inr (rt, s1, bs)" for n rt s1 bs
  proof -
    have "\<exists>r. fix_loop (read_buf_step (stream_read conn recv)) (int n) (s, []) (int n) = Inr (r, s1, bs)"
      using that by (auto simp: readFixSize_buf_def FixSize_def elim!: sbind_eq_InrE)
    then obtain r where "fix_loop (read_buf_step (stream_read conn recv)) (int n) (s, []) (int n) = Inr (r, s1, bs)" by blast
    from fix_loop_keeps [where Q = "\<lambda>t. on_stream P (fst t)", OF read_step_keeps _ this] assms(2) show ?thesis by simp
  qed
  show ?thesis using assms loop stream_close_keeps
    by (auto simp: recv_body_def Let_def elim!: sbind_eq_InrE split: if_splits)
qed

lemma recvResponse_keeps:
  assumes "recvResponse conn recv cl cast zl n h s = Some (Inr (m, s'))" "on_stream P s"
  shows "on_stream P s'"
  using assms
  by (auto simp: recvResponse_def recv_length_body_def Let_def elim!: sbind_eq_InrE
      dest: recv_head_keeps [OF _ _ refl] recv_chunks_keeps [OF _ _ refl] recv_body_keeps
      split: option.splits sum.splits prod.splits if_splits)

lemma sendRequest_keeps:
  assumes "sendRequest conn send req s = Inr (rt, s')" "on_stream P s"
  shows "on_stream P s'"
proof -
  obtain r bs where "fix_loop (write_buf_step (stream_write conn send)) (int (length (bytes_of (dump_request req))))
      (s, bytes_of (dump_request req)) (int (length (bytes_of (dump_request req)))) = Inr (r, s', bs)"
    using assms(1) by (auto simp: sendRequest_def writeFixSize_buf_def FixSize_def elim!: sbind_eq_InrE)
  from fix_loop_keeps [where Q = "\<lambda>t. on_stream P (fst t)", OF write_step_keeps _ this] assms(2) show ?thesis by simp
qed

lemma exchange_keeps:
  assumes "exchange net cast zl n h req t peer s = Some (Inr (res, s'))" "on_stream P s"
    "nt_conn net = conn" "nt_recv net = recv" "nt_send net = send" "nt_close net = cl"
  shows "on_stream P s'"
  using assms(1,2) unfolding exchange_def assms(3-6)
  by (auto dest!: recvResponse_keeps sendRequest_keeps split: option.splits sum.splits prod.splits if_splits)

end

section \<open>The client's sockets\<close>

text \<open>
  The socket of a client with the state outside it. Addresses are looked up by \<open>look\<close>; \<open>show\<close> and \<open>err\<close> are the
  text of an address and of errno. \<open>w0\<close> is the state when the request is made.
\<close>

definition client_recv :: "'w sys \<Rightarrow> socket \<times> 'w \<Rightarrow> nat \<Rightarrow> int \<times> byte list \<times> socket \<times> 'w" where
  "client_recv sys k n = (let (rt, bs, w) = sock_recv sys (fst k) n 0 (snd k) in (rt, bs, fst k, w))"

definition client_send :: "'w sys \<Rightarrow> socket \<times> 'w \<Rightarrow> byte list \<Rightarrow> int \<times> socket \<times> 'w" where
  "client_send sys k bs = (let (rt, w) = sock_send sys (fst k) bs 0 (snd k) in (rt, fst k, w))"

definition client_close :: "'w sys \<Rightarrow> socket \<times> 'w \<Rightarrow> socket \<times> 'w" where
  "client_close sys k = snd (sock_close sys (fst k) (snd k))"

definition socket_net ::
  "'w sys \<Rightarrow> (uri \<Rightarrow> address option) \<Rightarrow> (address \<Rightarrow> string) \<Rightarrow> int \<times> string \<Rightarrow> 'w \<Rightarrow> (socket \<times> 'w, address) net" where
  "socket_net sys look show' err w0 =
     \<lparr>nt_createAddress = look, nt_CreateTCP = (\<lambda>a. Some (CreateTCP a, w0)),
      nt_connect = (\<lambda>k a. sock_connect sys a (- 1) (fst k) (snd k)),
      nt_setRecvTimeout = (\<lambda>v k. (fst k, setRecvTimeout sys (fst k) v (snd k))),
      nt_conn = (\<lambda>k. sk_isConnected (fst k)), nt_recv = client_recv sys, nt_send = client_send sys,
      nt_close = client_close sys,
      nt_remote = (\<lambda>k. show' (fst (getRemoteAddress sys (fst k) (snd k)))), nt_toString = show', nt_errno = err\<rparr>"

text \<open>If the calls do what POSIX says, the socket holds its descriptor and the others are those of \<open>R\<close>.\<close>

definition client_holds :: "'w sys \<Rightarrow> ('w \<Rightarrow> int set) \<Rightarrow> int set \<Rightarrow> socket \<times> 'w \<Rightarrow> bool" where
  "client_holds sys opens R k \<longleftrightarrow> (posix sys opens \<longrightarrow> holds opens R (fst k) (snd k))"

interpretation client: socket_user "\<lambda>k. sk_isConnected (fst k)" "client_recv sys" "client_send sys" "client_close sys"
  "client_holds sys opens R" for sys :: "'w sys" and opens R
proof unfold_locales
  fix k :: "socket \<times> 'w" and n rt bs k'
  assume "client_holds sys opens R k" "client_recv sys k n = (rt, bs, k')"
  then show "client_holds sys opens R k'"
    using sock_step_holds [OF _ step_recv] by (auto simp: client_holds_def client_recv_def split: prod.splits)
next
  fix k :: "socket \<times> 'w" and bs rt k'
  assume "client_holds sys opens R k" "client_send sys k bs = (rt, k')"
  then show "client_holds sys opens R k'"
    using sock_step_holds [OF _ step_send] by (auto simp: client_holds_def client_send_def split: prod.splits)
next
  fix k :: "socket \<times> 'w"
  assume "client_holds sys opens R k"
  then show "client_holds sys opens R (client_close sys k)"
    using sock_close_holds(3) [of sys opens R "fst k" "snd k"]
    by (cases "sock_close sys (fst k) (snd k)") (auto simp: client_holds_def client_close_def)
qed

text \<open>What DoRequest comes to when the host has an address.\<close>

lemma request_steps:
  assumes "look u = Some a" "sock_connect sys a (- 1) (CreateTCP a) w0 = (ok, s1, w1)"
    and "DoRequest_req (socket_net sys look show' err w0) cast zl n h req u t = Some (Inr (res, k))"
  shows "if ok then \<exists>s2. exchange (socket_net sys look show' err w0) cast zl n h req t (show' a)
      \<lparr>m_socket = Some (s1, setRecvTimeout sys s1 (sint t) w1), m_owner = True\<rparr> = Some (Inr (res, s2)) \<and>
      k = map_option (client_close sys) (m_socket (delete_SocketStream (client_close sys) s2))
    else k = Some (client_close sys (s1, w1))"
proof -
  let ?net = "socket_net sys look show' err w0"
  have net: "nt_createAddress ?net = look" "nt_CreateTCP ?net = (\<lambda>a. Some (CreateTCP a, w0))"
    "nt_connect ?net = (\<lambda>k a. sock_connect sys a (- 1) (fst k) (snd k))" "nt_close ?net = client_close sys"
    "nt_setRecvTimeout ?net = (\<lambda>v k. (fst k, setRecvTimeout sys (fst k) v (snd k)))" "nt_toString ?net = show'"
    by (simp_all add: socket_net_def)
  show ?thesis using assms(3) unfolding DoRequest_req_def net assms(1)
    by (auto simp: assms(2) elim!: sbind_eq_InrE split: if_splits)
qed

lemma request_holds:
  assumes px: "posix sys opens" and a: "look u = Some a"
    and r: "DoRequest_req (socket_net sys look show' err w0) cast zl n h req u t = Some (Inr (res, k))"
  shows "\<exists>s w. k = Some (s, w) \<and> sk_sock s = - 1 \<and> opens w = opens w0"
proof -
  let ?net = "socket_net sys look show' err w0" and ?P = "client_holds sys opens (opens w0)"
  have final: "\<exists>s w. client_close sys k1 = (s, w) \<and> sk_sock s = - 1 \<and> opens w = opens w0" if "?P k1" for k1
    using sock_close_holds [OF px, of "opens w0" "fst k1" "snd k1"] px that
    by (cases "sock_close sys (fst k1) (snd k1)") (auto simp: client_holds_def client_close_def)
  obtain ok s1 w1 where c: "sock_connect sys a (- 1) (CreateTCP a) w0 = (ok, s1, w1)" using prod_cases3 by blast
  note steps = request_steps [OF a c r]
  have h1: "holds opens (opens w0) s1 w1"
    using sock_connect_holds(1) [OF px _ c, of "opens w0"] by (simp add: CreateTCP_def)
  show ?thesis
  proof (cases ok)
    case False
    then have "k = Some (client_close sys (s1, w1))" using steps by simp
    moreover have "?P (s1, w1)" using h1 by (simp add: client_holds_def)
    ultimately show ?thesis using final by fastforce
  next
    case True
    then obtain s2 where e: "exchange ?net cast zl n h req t (show' a)
        \<lparr>m_socket = Some (s1, setRecvTimeout sys s1 (sint t) w1), m_owner = True\<rparr> = Some (Inr (res, s2))"
      and k: "k = map_option (client_close sys) (m_socket (delete_SocketStream (client_close sys) s2))"
      using steps by auto
    have "?P (s1, setRecvTimeout sys s1 (sint t) w1)"
      using h1 setTimeout_opens(1) [OF px] by (simp add: client_holds_def holds_def)
    then have "on_stream ?P s2"
      by (intro client.exchange_keeps [OF e]) (simp_all add: on_stream_def socket_net_def del: split_paired_Ex)
    then obtain k2 where k2: "m_socket s2 = Some k2" "?P k2" by (auto simp: on_stream_def)
    have "\<exists>k3. m_socket (delete_SocketStream (client_close sys) s2) = Some k3 \<and> ?P k3"
      using k2 client.close_keeps [OF k2(2)] by (simp add: delete_SocketStream_def del: split_paired_Ex)
    then obtain k3 where "m_socket (delete_SocketStream (client_close sys) s2) = Some k3" "?P k3" by blast
    then show ?thesis using final [of k3] by (auto simp: k)
  qed
qed

text \<open>
  Claim C10. A request of the client, however it ends, leaves no descriptor open and closes none of anybody else: not when the
  connection fails, not when the peer closes it, not after a timeout or a response. Before there is a socket it fails
  for the URL or the host.
\<close>

theorem request_closes:
  assumes "posix sys opens"
    and "DoRequest (socket_net sys look show' err w0) cast zl n h m url t headers body = Some (Inr (res, k))"
  shows "case k of
      None \<Rightarrow> hr_result res = INVALID_URL \<or> hr_result res = INVALID_HOST
    | Some (s, w) \<Rightarrow> sk_sock s = - 1 \<and> opens w = opens w0"
proof -
  consider (invalid) "uri_Create url = Inr None" | (uri) u where "uri_Create url = Inr (Some u)"
    using assms(2) by (cases "uri_Create url") (auto simp: DoRequest_def split: option.splits)
  then show ?thesis
  proof cases
    case invalid
    then show ?thesis using assms(2) by (auto simp: DoRequest_def failed_def)
  next
    case uri
    then have r: "DoRequest_req (socket_net sys look show' err w0) cast zl n h (client_request m u headers body) u t = Some (Inr (res, k))"
      using assms(2) by (simp add: DoRequest_def DoRequest_uri_def)
    show ?thesis
    proof (cases "look u")
      case None
      then show ?thesis using r by (auto simp: DoRequest_req_def failed_def socket_net_def)
    next
      case (Some a)
      then show ?thesis using request_holds [OF assms(1) Some r] by auto
    qed
  qed
qed

text \<open>A URI that is only a host.\<close>

definition host_uri :: uri where
  "host_uri = \<lparr>u_scheme = ''http'', u_userinfo = [], u_host = ''exhy.org'', u_path = ''/'', u_query = [], u_fragment = [], u_port = 0\<rparr>"

lemma host_uri_read: "uri_Create ''http://exhy.org/'' = Inr (Some host_uri)"
proof -
  have "plain_uri host_uri"
    by (simp add: plain_uri_def host_uri_def good_scheme_def good_name_def chars_def uri_path_char_def)
  from Create_toString [OF this] show ?thesis
    by (simp add: host_uri_def uri_toString_def uri_normal_def isDefaultPort_def uri_getPath_def)
qed

text \<open>A peer that can be connected to and takes nothing.\<close>

definition mute_sys :: "int list sys" where
  "mute_sys = sample_sys\<lparr>sys_send := (\<lambda>_ _ _ w. (- 1, w))\<rparr>"

lemma mute_posix: "posix mute_sys set"
  using sample_posix(1) by (simp add: posix_def mute_sys_def keeps_fds_def)

theorem request_closes_witness:
  "\<forall>zl h. \<exists>res s w. DoRequest
     (socket_net mute_sys (\<lambda>_. Some (IPv4Address (new_IPv4Address 0 80))) (\<lambda>_. []) (104, ''reset'') [7])
     (\<lambda>_. None) zl 100 h GET ''http://exhy.org/'' 1000 [] [] = Some (Inr (res, Some (s, w))) \<and>
   hr_result res = SEND_SOCKET_ERROR \<and> sk_sock s = - 1 \<and> set w = {7}"
proof (intro allI)
  fix zl :: "'z zlib" and h
  let ?a = "IPv4Address (new_IPv4Address 0 80)" and ?req = "client_request GET host_uri [] []"
  let ?net = "socket_net mute_sys (\<lambda>_. Some ?a) (\<lambda>_. []) (104, ''reset'') [7]"
  have fam: "getFamily ?a = 2" by code_simp
  obtain ok s1 w1 where c: "sock_connect mute_sys ?a (- 1) (CreateTCP ?a) [7] = (ok, s1, w1)" using prod_cases3 by blast
  then have ok: "ok" "sk_isConnected s1" unfolding sock_connect_def
    by (auto simp: mute_sys_def sample_sys_def CreateTCP_def new_Socket_def ensure_sock_def isValid_def newSock_def sample_new_def
        initSock_def setOption_def fam getRemoteAddress_def getLocalAddress_def)
  have nonempty: "dump_request ?req \<noteq> []" by (simp add: dump_request_def)
  have send: "sendRequest (\<lambda>k. sk_isConnected (fst k)) (client_send mute_sys) ?req \<lparr>m_socket = Some (s1, w), m_owner = True\<rparr> =
      Inr (- 1, \<lparr>m_socket = Some (s1, w), m_owner = True\<rparr>)" for w
    using nonempty ok(2) by (simp add: sendRequest_def writeFixSize_buf_def FixSize_def fix_loop.simps write_buf_step_def
        stream_write_def isConnected_def client_send_def sock_send_def mute_sys_def sample_sys_def to_int_def)
  obtain res k where r: "DoRequest ?net (\<lambda>_. None) zl 100 h GET ''http://exhy.org/'' 1000 [] [] = Some (Inr (res, Some k))"
      "hr_result res = SEND_SOCKET_ERROR"
    using ok(1) by (simp add: host_uri_read DoRequest_def DoRequest_uri_def DoRequest_req_def socket_net_def c exchange_def send failed_def
        delete_SocketStream_def)
  then show "\<exists>res s w. DoRequest ?net (\<lambda>_. None) zl 100 h GET ''http://exhy.org/'' 1000 [] [] = Some (Inr (res, Some (s, w))) \<and>
      hr_result res = SEND_SOCKET_ERROR \<and> sk_sock s = - 1 \<and> set w = {7}"
    using request_closes [OF mute_posix r(1)] by (cases k) auto
qed

end
