(* ===== verification/TcpServer.thy ===== *)
theory TcpServer
  imports SocketFacts
begin

text \<open>
  TcpServer (exhy/exhy_tcpserver.h, exhy_tcpserver.cpp). The server shares its listening sockets with the accept loops
  it schedules, so the Socket objects are named by their addresses; an object is deleted, which closes its
  descriptor, when nothing refers to it any more. The tasks given to the workers wait in lists until a worker runs
  them. An accept loop is cut at its iterations.
\<close>

section \<open>State\<close>

text \<open>\<open>AcceptOn\<close> runs startAccept for a socket, \<open>StopAll\<close> is the lambda of stop; the tasks of the I/O worker are clients.\<close>

datatype server_task = AcceptOn nat | StopAll

record 'w tcp_server =
  ts_socks :: "nat list"
  ts_recvTimeout :: u64
  ts_name :: string
  ts_type :: string
  ts_isStop :: bool
  ts_ssl :: bool
  ts_accept_tasks :: "server_task list"
  ts_loops :: "nat list"
  ts_clients :: "nat list"
  ts_objs :: "(nat \<times> socket) list"
  ts_w :: 'w

definition new_TcpServer :: "u64 \<Rightarrow> 'w \<Rightarrow> 'w tcp_server" where
  "new_TcpServer timeout w =
     \<lparr>ts_socks = [], ts_recvTimeout = timeout, ts_name = ''exhy/1.0.0'', ts_type = ''tcp'', ts_isStop = True, ts_ssl = False,
      ts_accept_tasks = [], ts_loops = [], ts_clients = [], ts_objs = [], ts_w = w\<rparr>"

section \<open>References\<close>

fun task_ref :: "server_task \<Rightarrow> nat list" where
  "task_ref (AcceptOn p) = [p]"
| "task_ref StopAll = []"

definition ts_refs :: "'w tcp_server \<Rightarrow> nat list" where
  "ts_refs st = ts_socks st @ concat (map task_ref (ts_accept_tasks st)) @ ts_loops st @ ts_clients st"

definition set_obj :: "nat \<Rightarrow> socket \<Rightarrow> 'w \<Rightarrow> 'w tcp_server \<Rightarrow> 'w tcp_server" where
  "set_obj p s w st = st\<lparr>ts_objs := map (\<lambda>(q, x). (q, if q = p then s else x)) (ts_objs st), ts_w := w\<rparr>"

text \<open>A reference to the object at \<open>p\<close> is gone.\<close>

definition drop_ref :: "'w sys \<Rightarrow> nat \<Rightarrow> 'w tcp_server \<Rightarrow> 'w tcp_server" where
  "drop_ref sys p st =
     (if p \<in> set (ts_refs st) then st
      else case map_of (ts_objs st) p of
             None \<Rightarrow> st
           | Some s \<Rightarrow> st\<lparr>ts_objs := filter (\<lambda>(q, _). q \<noteq> p) (ts_objs st), ts_w := delete_Socket sys s (ts_w st)\<rparr>)"

text \<open>\<open>m_socks.clear()\<close>.\<close>

definition clear_socks :: "'w sys \<Rightarrow> 'w tcp_server \<Rightarrow> 'w tcp_server" where
  "clear_socks sys st = fold (drop_ref sys) (ts_socks st) (st\<lparr>ts_socks := []\<rparr>)"

section \<open>bind\<close>

abbreviation (input) SOMAXCONN :: int where "SOMAXCONN \<equiv> 4096"

text \<open>One address; \<open>p\<close> is the address of the new Socket.\<close>

definition bind_one :: "'w sys \<Rightarrow> nat \<Rightarrow> address \<Rightarrow> 'w tcp_server \<Rightarrow> bool \<times> 'w tcp_server" where
  "bind_one sys p a st =
     (let (ok, s, w) = sock_bind sys a (CreateTCP a) (ts_w st)
      in if \<not> ok then (False, st\<lparr>ts_w := delete_Socket sys s w\<rparr>)
         else let (ok2, w2) = sock_listen sys SOMAXCONN s w
           in if \<not> ok2 then (False, st\<lparr>ts_w := delete_Socket sys s w2\<rparr>)
              else (True, st\<lparr>ts_socks := ts_socks st @ [p], ts_objs := (p, s) # ts_objs st, ts_w := w2\<rparr>))"

primrec bind_loop :: "'w sys \<Rightarrow> (nat \<times> address) list \<Rightarrow> address list \<Rightarrow> 'w tcp_server \<Rightarrow> address list \<times> 'w tcp_server" where
  "bind_loop sys [] fails st = (fails, st)"
| "bind_loop sys (pa # pas) fails st =
     (let (ok, st1) = bind_one sys (fst pa) (snd pa) st
      in bind_loop sys pas (if ok then fails else fails @ [snd pa]) st1)"

text \<open>The list of failures is the caller's, and any entry in it counts.\<close>

definition tcp_bind :: "'w sys \<Rightarrow> (nat \<times> address) list \<Rightarrow> address list \<Rightarrow> bool \<Rightarrow> 'w tcp_server \<Rightarrow> bool \<times> address list \<times> 'w tcp_server" where
  "tcp_bind sys addrs fails ssl st =
     (let (fails1, st1) = bind_loop sys addrs fails (st\<lparr>ts_ssl := ssl\<rparr>)
      in if fails1 \<noteq> [] then (False, fails1, clear_socks sys st1) else (True, fails1, st1))"

definition tcp_bind_one :: "'w sys \<Rightarrow> nat \<times> address \<Rightarrow> bool \<Rightarrow> 'w tcp_server \<Rightarrow> bool \<times> 'w tcp_server" where
  "tcp_bind_one sys pa ssl st = (let (ok, _, st1) = tcp_bind sys [pa] [] ssl st in (ok, st1))"

section \<open>start and stop\<close>

definition tcp_start :: "'w tcp_server \<Rightarrow> bool \<times> 'w tcp_server" where
  "tcp_start st =
     (if \<not> ts_isStop st then (True, st)
      else (True, st\<lparr>ts_isStop := False, ts_accept_tasks := ts_accept_tasks st @ map AcceptOn (ts_socks st)\<rparr>))"

definition tcp_stop :: "'w tcp_server \<Rightarrow> 'w tcp_server" where
  "tcp_stop st = st\<lparr>ts_isStop := True, ts_accept_tasks := ts_accept_tasks st @ [StopAll]\<rparr>"

text \<open>The lambda: cancelAll and close for every socket, then the vector is cleared.\<close>

definition stop_one :: "'w sys \<Rightarrow> nat \<Rightarrow> 'w tcp_server \<Rightarrow> 'w tcp_server res" where
  "stop_one sys p st =
     (case map_of (ts_objs st) p of
        None \<Rightarrow> Inl NullDeref
      | Some s \<Rightarrow> sbind (sock_cancelAll sys s (ts_w st))
          (\<lambda>(b, w). let (_, s1, w1) = sock_close sys s w in Inr (set_obj p s1 w1 st)))"

primrec stop_loop :: "'w sys \<Rightarrow> nat list \<Rightarrow> 'w tcp_server \<Rightarrow> 'w tcp_server res" where
  "stop_loop sys [] st = Inr st"
| "stop_loop sys (p # ps) st = sbind (stop_one sys p st) (stop_loop sys ps)"

definition run_stop :: "'w sys \<Rightarrow> 'w tcp_server \<Rightarrow> 'w tcp_server res" where
  "run_stop sys st = sbind (stop_loop sys (ts_socks st) st) (\<lambda>st1. Inr (clear_socks sys st1))"

section \<open>startAccept and handleClient\<close>

text \<open>
  One iteration for the socket at \<open>p\<close>: nothing when the loop has ended; else the state, with the client at the
  address \<open>q\<close> when accept gave one.
\<close>

definition accept_step :: "'w sys \<Rightarrow> nat \<Rightarrow> nat \<Rightarrow> 'w tcp_server \<Rightarrow> 'w tcp_server option res" where
  "accept_step sys p q st =
     (if ts_isStop st then Inr None
      else case map_of (ts_objs st) p of
             None \<Rightarrow> Inl NullDeref
           | Some s \<Rightarrow>
               (case sock_accept sys s (ts_w st) of
                  (None, w) \<Rightarrow> Inr (Some (st\<lparr>ts_w := w\<rparr>))
                | (Some c, w) \<Rightarrow>
                    Inr (Some (st\<lparr>ts_objs := (q, c) # ts_objs st, ts_clients := ts_clients st @ [q],
                                  ts_w := setRecvTimeout sys c (sint (ts_recvTimeout st)) w\<rparr>))))"

text \<open>The loop of a fiber that has ended drops its reference.\<close>

definition end_loop :: "'w sys \<Rightarrow> nat \<Rightarrow> 'w tcp_server \<Rightarrow> 'w tcp_server" where
  "end_loop sys p st = drop_ref sys p (st\<lparr>ts_loops := remove1 p (ts_loops st)\<rparr>)"

text \<open>\<open>handleClient\<close> of this class only logs; the client is then deleted with the task.\<close>

definition tcp_handleClient :: "'w sys \<Rightarrow> nat \<Rightarrow> 'w tcp_server \<Rightarrow> 'w tcp_server" where
  "tcp_handleClient sys q st = drop_ref sys q (st\<lparr>ts_clients := remove1 q (ts_clients st)\<rparr>)"

section \<open>Destructor and text\<close>

definition close_one :: "'w sys \<Rightarrow> nat \<Rightarrow> 'w tcp_server \<Rightarrow> 'w tcp_server" where
  "close_one sys p st =
     (case map_of (ts_objs st) p of
        None \<Rightarrow> st
      | Some s \<Rightarrow> (let (_, s1, w1) = sock_close sys s (ts_w st) in set_obj p s1 w1 st))"

definition delete_TcpServer :: "'w sys \<Rightarrow> 'w tcp_server \<Rightarrow> 'w tcp_server" where
  "delete_TcpServer sys st = clear_socks sys (fold (close_one sys) (ts_socks st) st)"

text \<open>\<open>worker\<close> and \<open>accept\<close> are the names of the workers, or nothing for a null pointer.\<close>

definition tcp_toString :: "string option \<Rightarrow> string option \<Rightarrow> string \<Rightarrow> 'w tcp_server \<Rightarrow> string res" where
  "tcp_toString worker accept' prefix' st =
     (let name = (\<lambda>x. case x of None \<Rightarrow> [] | Some n \<Rightarrow> n);
          pfx = (if prefix' = [] then ''    '' else prefix');
          head = prefix' @ ''[type='' @ ts_type st @ '' name='' @ ts_name st @ '' ssl='' @ (if ts_ssl st then ''1'' else ''0'') @
            '' worker='' @ name worker @ '' accept='' @ name accept' @ '' recv_timeout='' @ dec (unat (ts_recvTimeout st)) @ '']'' @
            [CHR 0x0A]
      in foldl (\<lambda>r p. sbind r (\<lambda>t. case map_of (ts_objs st) p of
             None \<Rightarrow> Inl NullDeref
           | Some s \<Rightarrow> sbind (sock_toString s) (\<lambda>x. Inr (t @ pfx @ pfx @ x @ [CHR 0x0A]))))
           (Inr head) (ts_socks st))"

end
