(* ===== verification/TcpServerFacts.thy ===== *)
theory TcpServerFacts
  imports TcpServer
begin

text \<open>
  The sockets of a server: the objects that are alive are those something refers to, their descriptors are the ones
  that are open beside those of others (\<open>srv_ok\<close>), and nothing stays open when the server has come to rest.
\<close>

section \<open>The invariant\<close>

text \<open>\<open>X\<close> are objects that may be left without a reference; \<open>R\<close> the descriptors of others.\<close>

definition srv_ok :: "('w \<Rightarrow> int set) \<Rightarrow> int set \<Rightarrow> nat set \<Rightarrow> 'w tcp_server \<Rightarrow> bool" where
  "srv_ok opens R X st \<longleftrightarrow> owned R (map snd (ts_objs st)) (opens (ts_w st)) \<and> distinct (map fst (ts_objs st)) \<and>
     set (ts_refs st) \<subseteq> fst ` set (ts_objs st) \<and> fst ` set (ts_objs st) \<subseteq> set (ts_refs st) \<union> X"

lemma srv_ok_new [simp]: "srv_ok opens (opens w) {} (new_TcpServer t w)"
  by (simp add: srv_ok_def new_TcpServer_def ts_refs_def)

lemma obj_split:
  assumes "map_of os p = Some s" "distinct (map fst os)"
  obtains xs ys where "os = xs @ (p, s) # ys" "p \<notin> fst ` set xs" "p \<notin> fst ` set ys"
proof -
  obtain xs ys where "os = xs @ (p, s) # ys" using map_of_SomeD [OF assms(1)] by (meson split_list)
  then show thesis using assms(2) that by auto
qed

lemma map_skip: "p \<notin> fst ` set os \<Longrightarrow> map (\<lambda>(q, x). (q, if q = p then s else x)) os = os"
  by (induction os) auto

lemma filter_skip: "p \<notin> fst ` set os \<Longrightarrow> filter (\<lambda>(q, x). q \<noteq> p) os = os"
  by (induction os) auto

lemma map_of_set:
  "map_of (map (\<lambda>(q, x). (q, if q = p then s else x)) os) q =
     (if q = p then map_option (\<lambda>_. s) (map_of os q) else map_of os q)"
  by (induction os) auto

lemma srv_obj:
  assumes "srv_ok opens R X st" "p \<in> set (ts_refs st)"
  shows "\<exists>s. map_of (ts_objs st) p = Some s"
  using assms by (metis (no_types, opaque_lifting) srv_ok_def map_of_eq_None_iff not_None_eq set_map subsetD)

text \<open>The object at \<open>p\<close> changes with the state outside.\<close>

lemma set_obj_ok:
  assumes "srv_ok opens R X st" "map_of (ts_objs st) p = Some s"
    and "\<And>Q. holds opens Q s (ts_w st) \<Longrightarrow> holds opens Q s' w'"
  shows "srv_ok opens R X (set_obj p s' w' st)"
proof -
  have d: "distinct (map fst (ts_objs st))" using assms(1) by (simp add: srv_ok_def)
  obtain xs ys where os: "ts_objs st = xs @ (p, s) # ys" "p \<notin> fst ` set xs" "p \<notin> fst ` set ys"
    using obj_split [OF assms(2) d] .
  then have os': "ts_objs (set_obj p s' w' st) = xs @ (p, s') # ys"
    by (simp add: set_obj_def map_skip)
  have refs: "ts_refs (set_obj p s' w' st) = ts_refs st" "ts_w (set_obj p s' w' st) = w'"
    by (simp_all add: set_obj_def ts_refs_def)
  have "owned R (map snd xs @ s # map snd ys) (opens (ts_w st))" using assms(1) os(1) by (simp add: srv_ok_def)
  then have "owned R (map snd xs @ s' # map snd ys) (opens w')" using assms(3) unfolding owned_holds by blast
  then show ?thesis using assms(1) os(1) by (auto simp: srv_ok_def os' refs)
qed

lemma drop_ref_ok:
  assumes px: "posix sys opens" and ok: "srv_ok opens R (insert p X) st"
  shows "srv_ok opens R X (drop_ref sys p st)"
proof (cases "p \<in> set (ts_refs st) \<or> map_of (ts_objs st) p = None")
  case True
  then have "p \<in> set (ts_refs st) \<or> p \<notin> fst ` set (ts_objs st)" by (auto simp: map_of_eq_None_iff)
  then have "srv_ok opens R X st" using ok unfolding srv_ok_def by blast
  moreover have "drop_ref sys p st = st" using True by (auto simp: drop_ref_def)
  ultimately show ?thesis by simp
next
  case False
  then obtain s where s: "map_of (ts_objs st) p = Some s" "p \<notin> set (ts_refs st)" by auto
  have d: "distinct (map fst (ts_objs st))" using ok by (simp add: srv_ok_def)
  obtain xs ys where os: "ts_objs st = xs @ (p, s) # ys" "p \<notin> fst ` set xs" "p \<notin> fst ` set ys"
    using obj_split [OF s(1) d] .
  let ?st = "drop_ref sys p st"
  have st': "ts_objs ?st = xs @ ys" "ts_w ?st = delete_Socket sys s (ts_w st)" "ts_refs ?st = ts_refs st"
    using s os by (simp_all add: drop_ref_def filter_skip ts_refs_def)
  have "owned R (map snd xs @ s # map snd ys) (opens (ts_w st))" using ok os(1) by (simp add: srv_ok_def)
  then have "owned R (map snd xs @ map snd ys) (opens (ts_w ?st))"
    using delete_Socket_opens [OF px] unfolding owned_holds st'(2) by metis
  then show ?thesis using ok os s(2) by (auto simp: srv_ok_def st')
qed

lemma drop_refs_ok:
  "posix sys opens \<Longrightarrow> srv_ok opens R (set ps \<union> X) st \<Longrightarrow> srv_ok opens R X (fold (drop_ref sys) ps st)"
proof (induction ps arbitrary: st)
  case (Cons p ps)
  have "srv_ok opens R (set ps \<union> X) (drop_ref sys p st)"
    by (rule drop_ref_ok [OF Cons.prems(1)]) (use Cons.prems(2) in simp)
  then show ?case using Cons by simp
qed simp

lemma clear_socks_ok:
  assumes "posix sys opens" "srv_ok opens R {} st"
  shows "srv_ok opens R {} (clear_socks sys st)"
proof -
  have "srv_ok opens R (set (ts_socks st) \<union> {}) (st\<lparr>ts_socks := []\<rparr>)"
    using assms(2) by (auto simp: srv_ok_def ts_refs_def)
  from drop_refs_ok [OF assms(1) this] show ?thesis by (simp add: clear_socks_def)
qed

text \<open>A new object that something refers to.\<close>

lemma new_obj_ok:
  assumes "srv_ok opens R {} st" "holds opens (opens (ts_w st)) s w'" "p \<notin> fst ` set (ts_objs st)"
    and "ts_objs st' = (p, s) # ts_objs st" "ts_w st' = w'" "set (ts_refs st') = insert p (set (ts_refs st))"
  shows "srv_ok opens R {} st'"
  using assms by (auto simp: srv_ok_def holds_def)

section \<open>The operations\<close>

lemma bind_one_ok:
  assumes px: "posix sys opens" and ok: "srv_ok opens R {} st" and p: "p \<notin> fst ` set (ts_objs st)"
    and b: "bind_one sys p a st = (r, st')"
  shows "srv_ok opens R {} st'" "fst ` set (ts_objs st') \<subseteq> insert p (fst ` set (ts_objs st))"
proof -
  obtain ok1 s w where bd: "sock_bind sys a (CreateTCP a) (ts_w st) = (ok1, s, w)" using prod_cases3 by blast
  have h: "holds opens (opens (ts_w st)) s w"
    using sock_bind_holds [OF px _ bd, of "opens (ts_w st)"] by (simp add: CreateTCP_def)
  obtain ok2 w2 where l: "sock_listen sys SOMAXCONN s w = (ok2, w2)" by fastforce
  have h2: "holds opens (opens (ts_w st)) s w2" using h sock_listen_opens [OF px l] by (simp add: holds_def)
  have del: "opens (delete_Socket sys s w) = opens (ts_w st)" "opens (delete_Socket sys s w2) = opens (ts_w st)"
    using delete_Socket_opens [OF px h] delete_Socket_opens [OF px h2] by simp_all
  define st2 where "st2 = st\<lparr>ts_socks := ts_socks st @ [p], ts_objs := (p, s) # ts_objs st, ts_w := w2\<rparr>"
  have new: "srv_ok opens R {} st2" by (rule new_obj_ok [OF ok h2 p]) (auto simp: st2_def ts_refs_def)
  have old: "srv_ok opens R {} (st\<lparr>ts_w := v\<rparr>)" if "opens v = opens (ts_w st)" for v
    using ok that by (simp add: srv_ok_def ts_refs_def)
  have st': "st' = (if \<not> ok1 then st\<lparr>ts_w := delete_Socket sys s w\<rparr> else if \<not> ok2 then st\<lparr>ts_w := delete_Socket sys s w2\<rparr> else st2)"
    using b by (auto simp: bind_one_def bd l st2_def split: if_splits)
  show "srv_ok opens R {} st'" using new old [OF del(1)] old [OF del(2)] by (simp add: st')
  show "fst ` set (ts_objs st') \<subseteq> insert p (fst ` set (ts_objs st))" by (auto simp: st' st2_def split: if_splits)
qed

lemma fresh_rest: "x \<notin> K \<Longrightarrow> K \<inter> M = {} \<Longrightarrow> N \<subseteq> insert x M \<Longrightarrow> K \<inter> N = {}"
  by blast

lemma bind_loop_ok:
  assumes "posix sys opens" "srv_ok opens R {} st" "distinct (map fst pas)" "fst ` set pas \<inter> fst ` set (ts_objs st) = {}"
    and "bind_loop sys pas fails st = (fs, st')"
  shows "srv_ok opens R {} st'"
  using assms(2-)
proof (induction pas arbitrary: fails st)
  case (Cons pa pas)
  obtain r st1 where b: "bind_one sys (fst pa) (snd pa) st = (r, st1)" by fastforce
  have fresh: "fst pa \<notin> fst ` set pas" "fst pa \<notin> fst ` set (ts_objs st)" "fst ` set pas \<inter> fst ` set (ts_objs st) = {}"
    using Cons.prems(2,3) by simp_all
  note ok = bind_one_ok [OF assms(1) Cons.prems(1) fresh(2) b]
  have "fst ` set pas \<inter> fst ` set (ts_objs st1) = {}" by (rule fresh_rest [OF fresh(1,3) ok(2)])
  moreover have "srv_ok opens R {} st1" using ok(1) .
  moreover have "distinct (map fst pas)" using Cons.prems(2) by simp
  moreover have "bind_loop sys pas (if r then fails else fails @ [snd pa]) st1 = (fs, st')" using Cons.prems(4) by (simp add: b)
  ultimately show ?case using Cons.IH by blast
qed simp

lemma tcp_bind_ok:
  assumes "posix sys opens" "srv_ok opens R {} st" "distinct (map fst pas)" "fst ` set pas \<inter> fst ` set (ts_objs st) = {}"
    and "tcp_bind sys pas fails ssl st = (b, fs, st')"
  shows "srv_ok opens R {} st'"
proof -
  obtain fs1 st1 where l: "bind_loop sys pas fails (st\<lparr>ts_ssl := ssl\<rparr>) = (fs1, st1)" by fastforce
  have "srv_ok opens R {} (st\<lparr>ts_ssl := ssl\<rparr>)" using assms(2) by (simp add: srv_ok_def ts_refs_def)
  from bind_loop_ok [OF assms(1) this assms(3) _ l] assms(4) have "srv_ok opens R {} st1" by simp
  then show ?thesis using assms(5) clear_socks_ok [OF assms(1)] by (auto simp: tcp_bind_def l split: if_splits)
qed

lemma stop_one_ok:
  assumes px: "posix sys opens" and ok: "srv_ok opens R {} st" and r: "stop_one sys p st = Inr st'"
  shows "srv_ok opens R {} st'" "ts_socks st' = ts_socks st" "\<exists>s. map_of (ts_objs st') p = Some s \<and> sk_sock s = - 1"
    and "map_of (ts_objs st') q = (if q = p then map_of (ts_objs st') p else map_of (ts_objs st) q)"
proof -
  obtain s b w where s: "map_of (ts_objs st) p = Some s" and c: "sys_cancelAll sys (sk_sock s) (ts_w st) = Inr (b, w)"
    using r by (auto simp: stop_one_def sock_cancelAll_def elim!: sbind_eq_InrE split: option.splits)
  obtain b2 s1 w1 where cl: "sock_close sys s w = (b2, s1, w1)" using prod_cases3 by blast
  have st': "st' = set_obj p s1 w1 st" using r by (simp add: stop_one_def sock_cancelAll_def s c cl)
  have "opens w = opens (ts_w st)" using px c unfolding posix_def by blast
  then have keeps: "holds opens Q s (ts_w st) \<Longrightarrow> holds opens Q s1 w1" for Q
    using sock_close_holds(3) [OF px _ cl] by (simp add: holds_def)
  show "srv_ok opens R {} st'" unfolding st' using set_obj_ok [OF ok s keeps] .
  show "ts_socks st' = ts_socks st" by (simp add: st' set_obj_def)
  have m: "map_of (ts_objs st') q = (if q = p then map_option (\<lambda>_. s1) (map_of (ts_objs st) q) else map_of (ts_objs st) q)" for q
    by (simp add: st' set_obj_def map_of_set)
  have "sk_sock s1 = - 1" using cl by (auto simp: sock_close_def Let_def split: if_splits)
  then show "\<exists>s. map_of (ts_objs st') p = Some s \<and> sk_sock s = - 1" using m [of p] s by simp
  show "map_of (ts_objs st') q = (if q = p then map_of (ts_objs st') p else map_of (ts_objs st) q)" using m by simp
qed

lemma stop_loop_ok:
  assumes "posix sys opens" "srv_ok opens R {} st" "stop_loop sys ps st = Inr st'"
  shows "srv_ok opens R {} st' \<and> ts_socks st' = ts_socks st"
  using assms(2,3)
proof (induction ps arbitrary: st)
  case (Cons p ps)
  then obtain st1 where 1: "stop_one sys p st = Inr st1" "stop_loop sys ps st1 = Inr st'" by (auto elim!: sbind_eq_InrE)
  then show ?case using Cons.IH [OF stop_one_ok(1) [OF assms(1) Cons.prems(1) 1(1)] 1(2)]
      stop_one_ok(2) [OF assms(1) Cons.prems(1) 1(1)] by simp
qed simp

lemma run_stop_ok:
  assumes "posix sys opens" "srv_ok opens R {} st" "run_stop sys st = Inr st'"
  shows "srv_ok opens R {} st'"
  using assms stop_loop_ok clear_socks_ok by (fastforce simp: run_stop_def elim!: sbind_eq_InrE)

lemma accept_step_ok:
  assumes px: "posix sys opens" and mg: "accepts_managed sys" and ok: "srv_ok opens R {} st"
    and q: "q \<notin> fst ` set (ts_objs st)" and r: "accept_step sys p q st = Inr (Some st')"
  shows "srv_ok opens R {} st'"
proof -
  obtain s where s: "map_of (ts_objs st) p = Some s"
    using r by (auto simp: accept_step_def split: if_splits option.splits)
  obtain c w where a: "sock_accept sys s (ts_w st) = (c, w)" by fastforce
  show ?thesis
  proof (cases c)
    case None
    then have "opens w = opens (ts_w st)" using sock_accept_holds(1) [OF px mg a] by simp
    moreover have "st' = st\<lparr>ts_w := w\<rparr>" using r None by (simp add: accept_step_def s a split: if_splits)
    ultimately show ?thesis using ok by (simp add: srv_ok_def ts_refs_def)
  next
    case (Some x)
    define w' where "w' = setRecvTimeout sys x (sint (ts_recvTimeout st)) w"
    have st': "st' = st\<lparr>ts_objs := (q, x) # ts_objs st, ts_clients := ts_clients st @ [q], ts_w := w'\<rparr>"
      using r Some by (simp add: accept_step_def s a w'_def split: if_splits)
    have "holds opens (opens (ts_w st)) x w" using sock_accept_holds(2) [OF px mg a Some] by simp
    then have h: "holds opens (opens (ts_w st)) x w'" using setTimeout_opens(1) [OF px] by (simp add: holds_def w'_def)
    show ?thesis by (rule new_obj_ok [OF ok h q]) (auto simp: st' ts_refs_def)
  qed
qed

section \<open>Histories\<close>

text \<open>
  The calls of the server's methods and the work of its workers, in any order; the addresses of new objects are not in
  use.
\<close>

inductive tcp_history :: "'w sys \<Rightarrow> u64 \<Rightarrow> 'w \<Rightarrow> 'w tcp_server \<Rightarrow> bool" for sys timeout w0 where
  tcp_new: "tcp_history sys timeout w0 (new_TcpServer timeout w0)"
| tcp_binds: "tcp_history sys timeout w0 st \<Longrightarrow> distinct (map fst pas) \<Longrightarrow> fst ` set pas \<inter> fst ` set (ts_objs st) = {} \<Longrightarrow>
    tcp_bind sys pas fails ssl st = (b, fs, st') \<Longrightarrow> tcp_history sys timeout w0 st'"
| tcp_starts: "tcp_history sys timeout w0 st \<Longrightarrow> tcp_start st = (b, st') \<Longrightarrow> tcp_history sys timeout w0 st'"
| tcp_stops: "tcp_history sys timeout w0 st \<Longrightarrow> tcp_history sys timeout w0 (tcp_stop st)"
| tcp_loop_begins: "tcp_history sys timeout w0 st \<Longrightarrow> ts_accept_tasks st = xs @ AcceptOn p # ys \<Longrightarrow>
    tcp_history sys timeout w0 (st\<lparr>ts_accept_tasks := xs @ ys, ts_loops := ts_loops st @ [p]\<rparr>)"
| tcp_accepts: "tcp_history sys timeout w0 st \<Longrightarrow> p \<in> set (ts_loops st) \<Longrightarrow> q \<notin> fst ` set (ts_objs st) \<Longrightarrow>
    accept_step sys p q st = Inr (Some st') \<Longrightarrow> tcp_history sys timeout w0 st'"
| tcp_loop_ends: "tcp_history sys timeout w0 st \<Longrightarrow> p \<in> set (ts_loops st) \<Longrightarrow> accept_step sys p q st = Inr None \<Longrightarrow>
    tcp_history sys timeout w0 (end_loop sys p st)"
| tcp_stopped: "tcp_history sys timeout w0 st \<Longrightarrow> ts_accept_tasks st = xs @ StopAll # ys \<Longrightarrow>
    run_stop sys (st\<lparr>ts_accept_tasks := xs @ ys\<rparr>) = Inr st' \<Longrightarrow> tcp_history sys timeout w0 st'"
| tcp_client: "tcp_history sys timeout w0 st \<Longrightarrow> q \<in> set (ts_clients st) \<Longrightarrow>
    tcp_history sys timeout w0 (tcp_handleClient sys q st)"

lemma refs_only:
  "srv_ok opens R {} st \<Longrightarrow> ts_objs st' = ts_objs st \<Longrightarrow> ts_w st' = ts_w st \<Longrightarrow> set (ts_refs st') = set (ts_refs st) \<Longrightarrow>
     srv_ok opens R {} st'"
  by (simp add: srv_ok_def)

text \<open>A reference to \<open>p\<close> is taken away.\<close>

lemma refs_less:
  assumes "srv_ok opens R {} st" "ts_objs st' = ts_objs st" "ts_w st' = ts_w st"
    and "set (ts_refs st') \<subseteq> set (ts_refs st)" "set (ts_refs st) \<subseteq> insert p (set (ts_refs st'))"
  shows "srv_ok opens R {p} st'"
  using assms by (auto simp: srv_ok_def)

lemma set_remove1_insert: "set xs \<subseteq> insert p (set (remove1 p xs))" "set (remove1 p xs) \<subseteq> set xs"
  by (induction xs) auto

lemma end_loop_ok:
  assumes "posix sys opens" "srv_ok opens R {} st"
  shows "srv_ok opens R {} (end_loop sys p st)"
  unfolding end_loop_def
  by (rule drop_ref_ok [OF assms(1)], rule refs_less [OF assms(2)])
    (use set_remove1_insert [where xs = "ts_loops st" and p = p] in \<open>auto simp: ts_refs_def\<close>)

lemma handleClient_ok:
  assumes "posix sys opens" "srv_ok opens R {} st"
  shows "srv_ok opens R {} (tcp_handleClient sys q st)"
  unfolding tcp_handleClient_def
  by (rule drop_ref_ok [OF assms(1)], rule refs_less [OF assms(2)])
    (use set_remove1_insert [where xs = "ts_clients st" and p = q] in \<open>auto simp: ts_refs_def\<close>)

lemma history_ok:
  assumes px: "posix sys opens" and mg: "accepts_managed sys" and h: "tcp_history sys timeout w0 st"
  shows "srv_ok opens (opens w0) {} st"
  using h
proof induction
  case tcp_new
  then show ?case by simp
next
  case (tcp_binds st pas fails ssl b fs st')
  then show ?case by (intro tcp_bind_ok [OF px tcp_binds.IH tcp_binds.hyps(2-4)])
next
  case (tcp_starts st b st')
  have "concat (map (task_ref \<circ> AcceptOn) ps) = ps" for ps by (induction ps) auto
  then have "set (ts_refs st') = set (ts_refs st)" "ts_objs st' = ts_objs st" "ts_w st' = ts_w st"
    using tcp_starts.hyps(2) by (auto simp: tcp_start_def ts_refs_def split: if_splits)
  then show ?case using refs_only [OF tcp_starts.IH] by blast
next
  case (tcp_stops st)
  then show ?case by (auto intro!: refs_only [OF tcp_stops.IH] simp: tcp_stop_def ts_refs_def)
next
  case (tcp_loop_begins st xs p ys)
  then show ?case by (auto intro!: refs_only [OF tcp_loop_begins.IH] simp: ts_refs_def)
next
  case (tcp_accepts st p q st')
  then show ?case by (intro accept_step_ok [OF px mg tcp_accepts.IH tcp_accepts.hyps(3,4)])
next
  case (tcp_loop_ends st p q)
  then show ?case using end_loop_ok [OF px] by blast
next
  case (tcp_stopped st xs ys st')
  have "srv_ok opens (opens w0) {} (st\<lparr>ts_accept_tasks := xs @ ys\<rparr>)"
    by (rule refs_only [OF tcp_stopped.IH]) (use tcp_stopped.hyps in \<open>auto simp: ts_refs_def\<close>)
  then show ?case using run_stop_ok [OF px] tcp_stopped.hyps by blast
next
  case (tcp_client st q)
  then show ?case using handleClient_ok [OF px] by blast
qed



section \<open>stop\<close>

lemma stop_one_closed:
  assumes "stop_one sys p st = Inr st'"
  shows "\<exists>s. map_of (ts_objs st') p = Some s \<and> sk_sock s = - 1" "ts_isStop st' = ts_isStop st"
    "map_of (ts_objs st) q = Some s1 \<Longrightarrow> sk_sock s1 = - 1 \<Longrightarrow> \<exists>s2. map_of (ts_objs st') q = Some s2 \<and> sk_sock s2 = - 1"
proof -
  obtain s b w where s: "map_of (ts_objs st) p = Some s" and c: "sys_cancelAll sys (sk_sock s) (ts_w st) = Inr (b, w)"
    using assms by (auto simp: stop_one_def sock_cancelAll_def elim!: sbind_eq_InrE split: option.splits)
  obtain b2 s2 w1 where cl: "sock_close sys s w = (b2, s2, w1)" using prod_cases3 by blast
  have st': "st' = set_obj p s2 w1 st" using assms by (simp add: stop_one_def sock_cancelAll_def s c cl)
  have "sk_sock s2 = - 1" using cl by (auto simp: sock_close_def Let_def split: if_splits)
  then show "\<exists>s. map_of (ts_objs st') p = Some s \<and> sk_sock s = - 1" "ts_isStop st' = ts_isStop st"
    "map_of (ts_objs st) q = Some s1 \<Longrightarrow> sk_sock s1 = - 1 \<Longrightarrow> \<exists>s2. map_of (ts_objs st') q = Some s2 \<and> sk_sock s2 = - 1"
    using s by (auto simp: st' set_obj_def map_of_set)
qed

lemma stop_loop_closed:
  assumes "stop_loop sys ps st = Inr st'"
    and "q \<in> set ps \<or> (\<exists>s. map_of (ts_objs st) q = Some s \<and> sk_sock s = - 1)"
  shows "\<exists>s. map_of (ts_objs st') q = Some s \<and> sk_sock s = - 1"
  using assms
proof (induction ps arbitrary: st)
  case (Cons p ps)
  then obtain st1 where 1: "stop_one sys p st = Inr st1" "stop_loop sys ps st1 = Inr st'" by (auto elim!: sbind_eq_InrE)
  then show ?case using Cons.IH [OF 1(2)] Cons.prems(2) stop_one_closed(1,3) [OF 1(1)] by auto
qed simp

lemma stop_loop_flag: "stop_loop sys ps st = Inr st' \<Longrightarrow> ts_isStop st' = ts_isStop st"
  by (induction ps arbitrary: st) (auto elim!: sbind_eq_InrE dest!: stop_one_closed(2))

lemma drop_ref_kept:
  "ts_isStop (drop_ref sys p st) = ts_isStop st" "ts_socks (drop_ref sys p st) = ts_socks st"
  "map_of (ts_objs (drop_ref sys p st)) q = Some s \<Longrightarrow> map_of (ts_objs st) q = Some s"
proof -
  have "map_of (filter (\<lambda>(q, _). q \<noteq> p) os) q = (if q = p then None else map_of os q)" for os :: "(nat \<times> socket) list"
    by (induction os) auto
  then show "map_of (ts_objs (drop_ref sys p st)) q = Some s \<Longrightarrow> map_of (ts_objs st) q = Some s"
    by (auto simp: drop_ref_def split: if_splits option.splits)
qed (auto simp: drop_ref_def split: option.split)

lemma drop_refs_kept:
  "ts_isStop (fold (drop_ref sys) ps st) = ts_isStop st \<and> ts_socks (fold (drop_ref sys) ps st) = ts_socks st \<and>
   (map_of (ts_objs (fold (drop_ref sys) ps st)) q = Some s \<longrightarrow> map_of (ts_objs st) q = Some s)"
proof (induction ps arbitrary: st)
  case (Cons p ps)
  show ?case using Cons [of "drop_ref sys p st"] drop_ref_kept [of sys p st] by auto
qed simp


text \<open>A server that listens on one socket, whose accept loop runs; accept fails without a descriptor.\<close>

definition deaf_sys :: "int list sys" where
  "deaf_sys = sample_sys\<lparr>sys_accept := (\<lambda>fd w. if fd = - 1 then (- 1, w) else sample_new w)\<rparr>"

definition one_loop :: "bool \<Rightarrow> int list tcp_server" where
  "one_loop b = (new_TcpServer 0 [8, 7])\<lparr>ts_socks := [1], ts_loops := [1], ts_isStop := b,
     ts_objs := [(1, (new_Socket 2 1 0)\<lparr>sk_sock := 8\<rparr>)]\<rparr>"


end
